(* ===== verification/Prelude.thy ===== *)
theory Prelude
  imports Main "HOL-Library.Finite_Map" "HOL-Library.Sublist" "HOL-Library.List_Lexorder" "HOL-Library.Char_ord"
begin

text \<open>
  What every component of the development shares: the way a Go function of the operator is
  turned into a HOL function (results, errors, panics, the calls it makes), the reasoning
  rules for such functions, and the Go standard-library routines on strings, slices and
  32-bit integers that the source uses.
\<close>

named_theorems run_simps \<open>how the building blocks of a modelled function run\<close>
named_theorems steps_intros \<open>compositional rules for step relations\<close>

section \<open>Errors and outcomes\<close>

text \<open>
  An error is what the code can tell apart: the API-server classifications it tests with
  \<open>IsNotFound\<close>, \<open>IsAlreadyExists\<close> and \<open>IsNoMatchError\<close>, any other error with its text, and
  an error wrapped by \<open>fmt.Errorf\<close> with \<open>%w\<close> (the classifications see through the wrapping).
  A call ends by returning, with an error, or by a panic (a nil dereference).
\<close>

datatype err = NotFound | AlreadyExists | NoMatch | OtherErr string | Wrapped string err

fun IsNotFound :: "err \<Rightarrow> bool" where
  "IsNotFound NotFound = True"
| "IsNotFound (Wrapped _ e) = IsNotFound e"
| "IsNotFound _ = False"

fun IsAlreadyExists :: "err \<Rightarrow> bool" where
  "IsAlreadyExists AlreadyExists = True"
| "IsAlreadyExists (Wrapped _ e) = IsAlreadyExists e"
| "IsAlreadyExists _ = False"

fun IsNoMatchError :: "err \<Rightarrow> bool" where
  "IsNoMatchError NoMatch = True"
| "IsNoMatchError (Wrapped _ e) = IsNoMatchError e"
| "IsNoMatchError _ = False"

datatype 'a outcome = Ret 'a | Err err | Panic

lemma outcome_case_distrib [run_simps]:
  "h (case r of Ret a \<Rightarrow> f a | Err e \<Rightarrow> g e | Panic \<Rightarrow> p)
     = (case r of Ret a \<Rightarrow> h (f a) | Err e \<Rightarrow> h (g e) | Panic \<Rightarrow> h p)"
  by (cases r) auto

section \<open>Functions with effects\<close>

text \<open>
  A function of the operator that talks to the outside runs in an environment \<open>'e\<close> (what
  answers its calls) and a state \<open>'s\<close> (the objects it mutates and the calls it has made).
\<close>

type_synonym ('e, 's, 'a) M = "'e \<Rightarrow> 's \<Rightarrow> 'a outcome \<times> 's"

definition ret :: "'a \<Rightarrow> ('e, 's, 'a) M" where
  "ret a = (\<lambda>E s. (Ret a, s))"

definition throw :: "err \<Rightarrow> ('e, 's, 'a) M" where
  "throw e = (\<lambda>E s. (Err e, s))"

definition panic :: "('e, 's, 'a) M" where
  "panic = (\<lambda>E s. (Panic, s))"

definition bind :: "('e, 's, 'a) M \<Rightarrow> ('a \<Rightarrow> ('e, 's, 'b) M) \<Rightarrow> ('e, 's, 'b) M" where
  "bind m f = (\<lambda>E s. case m E s of (r, s') \<Rightarrow>
     (case r of Ret a \<Rightarrow> f a E s' | Err e \<Rightarrow> (Err e, s') | Panic \<Rightarrow> (Panic, s')))"

text \<open>The caller looks at the error itself: \<open>x, err := f()\<close> without an immediate return.\<close>

definition attempt :: "('e, 's, 'a) M \<Rightarrow> ('e, 's, err + 'a) M" where
  "attempt m = (\<lambda>E s. case m E s of (r, s') \<Rightarrow>
     (case r of Ret a \<Rightarrow> (Ret (Inr a), s') | Err e \<Rightarrow> (Ret (Inl e), s') | Panic \<Rightarrow> (Panic, s')))"

definition asks :: "('e \<Rightarrow> 'a) \<Rightarrow> ('e, 's, 'a) M" where
  "asks f = (\<lambda>E s. (Ret (f E), s))"

definition gets :: "('s \<Rightarrow> 'a) \<Rightarrow> ('e, 's, 'a) M" where
  "gets f = (\<lambda>E s. (Ret (f s), s))"

definition modify :: "('s \<Rightarrow> 's) \<Rightarrow> ('e, 's, unit) M" where
  "modify f = (\<lambda>E s. (Ret (), f s))"

text \<open>A pointer dereference: a nil pointer panics.\<close>

definition deref :: "'a option \<Rightarrow> ('e, 's, 'a) M" where
  "deref x = (case x of None \<Rightarrow> panic | Some a \<Rightarrow> ret a)"

definition of_sum :: "err + 'a \<Rightarrow> ('e, 's, 'a) M" where
  "of_sum x = (case x of Inl e \<Rightarrow> throw e | Inr a \<Rightarrow> ret a)"

text \<open>A \<open>range\<close> loop whose body returns on the first error.\<close>

fun for_each :: "'a list \<Rightarrow> ('a \<Rightarrow> ('e, 's, unit) M) \<Rightarrow> ('e, 's, unit) M" where
  "for_each [] f = ret ()"
| "for_each (x # xs) f = bind (f x) (\<lambda>_. for_each xs f)"

lemma run_ret [run_simps]: "ret a E s = (Ret a, s)"
  by (simp add: ret_def)

lemma run_throw [run_simps]: "throw e E s = (Err e, s)"
  by (simp add: throw_def)

lemma run_panic [run_simps]: "panic E s = (Panic, s)"
  by (simp add: panic_def)

lemma run_bind [run_simps]:
  "bind m f E s = (case m E s of (r, s') \<Rightarrow>
     (case r of Ret a \<Rightarrow> f a E s' | Err e \<Rightarrow> (Err e, s') | Panic \<Rightarrow> (Panic, s')))"
  by (simp add: bind_def)

lemma run_attempt [run_simps]:
  "attempt m E s = (case m E s of (r, s') \<Rightarrow>
     (case r of Ret a \<Rightarrow> (Ret (Inr a), s') | Err e \<Rightarrow> (Ret (Inl e), s') | Panic \<Rightarrow> (Panic, s')))"
  by (simp add: attempt_def)

lemma run_asks [run_simps]: "asks f E s = (Ret (f E), s)"
  by (simp add: asks_def)

lemma run_gets [run_simps]: "gets f E s = (Ret (f s), s)"
  by (simp add: gets_def)

lemma run_modify [run_simps]: "modify f E s = (Ret (), f s)"
  by (simp add: modify_def)

lemma run_deref [run_simps]:
  "deref x E s = (case x of None \<Rightarrow> (Panic, s) | Some a \<Rightarrow> (Ret a, s))"
  by (simp add: deref_def run_simps split: option.split)

lemma run_of_sum [run_simps]:
  "of_sum x E s = (case x of Inl e \<Rightarrow> (Err e, s) | Inr a \<Rightarrow> (Ret a, s))"
  by (simp add: of_sum_def run_simps split: sum.split)

lemma bind_ret_left [simp]: "bind (ret a) f = f a"
  by (simp add: bind_def ret_def)

lemma bind_assoc: "bind (bind m f) g = bind m (\<lambda>x. bind (f x) g)"
  by (auto simp: bind_def fun_eq_iff split: prod.splits outcome.splits)

lemma bind_RetE:
  assumes "bind m f E s = (Ret b, s')"
  obtains a s1 where "m E s = (Ret a, s1)" and "f a E s1 = (Ret b, s')"
  using assms by (auto simp: bind_def split: prod.splits outcome.splits)

text \<open>
  A function whose parts are run one after the other: \<open>AnyFunc\<close> of
  \<^verbatim>\<open>internal/resources/aistore/cmn/utils.go\<close> panics on an empty list, stops at the first
  error and otherwise reports whether any part returned true.
\<close>

fun any_loop :: "bool \<Rightarrow> ('e, 's, bool) M list \<Rightarrow> ('e, 's, bool) M" where
  "any_loop acc [] = ret acc"
| "any_loop acc (f # fs) = bind f (\<lambda>val. any_loop (acc \<or> val) fs)"

definition AnyFunc :: "('e, 's, bool) M list \<Rightarrow> ('e, 's, bool) M" where
  "AnyFunc funcs = (if funcs = [] then panic else any_loop False funcs)"

section \<open>Step relations: what a run may do to the state\<close>

text \<open>
  \<open>steps E R m\<close>: running \<open>m\<close> in the environment \<open>E\<close> relates the state before to the state after,
  however it ends. For a reflexive and transitive \<open>R\<close> it is established part by part; the
  locale states that contract once, its instances are the relations of the components.
\<close>

definition steps :: "'e \<Rightarrow> ('s \<Rightarrow> 's \<Rightarrow> bool) \<Rightarrow> ('e, 's, 'a) M \<Rightarrow> bool" where
  "steps E R m \<longleftrightarrow> (\<forall>s. R s (snd (m E s)))"

lemma stepsI: "(\<And>s. R s (snd (m E s))) \<Longrightarrow> steps E R m"
  by (simp add: steps_def)

lemma stepsD: "steps E R m \<Longrightarrow> m E s = (r, s') \<Longrightarrow> R s s'"
  by (metis snd_conv steps_def)

lemma steps_weaken: "steps E R m \<Longrightarrow> (\<And>s s'. R s s' \<Longrightarrow> R' s s') \<Longrightarrow> steps E R' m"
  by (simp add: steps_def)

lemma steps_if [steps_intros]:
  "(c \<Longrightarrow> steps E R a) \<Longrightarrow> (\<not> c \<Longrightarrow> steps E R b) \<Longrightarrow> steps E R (if c then a else b)"
  by simp

lemma steps_option [steps_intros]:
  "(x = None \<Longrightarrow> steps E R a) \<Longrightarrow> (\<And>y. x = Some y \<Longrightarrow> steps E R (b y))
     \<Longrightarrow> steps E R (case x of None \<Rightarrow> a | Some y \<Rightarrow> b y)"
  by (cases x) auto

lemma steps_sum [steps_intros]:
  "(\<And>e. x = Inl e \<Longrightarrow> steps E R (a e)) \<Longrightarrow> (\<And>y. x = Inr y \<Longrightarrow> steps E R (b y))
     \<Longrightarrow> steps E R (case x of Inl e \<Rightarrow> a e | Inr y \<Rightarrow> b y)"
  by (cases x) auto

lemma steps_prod [steps_intros]:
  "(\<And>a b. x = (a, b) \<Longrightarrow> steps E R (f a b)) \<Longrightarrow> steps E R (case x of (a, b) \<Rightarrow> f a b)"
  by (cases x) auto

lemma steps_let [steps_intros]: "steps E R (f x) \<Longrightarrow> steps E R (Let x f)"
  by simp

locale step_rel =
  fixes R :: "'s \<Rightarrow> 's \<Rightarrow> bool"
  assumes refl: "R s s"
    and trans: "R s t \<Longrightarrow> R t u \<Longrightarrow> R s u"
begin

lemma steps_ret: "steps E R (ret a)"
  by (simp add: steps_def run_simps refl)

lemma steps_throw: "steps E R (throw e)"
  by (simp add: steps_def run_simps refl)

lemma steps_panic: "steps E R panic"
  by (simp add: steps_def run_simps refl)

lemma steps_asks: "steps E R (asks f)"
  by (simp add: steps_def run_simps refl)

lemma steps_gets: "steps E R (gets f)"
  by (simp add: steps_def run_simps refl)

lemma steps_deref: "steps E R (deref x)"
  by (simp add: steps_def run_simps refl split: option.split)

lemma steps_of_sum: "steps E R (of_sum x)"
  by (simp add: steps_def run_simps refl split: sum.split)

text \<open>The second part may use that the first one returned its value, in some run.\<close>

lemma steps_bind_ctx:
  assumes "steps E R m" and "\<And>a s s'. m E s = (Ret a, s') \<Longrightarrow> steps E R (f a)"
  shows "steps E R (bind m f)"
proof (rule stepsI)
  fix s
  obtain r s1 where m: "m E s = (r, s1)" by (cases "m E s")
  from stepsD [OF assms(1) m] have 1: "R s s1" .
  show "R s (snd (bind m f E s))"
  proof (cases r)
    case (Ret a)
    obtain r2 s2 where f: "f a E s1 = (r2, s2)" by (cases "f a E s1")
    from stepsD [OF assms(2) [OF m [unfolded Ret]] f] have "R s1 s2" .
    with 1 m Ret f show ?thesis by (auto simp: run_simps intro: trans)
  qed (use 1 m in \<open>auto simp: run_simps\<close>)
qed

lemma steps_bind: "steps E R m \<Longrightarrow> (\<And>a. steps E R (f a)) \<Longrightarrow> steps E R (bind m f)"
  by (rule steps_bind_ctx)

lemma steps_attempt: "steps E R m \<Longrightarrow> steps E R (attempt m)"
  by (auto simp: steps_def run_simps split: prod.split outcome.split) (metis snd_conv)+

lemma steps_for_each: "(\<And>x. x \<in> set xs \<Longrightarrow> steps E R (f x)) \<Longrightarrow> steps E R (for_each xs f)"
  by (induction xs) (auto intro: steps_ret steps_bind)

lemma steps_any_loop: "(\<And>f. f \<in> set fs \<Longrightarrow> steps E R f) \<Longrightarrow> steps E R (any_loop acc fs)"
  by (induction fs arbitrary: acc) (auto intro: steps_ret steps_bind)

lemma steps_AnyFunc: "(\<And>f. f \<in> set fs \<Longrightarrow> steps E R f) \<Longrightarrow> steps E R (AnyFunc fs)"
  by (auto simp: AnyFunc_def intro: steps_any_loop steps_panic)

lemmas steps_base =
  steps_ret steps_throw steps_panic steps_asks steps_gets steps_deref steps_of_sum
  steps_bind steps_attempt steps_for_each steps_AnyFunc

end

section \<open>String maps\<close>

text \<open>Go's \<open>map[string]string\<close>: labels, annotations, selectors.\<close>

type_synonym string_map = "(string, string) fmap"

section \<open>32-bit integers\<close>

text \<open>
  Go's \<open>int32\<close> is kept as an \<open>int\<close>; arithmetic that can leave the range is followed by
  \<open>wrap32\<close>, two's-complement wrap-around.
\<close>

type_synonym int32 = int

definition wrap32 :: "int \<Rightarrow> int32" where
  "wrap32 x = (x + 2 ^ 31) mod 2 ^ 32 - 2 ^ 31"

definition is_int32 :: "int \<Rightarrow> bool" where
  "is_int32 x \<longleftrightarrow> - (2 ^ 31) \<le> x \<and> x < 2 ^ 31"

lemma wrap32_range: "is_int32 (wrap32 x)"
  by (simp add: wrap32_def is_int32_def)

lemma wrap32_id [simp]: "is_int32 x \<Longrightarrow> wrap32 x = x"
  by (simp add: wrap32_def is_int32_def)

lemma is_int32_diff: "is_int32 a \<Longrightarrow> 0 \<le> b \<Longrightarrow> b \<le> a \<Longrightarrow> is_int32 (a - b)"
  by (simp add: is_int32_def)

section \<open>Strings\<close>

text \<open>\<open>strings.HasPrefix\<close>, \<open>HasSuffix\<close>, \<open>TrimSuffix\<close>, \<open>ReplaceAll\<close> of a one-character
  pattern, and the decimal notation of \<open>fmt.Sprintf("%d")\<close>.\<close>

abbreviation HasPrefix :: "string \<Rightarrow> string \<Rightarrow> bool" where
  "HasPrefix s p \<equiv> prefix p s"

abbreviation HasSuffix :: "string \<Rightarrow> string \<Rightarrow> bool" where
  "HasSuffix s p \<equiv> suffix p s"

definition TrimSuffix :: "string \<Rightarrow> string \<Rightarrow> string" where
  "TrimSuffix s p = (if suffix p s then take (length s - length p) s else s)"

definition ReplaceAll :: "string \<Rightarrow> char \<Rightarrow> char \<Rightarrow> string" where
  "ReplaceAll s a b = map (\<lambda>c. if c = a then b else c) s"

lemma TrimSuffix_append [simp]: "TrimSuffix (s @ p) p = s"
  by (auto simp: TrimSuffix_def suffix_def)

fun show_nat :: "nat \<Rightarrow> string" where
  "show_nat n = (if n < 10 then [char_of (48 + n)] else show_nat (n div 10) @ [char_of (48 + n mod 10)])"

declare show_nat.simps [simp del]

definition show_int :: "int \<Rightarrow> string" where
  "show_int i = (if i < 0 then CHR ''-'' # show_nat (nat (- i)) else show_nat (nat i))"

lemma digit_inj:
  assumes "(char_of (48 + a) :: char) = char_of (48 + b)" and "a < (10 :: nat)" and "b < 10"
  shows "a = b"
proof -
  have "of_char (char_of (48 + a) :: char) = (of_char (char_of (48 + b) :: char) :: nat)"
    using assms(1) by simp
  with assms(2,3) show ?thesis by (simp add: take_bit_eq_mod)
qed

lemma digit_no_mark:
  assumes "a < (10 :: nat)"
  shows "(char_of (48 + a) :: char) \<noteq> CHR ''.''" and "(char_of (48 + a) :: char) \<noteq> CHR ''-''"
proof -
  have v: "of_char (char_of (48 + a) :: char) = 48 + a"
    using assms by (simp add: take_bit_eq_mod)
  show "(char_of (48 + a) :: char) \<noteq> CHR ''.''"
  proof
    assume "(char_of (48 + a) :: char) = CHR ''.''"
    then have "of_char (char_of (48 + a) :: char) = (of_char (CHR ''.'') :: nat)" by simp
    with v show False by simp
  qed
  show "(char_of (48 + a) :: char) \<noteq> CHR ''-''"
  proof
    assume "(char_of (48 + a) :: char) = CHR ''-''"
    then have "of_char (char_of (48 + a) :: char) = (of_char (CHR ''-'') :: nat)" by simp
    with v show False by simp
  qed
qed

lemma show_nat_nonempty [simp]: "show_nat n \<noteq> []"
  by (subst show_nat.simps) simp

lemma show_nat_chars: "CHR ''.'' \<notin> set (show_nat n) \<and> CHR ''-'' \<notin> set (show_nat n)"
proof (induction n rule: show_nat.induct)
  case (1 n)
  show ?case
  proof (cases "n < 10")
    case True
    then show ?thesis using digit_no_mark [of n] by (subst (1 2) show_nat.simps) auto
  next
    case False
    have "n mod 10 < 10" by simp
    from digit_no_mark [OF this] "1.IH" False show ?thesis
      by (subst (1 2) show_nat.simps) auto
  qed
qed

lemma show_nat_inj: "show_nat m = show_nat n \<Longrightarrow> m = n"
proof (induction m arbitrary: n rule: show_nat.induct)
  case (1 m)
  have rec: "show_nat k = (if k < 10 then [char_of (48 + k)]
     else show_nat (k div 10) @ [char_of (48 + k mod 10)])" for k
    by (rule show_nat.simps)
  consider "m < 10" "n < 10" | "m < 10" "\<not> n < 10" | "\<not> m < 10" "n < 10" | "\<not> m < 10" "\<not> n < 10"
    by blast
  then show ?case
  proof cases
    case 1
    then show ?thesis using "1.prems" rec [of m] rec [of n] digit_inj [of m n] by auto
  next
    case 2
    then show ?thesis using "1.prems" rec [of m] rec [of n] by (auto simp: Cons_eq_append_conv)
  next
    case 3
    then show ?thesis using "1.prems" rec [of m] rec [of n] by (auto simp: append_eq_Cons_conv)
  next
    case 4
    then have "show_nat (m div 10) = show_nat (n div 10)"
      and l: "(char_of (48 + m mod 10) :: char) = char_of (48 + n mod 10)"
      using "1.prems" rec [of m] rec [of n] by auto
    then have "m div 10 = n div 10" using "1.IH" 4 by blast
    moreover have "m mod 10 = n mod 10" by (rule digit_inj [OF l]) simp_all
    ultimately show ?thesis by (metis div_mod_decomp)
  qed
qed

lemma show_int_inj: "show_int i = show_int j \<Longrightarrow> i = j"
proof -
  assume eq: "show_int i = show_int j"
  have "hd (show_nat k) \<noteq> CHR ''-''" for k
    using show_nat_chars [of k] hd_in_set [OF show_nat_nonempty] by metis
  then have sgn: "(i < 0) = (j < 0)"
    using eq by (auto simp: show_int_def split: if_splits) (metis list.sel(1))+
  then have "nat (if i < 0 then - i else i) = nat (if j < 0 then - j else j)"
    using eq by (auto simp: show_int_def split: if_splits dest: show_nat_inj)
  with sgn show ?thesis by (auto split: if_splits)
qed

lemma show_int_no_dot: "CHR ''.'' \<notin> set (show_int i)"
  using show_nat_chars by (simp add: show_int_def)

text \<open>Two names that end before the first dot of the same host name are the same name.\<close>

lemma dot_terminated_unique:
  assumes "CHR ''.'' \<notin> set a" and "CHR ''.'' \<notin> set b"
    and "h = b @ ''.'' @ y \<or> h = b" and "h = a @ ''.'' @ x \<or> h = a"
  shows "a = b"
proof -
  have split: "takeWhile (\<lambda>c. c \<noteq> CHR ''.'') (u @ ''.'' @ v) = u" if "CHR ''.'' \<notin> set u" for u v
    using that by (induction u) auto
  have whole: "takeWhile (\<lambda>c. c \<noteq> CHR ''.'') u = u" if "CHR ''.'' \<notin> set u" for u
    using that by (auto simp: takeWhile_eq_all_conv)
  from assms(1,4) have "takeWhile (\<lambda>c. c \<noteq> CHR ''.'') h = a"
    using split whole by blast
  moreover from assms(2,3) have "takeWhile (\<lambda>c. c \<noteq> CHR ''.'') h = b"
    using split whole by blast
  ultimately show ?thesis by simp
qed

section \<open>Slices\<close>

text \<open>\<open>slices.Sort\<close> is \<open>sort\<close> in byte order, \<open>slices.Compact\<close> drops adjacent duplicates.\<close>

abbreviation Compact :: "'a list \<Rightarrow> 'a list" where
  "Compact \<equiv> remdups_adj"

lemma Compact_sorted_distinct: "sorted xs \<Longrightarrow> distinct (Compact xs)"
  for xs :: "'a :: linorder list"
  by (induction xs rule: remdups_adj.induct) (auto simp: less_le)

text \<open>The loop \<open>for idx := hi; idx > lo; idx--\<close>: the values \<open>idx\<close> takes.\<close>

function down_from :: "int \<Rightarrow> int \<Rightarrow> int list" where
  "down_from hi lo = (if lo < hi then hi # down_from (hi - 1) lo else [])"
  by pat_completeness auto
termination
  by (relation "measure (\<lambda>(hi, lo). nat (hi - lo))") auto

declare down_from.simps [simp del]

lemma set_down_from [simp]: "set (down_from hi lo) = {lo<..hi}"
proof (induction hi lo rule: down_from.induct)
  case (1 hi lo)
  show ?case
    by (subst down_from.simps) (use 1 in auto)
qed

section \<open>Paths\<close>

text \<open>\<open>path.Join\<close> and \<open>path.Clean\<close> (\<open>filepath\<close> on Unix): the segments without empty ones and
  dots, \<^verbatim>\<open>..\<close> taking back the segment before it.\<close>

fun split_path :: "string \<Rightarrow> string \<Rightarrow> string list" where
  "split_path acc [] = [rev acc]"
| "split_path acc (c # s) =
     (if c = CHR ''/'' then rev acc # split_path [] s else split_path (c # acc) s)"

fun clean_segments :: "bool \<Rightarrow> string list \<Rightarrow> string list \<Rightarrow> string list" where
  "clean_segments rooted acc [] = rev acc"
| "clean_segments rooted acc (s # ss) =
     (if s = [] \<or> s = ''.'' then clean_segments rooted acc ss
      else if s = ''..'' then
        (case acc of
           [] \<Rightarrow> clean_segments rooted (if rooted then [] else [s]) ss
         | a # as \<Rightarrow> clean_segments rooted (if a = ''..'' then s # acc else as) ss)
      else clean_segments rooted (s # acc) ss)"

fun join_with :: "string \<Rightarrow> string list \<Rightarrow> string" where
  "join_with sep [] = []"
| "join_with sep [s] = s"
| "join_with sep (s # ss) = s @ sep @ join_with sep ss"

definition path_Clean :: "string \<Rightarrow> string" where
  "path_Clean s =
     (let rooted = (s \<noteq> [] \<and> hd s = CHR ''/'');
          body = join_with ''/'' (clean_segments rooted [] (split_path [] s))
      in if rooted then CHR ''/'' # body else if body = [] then ''.'' else body)"

definition path_Join :: "string list \<Rightarrow> string" where
  "path_Join elems =
     (let es = filter (\<lambda>e. e \<noteq> []) elems
      in if es = [] then [] else path_Clean (join_with ''/'' es))"

end
