(* ===== verification/AIS_Config.thy ===== *)
theory AIS_Config
  imports Prelude
begin

text \<open>
  The cluster configuration a user may set in the CR: the structures of
  \<^verbatim>\<open>operator/api/aistore/v1beta1/aisconfig.go\<close>, one record per Go struct, a pointer as an
  option, a \<open>Duration\<close> or \<open>SizeIEC\<close> as the number it wraps; field names carry a prefix for
  their struct. Then the readers and the writer of \<open>rebalance.enabled\<close>.
\<close>

type_synonym Duration = int
type_synonym SizeIEC = int

section \<open>Structures\<close>

record MirrorConfToUpdate =
  mirror_Enabled :: "bool option"
  mirror_Copies :: "int option"
  mirror_Burst :: "int option"

record XactConfToUpdate =
  xact_Compression :: "string option"
  xact_SbundleMult :: "int option"
  xact_Burst :: "int option"

record ECConfToUpdate =
  ec_XactConfToUpdate :: "XactConfToUpdate"
  ec_ObjSizeLimit :: "int option"
  ec_DataSlices :: "int option"
  ec_ParitySlices :: "int option"
  ec_Enabled :: "bool option"
  ec_DiskOnly :: "bool option"

record GetBatchConfToUpdate =
  gb_XactConfToUpdate :: "XactConfToUpdate"
  gb_MaxWait :: "Duration option"
  gb_NumWarmupWorkers :: "int option"
  gb_MaxSoftErrs :: "int option"
  gb_MaxGFN :: "int option"

record LogConfToUpdate =
  log_Level :: "string option"
  log_ToStderr :: "bool option"
  log_MaxSize :: "SizeIEC option"
  log_MaxTotal :: "SizeIEC option"
  log_FlushTime :: "Duration option"
  log_StatsTime :: "Duration option"

record PeriodConfToUpdate =
  period_StatsTime :: "Duration option"
  period_RetrySyncTime :: "Duration option"
  period_NotifTime :: "Duration option"

record TraceExporterAuthConfToUpdate =
  exporter_TokenHeader :: "string option"
  exporter_TokenFile :: "string option"

record TracingConfToUpdate =
  tracing_ExporterEndpoint :: "string option"
  tracing_ExporterAuth :: "TraceExporterAuthConfToUpdate option"
  tracing_ServiceNamePrefix :: "string option"
  tracing_ExtraAttributes :: string_map
  tracing_SamplerProbabilityStr :: "string option"
  tracing_Enabled :: "bool option"
  tracing_SkipVerify :: "bool option"

record TimeoutConfToUpdate =
  timeout_CplaneOperation :: "Duration option"
  timeout_MaxKeepalive :: "Duration option"
  timeout_MaxHostBusy :: "Duration option"
  timeout_Startup :: "Duration option"
  timeout_JoinAtStartup :: "Duration option"
  timeout_SendFile :: "Duration option"
  timeout_EcStreams :: "Duration option"
  timeout_ObjectMD :: "Duration option"
  timeout_ColdGetConflict :: "Duration option"

record ClientConfToUpdate =
  cli_Timeout :: "Duration option"
  cli_TimeoutLong :: "Duration option"
  cli_ListObjTimeout :: "Duration option"

record SpaceConfToUpdate =
  space_CleanupWM :: "int option"
  space_LowWM :: "int option"
  space_HighWM :: "int option"
  space_OOS :: "int option"
  space_BatchSize :: "int"
  space_DontCleanupTime :: "Duration option"

record LRUConfToUpdate =
  lru_Enabled :: "bool option"
  lru_DontEvictTime :: "Duration option"
  lru_CapacityUpdTime :: "Duration option"
  lru_BatchSize :: "int option"

record DiskConfToUpdate =
  disk_DiskUtilLowWM :: "int option"
  disk_DiskUtilHighWM :: "int option"
  disk_DiskUtilMaxWM :: "int option"
  disk_IostatTimeLong :: "Duration option"
  disk_IostatTimeShort :: "Duration option"
  disk_IostatTimeSmooth :: "Duration option"

record RebalanceConfToUpdate =
  reb_XactConfToUpdate :: "XactConfToUpdate"
  reb_Enabled :: "bool option"
  reb_DestRetryTime :: "Duration option"

record ResilverConfToUpdate =
  resilver_Enabled :: "bool option"

record CksumConfToUpdate =
  cksum_Type :: "string option"
  cksum_ValidateColdGet :: "bool option"
  cksum_ValidateWarmGet :: "bool option"
  cksum_ValidateObjMove :: "bool option"
  cksum_EnableReadRange :: "bool option"

record VersionConfToUpdate =
  version_Enabled :: "bool option"
  version_ValidateWarmGet :: "bool option"
  version_Sync :: "bool option"

record HTTPConfToUpdate =
  http_Certificate :: "string option"
  http_CertKey :: "string option"
  http_ServerNameTLS :: "string option"
  http_ClientCA :: "string option"
  http_IdleConnTimeout :: "Duration option"
  http_MaxIdleConnsPerHost :: "int option"
  http_MaxIdleConns :: "int option"
  http_WriteBufferSize :: "int option"
  http_ReadBufferSize :: "int option"
  http_ClientAuthTLS :: "int option"
  http_UseHTTPS :: "bool option"
  http_SkipVerifyCrt :: "bool option"
  http_Chunked :: "bool option"

record NetConfToUpdate =
  net_HTTP :: "HTTPConfToUpdate option"

record FSHCConfToUpdate =
  fshc_TestFileCount :: "int option"
  fshc_HardErrs :: "int option"
  fshc_IOErrs :: "int option"
  fshc_IOErrTime :: "Duration option"
  fshc_Enabled :: "bool option"

record ChunksConfToUpdate =
  chunks_ObjSizeLimit :: "SizeIEC option"
  chunks_MaxMonolithicSize :: "SizeIEC option"
  chunks_ChunkSize :: "SizeIEC option"
  chunks_CheckpointEvery :: "int"
  chunks_Flags :: "int"

record AuthSignatureConfToUpdate =
  sig_Key :: "string option"
  sig_Method :: "string option"

record RequiredClaimsConfToUpdate =
  claims_Aud :: "string list option"

record OIDCConfToUpdate =
  oidc_AllowedIssuers :: "string list option"
  oidc_IssuerCA :: "string option"

record ClusterKeyConfToUpdate =
  ck_Enabled :: "bool option"
  ck_TTL :: "Duration option"
  ck_NonceWindow :: "Duration option"
  ck_RotationGrace :: "Duration option"

record AuthConfToUpdate =
  auth_Enabled :: "bool option"
  auth_Signature :: "AuthSignatureConfToUpdate option"
  auth_RequiredClaims :: "RequiredClaimsConfToUpdate option"
  auth_OIDC :: "OIDCConfToUpdate option"
  auth_ClusterKey :: "ClusterKeyConfToUpdate option"

record KeepaliveTrackerConfToUpdate =
  kat_Interval :: "Duration option"
  kat_Name :: "string option"
  kat_Factor :: "int option"

record KeepaliveConfToUpdate =
  ka_Proxy :: "KeepaliveTrackerConfToUpdate option"
  ka_Target :: "KeepaliveTrackerConfToUpdate option"
  ka_NumRetries :: "int option"
  ka_RetryFactor :: "int option"

record DownloaderConfToUpdate =
  dl_Timeout :: "Duration option"

record DSortConfToUpdate =
  dsort_XactConfToUpdate :: "XactConfToUpdate"
  dsort_DuplicatedRecords :: "string option"
  dsort_MissingShards :: "string option"
  dsort_EKMMalformedLine :: "string option"
  dsort_EKMMissingKey :: "string option"
  dsort_DefaultMaxMemUsage :: "string option"
  dsort_CallTimeout :: "Duration option"
  dsort_DSorterMemThreshold :: "string option"

record TransportConfToUpdate =
  transport_MaxHeaderSize :: "int option"
  transport_Burst :: "int option"
  transport_IdleTeardown :: "Duration option"
  transport_QuiesceTime :: "Duration option"
  transport_LZ4BlockMaxSize :: "int option"
  transport_LZ4FrameChecksum :: "bool option"

record MemsysConfToUpdate =
  memsys_MinFree :: "SizeIEC option"
  memsys_DefaultBufSize :: "SizeIEC option"
  memsys_SizeToGC :: "SizeIEC option"
  memsys_HousekeepTime :: "Duration option"
  memsys_MinPctTotal :: "int option"
  memsys_MinPctFree :: "int option"

record TCBConfToUpdate =
  tcb_XactConfToUpdate :: "XactConfToUpdate"

record TCOConfToUpdate =
  tco_XactConfToUpdate :: "XactConfToUpdate"

record ArchConfToUpdate =
  arch_XactConfToUpdate :: "XactConfToUpdate"

record WritePolicyConfToUpdate =
  wp_Data :: "string option"
  wp_MD :: "string option"

record ProxyConfToUpdate =
  pconf_PrimaryURL :: "string option"
  pconf_OriginalURL :: "string option"
  pconf_DiscoveryURL :: "string option"
  pconf_NonElectable :: "bool option"

record RateLimitBaseToUpdate =
  rl_Verbs :: "string option"
  rl_Interval :: "Duration option"
  rl_MaxTokens :: "int option"
  rl_Enabled :: "bool option"

record AdaptiveToUpdate =
  adaptive_NumRetries :: "int option"
  adaptive_RateLimitBaseToUpdate :: "RateLimitBaseToUpdate"

record BurstyToUpdate =
  bursty_Size :: "int option"
  bursty_RateLimitBaseToUpdate :: "RateLimitBaseToUpdate"

record RateLimitConfToUpdate =
  ratelimit_Backend :: "AdaptiveToUpdate option"
  ratelimit_Frontend :: "BurstyToUpdate option"

record ConfigToUpdate =
  cf_Backend :: "string set option"
  cf_Mirror :: "MirrorConfToUpdate option"
  cf_EC :: "ECConfToUpdate option"
  cf_GetBatch :: "GetBatchConfToUpdate option"
  cf_Log :: "LogConfToUpdate option"
  cf_Periodic :: "PeriodConfToUpdate option"
  cf_Tracing :: "TracingConfToUpdate option"
  cf_Timeout :: "TimeoutConfToUpdate option"
  cf_Client :: "ClientConfToUpdate option"
  cf_Space :: "SpaceConfToUpdate option"
  cf_LRU :: "LRUConfToUpdate option"
  cf_Disk :: "DiskConfToUpdate option"
  cf_Rebalance :: "RebalanceConfToUpdate option"
  cf_Resilver :: "ResilverConfToUpdate option"
  cf_Cksum :: "CksumConfToUpdate option"
  cf_Versioning :: "VersionConfToUpdate option"
  cf_Net :: "NetConfToUpdate option"
  cf_FSHC :: "FSHCConfToUpdate option"
  cf_Chunks :: "ChunksConfToUpdate option"
  cf_Auth :: "AuthConfToUpdate option"
  cf_Keepalive :: "KeepaliveConfToUpdate option"
  cf_Downloader :: "DownloaderConfToUpdate option"
  cf_DSort :: "DSortConfToUpdate option"
  cf_Transport :: "TransportConfToUpdate option"
  cf_Memsys :: "MemsysConfToUpdate option"
  cf_TCB :: "TCBConfToUpdate option"
  cf_TCO :: "TCOConfToUpdate option"
  cf_Arch :: "ArchConfToUpdate option"
  cf_WritePolicy :: "WritePolicyConfToUpdate option"
  cf_Proxy :: "ProxyConfToUpdate option"
  cf_RateLimit :: "RateLimitConfToUpdate option"
  cf_Features :: "string option"

section \<open>Empty structures (the Go composite literals without fields)\<close>

definition no_xact :: XactConfToUpdate where
  "no_xact = \<lparr>xact_Compression = None, xact_SbundleMult = None, xact_Burst = None\<rparr>"

definition no_rebalance :: RebalanceConfToUpdate where
  "no_rebalance = \<lparr>reb_XactConfToUpdate = no_xact, reb_Enabled = None, reb_DestRetryTime = None\<rparr>"

definition no_http :: HTTPConfToUpdate where
  "no_http = \<lparr>http_Certificate = None, http_CertKey = None, http_ServerNameTLS = None,
     http_ClientCA = None, http_IdleConnTimeout = None, http_MaxIdleConnsPerHost = None,
     http_MaxIdleConns = None, http_WriteBufferSize = None, http_ReadBufferSize = None,
     http_ClientAuthTLS = None, http_UseHTTPS = None, http_SkipVerifyCrt = None,
     http_Chunked = None\<rparr>"

definition no_oidc :: OIDCConfToUpdate where
  "no_oidc = \<lparr>oidc_AllowedIssuers = None, oidc_IssuerCA = None\<rparr>"

definition no_auth :: AuthConfToUpdate where
  "no_auth = \<lparr>auth_Enabled = None, auth_Signature = None, auth_RequiredClaims = None,
     auth_OIDC = None, auth_ClusterKey = None\<rparr>"

definition no_config :: ConfigToUpdate where
  "no_config = \<lparr>cf_Backend = None, cf_Mirror = None, cf_EC = None, cf_GetBatch = None, cf_Log = None, cf_Periodic = None, cf_Tracing = None, cf_Timeout = None, cf_Client = None, cf_Space = None, cf_LRU = None, cf_Disk = None, cf_Rebalance = None, cf_Resilver = None, cf_Cksum = None, cf_Versioning = None, cf_Net = None, cf_FSHC = None, cf_Chunks = None, cf_Auth = None, cf_Keepalive = None, cf_Downloader = None, cf_DSort = None, cf_Transport = None, cf_Memsys = None, cf_TCB = None, cf_TCO = None, cf_Arch = None, cf_WritePolicy = None, cf_Proxy = None, cf_RateLimit = None, cf_Features = None\<rparr>"

section \<open>The rebalance switch\<close>

definition IsRebalanceEnabledSet :: "ConfigToUpdate \<Rightarrow> bool" where
  "IsRebalanceEnabledSet c =
     (case cf_Rebalance c of None \<Rightarrow> False | Some r \<Rightarrow> reb_Enabled r \<noteq> None)"

text \<open>The receiver may be nil: an unset switch counts as enabled.\<close>

definition RebalanceEnabled :: "ConfigToUpdate option \<Rightarrow> bool" where
  "RebalanceEnabled mc = (case mc of None \<Rightarrow> True | Some c \<Rightarrow>
     (case cf_Rebalance c of None \<Rightarrow> True | Some r \<Rightarrow>
       (case reb_Enabled r of None \<Rightarrow> True | Some b \<Rightarrow> b)))"

definition UpdateRebalanceEnabled :: "ConfigToUpdate \<Rightarrow> bool option \<Rightarrow> ConfigToUpdate" where
  "UpdateRebalanceEnabled c enabled =
     (let r = (case cf_Rebalance c of None \<Rightarrow> no_rebalance | Some r \<Rightarrow> r)
      in c\<lparr>cf_Rebalance := Some (r\<lparr>reb_Enabled := enabled\<rparr>)\<rparr>)"

lemma RebalanceEnabled_update [simp]:
  "RebalanceEnabled (Some (UpdateRebalanceEnabled c (Some b))) = b"
  by (simp add: RebalanceEnabled_def UpdateRebalanceEnabled_def Let_def)

lemma IsRebalanceEnabledSet_update [simp]:
  "IsRebalanceEnabledSet (UpdateRebalanceEnabled c b) = (b \<noteq> None)"
  by (simp add: IsRebalanceEnabledSet_def UpdateRebalanceEnabled_def Let_def)

lemma UpdateRebalanceEnabled_other [simp]:
  "cf_Net (UpdateRebalanceEnabled c b) = cf_Net c"
  "cf_Auth (UpdateRebalanceEnabled c b) = cf_Auth c"
  "cf_Backend (UpdateRebalanceEnabled c b) = cf_Backend c"
  by (simp_all add: UpdateRebalanceEnabled_def Let_def)

end
