(* ===== verification/AIS_Types.thy ===== *)
theory AIS_Types
  imports AIS_Config
begin

text \<open>
  The AIStore custom resource of \<^verbatim>\<open>operator/api/aistore/v1beta1/aistore_types.go\<close>: its spec,
  status and object, one record per Go struct, then the methods the operator reads it with.

  A pointer is an option, a slice a list (nil and empty are one value, as the API server and
  \<open>equality.Semantic\<close> treat them), a string map a finite map. Values of Kubernetes types that
  the operator only stores, copies and compares are kept as their serialised form, \<open>k8s_value\<close>;
  of security contexts, affinities and resource requirements the parts that the operator fills in
  itself are fields, the rest is kept serialised.
\<close>

type_synonym k8s_value = string

section \<open>States and conditions\<close>

datatype ClusterState =
    ClusterNone \<comment> \<open>the empty string of a CR that was never reconciled\<close>
  | ClusterInitialized
  | ClusterCreated
  | ClusterReady
  | ClusterInitializingLBService
  | ClusterPendingLBService
  | ClusterUpgrading
  | ClusterShuttingDown
  | ClusterShutdown
  | ClusterDecommissioning
  | ClusterCleanup
  | HostCleanup
  | ClusterFinalized

datatype ClusterConditionType =
    ConditionInitialized | ConditionCreated | ConditionReady | ConditionReadyRebalance

text \<open>A condition's reason is either one of the declared reasons or the condition's own name.\<close>

datatype ClusterConditionReason =
    ReasonUpgrading | ReasonScaling | ReasonShutdown | ReasonOf ClusterConditionType

record condition =
  cond_Status :: bool
  cond_Reason :: ClusterConditionReason
  cond_Message :: string
  cond_ObservedGeneration :: int

datatype PubNetDNSMode = PubNetDNSModeIP | PubNetDNSModeNode | PubNetDNSModePod

datatype TLSCertificateMode = TLSCertificateModeSecret | TLSCertificateModeCSI

datatype ScaleDownMode =
    ScaleDownModeUnset \<comment> \<open>the empty string, before the API server's default applies\<close>
  | ScaleDownModeDecommission | ScaleDownModeRetain | ScaleDownModeSafeDecommission

datatype int_or_string = IntVal int32 | StrVal string

section \<open>Kubernetes values\<close>

text \<open>Where a variable's value comes from: a field of the pod (its path), or a key of a secret.\<close>

datatype EnvVarSource = FieldRef string | SecretKeyRef string string | OtherEnvSource k8s_value

record EnvVar =
  env_Name :: string
  env_Value :: string
  env_ValueFrom :: "EnvVarSource option"

text \<open>
  An amount of a resource in nano-units, the finest the API server keeps, so that equal amounts
  are equal values, as \<open>equality.Semantic\<close> compares quantities.
\<close>

type_synonym amount = int
type_synonym resource_list = "(string, amount) fmap"

record ResourceRequirements =
  res_Requests :: resource_list
  res_Limits :: resource_list
  res_Claims :: k8s_value

record SecurityContext =
  sc_AllowPrivilegeEscalation :: "bool option"
  sc_ReadOnlyRootFilesystem :: "bool option"
  sc_Capabilities :: "(string list \<times> string list) option" \<comment> \<open>added and dropped\<close>
  sc_Rest :: k8s_value

record PodSecurityContext =
  psc_RunAsNonRoot :: "bool option"
  psc_SeccompProfile :: "string option" \<comment> \<open>its type\<close>
  psc_Rest :: k8s_value

text \<open>
  An anti-affinity to pods with the given labels, required on one host name; every other rule is
  serialised.
\<close>

datatype PodAntiAffinity = NotOnHostWith string_map | OtherAntiAffinity k8s_value

record Affinity =
  aff_Node :: "k8s_value option"
  aff_Pod :: "k8s_value option"
  aff_PodAnti :: "PodAntiAffinity option"

section \<open>Parts of the spec\<close>

record Toleration =
  tol_Key :: string
  tol_Operator :: string
  tol_Value :: string
  tol_Effect :: string
  tol_TolerationSeconds :: "int option"

record AuthTLSConfig =
  CACertPath :: string
  InsecureSkipVerify :: bool

record AuthServerLoginConf =
  ClientID :: string
  LoginScope :: "string option"

record UsernamePasswordAuth =
  SecretName :: string
  SecretNamespace :: "string option"
  LoginConf :: "AuthServerLoginConf option"

record TokenExchangeAuth =
  TokenPath :: "string option"
  TokenExchangeEndpoint :: "string option"

record AuthSpec =
  ProfileRef :: "string option" \<comment> \<open>the profile's name\<close>
  ServiceURL :: "string option"
  UsernamePassword :: "UsernamePasswordAuth option"
  TokenExchange :: "TokenExchangeAuth option"
  AuthTLS :: "AuthTLSConfig option"

record CAConfigMapRef =
  ca_Name :: string
  ca_Key :: "string option"

record AdminClientSpec =
  ac_Enabled :: "bool option"
  ac_Image :: "string option"
  ac_ImagePullPolicy :: "string option"
  ac_Resources :: ResourceRequirements
  ac_Annotations :: string_map
  ac_Labels :: string_map
  ac_NodeSelector :: string_map
  ac_Affinity :: "Affinity option"
  ac_Tolerations :: "Toleration list"
  ac_Env :: "EnvVar list"
  ac_CAConfigMap :: "CAConfigMapRef option"

text \<open>\<open>StateHostPathConfig\<close> and \<open>StatePVCConfig\<close> hold one string each, \<open>StateEmptyDirConfig\<close> nothing.\<close>

record StateStorageConf =
  ss_HostPath :: "string option"
  ss_PVC :: "string option"
  ss_EmptyDir :: "unit option"

record CertIssuerRef =
  issuer_Name :: string
  issuer_Kind :: string

record TLSCertificateConfig =
  IssuerRef :: CertIssuerRef
  AdditionalDNSNames :: "string list"
  cert_Duration :: "Duration option"
  cert_RenewBefore :: "Duration option"
  cert_Mode :: "TLSCertificateMode option" \<comment> \<open>None is the empty string\<close>

record TLSSpec =
  tls_SecretName :: "string option"
  tls_Certificate :: "TLSCertificateConfig option"

record LogSidecarSpec =
  sidecar_Image :: string
  sidecar_Resources :: "ResourceRequirements option"

record PDBSpec =
  pdb_Enabled :: bool
  pdb_MaxUnavailable :: "int_or_string option"

record ProbeSpec =
  PeriodSeconds :: "int32 option"
  TimeoutSeconds :: "int32 option"
  FailureThreshold :: "int32 option"
  InitialDelaySeconds :: "int32 option"

record ProbeConfSpec =
  Liveness :: "ProbeSpec option"
  Readiness :: "ProbeSpec option"
  Startup :: "ProbeSpec option"

text \<open>A quantity: its digits and its decimal scale, \<open>inf.Dec\<close> as \<open>AsDec\<close> gives it.\<close>

record quantity =
  qty_unscaled :: int
  qty_scale :: int

record Mount =
  mnt_Path :: string
  mnt_Size :: "quantity option"
  mnt_StorageClass :: "string option"
  mnt_UseHostPath :: "bool option"
  mnt_Selector :: "k8s_value option"
  mnt_Label :: "string option"

record AutoScaleConf =
  SizeLimit :: "int32 option"
  MaxUnavailable :: "int32 option"

record ServiceSpec =
  ServicePort :: int_or_string
  PublicPort :: int_or_string
  IntraControlPort :: int_or_string
  IntraDataPort :: int_or_string

text \<open>\<open>ExternalAccessSpec\<close> holds the annotations only; a PVC retention policy is the pair of its
  \<open>WhenDeleted\<close> and \<open>WhenScaled\<close> settings.\<close>

datatype PVCRetention = RetainPVC | DeletePVC

record PVCRetentionPolicySpec =
  WhenDeleted :: PVCRetention
  WhenScaled :: PVCRetention

record DaemonSpec =
  d_ServiceSpec :: ServiceSpec
  d_SecurityContext :: "PodSecurityContext option"
  d_Size :: "int32 option"
  d_AutoScaleConf :: "AutoScaleConf option"
  d_Annotations :: string_map
  d_Labels :: string_map
  d_Resources :: ResourceRequirements
  d_Capabilities :: "SecurityContext option"
  d_AISContainerSecurityContext :: "SecurityContext option"
  d_Env :: "EnvVar list"
  d_Affinity :: "Affinity option"
  d_NodeSelector :: "string_map option" \<comment> \<open>validation tells nil from empty\<close>
  d_Tolerations :: "Toleration list"
  d_HostPort :: "int32 option"
  d_PVCRetentionPolicy :: "PVCRetentionPolicySpec option"
  d_Probes :: "ProbeConfSpec option"
  d_ExternalAccess :: "string_map option"

text \<open>The embedded \<open>DaemonSpec\<close> makes a target spec an extension of it.\<close>

record TargetSpec = DaemonSpec +
  t_Mounts :: "Mount list"
  t_DisablePodAntiAffinity :: "bool option"
  t_HostNetwork :: "bool option"
  t_PodDisruptionBudget :: "PDBSpec option"
  t_ScaleDownMode :: ScaleDownMode

section \<open>The custom resource\<close>

record AIStoreSpec =
  Size :: "int32 option"
  NodeImage :: string
  InitImage :: string
  LogSidecar :: "LogSidecarSpec option"
  StateStorage :: "StateStorageConf option"
  HostpathPrefix :: "string option"
  StateStorageClass :: "string option"
  SpecConfig :: "ConfigToUpdate option" \<comment> \<open>the field \<open>ConfigToUpdate\<close>\<close>
  IssuerCAConfigMap :: "string option"
  HostnameMap :: "string_map option"
  APIMode :: "string option"
  NetAttachment :: "string option"
  ProxySpec :: DaemonSpec
  SpecTarget :: TargetSpec \<comment> \<open>the field \<open>TargetSpec\<close>\<close>
  ShutdownCluster :: "bool option"
  CleanupMetadata :: "bool option"
  CleanupData :: "bool option"
  SpecClusterDomain :: "string option" \<comment> \<open>the field \<open>ClusterDomain\<close>\<close>
  GCPSecretName :: "string option"
  AWSSecretName :: "string option"
  OCISecretName :: "string option"
  LogsDirectory :: string
  TLS :: "TLSSpec option"
  TracingTokenSecretName :: "string option"
  AuthNSecretName :: "string option"
  Auth :: "AuthSpec option"
  OperatorSkipVerifyCrt :: "bool option"
  ImagePullSecrets :: "string list"
  EnableExternalLB :: bool
  PublicNetDNSMode :: "PubNetDNSMode option"
  AdminClient :: "AdminClientSpec option"
  PriorityClassName :: "string option"

record AutoScaleStatus =
  ExpectedProxyNodes :: "string list"
  ExpectedTargetNodes :: "string list"

text \<open>The conditions list is declared a map keyed by type (\<open>listType=map\<close>, \<open>listMapKey=type\<close>).\<close>

record AIStoreStatus =
  State :: ClusterState
  StatusAutoScale :: AutoScaleStatus
  IntraClusterURLStatus :: string
  ClusterID :: string
  Conditions :: "(ClusterConditionType, condition) fmap"

text \<open>Of the object metadata: what the operator reads.\<close>

record AIStore =
  Name :: string
  Namespace :: string
  UID :: string
  Generation :: int
  Deleted :: bool \<comment> \<open>a non-zero deletion timestamp\<close>
  Finalizers :: "string list"
  Annotations :: string_map
  Spec :: AIStoreSpec
  Status :: AIStoreStatus

record NamespacedName =
  nn_Name :: string
  nn_Namespace :: string

end
