(* ===== verification/AIS_CR.thy ===== *)
theory AIS_CR
  imports AIS_Types
begin

text \<open>
  The methods of the AIStore resource (\<^verbatim>\<open>operator/api/aistore/v1beta1/aistore_types.go\<close>):
  its lifecycle state and conditions, the sizes a cluster should have, the switches of the
  spec. A method that dereferences a pointer the spec may leave nil returns \<open>None\<close> where the
  code panics.
\<close>

section \<open>Lifecycle state and conditions\<close>

definition AddOrUpdateCondition :: "AIStore \<Rightarrow> ClusterConditionType \<Rightarrow> condition \<Rightarrow> AIStore" where
  "AddOrUpdateCondition ais ct c =
     ais\<lparr>Status := (Status ais)\<lparr>Conditions :=
       fmupd ct (c\<lparr>cond_ObservedGeneration := Generation ais\<rparr>) (Conditions (Status ais))\<rparr>\<rparr>"

definition IsConditionTrue :: "AIStore \<Rightarrow> ClusterConditionType \<Rightarrow> bool" where
  "IsConditionTrue ais ct =
     (case fmlookup (Conditions (Status ais)) ct of None \<Rightarrow> False | Some c \<Rightarrow> cond_Status c)"

fun condition_message :: "ClusterConditionType \<Rightarrow> string" where
  "condition_message ConditionInitialized = ''Success initializing cluster''"
| "condition_message ConditionCreated = ''Success creating AIS cluster''"
| "condition_message ConditionReady = ''Cluster is ready''"
| "condition_message ConditionReadyRebalance = ''Cluster is ready to rebalance''"

definition SetCondition :: "AIStore \<Rightarrow> ClusterConditionType \<Rightarrow> AIStore" where
  "SetCondition ais ct = AddOrUpdateCondition ais ct
     \<lparr>cond_Status = True, cond_Reason = ReasonOf ct, cond_Message = condition_message ct,
      cond_ObservedGeneration = 0\<rparr>"

definition SetConditionFalse ::
  "AIStore \<Rightarrow> ClusterConditionType \<Rightarrow> ClusterConditionReason \<Rightarrow> string \<Rightarrow> AIStore" where
  "SetConditionFalse ais ct reason msg = AddOrUpdateCondition ais ct
     \<lparr>cond_Status = False, cond_Reason = reason, cond_Message = msg,
      cond_ObservedGeneration = 0\<rparr>"

definition SetState :: "AIStore \<Rightarrow> ClusterState \<Rightarrow> AIStore" where
  "SetState ais st = ais\<lparr>Status := (Status ais)\<lparr>State := st\<rparr>\<rparr>"

definition HasState :: "AIStore \<Rightarrow> ClusterState \<Rightarrow> bool" where
  "HasState ais st = (State (Status ais) = st)"

definition NamespacedNameOf :: "AIStore \<Rightarrow> NamespacedName" where
  "NamespacedNameOf ais = \<lparr>nn_Name = Name ais, nn_Namespace = Namespace ais\<rparr>"

text \<open>The daemon names \<open>aisapc.Proxy\<close> and \<open>aisapc.Target\<close>.\<close>

definition Proxy_name :: string where "Proxy_name = ''proxy''"
definition Target_name :: string where "Target_name = ''target''"

definition ProxyStatefulSetName :: "AIStore \<Rightarrow> string" where
  "ProxyStatefulSetName ais = Name ais @ ''-'' @ Proxy_name"

definition DefaultPrimaryName :: "AIStore \<Rightarrow> string" where
  "DefaultPrimaryName ais = ProxyStatefulSetName ais @ ''-0''"

definition ShouldBeShutdown :: "AIStore \<Rightarrow> bool" where
  "ShouldBeShutdown ais = (ShutdownCluster (Spec ais) = Some True)"

definition ShouldStartShutdown :: "AIStore \<Rightarrow> bool" where
  "ShouldStartShutdown ais = (ShouldBeShutdown ais \<and> HasState ais ClusterReady)"

definition IsMarkedForDeletion :: "AIStore \<Rightarrow> bool" where
  "IsMarkedForDeletion ais = Deleted ais"

definition IsDecommissioningOrCleaning :: "AIStore \<Rightarrow> bool" where
  "IsDecommissioningOrCleaning ais =
     (HasState ais ClusterDecommissioning \<or> HasState ais ClusterCleanup \<or>
      HasState ais HostCleanup \<or> HasState ais ClusterFinalized)"

definition ShouldDecommission :: "AIStore \<Rightarrow> bool" where
  "ShouldDecommission ais = (\<not> IsDecommissioningOrCleaning ais \<and> IsMarkedForDeletion ais)"

definition ShouldCleanupMetadata :: "AIStore \<Rightarrow> bool" where
  "ShouldCleanupMetadata ais = (CleanupMetadata (Spec ais) = Some True)"

section \<open>Cluster sizes\<close>

definition IsTargetAutoScaling :: "AIStore \<Rightarrow> bool" where
  "IsTargetAutoScaling ais =
     (Size (Spec ais) = Some (-1) \<or> d_Size (SpecTarget (Spec ais)) = Some (-1))"

definition IsProxyAutoScaling :: "AIStore \<Rightarrow> bool" where
  "IsProxyAutoScaling ais =
     (Size (Spec ais) = Some (-1) \<or> d_Size (ProxySpec (Spec ais)) = Some (-1))"

definition autoScaleMaxUnavailable :: "('a DaemonSpec_scheme) \<Rightarrow> int32" where
  "autoScaleMaxUnavailable s =
     (case d_AutoScaleConf s of None \<Rightarrow> 0
      | Some conf \<Rightarrow> (case MaxUnavailable conf of None \<Rightarrow> 0 | Some n \<Rightarrow> n))"

definition GetProxySize :: "AIStore \<Rightarrow> int32 option" where
  "GetProxySize ais =
     (if IsProxyAutoScaling ais then
        let proxyNodes = wrap32 (int (length (ExpectedProxyNodes (StatusAutoScale (Status ais)))))
        in (case d_AutoScaleConf (ProxySpec (Spec ais)) of
              None \<Rightarrow> Some proxyNodes
            | Some conf \<Rightarrow> (case SizeLimit conf of
                None \<Rightarrow> Some proxyNodes | Some l \<Rightarrow> Some (min proxyNodes l)))
      else (case d_Size (ProxySpec (Spec ais)) of Some n \<Rightarrow> Some n | None \<Rightarrow> Size (Spec ais)))"

definition GetTargetSize :: "AIStore \<Rightarrow> int32 option" where
  "GetTargetSize ais =
     (if IsTargetAutoScaling ais then
        let targetNodes = wrap32 (int (length (ExpectedTargetNodes (StatusAutoScale (Status ais)))))
        in (case d_AutoScaleConf (SpecTarget (Spec ais)) of
              None \<Rightarrow> Some targetNodes
            | Some conf \<Rightarrow> (case SizeLimit conf of
                None \<Rightarrow> Some targetNodes | Some l \<Rightarrow> Some (min targetNodes l)))
      else (case d_Size (SpecTarget (Spec ais)) of Some n \<Rightarrow> Some n | None \<Rightarrow> Size (Spec ais)))"

definition GetProxyMaxUnavailable :: "AIStore \<Rightarrow> int32" where
  "GetProxyMaxUnavailable ais = autoScaleMaxUnavailable (ProxySpec (Spec ais))"

definition GetTargetMaxUnavailable :: "AIStore \<Rightarrow> int32" where
  "GetTargetMaxUnavailable ais = autoScaleMaxUnavailable (SpecTarget (Spec ais))"

definition GetMinReadyProxies :: "AIStore \<Rightarrow> int32 option" where
  "GetMinReadyProxies ais = map_option (\<lambda>proxySize.
     if IsProxyAutoScaling ais then max 1 (wrap32 (proxySize - GetProxyMaxUnavailable ais))
     else proxySize) (GetProxySize ais)"

definition GetMinReadyTargets :: "AIStore \<Rightarrow> int32 option" where
  "GetMinReadyTargets ais = map_option (\<lambda>targetSize.
     if IsTargetAutoScaling ais then max 1 (wrap32 (targetSize - GetTargetMaxUnavailable ais))
     else targetSize) (GetTargetSize ais)"

section \<open>Switches of the spec\<close>

definition GetPublicNetDNSMode :: "AIStore \<Rightarrow> PubNetDNSMode" where
  "GetPublicNetDNSMode ais =
     (case PublicNetDNSMode (Spec ais) of None \<Rightarrow> PubNetDNSModeIP | Some m \<Rightarrow> m)"

definition UseNodeNameForPublicNet :: "AIStore \<Rightarrow> bool" where
  "UseNodeNameForPublicNet ais = (GetPublicNetDNSMode ais = PubNetDNSModeNode)"

definition ProxyExternalAccessEnabled :: "AIStore \<Rightarrow> bool" where
  "ProxyExternalAccessEnabled ais =
     (if d_ExternalAccess (ProxySpec (Spec ais)) \<noteq> None then True else EnableExternalLB (Spec ais))"

definition TargetExternalAccessEnabled :: "AIStore \<Rightarrow> bool" where
  "TargetExternalAccessEnabled ais =
     (if d_ExternalAccess (SpecTarget (Spec ais)) \<noteq> None then True else EnableExternalLB (Spec ais))"

definition UseHostNetwork :: "AIStore \<Rightarrow> bool" where
  "UseHostNetwork ais = (t_HostNetwork (SpecTarget (Spec ais)) = Some True)"

text \<open>The chain \<open>Spec.ConfigToUpdate.Net.HTTP\<close>, nil as soon as one pointer is.\<close>

definition spec_http :: "AIStoreSpec \<Rightarrow> HTTPConfToUpdate option" where
  "spec_http s = Option.bind (SpecConfig s) (\<lambda>c. Option.bind (cf_Net c) net_HTTP)"

text \<open>A client certificate is included for every client-auth type above \<open>tls.NoClientCert\<close>, 0.\<close>

definition ShouldIncludeClientCert :: "AIStore \<Rightarrow> bool" where
  "ShouldIncludeClientCert ais =
     (case Option.bind (spec_http (Spec ais)) http_ClientAuthTLS of None \<Rightarrow> False | Some n \<Rightarrow> n > 0)"

definition GetLogSidecarImage :: "AIStore \<Rightarrow> string" where
  "GetLogSidecarImage ais =
     (case LogSidecar (Spec ais) of None \<Rightarrow> [] | Some l \<Rightarrow> sidecar_Image l)"

definition GetLogSidecarResources :: "AIStore \<Rightarrow> ResourceRequirements option" where
  "GetLogSidecarResources ais = Option.bind (LogSidecar (Spec ais)) sidecar_Resources"

definition GetTargetDNSPolicy :: "AIStore \<Rightarrow> string" where
  "GetTargetDNSPolicy ais =
     (if UseHostNetwork ais then ''ClusterFirstWithHostNet'' else ''ClusterFirst'')"

definition AllowTargetSharedNodes :: "AIStore \<Rightarrow> bool" where
  "AllowTargetSharedNodes ais = (t_DisablePodAntiAffinity (SpecTarget (Spec ais)) = Some True)"

definition TargetPDBEnabled :: "AIStore \<Rightarrow> bool" where
  "TargetPDBEnabled ais =
     (case t_PodDisruptionBudget (SpecTarget (Spec ais)) of None \<Rightarrow> False | Some p \<Rightarrow> pdb_Enabled p)"

definition GetTargetPDBMaxUnavailable :: "AIStore \<Rightarrow> int_or_string" where
  "GetTargetPDBMaxUnavailable ais =
     (case Option.bind (t_PodDisruptionBudget (SpecTarget (Spec ais))) pdb_MaxUnavailable of
        Some m \<Rightarrow> m | None \<Rightarrow> IntVal 0)"

definition AdminClientEnabled :: "AIStore \<Rightarrow> bool" where
  "AdminClientEnabled ais =
     (case AdminClient (Spec ais) of None \<Rightarrow> False
      | Some c \<Rightarrow> (case ac_Enabled c of None \<Rightarrow> True | Some b \<Rightarrow> b))"

definition AdminClientName :: "AIStore \<Rightarrow> string" where
  "AdminClientName ais = Name ais @ ''-client''"

definition RetainOnScaleDown :: "TargetSpec \<Rightarrow> bool" where
  "RetainOnScaleDown t = (t_ScaleDownMode t = ScaleDownModeRetain)"

definition SafeDecommissionOnScaleDown :: "TargetSpec \<Rightarrow> bool" where
  "SafeDecommissionOnScaleDown t = (t_ScaleDownMode t = ScaleDownModeSafeDecommission)"

section \<open>State storage\<close>

definition StateStoragePVCStorageClass :: "AIStoreSpec \<Rightarrow> string option" where
  "StateStoragePVCStorageClass s =
     (case StateStorage s of Some st \<Rightarrow> ss_PVC st | None \<Rightarrow> StateStorageClass s)"

definition StateStorageHostPathPrefix :: "AIStoreSpec \<Rightarrow> string option" where
  "StateStorageHostPathPrefix s =
     (case StateStorage s of
        Some st \<Rightarrow> ss_HostPath st
      | None \<Rightarrow> if StateStorageClass s = None then HostpathPrefix s else None)"

definition UsesStatePVC :: "AIStoreSpec \<Rightarrow> bool" where
  "UsesStatePVC s = (StateStoragePVCStorageClass s \<noteq> None)"

definition UsesStateHostPath :: "AIStoreSpec \<Rightarrow> bool" where
  "UsesStateHostPath s = (StateStorageHostPathPrefix s \<noteq> None)"

definition UsesStateEmptyDir :: "AIStoreSpec \<Rightarrow> bool" where
  "UsesStateEmptyDir s =
     (case StateStorage s of None \<Rightarrow> False | Some st \<Rightarrow> ss_EmptyDir st \<noteq> None)"

section \<open>Mounts\<close>

definition IsHostPath :: "Mount \<Rightarrow> bool" where
  "IsHostPath m = (mnt_UseHostPath m = Some True)"

definition GetPVCName :: "Mount \<Rightarrow> string \<Rightarrow> string" where
  "GetPVCName m aisName = aisName @ ReplaceAll (mnt_Path m) (CHR ''/'') (CHR ''-'')"

text \<open>
  A quantity is rounded towards zero to whole bytes and taken as an \<open>int64\<close>; only a positive
  amount becomes a storage request.
\<close>

definition wrap64 :: "int \<Rightarrow> int" where
  "wrap64 x = (x + 2 ^ 63) mod 2 ^ 64 - 2 ^ 63"

definition round_down :: "quantity \<Rightarrow> int" where
  "round_down q =
     (if qty_scale q \<le> 0 then qty_unscaled q * 10 ^ nat (- qty_scale q)
      else sgn (qty_unscaled q) * (\<bar>qty_unscaled q\<bar> div 10 ^ nat (qty_scale q)))"

definition GetPVCResources :: "Mount \<Rightarrow> int option" where
  "GetPVCResources m =
     (case mnt_Size m of None \<Rightarrow> None
      | Some q \<Rightarrow> (let bytes = wrap64 (round_down q) in if bytes > 0 then Some bytes else None))"

record PersistentVolumeClaim =
  pvc_Name :: string
  pvc_AccessModes :: "string list"
  pvc_StorageClassName :: "string option"
  pvc_Selector :: "k8s_value option"
  pvc_StorageRequest :: "int option"

definition BuildPVC :: "Mount \<Rightarrow> string \<Rightarrow> PersistentVolumeClaim" where
  "BuildPVC m aisName =
     \<lparr>pvc_Name = GetPVCName m aisName, pvc_AccessModes = [''ReadWriteOnce''],
      pvc_StorageClassName = mnt_StorageClass m, pvc_Selector = mnt_Selector m,
      pvc_StorageRequest = GetPVCResources m\<rparr>"

section \<open>Tolerations\<close>

text \<open>\<open>MatchToleration\<close> is the Kubernetes library's comparison, here \<open>same\<close>.\<close>

fun append_unique :: "('t \<Rightarrow> 't \<Rightarrow> bool) \<Rightarrow> 't list \<Rightarrow> 't list \<Rightarrow> 't list" where
  "append_unique same out [] = out"
| "append_unique same out (tb # b) =
     append_unique same (if \<exists>x\<in>set out. same x tb then out else out @ [tb]) b"

definition mergeTolerationsUnique ::
  "(Toleration \<Rightarrow> Toleration \<Rightarrow> bool) \<Rightarrow> Toleration list \<Rightarrow> Toleration list \<Rightarrow> Toleration list" where
  "mergeTolerationsUnique same a b = append_unique same a b"

definition GetAllTolerations :: "(Toleration \<Rightarrow> Toleration \<Rightarrow> bool) \<Rightarrow> AIStore \<Rightarrow> Toleration list" where
  "GetAllTolerations same ais =
     mergeTolerationsUnique same (d_Tolerations (ProxySpec (Spec ais)))
       (d_Tolerations (SpecTarget (Spec ais)))"

section \<open>Cloud backends\<close>

text \<open>The provider names \<open>aisapc.AWS\<close>, \<open>GCP\<close>, \<open>OCI\<close> and \<open>Azure\<close>.\<close>

definition AWS :: string where "AWS = ''aws''"
definition GCP :: string where "GCP = ''gcp''"
definition OCI :: string where "OCI = ''oci''"
definition Azure :: string where "Azure = ''azure''"

definition GetBackendConfig :: "AIStoreSpec \<Rightarrow> string set" where
  "GetBackendConfig s =
     (case Option.bind (SpecConfig s) cf_Backend of None \<Rightarrow> {} | Some b \<Rightarrow> b)"

definition isProviderInConf :: "AIStoreSpec \<Rightarrow> string \<Rightarrow> bool" where
  "isProviderInConf s provider = (provider \<in> GetBackendConfig s)"

definition HasAzureConfig :: "AIStoreSpec \<Rightarrow> bool" where
  "HasAzureConfig s =
     (\<exists>env\<in>set (d_Env (SpecTarget s)).
        env_Name env \<in> {''AZURE_STORAGE_ACCOUNT'', ''AZURE_STORAGE_KEY'', ''AIS_AZURE_URL''})"

definition hasAWSBackend :: "AIStoreSpec \<Rightarrow> bool" where
  "hasAWSBackend s = (AWSSecretName s \<noteq> None \<or> isProviderInConf s AWS)"

definition HasGCPBackend :: "AIStoreSpec \<Rightarrow> bool" where
  "HasGCPBackend s = (GCPSecretName s \<noteq> None \<or> isProviderInConf s GCP)"

definition HasOCIBackend :: "AIStoreSpec \<Rightarrow> bool" where
  "HasOCIBackend s = (OCISecretName s \<noteq> None \<or> isProviderInConf s OCI)"

definition hasAzureBackend :: "AIStoreSpec \<Rightarrow> bool" where
  "hasAzureBackend s = (HasAzureConfig s \<or> isProviderInConf s Azure)"

definition HasCloudBackend :: "AIStoreSpec \<Rightarrow> bool" where
  "HasCloudBackend s = (hasAWSBackend s \<or> HasGCPBackend s \<or> HasOCIBackend s \<or> hasAzureBackend s)"

section \<open>TLS and the API\<close>

definition UseHTTPS :: "AIStore \<Rightarrow> bool" where
  "UseHTTPS ais = (Option.bind (spec_http (Spec ais)) http_UseHTTPS = Some True)"

definition HasTLSEnabled :: "AIStore \<Rightarrow> bool" where
  "HasTLSEnabled ais = (TLS (Spec ais) \<noteq> None)"

definition GetTLSCertificate :: "AIStore \<Rightarrow> TLSCertificateConfig option" where
  "GetTLSCertificate ais = Option.bind (TLS (Spec ais)) tls_Certificate"

definition UseTLSSecret :: "AIStore \<Rightarrow> bool" where
  "UseTLSSecret ais =
     (case Option.bind (TLS (Spec ais)) tls_SecretName of None \<Rightarrow> False | Some n \<Rightarrow> n \<noteq> [])"

definition UseTLSCertificate :: "AIStore \<Rightarrow> bool" where
  "UseTLSCertificate ais =
     (case GetTLSCertificate ais of None \<Rightarrow> False
      | Some c \<Rightarrow> cert_Mode c \<noteq> Some TLSCertificateModeCSI)"

definition UseTLSCSI :: "AIStore \<Rightarrow> bool" where
  "UseTLSCSI ais =
     (case GetTLSCertificate ais of None \<Rightarrow> False
      | Some c \<Rightarrow> cert_Mode c = Some TLSCertificateModeCSI)"

definition GetTLSSecretName :: "AIStore \<Rightarrow> string" where
  "GetTLSSecretName ais =
     (if UseTLSSecret ais then
        (case Option.bind (TLS (Spec ais)) tls_SecretName of None \<Rightarrow> [] | Some n \<Rightarrow> n)
      else if UseTLSCertificate ais then Name ais @ ''-tls'' else [])"

definition GetAPIMode :: "AIStore \<Rightarrow> string" where
  "GetAPIMode ais = (case APIMode (Spec ais) of None \<Rightarrow> [] | Some m \<Rightarrow> m)"

definition MaxLogTotal :: "AIStore \<Rightarrow> SizeIEC option" where
  "MaxLogTotal ais =
     Option.bind (SpecConfig (Spec ais)) (\<lambda>c. Option.bind (cf_Log c) log_MaxTotal)"

definition GetRequiredAudiences :: "AIStore \<Rightarrow> string list" where
  "GetRequiredAudiences ais =
     (case Option.bind (SpecConfig (Spec ais)) (\<lambda>c. Option.bind (cf_Auth c)
        (\<lambda>a. Option.bind (auth_RequiredClaims a) claims_Aud)) of None \<Rightarrow> [] | Some aud \<Rightarrow> aud)"

section \<open>What the writers of the status change\<close>

text \<open>
  Setting a state or a condition touches nothing else of the object: the spec, the metadata and
  the sizes computed from them stay.
\<close>

lemma HasState_SetState [simp]: "HasState (SetState ais st) st' = (st = st')"
  by (simp add: HasState_def SetState_def)

lemma SetState_fields [simp]:
  "Name (SetState ais st) = Name ais" "Namespace (SetState ais st) = Namespace ais"
  "UID (SetState ais st) = UID ais" "Deleted (SetState ais st) = Deleted ais"
  "Finalizers (SetState ais st) = Finalizers ais"
  "Annotations (SetState ais st) = Annotations ais" "Spec (SetState ais st) = Spec ais"
  "State (Status (SetState ais st)) = st"
  "StatusAutoScale (Status (SetState ais st)) = StatusAutoScale (Status ais)"
  "Conditions (Status (SetState ais st)) = Conditions (Status ais)"
  "ClusterID (Status (SetState ais st)) = ClusterID (Status ais)"
  by (simp_all add: SetState_def)

text \<open>The selector of a daemon as a map: nil is empty.\<close>

definition selector_of :: "'a DaemonSpec_scheme \<Rightarrow> string_map" where
  "selector_of d = (case d_NodeSelector d of None \<Rightarrow> fmempty | Some m \<Rightarrow> m)"

lemma AddOrUpdateCondition_fields [simp]:
  "Name (AddOrUpdateCondition ais ct c) = Name ais"
  "Namespace (AddOrUpdateCondition ais ct c) = Namespace ais"
  "UID (AddOrUpdateCondition ais ct c) = UID ais"
  "Deleted (AddOrUpdateCondition ais ct c) = Deleted ais"
  "Finalizers (AddOrUpdateCondition ais ct c) = Finalizers ais"
  "Annotations (AddOrUpdateCondition ais ct c) = Annotations ais"
  "Spec (AddOrUpdateCondition ais ct c) = Spec ais"
  "State (Status (AddOrUpdateCondition ais ct c)) = State (Status ais)"
  "StatusAutoScale (Status (AddOrUpdateCondition ais ct c)) = StatusAutoScale (Status ais)"
  "ClusterID (Status (AddOrUpdateCondition ais ct c)) = ClusterID (Status ais)"
  by (simp_all add: AddOrUpdateCondition_def)

lemma SetCondition_fields [simp]:
  "Name (SetCondition ais ct) = Name ais" "Namespace (SetCondition ais ct) = Namespace ais"
  "UID (SetCondition ais ct) = UID ais" "Deleted (SetCondition ais ct) = Deleted ais"
  "Finalizers (SetCondition ais ct) = Finalizers ais"
  "Annotations (SetCondition ais ct) = Annotations ais" "Spec (SetCondition ais ct) = Spec ais"
  "State (Status (SetCondition ais ct)) = State (Status ais)"
  by (simp_all add: SetCondition_def)

lemma SetConditionFalse_fields [simp]:
  "Name (SetConditionFalse ais ct r m) = Name ais"
  "Namespace (SetConditionFalse ais ct r m) = Namespace ais"
  "UID (SetConditionFalse ais ct r m) = UID ais"
  "Deleted (SetConditionFalse ais ct r m) = Deleted ais"
  "Finalizers (SetConditionFalse ais ct r m) = Finalizers ais"
  "Annotations (SetConditionFalse ais ct r m) = Annotations ais"
  "Spec (SetConditionFalse ais ct r m) = Spec ais"
  "State (Status (SetConditionFalse ais ct r m)) = State (Status ais)"
  by (simp_all add: SetConditionFalse_def)

lemma IsConditionTrue_SetState [simp]: "IsConditionTrue (SetState ais st) ct = IsConditionTrue ais ct"
  by (simp add: IsConditionTrue_def)

lemma IsConditionTrue_SetCondition [simp]:
  "IsConditionTrue (SetCondition ais ct) ct' = (ct' = ct \<or> IsConditionTrue ais ct')"
  by (simp add: IsConditionTrue_def SetCondition_def AddOrUpdateCondition_def)

lemma IsConditionTrue_SetConditionFalse [simp]:
  "IsConditionTrue (SetConditionFalse ais ct r m) ct' = (ct' \<noteq> ct \<and> IsConditionTrue ais ct')"
  by (simp add: IsConditionTrue_def SetConditionFalse_def AddOrUpdateCondition_def)

section \<open>Sizes\<close>

text \<open>Without autoscaling, a size the code can read is one the spec states.\<close>

lemma fixed_GetProxySize:
  "\<not> IsProxyAutoScaling ais \<Longrightarrow>
     GetProxySize ais = (case d_Size (ProxySpec (Spec ais)) of Some n \<Rightarrow> Some n | None \<Rightarrow> Size (Spec ais))"
  by (simp add: GetProxySize_def)

lemma fixed_GetTargetSize:
  "\<not> IsTargetAutoScaling ais \<Longrightarrow>
     GetTargetSize ais = (case d_Size (SpecTarget (Spec ais)) of Some n \<Rightarrow> Some n | None \<Rightarrow> Size (Spec ais))"
  by (simp add: GetTargetSize_def)

lemma autoscaling_has_size:
  "IsProxyAutoScaling ais \<Longrightarrow> GetProxySize ais \<noteq> None"
  "IsTargetAutoScaling ais \<Longrightarrow> GetTargetSize ais \<noteq> None"
  by (auto simp: GetProxySize_def GetTargetSize_def Let_def split: option.splits)

section \<open>Merged tolerations\<close>

lemma append_unique_out: "set out \<subseteq> set (append_unique same out b)"
proof (induction b arbitrary: out)
  case (Cons tb b)
  let ?out = "if \<exists>x\<in>set out. same x tb then out else out @ [tb]"
  have "set out \<subseteq> set ?out" by auto
  also have "\<dots> \<subseteq> set (append_unique same ?out b)" by (rule Cons.IH)
  finally show ?case by (simp only: append_unique.simps)
qed simp

lemma append_unique_from: "set (append_unique same out b) \<subseteq> set out \<union> set b"
proof (induction b arbitrary: out)
  case (Cons tb b)
  let ?out = "if \<exists>x\<in>set out. same x tb then out else out @ [tb]"
  have "set (append_unique same ?out b) \<subseteq> set ?out \<union> set b" by (rule Cons.IH)
  moreover have "set ?out \<union> set b \<subseteq> set out \<union> set (tb # b)" by auto
  ultimately have "set (append_unique same ?out b) \<subseteq> set out \<union> set (tb # b)" by (rule order_trans)
  then show ?case by (simp only: append_unique.simps)
qed simp

lemma append_unique_covers:
  "tb \<in> set b \<Longrightarrow> \<exists>x\<in>set (append_unique same out b). same x tb \<or> x = tb"
proof (induction b arbitrary: out)
  case (Cons t b)
  let ?out = "if \<exists>x\<in>set out. same x t then out else out @ [t]"
  have eq: "append_unique same out (t # b) = append_unique same ?out b" by simp
  show ?case
  proof (cases "tb = t")
    case True
    have "\<exists>x\<in>set ?out. same x t \<or> x = t" by auto
    with True show ?thesis unfolding eq using append_unique_out [of ?out same b] by blast
  next
    case False
    with Cons.prems have "tb \<in> set b" by simp
    from Cons.IH [OF this, of ?out] show ?thesis unfolding eq .
  qed
qed simp

text \<open>What is appended is new: like nothing before it.\<close>

lemma append_unique_new:
  "\<exists>c. append_unique same out b = out @ c \<and> set c \<subseteq> set b \<and>
     (\<forall>i<length c. \<forall>x\<in>set (out @ take i c). \<not> same x (c ! i))"
proof (induction b arbitrary: out)
  case (Cons t b)
  show ?case
  proof (cases "\<exists>x\<in>set out. same x t")
    case False
    from Cons [of "out @ [t]"] obtain c where c: "append_unique same (out @ [t]) b = out @ [t] @ c"
      "set c \<subseteq> set b" "\<forall>i<length c. \<forall>x\<in>set ((out @ [t]) @ take i c). \<not> same x (c ! i)" by auto
    have "\<not> same x ((t # c) ! i)" if "i < length (t # c)" "x \<in> set (out @ take i (t # c))" for i x
      using that c(3) False by (cases i) auto
    with c False show ?thesis by (intro exI [of _ "t # c"]) auto
  next
    case True
    with Cons [of out] show ?thesis by fastforce
  qed
qed simp

section \<open>Storage requests\<close>

lemma GetPVCResources_positive: "GetPVCResources m = Some b \<Longrightarrow> 0 < b \<and> b < 2 ^ 63"
  by (auto simp: GetPVCResources_def wrap64_def Let_def split: option.splits if_splits)

end
