(* ===== verification/K8s_Lib.thy ===== *)
theory K8s_Lib
  imports AIS_Types
begin

text \<open>
  The pure functions of third-party Go packages that the operator calls, as the fields of one
  record: the model's definitions take it as an argument, so that every theorem holds for any
  such library, or names the documented behaviour it relies on as a hypothesis.
\<close>

text \<open>A node's taint (\<open>corev1.Taint\<close>); its effects other than the three named ones are ignored.\<close>

datatype TaintEffect = NoSchedule | PreferNoSchedule | NoExecute

record Taint =
  taint_Key :: string
  taint_Value :: string
  taint_Effect :: TaintEffect

text \<open>The key usages of a certificate that the operator asks for (\<open>certmanagerv1.KeyUsage\<close>).\<close>

datatype KeyUsage = UsageDigitalSignature | UsageKeyEncipherment | UsageServerAuth | UsageClientAuth

text \<open>
  The node-local configuration of the AIStore repository (\<open>aiscmn.LocalConfig\<close>): the fields the
  operator sets.
\<close>

record LocalNetConfig =
  net_Hostname :: string
  net_HostnameIntraControl :: string
  net_HostnameIntraData :: string
  net_Port :: int
  net_PortIntraControl :: int
  net_PortIntraData :: int

record LocalConfig =
  loc_ConfigDir :: string
  loc_LogDir :: string
  loc_HostNet :: LocalNetConfig
  loc_FSPPaths :: string_map

text \<open>
  \<open>aiscmn.ConfigToSet\<close>, the configuration type of the AIStore repository, is kept in its
  serialised form.
\<close>

type_synonym ConfigToSet = k8s_value

record k8s_lib =
  IsValidPortNum :: "int \<Rightarrow> string list" \<comment> \<open>\<open>validation.IsValidPortNum\<close>: the complaints\<close>
  IntValue :: "int_or_string \<Rightarrow> int" \<comment> \<open>\<open>intstr.IntOrString.IntValue\<close>\<close>
  PortString :: "int_or_string \<Rightarrow> string" \<comment> \<open>\<open>intstr.IntOrString.String\<close>\<close>
  AggregateText :: "(string \<times> int \<times> string) list \<Rightarrow> string" \<comment> \<open>\<open>field.ErrorList.ToAggregate\<close>\<close>
  MatchToleration :: "Toleration \<Rightarrow> Toleration \<Rightarrow> bool"
  ToleratesTaint :: "Toleration \<Rightarrow> Taint \<Rightarrow> bool"
  DeepDerivative :: "string_map \<Rightarrow> string_map \<Rightarrow> bool" \<comment> \<open>on annotation maps\<close>
  MorphMarshal :: "ConfigToUpdate \<Rightarrow> err + ConfigToSet" \<comment> \<open>\<open>aiscos.MorphMarshal\<close>\<close>
  ProxyConf :: "string \<Rightarrow> string \<Rightarrow> string \<Rightarrow> ConfigToSet"
    \<comment> \<open>a \<open>ConfigToSet\<close> with only primary, original and discovery URL\<close>
  MergeConf :: "ConfigToSet \<Rightarrow> ConfigToSet \<Rightarrow> ConfigToSet" \<comment> \<open>\<open>ConfigToSet.Merge\<close>\<close>
  MarshalConf :: "ConfigToSet \<Rightarrow> err + string" \<comment> \<open>\<open>jsoniter.Marshal\<close> of a configuration\<close>
  MarshalNetHTTP :: "ConfigToSet \<Rightarrow> (err + string) option" \<comment> \<open>of its \<open>Net.HTTP\<close>, when present\<close>
  MarshalMap :: "string_map \<Rightarrow> err + string" \<comment> \<open>\<open>jsoniter.Marshal\<close> of a string map\<close>
  MarshalLocal :: "LocalConfig \<Rightarrow> err + string" \<comment> \<open>\<open>jsoniter.Marshal\<close> of a local configuration\<close>
  Sha256Hex :: "string \<Rightarrow> string" \<comment> \<open>\<open>hex.EncodeToString(sha256.Sum256(..))\<close>\<close>
  aisenv :: "string \<Rightarrow> string" \<comment> \<open>the value of an environment-variable name of \<open>aistore/api/env\<close>\<close>
  csiapi :: "string \<Rightarrow> string" \<comment> \<open>the value of a constant of \<open>csi-driver/pkg/apis\<close>\<close>
  UsageString :: "KeyUsage \<Rightarrow> string" \<comment> \<open>the text of a key usage of cert-manager\<close>
  NetworkAttachmentAnnot :: string \<comment> \<open>of the network-attachment-definition client\<close>
  opClusterDomain :: string \<comment> \<open>the domain the operator was configured with or discovered\<close>

text \<open>
  Documented behaviour used as hypotheses: \<open>DeepDerivative\<close> ignores what is unset on the left
  and compares the rest, so it holds of a map with itself; \<open>MatchToleration\<close> compares key,
  effect, operator and value.
\<close>

definition derivative_refl :: "k8s_lib \<Rightarrow> bool" where
  "derivative_refl L \<longleftrightarrow> (\<forall>m. DeepDerivative L m m)"

definition match_by_fields :: "k8s_lib \<Rightarrow> bool" where
  "match_by_fields L \<longleftrightarrow> (\<forall>a b. MatchToleration L a b =
     (tol_Key a = tol_Key b \<and> tol_Effect a = tol_Effect b \<and>
      tol_Operator a = tol_Operator b \<and> tol_Value a = tol_Value b))"

end
