(* ===== verification/World.thy ===== *)
theory World
  imports AIS_CR K8s_Lib
begin

text \<open>
  What the operator sees of the outside and how it calls it.

  Outside are the Kubernetes API server (read through an informer cache), the REST API of the
  managed AIStore cluster and the third-party libraries. None of it is under the repository's
  control, so none of it is defined here: an \<open>env\<close> holds, for every kind of call, a function
  that answers it from the calls made so far. Every theorem quantifies over that environment;
  stale caches, failing calls, restarts and concurrent writers are all environments.

  A run keeps the history of its calls with their answers, newest first. Which calls the
  operator makes, in which order and after which answers, is what the theorems are about.
\<close>

section \<open>Objects of the API server\<close>

record VolumeMount =
  vm_Name :: string
  vm_MountPath :: string
  vm_SubPathExpr :: string
  vm_ReadOnly :: bool

record ContainerPort =
  cp_Name :: string
  cp_ContainerPort :: int32
  cp_Protocol :: string
  cp_HostPort :: int32 \<comment> \<open>0 for none\<close>

text \<open>An HTTP probe; a probe of another kind has its handler in \<open>probe_Rest\<close>.\<close>

record Probe =
  probe_Scheme :: string
  probe_Path :: string
  probe_Port :: int_or_string
  probe_InitialDelaySeconds :: int32
  probe_PeriodSeconds :: int32
  probe_FailureThreshold :: int32
  probe_TimeoutSeconds :: int32
  probe_SuccessThreshold :: int32
  probe_Rest :: k8s_value

record Container =
  c_Name :: string
  c_Image :: string
  c_ImagePullPolicy :: string
  c_Command :: "string list"
  c_Args :: "string list"
  c_Env :: "EnvVar list"
  c_Ports :: "ContainerPort list"
  c_Resources :: ResourceRequirements
  c_VolumeMounts :: "VolumeMount list"
  c_LivenessProbe :: "Probe option"
  c_ReadinessProbe :: "Probe option"
  c_StartupProbe :: "Probe option"
  c_SecurityContext :: "SecurityContext option"
  c_Rest :: k8s_value \<comment> \<open>every other field: lifecycle, working directory\<close>

datatype VolumeSource =
    EmptyDirSource
  | ConfigMapSource string "(string \<times> string) list" bool \<comment> \<open>name, key to path, optional\<close>
  | SecretSource string
  | HostPathSource string string \<comment> \<open>path and type\<close>
  | CSISource string string_map bool \<comment> \<open>driver, attributes, read-only\<close>
  | OtherSource k8s_value

record Volume =
  vol_Name :: string
  vol_Source :: VolumeSource

record PodTemplateSpec =
  pt_Annotations :: string_map
  pt_Labels :: string_map
  pt_InitContainers :: "Container list"
  pt_Containers :: "Container list"
  pt_SecurityContext :: "PodSecurityContext option"
  pt_Volumes :: "Volume list"
  pt_PriorityClassName :: string
  pt_Tolerations :: "Toleration list"
  pt_ServiceAccountName :: string
  pt_AutomountServiceAccountToken :: "bool option"
  pt_ImagePullSecrets :: "string list"
  pt_NodeSelector :: string_map
  pt_Affinity :: "Affinity option"
  pt_HostNetwork :: bool
  pt_DNSPolicy :: string
  pt_Rest :: k8s_value \<comment> \<open>every other field: grace period, restart policy\<close>

datatype StrategyType = RollingUpdateStrategy | OnDeleteStrategy

text \<open>
  The API server fills in \<open>spec.replicas\<close> and the partition of a rolling update, so a
  StatefulSet it returns never has these pointers nil; \<open>sts_RollingUpdate\<close> is \<open>None\<close> when the
  \<open>rollingUpdate\<close> block is absent and otherwise its partition.
\<close>

record StatefulSet =
  sts_Name :: NamespacedName
  sts_Generation :: int
  sts_Replicas :: int32
  sts_Strategy :: StrategyType
  sts_RollingUpdate :: "int32 option"
  sts_Template :: PodTemplateSpec
  sts_PVCRetentionPolicy :: "PVCRetentionPolicySpec option"
  st_ObservedGeneration :: int
  st_Replicas :: int32
  st_ReadyReplicas :: int32
  st_CurrentReplicas :: int32
  st_UpdatedReplicas :: int32
  st_CurrentRevision :: string
  st_UpdateRevision :: string

record PodCondition =
  pc_Type :: string
  pc_True :: bool \<comment> \<open>status \<open>True\<close>\<close>
  pc_False :: bool \<comment> \<open>status \<open>False\<close>; neither is \<open>Unknown\<close>\<close>
  pc_Reason :: string

record Pod =
  pod_Name :: string
  pod_NodeName :: string
  pod_Phase :: string
  pod_Labels :: string_map
  pod_Deleting :: bool \<comment> \<open>a deletion timestamp is set\<close>
  pod_Conditions :: "PodCondition list"
  pod_Waiting :: "string option list" \<comment> \<open>per container status, the waiting reason\<close>

record Node =
  node_Name :: string
  node_Labels :: string_map
  node_Taints :: "Taint list"
  node_Addresses :: "(string \<times> string) list" \<comment> \<open>type and address\<close>

record Service =
  svc_Name :: NamespacedName
  svc_Ingress :: "(string \<times> string) list" \<comment> \<open>IP and host name\<close>

record Deployment =
  dep_Name :: NamespacedName
  dep_Owner :: "string option" \<comment> \<open>the controller's UID\<close>
  dep_Labels :: string_map
  dep_Annotations :: string_map
  dep_Replicas :: int32
  dep_Selector :: string_map
  dep_Template :: PodTemplateSpec

record Job =
  job_Name :: NamespacedName
  job_Succeeded :: int
  job_Created :: int \<comment> \<open>nanoseconds, as \<open>now\<close>\<close>

record PVC =
  pvcr_Name :: NamespacedName
  pvcr_StorageClassName :: "string option"

section \<open>The AIStore cluster map\<close>

text \<open>
  A node of the cluster map, with what \<open>Smap.InMaint\<close> and \<open>Smap.InMaintOrDecomm\<close> of the AIStore
  library say of it. The node maps are lists in the order one run's \<open>range\<close> visits them; the
  theorems hold for every order.
\<close>

record Snode =
  sn_ID :: string
  sn_ControlHost :: string
  sn_PubURL :: string
  sn_InMaint :: bool
  sn_InMaintOrDecomm :: bool

record Smap =
  smap_UUID :: string
  smap_Pmap :: "Snode list"
  smap_Tmap :: "Snode list"
  smap_Primary :: "Snode option"

section \<open>Calls\<close>

datatype kind =
    KStatefulSet | KService | KConfigMap | KPDB | KPod | KDeployment | KPVC | KJob
  | KRole | KRoleBinding | KServiceAccount | KCertificate

text \<open>
  An object the operator builds from the CR, named by its builder and the builder's arguments.
\<close>

datatype built =
    GlobalCM AIStore | ProxyCM AIStore | TargetCM AIStore
  | ProxyHeadlessSvc AIStore | TargetHeadlessSvc AIStore
  | ProxyLoadBalancerSvc AIStore | TargetLoadBalancerSvc AIStore int32
  | AISServiceAccount AIStore | AISRole AIStore | AISRoleBinding AIStore
  | TLSCertificateFor AIStore "string list"
  | ProxyStatefulSet AIStore int32 | TargetStatefulSet AIStore int32 | TargetPDB AIStore
  | ClientDeployment Deployment | CleanupJob AIStore string

datatype action =
    Apply built | SetOwner built | Create built | UpdateObj built
  | Delete kind NamespacedName
  | PatchSS StatefulSet StatefulSet \<comment> \<open>the merge patch from the first to the second\<close>
  | PatchDeployment Deployment Deployment
  | GetClient | Health bool
  | SetClusterConfig ConfigToSet
  | StartMaintenance string bool \<comment> \<open>node, \<open>SkipRebalance\<close>\<close>
  | DecommissionNode string bool \<comment> \<open>node, \<open>RmUserData\<close>\<close>
  | DecommissionClusterAPI bool \<comment> \<open>\<open>rmUserData\<close>\<close>
  | ShutdownClusterAPI
  | SetPrimaryProxy string string bool
  | RecordEvent string string string \<comment> \<open>reason, action, note\<close>

datatype event =
    Did action "err option"
  | PatchedAIS AIStore AIStore "err + AIStore"
  | PatchedStatus AIStore "err + AIStore"
  | GotAIS NamespacedName "err + AIStore"
  | GotSS bool NamespacedName "err + StatefulSet" \<comment> \<open>the flag: read past the cache\<close>
  | GotPod NamespacedName "err + Pod"
  | GotPods string string_map "err + Pod list"
  | GotSvc NamespacedName "err + Service"
  | GotSvcs string string_map "err + Service list"
  | GotEndpoints NamespacedName "err + bool option list list"
  | GotDeployment NamespacedName "err + Deployment"
  | GotConfigMap NamespacedName "err + string option" \<comment> \<open>its controller's UID\<close>
  | GotNodes string_map "err + Node list"
  | GotJobs string "err + Job list"
  | GotPVCs string string_map "err + PVC list"
  | GotCurrent built "err + bool" \<comment> \<open>whether the live object already derives from it\<close>
  | GotAuthConf "err + string" \<comment> \<open>the service URL of the resolved configuration\<close>
  | GotSmap "err + Smap"

type_synonym history = "event list"

record env =
  lib :: k8s_lib
  now :: "history \<Rightarrow> int"
  ans_do :: "history \<Rightarrow> action \<Rightarrow> err option"
  ans_patch_ais :: "history \<Rightarrow> AIStore \<Rightarrow> AIStore \<Rightarrow> err + AIStore"
  ans_patch_status :: "history \<Rightarrow> AIStore \<Rightarrow> err + AIStore"
  ans_ais :: "history \<Rightarrow> NamespacedName \<Rightarrow> err + AIStore"
  ans_ss :: "history \<Rightarrow> bool \<Rightarrow> NamespacedName \<Rightarrow> err + StatefulSet"
  ans_pod :: "history \<Rightarrow> NamespacedName \<Rightarrow> err + Pod"
  ans_pods :: "history \<Rightarrow> string \<Rightarrow> string_map \<Rightarrow> err + Pod list"
  ans_svc :: "history \<Rightarrow> NamespacedName \<Rightarrow> err + Service"
  ans_svcs :: "history \<Rightarrow> string \<Rightarrow> string_map \<Rightarrow> err + Service list"
  ans_endpoints :: "history \<Rightarrow> NamespacedName \<Rightarrow> err + bool option list list"
  ans_deployment :: "history \<Rightarrow> NamespacedName \<Rightarrow> err + Deployment"
  ans_configmap :: "history \<Rightarrow> NamespacedName \<Rightarrow> err + string option"
  ans_nodes :: "history \<Rightarrow> string_map \<Rightarrow> err + Node list"
  ans_jobs :: "history \<Rightarrow> string \<Rightarrow> err + Job list"
  ans_pvcs :: "history \<Rightarrow> string \<Rightarrow> string_map \<Rightarrow> err + PVC list"
  ans_current :: "history \<Rightarrow> built \<Rightarrow> err + bool"
  ans_auth :: "history \<Rightarrow> err + string"
  ans_smap :: "history \<Rightarrow> err + Smap"

text \<open>
  The state of a run: the CR object the reconcile works on (Go passes one pointer to it
  everywhere) and the history.
\<close>

record st =
  cr :: AIStore
  hist :: history

type_synonym 'a op = "(env, st, 'a) M"

section \<open>Making a call\<close>

definition call :: "(env \<Rightarrow> history \<Rightarrow> err + 'a) \<Rightarrow> (err + 'a \<Rightarrow> event) \<Rightarrow> 'a op" where
  "call answer mk = (\<lambda>E s. let r = answer E (hist s); s' = s\<lparr>hist := mk r # hist s\<rparr>
     in (case r of Inl e \<Rightarrow> (Err e, s') | Inr a \<Rightarrow> (Ret a, s')))"

definition act :: "action \<Rightarrow> unit op" where
  "act a = (\<lambda>E s. let r = ans_do E (hist s) a; s' = s\<lparr>hist := Did a r # hist s\<rparr>
     in (case r of Some e \<Rightarrow> (Err e, s') | None \<Rightarrow> (Ret (), s')))"

definition getCR :: "AIStore op" where
  "getCR = gets cr"

definition changeCR :: "(AIStore \<Rightarrow> AIStore) \<Rightarrow> unit op" where
  "changeCR f = modify (\<lambda>s. s\<lparr>cr := f (cr s)\<rparr>)"

text \<open>The event recorder never fails.\<close>

definition Eventf :: "string \<Rightarrow> string \<Rightarrow> string \<Rightarrow> unit op" where
  "Eventf reason action note =
     modify (\<lambda>s. s\<lparr>hist := Did (RecordEvent reason action note) None # hist s\<rparr>)"

definition recordError :: "string \<Rightarrow> unit op" where
  "recordError msg = Eventf ''Failed'' ''Reconciled'' msg"

text \<open>\<open>if err != nil { recordError; return err }\<close> around a step.\<close>

definition or_record :: "'a op \<Rightarrow> string \<Rightarrow> 'a op" where
  "or_record m msg = bind (attempt m) (\<lambda>r. case r of
     Inl e \<Rightarrow> bind (recordError msg) (\<lambda>_. throw e) | Inr a \<Rightarrow> ret a)"

definition getSS :: "NamespacedName \<Rightarrow> StatefulSet op" where
  "getSS n = call (\<lambda>E h. ans_ss E h False n) (GotSS False n)"

definition getSSDirect :: "NamespacedName \<Rightarrow> StatefulSet op" where
  "getSSDirect n = call (\<lambda>E h. ans_ss E h True n) (GotSS True n)"

definition getPod :: "NamespacedName \<Rightarrow> Pod op" where
  "getPod n = call (\<lambda>E h. ans_pod E h n) (GotPod n)"

definition listPods :: "string \<Rightarrow> string_map \<Rightarrow> Pod list op" where
  "listPods ns labels = call (\<lambda>E h. ans_pods E h ns labels) (GotPods ns labels)"

definition getService :: "NamespacedName \<Rightarrow> Service op" where
  "getService n = call (\<lambda>E h. ans_svc E h n) (GotSvc n)"

definition listServices :: "string \<Rightarrow> string_map \<Rightarrow> Service list op" where
  "listServices ns labels = call (\<lambda>E h. ans_svcs E h ns labels) (GotSvcs ns labels)"

definition getEndpoints :: "NamespacedName \<Rightarrow> bool option list list op" where
  "getEndpoints n = call (\<lambda>E h. ans_endpoints E h n) (GotEndpoints n)"

definition getDeployment :: "NamespacedName \<Rightarrow> Deployment op" where
  "getDeployment n = call (\<lambda>E h. ans_deployment E h n) (GotDeployment n)"

definition getConfigMapOwner :: "NamespacedName \<Rightarrow> string option op" where
  "getConfigMapOwner n = call (\<lambda>E h. ans_configmap E h n) (GotConfigMap n)"

definition listNodes :: "string_map \<Rightarrow> Node list op" where
  "listNodes sel = call (\<lambda>E h. ans_nodes E h sel) (GotNodes sel)"

definition listJobs :: "string \<Rightarrow> Job list op" where
  "listJobs ns = call (\<lambda>E h. ans_jobs E h ns) (GotJobs ns)"

definition listPVCs :: "string \<Rightarrow> string_map \<Rightarrow> PVC list op" where
  "listPVCs ns labels = call (\<lambda>E h. ans_pvcs E h ns labels) (GotPVCs ns labels)"

definition getClusterMap :: "Smap op" where
  "getClusterMap = call (\<lambda>E h. ans_smap E h) GotSmap"

text \<open>A patch of the CR replaces the local object by the server's answer, unless it fails.\<close>

definition patchCR :: "AIStore \<Rightarrow> unit op" where
  "patchCR original = bind getCR (\<lambda>ais.
     bind (call (\<lambda>E h. ans_patch_ais E h original ais) (PatchedAIS original ais)) (\<lambda>a.
     changeCR (\<lambda>_. a)))"

text \<open>Building an object whose content is rendered as JSON, which may fail.\<close>

definition rendered :: "(k8s_lib \<Rightarrow> err + 'a) \<Rightarrow> built \<Rightarrow> built op" where
  "rendered build b = bind (asks lib) (\<lambda>L. bind (of_sum (build L)) (\<lambda>_. ret b))"

lemma run_call [run_simps]:
  "call answer mk E s = (case answer E (hist s) of
     Inl e \<Rightarrow> (Err e, s\<lparr>hist := mk (Inl e) # hist s\<rparr>)
   | Inr a \<Rightarrow> (Ret a, s\<lparr>hist := mk (Inr a) # hist s\<rparr>))"
  by (simp add: call_def Let_def split: sum.split)

lemma run_act [run_simps]:
  "act a E s = (case ans_do E (hist s) a of
     Some e \<Rightarrow> (Err e, s\<lparr>hist := Did a (Some e) # hist s\<rparr>)
   | None \<Rightarrow> (Ret (), s\<lparr>hist := Did a None # hist s\<rparr>))"
  by (simp add: act_def Let_def split: option.split)

lemma run_getCR [run_simps]: "getCR E s = (Ret (cr s), s)"
  by (simp add: getCR_def run_simps)

lemma run_changeCR [run_simps]: "changeCR f E s = (Ret (), s\<lparr>cr := f (cr s)\<rparr>)"
  by (simp add: changeCR_def run_simps)

lemma run_Eventf [run_simps]:
  "Eventf r a n E s = (Ret (), s\<lparr>hist := Did (RecordEvent r a n) None # hist s\<rparr>)"
  by (simp add: Eventf_def run_simps)

lemmas reads =
  getSS_def getSSDirect_def getPod_def listPods_def getService_def listServices_def
  getEndpoints_def getDeployment_def getConfigMapOwner_def listNodes_def listJobs_def
  listPVCs_def getClusterMap_def

end
