(* ===== verification/Footprint.thy ===== *)
theory Footprint
  imports World
begin

text \<open>
  Reasoning about the calls of a run: which classes of calls a function can make (its
  footprint), and which protocol its calls follow (every call is allowed by what happened
  before it).
\<close>

section \<open>Classes of calls\<close>

datatype call_class =
    CRead | CReadCR | CApply | CSetOwner | CCreate | CUpdate | CDelete kind | CPatchSS | CPatchDeployment
  | CGetClient | CHealth | CSetConfig | CMaintenance | CDecommNode | CDecommCluster
  | CShutdownAPI | CSetPrimary | CEvent | CPatchAIS | CPatchStatus

fun action_class :: "action \<Rightarrow> call_class" where
  "action_class (Apply _) = CApply"
| "action_class (SetOwner _) = CSetOwner"
| "action_class (Create _) = CCreate"
| "action_class (UpdateObj _) = CUpdate"
| "action_class (Delete k _) = CDelete k"
| "action_class (PatchSS _ _) = CPatchSS"
| "action_class (PatchDeployment _ _) = CPatchDeployment"
| "action_class GetClient = CGetClient"
| "action_class (Health _) = CHealth"
| "action_class (SetClusterConfig _) = CSetConfig"
| "action_class (StartMaintenance _ _) = CMaintenance"
| "action_class (DecommissionNode _ _) = CDecommNode"
| "action_class (DecommissionClusterAPI _) = CDecommCluster"
| "action_class ShutdownClusterAPI = CShutdownAPI"
| "action_class (SetPrimaryProxy _ _ _) = CSetPrimary"
| "action_class (RecordEvent _ _ _) = CEvent"

fun class_of :: "event \<Rightarrow> call_class" where
  "class_of (Did a _) = action_class a"
| "class_of (PatchedAIS _ _ _) = CPatchAIS"
| "class_of (PatchedStatus _ _) = CPatchStatus"
| "class_of (GotAIS _ _) = CReadCR"
| "class_of _ = CRead"

text \<open>The calls that can change the local CR object.\<close>

definition cr_classes :: "call_class set" where
  "cr_classes = {CPatchAIS, CPatchStatus}"

section \<open>Footprints\<close>

definition foot :: "call_class set \<Rightarrow> st \<Rightarrow> st \<Rightarrow> bool" where
  "foot C s s' \<longleftrightarrow> (\<exists>new. hist s' = new @ hist s \<and> class_of ` set new \<subseteq> C)
     \<and> (C \<inter> cr_classes = {} \<longrightarrow> cr s' = cr s)"

lemma foot_mono: "foot C s s' \<Longrightarrow> C \<subseteq> D \<Longrightarrow> foot D s s'"
  unfolding foot_def by blast

interpretation foot: step_rel "foot C" for C
proof
  show "foot C s s" for s by (simp add: foot_def)
  show "foot C s u" if "foot C s t" "foot C t u" for s t u
    using that by (fastforce simp: foot_def)
qed

named_theorems foot_intros \<open>footprints of the operator's functions\<close>

lemmas [foot_intros] = foot.steps_base steps_intros

lemma foot_call [foot_intros]: "(\<And>r. class_of (mk r) \<in> C) \<Longrightarrow> steps E (foot C) (call q mk)"
  by (auto simp: steps_def run_simps foot_def split: sum.split)

lemma foot_act [foot_intros]: "action_class a \<in> C \<Longrightarrow> steps E (foot C) (act a)"
  by (auto simp: steps_def run_simps foot_def split: option.split)

lemma foot_getCR [foot_intros]: "steps E (foot C) getCR"
  by (simp add: getCR_def foot.steps_gets)

lemma foot_changeCR [foot_intros]: "C \<inter> cr_classes \<noteq> {} \<Longrightarrow> steps E (foot C) (changeCR f)"
  by (simp add: steps_def run_simps foot_def)

lemma foot_Eventf [foot_intros]: "CEvent \<in> C \<Longrightarrow> steps E (foot C) (Eventf r a n)"
  by (simp add: steps_def run_simps foot_def)

lemma foot_recordError [foot_intros]: "CEvent \<in> C \<Longrightarrow> steps E (foot C) (recordError m)"
  by (simp add: recordError_def foot_Eventf)

lemma foot_rendered [foot_intros]: "steps E (foot C) (rendered build b)"
  unfolding rendered_def by (intro foot.steps_base steps_intros)

lemma foot_or_record [foot_intros]:
  "CEvent \<in> C \<Longrightarrow> steps E (foot C) m \<Longrightarrow> steps E (foot C) (or_record m msg)"
  unfolding or_record_def by (intro foot_intros)

lemma foot_reads [foot_intros]:
  assumes "CRead \<in> C"
  shows "steps E (foot C) (getSS n)" "steps E (foot C) (getSSDirect n)"
    "steps E (foot C) (getPod n)" "steps E (foot C) (listPods ns l)"
    "steps E (foot C) (getService n)" "steps E (foot C) (listServices ns l)"
    "steps E (foot C) (getEndpoints n)" "steps E (foot C) (getDeployment n)"
    "steps E (foot C) (getConfigMapOwner n)" "steps E (foot C) (listNodes sel)"
    "steps E (foot C) (listJobs ns)" "steps E (foot C) (listPVCs ns l)"
    "steps E (foot C) getClusterMap"
  unfolding reads by (simp_all add: foot_call assms)

lemma foot_patchCR [foot_intros]: "CPatchAIS \<in> C \<Longrightarrow> steps E (foot C) (patchCR orig)"
  unfolding patchCR_def by (intro foot_intros) (auto simp: cr_classes_def)

section \<open>Protocols\<close>

text \<open>
  \<open>allowed G new h\<close>: every call of \<open>new\<close>, made after the history \<open>h\<close>, is one that \<open>G\<close> allows
  after the calls before it.
\<close>

fun allowed :: "(event \<Rightarrow> history \<Rightarrow> bool) \<Rightarrow> history \<Rightarrow> history \<Rightarrow> bool" where
  "allowed G [] h = True"
| "allowed G (e # new) h = (G e (new @ h) \<and> allowed G new h)"

lemma allowed_append: "allowed G (a @ b) h = (allowed G a (b @ h) \<and> allowed G b h)"
  by (induction a) auto

lemma allowed_split:
  "allowed G new h \<longleftrightarrow> (\<forall>a e b. new = a @ e # b \<longrightarrow> G e (b @ h))"
proof (induction new)
  case (Cons x new)
  show ?case
  proof
    assume l: "allowed G (x # new) h"
    show "\<forall>a e b. x # new = a @ e # b \<longrightarrow> G e (b @ h)"
      using l Cons by (auto simp: Cons_eq_append_conv)
  next
    assume "\<forall>a e b. x # new = a @ e # b \<longrightarrow> G e (b @ h)"
    then have "G x (new @ h)" and "\<forall>a e b. new = a @ e # b \<longrightarrow> G e (b @ h)"
      by (blast, metis append_Cons)
    with Cons show "allowed G (x # new) h" by simp
  qed
qed simp

text \<open>
  \<open>under I G\<close>: from a state that satisfies the invariant \<open>I\<close>, the calls follow the protocol \<open>G\<close>
  and the state reached satisfies \<open>I\<close> again.
\<close>

definition under :: "(st \<Rightarrow> bool) \<Rightarrow> (event \<Rightarrow> history \<Rightarrow> bool) \<Rightarrow> st \<Rightarrow> st \<Rightarrow> bool" where
  "under I G s s' \<longleftrightarrow> (I s \<longrightarrow> I s' \<and> (\<exists>new. hist s' = new @ hist s \<and> allowed G new (hist s)))"

interpretation under: step_rel "under I G" for I G
proof
  show "under I G s s" for s by (simp add: under_def)
  show "under I G s u" if "under I G s t" "under I G t u" for s t u
    using that by (auto simp: under_def allowed_append)
qed

text \<open>
  A protocol and a class of calls that it allows as long as the invariant holds, and that leave
  the invariant alone: every function whose footprint stays in the class follows the protocol.
\<close>

locale protocol =
  fixes D :: "call_class set" and I :: "st \<Rightarrow> bool" and G :: "event \<Rightarrow> history \<Rightarrow> bool"
  assumes no_cr: "D \<inter> cr_classes = {}"
    and call_ok: "class_of e \<in> D \<Longrightarrow> I s \<Longrightarrow> G e (hist s)"
    and call_keeps: "class_of e \<in> D \<Longrightarrow> I s \<Longrightarrow> I (s\<lparr>hist := e # hist s\<rparr>)"
begin

lemma calls_allowed:
  "class_of ` set new \<subseteq> D \<Longrightarrow> I s \<Longrightarrow> allowed G new (hist s) \<and> I (s\<lparr>hist := new @ hist s\<rparr>)"
proof (induction new)
  case (Cons e new)
  then have "allowed G new (hist s)" and i: "I (s\<lparr>hist := new @ hist s\<rparr>)" and c: "class_of e \<in> D"
    by auto
  moreover from call_keeps [OF c i] have "I (s\<lparr>hist := e # new @ hist s\<rparr>)" by simp
  moreover from call_ok [OF c i] have "G e (new @ hist s)" by simp
  ultimately show ?case by simp
qed simp

lemma steps_foot:
  assumes "steps E (foot D) m"
  shows "steps E (under I G) m"
proof (rule steps_weaken [OF assms])
  fix s s'
  assume "foot D s s'"
  then obtain new where new: "hist s' = new @ hist s" "class_of ` set new \<subseteq> D" "cr s' = cr s"
    using no_cr by (auto simp: foot_def)
  then have s': "s' = s\<lparr>hist := new @ hist s\<rparr>" by simp
  show "under I G s s'"
    unfolding under_def s' using calls_allowed [of new s] new by auto
qed

end

section \<open>Hoare triples\<close>

text \<open>
  \<open>runs E G P m Q\<close>: started in a state that satisfies \<open>P\<close>, the calls of \<open>m\<close> follow the protocol
  \<open>G\<close>, and if \<open>m\<close> returns a value, the value and the final state satisfy \<open>Q\<close>.
\<close>

definition runs :: "env \<Rightarrow> (event \<Rightarrow> history \<Rightarrow> bool) \<Rightarrow> (st \<Rightarrow> bool) \<Rightarrow> 'a op \<Rightarrow> ('a \<Rightarrow> st \<Rightarrow> bool) \<Rightarrow> bool" where
  "runs E G P m Q \<longleftrightarrow> (\<forall>s r s'. P s \<longrightarrow> m E s = (r, s') \<longrightarrow>
     (\<exists>new. hist s' = new @ hist s \<and> allowed G new (hist s)) \<and> (\<forall>a. r = Ret a \<longrightarrow> Q a s'))"

lemma runsE:
  assumes "runs E G P m Q" and "P s" and "m E s = (r, s')"
  obtains new where "hist s' = new @ hist s" and "allowed G new (hist s)"
    and "\<forall>a. r = Ret a \<longrightarrow> Q a s'"
proof -
  from assms(1) [unfolded runs_def, rule_format, OF assms(2,3)]
  obtain new where "hist s' = new @ hist s" "allowed G new (hist s)" "\<forall>a. r = Ret a \<longrightarrow> Q a s'"
    by blast
  then show ?thesis using that by simp
qed

lemma runs_ret: "(\<And>s. P s \<Longrightarrow> Q a s) \<Longrightarrow> runs E G P (ret a) Q"
  by (simp add: runs_def run_simps)

lemma runs_throw: "runs E G P (throw e) Q"
  by (simp add: runs_def run_simps)

lemma runs_bind:
  assumes "runs E G P m R" and "\<And>a. runs E G (R a) (f a) Q"
  shows "runs E G P (bind m f) Q"
  unfolding runs_def
proof (intro allI impI)
  fix s r s'
  assume P: "P s" and run: "bind m f E s = (r, s')"
  obtain r1 s1 where m: "m E s = (r1, s1)" by (cases "m E s")
  obtain n1 where n1: "hist s1 = n1 @ hist s" "allowed G n1 (hist s)"
    and R: "\<forall>a. r1 = Ret a \<longrightarrow> R a s1" by (rule runsE [OF assms(1) P m])
  show "(\<exists>new. hist s' = new @ hist s \<and> allowed G new (hist s)) \<and> (\<forall>a. r = Ret a \<longrightarrow> Q a s')"
  proof (cases r1)
    case (Ret a)
    with run m have "f a E s1 = (r, s')" by (simp add: run_simps)
    then obtain n2 where n2: "hist s' = n2 @ hist s1" "allowed G n2 (hist s1)"
      and Q: "\<forall>a. r = Ret a \<longrightarrow> Q a s'" by (rule runsE [OF assms(2) R [rule_format, OF Ret]])
    from n1 n2 have "hist s' = (n2 @ n1) @ hist s" "allowed G (n2 @ n1) (hist s)"
      by (simp_all add: allowed_append)
    with Q show ?thesis by blast
  next
    case (Err e)
    with run m have "r = Err e" "s' = s1" by (simp_all add: run_simps)
    with n1 show ?thesis by blast
  next
    case Panic
    with run m have "r = Panic" "s' = s1" by (simp_all add: run_simps)
    with n1 show ?thesis by blast
  qed
qed

lemma runs_if:
  "(c \<Longrightarrow> runs E G P a Q) \<Longrightarrow> (\<not> c \<Longrightarrow> runs E G P b Q) \<Longrightarrow> runs E G P (if c then a else b) Q"
  by simp

lemma runs_weaken:
  "runs E G P m Q \<Longrightarrow> (\<And>s. P' s \<Longrightarrow> P s) \<Longrightarrow> (\<And>a s. Q a s \<Longrightarrow> Q' a s) \<Longrightarrow> runs E G P' m Q'"
  unfolding runs_def by blast

lemma runs_of_under: "steps E (under P G) m \<Longrightarrow> runs E G P m (\<lambda>_. P)"
  unfolding runs_def under_def steps_def by (metis snd_conv)

lemma runs_or_record:
  assumes "runs E G P m Q" and "\<And>r a n h. G (Did (RecordEvent r a n) None) h"
  shows "runs E G P (or_record m msg) Q"
  unfolding runs_def
proof (intro allI impI)
  fix s r s'
  assume P: "P s" and run: "or_record m msg E s = (r, s')"
  obtain r1 s1 where m: "m E s = (r1, s1)" by (cases "m E s")
  obtain n1 where n1: "hist s1 = n1 @ hist s" "allowed G n1 (hist s)"
    and Q: "\<forall>a. r1 = Ret a \<longrightarrow> Q a s1" by (rule runsE [OF assms(1) P m])
  show "(\<exists>new. hist s' = new @ hist s \<and> allowed G new (hist s)) \<and> (\<forall>a. r = Ret a \<longrightarrow> Q a s')"
  proof (cases r1)
    case (Ret a)
    with run m have "r = Ret a" "s' = s1" by (simp_all add: or_record_def run_simps)
    with n1 Q Ret show ?thesis by blast
  next
    case (Err e)
    let ?new = "Did (RecordEvent ''Failed'' ''Reconciled'' msg) None # n1"
    from Err run m n1(1) have "hist s' = ?new @ hist s" "r = Err e"
      by (auto simp: or_record_def recordError_def run_simps)
    moreover from n1(2) assms(2) have "allowed G ?new (hist s)" by simp
    ultimately show ?thesis by blast
  next
    case Panic
    with run m have "r = Panic" "s' = s1" by (simp_all add: or_record_def run_simps)
    with n1 show ?thesis by blast
  qed
qed

lemma runs_noevent: "(\<And>r a n h. G (Did (RecordEvent r a n) None) h) \<Longrightarrow> (\<And>s e. P s \<Longrightarrow> P (s\<lparr>hist := e # hist s\<rparr>)) \<Longrightarrow>
    runs E G P (Eventf r a n) (\<lambda>_. P)"
  by (auto simp: runs_def run_simps)

text \<open>The footprint of a call, as a fact about one run.\<close>

lemma foot_run:
  assumes "steps E (foot C) m" and "m E s = (r, s')"
  obtains new where "hist s' = new @ hist s" and "class_of ` set new \<subseteq> C"
    and "C \<inter> cr_classes = {} \<Longrightarrow> cr s' = cr s"
  using stepsD [OF assms] unfolding foot_def by blast

end
