(* ===== verification/K8s_Client.thy ===== *)
theory K8s_Client
  imports Footprint
begin

text \<open>
  The operator's Kubernetes client (\<^verbatim>\<open>operator/internal/client/api.go\<close>): what it adds on top of
  the API calls, that is create-if-missing, create-or-update, delete-if-present and the
  replica patches.
\<close>

section \<open>Reading\<close>

definition pod_has_ready_condition :: "Pod \<Rightarrow> bool" where
  "pod_has_ready_condition p = (\<exists>c\<in>set (pod_Conditions p). pc_Type c = ''Ready'' \<and> pc_True c)"

definition ListReadyPods :: "string \<Rightarrow> string_map \<Rightarrow> Pod list op" where
  "ListReadyPods ns labels =
     bind (listPods ns labels) (\<lambda>allPods. ret (filter pod_has_ready_condition allPods))"

text \<open>The union of the node names of both selectors; a set, so its order is immaterial.\<close>

definition ListNodesMatchingAISSelectors :: "string_map \<Rightarrow> string_map \<Rightarrow> string list op" where
  "ListNodesMatchingAISSelectors targetSel proxySel =
     bind (listNodes targetSel) (\<lambda>ts. bind (listNodes proxySel) (\<lambda>ps.
       ret (remdups (map node_Name ts @ map node_Name ps))))"

fun first_address :: "string \<Rightarrow> (string \<times> string) list \<Rightarrow> string option" where
  "first_address t [] = None"
| "first_address t ((ty, addr) # as) = (if ty = t \<and> addr \<noteq> [] then Some addr else first_address t as)"

definition NodePrimaryIP :: "Node \<Rightarrow> string" where
  "NodePrimaryIP node =
     (case first_address ''InternalIP'' (node_Addresses node) of
        Some a \<Rightarrow> a
      | None \<Rightarrow> (case first_address ''ExternalIP'' (node_Addresses node) of
          Some a \<Rightarrow> a | None \<Rightarrow> []))"

definition GetRunningPod :: "NamespacedName \<Rightarrow> Pod op" where
  "GetRunningPod name =
     bind (getPod name) (\<lambda>pod.
       if pod_Phase pod \<noteq> ''Running''
       then throw (OtherErr (''pod is not yet running (phase: '' @ pod_Phase pod @ '')''))
       else ret pod)"

section \<open>StatefulSet sizes\<close>

definition UpdateStatefulSetReplicas :: "NamespacedName \<Rightarrow> int32 \<Rightarrow> bool op" where
  "UpdateStatefulSetReplicas name n =
     bind (getSS name) (\<lambda>ss.
       if sts_Replicas ss = n then ret False
       else bind (act (PatchSS ss (ss\<lparr>sts_Replicas := n\<rparr>))) (\<lambda>_. ret True))"

definition IsStatefulSetSize :: "NamespacedName \<Rightarrow> int32 \<Rightarrow> bool op" where
  "IsStatefulSetSize name n = bind (getSS name) (\<lambda>ss. ret (st_Replicas ss = n))"

section \<open>Creating\<close>

definition PatchCRIfExists :: "AIStore \<Rightarrow> unit op" where
  "PatchCRIfExists original =
     bind (attempt (patchCR original)) (\<lambda>r. case r of
       Inl e \<Rightarrow> if IsNotFound e then ret () else throw e
     | Inr _ \<Rightarrow> ret ())"

text \<open>True when the object was there already; the owner is always the CR here.\<close>

definition CreateResourceIfNotExists :: "built \<Rightarrow> bool op" where
  "CreateResourceIfNotExists res =
     bind (act (SetOwner res)) (\<lambda>_.
     bind (attempt (act (Create res))) (\<lambda>r. case r of
       Inl e \<Rightarrow> if IsAlreadyExists e then ret True else throw e
     | Inr _ \<Rightarrow> ret False))"

definition CreateOrUpdateResource :: "built \<Rightarrow> bool op" where
  "CreateOrUpdateResource res =
     bind (CreateResourceIfNotExists res) (\<lambda>exists.
       if \<not> exists then ret True
       else bind (call (\<lambda>E h. ans_current E h res) (GotCurrent res)) (\<lambda>same.
         if same then ret False
         else bind (act (UpdateObj res)) (\<lambda>_. ret True)))"

section \<open>Deleting\<close>

definition allowObjNotFound :: "NamespacedName \<Rightarrow> err + unit \<Rightarrow> bool op" where
  "allowObjNotFound name r = (case r of
     Inl e \<Rightarrow> if IsNotFound e \<or> IsNoMatchError e then ret False
              else throw (OtherErr (''failed to delete '' @ nn_Name name))
   | Inr _ \<Rightarrow> ret True)"

definition DeleteResourceIfExists :: "kind \<Rightarrow> NamespacedName \<Rightarrow> bool op" where
  "DeleteResourceIfExists k name =
     bind (attempt (act (Delete k name))) (allowObjNotFound name)"

abbreviation "DeleteServiceIfExists \<equiv> DeleteResourceIfExists KService"
abbreviation "DeleteStatefulSetIfExists \<equiv> DeleteResourceIfExists KStatefulSet"
abbreviation "DeleteDeploymentIfExists \<equiv> DeleteResourceIfExists KDeployment"
abbreviation "DeleteConfigMapIfExists \<equiv> DeleteResourceIfExists KConfigMap"
abbreviation "DeletePodIfExists \<equiv> DeleteResourceIfExists KPod"
abbreviation "DeletePDBIfExists \<equiv> DeleteResourceIfExists KPDB"

fun delete_each :: "bool \<Rightarrow> kind \<Rightarrow> NamespacedName list \<Rightarrow> bool op" where
  "delete_each anyExisted k [] = ret anyExisted"
| "delete_each anyExisted k (n # ns) =
     bind (DeleteResourceIfExists k n) (\<lambda>existed. delete_each (anyExisted \<or> existed) k ns)"

definition DeleteAllServicesIfExist :: "string \<Rightarrow> string_map \<Rightarrow> bool op" where
  "DeleteAllServicesIfExist ns labels =
     bind (attempt (listServices ns labels)) (\<lambda>r. case r of
       Inl e \<Rightarrow> if IsNotFound e then ret False else throw e
     | Inr svcs \<Rightarrow> delete_each False KService (map svc_Name svcs))"

text \<open>With a storage class given, a claim of another class is skipped.\<close>

definition deleteAllPVCsIfExist :: "PVC list \<Rightarrow> string option \<Rightarrow> bool op" where
  "deleteAllPVCsIfExist pvcs sc =
     delete_each False KPVC (map pvcr_Name (filter (\<lambda>p.
       \<not> (case (sc, pvcr_StorageClassName p) of (Some c, Some d) \<Rightarrow> d \<noteq> c | _ \<Rightarrow> False)) pvcs))"

definition DeletePVCs :: "string \<Rightarrow> string_map \<Rightarrow> string option \<Rightarrow> bool op" where
  "DeletePVCs ns labels sc =
     bind (attempt (listPVCs ns labels)) (\<lambda>r. case r of
       Inl e \<Rightarrow> if IsNotFound e then ret False else throw e
     | Inr pvcs \<Rightarrow> deleteAllPVCsIfExist pvcs sc)"

section \<open>Footprints\<close>

lemma foot_GetRunningPod [foot_intros]: "CRead \<in> C \<Longrightarrow> steps E (foot C) (GetRunningPod n)"
  unfolding GetRunningPod_def by (intro foot_intros)

lemma foot_UpdateStatefulSetReplicas [foot_intros]:
  "CRead \<in> C \<Longrightarrow> CPatchSS \<in> C \<Longrightarrow> steps E (foot C) (UpdateStatefulSetReplicas n k)"
  unfolding UpdateStatefulSetReplicas_def by (intro foot_intros) auto

lemma foot_IsStatefulSetSize [foot_intros]: "CRead \<in> C \<Longrightarrow> steps E (foot C) (IsStatefulSetSize n k)"
  unfolding IsStatefulSetSize_def by (intro foot_intros)

lemma foot_PatchCRIfExists [foot_intros]: "CPatchAIS \<in> C \<Longrightarrow> steps E (foot C) (PatchCRIfExists a)"
  unfolding PatchCRIfExists_def by (intro foot_intros)

lemma foot_CreateResourceIfNotExists [foot_intros]:
  "CSetOwner \<in> C \<Longrightarrow> CCreate \<in> C \<Longrightarrow> steps E (foot C) (CreateResourceIfNotExists b)"
  unfolding CreateResourceIfNotExists_def by (intro foot_intros) auto

lemma foot_CreateOrUpdateResource [foot_intros]:
  "\<lbrakk>CSetOwner \<in> C; CCreate \<in> C; CRead \<in> C; CUpdate \<in> C\<rbrakk> \<Longrightarrow> steps E (foot C) (CreateOrUpdateResource b)"
  unfolding CreateOrUpdateResource_def by (intro foot_intros) auto

lemma foot_DeleteResourceIfExists [foot_intros]:
  "CDelete k \<in> C \<Longrightarrow> steps E (foot C) (DeleteResourceIfExists k n)"
  unfolding DeleteResourceIfExists_def allowObjNotFound_def by (intro foot_intros) auto

lemma foot_delete_each [foot_intros]: "CDelete k \<in> C \<Longrightarrow> steps E (foot C) (delete_each b k ns)"
  by (induction ns arbitrary: b) (auto intro: foot_intros)

lemma foot_DeleteAllServicesIfExist [foot_intros]:
  "CRead \<in> C \<Longrightarrow> CDelete KService \<in> C \<Longrightarrow> steps E (foot C) (DeleteAllServicesIfExist ns l)"
  unfolding DeleteAllServicesIfExist_def by (intro foot_intros)

lemma foot_DeletePVCs [foot_intros]:
  "CRead \<in> C \<Longrightarrow> CDelete KPVC \<in> C \<Longrightarrow> steps E (foot C) (DeletePVCs ns l sc)"
  unfolding DeletePVCs_def deleteAllPVCsIfExist_def by (intro foot_intros)

lemma foot_ListNodesMatchingAISSelectors [foot_intros]:
  "CRead \<in> C \<Longrightarrow> steps E (foot C) (ListNodesMatchingAISSelectors t p)"
  unfolding ListNodesMatchingAISSelectors_def by (intro foot_intros)

end
