(* ===== verification/Config_Gen.thy ===== *)
theory Config_Gen
  imports AIS_CR K8s_Lib
begin

text \<open>
  The configuration the operator gives a cluster: the proxy URLs
  (\<^verbatim>\<open>operator/internal/resources/aistore/cmn/url.go\<close>), the global configuration derived from the
  CR and its hashes (\<^verbatim>\<open>cmn/config.go\<close>, with \<open>ConfigureBackend\<close> and \<open>ConfigureAuth\<close> of
  \<^verbatim>\<open>operator/api/aistore/v1beta1/aisconfig.go\<close>), and the restart annotation
  (\<open>calcRestartConfigAnnotation\<close> of \<^verbatim>\<open>cluster_controller.go\<close>).
\<close>

section \<open>URLs\<close>

definition urlScheme :: "AIStore \<Rightarrow> string" where
  "urlScheme ais = (if UseHTTPS ais then ''https'' else ''http'')"

definition ClusterDomainOf :: "k8s_lib \<Rightarrow> AIStore \<Rightarrow> string" where
  "ClusterDomainOf L ais =
     (case SpecClusterDomain (Spec ais) of Some domain \<Rightarrow> domain | None \<Rightarrow> opClusterDomain L)"

definition controlSvcSuffix :: "k8s_lib \<Rightarrow> AIStore \<Rightarrow> string" where
  "controlSvcSuffix L ais = ''svc.'' @ ClusterDomainOf L ais @ '':''
     @ PortString L (IntraControlPort (d_ServiceSpec (ProxySpec (Spec ais))))"

definition publicSvcSuffix :: "k8s_lib \<Rightarrow> AIStore \<Rightarrow> string" where
  "publicSvcSuffix L ais = ''svc.'' @ ClusterDomainOf L ais @ '':''
     @ PortString L (PublicPort (d_ServiceSpec (ProxySpec (Spec ais))))"

definition DefaultProxyURL :: "k8s_lib \<Rightarrow> AIStore \<Rightarrow> string" where
  "DefaultProxyURL L ais = urlScheme ais @ ''://'' @ DefaultPrimaryName ais @ ''.''
     @ ProxyStatefulSetName ais @ ''.'' @ Namespace ais @ ''.'' @ controlSvcSuffix L ais"

definition IntraClusterURL :: "k8s_lib \<Rightarrow> AIStore \<Rightarrow> string" where
  "IntraClusterURL L ais = urlScheme ais @ ''://''
     @ ProxyStatefulSetName ais @ ''.'' @ Namespace ais @ ''.'' @ publicSvcSuffix L ais"

definition DiscoveryProxyURL :: "k8s_lib \<Rightarrow> AIStore \<Rightarrow> string" where
  "DiscoveryProxyURL L ais = urlScheme ais @ ''://''
     @ ProxyStatefulSetName ais @ ''.'' @ Namespace ais @ ''.'' @ controlSvcSuffix L ais"

section \<open>The configuration derived from the spec\<close>

definition ConfigureBackend :: "ConfigToUpdate \<Rightarrow> AIStoreSpec \<Rightarrow> ConfigToUpdate" where
  "ConfigureBackend c spec =
     (let backend = (case cf_Backend c of None \<Rightarrow> {} | Some b \<Rightarrow> b);
          backend = (if AWSSecretName spec \<noteq> None then insert AWS backend else backend);
          backend = (if GCPSecretName spec \<noteq> None then insert GCP backend else backend);
          backend = (if OCISecretName spec \<noteq> None then insert OCI backend else backend);
          backend = (if HasAzureConfig spec then insert Azure backend else backend)
      in c\<lparr>cf_Backend := Some backend\<rparr>)"

definition ConfigureAuth :: "ConfigToUpdate \<Rightarrow> AuthSpec option \<Rightarrow> string \<Rightarrow> ConfigToUpdate" where
  "ConfigureAuth c authSpec issuerCAPath =
     (if authSpec = None then c
      else
        let a = (case cf_Auth c of None \<Rightarrow> no_auth | Some a \<Rightarrow> a);
            a = (if auth_Enabled a = None then a\<lparr>auth_Enabled := Some True\<rparr> else a);
            a = (if issuerCAPath \<noteq> [] then
                   let o' = (case auth_OIDC a of None \<Rightarrow> no_oidc | Some o' \<Rightarrow> o')
                   in a\<lparr>auth_OIDC := Some (o'\<lparr>oidc_IssuerCA := Some issuerCAPath\<rparr>)\<rparr>
                 else a)
        in c\<lparr>cf_Auth := Some a\<rparr>)"

definition certPath :: "string \<Rightarrow> string" where
  "certPath file = ''/var/certs/'' @ file"

definition issuerCAPathOf :: "AIStoreSpec \<Rightarrow> string" where
  "issuerCAPathOf s = (if IssuerCAConfigMap s \<noteq> None then ''/etc/ais/oidc-ca/ca.crt'' else [])"

definition withTLSPaths :: "AIStore \<Rightarrow> ConfigToUpdate \<Rightarrow> ConfigToUpdate" where
  "withTLSPaths ais c =
     (if HasTLSEnabled ais then
        let net = (case cf_Net c of None \<Rightarrow> \<lparr>net_HTTP = None\<rparr> | Some n \<Rightarrow> n);
            http = (case net_HTTP net of None \<Rightarrow> no_http | Some h \<Rightarrow> h)
        in c\<lparr>cf_Net := Some (net\<lparr>net_HTTP := Some (http\<lparr>
               http_Certificate := Some (certPath ''tls.crt''),
               http_CertKey := Some (certPath ''tls.key''),
               http_ClientCA := Some (certPath ''ca.crt'')\<rparr>)\<rparr>)\<rparr>
      else c)"

definition withRebalance :: "AIStore \<Rightarrow> ConfigToUpdate \<Rightarrow> ConfigToUpdate" where
  "withRebalance ais c =
     (if IsConditionTrue ais ConditionReadyRebalance then
        (if \<not> IsRebalanceEnabledSet c then UpdateRebalanceEnabled c (Some True) else c)
      else UpdateRebalanceEnabled c (Some False))"

text \<open>The overrides of \<open>GenerateConfigToSet\<close>, before the conversion to the AIStore type.\<close>

definition specConfig :: "AIStore \<Rightarrow> ConfigToUpdate" where
  "specConfig ais =
     (let c = (case SpecConfig (Spec ais) of None \<Rightarrow> no_config | Some c \<Rightarrow> c);
          c = withTLSPaths ais c;
          c = withRebalance ais c;
          c = (if HasCloudBackend (Spec ais) then ConfigureBackend c (Spec ais) else c)
      in ConfigureAuth c (Auth (Spec ais)) (issuerCAPathOf (Spec ais)))"

definition GenerateConfigToSet :: "k8s_lib \<Rightarrow> AIStore \<Rightarrow> err + ConfigToSet" where
  "GenerateConfigToSet L ais = MorphMarshal L (specConfig ais)"

definition newInitialConfig :: "k8s_lib \<Rightarrow> AIStore \<Rightarrow> ConfigToSet" where
  "newInitialConfig L ais = ProxyConf L (DefaultProxyURL L ais) (DefaultProxyURL L ais) (DiscoveryProxyURL L ais)"

definition GenerateGlobalConfig :: "k8s_lib \<Rightarrow> AIStore \<Rightarrow> err + ConfigToSet" where
  "GenerateGlobalConfig L ais =
     (case GenerateConfigToSet L ais of Inl e \<Rightarrow> Inl e
      | Inr configToSet \<Rightarrow> Inr (MergeConf L (newInitialConfig L ais) configToSet))"

definition HashGlobalConfig :: "k8s_lib \<Rightarrow> ConfigToSet \<Rightarrow> err + string" where
  "HashGlobalConfig L c = (case MarshalConf L c of Inl e \<Rightarrow> Inl e | Inr d \<Rightarrow> Inr (Sha256Hex L d))"

definition HashRestartConfigs :: "k8s_lib \<Rightarrow> ConfigToSet \<Rightarrow> err + string" where
  "HashRestartConfigs L c =
     (case MarshalNetHTTP L c of
        None \<Rightarrow> Inr (Sha256Hex L [])
      | Some (Inl e) \<Rightarrow> Inl e
      | Some (Inr d) \<Rightarrow> Inr (Sha256Hex L d))"

text \<open>
  Rendering the global ConfigMap (\<open>NewGlobalCM\<close> of \<^verbatim>\<open>cmn/configmap.go\<close>) can fail on the
  configuration, on its JSON or on the JSON of the host-name map; its data are those texts.
\<close>

definition NewGlobalCM :: "k8s_lib \<Rightarrow> AIStore \<Rightarrow> err + (string \<times> string option)" where
  "NewGlobalCM L ais =
     (case GenerateGlobalConfig L ais of Inl e \<Rightarrow> Inl e
      | Inr globalConf \<Rightarrow> (case MarshalConf L globalConf of Inl e \<Rightarrow> Inl e
        | Inr conf \<Rightarrow> (case HostnameMap (Spec ais) of None \<Rightarrow> Inr (conf, None)
          | Some m \<Rightarrow> (case MarshalMap L m of Inl e \<Rightarrow> Inl e
            | Inr hostnameMap \<Rightarrow> Inr (conf, Some hostnameMap)))))"

section \<open>The restart annotation\<close>

definition ConfigHashAnnotation :: string where
  "ConfigHashAnnotation = ''config.aistore.nvidia.com/hash''"

definition RestartConfigHashAnnotation :: string where
  "RestartConfigHashAnnotation = ''config.aistore.nvidia.com/restart-hash''"

definition RestartConfigHashInitial :: string where
  "RestartConfigHashInitial = ''.initial''"

text \<open>A missing annotation reads as the empty string.\<close>

definition annotation :: "string_map \<Rightarrow> string \<Rightarrow> string" where
  "annotation m k = (case fmlookup m k of None \<Rightarrow> [] | Some v \<Rightarrow> v)"

definition restartAnnotation :: "string \<Rightarrow> string \<Rightarrow> string" where
  "restartAnnotation annot restartHash =
     (if annot = [] then restartHash @ RestartConfigHashInitial
      else if HasSuffix annot RestartConfigHashInitial then
        (if TrimSuffix annot RestartConfigHashInitial = restartHash then annot else restartHash)
      else restartHash)"

definition calcRestartConfigAnnotation :: "k8s_lib \<Rightarrow> string \<Rightarrow> ConfigToSet \<Rightarrow> err + string" where
  "calcRestartConfigAnnotation L annot conf =
     (case HashRestartConfigs L conf of Inl e \<Rightarrow> Inl e
      | Inr restartHash \<Rightarrow> Inr (restartAnnotation annot restartHash))"

section \<open>Lemmas\<close>

lemma withRebalance_enabled:
  "IsRebalanceEnabledSet (withRebalance ais c)"
  "RebalanceEnabled (Some (withRebalance ais c)) =
     (IsConditionTrue ais ConditionReadyRebalance \<and> RebalanceEnabled (Some c))"
  by (auto simp: withRebalance_def IsRebalanceEnabledSet_def RebalanceEnabled_def
      UpdateRebalanceEnabled_def Let_def split: option.splits)

lemma withTLSPaths_rebalance [simp]: "cf_Rebalance (withTLSPaths ais c) = cf_Rebalance c"
  by (simp add: withTLSPaths_def Let_def)

lemma ConfigureBackend_rebalance [simp]: "cf_Rebalance (ConfigureBackend c s) = cf_Rebalance c"
  by (simp add: ConfigureBackend_def Let_def)

lemma ConfigureAuth_rebalance [simp]: "cf_Rebalance (ConfigureAuth c a p) = cf_Rebalance c"
  by (simp add: ConfigureAuth_def Let_def)

lemma RebalanceEnabled_cong: "cf_Rebalance c = cf_Rebalance d \<Longrightarrow>
    RebalanceEnabled (Some c) = RebalanceEnabled (Some d)"
  by (simp add: RebalanceEnabled_def)

lemma RebalanceEnabled_no_config: "RebalanceEnabled (Some no_config) = RebalanceEnabled None"
  by (simp add: RebalanceEnabled_def no_config_def)

lemma specConfig_rebalance:
  "RebalanceEnabled (Some (specConfig ais)) =
     (IsConditionTrue ais ConditionReadyRebalance \<and> RebalanceEnabled (SpecConfig (Spec ais)))"
proof -
  let ?c0 = "case SpecConfig (Spec ais) of None \<Rightarrow> no_config | Some c \<Rightarrow> c"
  have "cf_Rebalance (specConfig ais) = cf_Rebalance (withRebalance ais (withTLSPaths ais ?c0))"
    by (simp add: specConfig_def Let_def)
  then have "RebalanceEnabled (Some (specConfig ais))
      = (IsConditionTrue ais ConditionReadyRebalance \<and> RebalanceEnabled (Some (withTLSPaths ais ?c0)))"
    by (simp only: RebalanceEnabled_cong [of "specConfig ais"] withRebalance_enabled)
  moreover have "RebalanceEnabled (Some (withTLSPaths ais ?c0)) = RebalanceEnabled (Some ?c0)"
    by (rule RebalanceEnabled_cong) simp
  moreover have "RebalanceEnabled (Some ?c0) = RebalanceEnabled (SpecConfig (Spec ais))"
    by (simp add: RebalanceEnabled_no_config split: option.split)
  ultimately show ?thesis by simp
qed

lemma HasSuffix_initial [simp]: "HasSuffix (x @ RestartConfigHashInitial) RestartConfigHashInitial"
  by (simp add: suffix_def)

lemma RestartConfigHashInitial_nonempty [simp]: "RestartConfigHashInitial \<noteq> []"
  by (simp add: RestartConfigHashInitial_def)

lemma restartAnnotation_initial_iff:
  assumes "\<not> HasSuffix h RestartConfigHashInitial"
  shows "HasSuffix (restartAnnotation annot h) RestartConfigHashInitial
     \<longleftrightarrow> annot = [] \<or> annot = h @ RestartConfigHashInitial"
proof (cases "HasSuffix annot RestartConfigHashInitial")
  case True
  then obtain x where "annot = x @ RestartConfigHashInitial" by (auto simp: suffix_def)
  with assms show ?thesis by (auto simp: restartAnnotation_def)
next
  case False
  with assms show ?thesis by (auto simp: restartAnnotation_def)
qed

lemma restartAnnotation_idem:
  assumes "\<not> HasSuffix h RestartConfigHashInitial" and "h \<noteq> []"
  shows "restartAnnotation (restartAnnotation annot h) h = restartAnnotation annot h"
proof (cases "HasSuffix annot RestartConfigHashInitial")
  case True
  then obtain x where "annot = x @ RestartConfigHashInitial" by (auto simp: suffix_def)
  with assms show ?thesis by (auto simp: restartAnnotation_def)
next
  case False
  with assms show ?thesis by (auto simp: restartAnnotation_def)
qed

end
