(* ===== verification/Rollout.thy ===== *)
theory Rollout
  imports K8s_Client Config_Gen
begin

text \<open>
  What the proxy and the target controller share
  (\<^verbatim>\<open>operator/internal/controller/aistore/common.go\<close>): when a change of the desired pod template
  must roll the pods and how the live template is brought to it, how the status of a
  StatefulSet is read, when it is scaled, and the tests on pods, nodes and host names.

  \<open>equality.Semantic.DeepEqual\<close> is equality of the model's values.
\<close>

section \<open>Pod templates: does a change need a rollout?\<close>

type_synonym verdict = "bool \<times> string" \<comment> \<open>and the reason\<close>

record containerChecks =
  chk_env :: bool
  chk_resources :: bool
  chk_probes :: bool
  chk_securityContext :: bool

definition AISContainerName :: string where "AISContainerName = ''ais-node''"
definition LabelManagedBy :: string where "LabelManagedBy = ''app.kubernetes.io/managed-by''"
definition LabelManagedByValue :: string where "LabelManagedByValue = ''ais-operator''"

definition primaryContainerChecks :: containerChecks where
  "primaryContainerChecks = \<lparr>chk_env = True, chk_resources = True, chk_probes = True, chk_securityContext = True\<rparr>"

definition sidecarContainerChecks :: containerChecks where
  "sidecarContainerChecks = \<lparr>chk_env = False, chk_resources = True, chk_probes = False, chk_securityContext = True\<rparr>"

definition initContainerChecks :: containerChecks where
  "initContainerChecks = \<lparr>chk_env = False, chk_resources = False, chk_probes = False, chk_securityContext = True\<rparr>"

definition containerChecksFor :: "string \<Rightarrow> containerChecks" where
  "containerChecksFor name =
     (if name = AISContainerName then primaryContainerChecks else sidecarContainerChecks)"

definition shouldUpdateProbes :: "Container \<Rightarrow> Container \<Rightarrow> bool" where
  "shouldUpdateProbes desired current =
     (c_LivenessProbe desired \<noteq> c_LivenessProbe current \<or>
      c_ReadinessProbe desired \<noteq> c_ReadinessProbe current \<or>
      c_StartupProbe desired \<noteq> c_StartupProbe current)"

definition shouldUpdateContainerSpec :: "Container \<Rightarrow> Container \<Rightarrow> containerChecks \<Rightarrow> verdict" where
  "shouldUpdateContainerSpec desired current c =
     (let reason = (\<lambda>detail. ''container \"'' @ c_Name desired @ ''\": '' @ detail) in
      if c_Name desired \<noteq> c_Name current
        then (True, reason (''renamed from \"'' @ c_Name current @ ''\"''))
      else if c_Image desired \<noteq> c_Image current then (True, reason ''updating image'')
      else if chk_env c \<and> c_Env desired \<noteq> c_Env current
        then (True, reason ''updating env variables'')
      else if chk_resources c \<and> c_Resources desired \<noteq> c_Resources current
        then (True, reason ''updating resource requests/limits'')
      else if chk_probes c \<and> shouldUpdateProbes desired current
        then (True, reason ''updating health probes'')
      else if chk_securityContext c \<and> c_SecurityContext desired \<noteq> c_SecurityContext current
        then (True, reason ''updating security context'')
      else (False, []))"

text \<open>The loop over two slices of the same length: the first pair that asks for an update wins.\<close>

fun first_update :: "(Container \<Rightarrow> containerChecks) \<Rightarrow> Container list \<Rightarrow> Container list \<Rightarrow> verdict" where
  "first_update chk (d # ds) (c # cs) =
     (let v = shouldUpdateContainerSpec d c (chk d) in if fst v then v else first_update chk ds cs)"
| "first_update chk _ _ = (False, [])"

definition shouldUpdateInitContainers :: "PodTemplateSpec \<Rightarrow> PodTemplateSpec \<Rightarrow> verdict" where
  "shouldUpdateInitContainers desired current =
     (if length (pt_InitContainers desired) \<noteq> length (pt_InitContainers current)
      then (True, ''updating desired init containers'')
      else first_update (\<lambda>_. initContainerChecks) (pt_InitContainers desired) (pt_InitContainers current))"

definition shouldUpdateContainers :: "PodTemplateSpec \<Rightarrow> PodTemplateSpec \<Rightarrow> verdict" where
  "shouldUpdateContainers desired current =
     (if length (pt_Containers desired) \<noteq> length (pt_Containers current)
      then (True, ''updating desired containers'')
      else first_update (\<lambda>d. containerChecksFor (c_Name d)) (pt_Containers desired) (pt_Containers current))"

definition shouldUpdatePodSecurityContext :: "PodTemplateSpec \<Rightarrow> PodTemplateSpec \<Rightarrow> verdict" where
  "shouldUpdatePodSecurityContext desired current =
     (if pt_SecurityContext desired \<noteq> pt_SecurityContext current
      then (True, ''updating security context for pod'') else (False, []))"

definition shouldUpdateAnnotations :: "k8s_lib \<Rightarrow> PodTemplateSpec \<Rightarrow> PodTemplateSpec \<Rightarrow> verdict" where
  "shouldUpdateAnnotations L desired current =
     (let desiredAnn = pt_Annotations desired; currentAnn = pt_Annotations current in
      if DeepDerivative L desiredAnn currentAnn then (False, [])
      else (case fmlookup desiredAnn RestartConfigHashAnnotation of
          None \<Rightarrow> (True, ''updating annotations'')
        | Some restartHash \<Rightarrow>
            (let nonInitial = (\<not> HasSuffix restartHash RestartConfigHashInitial) in
             if nonInitial \<and> restartHash \<noteq> annotation currentAnn RestartConfigHashAnnotation
             then (True, ''updating annotations due to changed restart config hash'')
             else (\<not> DeepDerivative L (fmdrop RestartConfigHashAnnotation desiredAnn) currentAnn,
                   ''updating annotations''))))"

definition onlyManagedByLabelAdded :: "string_map \<Rightarrow> string_map \<Rightarrow> bool" where
  "onlyManagedByLabelAdded desired current =
     (if annotation current LabelManagedBy = LabelManagedByValue then False
      else if annotation desired LabelManagedBy \<noteq> LabelManagedByValue then False
      else fmdrop LabelManagedBy desired = current)"

definition shouldUpdateLabels :: "PodTemplateSpec \<Rightarrow> PodTemplateSpec \<Rightarrow> verdict" where
  "shouldUpdateLabels desired current =
     (if pt_Labels desired = pt_Labels current then (False, [])
      else if onlyManagedByLabelAdded (pt_Labels desired) (pt_Labels current) then (False, [])
      else (True, ''updating labels''))"

text \<open>A map filled from a slice by name: the last volume of a name is the one looked up.\<close>

definition volume_map :: "Volume list \<Rightarrow> (string \<rightharpoonup> Volume)" where
  "volume_map vs = map_of (rev (map (\<lambda>v. (vol_Name v, v)) vs))"

fun first_volume_change :: "(string \<rightharpoonup> Volume) \<Rightarrow> Volume list \<Rightarrow> verdict" where
  "first_volume_change currentMap [] = (False, [])"
| "first_volume_change currentMap (dv # dvs) =
     (if currentMap (vol_Name dv) \<noteq> Some dv
      then (True, ''updating volumes ('' @ vol_Name dv @ '' changed)'')
      else first_volume_change currentMap dvs)"

definition shouldUpdateVolumes :: "PodTemplateSpec \<Rightarrow> PodTemplateSpec \<Rightarrow> verdict" where
  "shouldUpdateVolumes desired current =
     (if length (pt_Volumes desired) > length (pt_Volumes current)
        then (True, ''updating volumes (new volumes)'')
      else if length (pt_Volumes desired) < length (pt_Volumes current)
        then (True, ''updating volumes (removed volumes)'')
      else first_volume_change (volume_map (pt_Volumes current)) (pt_Volumes desired))"

definition shouldUpdatePriorityClass :: "PodTemplateSpec \<Rightarrow> PodTemplateSpec \<Rightarrow> verdict" where
  "shouldUpdatePriorityClass desired current =
     (if pt_PriorityClassName desired \<noteq> pt_PriorityClassName current
      then (True, ''updating priority class name'') else (False, []))"

definition shouldUpdateTolerations :: "PodTemplateSpec \<Rightarrow> PodTemplateSpec \<Rightarrow> verdict" where
  "shouldUpdateTolerations desired current =
     (if pt_Tolerations desired \<noteq> pt_Tolerations current
      then (True, ''updating tolerations'') else (False, []))"

fun shouldUpdate :: "PodTemplateSpec \<Rightarrow> PodTemplateSpec \<Rightarrow>
    (PodTemplateSpec \<Rightarrow> PodTemplateSpec \<Rightarrow> verdict) list \<Rightarrow> verdict" where
  "shouldUpdate desired current [] = (False, [])"
| "shouldUpdate desired current (f # fs) =
     (let v = f desired current in if fst v then v else shouldUpdate desired current fs)"

definition shouldUpdatePodTemplate :: "k8s_lib \<Rightarrow> PodTemplateSpec \<Rightarrow> PodTemplateSpec \<Rightarrow> verdict" where
  "shouldUpdatePodTemplate L desired current = shouldUpdate desired current
     [shouldUpdateInitContainers, shouldUpdateContainers, shouldUpdatePodSecurityContext,
      shouldUpdateAnnotations L, shouldUpdateLabels, shouldUpdateVolumes,
      shouldUpdatePriorityClass, shouldUpdateTolerations]"

section \<open>Environment variables that do not count\<close>

datatype SyncMode = SyncModeIgnoreNone | SyncModeIgnoreRemovedEnv | SyncModeIgnoreAddedEnv

definition envSliceToMap :: "EnvVar list \<Rightarrow> string_map" where
  "envSliceToMap envs = fmap_of_list (rev (map (\<lambda>e. (env_Name e, env_Value e)) envs))"

definition normalize_env :: "string set \<Rightarrow> string_map \<Rightarrow> string_map" where
  "normalize_env ignored m = fmfilter (\<lambda>k. k \<notin> ignored) m"

definition compareEnvWithIgnored ::
  "EnvVar list \<Rightarrow> EnvVar list \<Rightarrow> string set \<Rightarrow> SyncMode \<Rightarrow> bool" where
  "compareEnvWithIgnored des cur ignored mode =
     (let desired = envSliceToMap des; current = envSliceToMap cur in
      if normalize_env ignored desired \<noteq> normalize_env ignored current then True
      else (\<exists>e\<in>ignored.
        if mode = SyncModeIgnoreRemovedEnv \<and> fmlookup desired e = None then False
        else if mode = SyncModeIgnoreAddedEnv \<and> fmlookup current e = None then False
        else annotation desired e \<noteq> annotation current e))"

section \<open>Pod templates: bringing the live one to the desired one\<close>

definition syncContainer :: "Container \<Rightarrow> Container \<Rightarrow> bool \<times> Container" where
  "syncContainer desired current = (if desired = current then (False, current) else (True, desired))"

text \<open>Whether anything was updated, and the new value of \<open>*current\<close>.\<close>

definition syncContainers :: "Container list \<Rightarrow> Container list \<Rightarrow> bool \<times> Container list" where
  "syncContainers desired current =
     (if length desired \<noteq> length current then (True, desired)
      else (let rs = map (\<lambda>(d, c). syncContainer d c) (zip desired current)
            in (\<exists>r\<in>set rs. fst r, map snd rs)))"

text \<open>One \<open>if desired.X != current.X { current.X = desired.X; updated = true }\<close> of the body.\<close>

definition sync_if :: "('t \<Rightarrow> bool) \<Rightarrow> ('t \<Rightarrow> 't) \<Rightarrow> bool \<times> 't \<Rightarrow> bool \<times> 't" where
  "sync_if differs assign s = (if differs (snd s) then (True, assign (snd s)) else s)"

definition sync_init_containers :: "PodTemplateSpec \<Rightarrow> bool \<times> PodTemplateSpec \<Rightarrow> bool \<times> PodTemplateSpec" where
  "sync_init_containers desired s =
     (let r = syncContainers (pt_InitContainers desired) (pt_InitContainers (snd s))
      in (fst s \<or> fst r, (snd s)\<lparr>pt_InitContainers := snd r\<rparr>))"

definition sync_containers :: "PodTemplateSpec \<Rightarrow> bool \<times> PodTemplateSpec \<Rightarrow> bool \<times> PodTemplateSpec" where
  "sync_containers desired s =
     (let r = syncContainers (pt_Containers desired) (pt_Containers (snd s))
      in (fst s \<or> fst r, (snd s)\<lparr>pt_Containers := snd r\<rparr>))"

definition syncPodTemplate ::
  "k8s_lib \<Rightarrow> PodTemplateSpec \<Rightarrow> PodTemplateSpec \<Rightarrow> bool \<times> PodTemplateSpec" where
  "syncPodTemplate L desired current =
     (let s = sync_init_containers desired (False, current);
          s = sync_containers desired s;
          s = sync_if (\<lambda>t. \<not> DeepDerivative L (pt_Annotations desired) (pt_Annotations t))
                (pt_Annotations_update (\<lambda>_. pt_Annotations desired)) s;
          s = sync_if (\<lambda>t. pt_Labels desired \<noteq> pt_Labels t)
                (pt_Labels_update (\<lambda>_. pt_Labels desired)) s;
          s = sync_if (\<lambda>t. pt_SecurityContext desired \<noteq> pt_SecurityContext t)
                (pt_SecurityContext_update (\<lambda>_. pt_SecurityContext desired)) s;
          s = sync_if (\<lambda>t. pt_Volumes desired \<noteq> pt_Volumes t)
                (pt_Volumes_update (\<lambda>_. pt_Volumes desired)) s;
          s = sync_if (\<lambda>t. pt_PriorityClassName desired \<noteq> pt_PriorityClassName t)
                (pt_PriorityClassName_update (\<lambda>_. pt_PriorityClassName desired)) s;
          s = sync_if (\<lambda>t. pt_Tolerations desired \<noteq> pt_Tolerations t)
                (pt_Tolerations_update (\<lambda>_. pt_Tolerations desired)) s
      in s)"

section \<open>Results\<close>

text \<open>\<open>ctrl.Result\<close>: how many seconds to wait before the next reconcile, 0 for none asked.\<close>

record Result =
  RequeueAfter :: nat

definition done_result :: Result where "done_result = \<lparr>RequeueAfter = 0\<rparr>"

abbreviation after_seconds :: "nat \<Rightarrow> Result" where "after_seconds n \<equiv> \<lparr>RequeueAfter = n\<rparr>"

definition IsZero :: "Result \<Rightarrow> bool" where "IsZero r = (RequeueAfter r = 0)"

definition statefulsetRequeueDelay :: nat where "statefulsetRequeueDelay = 1"

section \<open>The status of a StatefulSet\<close>

definition isStatusCurrent :: "StatefulSet \<Rightarrow> bool" where
  "isStatusCurrent ss = (st_ObservedGeneration ss \<ge> sts_Generation ss)"

definition isRolloutInProgress :: "StatefulSet \<Rightarrow> bool" where
  "isRolloutInProgress ss =
     (if st_UpdateRevision ss = [] then False
      else if st_CurrentRevision ss = st_UpdateRevision ss then False
      else if sts_Strategy ss = OnDeleteStrategy
        then st_UpdatedReplicas ss < min (sts_Replicas ss) (st_Replicas ss)
      else True)"

definition isScalingInProgress :: "StatefulSet \<Rightarrow> bool" where
  "isScalingInProgress ss =
     (if isRolloutInProgress ss then False else st_Replicas ss \<noteq> sts_Replicas ss)"

definition statefulsetScalingNeeded :: "StatefulSet \<Rightarrow> int32 \<Rightarrow> int32 \<Rightarrow> bool \<Rightarrow> bool" where
  "statefulsetScalingNeeded ss desired maxUnavailable autoScaling =
     (let specReplicas = sts_Replicas ss in
      if desired > specReplicas then True
      else if desired = specReplicas then False
      else if \<not> autoScaling then True
      else if isRolloutInProgress ss \<or> isScalingInProgress ss then False
      else (let unavailable = wrap32 (specReplicas - st_ReadyReplicas ss)
            in unavailable = 0 \<or> unavailable > maxUnavailable))"

definition confirmScalingNeeded ::
  "NamespacedName \<Rightarrow> StatefulSet \<Rightarrow> int32 \<Rightarrow> int32 \<Rightarrow> bool \<Rightarrow> bool op" where
  "confirmScalingNeeded key cached desired maxUnavailable autoScaling =
     (if \<not> autoScaling \<or> desired \<ge> sts_Replicas cached then ret True
      else bind (getSSDirect key) (\<lambda>fresh.
        ret (statefulsetScalingNeeded fresh desired maxUnavailable autoScaling)))"

definition isStatefulSetFullyReady :: "int32 \<Rightarrow> StatefulSet \<Rightarrow> bool" where
  "isStatefulSetFullyReady desiredSize ss =
     (let specReplicas = sts_Replicas ss in
      if specReplicas \<noteq> desiredSize then False
      else if st_UpdateRevision ss \<noteq> [] \<and> specReplicas \<noteq> st_UpdatedReplicas ss then False
      else if st_Replicas ss \<noteq> specReplicas then False
      else specReplicas = st_ReadyReplicas ss)"

definition isStatefulSetReady :: "StatefulSet \<Rightarrow> int32 \<Rightarrow> int32 \<Rightarrow> bool \<Rightarrow> bool" where
  "isStatefulSetReady ss desired minReady autoScaling =
     (if isStatefulSetFullyReady desired ss then True
      else if \<not> autoScaling then False
      else if isRolloutInProgress ss \<or> isScalingInProgress ss then False
      else st_ReadyReplicas ss \<ge> minReady)"

definition shouldUpdatePVCRetentionPolicy ::
  "PVCRetentionPolicySpec option \<Rightarrow> PVCRetentionPolicySpec option \<Rightarrow> bool" where
  "shouldUpdatePVCRetentionPolicy desired current =
     (if desired = None then
        (case current of None \<Rightarrow> False
         | Some c \<Rightarrow> WhenDeleted c \<noteq> RetainPVC \<or> WhenScaled c \<noteq> RetainPVC)
      else desired \<noteq> current)"

section \<open>Pods\<close>

text \<open>A pod looked up in a map of pods may be nil.\<close>

definition isPodActive :: "Pod option \<Rightarrow> bool" where
  "isPodActive pod = (case pod of None \<Rightarrow> False | Some p \<Rightarrow> \<not> pod_Deleting p)"

definition isPodReady :: "Pod option \<Rightarrow> bool" where
  "isPodReady pod =
     (if \<not> isPodActive pod then False
      else (case pod of None \<Rightarrow> False
            | Some p \<Rightarrow> (\<exists>c\<in>set (pod_Conditions p). pc_Type c = ''Ready'' \<and> pc_True c)))"

definition ControllerRevisionHashLabelKey :: string where
  "ControllerRevisionHashLabelKey = ''controller-revision-hash''"

definition isPodOnRevision :: "Pod option \<Rightarrow> string \<Rightarrow> bool" where
  "isPodOnRevision pod revision =
     (case pod of None \<Rightarrow> False
      | Some p \<Rightarrow> revision \<noteq> [] \<and> annotation (pod_Labels p) ControllerRevisionHashLabelKey = revision)"

definition isPodUnschedulable :: "Pod option \<Rightarrow> bool" where
  "isPodUnschedulable pod =
     (case pod of None \<Rightarrow> False
      | Some p \<Rightarrow> (\<exists>c\<in>set (pod_Conditions p).
          pc_Type c = ''PodScheduled'' \<and> pc_False c \<and> pc_Reason c = ''Unschedulable''))"

definition isPodInCrashLoopBackOff :: "Pod \<Rightarrow> bool" where
  "isPodInCrashLoopBackOff p = (\<exists>w\<in>set (pod_Waiting p). w = Some ''CrashLoopBackOff'')"

section \<open>Cluster-map nodes and Kubernetes nodes\<close>

definition hostnameMatchesPod :: "string \<Rightarrow> string \<Rightarrow> bool" where
  "hostnameMatchesPod hostname podName =
     (hostname = podName \<or> HasPrefix hostname (podName @ ''.''))"

fun findAISNodeByPodName :: "Snode list \<Rightarrow> string \<Rightarrow> err + Snode" where
  "findAISNodeByPodName [] podName = Inl (OtherErr (''no matching AIS node found for pod '' @ podName))"
| "findAISNodeByPodName (n # ns) podName =
     (if hostnameMatchesPod (sn_ControlHost n) podName then Inr n else findAISNodeByPodName ns podName)"

definition toleratesTaints :: "k8s_lib \<Rightarrow> Toleration list \<Rightarrow> Node \<Rightarrow> bool" where
  "toleratesTaints L tolerations node =
     (\<forall>taint\<in>set (node_Taints node).
        taint_Effect taint \<noteq> NoSchedule \<and> taint_Effect taint \<noteq> NoExecute \<or>
        (\<exists>t\<in>set tolerations. ToleratesTaint L t taint))"

definition publicHostsForNodes :: "Node list \<Rightarrow> PubNetDNSMode \<Rightarrow> string list" where
  "publicHostsForNodes nodes mode =
     (case mode of
        PubNetDNSModePod \<Rightarrow> []
      | PubNetDNSModeNode \<Rightarrow> map node_Name nodes
      | PubNetDNSModeIP \<Rightarrow> filter (\<lambda>ip. ip \<noteq> []) (map NodePrimaryIP nodes))"

section \<open>Lemmas: syncing settles the comparison\<close>

lemma shouldUpdateContainerSpec_refl [simp]: "shouldUpdateContainerSpec c c k = (False, [])"
  by (simp add: shouldUpdateContainerSpec_def shouldUpdateProbes_def Let_def)

lemma first_update_refl [simp]: "first_update chk cs cs = (False, [])"
  by (induction cs) auto

lemma syncContainers_result: "snd (syncContainers desired current) = desired"
proof (cases "length desired = length current")
  case True
  then have "map (snd \<circ> (\<lambda>(d, c). syncContainer d c)) (zip desired current) = desired"
    by (induction desired current rule: list_induct2) (auto simp: syncContainer_def)
  with True show ?thesis by (simp add: syncContainers_def Let_def)
qed (simp add: syncContainers_def)

lemma syncContainers_updated: "fst (syncContainers desired current) \<longleftrightarrow> desired \<noteq> current"
proof (cases "length desired = length current")
  case True
  then have "(\<exists>r\<in>set (map (\<lambda>(d, c). syncContainer d c) (zip desired current)). fst r)
      \<longleftrightarrow> desired \<noteq> current"
    by (induction desired current rule: list_induct2) (auto simp: syncContainer_def)
  with True show ?thesis by (simp add: syncContainers_def Let_def)
qed (auto simp: syncContainers_def)

lemma first_volume_change_ok:
  "(\<forall>v\<in>set vs. m (vol_Name v) = Some v) \<Longrightarrow> first_volume_change m vs = (False, [])"
  by (induction vs) auto

lemma volume_map_distinct:
  assumes "distinct (map vol_Name vs)" and "v \<in> set vs"
  shows "volume_map vs (vol_Name v) = Some v"
proof -
  have "distinct (map fst (rev (map (\<lambda>v. (vol_Name v, v)) vs)))"
    using assms(1) by (simp add: rev_map [symmetric] comp_def)
  then show ?thesis
    using assms(2) by (auto simp: volume_map_def intro: map_of_is_SomeI)
qed

text \<open>The template that \<open>syncPodTemplate\<close> leaves, field by field.\<close>

lemma sync_if_result:
  "f (snd (sync_if differs assign s)) = (if differs (snd s) then f (assign (snd s)) else f (snd s))"
  by (simp add: sync_if_def)

lemma sync_containers_result:
  "snd (sync_init_containers d s) = (snd s)\<lparr>pt_InitContainers := pt_InitContainers d\<rparr>"
  "snd (sync_containers d s) = (snd s)\<lparr>pt_Containers := pt_Containers d\<rparr>"
  by (simp_all add: sync_init_containers_def sync_containers_def syncContainers_result Let_def)

lemma syncPodTemplate_fields:
  "pt_InitContainers (snd (syncPodTemplate L d c)) = pt_InitContainers d"
  "pt_Containers (snd (syncPodTemplate L d c)) = pt_Containers d"
  "pt_Annotations (snd (syncPodTemplate L d c)) =
     (if DeepDerivative L (pt_Annotations d) (pt_Annotations c) then pt_Annotations c else pt_Annotations d)"
  "pt_Labels (snd (syncPodTemplate L d c)) = pt_Labels d"
  "pt_SecurityContext (snd (syncPodTemplate L d c)) = pt_SecurityContext d"
  "pt_Volumes (snd (syncPodTemplate L d c)) = pt_Volumes d"
  "pt_PriorityClassName (snd (syncPodTemplate L d c)) = pt_PriorityClassName d"
  "pt_Tolerations (snd (syncPodTemplate L d c)) = pt_Tolerations d"
  "pt_Rest (snd (syncPodTemplate L d c)) = pt_Rest c"
  by (simp_all add: syncPodTemplate_def Let_def sync_containers_result
        sync_if_result [where f = pt_InitContainers] sync_if_result [where f = pt_Containers]
        sync_if_result [where f = pt_Annotations] sync_if_result [where f = pt_Labels]
        sync_if_result [where f = pt_SecurityContext] sync_if_result [where f = pt_Volumes]
        sync_if_result [where f = pt_PriorityClassName] sync_if_result [where f = pt_Tolerations]
        sync_if_result [where f = pt_Rest])

lemma shouldUpdateAnnotations_derived:
  "DeepDerivative L (pt_Annotations d) (pt_Annotations c) \<Longrightarrow> shouldUpdateAnnotations L d c = (False, [])"
  by (simp add: shouldUpdateAnnotations_def)

lemma sync_settles:
  assumes "derivative_refl L" and "distinct (map vol_Name (pt_Volumes d))"
  shows "shouldUpdatePodTemplate L d (snd (syncPodTemplate L d c)) = (False, [])"
proof -
  let ?c = "snd (syncPodTemplate L d c)"
  have "DeepDerivative L (pt_Annotations d) (pt_Annotations ?c)"
    using assms(1) by (simp add: syncPodTemplate_fields derivative_refl_def)
  moreover have "shouldUpdateVolumes d ?c = (False, [])"
    using assms(2) by (simp add: shouldUpdateVolumes_def syncPodTemplate_fields
        first_volume_change_ok volume_map_distinct)
  ultimately show ?thesis
    by (simp add: shouldUpdatePodTemplate_def shouldUpdateInitContainers_def
        shouldUpdateContainers_def shouldUpdatePodSecurityContext_def
        shouldUpdateAnnotations_derived shouldUpdateLabels_def shouldUpdatePriorityClass_def
        shouldUpdateTolerations_def syncPodTemplate_fields)
qed

lemma shouldUpdatePodTemplate_refl:
  assumes "derivative_refl L" and "distinct (map vol_Name (pt_Volumes d))"
  shows "shouldUpdatePodTemplate L d d = (False, [])"
proof -
  have "shouldUpdateVolumes d d = (False, [])"
    using assms(2) by (simp add: shouldUpdateVolumes_def first_volume_change_ok volume_map_distinct)
  with assms(1) show ?thesis
    by (simp add: shouldUpdatePodTemplate_def shouldUpdateInitContainers_def shouldUpdateContainers_def
        shouldUpdatePodSecurityContext_def shouldUpdateAnnotations_derived derivative_refl_def shouldUpdateLabels_def
        shouldUpdatePriorityClass_def shouldUpdateTolerations_def)
qed

lemma shouldUpdate_false_iff:
  "\<not> fst (shouldUpdate d c fs) \<longleftrightarrow> (\<forall>f\<in>set fs. \<not> fst (f d c))"
  by (induction fs) (auto simp: Let_def)

section \<open>Lemmas: status of a StatefulSet\<close>

lemma rollout_excludes_scaling: "isRolloutInProgress ss \<Longrightarrow> \<not> isScalingInProgress ss"
  by (simp add: isScalingInProgress_def)

lemma fully_ready_no_scaling: "isStatefulSetFullyReady n ss \<Longrightarrow> \<not> isScalingInProgress ss"
  by (auto simp: isStatefulSetFullyReady_def isScalingInProgress_def Let_def split: if_splits)

lemma fully_ready_not_needed:
  "isStatefulSetFullyReady n ss \<Longrightarrow> \<not> statefulsetScalingNeeded ss n m auto"
  by (auto simp: isStatefulSetFullyReady_def statefulsetScalingNeeded_def Let_def split: if_splits)

section \<open>Lemmas: host names\<close>

text \<open>
  The pods of a StatefulSet are a common stem followed by the ordinal. The contract of such a
  naming is all that node lookup relies on: one host name belongs to one ordinal.
\<close>

locale pod_naming =
  fixes podName :: "AIStore \<Rightarrow> int32 \<Rightarrow> string"
    and stem :: "AIStore \<Rightarrow> string"
  assumes podName_ordinal: "podName ais i = stem ais @ show_int i"
begin

lemma podName_inj: "podName ais i = podName ais j \<longleftrightarrow> i = j"
  by (auto simp: podName_ordinal dest: show_int_inj)

lemma hostname_one_ordinal:
  assumes "hostnameMatchesPod h (podName ais i)" and "hostnameMatchesPod h (podName ais j)"
  shows "i = j"
proof -
  obtain x where x: "h = stem ais @ show_int i @ ''.'' @ x \<or> h = stem ais @ show_int i"
    using assms(1) by (auto simp: hostnameMatchesPod_def podName_ordinal prefix_def)
  obtain y where y: "h = stem ais @ show_int j @ ''.'' @ y \<or> h = stem ais @ show_int j"
    using assms(2) by (auto simp: hostnameMatchesPod_def podName_ordinal prefix_def)
  obtain h' where h': "h = stem ais @ h'" using x by auto
  have "show_int i = show_int j"
    by (rule dot_terminated_unique [where h = h' and x = x and y = y, OF show_int_no_dot show_int_no_dot])
       (use x y h' in auto)
  then show ?thesis by (rule show_int_inj)
qed

lemma lookup_is_ordinal:
  assumes "findAISNodeByPodName ns (podName ais i) = Inr n"
    and "hostnameMatchesPod (sn_ControlHost n) (podName ais j)"
  shows "i = j"
proof -
  have "hostnameMatchesPod (sn_ControlHost n) (podName ais i)"
    using assms(1) by (induction ns) (auto split: if_splits)
  then show ?thesis using assms(2) by (rule hostname_one_ordinal)
qed

end

lemma findAISNode_found:
  "findAISNodeByPodName ns p = Inr n \<Longrightarrow> n \<in> set ns \<and> hostnameMatchesPod (sn_ControlHost n) p"
  by (induction ns) (auto split: if_splits)

lemma findAISNode_missing:
  "findAISNodeByPodName ns p = Inl e \<Longrightarrow> m \<in> set ns \<Longrightarrow> \<not> hostnameMatchesPod (sn_ControlHost m) p"
  by (induction ns) (auto split: if_splits)

lemma foot_confirmScalingNeeded [foot_intros]:
  "CRead \<in> C \<Longrightarrow> steps E (foot C) (confirmScalingNeeded k c d m a)"
  unfolding confirmScalingNeeded_def by (intro foot_intros)

end
