(* ===== verification/Names.thy ===== *)
theory Names
  imports Rollout
begin

text \<open>
  The names and labels of the objects a cluster is made of (\<^verbatim>\<open>operator/internal/resources/aistore\<close>,
  packages \<^verbatim>\<open>proxy\<close>, \<^verbatim>\<open>target\<close>, \<^verbatim>\<open>cmn\<close>, \<^verbatim>\<open>statsd\<close>). A package's name prefixes what both
  daemons have.
\<close>

section \<open>Labels\<close>

definition LabelApp :: string where "LabelApp = ''app''"
definition LabelAppPrefixed :: string where "LabelAppPrefixed = ''app.kubernetes.io/name''"
definition LabelComponent :: string where "LabelComponent = ''component''"
definition LabelComponentPrefixed :: string where "LabelComponentPrefixed = ''app.kubernetes.io/component''"

definition LegacyLabels :: "string \<Rightarrow> string \<Rightarrow> string_map" where
  "LegacyLabels name component =
     fmap_of_list [(LabelApp, name), (LabelAppPrefixed, name),
      (LabelComponent, component), (LabelComponentPrefixed, component)]"

definition SelectorLabels :: "string \<Rightarrow> string \<Rightarrow> string_map" where
  "SelectorLabels name component = 
     fmap_of_list [(LabelAppPrefixed, name), (LabelComponentPrefixed, component)]"

definition MergePodLabels :: "string_map \<Rightarrow> string_map \<Rightarrow> string_map" where
  "MergePodLabels userLabels specLabels = userLabels ++\<^sub>f specLabels"

definition NewServiceLabels :: "string \<Rightarrow> string \<Rightarrow> string_map" where
  "NewServiceLabels aisName component =
     fmap_of_list [(LabelApp, aisName), (LabelAppPrefixed, aisName), (LabelComponentPrefixed, component)]"

section \<open>External access\<close>

definition ExternalAccessLBAnnotations :: "string_map option \<Rightarrow> string_map" where
  "ExternalAccessLBAnnotations ea =
     (let user = (case ea of None \<Rightarrow> fmempty | Some a \<Rightarrow> a)
      in fmap_of_list [(''prometheus.io/scrape'', ''true'')] ++\<^sub>f user)"

definition LoadBalancerIngressReady :: "(string \<times> string) list \<Rightarrow> bool" where
  "LoadBalancerIngressReady ingress = (\<exists>(ip, host)\<in>set ingress. ip \<noteq> [] \<or> host \<noteq> [])"

section \<open>Names\<close>

definition in_namespace :: "AIStore \<Rightarrow> string \<Rightarrow> NamespacedName" where
  "in_namespace ais name = \<lparr>nn_Name = name, nn_Namespace = Namespace ais\<rparr>"

definition AISConfigMapName :: "AIStore \<Rightarrow> string \<Rightarrow> string" where
  "AISConfigMapName ais daeType = Name ais @ ''-'' @ daeType"

definition proxy_StatefulSetNSName :: "AIStore \<Rightarrow> NamespacedName" where
  "proxy_StatefulSetNSName ais = in_namespace ais (ProxyStatefulSetName ais)"

definition proxy_PodName :: "AIStore \<Rightarrow> int32 \<Rightarrow> string" where
  "proxy_PodName ais idx = ProxyStatefulSetName ais @ ''-'' @ show_int idx"

definition proxy_SelectorLabels :: "AIStore \<Rightarrow> string_map" where
  "proxy_SelectorLabels ais = SelectorLabels (Name ais) Proxy_name"

definition proxy_DefaultPrimaryNSName :: "AIStore \<Rightarrow> NamespacedName" where
  "proxy_DefaultPrimaryNSName ais = in_namespace ais (DefaultPrimaryName ais)"

definition proxy_HeadlessSVCNSName :: "AIStore \<Rightarrow> NamespacedName" where
  "proxy_HeadlessSVCNSName ais = in_namespace ais (Name ais @ ''-'' @ Proxy_name)"

definition proxy_LoadBalancerSVCNSName :: "AIStore \<Rightarrow> NamespacedName" where
  "proxy_LoadBalancerSVCNSName ais = in_namespace ais (Name ais @ ''-'' @ Proxy_name @ ''-lb'')"

definition proxy_ConfigMapNSName :: "AIStore \<Rightarrow> NamespacedName" where
  "proxy_ConfigMapNSName ais = in_namespace ais (AISConfigMapName ais Proxy_name)"

definition target_statefulSetName :: "AIStore \<Rightarrow> string" where
  "target_statefulSetName ais = Name ais @ ''-'' @ Target_name"

definition target_StatefulSetNSName :: "AIStore \<Rightarrow> NamespacedName" where
  "target_StatefulSetNSName ais = in_namespace ais (target_statefulSetName ais)"

definition target_PodName :: "AIStore \<Rightarrow> int32 \<Rightarrow> string" where
  "target_PodName ais index = target_statefulSetName ais @ ''-'' @ show_int index"

definition target_SelectorLabels :: "AIStore \<Rightarrow> string_map" where
  "target_SelectorLabels ais = SelectorLabels (Name ais) Target_name"

definition target_HeadlessSVCNSName :: "AIStore \<Rightarrow> NamespacedName" where
  "target_HeadlessSVCNSName ais = in_namespace ais (Name ais @ ''-'' @ Target_name)"

definition target_LoadBalancerSVCNSName :: "AIStore \<Rightarrow> int32 \<Rightarrow> NamespacedName" where
  "target_LoadBalancerSVCNSName ais index =
     in_namespace ais (target_statefulSetName ais @ ''-'' @ show_int index)"

definition target_ConfigMapNSName :: "AIStore \<Rightarrow> NamespacedName" where
  "target_ConfigMapNSName ais = in_namespace ais (AISConfigMapName ais Target_name)"

definition target_PDBNSName :: "AIStore \<Rightarrow> NamespacedName" where
  "target_PDBNSName ais = in_namespace ais (target_statefulSetName ais)"

definition proxy_ServiceLabelLB :: string where "proxy_ServiceLabelLB = ''proxy-lb''"
definition target_ServiceLabelLB :: string where "target_ServiceLabelLB = ''target-lb''"

definition statsd_ConfigMapNSName :: "AIStore \<Rightarrow> NamespacedName" where
  "statsd_ConfigMapNSName ais = in_namespace ais (Name ais @ ''-statsd'')"

definition globalConfigMapName :: "AIStore \<Rightarrow> NamespacedName" where
  "globalConfigMapName ais = in_namespace ais (Name ais @ ''-global-cm'')"

definition ServiceAccountName :: "AIStore \<Rightarrow> NamespacedName" where
  "ServiceAccountName ais = in_namespace ais (Name ais @ ''-sa'')"

definition roleName :: "AIStore \<Rightarrow> NamespacedName" where
  "roleName ais = in_namespace ais (Name ais @ ''-role'')"

definition roleBindingName :: "AIStore \<Rightarrow> NamespacedName" where
  "roleBindingName ais = in_namespace ais (Name ais @ ''-rb'')"

definition CertificateNSName :: "AIStore \<Rightarrow> NamespacedName" where
  "CertificateNSName ais = in_namespace ais (Name ais @ ''-tls-cert'')"

definition DeploymentNSName :: "AIStore \<Rightarrow> NamespacedName" where
  "DeploymentNSName ais = in_namespace ais (AdminClientName ais)"

text \<open>\<open>NewLoadBalancerSVCList\<close>: one service per target, ordinals from 0.\<close>

definition LoadBalancerSVCList :: "AIStore \<Rightarrow> int32 \<Rightarrow> int32 \<Rightarrow> built list" where
  "LoadBalancerSVCList ais first n =
     map (\<lambda>i. TargetLoadBalancerSvc ais i) [first..wrap32 (first + n) - 1]"

section \<open>Lemmas\<close>

lemma in_namespace_inj [simp]: "in_namespace ais a = in_namespace ais b \<longleftrightarrow> a = b"
  by (simp add: in_namespace_def)

lemma proxy_PodName_SetState [simp]: "proxy_PodName (SetState ais st) i = proxy_PodName ais i"
  by (simp add: proxy_PodName_def ProxyStatefulSetName_def)

text \<open>Both daemons name their pods by ordinal, so a host name of the cluster map is one pod.\<close>

interpretation proxy_pods: pod_naming proxy_PodName "\<lambda>ais. ProxyStatefulSetName ais @ ''-''"
  by unfold_locales (simp add: proxy_PodName_def)

interpretation target_pods: pod_naming target_PodName "\<lambda>ais. target_statefulSetName ais @ ''-''"
  by unfold_locales (simp add: target_PodName_def)

lemma user_labels_cannot_override:
  "fmlookup specLabels k = Some v \<Longrightarrow> fmlookup (MergePodLabels userLabels specLabels) k = Some v"
  by (auto simp: MergePodLabels_def dest: fmdomI)

end
