(* ===== verification/Cluster_Status.thy ===== *)
theory Cluster_Status
  imports Names
begin

text \<open>
  What every part of the AIStore controller uses to write the CR and the live configuration:
  the status patches, the rebalance condition, the configuration push and the restart
  annotation (\<^verbatim>\<open>operator/internal/controller/aistore/cluster_controller.go\<close>).
\<close>

section \<open>Status patches\<close>

text \<open>
  The patch carries the whole status of the local object, whose fields all have a JSON form;
  a successful patch replaces the local object by the server's answer.
\<close>

definition patchStatus :: "unit op" where
  "patchStatus = bind getCR (\<lambda>ais.
     bind (or_record (call (\<lambda>E h. ans_patch_status E h ais) (PatchedStatus ais))
       ''Failed to patch CR status'') (\<lambda>a. changeCR (\<lambda>_. a)))"

definition updateStatusWithState :: "ClusterState \<Rightarrow> unit op" where
  "updateStatusWithState st = bind (changeCR (\<lambda>ais. SetState ais st)) (\<lambda>_. patchStatus)"

definition enableRebalanceCondition :: "unit op" where
  "enableRebalanceCondition = bind getCR (\<lambda>ais.
     if IsConditionTrue ais ConditionReadyRebalance then ret ()
     else bind (changeCR (\<lambda>a. SetCondition a ConditionReadyRebalance)) (\<lambda>_. patchStatus))"

definition updateAutoScaleStatus :: "AutoScaleStatus \<Rightarrow> unit op" where
  "updateAutoScaleStatus status = bind getCR (\<lambda>ais.
     if ExpectedProxyNodes (StatusAutoScale (Status ais)) = ExpectedProxyNodes status \<and>
        ExpectedTargetNodes (StatusAutoScale (Status ais)) = ExpectedTargetNodes status then ret ()
     else bind (changeCR (\<lambda>a. a\<lparr>Status := (Status a)\<lparr>StatusAutoScale := status\<rparr>\<rparr>)) (\<lambda>_. patchStatus))"

definition updateIntraClusterURLStatus :: "unit op" where
  "updateIntraClusterURLStatus = bind (asks lib) (\<lambda>L.
     bind (changeCR (\<lambda>a. a\<lparr>Status := (Status a)\<lparr>IntraClusterURLStatus := IntraClusterURL L a\<rparr>\<rparr>))
       (\<lambda>_. patchStatus))"

section \<open>The live configuration\<close>

definition SetClusterConfigUsingMsg :: "ConfigToSet \<Rightarrow> unit op" where
  "SetClusterConfigUsingMsg conf = bind (attempt (act (SetClusterConfig conf))) (\<lambda>r. case r of
     Inl e \<Rightarrow> throw (Wrapped ''failed to update cluster config'' e) | Inr _ \<Rightarrow> ret ())"

definition updateClusterConfig :: "ConfigToSet \<Rightarrow> bool \<Rightarrow> string op" where
  "updateClusterConfig conf forceSync = bind (asks lib) (\<lambda>L. bind getCR (\<lambda>ais.
     bind (of_sum (HashGlobalConfig L conf)) (\<lambda>confHash.
       if \<not> forceSync \<and> annotation (Annotations ais) ConfigHashAnnotation = confHash then ret confHash
       else bind (act GetClient) (\<lambda>_.
            bind (SetClusterConfigUsingMsg conf) (\<lambda>_. ret confHash)))))"

definition patchAISAnnotations :: "string \<Rightarrow> string \<Rightarrow> unit op" where
  "patchAISAnnotations confHash restartHash = bind getCR (\<lambda>original.
     bind (changeCR (\<lambda>a. a\<lparr>Annotations :=
       fmupd RestartConfigHashAnnotation restartHash
         (if confHash \<noteq> [] then fmupd ConfigHashAnnotation confHash (Annotations a) else Annotations a)\<rparr>)) (\<lambda>_. patchCR original))"

definition handleConfigState :: "bool \<Rightarrow> unit op" where
  "handleConfigState forceSync = bind (asks lib) (\<lambda>L. bind getCR (\<lambda>ais.
     bind (of_sum (GenerateGlobalConfig L ais)) (\<lambda>conf.
     bind (updateClusterConfig conf forceSync) (\<lambda>newConfHash.
     bind (of_sum (calcRestartConfigAnnotation L
            (annotation (Annotations ais) RestartConfigHashAnnotation) conf)) (\<lambda>restartAnnot.
       let confChanged = (newConfHash \<noteq> annotation (Annotations ais) ConfigHashAnnotation);
           restartChanged = (restartAnnot \<noteq> annotation (Annotations ais) RestartConfigHashAnnotation);
           requeue = (restartChanged \<and> \<not> HasSuffix restartAnnot RestartConfigHashInitial)
       in if \<not> requeue \<and> \<not> confChanged then ret ()
          else patchAISAnnotations newConfHash restartAnnot)))))"

definition disableRebalance :: "ClusterConditionReason \<Rightarrow> string \<Rightarrow> unit op" where
  "disableRebalance reason msg =
     bind (changeCR (\<lambda>a. SetConditionFalse a ConditionReadyRebalance reason msg)) (\<lambda>_.
     bind patchStatus (\<lambda>_. handleConfigState True))"

section \<open>Readiness\<close>

definition handleSuccessfulReconcile :: "unit op" where
  "handleSuccessfulReconcile = bind getCR (\<lambda>ais.
     bind (if \<not> IsConditionTrue ais ConditionReady
           then bind (Eventf ''Ready'' ''Reconciled'' ''Successfully reconciled AIStore cluster'') (\<lambda>_.
                bind (changeCR (\<lambda>a. SetCondition a ConditionReady)) (\<lambda>_. ret True))
           else ret False) (\<lambda>needsUpdate.
     if needsUpdate \<or> \<not> HasState ais ClusterReady then updateStatusWithState ClusterReady else ret ()))"

definition checkAISClusterReady :: "bool op" where
  "checkAISClusterReady =
     bind (act GetClient) (\<lambda>_.
     bind (act (Health True)) (\<lambda>_.
     bind getClusterMap (\<lambda>smap.
     bind getCR (\<lambda>ais.
       let proxyCount = wrap32 (int (length (smap_Pmap smap)));
           targetCount = wrap32 (int (length (smap_Tmap smap)))
       in bind (deref (GetMinReadyProxies ais)) (\<lambda>minProxies.
          if proxyCount < minProxies then ret False
          else bind (deref (GetMinReadyTargets ais)) (\<lambda>minTargets.
               if targetCount < minTargets then ret False
               else if ClusterID (Status ais) \<noteq> smap_UUID smap
               then bind (changeCR (\<lambda>a. a\<lparr>Status := (Status a)\<lparr>ClusterID := smap_UUID smap\<rparr>\<rparr>)) (\<lambda>_.
                    bind patchStatus (\<lambda>_. ret True))
               else ret True))))))"

section \<open>Footprints\<close>

lemma foot_patchStatus [foot_intros]:
  "{CPatchStatus, CEvent} \<subseteq> C \<Longrightarrow> steps E (foot C) patchStatus"
  unfolding patchStatus_def by (intro foot_intros) (auto simp: cr_classes_def)

lemma foot_updateStatusWithState [foot_intros]:
  "{CPatchStatus, CEvent} \<subseteq> C \<Longrightarrow> steps E (foot C) (updateStatusWithState st)"
  unfolding updateStatusWithState_def by (intro foot_intros) (auto simp: cr_classes_def)

lemma foot_enableRebalanceCondition [foot_intros]:
  "{CPatchStatus, CEvent} \<subseteq> C \<Longrightarrow> steps E (foot C) enableRebalanceCondition"
  unfolding enableRebalanceCondition_def by (intro foot_intros) (auto simp: cr_classes_def)

lemma foot_updateAutoScaleStatus [foot_intros]:
  "{CPatchStatus, CEvent} \<subseteq> C \<Longrightarrow> steps E (foot C) (updateAutoScaleStatus s)"
  unfolding updateAutoScaleStatus_def by (intro foot_intros) (auto simp: cr_classes_def)

lemma foot_updateIntraClusterURLStatus [foot_intros]:
  "{CPatchStatus, CEvent} \<subseteq> C \<Longrightarrow> steps E (foot C) updateIntraClusterURLStatus"
  unfolding updateIntraClusterURLStatus_def by (intro foot_intros) (auto simp: cr_classes_def)

lemma foot_SetClusterConfigUsingMsg [foot_intros]:
  "CSetConfig \<in> C \<Longrightarrow> steps E (foot C) (SetClusterConfigUsingMsg c)"
  unfolding SetClusterConfigUsingMsg_def by (intro foot_intros) auto

lemma foot_updateClusterConfig [foot_intros]:
  "{CSetConfig, CGetClient} \<subseteq> C \<Longrightarrow> steps E (foot C) (updateClusterConfig c b)"
  unfolding updateClusterConfig_def by (intro foot_intros) auto

lemma foot_patchAISAnnotations [foot_intros]:
  "CPatchAIS \<in> C \<Longrightarrow> steps E (foot C) (patchAISAnnotations c r)"
  unfolding patchAISAnnotations_def by (intro foot_intros) (auto simp: cr_classes_def)

lemma foot_handleConfigState [foot_intros]:
  "{CSetConfig, CGetClient, CPatchAIS} \<subseteq> C \<Longrightarrow> steps E (foot C) (handleConfigState b)"
  unfolding handleConfigState_def by (intro foot_intros) auto

lemma foot_disableRebalance [foot_intros]:
  "{CSetConfig, CGetClient, CPatchAIS, CPatchStatus, CEvent} \<subseteq> C
     \<Longrightarrow> steps E (foot C) (disableRebalance r m)"
  unfolding disableRebalance_def by (intro foot_intros) (auto simp: cr_classes_def)

lemma foot_handleSuccessfulReconcile [foot_intros]:
  "{CPatchStatus, CEvent} \<subseteq> C \<Longrightarrow> steps E (foot C) handleSuccessfulReconcile"
  unfolding handleSuccessfulReconcile_def by (intro foot_intros) (auto simp: cr_classes_def)

lemma foot_checkAISClusterReady [foot_intros]:
  "{CPatchStatus, CEvent, CGetClient, CHealth, CRead} \<subseteq> C \<Longrightarrow> steps E (foot C) checkAISClusterReady"
  unfolding checkAISClusterReady_def Let_def by (intro foot_intros) (auto simp: cr_classes_def)

lemma run_config_unchanged:
  assumes "GenerateGlobalConfig (lib E) (cr s) = Inr conf"
    and "HashGlobalConfig (lib E) conf = Inr (annotation (Annotations (cr s)) ConfigHashAnnotation)"
  shows "\<exists>new. hist (snd (handleConfigState False E s)) = new @ hist s \<and> class_of ` set new \<subseteq> {CPatchAIS}"
  using assms
  by (auto simp: handleConfigState_def updateClusterConfig_def Let_def patchAISAnnotations_def patchCR_def
      run_simps split: sum.splits)

end
