(* ===== verification/Go_Std.thy ===== *)
theory Go_Std
  imports Prelude
begin

text \<open>
  Further routines of Go's standard library that the source calls: \<open>net.ParseIP\<close>,
  \<open>strings.Split\<close> on one character, \<open>strings.TrimSpace\<close>, \<open>strings.Join\<close> and
  \<open>time.Duration.String\<close>. Strings are lists of bytes; white space outside ASCII is not trimmed.
\<close>

section \<open>Strings\<close>

fun split_on :: "char \<Rightarrow> string \<Rightarrow> string list" where
  "split_on sep [] = [[]]"
| "split_on sep (c # s) =
     (if c = sep then [] # split_on sep s
      else (case split_on sep s of [] \<Rightarrow> [[c]] | w # ws \<Rightarrow> (c # w) # ws))"

definition is_space :: "char \<Rightarrow> bool" where
  "is_space c = (of_char c \<in> {9, 10, 11, 12, 13, 32 :: nat})"

definition TrimSpace :: "string \<Rightarrow> string" where
  "TrimSpace s = rev (dropWhile is_space (rev (dropWhile is_space s)))"

fun strings_Join :: "string list \<Rightarrow> string \<Rightarrow> string" where
  "strings_Join [] sep = []"
| "strings_Join [w] sep = w"
| "strings_Join (w # ws) sep = w @ sep @ strings_Join ws sep"

lemma split_on_nonempty [simp]: "split_on sep s \<noteq> []"
  by (induction s) (auto split: list.splits)

text \<open>Splitting undoes joining when no part has the separator.\<close>

lemma split_on_part: "sep \<notin> set w \<Longrightarrow> split_on sep w = [w]"
  by (induction w) auto

lemma split_on_append: "sep \<notin> set w \<Longrightarrow> split_on sep (w @ sep # s) = w # split_on sep s"
  by (induction w) auto

lemma split_Join:
  "ws \<noteq> [] \<Longrightarrow> (\<forall>w\<in>set ws. sep \<notin> set w) \<Longrightarrow> split_on sep (strings_Join ws [sep]) = ws"
  by (induction ws "[sep]" rule: strings_Join.induct) (auto simp: split_on_part split_on_append)

section \<open>Addresses\<close>

text \<open>The value of a decimal or hexadecimal digit.\<close>

definition digit_val :: "char \<Rightarrow> nat option" where
  "digit_val c = (let n = of_char c in if 48 \<le> n \<and> n \<le> 57 then Some (n - 48) else None)"

definition is_hex :: "char \<Rightarrow> bool" where
  "is_hex c = (let n = (of_char c :: nat) in 48 \<le> n \<and> n \<le> 57 \<or> 97 \<le> n \<and> n \<le> 102 \<or> 65 \<le> n \<and> n \<le> 70)"

text \<open>
  The loop of \<open>netip.parseIPv4Fields\<close>: the number of finished fields, the value and the number
  of digits of the current one, whether nothing but a dot can have come before.
\<close>

fun parse_v4 :: "nat \<Rightarrow> nat \<Rightarrow> nat \<Rightarrow> bool \<Rightarrow> string \<Rightarrow> bool" where
  "parse_v4 pos v digLen fresh [] = (pos = 3)"
| "parse_v4 pos v digLen fresh (c # s) =
     (case digit_val c of
        Some d \<Rightarrow> if digLen = 1 \<and> v = 0 then False
          else if v * 10 + d > 255 then False
          else parse_v4 pos (v * 10 + d) (digLen + 1) False s
      | None \<Rightarrow> if c \<noteq> CHR ''.'' then False
          else if fresh \<or> s = [] \<or> pos = 3 then False
          else parse_v4 (pos + 1) 0 0 True s)"

definition parseIPv4 :: "string \<Rightarrow> bool" where
  "parseIPv4 s = parse_v4 0 0 0 True s"

lemma dropWhile_shorter: "dropWhile P s = c # cs \<Longrightarrow> length cs < length s"
  using length_dropWhile_le [of P s] by simp

text \<open>
  The loop of \<open>netip.parseIPv6\<close>: the bytes so far, where the ellipsis is, the rest of the text.
  Every round takes at least one digit off the text.
\<close>

function parse_v6 :: "nat \<Rightarrow> nat option \<Rightarrow> string \<Rightarrow> (nat \<times> nat option \<times> string) option" where
  "parse_v6 i ell s =
     (if i \<ge> 16 then Some (i, ell, s)
      else let g = takeWhile is_hex s; r = dropWhile is_hex s in
        if g = [] \<or> length g > 4 then None
        else case r of
          [] \<Rightarrow> Some (i + 2, ell, [])
        | c # cs \<Rightarrow>
            if c = CHR ''.'' then
              (if ell = None \<and> i \<noteq> 12 then None
               else if i + 4 > 16 then None
               else if parseIPv4 s then Some (i + 4, ell, []) else None)
            else if c \<noteq> CHR '':'' then None
            else case cs of
                [] \<Rightarrow> None
              | d # ds \<Rightarrow>
                  if d = CHR '':'' then
                    (if ell \<noteq> None then None
                     else if ds = [] then Some (i + 2, Some (i + 2), [])
                     else parse_v6 (i + 2) (Some (i + 2)) ds)
                  else parse_v6 (i + 2) ell cs)"
  by pat_completeness auto
termination
  by (relation "measure (\<lambda>(i, ell, s). length s)") (auto dest!: dropWhile_shorter [OF sym])

declare parse_v6.simps [simp del]

definition parseIPv6 :: "string \<Rightarrow> bool" where
  "parseIPv6 s =
     (let (ell, s') = (if prefix ''::'' s then (Some 0, drop 2 s) else (None, s)) in
      if ell = Some 0 \<and> s' = [] then True
      else case parse_v6 0 ell s' of
          None \<Rightarrow> False
        | Some (i, ell, rest) \<Rightarrow> rest = [] \<and> (if i < 16 then ell \<noteq> None else ell = None))"

text \<open>\<open>net.ParseIP\<close> answers non-nil: an address without a zone.\<close>

definition ParseIP :: "string \<Rightarrow> bool" where
  "ParseIP s =
     (case find (\<lambda>c. c \<in> {CHR ''.'', CHR '':'', CHR ''%''}) s of
        None \<Rightarrow> False
      | Some c \<Rightarrow> if c = CHR ''.'' then parseIPv4 s
          else if c = CHR '':'' then CHR ''%'' \<notin> set s \<and> parseIPv6 s
          else False)"

text \<open>Every address in dotted notation is recognised.\<close>

lemma digit_val_digit: "d < 10 \<Longrightarrow> digit_val (char_of (48 + d)) = Some d"
  by (simp add: digit_val_def take_bit_eq_mod)

lemma digit_val_dot [simp]: "digit_val (CHR ''.'') = None"
  by (simp add: digit_val_def)

lemma parse_v4_digits:
  assumes "n < 256"
  shows "parse_v4 pos 0 0 fresh (show_nat n @ s) = parse_v4 pos n (length (show_nat n)) False s"
proof -
  have one: "show_nat k = [char_of (48 + k)]" if "k < 10" for k
    using that by (subst show_nat.simps) simp
  have more: "show_nat k = show_nat (k div 10) @ [char_of (48 + k mod 10)]" if "\<not> k < 10" for k
    using that by (subst show_nat.simps) simp
  consider "n < 10" | "10 \<le> n" "n < 100" | "100 \<le> n" by linarith
  then show ?thesis
  proof cases
    case 1
    then show ?thesis by (simp add: one digit_val_digit)
  next
    case 2
    then have "show_nat n = [char_of (48 + n div 10), char_of (48 + n mod 10)]"
      using more [of n] one [of "n div 10"] by simp
    moreover have "n div 10 * 10 + n mod 10 = n" "n div 10 \<noteq> 0" "n div 10 < 10" using 2 by simp_all
    ultimately show ?thesis using 2 assms(1) by (simp add: digit_val_digit)
  next
    case 3
    then have "show_nat n = [char_of (48 + n div 100), char_of (48 + n div 10 mod 10), char_of (48 + n mod 10)]"
      using more [of n] more [of "n div 10"] one [of "n div 100"] assms(1) by (simp add: div_mult2_eq [symmetric])
    moreover have "n div 100 * 10 + n div 10 mod 10 = n div 10" "n div 10 * 10 + n mod 10 = n"
      using div_mult_mod_eq [of "n div 10" 10] by (simp_all add: div_mult2_eq [symmetric])
    moreover have "n div 100 \<noteq> 0" "n div 10 \<le> 25" "n div 100 < 10" using 3 assms(1) by simp_all
    ultimately show ?thesis using 3 assms(1) by (simp add: digit_val_digit)
  qed
qed

lemma parse_v4_dot:
  "s \<noteq> [] \<Longrightarrow> pos < 3 \<Longrightarrow> parse_v4 pos v k False (CHR ''.'' # s) = parse_v4 (pos + 1) 0 0 True s"
  by simp

lemma find_dot: "CHR '':'' \<notin> set a \<Longrightarrow> CHR ''%'' \<notin> set a \<Longrightarrow> CHR ''.'' \<notin> set a \<Longrightarrow>
    find (\<lambda>c. c \<in> {CHR ''.'', CHR '':'', CHR ''%''}) (a @ CHR ''.'' # b) = Some (CHR ''.'')"
  by (induction a) auto

lemma digit_char_range:
  assumes "d < (10 :: nat)" and "of_char c < (48 :: nat) \<or> 57 < (of_char c :: nat)"
  shows "(char_of (48 + d) :: char) \<noteq> c"
proof
  assume "(char_of (48 + d) :: char) = c"
  then have "(of_char c :: nat) = of_char (char_of (48 + d) :: char)" by simp
  also have "\<dots> = 48 + d" using assms(1) by (simp add: take_bit_eq_mod)
  finally show False using assms by simp
qed

lemma show_nat_only_digits:
  "of_char c < (48 :: nat) \<or> 57 < (of_char c :: nat) \<Longrightarrow> c \<notin> set (show_nat n)"
proof (induction n rule: show_nat.induct)
  case (1 n)
  have "n mod 10 < 10" by simp
  from digit_char_range [OF this "1.prems"] show ?case
    using "1.IH" "1.prems" digit_char_range [OF _ "1.prems", of n] by (subst show_nat.simps) auto
qed

lemma ParseIP_dotted:
  assumes "a < 256" and "b < 256" and "c < 256" and "d < 256"
  shows "ParseIP (show_nat a @ ''.'' @ show_nat b @ ''.'' @ show_nat c @ ''.'' @ show_nat d)"
proof -
  have "find (\<lambda>c. c \<in> {CHR ''.'', CHR '':'', CHR ''%''})
      (show_nat a @ ''.'' @ show_nat b @ ''.'' @ show_nat c @ ''.'' @ show_nat d) = Some (CHR ''.'')"
    using find_dot [of "show_nat a"] show_nat_only_digits by simp
  moreover have "parse_v4 3 0 0 True (show_nat d)"
    using parse_v4_digits [OF assms(4), of 3 True "[]"] by simp
  ultimately show ?thesis
    using assms by (simp add: ParseIP_def parseIPv4_def parse_v4_digits flip: numeral_3_eq_3)
qed

section \<open>Durations\<close>

text \<open>
  \<open>fmtFrac\<close>: the decimals of a value, \<open>prec\<close> of them, without trailing zeros and without the
  dot when none is left.
\<close>

fun frac_digits :: "nat \<Rightarrow> nat \<Rightarrow> bool \<Rightarrow> string \<Rightarrow> string" where
  "frac_digits v 0 printing acc = (if printing then CHR ''.'' # acc else acc)"
| "frac_digits v (Suc p) printing acc =
     (let digit = v mod 10; printing = (printing \<or> digit \<noteq> 0)
      in frac_digits (v div 10) p printing (if printing then char_of (48 + digit) # acc else acc))"

lemma frac_digits_numeral [simp]:
  "frac_digits v (numeral k) printing acc =
     (let digit = v mod 10; printing = (printing \<or> digit \<noteq> 0)
      in frac_digits (v div 10) (pred_numeral k) printing (if printing then char_of (48 + digit) # acc else acc))"
  by (simp only: numeral_eq_Suc frac_digits.simps)

definition fmtFrac :: "nat \<Rightarrow> nat \<Rightarrow> string" where
  "fmtFrac v prec = frac_digits v prec False []"

text \<open>\<open>Duration.String\<close> of a number of nanoseconds; the micro sign is its two bytes in UTF-8.\<close>

definition duration_abs :: "nat \<Rightarrow> string" where
  "duration_abs u =
     (if u = 0 then ''0s''
      else if u < 10 ^ 3 then show_nat u @ ''ns''
      else if u < 10 ^ 6 then show_nat (u div 10 ^ 3) @ fmtFrac u 3 @ [char_of (0xC2 :: nat), char_of (0xB5 :: nat)] @ ''s''
      else if u < 10 ^ 9 then show_nat (u div 10 ^ 6) @ fmtFrac u 6 @ ''ms''
      else (let secs = u div 10 ^ 9;
                s = show_nat (secs mod 60) @ fmtFrac u 9 @ ''s'';
                s = (if secs div 60 = 0 then s
                     else (let m = show_nat (secs div 60 mod 60) @ ''m'' @ s in
                           if secs div 3600 = 0 then m else show_nat (secs div 3600) @ ''h'' @ m))
            in s))"

definition Duration_String :: "int \<Rightarrow> string" where
  "Duration_String d = (if d < 0 then CHR ''-'' # duration_abs (nat (- d)) else duration_abs (nat d))"

lemma duration_examples:
  "Duration_String (90 * 24 * 3600 * 10 ^ 9) = ''2160h0m0s''" "Duration_String (-1500000) = ''-1.5ms''"
  "Duration_String 0 = ''0s''" "Duration_String (61050000000) = ''1m1.05s''"
  by (simp_all add: Duration_String_def duration_abs_def show_nat.simps fmtFrac_def Let_def char_of_def bit_0)

end
