(* ===== verification/Certificates.thy ===== *)
theory Certificates
  imports Names Go_Std
begin

text \<open>
  Certificates: what the AIStore and the AuthN controllers share
  (\<^verbatim>\<open>operator/internal/resources/certificates\<close>) and the certificate of a cluster
  (\<^verbatim>\<open>operator/internal/resources/aistore/cmn/certificate.go\<close>, \<^verbatim>\<open>ownerref/ownerref.go\<close>).
\<close>

section \<open>Subject alternative names\<close>

definition AppendHosts :: "string list \<times> string list \<Rightarrow> string list \<Rightarrow> string list \<times> string list" where
  "AppendHosts names hosts = fold (\<lambda>host (dnsNames, ipAddresses).
     if host = [] then (dnsNames, ipAddresses)
     else if ParseIP host then (dnsNames, ipAddresses @ [host])
     else (dnsNames @ [host], ipAddresses)) hosts names"

definition normalize_names :: "string list \<Rightarrow> string list" where
  "normalize_names values = Compact (sort (filter (\<lambda>v. v \<noteq> []) values))"

definition NormalizeSANs :: "string list \<times> string list \<Rightarrow> string list \<times> string list" where
  "NormalizeSANs names = (normalize_names (fst names), normalize_names (snd names))"

section \<open>The specification of a certificate\<close>

record SpecConfig =
  cfg_SecretName :: string
  cfg_IssuerName :: string
  cfg_IssuerKind :: string
  cfg_Duration :: "Duration option"
  cfg_RenewBefore :: "Duration option"
  cfg_Usages :: "KeyUsage list"

record CertificateSpec =
  cs_SecretName :: string
  cs_Usages :: "KeyUsage list"
  cs_DNSNames :: "string list"
  cs_IPAddresses :: "string list"
  cs_IssuerName :: string
  cs_IssuerKind :: string
  cs_IssuerGroup :: string
  cs_Duration :: "Duration option"
  cs_RenewBefore :: "Duration option"

definition NewSpec :: "SpecConfig \<Rightarrow> string list \<Rightarrow> string list \<Rightarrow> CertificateSpec" where
  "NewSpec c dnsNames ipAddresses =
     \<lparr>cs_SecretName = cfg_SecretName c, cs_Usages = cfg_Usages c, cs_DNSNames = dnsNames,
      cs_IPAddresses = ipAddresses, cs_IssuerName = cfg_IssuerName c,
      cs_IssuerKind = (if cfg_IssuerKind c = [] then ''ClusterIssuer'' else cfg_IssuerKind c),
      cs_IssuerGroup = ''cert-manager.io'', cs_Duration = cfg_Duration c,
      cs_RenewBefore = cfg_RenewBefore c\<rparr>"

text \<open>The attributes of a volume of the CSI driver, which asks for the certificate by itself.\<close>

record CSIConfig =
  csi_IssuerName :: string
  csi_IssuerKind :: string
  csi_CommonName :: string
  csi_DNSNames :: "string list"
  csi_Duration :: "Duration option"
  csi_RenewBefore :: "Duration option"
  csi_Usages :: "KeyUsage list"

definition ToVolumeAttributes :: "k8s_lib \<Rightarrow> CSIConfig \<Rightarrow> string_map" where
  "ToVolumeAttributes L c =
     (let attributes = fmap_of_list
            [(csiapi L ''IssuerNameKey'', csi_IssuerName c),
             (csiapi L ''CommonNameKey'', csi_CommonName c),
             (csiapi L ''DNSNamesKey'', strings_Join (csi_DNSNames c) '','')];
          attributes = (if csi_IssuerKind c \<noteq> []
            then fmupd (csiapi L ''IssuerKindKey'') (csi_IssuerKind c) attributes else attributes);
          attributes = (case csi_Duration c of None \<Rightarrow> attributes
            | Some d \<Rightarrow> fmupd (csiapi L ''DurationKey'') (Duration_String d) attributes);
          attributes = (case csi_RenewBefore c of None \<Rightarrow> attributes
            | Some d \<Rightarrow> fmupd (csiapi L ''RenewBeforeKey'') (Duration_String d) attributes)
      in if csi_Usages c \<noteq> []
         then fmupd (csiapi L ''KeyUsagesKey'') (strings_Join (map (UsageString L) (csi_Usages c)) '','') attributes
         else attributes)"

section \<open>The certificate of a cluster\<close>

definition CertificateSecretName :: "AIStore \<Rightarrow> string" where
  "CertificateSecretName ais = Name ais @ ''-tls''"

definition certUsages :: "KeyUsage list" where
  "certUsages = [UsageDigitalSignature, UsageKeyEncipherment, UsageServerAuth, UsageClientAuth]"

definition serviceDNSNames :: "string \<Rightarrow> string \<Rightarrow> string \<Rightarrow> string list" where
  "serviceDNSNames svcName namespace clusterDomain =
     [svcName, svcName @ ''.'' @ namespace, svcName @ ''.'' @ namespace @ ''.svc.'' @ clusterDomain]"

text \<open>
  The names of the certificate; \<open>mapped\<close> lists the values of the host-name map in the order
  \<open>range\<close> visits them.
\<close>

definition hosts_of_value :: "string \<Rightarrow> string list" where
  "hosts_of_value allHosts = map TrimSpace (split_on (CHR '','') allHosts)"

definition certificateSANs ::
  "k8s_lib \<Rightarrow> AIStore \<Rightarrow> string list \<Rightarrow> string list \<Rightarrow> string list \<times> string list" where
  "certificateSANs L ais mapped publicHosts =
     (let clusterDomain = ClusterDomainOf L ais;
          dnsNames = serviceDNSNames (Name ais @ ''-proxy'') (Namespace ais) clusterDomain
            @ serviceDNSNames (Name ais @ ''-target'') (Namespace ais) clusterDomain
            @ [''*.'' @ Name ais @ ''-proxy.'' @ Namespace ais @ ''.svc.'' @ clusterDomain,
               ''*.'' @ Name ais @ ''-target.'' @ Namespace ais @ ''.svc.'' @ clusterDomain];
          names = fold (\<lambda>allHosts names. AppendHosts names (hosts_of_value allHosts)) mapped (dnsNames, []);
          names = AppendHosts names publicHosts;
          names = (case GetTLSCertificate ais of None \<Rightarrow> names
            | Some certConfig \<Rightarrow> (fst names @ AdditionalDNSNames certConfig, snd names))
      in NormalizeSANs names)"

text \<open>One order of the map, that of its keys; \<open>sans_any_order\<close> below shows that it does not matter.\<close>

definition hostname_values :: "AIStore \<Rightarrow> string list" where
  "hostname_values ais = (case HostnameMap (Spec ais) of None \<Rightarrow> []
     | Some m \<Rightarrow> map snd (sorted_list_of_fmap m))"

definition buildCertificateSANs :: "k8s_lib \<Rightarrow> AIStore \<Rightarrow> string list \<Rightarrow> string list \<times> string list" where
  "buildCertificateSANs L ais publicHosts = certificateSANs L ais (hostname_values ais) publicHosts"

text \<open>\<open>NewControllerRef\<close>: the CR owns what is built for it.\<close>

record OwnerReference =
  own_Kind :: string
  own_Name :: string
  own_UID :: string

definition NewControllerRef :: "AIStore \<Rightarrow> OwnerReference" where
  "NewControllerRef ais = \<lparr>own_Kind = ''AIStore'', own_Name = Name ais, own_UID = UID ais\<rparr>"

record CertificateObj =
  crt_Name :: NamespacedName
  crt_Owner :: OwnerReference
  crt_Spec :: CertificateSpec

definition NewCertificate :: "k8s_lib \<Rightarrow> AIStore \<Rightarrow> string list \<Rightarrow> CertificateObj option" where
  "NewCertificate L ais publicHosts = map_option (\<lambda>certConfig.
     let (dnsNames, ipAddresses) = buildCertificateSANs L ais publicHosts in
     \<lparr>crt_Name = CertificateNSName ais, crt_Owner = NewControllerRef ais,
      crt_Spec = NewSpec \<lparr>cfg_SecretName = CertificateSecretName ais,
        cfg_IssuerName = issuer_Name (IssuerRef certConfig), cfg_IssuerKind = issuer_Kind (IssuerRef certConfig),
        cfg_Duration = cert_Duration certConfig, cfg_RenewBefore = cert_RenewBefore certConfig,
        cfg_Usages = certUsages\<rparr> dnsNames ipAddresses\<rparr>) (GetTLSCertificate ais)"

section \<open>Lemmas\<close>

lemma AppendHosts_names:
  "fst (AppendHosts names hosts) = fst names @ filter (\<lambda>h. h \<noteq> [] \<and> \<not> ParseIP h) hosts"
  "snd (AppendHosts names hosts) = snd names @ filter (\<lambda>h. h \<noteq> [] \<and> ParseIP h) hosts"
  unfolding AppendHosts_def by (induction hosts arbitrary: names) (auto split: prod.splits)

lemma fold_AppendHosts:
  "fold (\<lambda>v names. AppendHosts names (f v)) vs names = AppendHosts names (concat (map f vs))"
  unfolding AppendHosts_def by (induction vs arbitrary: names) simp_all

lemma normalize_names_set: "set (normalize_names vs) = set vs - {[]}"
  by (auto simp: normalize_names_def)

lemma normalize_names_sorted: "sorted (normalize_names vs)"
  by (simp add: normalize_names_def sorted_remdups_adj)

lemma normalize_names_distinct: "distinct (normalize_names vs)"
  by (simp add: normalize_names_def Compact_sorted_distinct)

lemma normalize_names_cong: "set vs = set ws \<Longrightarrow> normalize_names vs = normalize_names ws"
  by (rule sorted_distinct_set_unique)
     (simp_all add: normalize_names_sorted normalize_names_distinct normalize_names_set)

lemma normalize_names_idem [simp]: "normalize_names (normalize_names vs) = normalize_names vs"
  by (rule sorted_distinct_set_unique)
     (auto simp: normalize_names_sorted normalize_names_distinct normalize_names_set)

text \<open>The order in which the map is visited does not show.\<close>

lemma sans_any_order:
  assumes "set mapped = set mapped'"
  shows "certificateSANs L ais mapped hosts = certificateSANs L ais mapped' hosts"
  by (simp add: certificateSANs_def Let_def NormalizeSANs_def fold_AppendHosts AppendHosts_names
        prod_eq_iff assms split: option.split)
     (intro conjI allI impI normalize_names_cong; simp add: assms)

text \<open>The names and the addresses, each as one list.\<close>

definition additional_names :: "AIStore \<Rightarrow> string list" where
  "additional_names ais = (case GetTLSCertificate ais of None \<Rightarrow> [] | Some c \<Rightarrow> AdditionalDNSNames c)"

definition service_names :: "k8s_lib \<Rightarrow> AIStore \<Rightarrow> string list" where
  "service_names L ais =
     (let clusterDomain = ClusterDomainOf L ais in
      serviceDNSNames (Name ais @ ''-proxy'') (Namespace ais) clusterDomain
      @ serviceDNSNames (Name ais @ ''-target'') (Namespace ais) clusterDomain
      @ [''*.'' @ Name ais @ ''-proxy.'' @ Namespace ais @ ''.svc.'' @ clusterDomain,
         ''*.'' @ Name ais @ ''-target.'' @ Namespace ais @ ''.svc.'' @ clusterDomain])"

lemma certificateSANs_parts:
  "fst (certificateSANs L ais mapped hosts) = normalize_names (service_names L ais
     @ filter (\<lambda>h. h \<noteq> [] \<and> \<not> ParseIP h) (concat (map hosts_of_value mapped) @ hosts) @ additional_names ais)"
  "snd (certificateSANs L ais mapped hosts) = normalize_names
     (filter (\<lambda>h. h \<noteq> [] \<and> ParseIP h) (concat (map hosts_of_value mapped) @ hosts))"
  by (simp_all add: certificateSANs_def Let_def NormalizeSANs_def fold_AppendHosts AppendHosts_names
      service_names_def additional_names_def split: option.split)

end
