(* ===== verification/Pod_Builders.thy ===== *)
theory Pod_Builders
  imports Certificates
begin

text \<open>
  What the pods of both daemons are built of (\<^verbatim>\<open>operator/internal/resources/aistore/cmn\<close>: the files
  \<^verbatim>\<open>utils.go\<close>, \<^verbatim>\<open>env.go\<close>, \<^verbatim>\<open>res.go\<close>, \<^verbatim>\<open>volumes.go\<close> and \<^verbatim>\<open>statefulset.go\<close>). The daemon is
  given by its name, \<open>Proxy_name\<close> or \<open>Target_name\<close>.
\<close>

section \<open>Environment variables\<close>

definition EnvFromFieldPath :: "string \<Rightarrow> string \<Rightarrow> EnvVar" where
  "EnvFromFieldPath envName path =
     \<lparr>env_Name = envName, env_Value = [], env_ValueFrom = Some (FieldRef path)\<rparr>"

definition EnvFromValue :: "string \<Rightarrow> string \<Rightarrow> EnvVar" where
  "EnvFromValue envName val = \<lparr>env_Name = envName, env_Value = val, env_ValueFrom = None\<rparr>"

definition EnvFromSecret :: "string \<Rightarrow> string \<Rightarrow> string \<Rightarrow> EnvVar" where
  "EnvFromSecret envName secret key =
     \<lparr>env_Name = envName, env_Value = [], env_ValueFrom = Some (SecretKeyRef secret key)\<rparr>"

definition MergeEnvVars :: "EnvVar list \<Rightarrow> EnvVar list \<Rightarrow> EnvVar list" where
  "MergeEnvVars defaults overrides =
     overrides @ filter (\<lambda>v. env_Name v \<notin> env_Name ` set overrides) defaults"

definition CommonEnv :: "EnvVar list" where
  "CommonEnv = [EnvFromFieldPath ''MY_NODE'' ''spec.nodeName'',
     EnvFromFieldPath ''MY_POD'' ''metadata.name'', EnvFromFieldPath ''K8S_NS'' ''metadata.namespace'']"

fun dns_mode_text :: "PubNetDNSMode \<Rightarrow> string" where
  "dns_mode_text PubNetDNSModeIP = ''IP''"
| "dns_mode_text PubNetDNSModeNode = ''Node''"
| "dns_mode_text PubNetDNSModePod = ''Pod''"

definition CommonInitEnv :: "k8s_lib \<Rightarrow> AIStore \<Rightarrow> bool \<Rightarrow> EnvVar list" where
  "CommonInitEnv L ais externalAccessEnabled =
     [EnvFromFieldPath ''HOST_IPS'' ''status.hostIPs'',
      EnvFromValue ''AIS_K8S_CLUSTER_DOMAIN'' (ClusterDomainOf L ais),
      EnvFromValue ''ENABLE_EXTERNAL_ACCESS'' (if externalAccessEnabled then ''true'' else ''false'')]
     @ (case PublicNetDNSMode (Spec ais) of None \<Rightarrow> []
        | Some m \<Rightarrow> [EnvFromValue ''AIS_PUBLIC_DNS_MODE'' (dns_mode_text m)])
     @ CommonEnv"

section \<open>Probes, ports, affinity\<close>

definition daemon_of :: "AIStore \<Rightarrow> string \<Rightarrow> DaemonSpec option" where
  "daemon_of ais role =
     (if role = Proxy_name then Some (ProxySpec (Spec ais))
      else if role = Target_name then Some (DaemonSpec.truncate (SpecTarget (Spec ais)))
      else None)"

text \<open>The zero value of \<open>intstr.IntOrString\<close> is the integer 0.\<close>

definition http_probe :: "AIStore \<Rightarrow> string \<Rightarrow> string \<Rightarrow> Probe" where
  "http_probe ais role endpoint =
     \<lparr>probe_Scheme = (if UseHTTPS ais then ''HTTPS'' else ''HTTP''), probe_Path = endpoint,
      probe_Port = (case daemon_of ais role of None \<Rightarrow> IntVal 0 | Some d \<Rightarrow> PublicPort (d_ServiceSpec d)),
      probe_InitialDelaySeconds = 0, probe_PeriodSeconds = 0, probe_FailureThreshold = 0,
      probe_TimeoutSeconds = 0, probe_SuccessThreshold = 0, probe_Rest = []\<rparr>"

definition empty_probe_spec :: ProbeSpec where
  "empty_probe_spec = \<lparr>PeriodSeconds = None, TimeoutSeconds = None, FailureThreshold = None,
     InitialDelaySeconds = None\<rparr>"

definition getProbeSpec :: "AIStore \<Rightarrow> string \<Rightarrow> (ProbeConfSpec \<Rightarrow> ProbeSpec option) \<Rightarrow> ProbeSpec" where
  "getProbeSpec ais role selector =
     (case Option.bind (Option.bind (daemon_of ais role) d_Probes) selector of
        Some spec \<Rightarrow> spec | None \<Rightarrow> empty_probe_spec)"

definition int32ValOrDefault :: "int32 option \<Rightarrow> int32 \<Rightarrow> int32" where
  "int32ValOrDefault v def = (case v of Some n \<Rightarrow> n | None \<Rightarrow> def)"

definition NewLivenessProbe :: "AIStore \<Rightarrow> string \<Rightarrow> Probe" where
  "NewLivenessProbe ais role =
     (let spec = getProbeSpec ais role Liveness in
      (http_probe ais role ''/v1/health'')
        \<lparr>probe_InitialDelaySeconds := int32ValOrDefault (InitialDelaySeconds spec) 60,
         probe_PeriodSeconds := int32ValOrDefault (PeriodSeconds spec) 5,
         probe_FailureThreshold := int32ValOrDefault (FailureThreshold spec) 10,
         probe_TimeoutSeconds := int32ValOrDefault (TimeoutSeconds spec) 5,
         probe_SuccessThreshold := 1\<rparr>)"

definition NewReadinessProbe :: "AIStore \<Rightarrow> string \<Rightarrow> Probe" where
  "NewReadinessProbe ais role =
     (let spec = getProbeSpec ais role Readiness in
      (http_probe ais role ''/v1/health?readiness=true'')
        \<lparr>probe_InitialDelaySeconds := (case InitialDelaySeconds spec of Some n \<Rightarrow> n | None \<Rightarrow> 0),
         probe_PeriodSeconds := int32ValOrDefault (PeriodSeconds spec) 5,
         probe_FailureThreshold := int32ValOrDefault (FailureThreshold spec) 5,
         probe_TimeoutSeconds := int32ValOrDefault (TimeoutSeconds spec) 5,
         probe_SuccessThreshold := 1\<rparr>)"

definition NewStartupProbe :: "AIStore \<Rightarrow> string \<Rightarrow> Probe" where
  "NewStartupProbe ais role =
     (let spec = getProbeSpec ais role Startup in
      (http_probe ais role ''/v1/health?readiness=true'')
        \<lparr>probe_InitialDelaySeconds := (case InitialDelaySeconds spec of Some n \<Rightarrow> n | None \<Rightarrow> 0),
         probe_PeriodSeconds := int32ValOrDefault (PeriodSeconds spec) 5,
         probe_FailureThreshold := int32ValOrDefault (FailureThreshold spec) 30,
         probe_TimeoutSeconds := int32ValOrDefault (TimeoutSeconds spec) 5,
         probe_SuccessThreshold := 1\<rparr>)"

definition NewDaemonPorts :: "k8s_lib \<Rightarrow> 'a DaemonSpec_scheme \<Rightarrow> ContainerPort list" where
  "NewDaemonPorts L spec =
     [\<lparr>cp_Name = ''http'', cp_ContainerPort = wrap32 (IntValue L (ServicePort (d_ServiceSpec spec))),
       cp_Protocol = ''TCP'', cp_HostPort = (case d_HostPort spec of Some p \<Rightarrow> p | None \<Rightarrow> 0)\<rparr>]"

text \<open>
  An affinity of the spec is changed in place: what is returned is also the spec's new value.
\<close>

definition CreateAISAffinity :: "Affinity option \<Rightarrow> string_map \<Rightarrow> Affinity" where
  "CreateAISAffinity affinity labels =
     (let a = (case affinity of Some a \<Rightarrow> a | None \<Rightarrow> \<lparr>aff_Node = None, aff_Pod = None, aff_PodAnti = None\<rparr>)
      in if aff_PodAnti a = None then a\<lparr>aff_PodAnti := Some (NotOnHostWith labels)\<rparr> else a)"

section \<open>Resources\<close>

text \<open>\<open>aiscos.MiB\<close> is \<open>2^20\<close>; an amount is in nano-units.\<close>

definition MiB :: int where "MiB = 2 ^ 20"
definition DefaultConfigStorageReq :: int where "DefaultConfigStorageReq = 16 * MiB"
definition DefaultLogsStorageReq :: int where "DefaultLogsStorageReq = 512 * MiB"
definition DefaultMiscStorageReq :: int where "DefaultMiscStorageReq = 128 * MiB"

definition units :: "int \<Rightarrow> amount" where "units n = n * 10 ^ 9"

definition ResourceCPU :: string where "ResourceCPU = ''cpu''"
definition ResourceMemory :: string where "ResourceMemory = ''memory''"
definition ResourceEphemeralStorage :: string where "ResourceEphemeralStorage = ''ephemeral-storage''"

definition NewInitResourceReq :: ResourceRequirements where
  "NewInitResourceReq =
     \<lparr>res_Requests = fmap_of_list [(ResourceCPU, units 1), (ResourceMemory, units (2 ^ 30)),
        (ResourceEphemeralStorage, units (DefaultConfigStorageReq * 3))],
      res_Limits = fmap_of_list [(ResourceCPU, units 1), (ResourceMemory, units (2 ^ 30))],
      res_Claims = []\<rparr>"

text \<open>The requirements of the spec are changed in place, as an affinity is.\<close>

definition StorageEphemeral :: "resource_list \<Rightarrow> amount" where
  "StorageEphemeral rl = (case fmlookup rl ResourceEphemeralStorage of None \<Rightarrow> 0 | Some q \<Rightarrow> q)"

definition NewResourceReq :: "AIStore \<Rightarrow> ResourceRequirements \<Rightarrow> ResourceRequirements" where
  "NewResourceReq ais reqs =
     (if StorageEphemeral (res_Requests reqs) \<noteq> 0 then reqs
      else let storageBytes = (case MaxLogTotal ais of None \<Rightarrow> DefaultLogsStorageReq | Some n \<Rightarrow> n);
               storageBytes = wrap64 (storageBytes + DefaultConfigStorageReq + DefaultMiscStorageReq)
           in reqs\<lparr>res_Requests := fmupd ResourceEphemeralStorage (units storageBytes) (res_Requests reqs)\<rparr>)"

section \<open>Security contexts\<close>

definition DefaultPodSecurityContext :: PodSecurityContext where
  "DefaultPodSecurityContext =
     \<lparr>psc_RunAsNonRoot = Some False, psc_SeccompProfile = Some ''RuntimeDefault'', psc_Rest = []\<rparr>"

definition DefaultAISContainerSecurityContext :: SecurityContext where
  "DefaultAISContainerSecurityContext =
     \<lparr>sc_AllowPrivilegeEscalation = Some False, sc_ReadOnlyRootFilesystem = None,
      sc_Capabilities = Some ([], [''ALL'']), sc_Rest = []\<rparr>"

definition RestrictedSecurityContext :: SecurityContext where
  "RestrictedSecurityContext =
     DefaultAISContainerSecurityContext\<lparr>sc_ReadOnlyRootFilesystem := Some True\<rparr>"

definition GetPodSecurityContext :: "'a DaemonSpec_scheme \<Rightarrow> PodSecurityContext" where
  "GetPodSecurityContext s =
     (case d_SecurityContext s of Some c \<Rightarrow> c | None \<Rightarrow> DefaultPodSecurityContext)"

definition GetAISSecurityContext :: "'a DaemonSpec_scheme \<Rightarrow> SecurityContext" where
  "GetAISSecurityContext s =
     (case d_AISContainerSecurityContext s of Some c \<Rightarrow> c
      | None \<Rightarrow> (case d_Capabilities s of Some c \<Rightarrow> c | None \<Rightarrow> DefaultAISContainerSecurityContext))"

section \<open>Annotations and arguments\<close>

definition PrepareAnnotations :: "k8s_lib \<Rightarrow> string_map \<Rightarrow> string option \<Rightarrow> string option \<Rightarrow> string_map" where
  "PrepareAnnotations L annotations netAttachment restartHash =
     (let new = fmempty;
          new = (case netAttachment of None \<Rightarrow> new | Some n \<Rightarrow> fmupd (NetworkAttachmentAnnot L) n new);
          new = (case restartHash of None \<Rightarrow> new | Some h \<Rightarrow> fmupd RestartConfigHashAnnotation h new)
      in new ++\<^sub>f annotations)"

definition StateDir :: string where "StateDir = ''/etc/ais''"
definition InitConfTemplateDir :: string where "InitConfTemplateDir = ''/var/ais_config_template''"
definition AisConfigDir :: string where "AisConfigDir = ''/var/ais_config''"
definition LogsDir :: string where "LogsDir = ''/var/log/ais''"
definition InitGlobalConfDir :: string where "InitGlobalConfDir = ''/var/global_config''"
definition AISGlobalConfigName :: string where "AISGlobalConfigName = ''ais.json''"
definition AISLocalConfigName :: string where "AISLocalConfigName = ''ais_local.json''"
definition hostnameMapFileName :: string where "hostnameMapFileName = ''hostname_map.json''"

definition NewInitContainerArgs :: "string \<Rightarrow> string_map option \<Rightarrow> string list" where
  "NewInitContainerArgs daeType hostnameMap =
     [''-role='' @ daeType,
      ''-local_config_template='' @ path_Join [InitConfTemplateDir, AISLocalConfigName],
      ''-output_local_config='' @ path_Join [AisConfigDir, AISLocalConfigName],
      ''-cluster_config_override='' @ path_Join [InitGlobalConfDir, AISGlobalConfigName],
      ''-output_cluster_config='' @ path_Join [AisConfigDir, AISGlobalConfigName]]
     @ (if hostnameMap \<noteq> None \<and> hostnameMap \<noteq> Some fmempty
        then [''-hostname_map_file='' @ path_Join [InitGlobalConfDir, hostnameMapFileName]] else [])"

definition NewAISContainerArgs :: "int32 \<Rightarrow> string \<Rightarrow> string list" where
  "NewAISContainerArgs targetSize daeType =
     [''-config='' @ path_Join [AisConfigDir, AISGlobalConfigName],
      ''-local_config='' @ path_Join [AisConfigDir, AISLocalConfigName],
      ''-role='' @ daeType]
     @ (if daeType = Proxy_name then [''-ntargets='' @ show_int targetSize] else [])"

section \<open>Volumes\<close>

definition configTemplateVolume :: string where "configTemplateVolume = ''config-template''"
definition configVolume :: string where "configVolume = ''config-mount''"
definition configGlobalVolume :: string where "configGlobalVolume = ''config-global''"
definition stateVolume :: string where "stateVolume = ''state-mount''"
definition tlsSecretVolume :: string where "tlsSecretVolume = ''tls-certs''"
definition tracingSecretVolume :: string where "tracingSecretVolume = ''tracing-token''"
definition logsVolume :: string where "logsVolume = ''logs-dir''"

definition StateHostPath :: "AIStore \<Rightarrow> string \<Rightarrow> string" where
  "StateHostPath ais daeType =
     (case StateStorageHostPathPrefix (Spec ais) of None \<Rightarrow> []
      | Some p \<Rightarrow> path_Join [p, Namespace ais, Name ais, daeType])"

definition newLogsVolume :: "AIStore \<Rightarrow> string \<Rightarrow> Volume" where
  "newLogsVolume ais daeType =
     \<lparr>vol_Name = logsVolume, vol_Source =
        (if LogsDirectory (Spec ais) \<noteq> []
         then HostPathSource (path_Join [LogsDirectory (Spec ais), Namespace ais, Name ais, daeType])
                ''DirectoryOrCreate''
         else EmptyDirSource)\<rparr>"

definition getTLSCSIVolumeSource :: "k8s_lib \<Rightarrow> AIStore \<Rightarrow> string \<Rightarrow> VolumeSource" where
  "getTLSCSIVolumeSource L ais daeType =
     (case GetTLSCertificate ais of None \<Rightarrow> OtherSource []
      | Some certConfig \<Rightarrow> CSISource (csiapi L ''GroupName'')
          (ToVolumeAttributes L
            \<lparr>csi_IssuerName = issuer_Name (IssuerRef certConfig),
             csi_IssuerKind = issuer_Kind (IssuerRef certConfig),
             csi_CommonName = Name ais @ ''-'' @ daeType @ ''.'' @ Namespace ais,
             csi_DNSNames = fst (buildCertificateSANs L ais []),
             csi_Duration = cert_Duration certConfig, csi_RenewBefore = cert_RenewBefore certConfig,
             csi_Usages = certUsages\<rparr>) True)"

definition getTLSVolume :: "k8s_lib \<Rightarrow> AIStore \<Rightarrow> string \<Rightarrow> Volume option" where
  "getTLSVolume L ais daeType =
     (if UseTLSCSI ais
        then Some \<lparr>vol_Name = tlsSecretVolume, vol_Source = getTLSCSIVolumeSource L ais daeType\<rparr>
      else if UseTLSCertificate ais \<or> UseTLSSecret ais
        then Some \<lparr>vol_Name = tlsSecretVolume, vol_Source = SecretSource (GetTLSSecretName ais)\<rparr>
      else None)"

definition NewAISVolumes :: "k8s_lib \<Rightarrow> AIStore \<Rightarrow> string \<Rightarrow> Volume list" where
  "NewAISVolumes L ais daeType =
     [\<lparr>vol_Name = configTemplateVolume, vol_Source = ConfigMapSource (AISConfigMapName ais daeType) [] False\<rparr>,
      \<lparr>vol_Name = configVolume, vol_Source = EmptyDirSource\<rparr>,
      \<lparr>vol_Name = configGlobalVolume,
       vol_Source = ConfigMapSource (nn_Name (globalConfigMapName ais)) [] False\<rparr>,
      newLogsVolume ais daeType]
     @ (if UsesStateEmptyDir (Spec ais)
        then [\<lparr>vol_Name = stateVolume, vol_Source = EmptyDirSource\<rparr>]
        else if StateStorageHostPathPrefix (Spec ais) \<noteq> None
        then [\<lparr>vol_Name = stateVolume,
               vol_Source = HostPathSource (StateHostPath ais daeType) ''DirectoryOrCreate''\<rparr>]
        else [])
     @ (case getTLSVolume L ais daeType of None \<Rightarrow> [] | Some v \<Rightarrow> [v])
     @ (case TracingTokenSecretName (Spec ais) of None \<Rightarrow> []
        | Some n \<Rightarrow> [\<lparr>vol_Name = tracingSecretVolume, vol_Source = SecretSource n\<rparr>])"

definition getHostMountSubPath :: "string \<Rightarrow> string" where
  "getHostMountSubPath daeType = (if daeType = Target_name then ''$(MY_POD)'' else [])"

definition simple_mount :: "string \<Rightarrow> string \<Rightarrow> VolumeMount" where
  "simple_mount name path = \<lparr>vm_Name = name, vm_MountPath = path, vm_SubPathExpr = [], vm_ReadOnly = False\<rparr>"

definition read_only_mount :: "string \<Rightarrow> string \<Rightarrow> VolumeMount" where
  "read_only_mount name path = (simple_mount name path)\<lparr>vm_ReadOnly := True\<rparr>"

definition newLogsVolumeMount :: "string \<Rightarrow> VolumeMount" where
  "newLogsVolumeMount daeType =
     (simple_mount logsVolume LogsDir)\<lparr>vm_SubPathExpr := getHostMountSubPath daeType\<rparr>"

definition NewInitVolumeMounts :: "VolumeMount list" where
  "NewInitVolumeMounts = [simple_mount configTemplateVolume InitConfTemplateDir,
     simple_mount configVolume AisConfigDir, simple_mount configGlobalVolume InitGlobalConfDir]"

text \<open>The claim for a pod's state asks for 1Gi of the given storage class.\<close>

definition getStatePVCName :: "AIStore \<Rightarrow> string" where
  "getStatePVCName ais = Namespace ais @ ''-'' @ Name ais @ ''-state''"

definition DefineStatePVC :: "AIStore \<Rightarrow> string option \<Rightarrow> PersistentVolumeClaim" where
  "DefineStatePVC ais storageClass =
     \<lparr>pvc_Name = getStatePVCName ais, pvc_AccessModes = [''ReadWriteOnce''],
      pvc_StorageClassName = storageClass, pvc_Selector = None, pvc_StorageRequest = Some (2 ^ 30)\<rparr>"

definition statePVCs :: "AIStore \<Rightarrow> PersistentVolumeClaim list" where
  "statePVCs ais = (case StateStoragePVCStorageClass (Spec ais) of None \<Rightarrow> []
     | Some c \<Rightarrow> [DefineStatePVC ais (Some c)])"

definition NewAISVolumeMounts :: "AIStore \<Rightarrow> string \<Rightarrow> VolumeMount list" where
  "NewAISVolumeMounts ais daeType =
     [simple_mount configVolume AisConfigDir, newLogsVolumeMount daeType]
     @ (if UsesStateEmptyDir (Spec ais) then [simple_mount stateVolume StateDir]
        else if UsesStatePVC (Spec ais) then [simple_mount (getStatePVCName ais) StateDir]
        else if UsesStateHostPath (Spec ais)
        then [(simple_mount stateVolume StateDir)\<lparr>vm_SubPathExpr := getHostMountSubPath daeType\<rparr>]
        else [])
     @ (if HasTLSEnabled ais then [read_only_mount tlsSecretVolume ''/var/certs''] else [])
     @ (if TracingTokenSecretName (Spec ais) \<noteq> None
        then [read_only_mount tracingSecretVolume ''/var/traces''] else [])"

section \<open>Containers\<close>

text \<open>A container with nothing but its name, image and pull policy.\<close>

definition container :: "string \<Rightarrow> string \<Rightarrow> string \<Rightarrow> Container" where
  "container name img pullPolicy =
     \<lparr>c_Name = name, c_Image = img, c_ImagePullPolicy = pullPolicy, c_Command = [], c_Args = [],
      c_Env = [], c_Ports = [],
      c_Resources = \<lparr>res_Requests = fmempty, res_Limits = fmempty, res_Claims = []\<rparr>,
      c_VolumeMounts = [], c_LivenessProbe = None, c_ReadinessProbe = None, c_StartupProbe = None,
      c_SecurityContext = None, c_Rest = []\<rparr>"

definition NewLogSidecar :: "AIStore \<Rightarrow> string \<Rightarrow> Container" where
  "NewLogSidecar ais daeType =
     (let c = (container ''ais-logs'' (GetLogSidecarImage ais) ''IfNotPresent'')
            \<lparr>c_Args := [path_Join [LogsDir, ''ais'' @ daeType @ ''.INFO'']],
             c_VolumeMounts := [newLogsVolumeMount daeType],
             c_Env := [EnvFromFieldPath ''MY_POD'' ''metadata.name''],
             c_SecurityContext := Some RestrictedSecurityContext\<rparr>
      in case GetLogSidecarResources ais of None \<Rightarrow> c | Some r \<Rightarrow> c\<lparr>c_Resources := r\<rparr>)"

section \<open>Lemmas\<close>

text \<open>
  The overrides win, every default whose name they leave free is kept, and no name is dropped.
\<close>

lemma MergeEnvVars_names: "env_Name ` set (MergeEnvVars d o') = env_Name ` set o' \<union> env_Name ` set d"
  by (auto simp: MergeEnvVars_def)

lemma MergeEnvVars_distinct:
  "distinct (map env_Name o') \<Longrightarrow> distinct (map env_Name d) \<Longrightarrow> distinct (map env_Name (MergeEnvVars d o'))"
  by (auto simp: MergeEnvVars_def distinct_map_filter) (metis imageI)

text \<open>Changing the spec in place is done once: the second time it stays as it is.\<close>

lemma CreateAISAffinity_idem: "CreateAISAffinity (Some (CreateAISAffinity a l)) l = CreateAISAffinity a l"
  by (simp add: CreateAISAffinity_def Let_def)

lemma NewResourceReq_ephemeral:
  "fmlookup (res_Requests (NewResourceReq ais r)) ResourceEphemeralStorage \<noteq> None"
  by (auto simp: NewResourceReq_def StorageEphemeral_def Let_def split: option.splits)

lemma NewResourceReq_idem: "NewResourceReq ais (NewResourceReq ais r) = NewResourceReq ais r"
proof (cases "StorageEphemeral (res_Requests r) \<noteq> 0")
  case False
  have "fmupd k v (fmupd k v m) = fmupd k v m" for k :: string and v :: amount and m
    by (rule fmap_ext) simp
  with False show ?thesis by (simp add: NewResourceReq_def Let_def split: option.splits)
qed (simp add: NewResourceReq_def)

text \<open>An annotation of the user takes the place of the operator's.\<close>

lemma PrepareAnnotations_lookup:
  "fmlookup (PrepareAnnotations L m n h) k =
     (case fmlookup m k of Some v \<Rightarrow> Some v
      | None \<Rightarrow> if h \<noteq> None \<and> k = RestartConfigHashAnnotation then h
                else if n \<noteq> None \<and> k = NetworkAttachmentAnnot L then n else None)"
proof (cases "fmlookup m k")
  case None
  then have "k |\<notin>| fmdom m" by (simp add: fmdom_notI)
  with None show ?thesis by (cases n; cases h) (simp_all add: PrepareAnnotations_def)
next
  case (Some v)
  then have "k |\<in>| fmdom m" by (rule fmdomI)
  with Some show ?thesis by (simp add: PrepareAnnotations_def Let_def)
qed

end
