(* ===== verification/Daemon_Pods.thy ===== *)
theory Daemon_Pods
  imports Pod_Builders
begin

text \<open>
  The pods and the StatefulSets of the proxies and of the targets
  (\<^verbatim>\<open>operator/internal/resources/aistore/proxy\<close> and \<^verbatim>\<open>target\<close>: the files \<^verbatim>\<open>statefulset.go\<close> and
  \<^verbatim>\<open>volumes.go\<close>). A package's name prefixes what both define.
\<close>

text \<open>A StatefulSet as the operator asks for it; no update strategy leaves the API server's default.\<close>

record DesiredStatefulSet =
  dss_Name :: NamespacedName
  dss_Labels :: string_map
  dss_Annotations :: string_map
  dss_Selector :: string_map
  dss_ServiceName :: string
  dss_PodManagementPolicy :: string
  dss_Replicas :: int32
  dss_UpdateStrategy :: "StrategyType option"
  dss_VolumeClaimTemplates :: "PersistentVolumeClaim list"
  dss_Template :: PodTemplateSpec
  dss_PVCRetentionPolicy :: "PVCRetentionPolicySpec option"

text \<open>What both daemons' pods have alike: one init container, one daemon and maybe a log sidecar.\<close>

definition init_container :: "AIStore \<Rightarrow> string \<Rightarrow> EnvVar list \<Rightarrow> Container" where
  "init_container ais daeType envs =
     (container ''populate-env'' (InitImage (Spec ais)) ''Always'')
       \<lparr>c_Env := envs, c_Resources := NewInitResourceReq,
        c_Args := NewInitContainerArgs daeType (HostnameMap (Spec ais)),
        c_VolumeMounts := NewInitVolumeMounts, c_SecurityContext := Some RestrictedSecurityContext\<rparr>"

definition daemon_container ::
  "k8s_lib \<Rightarrow> AIStore \<Rightarrow> string \<Rightarrow> 'a DaemonSpec_scheme \<Rightarrow> int32 \<Rightarrow> EnvVar list \<Rightarrow> VolumeMount list \<Rightarrow> Container" where
  "daemon_container L ais daeType d targetSize envs mounts =
     (container AISContainerName (NodeImage (Spec ais)) ''Always'')
       \<lparr>c_Command := [''aisnode''], c_Args := NewAISContainerArgs targetSize daeType, c_Env := envs,
        c_Ports := NewDaemonPorts L d, c_Resources := NewResourceReq ais (d_Resources d),
        c_SecurityContext := Some (GetAISSecurityContext d), c_VolumeMounts := mounts,
        c_StartupProbe := Some (NewStartupProbe ais daeType),
        c_LivenessProbe := Some (NewLivenessProbe ais daeType),
        c_ReadinessProbe := Some (NewReadinessProbe ais daeType)\<rparr>"

definition with_sidecar :: "AIStore \<Rightarrow> string \<Rightarrow> Container \<Rightarrow> Container list" where
  "with_sidecar ais daeType c =
     c # (if GetLogSidecarImage ais \<noteq> [] then [NewLogSidecar ais daeType] else [])"

definition priority_class :: "AIStore \<Rightarrow> string" where
  "priority_class ais = (case PriorityClassName (Spec ais) of None \<Rightarrow> [] | Some p \<Rightarrow> p)"

definition pod_annotations :: "k8s_lib \<Rightarrow> AIStore \<Rightarrow> 'a DaemonSpec_scheme \<Rightarrow> string_map" where
  "pod_annotations L ais d = PrepareAnnotations L (d_Annotations d) (NetAttachment (Spec ais))
     (Some (annotation (Annotations ais) RestartConfigHashAnnotation))"

section \<open>Proxies\<close>

definition oidcCAVolumeName :: string where "oidcCAVolumeName = ''oidc-ca''"

definition proxy_newVolumes :: "k8s_lib \<Rightarrow> AIStore \<Rightarrow> Volume list" where
  "proxy_newVolumes L ais = NewAISVolumes L ais Proxy_name
     @ (case IssuerCAConfigMap (Spec ais) of None \<Rightarrow> []
        | Some n \<Rightarrow> [\<lparr>vol_Name = oidcCAVolumeName, vol_Source = ConfigMapSource n [] False\<rparr>])"

definition proxy_newVolumeMounts :: "AIStore \<Rightarrow> VolumeMount list" where
  "proxy_newVolumeMounts ais = NewAISVolumeMounts ais Proxy_name
     @ (if IssuerCAConfigMap (Spec ais) \<noteq> None
        then [read_only_mount oidcCAVolumeName ''/etc/ais/oidc-ca''] else [])"

definition public_hostname_env :: "AIStore \<Rightarrow> EnvVar" where
  "public_hostname_env ais = EnvFromFieldPath ''AIS_PUBLIC_HOSTNAME''
     (if UseNodeNameForPublicNet ais then ''spec.nodeName'' else ''status.hostIP'')"

definition proxy_NewInitContainerEnv :: "k8s_lib \<Rightarrow> AIStore \<Rightarrow> EnvVar list" where
  "proxy_NewInitContainerEnv L ais =
     CommonInitEnv L ais (ProxyExternalAccessEnabled ais)
     @ [EnvFromValue ''MY_SERVICE'' (nn_Name (proxy_HeadlessSVCNSName ais))]
     @ (if d_HostPort (ProxySpec (Spec ais)) \<noteq> None then [public_hostname_env ais] else [])"

definition proxy_NewAISContainerEnv :: "k8s_lib \<Rightarrow> AIStore \<Rightarrow> EnvVar list" where
  "proxy_NewAISContainerEnv L ais =
     MergeEnvVars (CommonEnv @ (case AuthNSecretName (Spec ais) of None \<Rightarrow> []
         | Some secret \<Rightarrow> [EnvFromSecret (aisenv L ''AisAuthSecretKey'') secret ''SIGNING-KEY'']))
       (d_Env (ProxySpec (Spec ais)))"

definition proxy_BasicLabels :: "AIStore \<Rightarrow> string_map" where
  "proxy_BasicLabels ais = LegacyLabels (Name ais) Proxy_name"

definition proxyPodTemplate :: "k8s_lib \<Rightarrow> AIStore \<Rightarrow> int32 \<Rightarrow> PodTemplateSpec" where
  "proxyPodTemplate L ais targetSize =
     (let d = ProxySpec (Spec ais) in
      \<lparr>pt_Annotations = pod_annotations L ais d,
       pt_Labels = MergePodLabels (d_Labels d) (fmupd LabelManagedBy LabelManagedByValue (proxy_BasicLabels ais)),
       pt_InitContainers = [init_container ais Proxy_name (proxy_NewInitContainerEnv L ais)],
       pt_Containers = with_sidecar ais Proxy_name
         (daemon_container L ais Proxy_name d targetSize (proxy_NewAISContainerEnv L ais)
            (proxy_newVolumeMounts ais)),
       pt_SecurityContext = Some (GetPodSecurityContext d), pt_Volumes = proxy_newVolumes L ais,
       pt_PriorityClassName = priority_class ais, pt_Tolerations = d_Tolerations d,
       pt_ServiceAccountName = nn_Name (ServiceAccountName ais), pt_AutomountServiceAccountToken = None,
       pt_ImagePullSecrets = [], pt_NodeSelector = selector_of d,
       pt_Affinity = Some (CreateAISAffinity (d_Affinity d) (proxy_SelectorLabels ais)),
       pt_HostNetwork = False, pt_DNSPolicy = [], pt_Rest = []\<rparr>)"

text \<open>The arguments of the daemon hold the target size, whose computation may panic.\<close>

definition NewProxyStatefulSet :: "k8s_lib \<Rightarrow> AIStore \<Rightarrow> int32 \<Rightarrow> DesiredStatefulSet option" where
  "NewProxyStatefulSet L ais n = map_option (\<lambda>targetSize.
     \<lparr>dss_Name = proxy_StatefulSetNSName ais,
      dss_Labels = fmupd LabelManagedBy LabelManagedByValue (proxy_BasicLabels ais),
      dss_Annotations = fmempty, dss_Selector = proxy_SelectorLabels ais,
      dss_ServiceName = nn_Name (proxy_HeadlessSVCNSName ais), dss_PodManagementPolicy = ''Parallel'',
      dss_Replicas = n, dss_UpdateStrategy = None, dss_VolumeClaimTemplates = statePVCs ais,
      dss_Template = proxyPodTemplate L ais targetSize,
      dss_PVCRetentionPolicy = d_PVCRetentionPolicy (ProxySpec (Spec ais))\<rparr>) (GetTargetSize ais)"

section \<open>Targets\<close>

definition cloud_secrets :: "AIStoreSpec \<Rightarrow> (string option \<times> string \<times> string) list" where
  "cloud_secrets s = [(AWSSecretName s, ''aws-creds'', ''/root/.aws''),
     (GCPSecretName s, ''gcp-creds'', ''/var/gcp''), (OCISecretName s, ''oci-creds'', ''/root/.oci'')]"

definition appendCloudVolumes :: "AIStoreSpec \<Rightarrow> Volume list" where
  "appendCloudVolumes s = concat (map (\<lambda>(secret, name, _). case secret of None \<Rightarrow> []
     | Some n \<Rightarrow> [\<lparr>vol_Name = name, vol_Source = SecretSource n\<rparr>]) (cloud_secrets s))"

definition appendCloudVolumeMounts :: "AIStoreSpec \<Rightarrow> VolumeMount list" where
  "appendCloudVolumeMounts s = concat (map (\<lambda>(secret, name, dir). case secret of None \<Rightarrow> []
     | Some _ \<Rightarrow> [read_only_mount name dir]) (cloud_secrets s))"

definition getHostPathVolumeName :: "nat \<Rightarrow> string" where
  "getHostPathVolumeName index = ''host-data-mount-'' @ show_nat index"

definition appendHostPathDataVolumes :: "AIStore \<Rightarrow> Volume list" where
  "appendHostPathDataVolumes ais = concat (map (\<lambda>(i, mnt). if \<not> IsHostPath mnt then []
     else [\<lparr>vol_Name = getHostPathVolumeName i,
            vol_Source = HostPathSource (path_Join [mnt_Path mnt, Namespace ais, Name ais, Target_name])
              ''DirectoryOrCreate''\<rparr>]) (enumerate 0 (t_Mounts (SpecTarget (Spec ais)))))"

definition appendDataVolumeMounts :: "AIStore \<Rightarrow> VolumeMount list" where
  "appendDataVolumeMounts ais = map (\<lambda>(i, mnt).
     simple_mount (if IsHostPath mnt then getHostPathVolumeName i else GetPVCName mnt (Name ais)) (mnt_Path mnt))
     (enumerate 0 (t_Mounts (SpecTarget (Spec ais))))"

definition newTargetPVCs :: "AIStore \<Rightarrow> PersistentVolumeClaim list" where
  "newTargetPVCs ais =
     map (\<lambda>mnt. BuildPVC mnt (Name ais)) (filter (\<lambda>mnt. \<not> IsHostPath mnt) (t_Mounts (SpecTarget (Spec ais))))
     @ statePVCs ais"

definition target_newVolumes :: "k8s_lib \<Rightarrow> AIStore \<Rightarrow> Volume list" where
  "target_newVolumes L ais =
     NewAISVolumes L ais Target_name @ appendCloudVolumes (Spec ais) @ appendHostPathDataVolumes ais"

definition target_newVolumeMounts :: "AIStore \<Rightarrow> VolumeMount list" where
  "target_newVolumeMounts ais =
     NewAISVolumeMounts ais Target_name @ appendCloudVolumeMounts (Spec ais) @ appendDataVolumeMounts ais"

definition target_NewInitContainerEnv :: "k8s_lib \<Rightarrow> AIStore \<Rightarrow> EnvVar list" where
  "target_NewInitContainerEnv L ais =
     CommonInitEnv L ais (TargetExternalAccessEnabled ais)
     @ [EnvFromValue ''MY_SERVICE'' (nn_Name (target_HeadlessSVCNSName ais))]
     @ (if d_HostPort (SpecTarget (Spec ais)) \<noteq> None \<and> \<not> TargetExternalAccessEnabled ais
        then [public_hostname_env ais] else [])
     @ (if UseHostNetwork ais then [EnvFromValue ''HOST_NETWORK'' ''true''] else [])"

definition target_NewAISContainerEnv :: "AIStore \<Rightarrow> EnvVar list" where
  "target_NewAISContainerEnv ais =
     MergeEnvVars (CommonEnv
       @ (if HasGCPBackend (Spec ais)
          then [EnvFromValue ''GOOGLE_APPLICATION_CREDENTIALS'' (path_Join [''/var/gcp'', ''gcp.json''])] else [])
       @ (if HasOCIBackend (Spec ais)
          then [EnvFromValue ''OCI_CLI_CONFIG_FILE'' (path_Join [''/root/.oci'', ''config''])] else []))
       (d_Env (SpecTarget (Spec ais)))"

definition createTargetAffinity :: "AIStore \<Rightarrow> string_map \<Rightarrow> Affinity option" where
  "createTargetAffinity ais labels =
     (if AllowTargetSharedNodes ais then d_Affinity (SpecTarget (Spec ais))
      else Some (CreateAISAffinity (d_Affinity (SpecTarget (Spec ais))) labels))"

definition target_BasicLabels :: "AIStore \<Rightarrow> string_map" where
  "target_BasicLabels ais = LegacyLabels (Name ais) Target_name"

definition targetPodTemplate :: "k8s_lib \<Rightarrow> AIStore \<Rightarrow> int32 \<Rightarrow> PodTemplateSpec" where
  "targetPodTemplate L ais targetSize =
     (let d = SpecTarget (Spec ais) in
      \<lparr>pt_Annotations = pod_annotations L ais d,
       pt_Labels = MergePodLabels (d_Labels d) (fmupd LabelManagedBy LabelManagedByValue (target_BasicLabels ais)),
       pt_InitContainers = [init_container ais Target_name (target_NewInitContainerEnv L ais)],
       pt_Containers = with_sidecar ais Target_name
         (daemon_container L ais Target_name d targetSize (target_NewAISContainerEnv ais)
            (target_newVolumeMounts ais)),
       pt_SecurityContext = Some (GetPodSecurityContext d), pt_Volumes = target_newVolumes L ais,
       pt_PriorityClassName = priority_class ais, pt_Tolerations = d_Tolerations d,
       pt_ServiceAccountName = nn_Name (ServiceAccountName ais), pt_AutomountServiceAccountToken = None,
       pt_ImagePullSecrets = [], pt_NodeSelector = selector_of d,
       pt_Affinity = createTargetAffinity ais (target_SelectorLabels ais),
       pt_HostNetwork = UseHostNetwork ais, pt_DNSPolicy = GetTargetDNSPolicy ais, pt_Rest = []\<rparr>)"

definition NewTargetSS :: "k8s_lib \<Rightarrow> AIStore \<Rightarrow> int32 \<Rightarrow> DesiredStatefulSet option" where
  "NewTargetSS L ais expectedSize = map_option (\<lambda>targetSize.
     \<lparr>dss_Name = target_StatefulSetNSName ais,
      dss_Labels = fmupd LabelManagedBy LabelManagedByValue (target_BasicLabels ais),
      dss_Annotations = fmap_of_list [(RestartConfigHashAnnotation,
        annotation (Annotations ais) RestartConfigHashAnnotation)],
      dss_Selector = target_SelectorLabels ais,
      dss_ServiceName = nn_Name (target_HeadlessSVCNSName ais), dss_PodManagementPolicy = ''Parallel'',
      dss_Replicas = expectedSize, dss_UpdateStrategy = Some OnDeleteStrategy,
      dss_VolumeClaimTemplates = newTargetPVCs ais, dss_Template = targetPodTemplate L ais targetSize,
      dss_PVCRetentionPolicy = d_PVCRetentionPolicy (SpecTarget (Spec ais))\<rparr>) (GetTargetSize ais)"

section \<open>Lemmas\<close>

text \<open>The names a pod can mount: its volumes and the claims of its StatefulSet.\<close>

definition mountable :: "DesiredStatefulSet \<Rightarrow> string set" where
  "mountable ss = vol_Name ` set (pt_Volumes (dss_Template ss)) \<union> pvc_Name ` set (dss_VolumeClaimTemplates ss)"

definition mounted :: "DesiredStatefulSet \<Rightarrow> string set" where
  "mounted ss = (\<Union>c\<in>set (pt_InitContainers (dss_Template ss) @ pt_Containers (dss_Template ss)).
     vm_Name ` set (c_VolumeMounts c))"

definition tls_has_source :: "AIStore \<Rightarrow> bool" where
  "tls_has_source ais \<longleftrightarrow> \<not> HasTLSEnabled ais \<or> UseTLSSecret ais \<or> GetTLSCertificate ais \<noteq> None"

lemma mount_names [simp]:
  "vm_Name (simple_mount n p) = n" "vm_Name (read_only_mount n p) = n"
  "vm_Name (newLogsVolumeMount t) = logsVolume"
  by (simp_all add: simple_mount_def read_only_mount_def newLogsVolumeMount_def)

lemma source_of_tls:
  "tls_has_source ais \<Longrightarrow> HasTLSEnabled ais \<Longrightarrow> \<exists>v. getTLSVolume L ais t = Some v \<and> vol_Name v = tlsSecretVolume"
  by (auto simp: tls_has_source_def getTLSVolume_def UseTLSCSI_def UseTLSCertificate_def split: option.splits)

lemma common_mounts_have_volumes:
  assumes "tls_has_source ais"
  shows "vm_Name ` set (NewAISVolumeMounts ais t) \<subseteq>
    vol_Name ` set (NewAISVolumes L ais t) \<union> pvc_Name ` set (statePVCs ais)"
  using source_of_tls [OF assms, of L t]
  by (auto simp: NewAISVolumeMounts_def NewAISVolumes_def statePVCs_def DefineStatePVC_def newLogsVolume_def
      UsesStatePVC_def UsesStateHostPath_def)

lemma other_mounts_have_volumes:
  "vm_Name ` set NewInitVolumeMounts \<subseteq> vol_Name ` set (NewAISVolumes L ais t)"
  "vm_Name ` set (c_VolumeMounts (NewLogSidecar ais t)) \<subseteq> vol_Name ` set (NewAISVolumes L ais t)"
  by (auto simp: NewInitVolumeMounts_def NewAISVolumes_def NewLogSidecar_def newLogsVolume_def container_def
      Let_def split: option.splits)

lemma data_mounts_have_volumes:
  "vm_Name ` set (appendDataVolumeMounts ais) \<subseteq>
     vol_Name ` set (appendHostPathDataVolumes ais) \<union> pvc_Name ` set (newTargetPVCs ais)"
proof
  fix x
  assume "x \<in> vm_Name ` set (appendDataVolumeMounts ais)"
  then obtain i mnt where i: "(i, mnt) \<in> set (enumerate 0 (t_Mounts (SpecTarget (Spec ais))))"
    and x: "x = (if IsHostPath mnt then getHostPathVolumeName i else GetPVCName mnt (Name ais))"
    by (auto simp: appendDataVolumeMounts_def)
  show "x \<in> vol_Name ` set (appendHostPathDataVolumes ais) \<union> pvc_Name ` set (newTargetPVCs ais)"
  proof (cases "IsHostPath mnt")
    case True
    let ?v = "\<lparr>vol_Name = getHostPathVolumeName i,
      vol_Source = HostPathSource (path_Join [mnt_Path mnt, Namespace ais, Name ais, Target_name]) ''DirectoryOrCreate''\<rparr>"
    have "?v \<in> set (appendHostPathDataVolumes ais)"
      using i True by (force simp: appendHostPathDataVolumes_def)
    from imageI [OF this, of vol_Name] show ?thesis using x True by simp
  next
    case False
    have "mnt \<in> set (t_Mounts (SpecTarget (Spec ais)))"
      using i by (auto simp: in_set_enumerate_eq)
    with False have "BuildPVC mnt (Name ais) \<in> set (newTargetPVCs ais)" by (simp add: newTargetPVCs_def)
    from imageI [OF this, of pvc_Name] show ?thesis using x False by (simp add: BuildPVC_def)
  qed
qed

lemma cloud_mounts_have_volumes:
  "vm_Name ` set (appendCloudVolumeMounts s) = vol_Name ` set (appendCloudVolumes s)"
  by (cases "AWSSecretName s"; cases "GCPSecretName s"; cases "OCISecretName s")
     (simp_all add: appendCloudVolumeMounts_def appendCloudVolumes_def cloud_secrets_def)

text \<open>Every mount of every container has its volume or its claim.\<close>

lemma pod_mounts:
  assumes "pt_InitContainers (dss_Template ss) = [init_container ais t envs]"
    and "pt_Containers (dss_Template ss) = with_sidecar ais t (daemon_container L ais t d m envs' mounts)"
    and "vol_Name ` set (NewAISVolumes L ais t) \<subseteq> mountable ss" and "vm_Name ` set mounts \<subseteq> mountable ss"
  shows "mounted ss \<subseteq> mountable ss"
proof -
  have "c_VolumeMounts (init_container ais t envs) = NewInitVolumeMounts"
    and "c_VolumeMounts (daemon_container L ais t d m envs' mounts) = mounts"
    by (simp_all add: init_container_def daemon_container_def)
  moreover have "vm_Name ` set NewInitVolumeMounts \<subseteq> mountable ss"
    and "vm_Name ` set (c_VolumeMounts (NewLogSidecar ais t)) \<subseteq> mountable ss"
    using other_mounts_have_volumes [where ais = ais and L = L and t = t] assms(3) by (blast intro: order_trans)+
  ultimately show ?thesis
    using assms(4) by (simp add: mounted_def assms(1,2) with_sidecar_def) blast
qed

lemma proxy_mounts:
  assumes "NewProxyStatefulSet L ais n = Some ss" and "tls_has_source ais"
  shows "mounted ss \<subseteq> mountable ss"
proof -
  from assms(1) obtain m where t: "dss_Template ss = proxyPodTemplate L ais m"
    and c: "dss_VolumeClaimTemplates ss = statePVCs ais" by (auto simp: NewProxyStatefulSet_def)
  have "vm_Name ` set (proxy_newVolumeMounts ais) \<subseteq> mountable ss"
    using common_mounts_have_volumes [OF assms(2), of Proxy_name L]
    by (auto simp: mountable_def t c proxyPodTemplate_def Let_def proxy_newVolumeMounts_def
        proxy_newVolumes_def split: if_splits option.splits)
  then show ?thesis
    by (intro pod_mounts [where ais = ais and t = Proxy_name and L = L])
       (auto simp: t c proxyPodTemplate_def Let_def mountable_def proxy_newVolumes_def)
qed

lemma target_mounts:
  assumes "NewTargetSS L ais n = Some ss" and "tls_has_source ais"
  shows "mounted ss \<subseteq> mountable ss"
proof -
  from assms(1) obtain m where t: "dss_Template ss = targetPodTemplate L ais m"
    and c: "dss_VolumeClaimTemplates ss = newTargetPVCs ais" by (auto simp: NewTargetSS_def)
  have p: "pvc_Name ` set (statePVCs ais) \<subseteq> pvc_Name ` set (newTargetPVCs ais)"
    by (auto simp: newTargetPVCs_def)
  have "vm_Name ` set (target_newVolumeMounts ais) \<subseteq> mountable ss"
    using common_mounts_have_volumes [OF assms(2), of Target_name L] p
      data_mounts_have_volumes [of ais] cloud_mounts_have_volumes [of "Spec ais"]
    by (simp add: mountable_def t c targetPodTemplate_def Let_def target_newVolumeMounts_def
        target_newVolumes_def image_Un) blast
  then show ?thesis
    by (intro pod_mounts [where ais = ais and t = Target_name and L = L])
       (auto simp: t c targetPodTemplate_def Let_def mountable_def target_newVolumes_def)
qed

text \<open>No two volumes of a pod share a name.\<close>

lemmas volume_names = configTemplateVolume_def configVolume_def configGlobalVolume_def stateVolume_def
  tlsSecretVolume_def tracingSecretVolume_def logsVolume_def oidcCAVolumeName_def getHostPathVolumeName_def

lemma tls_volume_name: "getTLSVolume L ais t = Some v \<Longrightarrow> vol_Name v = tlsSecretVolume"
  by (auto simp: getTLSVolume_def split: if_splits)

lemma common_volumes_distinct:
  "distinct (map vol_Name (NewAISVolumes L ais t)) \<and> set (map vol_Name (NewAISVolumes L ais t)) \<subseteq>
     {configTemplateVolume, configVolume, configGlobalVolume, logsVolume, stateVolume, tlsSecretVolume,
      tracingSecretVolume}"
  by (auto simp: NewAISVolumes_def newLogsVolume_def volume_names tls_volume_name dest!: tls_volume_name
      split: option.splits if_splits)

lemma proxy_volumes_distinct: "distinct (map vol_Name (pt_Volumes (proxyPodTemplate L ais m)))"
  using common_volumes_distinct [of L ais Proxy_name]
  by (auto simp: proxyPodTemplate_def Let_def proxy_newVolumes_def volume_names split: option.splits)

lemma host_volume_names:
  "map vol_Name (concat (map (\<lambda>(i, mnt). if \<not> IsHostPath mnt then []
      else [\<lparr>vol_Name = getHostPathVolumeName i, vol_Source = f i mnt\<rparr>]) (enumerate k ms)))
     = map (getHostPathVolumeName \<circ> fst) (filter (IsHostPath \<circ> snd) (enumerate k ms))"
  by (induction ms arbitrary: k) auto

lemma host_volumes_distinct: "distinct (map vol_Name (appendHostPathDataVolumes ais))"
proof -
  have "inj getHostPathVolumeName"
    by (auto intro!: injI simp: getHostPathVolumeName_def dest: show_nat_inj)
  then show ?thesis
    by (simp add: appendHostPathDataVolumes_def host_volume_names distinct_map comp_def)
       (auto intro!: inj_onI dest: injD simp: in_set_enumerate_eq)
qed

lemma cloud_volumes_distinct:
  "distinct (map vol_Name (appendCloudVolumes s)) \<and>
     set (map vol_Name (appendCloudVolumes s)) \<subseteq> {''aws-creds'', ''gcp-creds'', ''oci-creds''}"
  by (cases "AWSSecretName s"; cases "GCPSecretName s"; cases "OCISecretName s")
     (simp_all add: appendCloudVolumes_def cloud_secrets_def)

lemma target_volumes_distinct: "distinct (map vol_Name (pt_Volumes (targetPodTemplate L ais m)))"
proof -
  let ?n = "map vol_Name (NewAISVolumes L ais Target_name)" and ?c = "map vol_Name (appendCloudVolumes (Spec ais))"
    and ?h = "map vol_Name (appendHostPathDataVolumes ais)"
  have "set ?h \<subseteq> range getHostPathVolumeName"
    by (auto simp: appendHostPathDataVolumes_def split: if_splits)
  then have h: "\<forall>x\<in>set ?h. hd x = CHR ''h''" by (auto simp: getHostPathVolumeName_def)
  have n: "\<forall>x\<in>set ?n. hd x \<in> {CHR ''c'', CHR ''l'', CHR ''s'', CHR ''t''} \<and> drop 4 x \<noteq> ''creds''"
    using common_volumes_distinct [of L ais Target_name] by (auto simp: volume_names)
  have c: "\<forall>x\<in>set ?c. hd x \<in> {CHR ''a'', CHR ''g'', CHR ''o''} \<and> drop 4 x = ''creds''"
    using cloud_volumes_distinct [of "Spec ais"] by auto
  have "set ?n \<inter> set ?c = {}" using n c by (meson disjoint_iff)
  moreover have "set ?n \<inter> set ?h = {}" using n h by fastforce
  moreover have "set ?c \<inter> set ?h = {}" using c h by fastforce
  ultimately have "distinct (?n @ ?c @ ?h)"
    using common_volumes_distinct [of L ais Target_name] cloud_volumes_distinct [of "Spec ais"]
      host_volumes_distinct [of ais]
    by (simp only: distinct_append set_append Int_Un_distrib) simp
  then show ?thesis by (simp add: targetPodTemplate_def Let_def target_newVolumes_def)
qed

text \<open>The pods carry the labels the StatefulSet and the services select them by.\<close>

lemma selector_in_labels:
  "fmlookup (SelectorLabels name component) k = Some v \<Longrightarrow>
     fmlookup (MergePodLabels user (fmupd LabelManagedBy LabelManagedByValue (LegacyLabels name component))) k = Some v"
  by (rule user_labels_cannot_override)
     (auto simp: SelectorLabels_def LegacyLabels_def LabelManagedBy_def LabelAppPrefixed_def
       LabelComponentPrefixed_def LabelApp_def LabelComponent_def split: if_splits)

section \<open>Building again\<close>

text \<open>What building leaves of the CR in memory: the resources and the affinity are changed in place.\<close>

definition in_place :: "AIStore \<Rightarrow> string_map \<Rightarrow> 'a DaemonSpec_scheme \<Rightarrow> 'a DaemonSpec_scheme" where
  "in_place ais labels d = d\<lparr>d_Resources := NewResourceReq ais (d_Resources d),
     d_Affinity := map_option (\<lambda>a. CreateAISAffinity (Some a) labels) (d_Affinity d)\<rparr>"

definition proxy_in_place :: "AIStore \<Rightarrow> AIStore" where
  "proxy_in_place ais = ais\<lparr>Spec := (Spec ais)\<lparr>ProxySpec :=
     in_place ais (proxy_SelectorLabels ais) (ProxySpec (Spec ais))\<rparr>\<rparr>"

definition target_in_place :: "AIStore \<Rightarrow> AIStore" where
  "target_in_place ais = ais\<lparr>Spec := (Spec ais)\<lparr>SpecTarget :=
     (if AllowTargetSharedNodes ais
      then (SpecTarget (Spec ais))\<lparr>d_Resources := NewResourceReq ais (d_Resources (SpecTarget (Spec ais)))\<rparr>
      else in_place ais (target_SelectorLabels ais) (SpecTarget (Spec ais)))\<rparr>\<rparr>"

lemma in_place_fields [simp]:
  "d_ServiceSpec (in_place ais l d) = d_ServiceSpec d" "d_SecurityContext (in_place ais l d) = d_SecurityContext d"
  "d_Size (in_place ais l d) = d_Size d" "d_AutoScaleConf (in_place ais l d) = d_AutoScaleConf d"
  "d_Annotations (in_place ais l d) = d_Annotations d" "d_Labels (in_place ais l d) = d_Labels d"
  "d_Capabilities (in_place ais l d) = d_Capabilities d"
  "d_AISContainerSecurityContext (in_place ais l d) = d_AISContainerSecurityContext d"
  "d_Env (in_place ais l d) = d_Env d" "d_NodeSelector (in_place ais l d) = d_NodeSelector d"
  "d_Tolerations (in_place ais l d) = d_Tolerations d" "d_HostPort (in_place ais l d) = d_HostPort d"
  "d_PVCRetentionPolicy (in_place ais l d) = d_PVCRetentionPolicy d" "d_Probes (in_place ais l d) = d_Probes d"
  "d_ExternalAccess (in_place ais l d) = d_ExternalAccess d"
  by (simp_all add: in_place_def)

lemma in_place_target_fields [simp]:
  "t_Mounts (in_place ais l t) = t_Mounts t" "t_HostNetwork (in_place ais l t) = t_HostNetwork t"
  "t_DisablePodAntiAffinity (in_place ais l t) = t_DisablePodAntiAffinity t"
  by (simp_all add: in_place_def)

end
