(* ===== verification/Cluster_Objects.thy ===== *)
theory Cluster_Objects
  imports Daemon_Pods
begin

text \<open>
  The other objects of a cluster: services, the local configuration of the daemons, the
  disruption budget of the targets, roles (\<^verbatim>\<open>operator/internal/resources/aistore\<close>: the files
  \<^verbatim>\<open>services.go\<close> and \<^verbatim>\<open>configmap.go\<close> of \<^verbatim>\<open>proxy\<close> and \<^verbatim>\<open>target\<close>, \<^verbatim>\<open>target/pdb.go\<close> and
  \<^verbatim>\<open>cmn/rbac.go\<close>). The controllers' calls name these objects by builder and arguments.
\<close>

section \<open>Services\<close>

record ServicePortSpec =
  sp_Name :: string
  sp_Protocol :: string
  sp_Port :: int32
  sp_TargetPort :: int_or_string

record ServiceObj =
  so_Name :: NamespacedName
  so_Owner :: OwnerReference
  so_Annotations :: string_map
  so_Labels :: string_map
  so_Type :: string \<comment> \<open>empty for the API server's default\<close>
  so_ClusterIP :: string
  so_PublishNotReadyAddresses :: bool
  so_Ports :: "ServicePortSpec list"
  so_Selector :: string_map

definition service_port :: "k8s_lib \<Rightarrow> string \<Rightarrow> int_or_string \<Rightarrow> int_or_string \<Rightarrow> ServicePortSpec" where
  "service_port L name port targetPort =
     \<lparr>sp_Name = name, sp_Protocol = ''TCP'', sp_Port = wrap32 (IntValue L port), sp_TargetPort = targetPort\<rparr>"

definition headless_service ::
  "k8s_lib \<Rightarrow> AIStore \<Rightarrow> NamespacedName \<Rightarrow> string \<Rightarrow> ServiceSpec \<Rightarrow> string_map \<Rightarrow> ServiceObj" where
  "headless_service L ais nm component s selector =
     \<lparr>so_Name = nm, so_Owner = NewControllerRef ais,
      so_Annotations = fmap_of_list [(''prometheus.io/scrape'', ''true'')],
      so_Labels = NewServiceLabels (Name ais) component, so_Type = [], so_ClusterIP = ''None'',
      so_PublishNotReadyAddresses = True,
      so_Ports = [service_port L ''pub'' (ServicePort s) (ServicePort s),
        service_port L ''control'' (IntraControlPort s) (IntraControlPort s),
        service_port L ''data'' (IntraDataPort s) (IntraDataPort s)],
      so_Selector = selector\<rparr>"

definition load_balancer_service ::
  "k8s_lib \<Rightarrow> AIStore \<Rightarrow> NamespacedName \<Rightarrow> string_map option \<Rightarrow> string \<Rightarrow> ServiceSpec \<Rightarrow> string_map \<Rightarrow> ServiceObj" where
  "load_balancer_service L ais nm access component s selector =
     \<lparr>so_Name = nm, so_Owner = NewControllerRef ais, so_Annotations = ExternalAccessLBAnnotations access,
      so_Labels = NewServiceLabels (Name ais) component, so_Type = ''LoadBalancer'', so_ClusterIP = [],
      so_PublishNotReadyAddresses = False,
      so_Ports = [service_port L ''pub'' (ServicePort s) (PublicPort s)], so_Selector = selector\<rparr>"

definition NewProxyHeadlessSvc :: "k8s_lib \<Rightarrow> AIStore \<Rightarrow> ServiceObj" where
  "NewProxyHeadlessSvc L ais = headless_service L ais (proxy_HeadlessSVCNSName ais) ''proxy-svc''
     (d_ServiceSpec (ProxySpec (Spec ais))) (proxy_SelectorLabels ais)"

definition NewProxyLoadBalancerSVC :: "k8s_lib \<Rightarrow> AIStore \<Rightarrow> ServiceObj" where
  "NewProxyLoadBalancerSVC L ais = load_balancer_service L ais (proxy_LoadBalancerSVCNSName ais)
     (d_ExternalAccess (ProxySpec (Spec ais))) proxy_ServiceLabelLB
     (d_ServiceSpec (ProxySpec (Spec ais))) (proxy_SelectorLabels ais)"

definition NewTargetHeadlessSvc :: "k8s_lib \<Rightarrow> AIStore \<Rightarrow> ServiceObj" where
  "NewTargetHeadlessSvc L ais = headless_service L ais (target_HeadlessSVCNSName ais) ''target-svc''
     (d_ServiceSpec (SpecTarget (Spec ais))) (target_SelectorLabels ais)"

definition NewTargetLoadBalancerSVC :: "k8s_lib \<Rightarrow> AIStore \<Rightarrow> int32 \<Rightarrow> ServiceObj" where
  "NewTargetLoadBalancerSVC L ais targetIndex =
     load_balancer_service L ais (target_LoadBalancerSVCNSName ais targetIndex)
       (d_ExternalAccess (SpecTarget (Spec ais))) target_ServiceLabelLB
       (d_ServiceSpec (SpecTarget (Spec ais)))
       (fmupd ''statefulset.kubernetes.io/pod-name'' (target_PodName ais targetIndex) (target_SelectorLabels ais))"

section \<open>Local configuration\<close>

definition local_net :: "k8s_lib \<Rightarrow> ServiceSpec \<Rightarrow> LocalNetConfig" where
  "local_net L s =
     \<lparr>net_Hostname = ''${AIS_PUBLIC_HOSTNAME}'', net_HostnameIntraControl = ''${AIS_INTRA_HOSTNAME}'',
      net_HostnameIntraData = ''${AIS_DATA_HOSTNAME}'', net_Port = IntValue L (PublicPort s),
      net_PortIntraControl = IntValue L (IntraControlPort s), net_PortIntraData = IntValue L (IntraDataPort s)\<rparr>"

definition localConfTemplate :: "k8s_lib \<Rightarrow> ServiceSpec \<Rightarrow> LocalConfig" where
  "localConfTemplate L s =
     \<lparr>loc_ConfigDir = StateDir, loc_LogDir = LogsDir, loc_HostNet = local_net L s, loc_FSPPaths = fmempty\<rparr>"

definition definePathsWithLabels :: "Mount list \<Rightarrow> string_map" where
  "definePathsWithLabels mounts = fold (\<lambda>m paths. fmupd (mnt_Path m)
     (case mnt_Label m of Some l \<Rightarrow> l | None \<Rightarrow> []) paths) mounts fmempty"

definition templateLocalConf :: "AIStoreSpec \<Rightarrow> LocalNetConfig \<Rightarrow> LocalConfig" where
  "templateLocalConf s netConfig =
     \<lparr>loc_ConfigDir = StateDir, loc_LogDir = LogsDir, loc_HostNet = netConfig,
      loc_FSPPaths = definePathsWithLabels (t_Mounts (SpecTarget s))\<rparr>"

record ConfigMapObj =
  cm_Name :: NamespacedName
  cm_Owner :: OwnerReference
  cm_Data :: string_map

definition local_config_map :: "k8s_lib \<Rightarrow> AIStore \<Rightarrow> NamespacedName \<Rightarrow> LocalConfig \<Rightarrow> err + ConfigMapObj" where
  "local_config_map L ais nm conf =
     (case MarshalLocal L conf of Inl e \<Rightarrow> Inl e
      | Inr text \<Rightarrow> Inr \<lparr>cm_Name = nm, cm_Owner = NewControllerRef ais,
          cm_Data = fmap_of_list [(AISLocalConfigName, text)]\<rparr>)"

definition NewProxyCM :: "k8s_lib \<Rightarrow> AIStore \<Rightarrow> err + ConfigMapObj" where
  "NewProxyCM L ais = local_config_map L ais (proxy_ConfigMapNSName ais)
     (localConfTemplate L (d_ServiceSpec (ProxySpec (Spec ais))))"

definition NewTargetCM :: "k8s_lib \<Rightarrow> AIStore \<Rightarrow> err + ConfigMapObj" where
  "NewTargetCM L ais = local_config_map L ais (target_ConfigMapNSName ais)
     (templateLocalConf (Spec ais) (local_net L (d_ServiceSpec (SpecTarget (Spec ais)))))"

section \<open>Disruption budget\<close>

record PDBObj =
  pdbo_Name :: NamespacedName
  pdbo_Labels :: string_map
  pdbo_MaxUnavailable :: int_or_string
  pdbo_Selector :: string_map

definition NewTargetPDB :: "AIStore \<Rightarrow> PDBObj" where
  "NewTargetPDB ais =
     \<lparr>pdbo_Name = target_PDBNSName ais, pdbo_Labels = target_BasicLabels ais,
      pdbo_MaxUnavailable = GetTargetPDBMaxUnavailable ais, pdbo_Selector = target_SelectorLabels ais\<rparr>"

section \<open>Roles\<close>

record PolicyRule =
  pr_APIGroups :: "string list"
  pr_Resources :: "string list"
  pr_Verbs :: "string list"

record RoleObj =
  role_Name :: NamespacedName
  role_Owner :: OwnerReference
  role_Rules :: "PolicyRule list"

definition NewAISRBACRole :: "AIStore \<Rightarrow> RoleObj" where
  "NewAISRBACRole ais =
     \<lparr>role_Name = roleName ais, role_Owner = NewControllerRef ais, role_Rules =
        [\<lparr>pr_APIGroups = [[]], pr_Resources = [''pods'', ''services''],
          pr_Verbs = [''get'', ''list'', ''watch'', ''create'', ''update'', ''delete'']\<rparr>,
         \<lparr>pr_APIGroups = [[]], pr_Resources = [''pods/log''], pr_Verbs = [''get'']\<rparr>]\<rparr>"

record RoleBindingObj =
  rb_Name :: NamespacedName
  rb_Owner :: OwnerReference
  rb_RoleKind :: string
  rb_RoleName :: string
  rb_SubjectKind :: string
  rb_Subject :: NamespacedName

definition NewAISRBACRoleBinding :: "AIStore \<Rightarrow> RoleBindingObj" where
  "NewAISRBACRoleBinding ais =
     \<lparr>rb_Name = roleBindingName ais, rb_Owner = NewControllerRef ais, rb_RoleKind = ''Role'',
      rb_RoleName = nn_Name (roleName ais), rb_SubjectKind = ''ServiceAccount'',
      rb_Subject = ServiceAccountName ais\<rparr>"

record ServiceAccountObj =
  sa_Name :: NamespacedName
  sa_Owner :: OwnerReference
  sa_ImagePullSecrets :: "string list"

definition NewAISServiceAccount :: "AIStore \<Rightarrow> ServiceAccountObj" where
  "NewAISServiceAccount ais =
     \<lparr>sa_Name = ServiceAccountName ais, sa_Owner = NewControllerRef ais,
      sa_ImagePullSecrets = ImagePullSecrets (Spec ais)\<rparr>"

section \<open>Lemmas\<close>

text \<open>What a service or the budget selects by, the pods of its daemon carry.\<close>

lemma selector_lookup:
  "fmlookup (SelectorLabels n c) k = Some v \<Longrightarrow> k \<noteq> ''statefulset.kubernetes.io/pod-name''"
  by (auto simp: SelectorLabels_def LabelAppPrefixed_def LabelComponentPrefixed_def split: if_splits)

text \<open>The last mount of a path gives its label.\<close>

lemma definePathsWithLabels_dom: "fset (fmdom (definePathsWithLabels ms)) = mnt_Path ` set ms"
proof -
  have "fset (fmdom (fold (\<lambda>m. fmupd (mnt_Path m) (f m)) ms acc)) = fset (fmdom acc) \<union> mnt_Path ` set ms"
    for f :: "Mount \<Rightarrow> string" and acc
    by (induction ms arbitrary: acc) auto
  from this [where acc = fmempty] show ?thesis by (simp add: definePathsWithLabels_def)
qed

section \<open>Host names and certificates\<close>

text \<open>A name of a certificate stands for itself or, with a wildcard, for any one label in its place.\<close>

definition covers :: "string \<Rightarrow> string \<Rightarrow> bool" where
  "covers san host \<longleftrightarrow> san = host \<or>
     (\<exists>label rest. san = ''*.'' @ rest \<and> host = label @ ''.'' @ rest \<and> label \<noteq> [] \<and> CHR ''.'' \<notin> set label)"

lemma fixed_sans:
  assumes "x \<in> set (serviceDNSNames (Name ais @ ''-proxy'') (Namespace ais) (ClusterDomainOf L ais)) \<union>
      set (serviceDNSNames (Name ais @ ''-target'') (Namespace ais) (ClusterDomainOf L ais)) \<union>
      {''*.'' @ Name ais @ ''-proxy.'' @ Namespace ais @ ''.svc.'' @ ClusterDomainOf L ais,
       ''*.'' @ Name ais @ ''-target.'' @ Namespace ais @ ''.svc.'' @ ClusterDomainOf L ais}"
  shows "x \<in> set (fst (buildCertificateSANs L ais hosts))"
proof -
  have "x \<noteq> []" using assms by (auto simp: serviceDNSNames_def)
  then show ?thesis
    using assms
    by (auto simp: buildCertificateSANs_def certificateSANs_parts service_names_def Let_def normalize_names_set)
qed

end
