(* ===== verification/Proxy_Controller.thy ===== *)
theory Proxy_Controller
  imports Cluster_Status Cluster_Objects
begin

text \<open>
  The proxies of a cluster (\<^verbatim>\<open>operator/internal/controller/aistore/proxy_controller.go\<close>):
  bootstrapping the primary and the others, rolling a new pod template with the primary
  protected by a partition, and scaling down without losing the primary.
\<close>

definition proxyStartupInterval :: nat where "proxyStartupInterval = 5"
definition proxyDNSInterval :: nat where "proxyDNSInterval = 5"

section \<open>Bootstrapping\<close>

definition ensureProxyPrereqs :: "unit op" where
  "ensureProxyPrereqs = bind getCR (\<lambda>ais.
     bind (or_record (rendered (\<lambda>L. NewProxyCM L ais) (ProxyCM ais)) ''Failed to generate valid proxy ConfigMap'') (\<lambda>cm.
     bind (or_record (act (Apply cm)) ''Failed to deploy ConfigMap'') (\<lambda>_.
     or_record (act (Apply (ProxyHeadlessSvc ais))) ''Failed to deploy SVC'')))"

definition checkProxySvcEndpoints :: "Result op" where
  "checkProxySvcEndpoints = bind getCR (\<lambda>ais.
     bind (getEndpoints (proxy_HeadlessSVCNSName ais)) (\<lambda>slices.
       if \<exists>slice\<in>set slices. \<exists>ready\<in>set slice. ready = Some True then ret done_result
       else bind (Eventf ''Waiting'' ''InitProxies''
              ''Waiting for proxy service to have registered endpoints'') (\<lambda>_.
            ret (after_seconds proxyDNSInterval))))"

text \<open>The pod template holds the target size, so building a StatefulSet reads both sizes.\<close>

definition initProxies :: "Result op" where
  "initProxies = bind getCR (\<lambda>ais.
     bind (deref (GetTargetSize ais)) (\<lambda>_.
     bind (or_record (CreateResourceIfNotExists (ProxyStatefulSet ais 1))
       ''Failed to deploy Primary proxy'') (\<lambda>exists.
     if \<not> exists then ret (after_seconds proxyStartupInterval)
     else bind (attempt (GetRunningPod (proxy_DefaultPrimaryNSName ais))) (\<lambda>pod. case pod of
       Inl e \<Rightarrow> bind (Eventf ''Waiting'' ''InitProxies'' ''Waiting for primary proxy to come up'') (\<lambda>_.
         ret (after_seconds proxyStartupInterval))
     | Inr _ \<Rightarrow> bind (deref (GetProxySize ais)) (\<lambda>size.
         bind (or_record (UpdateStatefulSetReplicas (proxy_StatefulSetNSName ais) size)
           ''Failed to deploy StatefulSet'') (\<lambda>changed.
         bind (if changed then Eventf ''Initialized'' ''InitProxies'' ''Successfully initialized proxy nodes''
               else ret ()) (\<lambda>_.
         checkProxySvcEndpoints)))))))"

definition cleanupProxy :: "bool op" where
  "cleanupProxy = bind getCR (\<lambda>ais. AnyFunc
     [DeleteStatefulSetIfExists (proxy_StatefulSetNSName ais),
      DeleteServiceIfExists (proxy_HeadlessSVCNSName ais),
      DeleteServiceIfExists (proxy_LoadBalancerSVCNSName ais),
      DeleteConfigMapIfExists (proxy_ConfigMapNSName ais)])"

section \<open>The primary\<close>

definition setPrimaryTo :: "int32 \<Rightarrow> unit op" where
  "setPrimaryTo podIdx = bind getCR (\<lambda>ais.
     let podName = proxy_PodName ais podIdx in
     bind (act GetClient) (\<lambda>_.
     bind getClusterMap (\<lambda>smap.
       if (case smap_Primary smap of None \<Rightarrow> False
           | Some p \<Rightarrow> hostnameMatchesPod (sn_ControlHost p) podName) then ret ()
       else bind (of_sum (findAISNodeByPodName (smap_Pmap smap) podName)) (\<lambda>node.
            act (SetPrimaryProxy (sn_ID node) (sn_PubURL node) True)))))"

definition setHighestPodAsPrimary :: "StatefulSet \<Rightarrow> unit op" where
  "setHighestPodAsPrimary ss = setPrimaryTo (wrap32 (sts_Replicas ss - 1))"

definition isPodValidNewPrimary :: "NamespacedName \<Rightarrow> StatefulSet \<Rightarrow> bool op" where
  "isPodValidNewPrimary name ss = bind (attempt (getPod name)) (\<lambda>r. case r of
     Inl e \<Rightarrow> ret False
   | Inr pod \<Rightarrow>
       if \<not> isPodReady (Some pod) then ret False
       else if st_UpdateRevision ss \<noteq> [] \<and> \<not> isPodOnRevision (Some pod) (st_UpdateRevision ss)
       then ret False
       else ret True)"

definition isIndexValidNewPrimary :: "StatefulSet \<Rightarrow> Smap \<Rightarrow> int32 \<Rightarrow> bool op" where
  "isIndexValidNewPrimary ss smap idx = bind getCR (\<lambda>ais.
     let podName = proxy_PodName ais idx in
     case findAISNodeByPodName (smap_Pmap smap) podName of
       Inl e \<Rightarrow> ret False
     | Inr node \<Rightarrow> if sn_InMaintOrDecomm node then ret False
         else isPodValidNewPrimary (in_namespace ais podName) ss)"

fun set_first_eligible :: "StatefulSet \<Rightarrow> Smap \<Rightarrow> int32 list \<Rightarrow> unit op" where
  "set_first_eligible ss smap [] = throw (OtherErr ''no pod found to set as primary'')"
| "set_first_eligible ss smap (idx # idxs) =
     bind (isIndexValidNewPrimary ss smap idx) (\<lambda>ok.
       if \<not> ok then set_first_eligible ss smap idxs
       else bind (attempt (setPrimaryTo idx)) (\<lambda>r. case r of
         Inl e \<Rightarrow> set_first_eligible ss smap idxs
       | Inr _ \<Rightarrow> ret ()))"

definition setLowestEligiblePodAsPrimary :: "StatefulSet \<Rightarrow> Smap \<Rightarrow> int32 \<Rightarrow> unit op" where
  "setLowestEligiblePodAsPrimary ss smap desiredSize = set_first_eligible ss smap [0..desiredSize - 1]"

definition findPrimaryPodIdx :: "AIStore \<Rightarrow> Smap \<Rightarrow> int32 \<Rightarrow> int32 option" where
  "findPrimaryPodIdx ais smap currentSize =
     (case smap_Primary smap of None \<Rightarrow> None
      | Some p \<Rightarrow> List.find (\<lambda>idx. hostnameMatchesPod (sn_ControlHost p) (proxy_PodName ais idx))
                   [0..currentSize - 1])"

definition ensurePrimarySurvivesScaleDown :: "StatefulSet \<Rightarrow> Smap \<Rightarrow> int32 \<Rightarrow> unit op" where
  "ensurePrimarySurvivesScaleDown ss smap desiredSize = bind getCR (\<lambda>ais.
     case findPrimaryPodIdx ais smap (sts_Replicas ss) of
       Some primaryPodIdx \<Rightarrow>
         if primaryPodIdx < desiredSize then ret () else setLowestEligiblePodAsPrimary ss smap desiredSize
     | None \<Rightarrow> setLowestEligiblePodAsPrimary ss smap desiredSize)"

section \<open>Scaling\<close>

fun decommission_each :: "AIStore \<Rightarrow> Smap \<Rightarrow> int32 list \<Rightarrow> unit op" where
  "decommission_each ais smap [] = ret ()"
| "decommission_each ais smap (idx # idxs) =
     (case findAISNodeByPodName (smap_Pmap smap) (proxy_PodName ais idx) of
        Inl e \<Rightarrow> decommission_each ais smap idxs
      | Inr node \<Rightarrow> bind (attempt (act (DecommissionNode (sn_ID node) False))) (\<lambda>_.
          decommission_each ais smap idxs))"

definition decommissionProxies :: "AIStore \<Rightarrow> Smap \<Rightarrow> int32 \<Rightarrow> int32 \<Rightarrow> unit op" where
  "decommissionProxies ais smap currentSize desiredSize =
     decommission_each ais smap (down_from (wrap32 (currentSize - 1)) (desiredSize - 1))"

definition prepareProxyScaleDown :: "StatefulSet \<Rightarrow> unit op" where
  "prepareProxyScaleDown ss = bind getCR (\<lambda>ais.
     bind (deref (GetProxySize ais)) (\<lambda>desiredSize.
     bind (act GetClient) (\<lambda>_.
     bind getClusterMap (\<lambda>smap.
     bind (ensurePrimarySurvivesScaleDown ss smap desiredSize) (\<lambda>_.
     decommissionProxies ais smap (sts_Replicas ss) desiredSize)))))"

definition handleProxyScale :: "StatefulSet \<Rightarrow> unit op" where
  "handleProxyScale ss = bind getCR (\<lambda>ais.
     bind (deref (GetProxySize ais)) (\<lambda>desiredReplicas.
       if sts_Replicas ss = desiredReplicas then ret ()
       else bind (if sts_Replicas ss > desiredReplicas then prepareProxyScaleDown ss else ret ()) (\<lambda>_.
            bind (UpdateStatefulSetReplicas (proxy_StatefulSetNSName ais) desiredReplicas) (\<lambda>_. ret ()))))"

definition isProxyScalingNeeded :: "AIStore \<Rightarrow> StatefulSet \<Rightarrow> bool option" where
  "isProxyScalingNeeded ais ss = map_option (\<lambda>n.
     statefulsetScalingNeeded ss n (GetProxyMaxUnavailable ais) (IsProxyAutoScaling ais)) (GetProxySize ais)"

definition isProxyStatefulSetReady :: "AIStore \<Rightarrow> StatefulSet \<Rightarrow> bool option" where
  "isProxyStatefulSetReady ais ss =
     (case (GetProxySize ais, GetMinReadyProxies ais) of
        (Some n, Some m) \<Rightarrow> Some (isStatefulSetReady ss n m (IsProxyAutoScaling ais))
      | _ \<Rightarrow> None)"

section \<open>Rollouts\<close>

text \<open>
  Building changes the resources and the affinity of the CR in memory; nothing else of a reconcile
  reads them, and building again gives the same.
\<close>

definition desiredProxyTemplate :: "PodTemplateSpec op" where
  "desiredProxyTemplate = bind getCR (\<lambda>ais. bind (asks lib) (\<lambda>L.
     bind (deref (GetProxySize ais)) (\<lambda>n.
     bind (deref (NewProxyStatefulSet L ais n)) (\<lambda>desired. ret (dss_Template desired)))))"

definition syncProxyPodSpec :: "StatefulSet \<Rightarrow> bool op" where
  "syncProxyPodSpec ss = bind (asks lib) (\<lambda>L.
     bind desiredProxyTemplate (\<lambda>desiredTemplate.
       if \<not> fst (shouldUpdatePodTemplate L desiredTemplate (sts_Template ss)) then ret False
       else bind (if st_ReadyReplicas ss > 0
                  then bind (setPrimaryTo 0) (\<lambda>_.
                       ret (ss\<lparr>sts_Strategy := RollingUpdateStrategy, sts_RollingUpdate := Some 1\<rparr>))
                  else ret ss) (\<lambda>updatedSS.
            let updatedSS = updatedSS\<lparr>sts_Template :=
                  snd (syncPodTemplate L desiredTemplate (sts_Template updatedSS))\<rparr>
            in bind (act (PatchSS ss updatedSS)) (\<lambda>_. ret True))))"

definition syncProxyPVCRetentionPolicy :: "StatefulSet \<Rightarrow> bool op" where
  "syncProxyPVCRetentionPolicy ss = bind getCR (\<lambda>ais.
     let desiredPolicy = d_PVCRetentionPolicy (ProxySpec (Spec ais)) in
     if \<not> shouldUpdatePVCRetentionPolicy desiredPolicy (sts_PVCRetentionPolicy ss) then ret False
     else bind (act (PatchSS ss (ss\<lparr>sts_PVCRetentionPolicy := desiredPolicy\<rparr>))) (\<lambda>_. ret True))"

definition shouldResetPartition :: "StatefulSet \<Rightarrow> bool" where
  "shouldResetPartition ss =
     (case sts_RollingUpdate ss of None \<Rightarrow> False
      | Some p \<Rightarrow> if p = 0 then False else st_CurrentReplicas ss = 1)"

definition resetSSPartition :: "StatefulSet \<Rightarrow> unit op" where
  "resetSSPartition ss =
     act (PatchSS ss (ss\<lparr>sts_Strategy := RollingUpdateStrategy, sts_RollingUpdate := Some 0\<rparr>))"

definition handleProxyRollout :: "StatefulSet \<Rightarrow> unit op" where
  "handleProxyRollout ss =
     (if st_UpdateRevision ss = st_CurrentRevision ss then ret ()
      else if shouldResetPartition ss
        then bind (setHighestPodAsPrimary ss) (\<lambda>_. resetSSPartition ss)
      else ret ())"

section \<open>One pass over the proxies\<close>

definition proxy_wait :: "Result op" where
  "proxy_wait = ret (after_seconds proxyStartupInterval)"

text \<open>The part of \<open>handleProxyState\<close> after the template and the PVC policy were dealt with.\<close>

definition drive_proxies :: "StatefulSet \<Rightarrow> bool \<Rightarrow> Result op" where
  "drive_proxies ss scalingNeeded = bind getCR (\<lambda>ais.
     let rolling = isRolloutInProgress ss; scaling = isScalingInProgress ss in
     if scalingNeeded \<and> \<not> rolling then
       bind (deref (GetProxySize ais)) (\<lambda>size.
       bind (confirmScalingNeeded (proxy_StatefulSetNSName ais) ss size
              (GetProxyMaxUnavailable ais) (IsProxyAutoScaling ais)) (\<lambda>proceed.
       if \<not> proceed then proxy_wait
       else bind (handleProxyScale ss) (\<lambda>_. proxy_wait)))
     else if rolling then bind (handleProxyRollout ss) (\<lambda>_. proxy_wait)
     else if scaling then proxy_wait
     else bind (deref (isProxyStatefulSetReady ais ss)) (\<lambda>ready.
       if \<not> ready then proxy_wait else ret done_result))"

definition handle_proxy_ss :: "StatefulSet \<Rightarrow> Result op" where
  "handle_proxy_ss ss =
     (if \<not> isStatusCurrent ss then ret (after_seconds statefulsetRequeueDelay)
      else bind (asks lib) (\<lambda>L. bind getCR (\<lambda>ais.
        bind desiredProxyTemplate (\<lambda>desiredTemplate.
        let rolloutNeeded = fst (shouldUpdatePodTemplate L desiredTemplate (sts_Template ss)) in
        bind (deref (isProxyScalingNeeded ais ss)) (\<lambda>scalingNeeded.
        bind (if rolloutNeeded \<and> \<not> isScalingInProgress ss then syncProxyPodSpec ss else ret False)
          (\<lambda>updated.
        if updated then proxy_wait
        else bind (syncProxyPVCRetentionPolicy ss) (\<lambda>policyUpdated.
          if policyUpdated then ret (after_seconds statefulsetRequeueDelay)
          else drive_proxies ss scalingNeeded)))))))"

definition handleProxyState :: "Result op" where
  "handleProxyState = bind getCR (\<lambda>ais.
     bind (attempt (getSS (proxy_StatefulSetNSName ais))) (\<lambda>r. case r of
       Inl e \<Rightarrow> if IsNotFound e then initProxies else throw e
     | Inr ss \<Rightarrow> handle_proxy_ss ss))"

section \<open>External access\<close>

definition createProxyExternalService :: "unit op" where
  "createProxyExternalService = bind getCR (\<lambda>ais. act (Apply (ProxyLoadBalancerSvc ais)))"

definition proxyExternalSvcReady :: "bool op" where
  "proxyExternalSvcReady = bind getCR (\<lambda>ais.
     bind (getService (proxy_LoadBalancerSVCNSName ais)) (\<lambda>svc.
     ret (LoadBalancerIngressReady (svc_Ingress svc))))"

section \<open>Footprints\<close>

definition proxy_classes :: "call_class set" where
  "proxy_classes = {CRead, CSetOwner, CCreate, CEvent, CPatchSS, CGetClient, CSetPrimary, CDecommNode}"

lemma foot_ensureProxyPrereqs [foot_intros]:
  "{CApply, CEvent} \<subseteq> C \<Longrightarrow> steps E (foot C) ensureProxyPrereqs"
  unfolding ensureProxyPrereqs_def by (intro foot_intros) auto

lemma foot_checkProxySvcEndpoints [foot_intros]:
  "{CRead, CEvent} \<subseteq> C \<Longrightarrow> steps E (foot C) checkProxySvcEndpoints"
  unfolding checkProxySvcEndpoints_def by (intro foot_intros) auto

lemma foot_initProxies [foot_intros]:
  "{CRead, CEvent, CSetOwner, CCreate, CPatchSS} \<subseteq> C \<Longrightarrow> steps E (foot C) initProxies"
  unfolding initProxies_def by (intro foot_intros) auto

lemma foot_cleanupProxy [foot_intros]:
  "{CDelete KStatefulSet, CDelete KService, CDelete KConfigMap} \<subseteq> C \<Longrightarrow> steps E (foot C) cleanupProxy"
  unfolding cleanupProxy_def by (intro foot_intros) (auto intro: foot_intros)

lemma foot_setPrimaryTo [foot_intros]:
  "{CGetClient, CRead, CSetPrimary} \<subseteq> C \<Longrightarrow> steps E (foot C) (setPrimaryTo i)"
  unfolding setPrimaryTo_def Let_def by (intro foot_intros) auto

lemma foot_setHighestPodAsPrimary [foot_intros]:
  "{CGetClient, CRead, CSetPrimary} \<subseteq> C \<Longrightarrow> steps E (foot C) (setHighestPodAsPrimary ss)"
  unfolding setHighestPodAsPrimary_def by (rule foot_setPrimaryTo)

lemma foot_isIndexValidNewPrimary [foot_intros]:
  "CRead \<in> C \<Longrightarrow> steps E (foot C) (isIndexValidNewPrimary ss smap i)"
  unfolding isIndexValidNewPrimary_def isPodValidNewPrimary_def Let_def by (intro foot_intros)

lemma foot_set_first_eligible [foot_intros]:
  "{CGetClient, CRead, CSetPrimary} \<subseteq> C \<Longrightarrow> steps E (foot C) (set_first_eligible ss smap idxs)"
proof (induction idxs)
  case (Cons i idxs)
  show ?case
    unfolding set_first_eligible.simps by (intro foot_intros Cons) (use Cons.prems in auto)
qed (simp add: foot_intros)

lemma foot_ensurePrimarySurvivesScaleDown [foot_intros]:
  "{CGetClient, CRead, CSetPrimary} \<subseteq> C
     \<Longrightarrow> steps E (foot C) (ensurePrimarySurvivesScaleDown ss smap n)"
  unfolding ensurePrimarySurvivesScaleDown_def setLowestEligiblePodAsPrimary_def
  by (intro foot_intros) auto

lemma foot_decommission_each [foot_intros]:
  "CDecommNode \<in> C \<Longrightarrow> steps E (foot C) (decommission_each ais smap idxs)"
proof (induction idxs)
  case (Cons i idxs)
  show ?case
    unfolding decommission_each.simps by (intro foot_intros Cons) (use Cons.prems in auto)
qed (simp add: foot_intros)

lemma foot_prepareProxyScaleDown [foot_intros]:
  "{CGetClient, CRead, CSetPrimary, CDecommNode} \<subseteq> C \<Longrightarrow> steps E (foot C) (prepareProxyScaleDown ss)"
  unfolding prepareProxyScaleDown_def decommissionProxies_def by (intro foot_intros) auto

lemma foot_handleProxyScale [foot_intros]:
  "{CGetClient, CRead, CSetPrimary, CDecommNode, CPatchSS} \<subseteq> C
     \<Longrightarrow> steps E (foot C) (handleProxyScale ss)"
  unfolding handleProxyScale_def by (intro foot_intros) auto

lemma foot_desiredProxyTemplate [foot_intros]: "steps E (foot C) desiredProxyTemplate"
  unfolding desiredProxyTemplate_def by (intro foot_intros)

lemma foot_syncProxyPodSpec [foot_intros]:
  "{CGetClient, CRead, CSetPrimary, CPatchSS} \<subseteq> C \<Longrightarrow> steps E (foot C) (syncProxyPodSpec ss)"
  unfolding syncProxyPodSpec_def Let_def by (intro foot_intros) auto

lemma foot_syncProxyPVCRetentionPolicy [foot_intros]:
  "CPatchSS \<in> C \<Longrightarrow> steps E (foot C) (syncProxyPVCRetentionPolicy ss)"
  unfolding syncProxyPVCRetentionPolicy_def Let_def by (intro foot_intros) auto

lemma foot_handleProxyRollout [foot_intros]:
  "{CGetClient, CRead, CSetPrimary, CPatchSS} \<subseteq> C \<Longrightarrow> steps E (foot C) (handleProxyRollout ss)"
  unfolding handleProxyRollout_def resetSSPartition_def by (intro foot_intros) auto

lemma foot_drive_proxies [foot_intros]:
  "{CGetClient, CRead, CSetPrimary, CDecommNode, CPatchSS} \<subseteq> C
     \<Longrightarrow> steps E (foot C) (drive_proxies ss b)"
  unfolding drive_proxies_def proxy_wait_def Let_def by (intro foot_intros) auto

lemma foot_handle_proxy_ss [foot_intros]:
  "{CGetClient, CRead, CSetPrimary, CDecommNode, CPatchSS} \<subseteq> C
     \<Longrightarrow> steps E (foot C) (handle_proxy_ss ss)"
  unfolding handle_proxy_ss_def proxy_wait_def Let_def by (intro foot_intros) auto

lemma foot_handleProxyState [foot_intros]:
  "proxy_classes \<subseteq> C \<Longrightarrow> steps E (foot C) handleProxyState"
  unfolding handleProxyState_def proxy_classes_def by (intro foot_intros) auto

lemma foot_createProxyExternalService [foot_intros]:
  "CApply \<in> C \<Longrightarrow> steps E (foot C) createProxyExternalService"
  unfolding createProxyExternalService_def by (intro foot_intros) auto

lemma foot_proxyExternalSvcReady [foot_intros]:
  "CRead \<in> C \<Longrightarrow> steps E (foot C) proxyExternalSvcReady"
  unfolding proxyExternalSvcReady_def by (intro foot_intros)

end
