(* ===== verification/Target_Controller.thy ===== *)
theory Target_Controller
  imports Cluster_Status Cluster_Objects
begin

text \<open>
  The targets of a cluster (\<^verbatim>\<open>operator/internal/controller/aistore/target_controllers.go\<close>):
  bootstrapping, the disruption budget, rolling a new pod template one pod at a time with the
  target in maintenance first, and scaling with decommissioning or maintenance first.
\<close>

definition targetLongRequeueDelay :: nat where "targetLongRequeueDelay = 10"
definition targetShortRequeueDelay :: nat where "targetShortRequeueDelay = 2"

definition target_wait :: "Result op" where "target_wait = ret (after_seconds targetLongRequeueDelay)"

section \<open>Bootstrapping and cleaning up\<close>

definition ensureTargetPrereqs :: "unit op" where
  "ensureTargetPrereqs = bind getCR (\<lambda>ais.
     bind (or_record (rendered (\<lambda>L. NewTargetCM L ais) (TargetCM ais)) ''Failed to generate valid target ConfigMap'') (\<lambda>cm.
     bind (or_record (act (Apply cm)) ''Failed to deploy target ConfigMap'') (\<lambda>_.
     or_record (act (Apply (TargetHeadlessSvc ais))) ''Failed to deploy target SVC'')))"

definition initTargets :: "Result op" where
  "initTargets = bind getCR (\<lambda>ais.
     bind (deref (GetTargetSize ais)) (\<lambda>n.
     bind (or_record (CreateResourceIfNotExists (TargetStatefulSet ais n))
       ''Failed to deploy target statefulset'') (\<lambda>exists.
     if \<not> exists
     then bind (Eventf ''Initialized'' ''InitTargets'' ''Successfully initialized target nodes'') (\<lambda>_.
          ret (after_seconds targetShortRequeueDelay))
     else ret done_result)))"

definition reconcileTargetPDB :: "unit op" where
  "reconcileTargetPDB = bind getCR (\<lambda>ais.
     if TargetPDBEnabled ais then bind (CreateOrUpdateResource (TargetPDB ais)) (\<lambda>_. ret ())
     else bind (DeletePDBIfExists (target_PDBNSName ais)) (\<lambda>_. ret ()))"

definition cleanupTargetSS :: "bool op" where
  "cleanupTargetSS = bind getCR (\<lambda>ais. DeleteStatefulSetIfExists (target_StatefulSetNSName ais))"

definition cleanupTarget :: "bool op" where
  "cleanupTarget = bind getCR (\<lambda>ais. AnyFunc
     [DeletePDBIfExists (target_PDBNSName ais),
      cleanupTargetSS,
      DeleteServiceIfExists (target_HeadlessSVCNSName ais),
      DeleteAllServicesIfExist (Namespace ais) (NewServiceLabels (Name ais) target_ServiceLabelLB),
      DeleteConfigMapIfExists (target_ConfigMapNSName ais)])"

section \<open>External access\<close>

definition createTargetExternalServices :: "unit op" where
  "createTargetExternalServices = bind getCR (\<lambda>ais.
     bind (deref (GetTargetSize ais)) (\<lambda>n.
     for_each (LoadBalancerSVCList ais 0 n) (\<lambda>svc. act (Apply svc))))"

definition targetExternalSvcReady :: "bool op" where
  "targetExternalSvcReady = bind getCR (\<lambda>ais.
     bind (listServices (Namespace ais) (NewServiceLabels (Name ais) target_ServiceLabelLB)) (\<lambda>svcs.
     bind (deref (GetTargetSize ais)) (\<lambda>n.
       if int (length svcs) < n then ret False
       else ret (\<forall>svc\<in>set svcs. LoadBalancerIngressReady (svc_Ingress svc)))))"

definition scaleUpLB :: "unit op" where
  "scaleUpLB = bind getCR (\<lambda>ais.
     if \<not> TargetExternalAccessEnabled ais then ret () else createTargetExternalServices)"

definition scaleDownLB :: "StatefulSet \<Rightarrow> unit op" where
  "scaleDownLB ss = bind getCR (\<lambda>ais.
     if \<not> TargetExternalAccessEnabled ais then ret ()
     else bind (deref (GetTargetSize ais)) (\<lambda>n.
       for_each (down_from (sts_Replicas ss) n) (\<lambda>idx.
         bind (DeleteServiceIfExists (target_LoadBalancerSVCNSName ais (wrap32 (idx - 1)))) (\<lambda>_. ret ()))))"

section \<open>Scaling down: is it time?\<close>

text \<open>The loop from the current size down to the desired one.\<close>

definition isReadyToScaleDownRetain :: "AIStore \<Rightarrow> Smap \<Rightarrow> int32 \<Rightarrow> int32 \<Rightarrow> bool" where
  "isReadyToScaleDownRetain ais smap currentSize targetSize =
     (\<forall>idx\<in>set (down_from currentSize targetSize).
        case findAISNodeByPodName (smap_Tmap smap) (target_PodName ais (wrap32 (idx - 1))) of
          Inl e \<Rightarrow> True
        | Inr node \<Rightarrow> sn_InMaint node)"

definition isReadyToScaleDownDecommission :: "Smap \<Rightarrow> int32 \<Rightarrow> bool" where
  "isReadyToScaleDownDecommission smap currentSize =
     (if \<exists>n\<in>set (smap_Tmap smap). sn_InMaintOrDecomm n \<and> \<not> sn_InMaint n then False
      else wrap32 (int (length (smap_Tmap smap))) \<noteq> currentSize)"

definition isReadyToScaleDown :: "int32 \<Rightarrow> bool op" where
  "isReadyToScaleDown currentSize =
     bind (act GetClient) (\<lambda>_. bind getClusterMap (\<lambda>smap. bind getCR (\<lambda>ais.
       if RetainOnScaleDown (SpecTarget (Spec ais))
       then bind (deref (GetTargetSize ais)) (\<lambda>n. ret (isReadyToScaleDownRetain ais smap currentSize n))
       else ret (isReadyToScaleDownDecommission smap currentSize))))"

section \<open>Scaling\<close>

definition resolveStatefulSetScaling :: "unit op" where
  "resolveStatefulSetScaling = bind getCR (\<lambda>ais.
     bind (deref (GetTargetSize ais)) (\<lambda>expectedSize.
     bind (getSS (target_StatefulSetNSName ais)) (\<lambda>current.
       let currentSize = sts_Replicas current;
           scale = bind (UpdateStatefulSetReplicas (target_StatefulSetNSName ais) expectedSize) (\<lambda>_. ret ())
       in if expectedSize > currentSize then
            bind (if expectedSize > wrap32 (currentSize + 1) \<and> currentSize > 0 then
                    bind (act GetClient) (\<lambda>_.
                    bind (attempt (act (Health True))) (\<lambda>h. case h of
                      Inl e \<Rightarrow> throw (OtherErr
                        ''cannot disable rebalance before target scaling, cluster not healthy'')
                    | Inr _ \<Rightarrow> disableRebalance ReasonScaling ''Disabled due to target scale-up''))
                  else ret ()) (\<lambda>_. scale)
          else if expectedSize < currentSize then
            bind (isReadyToScaleDown currentSize) (\<lambda>ready. if \<not> ready then ret () else scale)
          else scale)))"

text \<open>One removed target: ordinal \<open>idx - 1\<close>.\<close>

definition prepare_target :: "AIStore \<Rightarrow> Smap \<Rightarrow> int32 \<Rightarrow> unit op" where
  "prepare_target ais smap idx =
     (let podName = target_PodName ais (wrap32 (idx - 1)) in
      case findAISNodeByPodName (smap_Tmap smap) podName of
        Inl e \<Rightarrow> bind (attempt (getPod (in_namespace ais podName))) (\<lambda>r. case r of
            Inl podErr \<Rightarrow> if IsNotFound podErr then ret ()
              else throw (Wrapped (''failed to get pod '' @ podName) podErr)
          | Inr pod \<Rightarrow>
              if isPodUnschedulable (Some pod) then ret ()
              else if isPodInCrashLoopBackOff pod then ret ()
              else throw (OtherErr (''waiting for target '' @ podName @ '' to register in smap'')))
      | Inr node \<Rightarrow>
          if \<not> sn_InMaintOrDecomm node then
            (if RetainOnScaleDown (SpecTarget (Spec ais))
             then act (StartMaintenance (sn_ID node) True)
             else act (DecommissionNode (sn_ID node)
                    (\<not> SafeDecommissionOnScaleDown (SpecTarget (Spec ais)))))
          else ret ())"

definition prepareTargetsForScaleDown :: "int32 \<Rightarrow> unit op" where
  "prepareTargetsForScaleDown actualSize =
     bind (act GetClient) (\<lambda>_. bind getClusterMap (\<lambda>smap. bind getCR (\<lambda>ais.
     bind (deref (GetTargetSize ais)) (\<lambda>n.
       for_each (down_from actualSize n) (prepare_target ais smap)))))"

definition startTargetScaling :: "StatefulSet \<Rightarrow> unit op" where
  "startTargetScaling ss = bind getCR (\<lambda>ais.
     bind (deref (GetTargetSize ais)) (\<lambda>n.
       if sts_Replicas ss < n then scaleUpLB
       else bind (if \<not> RetainOnScaleDown (SpecTarget (Spec ais))
                  then bind enableRebalanceCondition (\<lambda>_. handleConfigState True) else ret ()) (\<lambda>_.
            bind (scaleDownLB ss) (\<lambda>_. prepareTargetsForScaleDown (sts_Replicas ss)))))"

definition handleTargetScaling :: "StatefulSet \<Rightarrow> Result op" where
  "handleTargetScaling ss = bind getCR (\<lambda>ais.
     bind (deref (GetTargetSize ais)) (\<lambda>n.
     bind (confirmScalingNeeded (target_StatefulSetNSName ais) ss n
            (GetTargetMaxUnavailable ais) (IsTargetAutoScaling ais)) (\<lambda>proceed.
       if \<not> proceed then target_wait
       else bind (startTargetScaling ss) (\<lambda>_. bind resolveStatefulSetScaling (\<lambda>_. target_wait)))))"

definition isTargetScalingNeeded :: "AIStore \<Rightarrow> StatefulSet \<Rightarrow> bool option" where
  "isTargetScalingNeeded ais ss = map_option (\<lambda>n.
     statefulsetScalingNeeded ss n (GetTargetMaxUnavailable ais) (IsTargetAutoScaling ais)) (GetTargetSize ais)"

definition isTargetStatefulSetReady :: "AIStore \<Rightarrow> StatefulSet \<Rightarrow> bool option" where
  "isTargetStatefulSetReady ais ss =
     (case (GetTargetSize ais, GetMinReadyTargets ais) of
        (Some n, Some m) \<Rightarrow> Some (isStatefulSetReady ss n m (IsTargetAutoScaling ais))
      | _ \<Rightarrow> None)"

section \<open>Syncing the StatefulSet\<close>

definition desiredTargetTemplate :: "PodTemplateSpec op" where
  "desiredTargetTemplate = bind getCR (\<lambda>ais.
     bind (asks lib) (\<lambda>L. bind (deref (GetTargetSize ais)) (\<lambda>n.
     bind (deref (NewTargetSS L ais n)) (\<lambda>desired. ret (dss_Template desired)))))"

definition syncTargetPodSpec :: "StatefulSet \<Rightarrow> bool op" where
  "syncTargetPodSpec ss = bind (asks lib) (\<lambda>L.
     bind desiredTargetTemplate (\<lambda>desiredTemplate.
       let (needsUpdate, reason) = shouldUpdatePodTemplate L desiredTemplate (sts_Template ss) in
       if needsUpdate then
         bind (attempt (disableRebalance ReasonUpgrading (''Disabled due to rolling upgrade: '' @ reason)))
           (\<lambda>r. case r of
             Inl e \<Rightarrow> throw (Wrapped ''failed to disable rebalance before rolling upgrade'' e)
           | Inr _ \<Rightarrow> bind (act (PatchSS ss (ss\<lparr>sts_Template :=
               snd (syncPodTemplate L desiredTemplate (sts_Template ss))\<rparr>))) (\<lambda>_. ret True))
       else ret False))"

definition syncTargetPVCRetentionPolicy :: "StatefulSet \<Rightarrow> bool op" where
  "syncTargetPVCRetentionPolicy ss = bind getCR (\<lambda>ais.
     let desiredPolicy = d_PVCRetentionPolicy (SpecTarget (Spec ais)) in
     if \<not> shouldUpdatePVCRetentionPolicy desiredPolicy (sts_PVCRetentionPolicy ss) then ret False
     else bind (act (PatchSS ss (ss\<lparr>sts_PVCRetentionPolicy := desiredPolicy\<rparr>))) (\<lambda>_. ret True))"

section \<open>Rollouts\<close>

definition isPodRolloutCompleted :: "Pod option \<Rightarrow> bool" where
  "isPodRolloutCompleted pod =
     (if \<not> isPodActive pod then False else if isPodUnschedulable pod then True else isPodReady pod)"

text \<open>A map filled from the pod list by name: the last pod of a name is the one looked up.\<close>

definition pod_map :: "Pod list \<Rightarrow> (string \<rightharpoonup> Pod)" where
  "pod_map pods = map_of (rev (map (\<lambda>p. (pod_Name p, p)) pods))"

fun scan_ordinals :: "AIStore \<Rightarrow> string \<Rightarrow> (string \<rightharpoonup> Pod) \<Rightarrow> int32 list \<Rightarrow> string" where
  "scan_ordinals ais updateRevision podMap [] = []"
| "scan_ordinals ais updateRevision podMap (idx # idxs) =
     (if idx > 0 \<and> \<not> isPodRolloutCompleted (podMap (target_PodName ais (idx - 1))) then []
      else (let podName = target_PodName ais idx in case podMap podName of
          None \<Rightarrow> []
        | Some pod \<Rightarrow>
            if \<not> isPodActive (Some pod) then []
            else if annotation (pod_Labels pod) ControllerRevisionHashLabelKey = updateRevision
            then scan_ordinals ais updateRevision podMap idxs
            else podName))"

definition findPodNeedingUpdate :: "StatefulSet \<Rightarrow> string op" where
  "findPodNeedingUpdate ss = bind getCR (\<lambda>ais.
     bind (attempt (listPods (Namespace ais) (target_SelectorLabels ais))) (\<lambda>r. case r of
       Inl e \<Rightarrow> ret []
     | Inr podList \<Rightarrow> ret (scan_ordinals ais (st_UpdateRevision ss) (pod_map podList)
         [0..sts_Replicas ss - 1])))"

definition wrapping :: "string \<Rightarrow> 'a op \<Rightarrow> 'a op" where
  "wrapping msg m = bind (attempt m) (\<lambda>r. case r of Inl e \<Rightarrow> throw (Wrapped msg e) | Inr a \<Rightarrow> ret a)"

definition prepareTargetForRollout :: "string \<Rightarrow> bool op" where
  "prepareTargetForRollout podName = bind getCR (\<lambda>ais.
     bind (wrapping (''failed to get pod '' @ podName) (getPod (in_namespace ais podName))) (\<lambda>pod.
     if isPodUnschedulable (Some pod) then ret False
     else bind (wrapping ''failed to get API client'' (act GetClient)) (\<lambda>_.
          bind (wrapping ''failed to get cluster map'' getClusterMap) (\<lambda>smap.
          bind (wrapping (''failed to find node for pod '' @ podName)
                 (of_sum (findAISNodeByPodName (smap_Tmap smap) podName))) (\<lambda>node.
          if \<not> sn_InMaint node
          then bind (wrapping (''failed to start maintenance for pod '' @ podName)
                      (act (StartMaintenance (sn_ID node) True))) (\<lambda>_. ret True)
          else ret False)))))"

definition handleTargetRollout :: "StatefulSet \<Rightarrow> Result op" where
  "handleTargetRollout ss =
     (if st_UpdateRevision ss = [] \<or> st_CurrentRevision ss = st_UpdateRevision ss then ret done_result
      else if st_UpdatedReplicas ss \<ge> sts_Replicas ss \<and> st_ReadyReplicas ss \<ge> sts_Replicas ss
      then ret done_result
      else bind getCR (\<lambda>ais. bind (findPodNeedingUpdate ss) (\<lambda>podName.
        if podName = [] then ret (after_seconds targetShortRequeueDelay)
        else bind (prepareTargetForRollout podName) (\<lambda>requeue.
          if requeue then ret (after_seconds targetShortRequeueDelay)
          else bind (wrapping (''failed to delete pod '' @ podName)
                      (DeletePodIfExists (in_namespace ais podName))) (\<lambda>_.
               ret (after_seconds targetShortRequeueDelay))))))"

section \<open>One pass over the targets\<close>

text \<open>The part of \<open>handleTargetState\<close> after the template and the PVC policy were dealt with.\<close>

definition drive_targets :: "StatefulSet \<Rightarrow> bool \<Rightarrow> Result op" where
  "drive_targets ss scalingNeeded =
     (let rolling = isRolloutInProgress ss; scaling = isScalingInProgress ss in
      if scalingNeeded \<and> \<not> rolling then handleTargetScaling ss
      else if rolling then
        bind (handleTargetRollout ss) (\<lambda>res. if \<not> IsZero res then ret res else target_wait)
      else if scaling then target_wait
      else bind getCR (\<lambda>ais. bind (deref (isTargetStatefulSetReady ais ss)) (\<lambda>ready.
        if \<not> ready then target_wait else ret done_result)))"

definition handle_target_ss :: "StatefulSet \<Rightarrow> Result op" where
  "handle_target_ss ss =
     bind (or_record reconcileTargetPDB ''Failed to sync target PDB'') (\<lambda>_.
     if \<not> isStatusCurrent ss then ret (after_seconds statefulsetRequeueDelay)
     else bind (asks lib) (\<lambda>L. bind getCR (\<lambda>ais.
       bind desiredTargetTemplate (\<lambda>desiredTemplate.
       let rolloutNeeded = fst (shouldUpdatePodTemplate L desiredTemplate (sts_Template ss)) in
       bind (deref (isTargetScalingNeeded ais ss)) (\<lambda>scalingNeeded.
       bind (syncTargetPVCRetentionPolicy ss) (\<lambda>policyUpdated.
       if policyUpdated then ret (after_seconds statefulsetRequeueDelay)
       else bind (if rolloutNeeded \<and> \<not> isScalingInProgress ss then syncTargetPodSpec ss else ret False)
              (\<lambda>updated.
            if updated then target_wait else drive_targets ss scalingNeeded)))))))"

definition handleTargetState :: "Result op" where
  "handleTargetState = bind getCR (\<lambda>ais.
     bind (attempt (getSS (target_StatefulSetNSName ais))) (\<lambda>r. case r of
       Inl e \<Rightarrow> if IsNotFound e then initTargets else throw e
     | Inr ss \<Rightarrow> handle_target_ss ss))"

section \<open>Footprints\<close>

definition status_classes :: "call_class set" where
  "status_classes = {CSetConfig, CGetClient, CPatchAIS, CPatchStatus, CEvent}"

definition target_classes :: "call_class set" where
  "target_classes = {CRead, CApply, CSetOwner, CCreate, CUpdate, CDelete KPDB, CDelete KService,
     CDelete KPod, CPatchSS, CHealth, CMaintenance, CDecommNode} \<union> status_classes"

lemma foot_ensureTargetPrereqs [foot_intros]:
  "{CApply, CEvent} \<subseteq> C \<Longrightarrow> steps E (foot C) ensureTargetPrereqs"
  unfolding ensureTargetPrereqs_def by (intro foot_intros) auto

lemma foot_initTargets [foot_intros]:
  "{CEvent, CSetOwner, CCreate} \<subseteq> C \<Longrightarrow> steps E (foot C) initTargets"
  unfolding initTargets_def by (intro foot_intros) auto

lemma foot_reconcileTargetPDB [foot_intros]:
  "{CSetOwner, CCreate, CRead, CUpdate, CDelete KPDB} \<subseteq> C \<Longrightarrow> steps E (foot C) reconcileTargetPDB"
  unfolding reconcileTargetPDB_def by (intro foot_intros) auto

lemma foot_cleanupTarget [foot_intros]:
  "{CRead, CDelete KPDB, CDelete KStatefulSet, CDelete KService, CDelete KConfigMap} \<subseteq> C
     \<Longrightarrow> steps E (foot C) cleanupTarget"
  unfolding cleanupTarget_def cleanupTargetSS_def by (intro foot_intros) (auto intro: foot_intros)

lemma foot_createTargetExternalServices [foot_intros]:
  "CApply \<in> C \<Longrightarrow> steps E (foot C) createTargetExternalServices"
  unfolding createTargetExternalServices_def by (intro foot_intros) auto

lemma foot_targetExternalSvcReady [foot_intros]:
  "CRead \<in> C \<Longrightarrow> steps E (foot C) targetExternalSvcReady"
  unfolding targetExternalSvcReady_def by (intro foot_intros)

lemma foot_scaleUpLB [foot_intros]: "CApply \<in> C \<Longrightarrow> steps E (foot C) scaleUpLB"
  unfolding scaleUpLB_def by (intro foot_intros)

lemma foot_scaleDownLB [foot_intros]: "CDelete KService \<in> C \<Longrightarrow> steps E (foot C) (scaleDownLB ss)"
  unfolding scaleDownLB_def by (intro foot_intros)

lemma foot_isReadyToScaleDown [foot_intros]:
  "{CGetClient, CRead} \<subseteq> C \<Longrightarrow> steps E (foot C) (isReadyToScaleDown n)"
  unfolding isReadyToScaleDown_def by (intro foot_intros) auto

lemma foot_resolveStatefulSetScaling [foot_intros]:
  "{CRead, CHealth, CPatchSS} \<union> status_classes \<subseteq> C \<Longrightarrow> steps E (foot C) resolveStatefulSetScaling"
  unfolding resolveStatefulSetScaling_def Let_def status_classes_def by (intro foot_intros) auto

lemma foot_prepare_target [foot_intros]:
  "{CRead, CMaintenance, CDecommNode} \<subseteq> C \<Longrightarrow> steps E (foot C) (prepare_target ais smap i)"
  unfolding prepare_target_def Let_def by (intro foot_intros) auto

lemma foot_prepareTargetsForScaleDown [foot_intros]:
  "{CGetClient, CRead, CMaintenance, CDecommNode} \<subseteq> C \<Longrightarrow> steps E (foot C) (prepareTargetsForScaleDown n)"
  unfolding prepareTargetsForScaleDown_def by (intro foot_intros) auto

lemma foot_startTargetScaling [foot_intros]:
  "{CApply, CDelete KService, CRead, CMaintenance, CDecommNode} \<union> status_classes \<subseteq> C
     \<Longrightarrow> steps E (foot C) (startTargetScaling ss)"
  unfolding startTargetScaling_def status_classes_def by (intro foot_intros) auto

lemma foot_handleTargetScaling [foot_intros]:
  "{CApply, CDelete KService, CRead, CHealth, CPatchSS, CMaintenance, CDecommNode} \<union> status_classes \<subseteq> C
     \<Longrightarrow> steps E (foot C) (handleTargetScaling ss)"
  unfolding handleTargetScaling_def target_wait_def by (intro foot_intros) auto

lemma foot_desiredTargetTemplate [foot_intros]: "steps E (foot C) desiredTargetTemplate"
  unfolding desiredTargetTemplate_def by (intro foot_intros)

lemma foot_syncTargetPodSpec [foot_intros]:
  "{CPatchSS} \<union> status_classes \<subseteq> C \<Longrightarrow> steps E (foot C) (syncTargetPodSpec ss)"
  unfolding syncTargetPodSpec_def Let_def status_classes_def by (intro foot_intros) auto

lemma foot_syncTargetPVCRetentionPolicy [foot_intros]:
  "CPatchSS \<in> C \<Longrightarrow> steps E (foot C) (syncTargetPVCRetentionPolicy ss)"
  unfolding syncTargetPVCRetentionPolicy_def Let_def by (intro foot_intros) auto

lemma foot_wrapping [foot_intros]: "steps E (foot C) m \<Longrightarrow> steps E (foot C) (wrapping msg m)"
  unfolding wrapping_def by (intro foot_intros)

lemma foot_handleTargetRollout [foot_intros]:
  "{CRead, CGetClient, CMaintenance, CDelete KPod} \<subseteq> C \<Longrightarrow> steps E (foot C) (handleTargetRollout ss)"
  unfolding handleTargetRollout_def findPodNeedingUpdate_def prepareTargetForRollout_def
  by (intro foot_intros) auto

lemma foot_drive_targets [foot_intros]:
  "target_classes \<subseteq> C \<Longrightarrow> steps E (foot C) (drive_targets ss b)"
  unfolding drive_targets_def target_wait_def Let_def target_classes_def status_classes_def
  by (intro foot_intros) (auto simp: status_classes_def)

lemma foot_handle_target_ss [foot_intros]:
  "target_classes \<subseteq> C \<Longrightarrow> steps E (foot C) (handle_target_ss ss)"
  unfolding handle_target_ss_def target_wait_def Let_def
  by (intro foot_intros) (auto simp: target_classes_def status_classes_def)

lemma foot_handleTargetState [foot_intros]:
  "target_classes \<subseteq> C \<Longrightarrow> steps E (foot C) handleTargetState"
  unfolding handleTargetState_def
  by (intro foot_intros) (auto simp: target_classes_def status_classes_def)

end
