(* ===== verification/Cluster_Cleanup.thy ===== *)
theory Cluster_Cleanup
  imports Proxy_Controller Target_Controller
begin

text \<open>
  Tearing a cluster down: the deletion of its resources and, for state kept on the hosts, the
  clean-up jobs (\<^verbatim>\<open>operator/internal/controller/aistore/cluster_cleanup.go\<close>, with
  \<open>NewCleanupJob\<close> of \<^verbatim>\<open>operator/internal/resources/aistore/cmn/job.go\<close>).
\<close>

section \<open>Clean-up jobs\<close>

definition CleanupPrefix :: string where "CleanupPrefix = ''cleanup''"

text \<open>
  A clean-up job: the terms of the node affinity its pod requires, its containers, volumes and
  tolerations. Fields the code leaves at their zero value are left out.
\<close>

record NodeSelectorRequirement =
  nsr_Key :: string
  nsr_Operator :: string
  nsr_Values :: "string list"

record CleanupJobSpec =
  job_GenerateName :: string
  job_Namespace :: string
  job_TTLSecondsAfterFinished :: int32
  job_NodeAffinity :: "NodeSelectorRequirement list list" \<comment> \<open>of each term the match expressions\<close>
  job_Containers :: "Container list"
  job_Volumes :: "Volume list"
  job_PodTolerations :: "Toleration list"
  job_RestartPolicy :: string

definition createNodeAffinitySpec :: "string \<Rightarrow> NodeSelectorRequirement list list" where
  "createNodeAffinitySpec nodeName =
     [[\<lparr>nsr_Key = ''kubernetes.io/hostname'', nsr_Operator = ''In'', nsr_Values = [nodeName]\<rparr>]]"

definition createContainerSpec :: "string \<Rightarrow> Container list" where
  "createContainerSpec stateDir =
     [(container ''cleanup'' ''docker.io/aistorage/ais-operator-helper:latest'' [])
        \<lparr>c_Command := [''/cleanup-helper'', ''-dir='' @ stateDir],
         c_VolumeMounts := [simple_mount ''hostpath'' stateDir]\<rparr>]"

definition createVolumeSpec :: "string \<Rightarrow> Volume list" where
  "createVolumeSpec stateDir = [\<lparr>vol_Name = ''hostpath'', vol_Source = HostPathSource stateDir []\<rparr>]"

definition NewCleanupJob :: "k8s_lib \<Rightarrow> AIStore \<Rightarrow> string \<Rightarrow> CleanupJobSpec" where
  "NewCleanupJob L ais nodeName =
     (let stateDir = StateHostPath ais [] in
      \<lparr>job_GenerateName = CleanupPrefix @ ''-'' @ ReplaceAll nodeName (CHR ''.'') (CHR ''-'') @ ''-'',
       job_Namespace = Namespace ais, job_TTLSecondsAfterFinished = 0,
       job_NodeAffinity = createNodeAffinitySpec nodeName, job_Containers = createContainerSpec stateDir,
       job_Volumes = createVolumeSpec stateDir,
       job_PodTolerations = GetAllTolerations (MatchToleration L) ais, job_RestartPolicy = ''Never''\<rparr>)"

fun createCleanupJobs :: "AIStore \<Rightarrow> string list \<Rightarrow> unit op" where
  "createCleanupJobs ais [] = ret ()"
| "createCleanupJobs ais (nodeName # nodes) =
     bind (attempt (act (Create (CleanupJob ais nodeName)))) (\<lambda>r. case r of
       Inl e \<Rightarrow> if IsAlreadyExists e then createCleanupJobs ais nodes else throw e
     | Inr _ \<Rightarrow> createCleanupJobs ais nodes)"

definition listCleanupJobs :: "string \<Rightarrow> Job list op" where
  "listCleanupJobs namespace =
     bind (listJobs namespace) (\<lambda>jobs.
       ret (filter (\<lambda>j. HasPrefix (nn_Name (job_Name j)) CleanupPrefix) jobs))"

text \<open>The jobs that remain: a successful job and one older than two minutes are deleted.\<close>

fun deleteFinishedJobs :: "Job list \<Rightarrow> Job list op" where
  "deleteFinishedJobs [] = ret []"
| "deleteFinishedJobs (job # jobs) =
     bind (gets hist) (\<lambda>h. bind (asks now) (\<lambda>clock.
       if job_Succeeded job > 0 \<or> clock h - job_Created job > 120 * 10 ^ 9
       then bind (DeleteResourceIfExists KJob (job_Name job)) (\<lambda>_. deleteFinishedJobs jobs)
       else bind (deleteFinishedJobs jobs) (\<lambda>remaining. ret (job # remaining))))"

definition cleanupHostStateMounts :: "unit op" where
  "cleanupHostStateMounts = bind getCR (\<lambda>ais.
     bind (ListNodesMatchingAISSelectors
            (selector_of (SpecTarget (Spec ais)))
            (selector_of (ProxySpec (Spec ais)))) (\<lambda>nodeNames.
     bind (createCleanupJobs ais nodeNames) (\<lambda>_. updateStatusWithState HostCleanup)))"

section \<open>Resources\<close>

definition deleteAllPVCs :: "bool op" where
  "deleteAllPVCs = bind getCR (\<lambda>ais.
     bind (DeletePVCs (Namespace ais) (target_SelectorLabels ais) None) (\<lambda>updated.
     DeletePVCs (Namespace ais) (proxy_SelectorLabels ais) None))"

definition cleanupPVC :: "bool op" where
  "cleanupPVC = bind getCR (\<lambda>ais. if \<not> ShouldCleanupMetadata ais then ret False else deleteAllPVCs)"

definition cleanupRBAC :: "bool op" where
  "cleanupRBAC = bind getCR (\<lambda>ais. AnyFunc
     [DeleteResourceIfExists KRoleBinding (roleBindingName ais),
      DeleteResourceIfExists KRole (roleName ais),
      DeleteResourceIfExists KServiceAccount (ServiceAccountName ais)])"

definition cleanupAdminClient :: "bool op" where
  "cleanupAdminClient = bind getCR (\<lambda>ais. DeleteDeploymentIfExists (DeploymentNSName ais))"

definition cleanupTLS :: "bool op" where
  "cleanupTLS = bind getCR (\<lambda>ais. DeleteResourceIfExists KCertificate (CertificateNSName ais))"

definition cleanupStatsD :: "bool op" where
  "cleanupStatsD = bind getCR (\<lambda>ais. DeleteConfigMapIfExists (statsd_ConfigMapNSName ais))"

definition cleanup :: "bool op" where
  "cleanup = bind getCR (\<lambda>ais.
     bind (AnyFunc [cleanupTarget, cleanupProxy, cleanupAdminClient, cleanupStatsD,
                    cleanupRBAC, cleanupPVC, cleanupTLS]) (\<lambda>updated.
     bind (if ShouldCleanupMetadata ais \<and> UsesStateHostPath (Spec ais)
           then cleanupHostStateMounts else ret ()) (\<lambda>_. ret updated)))"

section \<open>Lemmas\<close>

text \<open>What is left of the jobs of a namespace is neither successful nor a job of another name.\<close>

lemma remaining_jobs_subset:
  "deleteFinishedJobs jobs E s = (Ret rem, s') \<Longrightarrow> set rem \<subseteq> set jobs \<and> (\<forall>j\<in>set rem. job_Succeeded j \<le> 0)"
proof (induction jobs arbitrary: s rem)
  case (Cons j jobs)
  show ?case
  proof (cases "job_Succeeded j > 0 \<or> now E (hist s) - job_Created j > 120 * 10 ^ 9")
    case True
    with Cons.prems obtain b s1 where "deleteFinishedJobs jobs E s1 = (Ret rem, s')"
      by (auto simp: run_simps split: prod.splits outcome.splits)
    with Cons.IH show ?thesis by (meson list.set_intros(2) subset_iff)
  next
    case False
    with Cons.prems obtain rem' where "deleteFinishedJobs jobs E s = (Ret rem', s')" "rem = j # rem'"
      by (auto simp: run_simps split: prod.splits outcome.splits)
    with Cons.IH [of s rem'] False show ?thesis by auto
  qed
qed (simp add: run_simps)

lemma foot_createCleanupJobs [foot_intros]:
  "CCreate \<in> C \<Longrightarrow> steps E (foot C) (createCleanupJobs ais nodes)"
proof (induction nodes)
  case (Cons n nodes)
  show ?case
    unfolding createCleanupJobs.simps by (intro foot_intros Cons) (use Cons.prems in auto)
qed (simp add: foot_intros)

lemma foot_listCleanupJobs [foot_intros]: "CRead \<in> C \<Longrightarrow> steps E (foot C) (listCleanupJobs ns)"
  unfolding listCleanupJobs_def by (intro foot_intros)

lemma foot_deleteFinishedJobs [foot_intros]:
  "CDelete KJob \<in> C \<Longrightarrow> steps E (foot C) (deleteFinishedJobs jobs)"
proof (induction jobs)
  case (Cons n nodes)
  show ?case
    unfolding deleteFinishedJobs.simps by (intro foot_intros Cons)
qed (simp add: foot_intros)

definition resource_kinds :: "kind set" where
  "resource_kinds = {KPDB, KStatefulSet, KService, KConfigMap, KDeployment, KRole, KRoleBinding,
     KServiceAccount, KCertificate}"

lemma foot_deleteAllPVCs [foot_intros]:
  "{CRead, CDelete KPVC} \<subseteq> C \<Longrightarrow> steps E (foot C) deleteAllPVCs"
  unfolding deleteAllPVCs_def by (intro foot_intros) auto

lemma foot_cleanupPVC [foot_intros]:
  "{CRead, CDelete KPVC} \<subseteq> C \<Longrightarrow> steps E (foot C) cleanupPVC"
  unfolding cleanupPVC_def by (intro foot_intros) auto

lemma foot_cleanup_parts [foot_intros]:
  "CDelete KDeployment \<in> C \<Longrightarrow> steps E (foot C) cleanupAdminClient"
  "CDelete KCertificate \<in> C \<Longrightarrow> steps E (foot C) cleanupTLS"
  "CDelete KConfigMap \<in> C \<Longrightarrow> steps E (foot C) cleanupStatsD"
  unfolding cleanupAdminClient_def cleanupTLS_def cleanupStatsD_def by (intro foot_intros; simp)+

lemma foot_cleanupRBAC [foot_intros]:
  "{CDelete KRole, CDelete KRoleBinding, CDelete KServiceAccount} \<subseteq> C \<Longrightarrow> steps E (foot C) cleanupRBAC"
  unfolding cleanupRBAC_def by (intro foot_intros) (auto intro: foot_intros)

lemma foot_cleanup_resources [foot_intros]:
  assumes "insert CRead (CDelete ` insert KPVC resource_kinds) \<subseteq> C"
  shows "steps E (foot C) (AnyFunc [cleanupTarget, cleanupProxy, cleanupAdminClient, cleanupStatsD,
                    cleanupRBAC, cleanupPVC, cleanupTLS])"
proof (rule foot.steps_AnyFunc)
  fix f
  assume "f \<in> set [cleanupTarget, cleanupProxy, cleanupAdminClient, cleanupStatsD,
                    cleanupRBAC, cleanupPVC, cleanupTLS]"
  with assms show "steps E (foot C) f"
    by (auto simp: resource_kinds_def intro!: foot_intros)
qed

lemma foot_cleanupHostStateMounts [foot_intros]:
  "{CRead, CCreate, CPatchStatus, CEvent} \<subseteq> C \<Longrightarrow> steps E (foot C) cleanupHostStateMounts"
  unfolding cleanupHostStateMounts_def by (intro foot_intros) auto

lemma foot_cleanup [foot_intros]:
  "{CRead, CCreate, CPatchStatus, CEvent} \<union> CDelete ` insert KPVC resource_kinds \<subseteq> C
     \<Longrightarrow> steps E (foot C) cleanup"
  unfolding cleanup_def by (intro foot_intros) auto

text \<open>The target claims were deleted, the answer of the pass is that nothing was.\<close>

lemma run_deleteAllPVCs:
  assumes "ans_pvcs E (hist s) (Namespace (cr s)) (target_SelectorLabels (cr s)) = Inr [p]"
    and "\<And>h. ans_do E h (Delete KPVC (pvcr_Name p)) = None"
    and "\<And>h. ans_pvcs E h (Namespace (cr s)) (proxy_SelectorLabels (cr s)) = Inr []"
  shows "\<exists>s'. deleteAllPVCs E s = (Ret False, s') \<and> Did (Delete KPVC (pvcr_Name p)) None \<in> set (hist s')"
  using assms
  by (auto simp: deleteAllPVCs_def DeletePVCs_def deleteAllPVCsIfExist_def listPVCs_def
      DeleteResourceIfExists_def allowObjNotFound_def run_simps split: option.splits)

end
