(* ===== verification/Admin_Client.thy ===== *)
theory Admin_Client
  imports Cluster_Status
begin

text \<open>
  The optional admin client: its Deployment
  (\<^verbatim>\<open>operator/internal/resources/aistore/adminclient/deployment.go\<close>) and its reconciliation
  (\<open>reconcileAdminClient\<close> and what it calls in \<^verbatim>\<open>cluster_controller.go\<close>). Of the resolved
  AuthN configuration only the service URL is used here; no configuration is the empty URL,
  which yields no variable either.
\<close>

section \<open>The desired Deployment\<close>

definition DefaultClientImage :: string where
  "DefaultClientImage = ''docker.io/aistorage/ais-util:latest''"

definition DefaultCABundleKey :: string where "DefaultCABundleKey = ''trust-bundle.pem''"
definition ClientCAMountPath :: string where "ClientCAMountPath = ''/etc/ais-ca''"
definition CAVolumeName :: string where "CAVolumeName = ''ais-ca''"

definition caKey :: "CAConfigMapRef \<Rightarrow> string" where
  "caKey ref = (case ca_Key ref of None \<Rightarrow> DefaultCABundleKey | Some k \<Rightarrow> k)"

definition caVolumes :: "CAConfigMapRef option \<Rightarrow> Volume list" where
  "caVolumes ca = (case ca of None \<Rightarrow> []
     | Some ref \<Rightarrow> [\<lparr>vol_Name = CAVolumeName,
         vol_Source = ConfigMapSource (ca_Name ref) [(caKey ref, caKey ref)] True\<rparr>])"

definition caVolumeMounts :: "CAConfigMapRef option \<Rightarrow> VolumeMount list" where
  "caVolumeMounts ca = (case ca of None \<Rightarrow> []
     | Some _ \<Rightarrow> [\<lparr>vm_Name = CAVolumeName, vm_MountPath = ClientCAMountPath,
         vm_SubPathExpr = [], vm_ReadOnly = True\<rparr>])"

definition value_env :: "string \<Rightarrow> string \<Rightarrow> EnvVar" where
  "value_env name v = \<lparr>env_Name = name, env_Value = v, env_ValueFrom = None\<rparr>"

definition caEnvVars :: "k8s_lib \<Rightarrow> CAConfigMapRef option \<Rightarrow> EnvVar list" where
  "caEnvVars L ca = (case ca of None \<Rightarrow> []
     | Some ref \<Rightarrow> [value_env (aisenv L ''AisClientCA'') (path_Join [ClientCAMountPath, caKey ref])])"

definition authnEnvVars :: "k8s_lib \<Rightarrow> string \<Rightarrow> EnvVar list" where
  "authnEnvVars L url = (if url \<noteq> [] then [value_env (aisenv L ''AisAuthURL'') url] else [])"

definition client_selectorLabels :: "AIStore \<Rightarrow> string_map" where
  "client_selectorLabels ais =
     fmap_of_list [(LabelAppPrefixed, AdminClientName ais), (LabelComponentPrefixed, ''client'')]"

definition buildClientEnv :: "k8s_lib \<Rightarrow> AIStore \<Rightarrow> AdminClientSpec \<Rightarrow> string \<Rightarrow> EnvVar list" where
  "buildClientEnv L ais clientSpec authURL =
     [value_env (aisenv L ''AisEndpoint'') (IntraClusterURL L ais)] @ ac_Env clientSpec
       @ caEnvVars L (ac_CAConfigMap clientSpec) @ authnEnvVars L authURL"

definition client_container :: "k8s_lib \<Rightarrow> AIStore \<Rightarrow> AdminClientSpec \<Rightarrow> string \<Rightarrow> Container" where
  "client_container L ais clientSpec authURL =
     \<lparr>c_Name = ''ais-client'',
      c_Image = (case ac_Image clientSpec of None \<Rightarrow> DefaultClientImage | Some i \<Rightarrow> i),
      c_ImagePullPolicy = (case ac_ImagePullPolicy clientSpec of None \<Rightarrow> [] | Some p \<Rightarrow> p),
      c_Command = [''sleep'', ''infinity''], c_Args = [],
      c_Env = buildClientEnv L ais clientSpec authURL,
      c_Ports = [], c_Resources = ac_Resources clientSpec,
      c_VolumeMounts = caVolumeMounts (ac_CAConfigMap clientSpec),
      c_LivenessProbe = None, c_ReadinessProbe = None, c_StartupProbe = None,
      c_SecurityContext = None, c_Rest = []\<rparr>"

text \<open>Without an \<open>adminClient\<close> block there is no Deployment (nil).\<close>

definition NewClientDeployment :: "k8s_lib \<Rightarrow> AIStore \<Rightarrow> string \<Rightarrow> Deployment option" where
  "NewClientDeployment L ais authURL = map_option (\<lambda>clientSpec.
     let matchLabels = client_selectorLabels ais;
         podLabels = client_selectorLabels ais ++\<^sub>f ac_Labels clientSpec
     in \<lparr>dep_Name = in_namespace ais (AdminClientName ais), dep_Owner = None,
         dep_Labels = matchLabels, dep_Annotations = ac_Annotations clientSpec,
         dep_Replicas = 1, dep_Selector = matchLabels,
         dep_Template = \<lparr>pt_Annotations = ac_Annotations clientSpec, pt_Labels = podLabels,
           pt_InitContainers = [],
           pt_Containers = [client_container L ais clientSpec authURL],
           pt_SecurityContext = None,
           pt_Volumes = caVolumes (ac_CAConfigMap clientSpec),
           pt_PriorityClassName = [], pt_Tolerations = ac_Tolerations clientSpec,
           pt_ServiceAccountName = ''default'', pt_AutomountServiceAccountToken = Some False,
           pt_ImagePullSecrets = ImagePullSecrets (Spec ais),
           pt_NodeSelector = ac_NodeSelector clientSpec, pt_Affinity = ac_Affinity clientSpec,
           pt_HostNetwork = False, pt_DNSPolicy = [],
           pt_Rest = []\<rparr>\<rparr>) (AdminClient (Spec ais))"

section \<open>Bringing the live Deployment to the desired one\<close>

text \<open>One \<open>if desired.X != current.X { current.X = desired.X; reasons = append(..) }\<close>.\<close>

definition sync_field ::
  "('t \<Rightarrow> bool) \<Rightarrow> ('t \<Rightarrow> 't) \<Rightarrow> string \<Rightarrow> string list \<times> 't \<Rightarrow> string list \<times> 't" where
  "sync_field differs assign reason s =
     (if differs (snd s) then (fst s @ [reason], assign (snd s)) else s)"

definition syncContainerSpec :: "Container \<Rightarrow> Container \<Rightarrow> string list \<times> Container" where
  "syncContainerSpec desired current =
     (let s = ([], current);
          s = sync_field (\<lambda>c. c_Image desired \<noteq> c_Image c)
                (c_Image_update (\<lambda>_. c_Image desired)) ''image'' s;
          s = sync_field (\<lambda>c. c_ImagePullPolicy desired \<noteq> [] \<and> c_ImagePullPolicy desired \<noteq> c_ImagePullPolicy c)
                (c_ImagePullPolicy_update (\<lambda>_. c_ImagePullPolicy desired)) ''imagePullPolicy'' s;
          s = sync_field (\<lambda>c. c_Env desired \<noteq> c_Env c)
                (c_Env_update (\<lambda>_. c_Env desired)) ''env'' s;
          s = sync_field (\<lambda>c. c_Resources desired \<noteq> c_Resources c)
                (c_Resources_update (\<lambda>_. c_Resources desired)) ''resources'' s;
          s = sync_field (\<lambda>c. c_VolumeMounts desired \<noteq> c_VolumeMounts c)
                (c_VolumeMounts_update (\<lambda>_. c_VolumeMounts desired)) ''volumeMounts'' s
      in s)"

definition syncPodTemplateSpec :: "PodTemplateSpec \<Rightarrow> PodTemplateSpec \<Rightarrow> string list \<times> PodTemplateSpec" where
  "syncPodTemplateSpec desired modified =
     (let s = ([], modified);
          s = sync_field (\<lambda>t. pt_ServiceAccountName desired \<noteq> pt_ServiceAccountName t)
                (pt_ServiceAccountName_update (\<lambda>_. pt_ServiceAccountName desired)) ''serviceAccountName'' s;
          s = sync_field (\<lambda>t. pt_AutomountServiceAccountToken desired \<noteq> pt_AutomountServiceAccountToken t)
                (pt_AutomountServiceAccountToken_update (\<lambda>_. pt_AutomountServiceAccountToken desired))
                ''automountServiceAccountToken'' s;
          s = sync_field (\<lambda>t. pt_ImagePullSecrets desired \<noteq> pt_ImagePullSecrets t)
                (pt_ImagePullSecrets_update (\<lambda>_. pt_ImagePullSecrets desired)) ''imagePullSecrets'' s;
          s = sync_field (\<lambda>t. pt_Volumes desired \<noteq> pt_Volumes t)
                (pt_Volumes_update (\<lambda>_. pt_Volumes desired)) ''volumes'' s;
          s = sync_field (\<lambda>t. pt_NodeSelector desired \<noteq> pt_NodeSelector t)
                (pt_NodeSelector_update (\<lambda>_. pt_NodeSelector desired)) ''nodeSelector'' s;
          s = sync_field (\<lambda>t. pt_Affinity desired \<noteq> pt_Affinity t)
                (pt_Affinity_update (\<lambda>_. pt_Affinity desired)) ''affinity'' s;
          s = sync_field (\<lambda>t. pt_Tolerations desired \<noteq> pt_Tolerations t)
                (pt_Tolerations_update (\<lambda>_. pt_Tolerations desired)) ''tolerations'' s;
          s = sync_field (\<lambda>t. pt_Labels desired \<noteq> pt_Labels t)
                (pt_Labels_update (\<lambda>_. pt_Labels desired)) ''pod labels'' s;
          s = sync_field (\<lambda>t. pt_Annotations desired \<noteq> pt_Annotations t)
                (pt_Annotations_update (\<lambda>_. pt_Annotations desired)) ''annotations'' s
      in s)"

text \<open>
  The reasons and the modified Deployment. Both Deployments are indexed at container 0: an
  empty list panics (\<open>None\<close>).
\<close>

definition SyncDeployment :: "Deployment \<Rightarrow> Deployment \<Rightarrow> (string list \<times> Deployment) option" where
  "SyncDeployment desired modified =
     (case (pt_Containers (dep_Template desired), pt_Containers (dep_Template modified)) of
        (d # ds, c # cs) \<Rightarrow>
          (let (reasons, c') = syncContainerSpec d c;
               (reasons', t') = syncPodTemplateSpec (dep_Template desired)
                  ((dep_Template modified)\<lparr>pt_Containers := c' # cs\<rparr>);
               s = sync_field (\<lambda>m. dep_Labels desired \<noteq> dep_Labels m)
                     (dep_Labels_update (\<lambda>_. dep_Labels desired)) ''deployment labels''
                     (reasons @ reasons', modified\<lparr>dep_Template := t'\<rparr>)
           in Some s)
      | _ \<Rightarrow> None)"

section \<open>Reconciliation\<close>

definition resolveAuthConf :: "string op" where
  "resolveAuthConf = bind getCR (\<lambda>ais.
     if Auth (Spec ais) = None then ret [] else call (\<lambda>E h. ans_auth E h) GotAuthConf)"

definition removeClientDeployment :: "NamespacedName \<Rightarrow> unit op" where
  "removeClientDeployment nsName = bind (DeleteDeploymentIfExists nsName) (\<lambda>_. ret ())"

definition createClientDeployment :: "unit op" where
  "createClientDeployment = bind (asks lib) (\<lambda>L. bind getCR (\<lambda>ais.
     bind resolveAuthConf (\<lambda>authURL.
     bind (deref (NewClientDeployment L ais authURL)) (\<lambda>clientDeploy.
     bind (CreateOrUpdateResource (ClientDeployment clientDeploy)) (\<lambda>_. ret ())))))"

definition reconcileClientDeployment :: "Deployment \<Rightarrow> unit op" where
  "reconcileClientDeployment existing = bind (asks lib) (\<lambda>L. bind getCR (\<lambda>ais.
     bind resolveAuthConf (\<lambda>authURL.
     bind (deref (NewClientDeployment L ais authURL)) (\<lambda>desired.
     bind (deref (SyncDeployment desired existing)) (\<lambda>r.
       if fst r = [] then ret () else act (PatchDeployment existing (snd r)))))))"

definition reconcileAdminClient :: "unit op" where
  "reconcileAdminClient = bind getCR (\<lambda>ais.
     let nsName = DeploymentNSName ais; enabled = AdminClientEnabled ais in
     bind (attempt (getDeployment nsName)) (\<lambda>r. case r of
       Inl e \<Rightarrow> if \<not> IsNotFound e then throw e
         else if enabled then createClientDeployment else ret ()
     | Inr existing \<Rightarrow>
         if dep_Owner existing \<noteq> Some (UID ais) then ret ()
         else if enabled then reconcileClientDeployment existing
         else removeClientDeployment nsName))"

section \<open>Lemmas\<close>

lemma sync_field_result:
  "f (snd (sync_field differs assign r s)) = (if differs (snd s) then f (assign (snd s)) else f (snd s))"
  by (simp add: sync_field_def)

lemma sync_field_reasons:
  "fst (sync_field differs assign r s) = [] \<longleftrightarrow> fst s = [] \<and> \<not> differs (snd s)"
  by (simp add: sync_field_def)

lemma sync_field_snd:
  "snd (sync_field differs assign r s) = (if differs (snd s) then assign (snd s) else snd s)"
  by (simp add: sync_field_def)

lemma foot_resolveAuthConf [foot_intros]: "CRead \<in> C \<Longrightarrow> steps E (foot C) resolveAuthConf"
  unfolding resolveAuthConf_def by (intro foot_intros) auto

lemma foot_reconcileAdminClient [foot_intros]:
  "{CRead, CSetOwner, CCreate, CUpdate, CPatchDeployment, CDelete KDeployment} \<subseteq> C
     \<Longrightarrow> steps E (foot C) reconcileAdminClient"
  unfolding reconcileAdminClient_def createClientDeployment_def reconcileClientDeployment_def
    removeClientDeployment_def Let_def
  by (intro foot_intros) auto

end
