(* ===== verification/Nodes.thy ===== *)
theory Nodes
  imports Cluster_Status
begin

text \<open>
  Which Kubernetes nodes a cluster can use and which clusters a change of a node or a pod
  concerns: node discovery for autoscaling and for the TLS certificate, and the two map
  functions of the controller's watches (\<^verbatim>\<open>operator/internal/controller/aistore/cluster_controller.go\<close>,
  \<open>LoadBalancerEndpoints\<close> of \<^verbatim>\<open>operator/internal/resources/certificates/certificate.go\<close>).
\<close>

section \<open>Matching nodes\<close>

text \<open>An equality selector matches the labels that contain it.\<close>

definition nodeMatchesSelector :: "Node \<Rightarrow> string_map \<Rightarrow> bool" where
  "nodeMatchesSelector node selector = (selector \<subseteq>\<^sub>f node_Labels node)"

definition listMatchingNodes :: "string_map \<Rightarrow> Toleration list \<Rightarrow> Node list op" where
  "listMatchingNodes selector tolerations = bind (asks lib) (\<lambda>L.
     bind (listNodes selector) (\<lambda>nodes. ret (filter (toleratesTaints L tolerations) nodes)))"

definition listMatchingNodeNames :: "string_map \<Rightarrow> Toleration list \<Rightarrow> string list op" where
  "listMatchingNodeNames selector tolerations =
     bind (listMatchingNodes selector tolerations) (\<lambda>nodes. ret (sort (map node_Name nodes)))"

definition listNodesRunningDaemonPods :: "string_map \<Rightarrow> string list op" where
  "listNodesRunningDaemonPods podLabels = bind getCR (\<lambda>ais.
     bind (listPods (Namespace ais) (fmupd LabelManagedBy LabelManagedByValue podLabels)) (\<lambda>pods.
     ret (sort (remdups (filter (\<lambda>n. n \<noteq> []) (map pod_NodeName pods))))))"

definition unionSorted :: "string list \<Rightarrow> string list \<Rightarrow> string list" where
  "unionSorted a b = Compact (sort (a @ b))"

section \<open>Autoscaling\<close>

definition autoscale_nodes ::
  "'a DaemonSpec_scheme \<Rightarrow> string_map \<Rightarrow> string list op" where
  "autoscale_nodes d podLabels =
     bind (listMatchingNodeNames (selector_of d) (d_Tolerations d)) (\<lambda>schedulableNodes.
     bind (listNodesRunningDaemonPods podLabels) (\<lambda>podNodes.
     ret (unionSorted schedulableNodes podNodes)))"

definition determineAutoScaleStatus :: "unit op" where
  "determineAutoScaleStatus = bind getCR (\<lambda>ais.
     bind (if IsTargetAutoScaling ais
           then autoscale_nodes (SpecTarget (Spec ais)) (target_SelectorLabels ais) else ret [])
       (\<lambda>targetNodes.
     bind (if IsProxyAutoScaling ais
           then autoscale_nodes (ProxySpec (Spec ais)) (proxy_SelectorLabels ais) else ret [])
       (\<lambda>proxyNodes.
     updateAutoScaleStatus \<lparr>ExpectedProxyNodes = proxyNodes, ExpectedTargetNodes = targetNodes\<rparr>)))"

section \<open>Public hosts\<close>

definition LoadBalancerEndpoints :: "Service list \<Rightarrow> string list" where
  "LoadBalancerEndpoints svcs =
     concat (map (\<lambda>svc. concat (map (\<lambda>(ip, host).
       (if ip \<noteq> [] then [ip] else []) @ (if host \<noteq> [] then [host] else [])) (svc_Ingress svc))) svcs)"

definition externalEndpoints :: "string \<Rightarrow> string list op" where
  "externalEndpoints lbLabel = bind getCR (\<lambda>ais.
     bind (listServices (Namespace ais) (NewServiceLabels (Name ais) lbLabel)) (\<lambda>svcs.
     ret (LoadBalancerEndpoints svcs)))"

definition daemon_hosts :: "'a DaemonSpec_scheme \<Rightarrow> PubNetDNSMode \<Rightarrow> bool \<Rightarrow> string list \<Rightarrow> string list op" where
  "daemon_hosts d mode autoScaling expectedNodes =
     (if mode = PubNetDNSModeNode \<and> autoScaling \<and> expectedNodes \<noteq> [] then ret expectedNodes
      else bind (listMatchingNodes (selector_of d) (d_Tolerations d)) (\<lambda>nodes.
             ret (publicHostsForNodes nodes mode)))"

definition targetPublicHosts :: "PubNetDNSMode \<Rightarrow> string list op" where
  "targetPublicHosts mode = bind getCR (\<lambda>ais.
     bind (daemon_hosts (SpecTarget (Spec ais)) mode (IsTargetAutoScaling ais)
            (ExpectedTargetNodes (StatusAutoScale (Status ais)))) (\<lambda>hosts.
     if \<not> TargetExternalAccessEnabled ais then ret hosts
     else bind (externalEndpoints target_ServiceLabelLB) (\<lambda>endpoints. ret (hosts @ endpoints))))"

definition proxyPublicHosts :: "PubNetDNSMode \<Rightarrow> string list op" where
  "proxyPublicHosts mode = bind getCR (\<lambda>ais.
     bind (daemon_hosts (ProxySpec (Spec ais)) mode (IsProxyAutoScaling ais)
            (ExpectedProxyNodes (StatusAutoScale (Status ais)))) (\<lambda>hosts.
     if \<not> ProxyExternalAccessEnabled ais then ret hosts
     else bind (externalEndpoints proxy_ServiceLabelLB) (\<lambda>endpoints. ret (hosts @ endpoints))))"

definition discoverPublicNetHosts :: "string list op" where
  "discoverPublicNetHosts = bind getCR (\<lambda>ais.
     let mode = GetPublicNetDNSMode ais in
     if mode = PubNetDNSModePod then ret []
     else bind (targetPublicHosts mode) (\<lambda>targetHosts.
          bind (proxyPublicHosts mode) (\<lambda>proxyHosts.
          ret (Compact (sort (targetHosts @ proxyHosts))))))"

section \<open>Watches\<close>

definition nodeMatchesForProxy :: "Node \<Rightarrow> AIStore \<Rightarrow> bool" where
  "nodeMatchesForProxy node ais =
     (if IsProxyAutoScaling ais \<and>
         node_Name node \<in> set (ExpectedProxyNodes (StatusAutoScale (Status ais))) then True
      else IsProxyAutoScaling ais \<and> nodeMatchesSelector node (selector_of (ProxySpec (Spec ais))))"

definition nodeMatchesForTarget :: "Node \<Rightarrow> AIStore \<Rightarrow> bool" where
  "nodeMatchesForTarget node ais =
     (if IsTargetAutoScaling ais \<and>
         node_Name node \<in> set (ExpectedTargetNodes (StatusAutoScale (Status ais))) then True
      else IsTargetAutoScaling ais \<and> nodeMatchesSelector node (selector_of (SpecTarget (Spec ais))))"

definition nodeAffectsTLSCertificate :: "k8s_lib \<Rightarrow> Node \<Rightarrow> AIStore \<Rightarrow> bool" where
  "nodeAffectsTLSCertificate L node ais =
     (if \<not> UseTLSCertificate ais \<or> GetPublicNetDNSMode ais = PubNetDNSModePod then False
      else if nodeMatchesSelector node (selector_of (ProxySpec (Spec ais))) \<and>
              toleratesTaints L (d_Tolerations (ProxySpec (Spec ais))) node then True
      else nodeMatchesSelector node (selector_of (SpecTarget (Spec ais))) \<and>
           toleratesTaints L (d_Tolerations (SpecTarget (Spec ais))) node)"

text \<open>The requests a node's change queues, given the answer to listing the CRs.\<close>

definition findAISClustersForNode :: "k8s_lib \<Rightarrow> Node \<Rightarrow> err + AIStore list \<Rightarrow> NamespacedName list" where
  "findAISClustersForNode L node aisList = (case aisList of
     Inl e \<Rightarrow> []
   | Inr items \<Rightarrow> map NamespacedNameOf (filter (\<lambda>ais.
       IsProxyAutoScaling ais \<and> nodeMatchesForProxy node ais \<or>
       IsTargetAutoScaling ais \<and> nodeMatchesForTarget node ais \<or>
       nodeAffectsTLSCertificate L node ais) items))"

definition findAISClustersForPod :: "string \<Rightarrow> Pod \<Rightarrow> NamespacedName list" where
  "findAISClustersForPod namespace pod =
     (let aisName = annotation (pod_Labels pod) LabelAppPrefixed in
      if aisName = [] then [] else [\<lparr>nn_Name = aisName, nn_Namespace = namespace\<rparr>])"

section \<open>Lemmas\<close>

lemma unionSorted_set: "set (unionSorted a b) = set a \<union> set b"
  by (simp add: unionSorted_def)

lemma unionSorted_sorted: "sorted (unionSorted a b)"
  by (simp add: unionSorted_def sorted_remdups_adj)

lemma unionSorted_distinct: "distinct (unionSorted a b)"
  by (simp add: unionSorted_def Compact_sorted_distinct)

lemma foot_listMatchingNodes [foot_intros]: "CRead \<in> C \<Longrightarrow> steps E (foot C) (listMatchingNodes m t)"
  unfolding listMatchingNodes_def by (intro foot_intros)

lemma foot_autoscale_nodes [foot_intros]: "CRead \<in> C \<Longrightarrow> steps E (foot C) (autoscale_nodes d l)"
  unfolding autoscale_nodes_def listMatchingNodeNames_def listNodesRunningDaemonPods_def
  by (intro foot_intros)

lemma foot_determineAutoScaleStatus [foot_intros]:
  "{CRead, CPatchStatus, CEvent} \<subseteq> C \<Longrightarrow> steps E (foot C) determineAutoScaleStatus"
  unfolding determineAutoScaleStatus_def by (intro foot_intros) auto

lemma foot_discoverPublicNetHosts [foot_intros]:
  "CRead \<in> C \<Longrightarrow> steps E (foot C) discoverPublicNetHosts"
  unfolding discoverPublicNetHosts_def targetPublicHosts_def proxyPublicHosts_def
    externalEndpoints_def daemon_hosts_def Let_def by (intro foot_intros)

lemma run_autoscale_nodes:
  assumes "autoscale_nodes d labels E s = (Ret v, s')"
  shows "sorted v \<and> distinct v \<and> (\<exists>nodes pods. set v =
      node_Name ` {n \<in> set nodes. toleratesTaints (lib E) (d_Tolerations d) n} \<union>
      pod_NodeName ` {p \<in> set pods. pod_NodeName p \<noteq> []} \<and>
    hist s' = [GotPods (Namespace (cr s)) (fmupd LabelManagedBy LabelManagedByValue labels) (Inr pods),
      GotNodes (selector_of d) (Inr nodes)] @ hist s)"
proof -
  let ?sel = "selector_of d" and ?l = "fmupd LabelManagedBy LabelManagedByValue labels"
  from assms obtain nodes where n: "ans_nodes E (hist s) ?sel = Inr nodes"
    by (auto simp: autoscale_nodes_def listMatchingNodeNames_def listMatchingNodes_def listNodes_def run_simps
        split: sum.splits)
  let ?h = "GotNodes ?sel (Inr nodes) # hist s"
  from assms n obtain pods where p: "ans_pods E ?h (Namespace (cr s)) ?l = Inr pods"
    by (auto simp: autoscale_nodes_def listMatchingNodeNames_def listMatchingNodes_def listNodes_def
        listNodesRunningDaemonPods_def listPods_def run_simps split: sum.splits)
  from assms n p have v: "v = unionSorted
      (sort (map node_Name (filter (toleratesTaints (lib E) (d_Tolerations d)) nodes)))
      (sort (remdups (filter (\<lambda>n. n \<noteq> []) (map pod_NodeName pods))))"
    and s': "hist s' = GotPods (Namespace (cr s)) ?l (Inr pods) # ?h"
    by (auto simp: autoscale_nodes_def listMatchingNodeNames_def listMatchingNodes_def listNodes_def
        listNodesRunningDaemonPods_def listPods_def run_simps)
  have "set v = node_Name ` {n \<in> set nodes. toleratesTaints (lib E) (d_Tolerations d) n} \<union>
      pod_NodeName ` {p \<in> set pods. pod_NodeName p \<noteq> []}"
    by (auto simp: v unionSorted_set)
  then show ?thesis
    using s' unionSorted_sorted unionSorted_distinct v by auto
qed

end
