(* ===== verification/Validation.thy ===== *)
theory Validation
  imports AIS_CR K8s_Lib
begin

text \<open>
  The spec-only validation of an AIStore
  (\<^verbatim>\<open>operator/api/aistore/v1beta1/aistore_validation.go\<close>), run by the admission webhook and
  again at the start of every reconcile. A check returns its warnings and possibly an error;
  the run stops at the first error and returns the warnings collected before it.
\<close>

type_synonym checked = "string list \<times> err option"

section \<open>The error messages\<close>

definition errInvalidClusterSize :: "int32 option \<Rightarrow> err" where
  "errInvalidClusterSize clusterSize =
     (case clusterSize of None \<Rightarrow> OtherErr ''cluster size is not specified''
      | Some n \<Rightarrow> OtherErr (''invalid cluster size '' @ show_int n
                    @ '', should be at least 1 or -1 for autoScaling''))"

definition errInvalidDaemonSize :: "int32 \<Rightarrow> string \<Rightarrow> err" where
  "errInvalidDaemonSize n daeType =
     OtherErr (''invalid '' @ daeType @ '' daemon size '' @ show_int n @ '', should be at least 1'')"

definition errUndefinedStateStorage :: err where
  "errUndefinedStateStorage = OtherErr ''AIS spec does not define stateStorage. Set stateStorage.hostPath, stateStorage.pvc, or stateStorage.emptyDir''"

definition errInvalidStateStorage :: err where
  "errInvalidStateStorage = OtherErr ''AIS spec stateStorage must define exactly one of hostPath, pvc, or emptyDir''"

definition errUndefinedNodeSelector :: "string \<Rightarrow> err" where
  "errUndefinedNodeSelector spec =
     OtherErr (''missing nodeSelector for '' @ spec @ ''; nodeSelector is required when autoScale is enabled'')"

section \<open>The checks\<close>

text \<open>A pointer that is set and whose target satisfies a test.\<close>

definition ptr_holds :: "('a \<Rightarrow> bool) \<Rightarrow> 'a option \<Rightarrow> bool" where
  "ptr_holds P x = (case x of None \<Rightarrow> False | Some a \<Rightarrow> P a)"

lemma ptr_holds_simps [simp]: "\<not> ptr_holds P None" "ptr_holds P (Some a) = P a"
  by (simp_all add: ptr_holds_def)

definition validateSize :: "AIStore \<Rightarrow> checked" where
  "validateSize ais =
     (let proxySize = d_Size (ProxySpec (Spec ais)); targetSize = d_Size (SpecTarget (Spec ais));
          clusterSize = Size (Spec ais)
      in if ptr_holds (\<lambda>n. n \<le> 0) proxySize \<and> \<not> IsProxyAutoScaling ais
         then ([], map_option (\<lambda>n. errInvalidDaemonSize n Proxy_name) proxySize)
         else if ptr_holds (\<lambda>n. n \<le> 0) targetSize \<and> \<not> IsTargetAutoScaling ais
         then ([], map_option (\<lambda>n. errInvalidDaemonSize n Target_name) targetSize)
         else if (targetSize = None \<or> proxySize = None) \<and>
                 (clusterSize = None \<or> ptr_holds (\<lambda>n. n \<le> -2) clusterSize \<or> ptr_holds (\<lambda>n. n = 0) clusterSize)
         then ([], Some (errInvalidClusterSize clusterSize))
         else ([], None))"

definition hasExactlyOneStateStorageMode :: "AIStoreSpec \<Rightarrow> bool" where
  "hasExactlyOneStateStorageMode s =
     (case StateStorage s of None \<Rightarrow> False
      | Some st \<Rightarrow>
          (if ss_HostPath st \<noteq> None then 1 else 0) + (if ss_PVC st \<noteq> None then 1 else 0)
            + (if ss_EmptyDir st \<noteq> None then 1 else 0) = (1 :: nat))"

definition validateStateStorage :: "AIStore \<Rightarrow> checked" where
  "validateStateStorage ais =
     (let s = Spec ais in
      if StateStorage s \<noteq> None then
        let warnings = (if StateStorageClass s \<noteq> None \<or> HostpathPrefix s \<noteq> None
              then [''spec.stateStorage is set; ignoring legacy hostpathPrefix and stateStorageClass fields'']
              else [])
        in (warnings, if \<not> hasExactlyOneStateStorageMode s then Some errInvalidStateStorage else None)
      else (case (StateStorageClass s, HostpathPrefix s) of
          (Some c, Some _) \<Rightarrow>
            ([''Spec defines both hostpathPrefix and stateStorageClass. Using stateStorageClass '' @ c], None)
        | (None, None) \<Rightarrow> ([], Some errUndefinedStateStorage)
        | _ \<Rightarrow> ([], None)))"

definition validateShutdownWithEmptyDir :: "AIStore \<Rightarrow> checked" where
  "validateShutdownWithEmptyDir ais =
     (if UsesStateEmptyDir (Spec ais) \<and> ShouldBeShutdown ais
      then ([], Some (OtherErr ''shutdownCluster cannot be enabled when stateStorage.emptyDir is used; emptyDir state is ephemeral and is lost when the cluster is shut down''))
      else ([], None))"

definition validateAutoScaling :: "AIStore \<Rightarrow> checked" where
  "validateAutoScaling ais =
     (let warns =
        (if ptr_holds (\<lambda>n. n = -1) (Size (Spec ais)) then
           (if ptr_holds (\<lambda>n. n \<noteq> -1) (d_Size (SpecTarget (Spec ais)))
            then [''spec.targetSpec.size is set when spec.Size is -1; defaulting to use the -1 of spec.Size''] else [])
           @ (if ptr_holds (\<lambda>n. n \<noteq> -1) (d_Size (ProxySpec (Spec ais)))
            then [''spec.proxySpec.size is set when spec.Size is -1; defaulting to use the -1 of spec.Size''] else [])
         else [])
      in if IsTargetAutoScaling ais \<and> d_NodeSelector (SpecTarget (Spec ais)) = None
         then ([], Some (errUndefinedNodeSelector Target_name))
         else if IsProxyAutoScaling ais \<and> d_NodeSelector (ProxySpec (Spec ais)) = None
         then ([], Some (errUndefinedNodeSelector Proxy_name))
         else (warns, None))"

definition validateSafeDecommission :: "AIStore \<Rightarrow> checked" where
  "validateSafeDecommission ais =
     (if \<not> SafeDecommissionOnScaleDown (SpecTarget (Spec ais)) then ([], None)
      else if \<not> RebalanceEnabled (SpecConfig (Spec ais))
      then ([''scaleDownMode is \"safe_decommission\" but rebalance is disabled; enable configToUpdate.rebalance.enabled so target data is migrated on scale-down''], None)
      else ([], None))"

text \<open>The deprecated fields in the order of the table; a nil \<open>auth\<close> has none of its fields set.\<close>

definition deprecatedFields :: "AIStore \<Rightarrow> (bool \<times> string \<times> string) list" where
  "deprecatedFields ais =
     (let s = Spec ais; a = Auth s in
      [(Option.bind a ServiceURL \<noteq> None, ''spec.auth.serviceURL'', ''spec.auth.profileRef''),
       (Option.bind a UsernamePassword \<noteq> None, ''spec.auth.usernamePassword'', ''spec.auth.profileRef''),
       (Option.bind a TokenExchange \<noteq> None, ''spec.auth.tokenExchange'', ''spec.auth.profileRef''),
       (Option.bind a AuthTLS \<noteq> None, ''spec.auth.tls'', ''spec.auth.profileRef''),
       (SpecClusterDomain s \<noteq> None, ''spec.clusterDomain'', ''the operator's configured or discovered cluster domain''),
       (HostpathPrefix s \<noteq> None, ''spec.hostpathPrefix'', ''spec.stateStorage.hostPath.prefix''),
       (StateStorageClass s \<noteq> None, ''spec.stateStorageClass'', ''spec.stateStorage.pvc.storageClass''),
       (EnableExternalLB s, ''spec.enableExternalLB'', ''spec.proxySpec.externalAccess and/or spec.targetSpec.externalAccess''),
       (d_Capabilities (ProxySpec s) \<noteq> None, ''spec.proxySpec.capabilities'', ''spec.proxySpec.aisContainerSecurityContext''),
       (d_Capabilities (SpecTarget s) \<noteq> None, ''spec.targetSpec.capabilities'', ''spec.targetSpec.aisContainerSecurityContext'')])"

definition validateDeprecatedFields :: "AIStore \<Rightarrow> checked" where
  "validateDeprecatedFields ais =
     (map (\<lambda>(_, fld, replacement). fld @ '' is deprecated and will be removed in a future release; use ''
            @ replacement @ '' instead'')
        (filter fst (deprecatedFields ais)), None)"

text \<open>An \<open>ErrorList\<close> entry: the field's path, the offending value, the complaint.\<close>

definition port_errors ::
  "k8s_lib \<Rightarrow> string \<Rightarrow> int_or_string \<Rightarrow> (string \<times> int \<times> string) list" where
  "port_errors L path port =
     map (\<lambda>msg. (path, IntValue L port, msg)) (IsValidPortNum L (IntValue L port))"

definition ServiceSpec_validate ::
  "k8s_lib \<Rightarrow> ServiceSpec \<Rightarrow> string \<Rightarrow> (string \<times> int \<times> string) list" where
  "ServiceSpec_validate L s path =
     port_errors L (path @ ''.servicePort'') (ServicePort s)
     @ port_errors L (path @ ''.portPublic'') (PublicPort s)
     @ port_errors L (path @ ''.portIntraControl'') (IntraControlPort s)
     @ port_errors L (path @ ''.portIntraData'') (IntraDataPort s)"

definition validateServiceSpec :: "k8s_lib \<Rightarrow> AIStore \<Rightarrow> checked" where
  "validateServiceSpec L ais =
     (let allErrs = ServiceSpec_validate L (d_ServiceSpec (ProxySpec (Spec ais))) ''spec.proxySpec''
                  @ ServiceSpec_validate L (d_ServiceSpec (SpecTarget (Spec ais))) ''spec.targetSpec''
      in ([], if allErrs = [] then None else Some (OtherErr (AggregateText L allErrs))))"

fun join :: "string \<Rightarrow> string list \<Rightarrow> string" where
  "join sep [] = []"
| "join sep [x] = x"
| "join sep (x # y # ys) = x @ sep @ join sep (y # ys)"

definition validateTLSCertPaths :: "AIStore \<Rightarrow> checked" where
  "validateTLSCertPaths ais =
     (if TLS (Spec ais) = None then ([], None)
      else (case spec_http (Spec ais) of
          None \<Rightarrow> ([], None)
        | Some http \<Rightarrow>
            let conflicts = (if http_Certificate http \<noteq> None then [''server_crt''] else [])
                  @ (if http_CertKey http \<noteq> None then [''server_key''] else [])
                  @ (if http_ClientCA http \<noteq> None then [''client_ca_tls''] else [])
            in ([], if conflicts = [] then None
                    else Some (OtherErr (''configToUpdate.net.http.['' @ join '','' conflicts
                       @ ''] cannot be set together with spec.tls; the operator manages cert paths under /var/certs'')))))"

definition validateCleanupConfig :: "AIStore \<Rightarrow> checked" where
  "validateCleanupConfig ais =
     (if \<not> ShouldCleanupMetadata ais then ([], None)
      else if \<not> UsesStateHostPath (Spec ais) then ([], None)
      else if selector_of (SpecTarget (Spec ais)) = fmempty \<or> selector_of (ProxySpec (Spec ais)) = fmempty
      then ([''cleanupMetadata is enabled with hostpath state and empty nodeSelector; host cleanup jobs will run on ALL nodes in the cluster''], None)
      else ([], None))"

section \<open>The whole validation\<close>

fun run_checks :: "string list \<Rightarrow> checked list \<Rightarrow> checked" where
  "run_checks allWarnings [] = (allWarnings, None)"
| "run_checks allWarnings (c # cs) =
     (case snd c of Some e \<Rightarrow> (allWarnings, Some e)
      | None \<Rightarrow> run_checks (allWarnings @ fst c) cs)"

definition validations :: "k8s_lib \<Rightarrow> AIStore \<Rightarrow> checked list" where
  "validations L ais =
     [validateDeprecatedFields ais, validateSize ais, validateStateStorage ais,
      validateShutdownWithEmptyDir ais, validateAutoScaling ais, validateServiceSpec L ais,
      validateCleanupConfig ais, validateTLSCertPaths ais, validateSafeDecommission ais]"

definition ValidateSpec :: "k8s_lib \<Rightarrow> AIStore \<Rightarrow> checked" where
  "ValidateSpec L ais = run_checks [] (validations L ais)"

section \<open>Running the checks\<close>

lemma run_checks_ok_iff: "snd (run_checks ws cs) = None \<longleftrightarrow> (\<forall>c\<in>set cs. snd c = None)"
  by (induction cs arbitrary: ws) (auto split: option.splits)

lemma run_checks_warnings:
  "snd (run_checks ws cs) = None \<Longrightarrow> fst (run_checks ws cs) = ws @ concat (map fst cs)"
  by (induction cs arbitrary: ws) (auto split: option.splits)

lemma run_checks_first_error:
  "\<lbrakk>\<forall>c\<in>set cs. snd c = None; snd d = Some e\<rbrakk>
     \<Longrightarrow> run_checks ws (cs @ d # ds) = (ws @ concat (map fst cs), Some e)"
  by (induction cs arbitrary: ws) auto

lemma ValidateSpec_ok_iff:
  "snd (ValidateSpec L ais) = None \<longleftrightarrow>
     snd (validateSize ais) = None \<and> snd (validateStateStorage ais) = None \<and>
     snd (validateShutdownWithEmptyDir ais) = None \<and> snd (validateAutoScaling ais) = None \<and>
     snd (validateServiceSpec L ais) = None \<and> snd (validateTLSCertPaths ais) = None"
proof -
  have "snd (validateDeprecatedFields ais) = None" by (simp add: validateDeprecatedFields_def)
  moreover have "snd (validateCleanupConfig ais) = None" by (simp add: validateCleanupConfig_def)
  moreover have "snd (validateSafeDecommission ais) = None" by (simp add: validateSafeDecommission_def)
  ultimately show ?thesis
    by (simp only: ValidateSpec_def run_checks_ok_iff validations_def) auto
qed

lemma valid_sizes:
  assumes "snd (validateSize ais) = None"
  shows "\<not> IsProxyAutoScaling ais \<Longrightarrow> \<exists>n \<ge> 1. GetProxySize ais = Some n"
    and "\<not> IsTargetAutoScaling ais \<Longrightarrow> \<exists>n \<ge> 1. GetTargetSize ais = Some n"
proof -
  show "\<exists>n \<ge> 1. GetProxySize ais = Some n" if "\<not> IsProxyAutoScaling ais"
  proof (cases "d_Size (ProxySpec (Spec ais))")
    case None
    with assms that show ?thesis
      by (cases "Size (Spec ais)")
         (auto simp: validateSize_def Let_def GetProxySize_def IsProxyAutoScaling_def split: if_splits)
  next
    case (Some n)
    with assms that show ?thesis
      by (auto simp: validateSize_def Let_def GetProxySize_def split: if_splits)
  qed
  show "\<exists>n \<ge> 1. GetTargetSize ais = Some n" if "\<not> IsTargetAutoScaling ais"
  proof (cases "d_Size (SpecTarget (Spec ais))")
    case None
    with assms that show ?thesis
      by (cases "Size (Spec ais)")
         (auto simp: validateSize_def Let_def GetTargetSize_def IsTargetAutoScaling_def split: if_splits)
  next
    case (Some n)
    with assms that show ?thesis
      by (auto simp: validateSize_def Let_def GetTargetSize_def split: if_splits)
  qed
qed

text \<open>The modes of the state storage, after the legacy fields are resolved.\<close>

definition storage_modes :: "AIStoreSpec \<Rightarrow> nat" where
  "storage_modes s = of_bool (UsesStatePVC s) + of_bool (UsesStateHostPath s) + of_bool (UsesStateEmptyDir s)"

lemma valid_storage_one_mode:
  "snd (validateStateStorage ais) = None \<longleftrightarrow> storage_modes (Spec ais) = 1"
  by (auto simp: validateStateStorage_def Let_def storage_modes_def UsesStatePVC_def UsesStateHostPath_def
      UsesStateEmptyDir_def StateStoragePVCStorageClass_def StateStorageHostPathPrefix_def
      hasExactlyOneStateStorageMode_def split: option.splits if_splits)

end
