(* ===== verification/Cluster_Controller.thy ===== *)
theory Cluster_Controller
  imports Cluster_Cleanup Admin_Client Nodes Validation
begin

text \<open>
  The reconcile loop of an AIStore cluster: one call of \<open>Reconcile\<close>, from reading the CR to the
  result handed back to the controller runtime
  (\<^verbatim>\<open>operator/internal/controller/aistore/cluster_controller.go\<close>).
\<close>

definition aisFinalizer :: string where "aisFinalizer = ''finalize.ais''"
definition aisShutdownRequeueDelay :: nat where "aisShutdownRequeueDelay = 5"
definition aisReadinessRequeueDelay :: nat where "aisReadinessRequeueDelay = 3"
definition cleanupJobDelay :: nat where "cleanupJobDelay = 5"
definition externalSvcDelay :: nat where "externalSvcDelay = 2"

section \<open>Initialising and finalising\<close>

text \<open>\<open>controllerutil.ContainsFinalizer\<close>, \<open>AddFinalizer\<close>, \<open>RemoveFinalizer\<close>.\<close>

definition ContainsFinalizer :: "AIStore \<Rightarrow> bool" where
  "ContainsFinalizer ais = (aisFinalizer \<in> set (Finalizers ais))"

definition initializeCR :: "unit op" where
  "initializeCR = bind getCR (\<lambda>ais.
     bind (if \<not> ContainsFinalizer ais
           then bind (changeCR (\<lambda>a. a\<lparr>Finalizers := Finalizers a @ [aisFinalizer]\<rparr>)) (\<lambda>_. patchCR ais)
           else ret ()) (\<lambda>_.
     bind (changeCR (\<lambda>a. SetCondition a ConditionInitialized)) (\<lambda>_.
     updateStatusWithState ClusterInitialized)))"

definition finalize :: "Result op" where
  "finalize = bind getCR (\<lambda>original.
     if \<not> ContainsFinalizer original then ret done_result
     else bind (changeCR (\<lambda>a. a\<lparr>Finalizers := removeAll aisFinalizer (Finalizers a)\<rparr>)) (\<lambda>_.
          bind (or_record (PatchCRIfExists original) ''Failed to update instance'') (\<lambda>_.
          ret done_result)))"

section \<open>Shutting down\<close>

definition shutdownCluster :: "Result op" where
  "shutdownCluster = bind getCR (\<lambda>ais.
     bind (UpdateStatefulSetReplicas (proxy_StatefulSetNSName ais) 0) (\<lambda>_.
     bind (IsStatefulSetSize (proxy_StatefulSetNSName ais) 0) (\<lambda>proxyFinished.
     if \<not> proxyFinished then ret (after_seconds aisShutdownRequeueDelay)
     else bind (UpdateStatefulSetReplicas (target_StatefulSetNSName ais) 0) (\<lambda>_.
          bind (IsStatefulSetSize (target_StatefulSetNSName ais) 0) (\<lambda>targetFinished.
          if \<not> targetFinished then ret (after_seconds aisShutdownRequeueDelay)
          else bind (updateStatusWithState ClusterShutdown) (\<lambda>_.
               bind (Eventf ''ShutdownCompleted'' ''FinishShutdown'' ''Shutdown completed'') (\<lambda>_.
               ret done_result)))))))"

section \<open>Decommissioning and cleaning up\<close>

text \<open>A StatefulSet whose state cannot be read counts as ready.\<close>

definition ssHasReadyReplicas :: "NamespacedName \<Rightarrow> bool op" where
  "ssHasReadyReplicas name = bind (attempt (getSS name)) (\<lambda>r. case r of
     Inl e \<Rightarrow> ret (\<not> IsNotFound e) | Inr ss \<Rightarrow> ret (st_ReadyReplicas ss > 0))"

definition isClusterRunning :: "bool op" where
  "isClusterRunning = bind getCR (\<lambda>ais.
     bind (ssHasReadyReplicas (target_StatefulSetNSName ais)) (\<lambda>t.
     if t then ssHasReadyReplicas (proxy_StatefulSetNSName ais) else ret False))"

definition attemptGracefulDecommission :: "unit op" where
  "attemptGracefulDecommission = bind getCR (\<lambda>ais.
     let cleanupData = (CleanupData (Spec ais) = Some True) in
     bind (act GetClient) (\<lambda>_. act (DecommissionClusterAPI cleanupData)))"

definition attemptGracefulShutdown :: "unit op" where
  "attemptGracefulShutdown = bind (act GetClient) (\<lambda>_. act ShutdownClusterAPI)"

definition decommissionAIS :: "unit op" where
  "decommissionAIS = bind getCR (\<lambda>ais.
     if ShouldCleanupMetadata ais then attemptGracefulDecommission else attemptGracefulShutdown)"

definition decommissionCluster :: "Result op" where
  "decommissionCluster = bind isClusterRunning (\<lambda>running.
     if running then bind (attempt decommissionAIS) (\<lambda>_. ret (after_seconds 10))
     else bind (updateStatusWithState ClusterCleanup) (\<lambda>_.
          bind (Eventf ''DecommissionCompleted'' ''Delete'' ''Decommission completed'') (\<lambda>_.
          ret done_result)))"

definition cleanupClusterRes :: "Result op" where
  "cleanupClusterRes = bind getCR (\<lambda>ais.
     if \<not> ContainsFinalizer ais then ret done_result
     else bind (or_record cleanup ''Failed to cleanup AIS Resources'') (\<lambda>updated.
          if updated then ret (after_seconds 10)
          else bind (updateStatusWithState HostCleanup) (\<lambda>_. ret done_result)))"

definition cleanupHost :: "Result op" where
  "cleanupHost = bind getCR (\<lambda>ais.
     bind (listCleanupJobs (Namespace ais)) (\<lambda>jobs.
     bind (deleteFinishedJobs jobs) (\<lambda>remainingJobs.
     if remainingJobs \<noteq> [] then ret (after_seconds cleanupJobDelay)
     else bind (updateStatusWithState ClusterFinalized) (\<lambda>_. ret done_result))))"

section \<open>Resources\<close>

definition createOrUpdateRBACResources :: "unit op" where
  "createOrUpdateRBACResources = bind getCR (\<lambda>ais.
     bind (or_record (act (Apply (AISServiceAccount ais))) ''Failed to create ServiceAccount'') (\<lambda>_.
     bind (or_record (act (Apply (AISRole ais))) ''Failed to create Role'') (\<lambda>_.
     or_record (act (Apply (AISRoleBinding ais))) ''Failed to create RoleBinding'')))"

definition reconcileTLSCertificate :: "unit op" where
  "reconcileTLSCertificate = bind getCR (\<lambda>ais.
     if UseTLSCertificate ais
     then bind discoverPublicNetHosts (\<lambda>publicHosts. act (Apply (TLSCertificateFor ais publicHosts)))
     else bind (DeleteResourceIfExists KCertificate (CertificateNSName ais)) (\<lambda>_. ret ()))"

definition reconcileResources :: "unit op" where
  "reconcileResources = bind (asks lib) (\<lambda>L. bind getCR (\<lambda>ais.
     bind (or_record (case snd (ValidateSpec L ais) of None \<Rightarrow> ret () | Some e \<Rightarrow> throw e)
       ''Failed to validate AIStore spec'') (\<lambda>_.
     bind (or_record (of_sum (NewGlobalCM L ais)) ''Failed to construct global config'') (\<lambda>_.
     bind (or_record createOrUpdateRBACResources ''Failed to create/update RBAC resources'') (\<lambda>_.
     bind (or_record reconcileTLSCertificate ''Failed to reconcile TLS certificate'') (\<lambda>_.
     bind (or_record (act (Apply (GlobalCM ais))) ''Failed to deploy global cluster ConfigMap'') (\<lambda>_.
     or_record reconcileAdminClient ''Failed to reconcile admin client'')))))))"

definition reconcileDeprecatedStatsDCM :: "unit op" where
  "reconcileDeprecatedStatsDCM = bind getCR (\<lambda>ais.
     let cmName = statsd_ConfigMapNSName ais in
     bind (attempt (getConfigMapOwner cmName)) (\<lambda>r. case r of
       Inl e \<Rightarrow> if \<not> IsNotFound e then throw e else ret ()
     | Inr owner \<Rightarrow> if owner \<noteq> Some (UID ais) then ret ()
         else bind (DeleteConfigMapIfExists cmName) (\<lambda>_. ret ())))"

section \<open>External access\<close>

definition createExternalServices :: "unit op" where
  "createExternalServices = bind getCR (\<lambda>ais.
     bind (if ProxyExternalAccessEnabled ais then createProxyExternalService else ret ()) (\<lambda>_.
     if TargetExternalAccessEnabled ais then createTargetExternalServices else ret ()))"

definition waitForExternalSvcReady :: "bool op" where
  "waitForExternalSvcReady = bind getCR (\<lambda>ais.
     bind (if ProxyExternalAccessEnabled ais then proxyExternalSvcReady else ret True) (\<lambda>p.
     if \<not> p then ret False
     else if TargetExternalAccessEnabled ais then targetExternalSvcReady else ret True))"

definition reconcileExternalAccess :: "Result op" where
  "reconcileExternalAccess = bind getCR (\<lambda>ais.
     if \<not> ProxyExternalAccessEnabled ais \<and> \<not> TargetExternalAccessEnabled ais then ret done_result
     else bind (or_record createExternalServices ''Failed to create external services'') (\<lambda>_.
          bind waitForExternalSvcReady (\<lambda>ready.
          if ready then ret done_result
          else bind (if \<not> HasState ais ClusterInitializingLBService \<and> \<not> HasState ais ClusterPendingLBService
                     then bind (updateStatusWithState ClusterInitializingLBService) (\<lambda>_.
                          Eventf ''Initialized'' ''InitExternalService''
                            ''Successfully initialized external services'')
                     else updateStatusWithState ClusterPendingLBService) (\<lambda>_.
               ret (after_seconds externalSvcDelay)))))"

definition ensurePrereqs :: "Result op" where
  "ensurePrereqs =
     bind reconcileResources (\<lambda>_.
     bind reconcileExternalAccess (\<lambda>result.
     if \<not> IsZero result then ret result
     else bind ensureProxyPrereqs (\<lambda>_. bind ensureTargetPrereqs (\<lambda>_. ret result))))"

section \<open>Bootstrapping and following the spec\<close>

definition bootstrapNew :: "Result op" where
  "bootstrapNew =
     bind (or_record initProxies ''Failed to create Proxy resources'') (\<lambda>result.
     if \<not> IsZero result then ret result
     else bind (or_record initTargets ''Failed to create Target resources'') (\<lambda>result.
          if \<not> IsZero result then ret result
          else bind (changeCR (\<lambda>a. SetCondition a ConditionCreated)) (\<lambda>_.
               bind (updateStatusWithState ClusterCreated) (\<lambda>_.
               bind (Eventf ''Created'' ''Create'' ''Successfully created AIS cluster'') (\<lambda>_.
               ret result)))))"

definition updateStatusAndRequeue :: "Result \<Rightarrow> Result op" where
  "updateStatusAndRequeue result = bind getCR (\<lambda>ais.
     if \<not> IsConditionTrue ais ConditionReady then ret result
     else bind (changeCR (\<lambda>a. SetConditionFalse a ConditionReady ReasonUpgrading
                 ''Waiting for cluster to upgrade'')) (\<lambda>_.
          bind (updateStatusWithState ClusterUpgrading) (\<lambda>_. ret result)))"

definition handleCREvents :: "Result op" where
  "handleCREvents =
     bind handleProxyState (\<lambda>res.
     if \<not> IsZero res then updateStatusAndRequeue res
     else bind handleTargetState (\<lambda>res.
     if \<not> IsZero res then updateStatusAndRequeue res
     else bind checkAISClusterReady (\<lambda>ready.
     if \<not> ready then updateStatusAndRequeue (after_seconds aisReadinessRequeueDelay)
     else bind enableRebalanceCondition (\<lambda>_.
          bind (handleConfigState False) (\<lambda>_.
          bind handleSuccessfulReconcile (\<lambda>_. ret done_result))))))"

section \<open>One reconcile\<close>

text \<open>The steps before the switch on the state.\<close>

definition reconcile_prepare :: "unit op" where
  "reconcile_prepare =
     bind getCR (\<lambda>ais. bind (if HasState ais ClusterNone then initializeCR else ret ()) (\<lambda>_.
     bind getCR (\<lambda>ais. bind (if IsTargetAutoScaling ais \<or> IsProxyAutoScaling ais
                             then determineAutoScaleStatus else ret ()) (\<lambda>_.
     bind getCR (\<lambda>ais. bind (if ShouldDecommission ais
       then bind (updateStatusWithState ClusterDecommissioning) (\<lambda>_.
            Eventf ''CRDeleted'' ''Decommissioning'' ''Decommissioning...'') else ret ()) (\<lambda>_.
     bind getCR (\<lambda>ais. if ShouldStartShutdown ais
       then bind (disableRebalance ReasonShutdown ''Disabling rebalance before shutdown'') (\<lambda>_.
            bind (updateStatusWithState ClusterShuttingDown) (\<lambda>_.
            Eventf ''CRUpdated'' ''StartShutdown'' ''Shutting down...''))
       else ret ())))))))"

text \<open>What follows the switch: the cluster should be running.\<close>

definition reconcile_running :: "Result op" where
  "reconcile_running =
     bind ensurePrereqs (\<lambda>result.
     if \<not> IsZero result then ret result
     else bind getCR (\<lambda>ais.
          bind (if IntraClusterURLStatus (Status ais) = [] then updateIntraClusterURLStatus else ret ()) (\<lambda>_.
          bind getCR (\<lambda>ais.
          if \<not> IsConditionTrue ais ConditionCreated then bootstrapNew
          else bind handleCREvents (\<lambda>res.
               if \<not> IsZero res then ret res
               else bind (or_record reconcileDeprecatedStatsDCM
                           ''Failed to reconcile deletion of StatsD ConfigMap'') (\<lambda>_.
                    ret done_result))))))"

definition reconcile_state :: "Result op" where
  "reconcile_state = bind getCR (\<lambda>ais. case State (Status ais) of
       ClusterShuttingDown \<Rightarrow>
         if \<not> ShouldBeShutdown ais
         then bind (updateStatusWithState ClusterUpgrading) (\<lambda>_. ret done_result)
         else shutdownCluster
     | ClusterShutdown \<Rightarrow> if ShouldBeShutdown ais then ret done_result else reconcile_running
     | ClusterDecommissioning \<Rightarrow> decommissionCluster
     | ClusterCleanup \<Rightarrow> cleanupClusterRes
     | HostCleanup \<Rightarrow> cleanupHost
     | ClusterFinalized \<Rightarrow> finalize
     | _ \<Rightarrow> reconcile_running)"

definition Reconcile :: "NamespacedName \<Rightarrow> Result op" where
  "Reconcile req =
     bind (attempt (call (\<lambda>E h. ans_ais E h req) (GotAIS req))) (\<lambda>r. case r of
       Inl e \<Rightarrow> if IsNotFound e then ret done_result else throw e
     | Inr ais \<Rightarrow>
         bind (changeCR (\<lambda>_. ais)) (\<lambda>_. bind reconcile_prepare (\<lambda>_. reconcile_state)))"

end
