(* ===== verification/Lifecycle.thy ===== *)
theory Lifecycle
  imports Cluster_Controller
begin

text \<open>
  The life of a cluster as the reconcile loop is meant to lead it: an abstract state machine
  over the CR's state, the protocol that ties destructive calls to the machine's states, and
  the proof that \<open>Reconcile\<close> follows it in every environment whose status subresource behaves
  as documented.
\<close>

section \<open>The state machine\<close>

abbreviation phase :: "AIStore \<Rightarrow> ClusterState" where
  "phase ais \<equiv> State (Status ais)"

definition running_states :: "ClusterState set" where
  "running_states = {ClusterInitialized, ClusterCreated, ClusterReady, ClusterInitializingLBService,
     ClusterPendingLBService, ClusterUpgrading, ClusterShutdown}"

definition running_targets :: "ClusterState set" where
  "running_targets = {ClusterCreated, ClusterReady, ClusterInitializingLBService,
     ClusterPendingLBService, ClusterUpgrading}"

text \<open>
  \<open>lifecycle_step ais t\<close>: with the CR last seen as \<open>ais\<close>, its state may be set to \<open>t\<close>.
\<close>

inductive lifecycle_step :: "AIStore \<Rightarrow> ClusterState \<Rightarrow> bool" where
  stay: "phase ais = t \<Longrightarrow> lifecycle_step ais t"
| initialize: "phase ais = ClusterNone \<Longrightarrow> lifecycle_step ais ClusterInitialized"
| run: "phase ais \<in> running_states \<Longrightarrow> t \<in> running_targets \<Longrightarrow> lifecycle_step ais t"
| start_shutdown: "phase ais = ClusterReady \<Longrightarrow> lifecycle_step ais ClusterShuttingDown"
| abort_shutdown: "phase ais = ClusterShuttingDown \<Longrightarrow> \<not> ShouldBeShutdown ais \<Longrightarrow>
    lifecycle_step ais ClusterUpgrading"
| finish_shutdown: "phase ais = ClusterShuttingDown \<Longrightarrow> ShouldBeShutdown ais \<Longrightarrow>
    lifecycle_step ais ClusterShutdown"
| decommission: "phase ais \<in> insert ClusterShuttingDown running_states \<Longrightarrow> Deleted ais \<Longrightarrow>
    lifecycle_step ais ClusterDecommissioning"
| drained: "phase ais = ClusterDecommissioning \<Longrightarrow> lifecycle_step ais ClusterCleanup"
| cleaned: "phase ais = ClusterCleanup \<Longrightarrow> lifecycle_step ais HostCleanup"
| host_cleaned: "phase ais = HostCleanup \<Longrightarrow> lifecycle_step ais ClusterFinalized"

inductive_cases lifecycle_stepE: "lifecycle_step ais t"

section \<open>The order of the states\<close>

text \<open>
  The states in the order the API type lists them: the teardown states come last, in the order
  a teardown goes through them.
\<close>

fun state_index :: "ClusterState \<Rightarrow> nat" where
  "state_index ClusterNone = 0"
| "state_index ClusterInitialized = 1"
| "state_index ClusterCreated = 2"
| "state_index ClusterReady = 3"
| "state_index ClusterInitializingLBService = 4"
| "state_index ClusterPendingLBService = 5"
| "state_index ClusterUpgrading = 6"
| "state_index ClusterShuttingDown = 7"
| "state_index ClusterShutdown = 8"
| "state_index ClusterDecommissioning = 9"
| "state_index ClusterCleanup = 10"
| "state_index HostCleanup = 11"
| "state_index ClusterFinalized = 12"

lemma state_index_inj: "state_index s = state_index t \<Longrightarrow> s = t"
  by (cases s; cases t) simp_all

instantiation ClusterState :: linorder
begin

definition less_eq_ClusterState :: "ClusterState \<Rightarrow> ClusterState \<Rightarrow> bool" where
  "less_eq_ClusterState s t = (state_index s \<le> state_index t)"

definition less_ClusterState :: "ClusterState \<Rightarrow> ClusterState \<Rightarrow> bool" where
  "less_ClusterState s t = (state_index s < state_index t)"

instance
  by standard (auto simp: less_eq_ClusterState_def less_ClusterState_def dest: state_index_inj)

end

lemma running_before_teardown: "t \<in> insert ClusterShuttingDown running_states \<Longrightarrow> t < ClusterDecommissioning"
  by (auto simp: running_states_def less_ClusterState_def)

lemma running_targets_running: "t \<in> running_targets \<Longrightarrow> t \<in> running_states"
  by (auto simp: running_targets_def running_states_def)

lemma teardown_states: "IsDecommissioningOrCleaning ais \<longleftrightarrow> ClusterDecommissioning \<le> phase ais"
  by (cases "phase ais") (simp_all add: IsDecommissioningOrCleaning_def HasState_def less_eq_ClusterState_def)

lemma lifecycle_teardown_monotone:
  assumes "lifecycle_step ais t" and "ClusterDecommissioning \<le> phase ais"
  shows "phase ais \<le> t"
  using assms
  by (elim lifecycle_stepE) (auto simp: less_eq_ClusterState_def running_states_def)

section \<open>What the operator last saw of the CR\<close>

text \<open>
  The object behind the newest answer that carried the CR. After a failed status patch the
  operator's own object counts: it keeps the state it tried to write.
\<close>

fun known :: "history \<Rightarrow> AIStore option" where
  "known [] = None"
| "known (e # h) = (case e of
     PatchedStatus a r \<Rightarrow> Some (case r of Inl _ \<Rightarrow> a | Inr b \<Rightarrow> b)
   | PatchedAIS orig a r \<Rightarrow> (case r of Inl _ \<Rightarrow> known h | Inr b \<Rightarrow> Some b)
   | GotAIS n r \<Rightarrow> (case r of Inl _ \<Rightarrow> known h | Inr b \<Rightarrow> Some b)
   | _ \<Rightarrow> known h)"

definition agree :: "AIStore \<Rightarrow> AIStore \<Rightarrow> bool" where
  "agree a b \<longleftrightarrow> phase a = phase b \<and> Spec a = Spec b \<and> Deleted a = Deleted b"

lemma agree_refl [simp]: "agree a a"
  by (simp add: agree_def)

lemma agree_ShouldBeShutdown: "agree a b \<Longrightarrow> ShouldBeShutdown a = ShouldBeShutdown b"
  by (simp add: agree_def ShouldBeShutdown_def)

lemma agree_ShouldCleanupMetadata: "agree a b \<Longrightarrow> ShouldCleanupMetadata a = ShouldCleanupMetadata b"
  by (simp add: agree_def ShouldCleanupMetadata_def)

lemma agree_step:
  assumes "agree a b" and "lifecycle_step b t"
  shows "lifecycle_step a t"
proof -
  from assms(1) have "phase b = phase a" "Deleted b = Deleted a" "ShouldBeShutdown b = ShouldBeShutdown a"
    by (auto simp: agree_def ShouldBeShutdown_def)
  with assms(2) show ?thesis
    by (elim lifecycle_stepE) (auto intro: lifecycle_step.intros)
qed

section \<open>The protocol\<close>

definition delete_ok :: "AIStore \<Rightarrow> kind \<Rightarrow> bool" where
  "delete_ok k kd \<longleftrightarrow>
     (kd \<in> {KStatefulSet, KRole, KRoleBinding, KServiceAccount} \<longrightarrow> phase k = ClusterCleanup) \<and>
     (kd = KPVC \<longrightarrow> phase k = ClusterCleanup \<and> ShouldCleanupMetadata k) \<and>
     (kd = KPod \<longrightarrow> phase k \<in> running_states) \<and>
     (kd = KJob \<longrightarrow> phase k = HostCleanup)"

fun action_ok :: "AIStore \<Rightarrow> action \<Rightarrow> bool" where
  "action_ok k (Delete kd n) = delete_ok k kd"
| "action_ok k (DecommissionClusterAPI rm) =
     (phase k = ClusterDecommissioning \<and> ShouldCleanupMetadata k \<and> rm = (CleanupData (Spec k) = Some True))"
| "action_ok k ShutdownClusterAPI = (phase k = ClusterDecommissioning \<and> \<not> ShouldCleanupMetadata k)"
| "action_ok k (DecommissionNode n rm) = (phase k \<in> running_states)"
| "action_ok k (StartMaintenance n sr) = (phase k \<in> running_states)"
| "action_ok k _ = True"

fun event_ok :: "AIStore \<Rightarrow> event \<Rightarrow> bool" where
  "event_ok k (PatchedStatus a r) =
     (lifecycle_step k (phase a) \<and> (case r of Inl _ \<Rightarrow> True | Inr b \<Rightarrow> phase b = phase a))"
| "event_ok k (PatchedAIS orig a r) =
     (phase a = phase k \<and> (case r of Inl _ \<Rightarrow> True | Inr b \<Rightarrow> phase b = phase a) \<and>
      (aisFinalizer \<in> set (Finalizers orig) \<and> aisFinalizer \<notin> set (Finalizers a)
        \<longrightarrow> phase k = ClusterFinalized))"
| "event_ok k (Did a r) = action_ok k a"
| "event_ok k _ = True"

text \<open>The calls that depend on the state, and so on having read the CR.\<close>

definition guarded_classes :: "call_class set" where
  "guarded_classes = {CPatchStatus, CPatchAIS, CDecommCluster, CShutdownAPI, CDecommNode, CMaintenance,
     CDelete KStatefulSet, CDelete KRole, CDelete KRoleBinding, CDelete KServiceAccount,
     CDelete KPVC, CDelete KPod, CDelete KJob}"

definition life_ok :: "event \<Rightarrow> history \<Rightarrow> bool" where
  "life_ok e h \<longleftrightarrow> (class_of e \<in> guarded_classes \<longrightarrow> (\<exists>k. known h = Some k \<and> event_ok k e))"

text \<open>The local object agrees with what was last seen of it, and satisfies \<open>P\<close>.\<close>

definition at :: "(AIStore \<Rightarrow> bool) \<Rightarrow> st \<Rightarrow> bool" where
  "at P s \<longleftrightarrow> P (cr s) \<and> (\<exists>k. known (hist s) = Some k \<and> agree k (cr s))"

abbreviation "within R \<equiv> at (\<lambda>a. phase a \<in> R)"

text \<open>
  The status of the CR is a subresource: a patch of the status answers with the state that was
  patched, a patch of the object leaves the state alone.
\<close>

definition status_subresource :: "env \<Rightarrow> bool" where
  "status_subresource E \<longleftrightarrow>
     (\<forall>h a b. ans_patch_status E h a = Inr b \<longrightarrow> phase b = phase a) \<and>
     (\<forall>h orig a b. ans_patch_ais E h orig a = Inr b \<longrightarrow> phase b = phase a)"

lemma known_other: "class_of e \<notin> {CPatchStatus, CPatchAIS, CReadCR} \<Longrightarrow> known (e # h) = known h"
  by (cases e) auto

lemma at_other:
  "at P s \<Longrightarrow> class_of e \<notin> {CPatchStatus, CPatchAIS, CReadCR} \<Longrightarrow> at P (s\<lparr>hist := e # hist s\<rparr>)"
  using known_other [of e "hist s"] by (simp add: at_def)

lemma at_mono: "at P s \<Longrightarrow> (\<And>a. P a \<Longrightarrow> Q a) \<Longrightarrow> at Q s"
  by (auto simp: at_def)

lemma life_ok_event [simp]: "life_ok (Did (RecordEvent r a n) x) h"
  by (simp add: life_ok_def guarded_classes_def)

section \<open>Classes of calls that are always fine, or fine in some states\<close>

definition quiet_classes :: "call_class set" where
  "quiet_classes = - insert CReadCR guarded_classes"

interpretation quiet: protocol quiet_classes "at P" life_ok for P
proof
  show "quiet_classes \<inter> cr_classes = {}"
    by (auto simp: quiet_classes_def guarded_classes_def cr_classes_def)
  show "life_ok e (hist s)" if "class_of e \<in> quiet_classes" for e s
    using that by (simp add: life_ok_def quiet_classes_def)
  show "at P (s\<lparr>hist := e # hist s\<rparr>)" if "class_of e \<in> quiet_classes" "at P s" for e s
    using that by (auto intro: at_other simp: quiet_classes_def guarded_classes_def)
qed

definition live_classes :: "call_class set" where
  "live_classes = quiet_classes \<union> {CDecommNode, CMaintenance, CDelete KPod}"

lemma class_of_live:
  "class_of e \<in> {CDecommNode, CMaintenance, CDelete KPod} \<Longrightarrow> phase k \<in> running_states \<Longrightarrow> event_ok k e"
  by (cases e; simp) (rename_tac a r, case_tac a; simp add: delete_ok_def)

interpretation live: protocol live_classes "within running_states" life_ok
proof
  show "live_classes \<inter> cr_classes = {}"
    by (auto simp: live_classes_def quiet_classes_def guarded_classes_def cr_classes_def)
next
  fix e s
  assume c: "class_of e \<in> live_classes" and s: "within running_states s"
  from s obtain k where k: "known (hist s) = Some k" "phase k \<in> running_states"
    by (auto simp: at_def agree_def)
  show "life_ok e (hist s)"
  proof (cases "class_of e \<in> quiet_classes")
    case True
    then show ?thesis by (rule quiet.call_ok) (rule s)
  next
    case False
    with c have "class_of e \<in> {CDecommNode, CMaintenance, CDelete KPod}"
      by (simp add: live_classes_def)
    with k show ?thesis using class_of_live by (auto simp: life_ok_def)
  qed
  show "within running_states (s\<lparr>hist := e # hist s\<rparr>)"
    using c s by (intro at_other) (auto simp: live_classes_def quiet_classes_def guarded_classes_def)
qed

end
