(* ===== verification/Reconcile_Lifecycle.thy ===== *)
theory Reconcile_Lifecycle
  imports Lifecycle
begin

text \<open>
  \<open>Reconcile\<close> follows the lifecycle protocol. The functions of a running cluster keep the state
  within the running states and are treated by their parts; the functions that move the
  state have a Hoare triple each.
\<close>

named_theorems life_intros \<open>parts that follow the protocol while the cluster is running\<close>

abbreviation follows :: "env \<Rightarrow> 'a op \<Rightarrow> bool" where
  "follows E m \<equiv> steps E (under (within running_states) life_ok) m"

lemmas [life_intros] = under.steps_base steps_intros

section \<open>The writers of the CR\<close>

lemma run_patchStatus:
  "patchStatus E s = (case ans_patch_status E (hist s) (cr s) of
     Inl e \<Rightarrow> (Err e, s\<lparr>hist := Did (RecordEvent ''Failed'' ''Reconciled'' ''Failed to patch CR status'') None
                  # PatchedStatus (cr s) (Inl e) # hist s\<rparr>)
   | Inr b \<Rightarrow> (Ret (), s\<lparr>cr := b, hist := PatchedStatus (cr s) (Inr b) # hist s\<rparr>))"
  by (simp add: patchStatus_def or_record_def recordError_def run_simps split: sum.split)

lemma life_ok_status:
  "known h = Some k \<Longrightarrow> agree k a0 \<Longrightarrow> lifecycle_step a0 (phase a) \<Longrightarrow>
     (\<forall>b. r = Inr b \<longrightarrow> phase b = phase a) \<Longrightarrow> life_ok (PatchedStatus a r) h"
  by (auto simp: life_ok_def intro: agree_step split: sum.split)

text \<open>A status patch of an object whose state changed at most by a lifecycle step.\<close>

lemma runs_change_and_patch:
  assumes "status_subresource E" and "\<And>a. P a \<Longrightarrow> lifecycle_step a (phase (f a)) \<and> phase (f a) = t"
  shows "runs E life_ok (at P) (bind (changeCR f) (\<lambda>_. patchStatus)) (\<lambda>_. within {t})"
  unfolding runs_def
proof (intro allI impI)
  fix s r s'
  assume s: "at P s" and run: "bind (changeCR f) (\<lambda>_. patchStatus) E s = (r, s')"
  let ?a = "f (cr s)" and ?h = "hist s"
  from s obtain k where k: "known ?h = Some k" "agree k (cr s)" and P: "P (cr s)"
    by (auto simp: at_def)
  from assms(2) [OF P] have step: "lifecycle_step (cr s) (phase ?a)" and t: "phase ?a = t" by auto
  have ok: "life_ok (PatchedStatus ?a x) ?h" if "\<forall>b. x = Inr b \<longrightarrow> phase b = phase ?a" for x
    using life_ok_status [OF k step that] .
  show "(\<exists>new. hist s' = new @ hist s \<and> allowed life_ok new (hist s)) \<and> (\<forall>a. r = Ret a \<longrightarrow> within {t} s')"
  proof (cases "ans_patch_status E ?h ?a")
    case (Inl e)
    with run have "hist s' = [Did (RecordEvent ''Failed'' ''Reconciled'' ''Failed to patch CR status'') None,
        PatchedStatus ?a (Inl e)] @ ?h" and r: "r = Err e"
      by (auto simp: run_simps run_patchStatus)
    moreover have "allowed life_ok [Did (RecordEvent ''Failed'' ''Reconciled'' ''Failed to patch CR status'') None,
        PatchedStatus ?a (Inl e)] ?h" using ok by simp
    ultimately show ?thesis by blast
  next
    case (Inr b)
    with run have s': "s' = s\<lparr>cr := b, hist := PatchedStatus ?a (Inr b) # ?h\<rparr>"
      by (auto simp: run_simps run_patchStatus)
    from assms(1) Inr have b: "phase b = phase ?a" by (auto simp: status_subresource_def)
    with t have "within {t} s'" by (simp add: s' at_def)
    moreover have "hist s' = [PatchedStatus ?a (Inr b)] @ ?h" "allowed life_ok [PatchedStatus ?a (Inr b)] ?h"
      using ok b by (simp_all add: s')
    ultimately show ?thesis by blast
  qed
qed

lemma runs_updateStatusWithState:
  assumes "status_subresource E" and "\<And>a. P a \<Longrightarrow> lifecycle_step a t"
  shows "runs E life_ok (at P) (updateStatusWithState t) (\<lambda>_. within {t})"
  unfolding updateStatusWithState_def
  by (rule runs_change_and_patch) (use assms in simp_all)

text \<open>The same for any way to end, in a set of states closed under the step.\<close>

lemma follows_change_and_patch:
  assumes "status_subresource E"
    and "\<And>a. phase a \<in> R \<Longrightarrow> lifecycle_step a (phase (f a)) \<and> phase (f a) \<in> R"
  shows "steps E (under (within R) life_ok) (bind (changeCR f) (\<lambda>_. patchStatus))"
  unfolding steps_def under_def
proof (intro allI impI)
  fix s
  let ?a = "f (cr s)" and ?h = "hist s" and ?s' = "snd (bind (changeCR f) (\<lambda>_. patchStatus) E s)"
  assume s: "within R s"
  from s obtain k where k: "known ?h = Some k" "agree k (cr s)" and P: "phase (cr s) \<in> R"
    by (auto simp: at_def)
  from assms(2) [OF P] have step: "lifecycle_step (cr s) (phase ?a)" and R: "phase ?a \<in> R" by auto
  have ok: "life_ok (PatchedStatus ?a x) ?h" if "\<forall>b. x = Inr b \<longrightarrow> phase b = phase ?a" for x
    using life_ok_status [OF k step that] .
  show "within R ?s' \<and> (\<exists>new. hist ?s' = new @ hist s \<and> allowed life_ok new (hist s))"
  proof (cases "ans_patch_status E ?h ?a")
    case (Inl e)
    let ?new = "[Did (RecordEvent ''Failed'' ''Reconciled'' ''Failed to patch CR status'') None,
        PatchedStatus ?a (Inl e)]"
    from Inl have s': "?s' = s\<lparr>cr := ?a, hist := ?new @ ?h\<rparr>"
      by (simp add: run_simps run_patchStatus)
    have "within R ?s'" using R by (simp add: s' at_def)
    moreover have "hist ?s' = ?new @ ?h" "allowed life_ok ?new ?h" using ok by (simp_all add: s')
    ultimately show ?thesis by blast
  next
    case (Inr b)
    then have s': "?s' = s\<lparr>cr := b, hist := PatchedStatus ?a (Inr b) # ?h\<rparr>"
      by (simp add: run_simps run_patchStatus)
    from assms(1) Inr have b: "phase b = phase ?a" by (auto simp: status_subresource_def)
    with R have "within R ?s'" by (simp add: s' at_def)
    moreover have "hist ?s' = [PatchedStatus ?a (Inr b)] @ ?h" "allowed life_ok [PatchedStatus ?a (Inr b)] ?h"
      using ok b by (simp_all add: s')
    ultimately show ?thesis by blast
  qed
qed

lemma changeCR_id: "bind (changeCR (\<lambda>a. a)) (\<lambda>_. m) = m"
  by (auto simp: fun_eq_iff run_simps)

lemma follows_patchStatus:
  "status_subresource E \<Longrightarrow> steps E (under (within R) life_ok) patchStatus"
  using follows_change_and_patch [of E R "\<lambda>a. a"] by (simp add: changeCR_id stay)

lemma follows_updateStatusWithState:
  assumes "status_subresource E" and "t \<in> running_targets"
  shows "follows E (updateStatusWithState t)"
  unfolding updateStatusWithState_def
  by (rule follows_change_and_patch)
     (use assms in \<open>auto intro: run running_targets_running\<close>)

lemma follows_changeCR:
  "(\<And>a. agree a (f a)) \<Longrightarrow> steps E (under (within R) life_ok) (changeCR f)"
  by (auto simp: steps_def under_def run_simps at_def agree_def)

lemma runs_changeCR:
  "(\<And>a. P a \<Longrightarrow> Q (f a) \<and> agree a (f a)) \<Longrightarrow> runs E G (at P) (changeCR f) (\<lambda>_. at Q)"
  by (auto simp: runs_def run_simps at_def agree_def)

lemma runs_getCR:
  assumes "\<And>a. P a \<Longrightarrow> runs E G (at (\<lambda>x. x = a)) (f a) Q"
  shows "runs E G (at P) (bind getCR f) Q"
  unfolding runs_def
proof (intro allI impI)
  fix s r s'
  assume s: "at P s" and run: "bind getCR f E s = (r, s')"
  from s have P: "P (cr s)" and at: "at (\<lambda>x. x = cr s) s" by (auto simp: at_def)
  from run have "f (cr s) E s = (r, s')" by (simp add: run_simps)
  with assms [OF P] at show
    "(\<exists>new. hist s' = new @ hist s \<and> allowed G new (hist s)) \<and> (\<forall>a. r = Ret a \<longrightarrow> Q a s')"
    unfolding runs_def by simp
qed

text \<open>A function that leaves the CR alone may use the CR it reads.\<close>

lemma under_getCR:
  assumes "\<And>a. P a \<Longrightarrow> steps E (under (at (\<lambda>x. x = a)) G) (f a)"
  shows "steps E (under (at P) G) (bind getCR f)"
  unfolding steps_def under_def
proof (intro allI impI)
  fix s
  assume s: "at P s"
  then have P: "P (cr s)" and at: "at (\<lambda>x. x = cr s) s" by (auto simp: at_def)
  have eq: "bind getCR f E s = f (cr s) E s" by (simp add: run_simps)
  from assms [OF P, unfolded steps_def under_def, rule_format, OF at]
  have "at (\<lambda>x. x = cr s) (snd (f (cr s) E s))"
    and h: "\<exists>new. hist (snd (f (cr s) E s)) = new @ hist s \<and> allowed G new (hist s)" by auto
  then have "at P (snd (f (cr s) E s))" using P by (auto simp: at_def)
  with h show "at P (snd (bind getCR f E s)) \<and>
    (\<exists>new. hist (snd (bind getCR f E s)) = new @ hist s \<and> allowed G new (hist s))"
    unfolding eq by blast
qed

lemma runs_patchCR:
  assumes "status_subresource E"
    and "\<And>a. P a \<Longrightarrow> aisFinalizer \<in> set (Finalizers orig) \<and> aisFinalizer \<notin> set (Finalizers a) \<longrightarrow> phase a = ClusterFinalized"
    and "\<And>a b. P a \<Longrightarrow> phase b = phase a \<Longrightarrow> Q b"
  shows "runs E life_ok (at P) (patchCR orig) (\<lambda>_. at Q)"
  unfolding runs_def
proof (intro allI impI)
  fix s r s'
  assume s: "at P s" and run: "patchCR orig E s = (r, s')"
  from s obtain k where k: "known (hist s) = Some k" "agree k (cr s)" and P: "P (cr s)"
    by (auto simp: at_def)
  have ok: "life_ok (PatchedAIS orig (cr s) x) (hist s)"
    if "\<forall>b. x = Inr b \<longrightarrow> phase b = phase (cr s)" for x
    using assms(2) [OF P] k that by (auto simp: life_ok_def agree_def split: sum.split)
  show "(\<exists>new. hist s' = new @ hist s \<and> allowed life_ok new (hist s)) \<and> (\<forall>a. r = Ret a \<longrightarrow> at Q s')"
  proof (cases "ans_patch_ais E (hist s) orig (cr s)")
    case (Inl e)
    with run have "hist s' = [PatchedAIS orig (cr s) (Inl e)] @ hist s" "r = Err e"
      by (auto simp: patchCR_def run_simps)
    moreover have "allowed life_ok [PatchedAIS orig (cr s) (Inl e)] (hist s)" using ok by simp
    ultimately show ?thesis by blast
  next
    case (Inr b)
    with run have s': "s' = s\<lparr>cr := b, hist := PatchedAIS orig (cr s) (Inr b) # hist s\<rparr>"
      by (auto simp: patchCR_def run_simps)
    from assms(1) Inr have b: "phase b = phase (cr s)" by (auto simp: status_subresource_def)
    from assms(3) [OF P this] have "at Q s'" by (simp add: s' at_def)
    moreover have "hist s' = [PatchedAIS orig (cr s) (Inr b)] @ hist s"
      "allowed life_ok [PatchedAIS orig (cr s) (Inr b)] (hist s)" using ok b by (simp_all add: s')
    ultimately show ?thesis by blast
  qed
qed

lemma follows_patchAISAnnotations:
  assumes "status_subresource E"
  shows "steps E (under (within R) life_ok) (patchAISAnnotations c h)"
  unfolding steps_def under_def
proof (intro allI impI)
  fix s
  let ?s' = "snd (patchAISAnnotations c h E s)"
  let ?f = "\<lambda>a. a\<lparr>Annotations :=
       fmupd RestartConfigHashAnnotation h
         (if c \<noteq> [] then fmupd ConfigHashAnnotation c (Annotations a) else Annotations a)\<rparr>"
  assume s: "within R s"
  then obtain k where k: "known (hist s) = Some k" "agree k (cr s)" "phase (cr s) \<in> R"
    by (auto simp: at_def)
  let ?a = "?f (cr s)"
  have ok: "life_ok (PatchedAIS (cr s) ?a x) (hist s)"
    if "\<forall>b. x = Inr b \<longrightarrow> phase b = phase (cr s)" for x
    using k that by (auto simp: life_ok_def agree_def split: sum.split)
  show "within R ?s' \<and> (\<exists>new. hist ?s' = new @ hist s \<and> allowed life_ok new (hist s))"
  proof (cases "ans_patch_ais E (hist s) (cr s) ?a")
    case (Inl e)
    then have s': "?s' = s\<lparr>cr := ?a, hist := PatchedAIS (cr s) ?a (Inl e) # hist s\<rparr>"
      by (simp add: patchAISAnnotations_def patchCR_def run_simps)
    have "within R ?s'" unfolding s' using k by (auto simp: at_def agree_def)
    moreover have "hist ?s' = [PatchedAIS (cr s) ?a (Inl e)] @ hist s"
      "allowed life_ok [PatchedAIS (cr s) ?a (Inl e)] (hist s)" unfolding s' using ok by simp_all
    ultimately show ?thesis by blast
  next
    case (Inr b)
    then have s': "?s' = s\<lparr>cr := b, hist := PatchedAIS (cr s) ?a (Inr b) # hist s\<rparr>"
      by (simp add: patchAISAnnotations_def patchCR_def run_simps)
    from assms Inr have b: "phase b = phase (cr s)" by (fastforce simp: status_subresource_def)
    then have "within R ?s'" unfolding s' using k by (simp add: at_def)
    moreover have "hist ?s' = [PatchedAIS (cr s) ?a (Inr b)] @ hist s"
      "allowed life_ok [PatchedAIS (cr s) ?a (Inr b)] (hist s)" unfolding s' using ok b by simp_all
    ultimately show ?thesis by blast
  qed
qed

section \<open>Parts that follow the protocol while the cluster is running\<close>

lemma quiet_mem [simp]:
  "c \<in> quiet_classes \<longleftrightarrow> c \<noteq> CReadCR \<and> c \<notin> guarded_classes"
  by (auto simp: quiet_classes_def)

lemma live_mem [simp]:
  "c \<in> live_classes \<longleftrightarrow> c \<noteq> CReadCR \<and> (c \<notin> guarded_classes \<or> c \<in> {CDecommNode, CMaintenance, CDelete KPod})"
  by (auto simp: live_classes_def)

lemma guarded_mem [simp]:
  "c \<in> guarded_classes \<longleftrightarrow> c \<in> {CPatchStatus, CPatchAIS, CDecommCluster, CShutdownAPI, CDecommNode,
     CMaintenance, CDelete KStatefulSet, CDelete KRole, CDelete KRoleBinding, CDelete KServiceAccount,
     CDelete KPVC, CDelete KPod, CDelete KJob}"
  by (simp add: guarded_classes_def)

lemma follows_getCR [life_intros]: "steps E (under (at P) life_ok) getCR"
  unfolding getCR_def by (rule under.steps_gets)

lemma follows_act [life_intros]:
  "action_class a \<in> quiet_classes \<Longrightarrow> steps E (under (at P) life_ok) (act a)"
  by (rule quiet.steps_foot) (rule foot_act)

lemma follows_call [life_intros]:
  "(\<And>r. class_of (mk r) \<in> quiet_classes) \<Longrightarrow> steps E (under (at P) life_ok) (call q mk)"
  by (rule quiet.steps_foot) (rule foot_call)

lemma follows_Eventf [life_intros]: "steps E (under (at P) life_ok) (Eventf r a n)"
  by (rule quiet.steps_foot) (simp add: foot_Eventf)

lemma follows_recordError [life_intros]: "steps E (under (at P) life_ok) (recordError m)"
  unfolding recordError_def by (rule follows_Eventf)

lemma follows_or_record [life_intros]:
  "steps E (under (at P) life_ok) m \<Longrightarrow> steps E (under (at P) life_ok) (or_record m msg)"
  unfolding or_record_def by (intro life_intros)

lemma follows_reads [life_intros]:
  "steps E (under (at P) life_ok) (getSS n)" "steps E (under (at P) life_ok) getClusterMap"
  by (rule quiet.steps_foot, simp add: foot_reads)+

lemma follows_updateClusterConfig [life_intros]:
  "steps E (under (at P) life_ok) (updateClusterConfig c b)"
  by (rule quiet.steps_foot) (simp add: foot_updateClusterConfig)

lemma follows_handleConfigState [life_intros]:
  "status_subresource E \<Longrightarrow> steps E (under (within R) life_ok) (handleConfigState b)"
  unfolding handleConfigState_def Let_def by (intro life_intros follows_patchAISAnnotations)

lemma agree_writers [simp]:
  "agree a (SetCondition a ct)" "agree a (SetConditionFalse a ct r m)"
  "agree a (a\<lparr>Status := (Status a)\<lparr>StatusAutoScale := x\<rparr>\<rparr>)"
  "agree a (a\<lparr>Status := (Status a)\<lparr>IntraClusterURLStatus := y\<rparr>\<rparr>)"
  "agree a (a\<lparr>Status := (Status a)\<lparr>ClusterID := z\<rparr>\<rparr>)"
  "agree a (a\<lparr>Finalizers := fs\<rparr>)"
  by (simp_all add: agree_def)

lemma follows_disableRebalance [life_intros]:
  "status_subresource E \<Longrightarrow> steps E (under (within R) life_ok) (disableRebalance r m)"
  unfolding disableRebalance_def
  by (intro life_intros follows_changeCR follows_patchStatus) simp_all

lemma follows_enableRebalanceCondition [life_intros]:
  "status_subresource E \<Longrightarrow> steps E (under (within R) life_ok) enableRebalanceCondition"
  unfolding enableRebalanceCondition_def
  by (intro life_intros follows_changeCR follows_patchStatus) simp_all

lemma follows_updateAutoScaleStatus [life_intros]:
  "status_subresource E \<Longrightarrow> steps E (under (within R) life_ok) (updateAutoScaleStatus x)"
  unfolding updateAutoScaleStatus_def
  by (intro life_intros follows_changeCR follows_patchStatus) simp_all

lemma follows_updateIntraClusterURLStatus [life_intros]:
  "status_subresource E \<Longrightarrow> steps E (under (within R) life_ok) updateIntraClusterURLStatus"
  unfolding updateIntraClusterURLStatus_def
  by (intro life_intros follows_changeCR follows_patchStatus) simp_all

lemma follows_checkAISClusterReady [life_intros]:
  "status_subresource E \<Longrightarrow> steps E (under (within R) life_ok) checkAISClusterReady"
  unfolding checkAISClusterReady_def Let_def
  by (intro life_intros follows_changeCR follows_patchStatus) simp_all

lemma follows_determineAutoScaleStatus:
  assumes "status_subresource E"
  shows "steps E (under (within R) life_ok) determineAutoScaleStatus"
proof -
  have "steps E (under (within R) life_ok) (autoscale_nodes d l)" for d :: "'a DaemonSpec_scheme" and l
    by (rule quiet.steps_foot) (simp add: foot_autoscale_nodes)
  then show ?thesis
    unfolding determineAutoScaleStatus_def
    using quiet.steps_foot [OF foot_autoscale_nodes]
    by (intro life_intros assms) simp_all
qed

subsection \<open>Targets\<close>

lemma follows_target_parts [life_intros]:
  "follows E (prepareTargetsForScaleDown n)" "follows E (handleTargetRollout ss)"
  by (rule live.steps_foot, simp add: foot_prepareTargetsForScaleDown foot_handleTargetRollout)+

lemma follows_quiet_target_parts [life_intros]:
  "follows E scaleUpLB" "follows E (scaleDownLB ss)" "follows E (isReadyToScaleDown n)"
  "follows E (UpdateStatefulSetReplicas nm k)" "follows E (confirmScalingNeeded key c d mu b)"
  "follows E (syncTargetPVCRetentionPolicy ss)" "follows E reconcileTargetPDB"
  "follows E desiredTargetTemplate" "follows E initTargets"
  by (rule quiet.steps_foot, intro foot_intros; simp)+

lemma follows_resolveStatefulSetScaling [life_intros]:
  "status_subresource E \<Longrightarrow> follows E resolveStatefulSetScaling"
  unfolding resolveStatefulSetScaling_def Let_def by (intro life_intros) simp_all

lemma follows_startTargetScaling [life_intros]:
  "status_subresource E \<Longrightarrow> follows E (startTargetScaling ss)"
  unfolding startTargetScaling_def by (intro life_intros)

lemma follows_handleTargetScaling [life_intros]:
  "status_subresource E \<Longrightarrow> follows E (handleTargetScaling ss)"
  unfolding handleTargetScaling_def target_wait_def by (intro life_intros)

lemma follows_syncTargetPodSpec [life_intros]:
  "status_subresource E \<Longrightarrow> follows E (syncTargetPodSpec ss)"
  unfolding syncTargetPodSpec_def Let_def by (intro life_intros) simp_all

lemma follows_drive_targets [life_intros]:
  "status_subresource E \<Longrightarrow> follows E (drive_targets ss b)"
  unfolding drive_targets_def target_wait_def Let_def by (intro life_intros)

lemma follows_handle_target_ss [life_intros]:
  "status_subresource E \<Longrightarrow> follows E (handle_target_ss ss)"
  unfolding handle_target_ss_def target_wait_def Let_def by (intro life_intros)

lemma follows_handleTargetState [life_intros]:
  "status_subresource E \<Longrightarrow> follows E handleTargetState"
  unfolding handleTargetState_def by (intro life_intros)

subsection \<open>The whole of a running cluster\<close>

lemma follows_handleProxyState [life_intros]: "follows E handleProxyState"
  by (rule live.steps_foot) (rule foot_handleProxyState, simp add: proxy_classes_def)

lemma follows_initProxies [life_intros]: "follows E initProxies"
  by (rule quiet.steps_foot) (simp add: foot_initProxies)

lemma follows_handleSuccessfulReconcile [life_intros]:
  "status_subresource E \<Longrightarrow> follows E handleSuccessfulReconcile"
  unfolding handleSuccessfulReconcile_def
  by (intro life_intros follows_changeCR follows_updateStatusWithState) (simp_all add: running_targets_def)

lemma follows_updateStatusAndRequeue [life_intros]:
  "status_subresource E \<Longrightarrow> follows E (updateStatusAndRequeue r)"
  unfolding updateStatusAndRequeue_def
  by (intro life_intros follows_changeCR follows_updateStatusWithState) (simp_all add: running_targets_def)

lemma follows_handleCREvents [life_intros]: "status_subresource E \<Longrightarrow> follows E handleCREvents"
  unfolding handleCREvents_def by (intro life_intros)

lemma follows_bootstrapNew [life_intros]: "status_subresource E \<Longrightarrow> follows E bootstrapNew"
  unfolding bootstrapNew_def
  by (intro life_intros follows_changeCR follows_updateStatusWithState) (simp_all add: running_targets_def)

lemma follows_reconcileExternalAccess [life_intros]:
  assumes "status_subresource E"
  shows "follows E reconcileExternalAccess"
proof -
  have "follows E createExternalServices" "follows E waitForExternalSvcReady"
    unfolding createExternalServices_def waitForExternalSvcReady_def
    by (rule quiet.steps_foot, intro foot_intros; simp)+
  then show ?thesis
    unfolding reconcileExternalAccess_def
    by (intro life_intros follows_updateStatusWithState assms) (simp_all add: running_targets_def)
qed

lemma follows_reconcileResources [life_intros]: "follows E reconcileResources"
  unfolding reconcileResources_def createOrUpdateRBACResources_def reconcileTLSCertificate_def
  by (rule quiet.steps_foot, intro foot_intros) simp_all

lemma follows_ensurePrereqs [life_intros]: "status_subresource E \<Longrightarrow> follows E ensurePrereqs"
  unfolding ensurePrereqs_def
  by (intro life_intros quiet.steps_foot [OF foot_ensureProxyPrereqs] quiet.steps_foot [OF foot_ensureTargetPrereqs])
     simp_all

lemma follows_reconcile_running: "status_subresource E \<Longrightarrow> follows E reconcile_running"
proof -
  have "follows E reconcileDeprecatedStatsDCM"
    unfolding reconcileDeprecatedStatsDCM_def Let_def
    by (rule quiet.steps_foot, intro foot_intros) simp_all
  then show "status_subresource E \<Longrightarrow> follows E reconcile_running"
    unfolding reconcile_running_def by (intro life_intros)
qed

section \<open>Parts that move the state\<close>

lemma runs_follows:
  "steps E (under (within R) life_ok) m \<Longrightarrow> (\<And>a. P a \<Longrightarrow> phase a \<in> R) \<Longrightarrow>
     runs E life_ok (at P) m (\<lambda>_. within R)"
  by (rule runs_weaken [OF runs_of_under]) (auto elim: at_mono)

lemma runs_quiet:
  "steps E (foot quiet_classes) m \<Longrightarrow> runs E life_ok (at P) m (\<lambda>_. at P)"
  by (rule runs_of_under) (rule quiet.steps_foot)

lemma runs_Eventf: "runs E life_ok (at P) (Eventf r a n) (\<lambda>_. at P)"
  by (rule runs_of_under) (rule follows_Eventf)

text \<open>More classes of calls than the quiet ones, allowed by what \<open>P\<close> says of the CR.\<close>

lemma guarded_protocol:
  assumes "CReadCR \<notin> D" and "D \<inter> cr_classes = {}"
    and "\<And>a k e. P a \<Longrightarrow> agree k a \<Longrightarrow> class_of e \<in> D \<Longrightarrow> class_of e \<in> guarded_classes \<Longrightarrow> event_ok k e"
  shows "protocol D (at P) life_ok"
proof
  show "D \<inter> cr_classes = {}" by (rule assms(2))
next
  fix e s
  assume e: "class_of e \<in> D" and s: "at P s"
  then show "life_ok e (hist s)" using assms(3) by (auto simp: at_def life_ok_def simp del: guarded_mem)
  show "at P (s\<lparr>hist := e # hist s\<rparr>)"
    using s by (rule at_other) (use e assms(1,2) in \<open>auto simp: cr_classes_def\<close>)
qed

lemma event_of_class:
  "class_of e = CDelete kd \<Longrightarrow> \<exists>n r. e = Did (Delete kd n) r"
  "class_of e = CDecommCluster \<Longrightarrow> \<exists>rm r. e = Did (DecommissionClusterAPI rm) r"
  "class_of e = CShutdownAPI \<Longrightarrow> \<exists>r. e = Did ShutdownClusterAPI r"
  by (cases e; simp; rename_tac x y; case_tac x; simp)+

definition resource_classes :: "call_class set" where
  "resource_classes = quiet_classes \<union> {CDelete KStatefulSet, CDelete KRole, CDelete KRoleBinding, CDelete KServiceAccount}"

lemma resource_mem [simp]: "c \<in> resource_classes \<longleftrightarrow> c \<in> quiet_classes \<or>
    c \<in> {CDelete KStatefulSet, CDelete KRole, CDelete KRoleBinding, CDelete KServiceAccount}"
  unfolding resource_classes_def by blast

lemma resource_protocol:
  assumes "\<And>a. P a \<Longrightarrow> phase a = ClusterCleanup"
  shows "protocol resource_classes (at P) life_ok"
  using assms
  by (intro guarded_protocol)
     (auto simp: cr_classes_def agree_def delete_ok_def dest!: event_of_class(1))

lemma pvc_protocol:
  assumes "\<And>a. P a \<Longrightarrow> phase a = ClusterCleanup \<and> ShouldCleanupMetadata a"
  shows "protocol (insert (CDelete KPVC) resource_classes) (at P) life_ok"
  using assms
  by (intro guarded_protocol)
     (auto simp: cr_classes_def agree_def delete_ok_def ShouldCleanupMetadata_def dest!: event_of_class(1))

lemma jobs_protocol:
  assumes "\<And>a. P a \<Longrightarrow> phase a = HostCleanup"
  shows "protocol (insert (CDelete KJob) quiet_classes) (at P) life_ok"
  using assms
  by (intro guarded_protocol)
     (auto simp: cr_classes_def agree_def delete_ok_def dest!: event_of_class(1))

lemma decommission_protocol:
  assumes "\<And>a. P a \<Longrightarrow> phase a = ClusterDecommissioning \<and> \<not> ShouldCleanupMetadata a"
  shows "protocol (insert CShutdownAPI quiet_classes) (at P) life_ok"
  using assms
  by (intro guarded_protocol)
     (auto simp: cr_classes_def agree_def ShouldCleanupMetadata_def dest!: event_of_class(3))

lemma follows_decommissionAIS:
  assumes "\<And>a. P a \<Longrightarrow> phase a = ClusterDecommissioning"
  shows "steps E (under (at P) life_ok) decommissionAIS"
  unfolding decommissionAIS_def
proof (rule under_getCR, rule steps_if)
  fix a
  assume P: "P a" and c: "\<not> ShouldCleanupMetadata a"
  show "steps E (under (at (\<lambda>x. x = a)) life_ok) attemptGracefulShutdown"
    unfolding attemptGracefulShutdown_def
    by (rule protocol.steps_foot [OF decommission_protocol], use P c assms in simp, intro foot_intros)
       simp_all
next
  fix a
  assume P: "P a" and c: "ShouldCleanupMetadata a"
  show "steps E (under (at (\<lambda>x. x = a)) life_ok) attemptGracefulDecommission"
    unfolding attemptGracefulDecommission_def Let_def
  proof (rule under_getCR, rule under.steps_bind)
    fix a'
    assume a': "a' = a"
    have ok: "life_ok (Did (DecommissionClusterAPI (CleanupData (Spec a) = Some True)) r) (hist s)"
      if "at (\<lambda>x. x = a) s" for s r
      using that P c assms
      by (auto simp: at_def life_ok_def agree_def ShouldCleanupMetadata_def)
    then show "steps E (under (at (\<lambda>x. x = a')) life_ok)
        (act (DecommissionClusterAPI (CleanupData (Spec a') = Some True)))"
      unfolding a' steps_def under_def
      by (auto simp: run_simps at_def split: option.split)
  qed (simp add: follows_act)
qed

lemma runs_decommissionCluster:
  assumes "status_subresource E" and "\<And>a. P a \<Longrightarrow> phase a = ClusterDecommissioning"
  shows "runs E life_ok (at P) decommissionCluster (\<lambda>_ _. True)"
  unfolding decommissionCluster_def
proof (rule runs_bind [OF runs_quiet], goal_cases)
  case 1
  show ?case unfolding isClusterRunning_def ssHasReadyReplicas_def by (intro foot_intros) simp_all
next
  case (2 running)
  have "runs E life_ok (at P) (bind (attempt decommissionAIS) (\<lambda>_. ret (after_seconds 10))) (\<lambda>_ _. True)"
    by (rule runs_bind [OF runs_of_under [OF under.steps_attempt [OF follows_decommissionAIS]]])
       (use assms(2) in \<open>auto intro: runs_ret\<close>)
  moreover have "runs E life_ok (at P) (bind (updateStatusWithState ClusterCleanup) (\<lambda>_.
          bind (Eventf r a n) (\<lambda>_. ret done_result))) (\<lambda>_ _. True)" for r a n
    by (rule runs_bind [OF runs_updateStatusWithState [OF assms(1)]])
       (auto intro!: drained assms(2) runs_bind [OF runs_Eventf] runs_ret)
  ultimately show ?case by (intro runs_if)
qed

lemma runs_shutdownCluster:
  assumes "status_subresource E" and "\<And>a. P a \<Longrightarrow> phase a = ClusterShuttingDown \<and> ShouldBeShutdown a"
  shows "runs E life_ok (at P) shutdownCluster (\<lambda>_ _. True)"
proof -
  have q: "runs E life_ok (at P) (UpdateStatefulSetReplicas n k) (\<lambda>_. at P)"
    "runs E life_ok (at P) (IsStatefulSetSize n k) (\<lambda>_. at P)" for n k P
    by (rule runs_quiet, intro foot_intros; simp)+
  show ?thesis
    unfolding shutdownCluster_def
    by (rule runs_getCR)
       (intro runs_bind [OF q(1)] runs_bind [OF q(2)] runs_if runs_ret
          runs_bind [OF runs_updateStatusWithState [OF assms(1)]] runs_bind [OF runs_Eventf];
        use assms(2) finish_shutdown in auto)
qed

lemma follows_cleanupPVC:
  assumes "\<And>a. P a \<Longrightarrow> phase a = ClusterCleanup"
  shows "steps E (under (at P) life_ok) cleanupPVC"
  unfolding cleanupPVC_def
proof (rule under_getCR, rule steps_if)
  fix a
  assume "P a" and "\<not> \<not> ShouldCleanupMetadata a"
  then show "steps E (under (at (\<lambda>x. x = a)) life_ok) deleteAllPVCs"
    by (intro protocol.steps_foot [OF pvc_protocol]) (use assms in \<open>simp_all add: foot_deleteAllPVCs\<close>)
qed (rule under.steps_ret)

lemma runs_cleanup:
  assumes "status_subresource E" and "\<And>a. P a \<Longrightarrow> phase a = ClusterCleanup"
  shows "runs E life_ok (at P) cleanup (\<lambda>_. within {ClusterCleanup, HostCleanup})"
  unfolding cleanup_def
proof (rule runs_getCR)
  fix a
  assume P: "P a"
  let ?P = "\<lambda>x. x = a"
  have p: "phase x = ClusterCleanup" if "?P x" for x using that assms(2) P by simp
  have parts: "protocol resource_classes (at ?P) life_ok"
    by (rule resource_protocol) (rule p)
  have "steps E (under (at ?P) life_ok) f"
    if "f \<in> set [cleanupTarget, cleanupProxy, cleanupAdminClient, cleanupStatsD,
                    cleanupRBAC, cleanupPVC, cleanupTLS]" for f
  proof (cases "f = cleanupPVC")
    case True
    then show ?thesis by (simp add: follows_cleanupPVC p)
  next
    case False
    then have "steps E (foot resource_classes) f"
      using that by (auto intro!: foot_intros)
    then show ?thesis by (rule protocol.steps_foot [OF parts])
  qed
  then have any: "steps E (under (at ?P) life_ok) (AnyFunc [cleanupTarget, cleanupProxy,
      cleanupAdminClient, cleanupStatsD, cleanupRBAC, cleanupPVC, cleanupTLS])"
    by (intro under.steps_AnyFunc)
  have "steps E (foot quiet_classes) (ListNodesMatchingAISSelectors t pr)"
    "steps E (foot quiet_classes) (createCleanupJobs b ns)" for t pr b ns
    by (intro foot_intros; simp)+
  note q = this [THEN runs_quiet]
  have "runs E life_ok (at ?P) cleanupHostStateMounts (\<lambda>_. within {HostCleanup})"
    unfolding cleanupHostStateMounts_def
    by (intro runs_getCR runs_bind [OF q(1)] runs_bind [OF q(2)] runs_updateStatusWithState assms(1))
       (auto intro!: cleaned p)
  then have host: "runs E life_ok (at ?P) cleanupHostStateMounts (\<lambda>_. within {ClusterCleanup, HostCleanup})"
    by (rule runs_weaken) (auto elim: at_mono)
  show "runs E life_ok (at ?P) (bind (AnyFunc [cleanupTarget, cleanupProxy, cleanupAdminClient, cleanupStatsD,
                    cleanupRBAC, cleanupPVC, cleanupTLS]) (\<lambda>updated.
     bind (if ShouldCleanupMetadata a \<and> UsesStateHostPath (Spec a)
           then cleanupHostStateMounts else ret ()) (\<lambda>_. ret updated))) (\<lambda>_. within {ClusterCleanup, HostCleanup})"
    by (rule runs_bind [OF runs_of_under [OF any]],
        rule runs_bind [where R = "\<lambda>_. within {ClusterCleanup, HostCleanup}"];
        intro runs_if host runs_ret)
       (use p in \<open>auto elim: at_mono\<close>)
qed

lemma runs_cleanupClusterRes:
  assumes "status_subresource E" and "\<And>a. P a \<Longrightarrow> phase a = ClusterCleanup"
  shows "runs E life_ok (at P) cleanupClusterRes (\<lambda>_ _. True)"
  unfolding cleanupClusterRes_def
proof (rule runs_getCR, rule runs_if)
  fix a
  assume "P a"
  with assms(2) have p: "\<And>x. x = a \<Longrightarrow> phase x = ClusterCleanup" by simp
  show "runs E life_ok (at (\<lambda>x. x = a)) (bind (or_record cleanup ''Failed to cleanup AIS Resources'') (\<lambda>updated.
          if updated then ret (after_seconds 10)
          else bind (updateStatusWithState HostCleanup) (\<lambda>_. ret done_result))) (\<lambda>_ _. True)"
    by (intro runs_bind [OF runs_or_record [OF runs_cleanup]] runs_if runs_ret
          runs_bind [OF runs_updateStatusWithState] assms(1))
       (use p in \<open>auto intro: cleaned stay\<close>)
qed (auto intro: runs_ret)

lemma runs_cleanupHost:
  assumes "status_subresource E" and "\<And>a. P a \<Longrightarrow> phase a = HostCleanup"
  shows "runs E life_ok (at P) cleanupHost (\<lambda>_ _. True)"
proof -
  have l: "runs E life_ok (at P) (listCleanupJobs n) (\<lambda>_. at P)" for n P
    by (rule runs_quiet) (simp add: foot_listCleanupJobs)
  have d: "runs E life_ok (at P) (deleteFinishedJobs js) (\<lambda>_. at P)"
    if "\<And>a. P a \<Longrightarrow> phase a = HostCleanup" for js P
    by (rule runs_of_under, rule protocol.steps_foot [OF jobs_protocol [OF that]])
       (simp_all add: foot_deleteFinishedJobs)
  show ?thesis
    unfolding cleanupHost_def
    by (intro runs_getCR runs_bind [OF l] runs_bind [OF d] runs_if runs_ret
          runs_bind [OF runs_updateStatusWithState] assms(1))
       (use assms(2) in \<open>auto intro: host_cleaned\<close>)
qed

lemma runs_initializeCR:
  assumes "status_subresource E" and "\<And>a. P a \<Longrightarrow> phase a = ClusterNone"
  shows "runs E life_ok (at P) initializeCR (\<lambda>_. within {ClusterInitialized})"
  unfolding initializeCR_def
proof (rule runs_getCR)
  fix a
  assume "P a"
  with assms(2) have p: "phase a = ClusterNone" .
  let ?add = "\<lambda>x. x\<lparr>Finalizers := Finalizers x @ [aisFinalizer]\<rparr>"
  have add: "runs E life_ok (at (\<lambda>x. x = a)) (changeCR ?add) (\<lambda>_. at (\<lambda>x. x = ?add a))"
    by (rule runs_changeCR) (simp add: agree_def)
  have patch: "runs E life_ok (at (\<lambda>x. x = ?add a)) (patchCR a) (\<lambda>_. within {ClusterNone})"
    by (rule runs_patchCR [OF assms(1)]) (use p in auto)
  have cond: "runs E life_ok (within {ClusterNone}) (changeCR (\<lambda>a. SetCondition a ConditionInitialized))
      (\<lambda>_. within {ClusterNone})"
    by (rule runs_changeCR) simp
  show "runs E life_ok (at (\<lambda>x. x = a)) (bind (if \<not> ContainsFinalizer a
           then bind (changeCR ?add) (\<lambda>_. patchCR a) else ret ()) (\<lambda>_.
     bind (changeCR (\<lambda>a. SetCondition a ConditionInitialized)) (\<lambda>_.
     updateStatusWithState ClusterInitialized))) (\<lambda>_. within {ClusterInitialized})"
    by (rule runs_bind [where R = "\<lambda>_. within {ClusterNone}"];
        intro runs_if runs_bind [OF add] patch runs_ret runs_bind [OF cond] runs_updateStatusWithState assms(1))
       (use p in \<open>auto elim: at_mono intro: lifecycle_step.initialize\<close>)
qed

lemma runs_finalize:
  assumes sub: "status_subresource E" and "\<And>a. P a \<Longrightarrow> phase a = ClusterFinalized"
  shows "runs E life_ok (at P) finalize (\<lambda>_ _. True)"
  unfolding finalize_def
proof (rule runs_getCR, rule runs_if)
  fix a
  assume "P a"
  with assms(2) have p: "phase a = ClusterFinalized" .
  let ?rm = "\<lambda>x. x\<lparr>Finalizers := removeAll aisFinalizer (Finalizers x)\<rparr>"
  have rm: "runs E life_ok (at (\<lambda>x. x = a)) (changeCR ?rm) (\<lambda>_. at (\<lambda>x. x = ?rm a))"
    by (rule runs_changeCR) (simp add: agree_def)
  have "runs E life_ok (at (\<lambda>x. x = ?rm a)) (PatchCRIfExists a) (\<lambda>_ _. True)"
    unfolding runs_def
  proof (intro allI impI)
    fix s r s'
    assume s: "at (\<lambda>x. x = ?rm a) s" and run: "PatchCRIfExists a E s = (r, s')"
    let ?x = "ans_patch_ais E (hist s) a (cr s)"
    from run have "hist s' = [PatchedAIS a (cr s) ?x] @ hist s"
      by (auto simp: PatchCRIfExists_def patchCR_def run_simps split: sum.splits if_splits)
    moreover have "allowed life_ok [PatchedAIS a (cr s) ?x] (hist s)"
      using s p sub by (auto simp: at_def life_ok_def agree_def status_subresource_def split: sum.split)
    ultimately show "(\<exists>new. hist s' = new @ hist s \<and> allowed life_ok new (hist s)) \<and> (\<forall>a. r = Ret a \<longrightarrow> True)"
      by blast
  qed
  then show "runs E life_ok (at (\<lambda>x. x = a)) (bind (changeCR ?rm) (\<lambda>_.
          bind (or_record (PatchCRIfExists a) ''Failed to update instance'') (\<lambda>_.
          ret done_result))) (\<lambda>_ _. True)"
    by (intro runs_bind [OF rm] runs_bind [OF runs_or_record] runs_ret) simp_all
qed (auto intro: runs_ret)

section \<open>One reconcile\<close>

lemma runs_reconcile_prepare:
  assumes sub: "status_subresource E"
  shows "runs E life_ok (at (\<lambda>_. True)) reconcile_prepare (\<lambda>_. within (- {ClusterNone}))"
proof -
  let ?N = "within (- {ClusterNone})"
  have 1: "runs E life_ok (at (\<lambda>x. x = a)) (if HasState a ClusterNone then initializeCR else ret ()) (\<lambda>_. ?N)" for a
    by (intro runs_if runs_weaken [OF runs_initializeCR [OF sub]] runs_ret)
       (auto simp: HasState_def elim: at_mono)
  have 2: "runs E life_ok (at (\<lambda>x. x = a)) (if IsTargetAutoScaling a \<or> IsProxyAutoScaling a
      then determineAutoScaleStatus else ret ()) (\<lambda>_. ?N)" if "phase a \<in> - {ClusterNone}" for a
    using that
    by (intro runs_if runs_follows [OF follows_determineAutoScaleStatus [OF sub]] runs_ret)
       (auto elim: at_mono)
  have 3: "runs E life_ok (at (\<lambda>x. x = a)) (if ShouldDecommission a
       then bind (updateStatusWithState ClusterDecommissioning) (\<lambda>_. Eventf r n m) else ret ()) (\<lambda>_. ?N)"
    if "phase a \<in> - {ClusterNone}" for a r n m
  proof (intro runs_if)
    assume d: "ShouldDecommission a"
    have "lifecycle_step a ClusterDecommissioning"
    proof (rule decommission)
      show "Deleted a" using d by (simp add: ShouldDecommission_def IsMarkedForDeletion_def)
      show "phase a \<in> insert ClusterShuttingDown running_states"
        using d that by (cases "phase a")
          (auto simp: ShouldDecommission_def IsDecommissioningOrCleaning_def HasState_def running_states_def)
    qed
    then show "runs E life_ok (at (\<lambda>x. x = a))
        (bind (updateStatusWithState ClusterDecommissioning) (\<lambda>_. Eventf r n m)) (\<lambda>_. ?N)"
      by (intro runs_bind [OF runs_updateStatusWithState [OF sub]] runs_weaken [OF runs_Eventf])
         (auto elim: at_mono)
  next
    show "runs E life_ok (at (\<lambda>x. x = a)) (ret ()) (\<lambda>_. ?N)"
      using that by (intro runs_ret) (auto elim: at_mono)
  qed
  have 4: "runs E life_ok (at (\<lambda>x. x = a)) (if ShouldStartShutdown a
       then bind (disableRebalance c m) (\<lambda>_. bind (updateStatusWithState ClusterShuttingDown) (\<lambda>_. Eventf r n k))
       else ret ()) (\<lambda>_. ?N)"
    if "phase a \<in> - {ClusterNone}" for a c m r n k
  proof (intro runs_if)
    assume "ShouldStartShutdown a"
    then have p: "phase a = ClusterReady" by (simp add: ShouldStartShutdown_def HasState_def)
    have d: "runs E life_ok (at (\<lambda>x. x = a)) (disableRebalance c m) (\<lambda>_. within {ClusterReady})"
      by (rule runs_follows [OF follows_disableRebalance [OF sub]]) (use p in simp)
    show "runs E life_ok (at (\<lambda>x. x = a))
        (bind (disableRebalance c m) (\<lambda>_. bind (updateStatusWithState ClusterShuttingDown) (\<lambda>_. Eventf r n k)))
        (\<lambda>_. ?N)"
      by (intro runs_bind [OF d] runs_bind [OF runs_updateStatusWithState [OF sub]] runs_weaken [OF runs_Eventf])
         (auto elim: at_mono intro: start_shutdown)
  next
    show "runs E life_ok (at (\<lambda>x. x = a)) (ret ()) (\<lambda>_. ?N)"
      using that by (intro runs_ret) (auto elim: at_mono)
  qed
  show ?thesis
    unfolding reconcile_prepare_def
    by (intro runs_getCR runs_bind [OF 1] runs_bind [OF 2] runs_bind [OF 3] 4)
qed

lemma runs_reconcile_state:
  assumes sub: "status_subresource E"
  shows "runs E life_ok (within (- {ClusterNone})) reconcile_state (\<lambda>_ _. True)"
  unfolding reconcile_state_def
proof (rule runs_getCR)
  fix a
  assume n: "phase a \<in> - {ClusterNone}"
  have running: "runs E life_ok (at (\<lambda>x. x = a)) reconcile_running (\<lambda>_ _. True)"
    if "phase a \<in> running_states"
    by (rule runs_weaken [OF runs_follows [OF follows_reconcile_running [OF sub]]]) (use that in auto)
  have abort: "runs E life_ok (at (\<lambda>x. x = a)) (bind (updateStatusWithState ClusterUpgrading) (\<lambda>_. ret done_result))
      (\<lambda>_ _. True)" if "phase a = ClusterShuttingDown" "\<not> ShouldBeShutdown a"
    by (rule runs_bind [OF runs_updateStatusWithState [OF sub]]) (use that in \<open>auto intro: abort_shutdown runs_ret\<close>)
  note moves = runs_shutdownCluster [OF sub] runs_decommissionCluster [OF sub] runs_cleanupClusterRes [OF sub]
    runs_cleanupHost [OF sub] runs_finalize [OF sub]
  show "runs E life_ok (at (\<lambda>x. x = a)) (case phase a of
       ClusterShuttingDown \<Rightarrow>
         if \<not> ShouldBeShutdown a
         then bind (updateStatusWithState ClusterUpgrading) (\<lambda>_. ret done_result)
         else shutdownCluster
     | ClusterShutdown \<Rightarrow> if ShouldBeShutdown a then ret done_result else reconcile_running
     | ClusterDecommissioning \<Rightarrow> decommissionCluster
     | ClusterCleanup \<Rightarrow> cleanupClusterRes
     | HostCleanup \<Rightarrow> cleanupHost
     | ClusterFinalized \<Rightarrow> finalize
     | _ \<Rightarrow> reconcile_running) (\<lambda>_ _. True)"
    using n by (cases "phase a"; simp; intro conjI impI running abort moves runs_ret;
        simp add: running_states_def)
qed

lemma runs_Reconcile:
  assumes "status_subresource E"
  shows "runs E life_ok (\<lambda>_. True) (Reconcile req) (\<lambda>_ _. True)"
  unfolding Reconcile_def
proof (rule runs_bind [where R = "\<lambda>r s. \<forall>a. r = Inr a \<longrightarrow> known (hist s) = Some a"], goal_cases)
  case 1
  show ?case
    by (auto simp: runs_def run_simps life_ok_def split: sum.splits intro!: exI [of _ "[_]"])
next
  case (2 r)
  show ?case
  proof (cases r)
    case (Inr a)
    have ch: "runs E life_ok (\<lambda>s. known (hist s) = Some a) (changeCR (\<lambda>_. a)) (\<lambda>_. at (\<lambda>_. True))"
      by (auto simp: runs_def run_simps at_def)
    show ?thesis
      unfolding Inr sum.case
      by (rule runs_weaken [OF runs_bind [OF ch runs_bind [OF runs_reconcile_prepare [OF assms]
            runs_reconcile_state [OF assms]]]]) auto
  qed (auto intro: runs_ret runs_throw)
qed

lemma reconcile_protocol:
  assumes "status_subresource E" and "Reconcile req E s = (r, s')"
  obtains new where "hist s' = new @ hist s" and "allowed life_ok new (hist s)"
  by (rule runsE [OF runs_Reconcile [OF assms(1)] TrueI assms(2)]) blast

end
