(* ===== verification/Teardown.thy ===== *)
theory Teardown
  imports Reconcile_Lifecycle
begin

text \<open>
  Teardown over several reconciles. It never goes back: with reads that lag behind, fail or find
  nothing, rejected patches and edits of the spec, no reconcile writes a state before the one
  the reads have reached. And it ends: against an API server that stores what it is given and a
  cluster with nothing left to delete, four reconciles lead to the removal of the finalizer.
  A cluster that is shut down stays so.
\<close>

section \<open>Successive reconciles\<close>

definition next_reconcile :: "NamespacedName \<Rightarrow> env \<Rightarrow> st \<Rightarrow> st" where
  "next_reconcile req E s = snd (Reconcile req E s)"

section \<open>The states the API server has stored\<close>

text \<open>
  The history is that of one CR, whose status nobody but the operator writes. The API server
  stores a state when it accepts a status patch; a rejected patch stores nothing, and a patch of
  the object leaves the status alone. \<open>visible vs h\<close> lists, newest first, the stored states that
  a read may still answer after the calls \<open>h\<close>, where \<open>vs\<close> are those at the beginning: its head is
  the state the server holds, the rest are those a cached read may still show. A read that
  answered shows how far the cache has come, and a cache does not go back.
\<close>

definition back_to :: "'a \<Rightarrow> 'a list \<Rightarrow> 'a list" where
  "back_to x xs = rev (dropWhile (\<lambda>y. y \<noteq> x) (rev xs))"

fun visible :: "ClusterState list \<Rightarrow> history \<Rightarrow> ClusterState list" where
  "visible vs [] = vs"
| "visible vs (e # h) = (case e of
     PatchedStatus a (Inr b) \<Rightarrow> phase b # visible vs h
   | GotAIS n (Inr b) \<Rightarrow> back_to (phase b) (visible vs h)
   | _ \<Rightarrow> visible vs h)"

text \<open>
  Reads of the CR go through the informer's cache: a read may fail, may find nothing, and may
  answer an object that lags behind; what it answers for the state is one the server has stored
  and the cache has not yet left behind. Everything else of the object is arbitrary, so a user
  may edit the spec or delete the CR at any time.
\<close>

definition cached_reads :: "ClusterState list \<Rightarrow> env \<Rightarrow> bool" where
  "cached_reads vs E \<longleftrightarrow> (\<forall>h n a. ans_ais E h n = Inr a \<longrightarrow> phase a \<in> set (visible vs h))"

text \<open>Nothing before \<open>p\<close> can be read any more.\<close>

definition reached :: "ClusterState \<Rightarrow> ClusterState list \<Rightarrow> history \<Rightarrow> bool" where
  "reached p vs h \<longleftrightarrow> list_all ((\<le>) p) (visible vs h)"

lemma set_back_to: "set (back_to x xs) \<subseteq> set xs"
  unfolding back_to_def by (auto dest: set_dropWhileD)

lemma hd_back_to: "x \<in> set xs \<Longrightarrow> back_to x xs \<noteq> [] \<and> hd (back_to x xs) = hd xs"
proof (induction xs)
  case (Cons y ys)
  show ?case
  proof (cases "x \<in> set ys")
    case True
    with Cons show ?thesis by (simp add: back_to_def dropWhile_append1)
  next
    case False
    with Cons.prems show ?thesis by (simp add: back_to_def dropWhile_append)
  qed
qed simp

lemma visible_other: "class_of e \<notin> {CPatchStatus, CReadCR} \<Longrightarrow> visible vs (e # h) = visible vs h"
  by (cases e) auto

lemma reached_event:
  assumes "reached p vs h" and "\<And>a b. e = PatchedStatus a (Inr b) \<Longrightarrow> p \<le> phase b"
  shows "reached p vs (e # h)"
proof (cases e)
  case (PatchedStatus a r)
  with assms show ?thesis by (cases r) (auto simp: reached_def)
next
  case (GotAIS n r)
  with assms set_back_to show ?thesis by (cases r) (fastforce simp: reached_def list_all_iff)+
qed (use assms(1) in \<open>auto simp: reached_def\<close>)

text \<open>
  A call that does not go before the state \<open>p\<close>: a status patch neither sends an earlier state nor
  has one stored.
\<close>

fun forward :: "ClusterState \<Rightarrow> event \<Rightarrow> bool" where
  "forward p (PatchedStatus a r) = (p \<le> phase a \<and> (case r of Inl _ \<Rightarrow> True | Inr b \<Rightarrow> p \<le> phase b))"
| "forward p _ = True"

lemma forward_other: "class_of e \<noteq> CPatchStatus \<Longrightarrow> forward p e"
  by (cases e) auto

lemma forward_mono: "forward q e \<Longrightarrow> p \<le> q \<Longrightarrow> forward p e"
  by (cases e) (auto split: sum.splits)

lemma known_forward:
  assumes "allowed life_ok new h" and "class_of ` set new \<subseteq> - {CReadCR}"
    and "known h = Some k" and "ClusterDecommissioning \<le> phase k"
  shows "(\<exists>k'. known (new @ h) = Some k' \<and> phase k \<le> phase k') \<and> list_all (forward (phase k)) new"
  using assms(1,2)
proof (induction new)
  case (Cons e new)
  then obtain k1 where k1: "known (new @ h) = Some k1" "phase k \<le> phase k1"
    and f: "list_all (forward (phase k)) new" and ok: "life_ok e (new @ h)"
    by auto
  show ?case
  proof (cases "class_of e \<in> {CPatchStatus, CPatchAIS, CReadCR}")
    case False
    then have "forward (phase k) e" by (simp add: forward_other)
    with k1 f False show ?thesis using known_other [of e "new @ h"] by simp
  next
    case True
    with Cons.prems(2) have c: "class_of e \<in> {CPatchStatus, CPatchAIS}" by auto
    with ok k1(1) have e: "event_ok k1 e" by (auto simp: life_ok_def guarded_classes_def)
    from assms(4) k1(2) have t: "ClusterDecommissioning \<le> phase k1" by (rule order_trans)
    show ?thesis
    proof (cases e)
      case (PatchedStatus a r)
      with e have "lifecycle_step k1 (phase a)" and b: "\<And>b. r = Inr b \<Longrightarrow> phase b = phase a"
        by (auto split: sum.splits)
      from lifecycle_teardown_monotone [OF this(1) t] k1(2) have "phase k \<le> phase a" by simp
      with PatchedStatus b f show ?thesis by (cases r) auto
    next
      case (PatchedAIS orig a r)
      with e k1 f show ?thesis by (cases r) auto
    qed (use c in \<open>auto split: action.splits\<close>, (rename_tac x y; case_tac x; simp)+)
  qed
qed (use assms(3) in simp)

lemma reached_forward: "reached p vs h \<Longrightarrow> list_all (forward p) new \<Longrightarrow> reached p vs (new @ h)"
  by (induction new) (auto intro!: reached_event)

text \<open>The part of a reconcile after the CR was read makes no other read of it.\<close>

lemma foot_reconcile_prepare:
  "steps E (foot (- {CReadCR})) reconcile_prepare"
  unfolding reconcile_prepare_def initializeCR_def
  by (intro foot_intros) (auto simp: cr_classes_def)

lemma foot_reconcile_state:
  "steps E (foot (- {CReadCR})) reconcile_state"
proof -
  have bootstrap: "steps E (foot (- {CReadCR})) bootstrapNew"
    unfolding bootstrapNew_def by (intro foot_intros) (auto simp: cr_classes_def)
  have events: "steps E (foot (- {CReadCR})) handleCREvents"
    unfolding handleCREvents_def updateStatusAndRequeue_def
    by (intro foot_intros) (auto simp: proxy_classes_def target_classes_def status_classes_def cr_classes_def)
  have prereqs: "steps E (foot (- {CReadCR})) ensurePrereqs"
    unfolding ensurePrereqs_def reconcileResources_def createOrUpdateRBACResources_def
      reconcileTLSCertificate_def reconcileExternalAccess_def createExternalServices_def
      waitForExternalSvcReady_def
    by (intro foot_intros) auto
  have running: "steps E (foot (- {CReadCR})) reconcile_running"
    unfolding reconcile_running_def reconcileDeprecatedStatsDCM_def Let_def
    by (intro foot_intros bootstrap events prereqs) auto
  have down: "steps E (foot (- {CReadCR})) shutdownCluster" "steps E (foot (- {CReadCR})) decommissionCluster"
    "steps E (foot (- {CReadCR})) cleanupClusterRes" "steps E (foot (- {CReadCR})) cleanupHost"
    "steps E (foot (- {CReadCR})) finalize"
    unfolding shutdownCluster_def decommissionCluster_def isClusterRunning_def ssHasReadyReplicas_def
      decommissionAIS_def attemptGracefulDecommission_def attemptGracefulShutdown_def
      cleanupClusterRes_def cleanupHost_def finalize_def Let_def
    by (intro foot_intros; auto simp: cr_classes_def)+
  show ?thesis
    unfolding reconcile_state_def
    by (intro foot_intros; simp split: ClusterState.split)
       (intro conjI impI foot_intros running down; simp)
qed

lemma Reconcile_after_read:
  assumes "Reconcile req E s = (r, s')" and "ans_ais E (hist s) req = Inr a"
  obtains new where "hist s' = new @ GotAIS req (Inr a) # hist s" and "class_of ` set new \<subseteq> - {CReadCR}"
proof -
  let ?s = "s\<lparr>hist := GotAIS req (Inr a) # hist s, cr := a\<rparr>"
  have "steps E (foot (- {CReadCR})) (bind reconcile_prepare (\<lambda>_. reconcile_state))"
    by (intro foot.steps_bind foot_reconcile_prepare foot_reconcile_state)
  moreover from assms have "bind reconcile_prepare (\<lambda>_. reconcile_state) E ?s = (r, s')"
    by (simp add: Reconcile_def run_simps)
  ultimately obtain new where "hist s' = new @ hist ?s" "class_of ` set new \<subseteq> - {CReadCR}"
    by (rule foot_run)
  then show ?thesis using that by simp
qed

lemma Reconcile_unread:
  assumes "Reconcile req E s = (r, s')" and "ans_ais E (hist s) req = Inl e"
  shows "hist s' = GotAIS req (Inl e) # hist s"
  using assms by (auto simp: Reconcile_def run_simps split: if_splits)

lemma next_reconcile_forward:
  assumes "status_subresource E" and "cached_reads vs E"
    and "reached p vs (hist s)" and "ClusterDecommissioning \<le> p"
  shows "\<exists>new. hist (next_reconcile req E s) = new @ hist s \<and> list_all (forward p) new"
proof -
  obtain r s' where run: "Reconcile req E s = (r, s')" by (cases "Reconcile req E s")
  show ?thesis
  proof (cases "ans_ais E (hist s) req")
    case (Inl e)
    with Reconcile_unread [OF run] run show ?thesis
      by (intro exI [of _ "[GotAIS req (Inl e)]"]) (simp add: next_reconcile_def)
  next
    case (Inr k)
    with assms(2,3) have p: "p \<le> phase k"
      by (auto simp: cached_reads_def reached_def list_all_iff)
    obtain new where new: "hist s' = new @ GotAIS req (Inr k) # hist s" "class_of ` set new \<subseteq> - {CReadCR}"
      by (rule Reconcile_after_read [OF run Inr])
    obtain all where all: "hist s' = all @ hist s" "allowed life_ok all (hist s)"
      by (rule reconcile_protocol [OF assms(1) run])
    have "all = new @ [GotAIS req (Inr k)]" using new(1) all(1) by simp
    with all(2) have ok: "allowed life_ok new (GotAIS req (Inr k) # hist s)" by (simp add: allowed_append)
    from assms(4) p have "ClusterDecommissioning \<le> phase k" by (rule order_trans)
    with known_forward [OF ok new(2), of k] have "list_all (forward (phase k)) new" by simp
    with p have "list_all (forward p) new"
      by (auto simp: list_all_iff intro: forward_mono)
    with new(1) run show ?thesis
      by (intro exI [of _ "new @ [GotAIS req (Inr k)]"]) (simp add: next_reconcile_def)
  qed
qed

lemma reconciles_forward:
  assumes "status_subresource E" and "cached_reads vs E"
    and "reached p vs (hist s)" and "ClusterDecommissioning \<le> p"
  shows "\<exists>new. hist ((next_reconcile req E ^^ n) s) = new @ hist s \<and> list_all (forward p) new \<and>
     reached p vs (new @ hist s)"
proof (induction n)
  case (Suc n)
  let ?s = "(next_reconcile req E ^^ n) s"
  from Suc obtain new where new: "hist ?s = new @ hist s" "list_all (forward p) new"
    "reached p vs (new @ hist s)" by blast
  then have "reached p vs (hist ?s)" by simp
  from next_reconcile_forward [OF assms(1,2) this assms(4)] obtain more
    where more: "hist (next_reconcile req E ?s) = more @ hist ?s" "list_all (forward p) more" by blast
  with new(1,2) reached_forward [OF new(3) more(2)] show ?case
    by (intro exI [of _ "more @ new"]) simp
qed (use assms(3) in simp)

section \<open>A teardown that can finish\<close>

text \<open>
  The object as the server holds it, as far as the calls tell: what a read or an accepted patch
  answered last. Rejected patches do not count.
\<close>

fun stored :: "history \<Rightarrow> AIStore option" where
  "stored [] = None"
| "stored (e # h) = (case e of
     PatchedStatus a (Inr b) \<Rightarrow> Some b
   | PatchedAIS orig a (Inr b) \<Rightarrow> Some b
   | GotAIS n (Inr b) \<Rightarrow> Some b
   | _ \<Rightarrow> stored h)"

text \<open>
  The API server is up and stores the CR, and nobody else changes it: a read answers the stored
  object, a patch of its status or of its metadata is accepted and answers the patched object.
\<close>

definition stores_cr :: "env \<Rightarrow> bool" where
  "stores_cr E \<longleftrightarrow> (\<forall>h k. stored h = Some k \<longrightarrow>
     (\<forall>n. ans_ais E h n = Inr k) \<and>
     (\<forall>a. a\<lparr>Status := Status k\<rparr> = k \<longrightarrow> ans_patch_status E h a = Inr a) \<and>
     (\<forall>a. Status a = Status k \<and> Spec a = Spec k \<longrightarrow> ans_patch_ais E h k a = Inr a))"

text \<open>
  Nothing of the cluster is left: StatefulSets are gone, deletions find nothing, lists of its
  pods, services, claims and jobs are empty (clean-up jobs are gone by the time they are listed);
  nodes can be listed and clean-up jobs created.
\<close>

definition empty_cluster :: "env \<Rightarrow> bool" where
  "empty_cluster E \<longleftrightarrow>
     (\<forall>h d n. ans_ss E h d n = Inl NotFound) \<and>
     (\<forall>h k n. ans_do E h (Delete k n) = Some NotFound) \<and>
     (\<forall>h ns l. ans_pods E h ns l = Inr []) \<and>
     (\<forall>h ns l. ans_svcs E h ns l = Inr []) \<and>
     (\<forall>h ns l. ans_pvcs E h ns l = Inr []) \<and>
     (\<forall>h ns. ans_jobs E h ns = Inr []) \<and>
     (\<forall>h sel. \<exists>ns. ans_nodes E h sel = Inr ns) \<and>
     (\<forall>h a n. ans_do E h (Create (CleanupJob a n)) = None)"

text \<open>The local object is the stored one.\<close>

definition synced :: "st \<Rightarrow> bool" where
  "synced s \<longleftrightarrow> stored (hist s) = Some (cr s)"

text \<open>Returns the value \<open>v\<close>, having left the CR alone.\<close>

definition returns :: "env \<Rightarrow> 'a op \<Rightarrow> 'a \<Rightarrow> bool" where
  "returns E m v \<longleftrightarrow>
     (\<forall>s. \<exists>s'. m E s = (Ret v, s') \<and> cr s' = cr s \<and> stored (hist s') = stored (hist s))"

lemma returnsE:
  assumes "returns E m v"
  obtains s' where "m E s = (Ret v, s')" and "cr s' = cr s" and "stored (hist s') = stored (hist s)"
  using assms unfolding returns_def by blast

lemma returns_ret: "returns E (ret v) v"
  by (simp add: returns_def run_simps)

lemma returns_bind:
  assumes "returns E m v" and "returns E (f v) w"
  shows "returns E (bind m f) w"
  unfolding returns_def
proof
  fix s
  obtain s1 where s1: "m E s = (Ret v, s1)" "cr s1 = cr s" "stored (hist s1) = stored (hist s)"
    by (rule returnsE [OF assms(1)])
  obtain s2 where "f v E s1 = (Ret w, s2)" "cr s2 = cr s1" "stored (hist s2) = stored (hist s1)"
    by (rule returnsE [OF assms(2)])
  with s1 show "\<exists>s'. bind m f E s = (Ret w, s') \<and> cr s' = cr s \<and> stored (hist s') = stored (hist s)"
    by (simp add: run_simps)
qed

lemma returns_getCR:
  "(\<And>a. returns E (f a) w) \<Longrightarrow> returns E (bind getCR f) w"
  by (simp add: returns_def run_simps)

lemma returns_any_loop: "(\<And>f. f \<in> set fs \<Longrightarrow> returns E f False) \<Longrightarrow> returns E (any_loop acc fs) acc"
proof (induction fs)
  case (Cons f fs)
  then have "returns E f False" and "returns E (any_loop (acc \<or> False) fs) acc" by simp_all
  then show ?case unfolding any_loop.simps by (rule returns_bind)
qed (simp add: returns_ret)

lemma returns_AnyFunc:
  "fs \<noteq> [] \<Longrightarrow> (\<And>f. f \<in> set fs \<Longrightarrow> returns E f False) \<Longrightarrow> returns E (AnyFunc fs) False"
  by (simp add: AnyFunc_def returns_any_loop)

lemma returns_delete:
  "empty_cluster E \<Longrightarrow> returns E (DeleteResourceIfExists k n) False"
  by (simp add: returns_def DeleteResourceIfExists_def allowObjNotFound_def empty_cluster_def run_simps)

lemma returns_delete_lists:
  "empty_cluster E \<Longrightarrow> returns E (DeleteAllServicesIfExist ns l) False"
  "empty_cluster E \<Longrightarrow> returns E (DeletePVCs ns l sc) False"
  by (simp_all add: returns_def DeleteAllServicesIfExist_def DeletePVCs_def deleteAllPVCsIfExist_def
      listServices_def listPVCs_def empty_cluster_def run_simps)

lemma returns_cleanup_parts:
  assumes "empty_cluster E"
  shows "f \<in> set [cleanupTarget, cleanupProxy, cleanupAdminClient, cleanupStatsD,
                    cleanupRBAC, cleanupPVC, cleanupTLS] \<Longrightarrow> returns E f False"
proof -
  note d = returns_delete [OF assms] returns_delete_lists [OF assms]
  have "returns E cleanupTargetSS False" unfolding cleanupTargetSS_def by (intro returns_getCR d)
  then have "returns E cleanupTarget False"
    unfolding cleanupTarget_def by (intro returns_getCR returns_AnyFunc) (auto simp: d)
  moreover have "returns E cleanupProxy False"
    unfolding cleanupProxy_def by (intro returns_getCR returns_AnyFunc) (auto simp: d)
  moreover have "returns E cleanupRBAC False"
    unfolding cleanupRBAC_def by (intro returns_getCR returns_AnyFunc) (auto simp: d)
  moreover have "returns E cleanupAdminClient False" "returns E cleanupStatsD False" "returns E cleanupTLS False"
    unfolding cleanupAdminClient_def cleanupStatsD_def cleanupTLS_def by (intro returns_getCR d)+
  moreover have "returns E deleteAllPVCs False"
    unfolding deleteAllPVCs_def by (intro returns_getCR returns_bind [OF d(3)] d)
  then have "returns E cleanupPVC False"
    unfolding cleanupPVC_def by (intro returns_getCR) (simp add: returns_ret)
  ultimately show "f \<in> set [cleanupTarget, cleanupProxy, cleanupAdminClient, cleanupStatsD,
                    cleanupRBAC, cleanupPVC, cleanupTLS] \<Longrightarrow> returns E f False"
    by auto
qed

lemma returns_createCleanupJobs:
  "empty_cluster E \<Longrightarrow> returns E (createCleanupJobs a ns) ()"
proof (induction ns)
  case (Cons n ns)
  then have "returns E (attempt (act (Create (CleanupJob a n)))) (Inr ())"
    by (simp add: returns_def empty_cluster_def run_simps)
  with Cons show ?case unfolding createCleanupJobs.simps by (auto intro: returns_bind)
qed (simp add: returns_ret)

lemma returns_ListNodes:
  assumes "empty_cluster E"
  shows "\<exists>v s'. ListNodesMatchingAISSelectors t p E s = (Ret v, s') \<and> cr s' = cr s \<and> stored (hist s') = stored (hist s)"
proof -
  from assms have nodes: "\<exists>ns. ans_nodes E h sel = Inr ns" for h sel
    by (simp add: empty_cluster_def)
  obtain n1 where "ans_nodes E (hist s) t = Inr n1" using nodes by blast
  moreover obtain n2 where "ans_nodes E (GotNodes t (Inr n1) # hist s) p = Inr n2"
    using nodes by blast
  ultimately show ?thesis
    by (simp add: ListNodesMatchingAISSelectors_def listNodes_def run_simps)
qed

lemma returns_autoscale_nodes:
  assumes "empty_cluster E"
  shows "\<exists>v s'. autoscale_nodes d l E s = (Ret v, s') \<and> cr s' = cr s \<and> stored (hist s') = stored (hist s)"
proof -
  from assms have "\<exists>ns. ans_nodes E h sel = Inr ns" for h sel
    by (simp add: empty_cluster_def)
  then obtain ns where "ans_nodes E (hist s) (selector_of d) = Inr ns" by blast
  with assms show ?thesis
    by (simp add: autoscale_nodes_def listMatchingNodeNames_def listMatchingNodes_def listNodes_def
        listNodesRunningDaemonPods_def listPods_def empty_cluster_def run_simps)
qed

section \<open>One step of the teardown\<close>

text \<open>Patches of the status are accepted and leave the object stored.\<close>

lemma run_patchStatus_stored:
  assumes "stores_cr E" and "stored (hist s) = Some k" and "(cr s)\<lparr>Status := Status k\<rparr> = k"
  shows "patchStatus E s = (Ret (), s\<lparr>hist := PatchedStatus (cr s) (Inr (cr s)) # hist s\<rparr>)"
  using assms by (simp add: run_patchStatus stores_cr_def)

lemma run_updateStatus_stored:
  assumes "stores_cr E" and "synced s"
  shows "updateStatusWithState t E s = (Ret (), s\<lparr>cr := SetState (cr s) t,
     hist := PatchedStatus (SetState (cr s) t) (Inr (SetState (cr s) t)) # hist s\<rparr>)"
proof -
  let ?s = "s\<lparr>cr := SetState (cr s) t\<rparr>"
  from assms(2) have "patchStatus E ?s = (Ret (), ?s\<lparr>hist := PatchedStatus (cr ?s) (Inr (cr ?s)) # hist ?s\<rparr>)"
    by (intro run_patchStatus_stored [OF assms(1), where k = "cr s"]) (simp_all add: synced_def SetState_def)
  then show ?thesis by (simp add: updateStatusWithState_def run_simps)
qed

definition tearing_down :: "AIStore \<Rightarrow> bool" where
  "tearing_down k \<longleftrightarrow> ClusterDecommissioning \<le> phase k \<and> aisFinalizer \<in> set (Finalizers k)"

lemma tearing_down_SetState:
  "tearing_down k \<Longrightarrow> ClusterDecommissioning \<le> t \<Longrightarrow> tearing_down (SetState k t)"
  by (simp add: tearing_down_def)

text \<open>
  Before it looks at the state, a reconcile of an autoscaled cluster brings the nodes in the
  status up to date; it succeeds, and changes nothing else of the object.
\<close>

lemma run_autoscale_if:
  assumes "empty_cluster E"
  shows "\<exists>v s'. (if c then autoscale_nodes d l else ret []) E s = (Ret v, s') \<and> cr s' = cr s \<and>
     stored (hist s') = stored (hist s)"
  using returns_autoscale_nodes [OF assms] by (cases c) (auto simp: run_simps)

lemma run_updateAutoScaleStatus:
  assumes "stores_cr E" and "synced s"
  shows "\<exists>s' y. updateAutoScaleStatus x E s = (Ret (), s') \<and> synced s' \<and>
     cr s' = (cr s)\<lparr>Status := (Status (cr s))\<lparr>StatusAutoScale := y\<rparr>\<rparr>"
proof (cases "ExpectedProxyNodes (StatusAutoScale (Status (cr s))) = ExpectedProxyNodes x \<and>
    ExpectedTargetNodes (StatusAutoScale (Status (cr s))) = ExpectedTargetNodes x")
  case True
  with assms(2) show ?thesis
    by (intro exI [of _ s] exI [of _ "StatusAutoScale (Status (cr s))"])
       (simp add: updateAutoScaleStatus_def run_simps)
next
  case False
  let ?s = "s\<lparr>cr := (cr s)\<lparr>Status := (Status (cr s))\<lparr>StatusAutoScale := x\<rparr>\<rparr>\<rparr>"
  from assms(2) have "patchStatus E ?s = (Ret (), ?s\<lparr>hist := PatchedStatus (cr ?s) (Inr (cr ?s)) # hist ?s\<rparr>)"
    by (intro run_patchStatus_stored [OF assms(1), where k = "cr s"]) (simp_all add: synced_def)
  with False show ?thesis
    by (intro exI [of _ "?s\<lparr>hist := PatchedStatus (cr ?s) (Inr (cr ?s)) # hist ?s\<rparr>"] exI [of _ x])
       (auto simp: updateAutoScaleStatus_def synced_def run_simps)
qed

lemma run_determineAutoScaleStatus:
  assumes "stores_cr E" and "empty_cluster E" and "synced s"
  shows "\<exists>s' y. determineAutoScaleStatus E s = (Ret (), s') \<and> synced s' \<and>
     cr s' = (cr s)\<lparr>Status := (Status (cr s))\<lparr>StatusAutoScale := y\<rparr>\<rparr>"
proof -
  let ?a = "cr s"
  obtain v1 s1 where 1: "(if IsTargetAutoScaling ?a
      then autoscale_nodes (SpecTarget (Spec ?a)) (target_SelectorLabels ?a) else ret []) E s = (Ret v1, s1)"
    "cr s1 = ?a" "stored (hist s1) = stored (hist s)"
    using run_autoscale_if [OF assms(2)] by metis
  obtain v2 s2 where 2: "(if IsProxyAutoScaling ?a
      then autoscale_nodes (ProxySpec (Spec ?a)) (proxy_SelectorLabels ?a) else ret []) E s1 = (Ret v2, s2)"
    "cr s2 = cr s1" "stored (hist s2) = stored (hist s1)"
    using run_autoscale_if [OF assms(2)] by metis
  from assms(3) 1 2 have "synced s2" by (simp add: synced_def)
  from run_updateAutoScaleStatus [OF assms(1) this] 1 2 show ?thesis
    by (simp add: determineAutoScaleStatus_def run_simps)
qed

lemma prepare_keeps_state:
  assumes "stores_cr E" and "empty_cluster E" and "synced s" and "tearing_down (cr s)"
  shows "\<exists>s'. reconcile_prepare E s = (Ret (), s') \<and> synced s' \<and> tearing_down (cr s') \<and> phase (cr s') = phase (cr s)"
proof -
  let ?auto = "IsTargetAutoScaling (cr s) \<or> IsProxyAutoScaling (cr s)"
  have "\<exists>s1. (if ?auto then determineAutoScaleStatus else ret ()) E s = (Ret (), s1) \<and> synced s1 \<and>
      phase (cr s1) = phase (cr s) \<and> Finalizers (cr s1) = Finalizers (cr s)"
  proof (cases ?auto)
    case True
    with run_determineAutoScaleStatus [OF assms(1-3)] show ?thesis by auto
  next
    case False
    with assms(3) show ?thesis by (simp add: run_simps)
  qed
  then obtain s1 where s1: "(if ?auto then determineAutoScaleStatus else ret ()) E s = (Ret (), s1)" "synced s1"
    and same: "phase (cr s1) = phase (cr s)" "Finalizers (cr s1) = Finalizers (cr s)" by blast
  have idle: "\<not> HasState a ClusterNone \<and> \<not> ShouldDecommission a \<and> \<not> ShouldStartShutdown a"
    if "ClusterDecommissioning \<le> phase a" for a
    using that by (auto simp: HasState_def ShouldDecommission_def ShouldStartShutdown_def teardown_states less_eq_ClusterState_def)
  from assms(4) same idle [of "cr s"] idle [of "cr s1"] s1 show ?thesis
    by (simp add: reconcile_prepare_def tearing_down_def run_simps)
qed

lemma next_reconcile_state:
  assumes "stores_cr E" and "empty_cluster E" and "stored (hist s) = Some k" and "tearing_down k"
  obtains s1 where "next_reconcile req E s = snd (reconcile_state E s1)" and "synced s1"
    and "tearing_down (cr s1)" and "phase (cr s1) = phase k"
proof -
  let ?s = "s\<lparr>hist := GotAIS req (Inr k) # hist s, cr := k\<rparr>"
  from assms(1,3) have "ans_ais E (hist s) req = Inr k" by (simp add: stores_cr_def)
  moreover obtain s1 where "reconcile_prepare E ?s = (Ret (), s1)" "synced s1" "tearing_down (cr s1)"
    "phase (cr s1) = phase k"
    using prepare_keeps_state [OF assms(1,2), of ?s] assms(4) by (auto simp: synced_def)
  ultimately show ?thesis
    by (intro that [of s1]) (simp_all add: next_reconcile_def Reconcile_def run_simps)
qed

text \<open>After a step the stored object is in the state \<open>t\<close> and still torn down.\<close>

abbreviation arrived :: "ClusterState \<Rightarrow> st \<Rightarrow> bool" where
  "arrived t s \<equiv> (\<exists>k. stored (hist s) = Some k \<and> tearing_down k \<and> phase k = t)"

lemma arrivedI:
  assumes "tearing_down k" and "ClusterDecommissioning \<le> t" and "stored (hist s) = Some (SetState k t)"
  shows "arrived t s"
  using assms tearing_down_SetState by auto

lemma step_decommissioning:
  assumes E: "stores_cr E" "empty_cluster E" and "arrived ClusterDecommissioning s"
  shows "arrived ClusterCleanup (next_reconcile req E s)"
proof -
  from assms(3) obtain k where "stored (hist s) = Some k" "tearing_down k" and k: "phase k = ClusterDecommissioning"
    by blast
  from next_reconcile_state [OF E this(1,2)] obtain s1 where s1: "next_reconcile req E s = snd (reconcile_state E s1)"
    "synced s1" "tearing_down (cr s1)" "phase (cr s1) = ClusterDecommissioning" unfolding k by blast
  let ?gone = "\<lambda>n. GotSS False n (Inl NotFound)"
  have ss: "getSS n E s = (Err NotFound, s\<lparr>hist := ?gone n # hist s\<rparr>)" for n s
    using E(2) by (simp add: getSS_def empty_cluster_def run_simps)
  have up: "updateStatusWithState t E (s1\<lparr>hist := ?gone n # hist s1\<rparr>) = (Ret (), s1\<lparr>cr := SetState (cr s1) t,
      hist := PatchedStatus (SetState (cr s1) t) (Inr (SetState (cr s1) t)) # ?gone n # hist s1\<rparr>)" for t n
    using run_updateStatus_stored [OF E(1), of "s1\<lparr>hist := ?gone n # hist s1\<rparr>"] s1(2) by (simp add: synced_def)
  have up2: "updateStatusWithState t E (s1\<lparr>hist := ?gone n # ?gone m # hist s1\<rparr>) = (Ret (), s1\<lparr>cr := SetState (cr s1) t,
      hist := PatchedStatus (SetState (cr s1) t) (Inr (SetState (cr s1) t)) # ?gone n # ?gone m # hist s1\<rparr>)" for t n m
    using run_updateStatus_stored [OF E(1), of "s1\<lparr>hist := ?gone n # ?gone m # hist s1\<rparr>"] s1(2) by (simp add: synced_def)
  show ?thesis
    by (rule arrivedI [OF s1(3)])
       (simp_all add: s1(1,4) reconcile_state_def decommissionCluster_def isClusterRunning_def
          ssHasReadyReplicas_def ss up up2 run_simps less_eq_ClusterState_def)
qed

lemma step_cleanup:
  assumes E: "stores_cr E" "empty_cluster E" and "arrived ClusterCleanup s"
  shows "arrived HostCleanup (next_reconcile req E s)"
proof -
  from assms(3) obtain k where "stored (hist s) = Some k" "tearing_down k" and k: "phase k = ClusterCleanup"
    by blast
  from next_reconcile_state [OF E this(1,2)] obtain s0 where s0: "next_reconcile req E s = snd (reconcile_state E s0)"
    "synced s0" "tearing_down (cr s0)" "phase (cr s0) = ClusterCleanup" unfolding k by blast
  let ?k = "cr s0"
  have "returns E (AnyFunc [cleanupTarget, cleanupProxy, cleanupAdminClient, cleanupStatsD,
                    cleanupRBAC, cleanupPVC, cleanupTLS]) False"
    by (rule returns_AnyFunc) (simp, rule returns_cleanup_parts [OF E(2)])
  then obtain s1 where s1: "AnyFunc [cleanupTarget, cleanupProxy, cleanupAdminClient, cleanupStatsD,
                    cleanupRBAC, cleanupPVC, cleanupTLS] E s0 = (Ret False, s1)" and cr1: "cr s1 = ?k"
    and sync1: "synced s1"
    by (rule returnsE [where s = s0]) (use s0(2) in \<open>simp add: synced_def\<close>)
  obtain v s2 where s2: "ListNodesMatchingAISSelectors
            (selector_of (SpecTarget (Spec ?k)))
            (selector_of (ProxySpec (Spec ?k))) E s1 = (Ret v, s2)"
    and cr2: "cr s2 = ?k" and "synced s2"
    using returns_ListNodes [OF E(2)] cr1 sync1 unfolding synced_def by metis
  obtain s3 where s3: "createCleanupJobs ?k v E s2 = (Ret (), s3)" and cr3: "cr s3 = ?k" and sync3: "synced s3"
    using returns_createCleanupJobs [OF E(2)] cr2 \<open>synced s2\<close> unfolding returns_def synced_def by metis
  have "\<exists>s4. cleanup E s0 = (Ret False, s4) \<and> synced s4 \<and> (cr s4 = ?k \<or> cr s4 = SetState ?k HostCleanup)"
  proof (cases "ShouldCleanupMetadata ?k \<and> UsesStateHostPath (Spec ?k)")
    case True
    then show ?thesis
      by (simp add: cleanup_def run_simps s1 cleanupHostStateMounts_def cr1 s2 s3 cr3
          run_updateStatus_stored [OF E(1) sync3]) (simp add: synced_def)
  next
    case False
    with sync1 show ?thesis by (auto simp: cleanup_def run_simps s1 cr1)
  qed
  then obtain s4 where s4: "cleanup E s0 = (Ret False, s4)" "synced s4"
    and cr4: "cr s4 = ?k \<or> cr s4 = SetState ?k HostCleanup" by blast
  from cr4 s0(3) have "SetState (cr s4) HostCleanup = SetState ?k HostCleanup"
    by (auto simp: SetState_def)
  with s4 s0(3) show ?thesis
    by (intro arrivedI [OF s0(3)])
       (simp_all add: s0(1,4) reconcile_state_def cleanupClusterRes_def ContainsFinalizer_def
          tearing_down_def or_record_def run_simps run_updateStatus_stored [OF E(1) s4(2)] less_eq_ClusterState_def)
qed

lemma step_host_cleanup:
  assumes E: "stores_cr E" "empty_cluster E" and "arrived HostCleanup s"
  shows "arrived ClusterFinalized (next_reconcile req E s)"
proof -
  from assms(3) obtain k where "stored (hist s) = Some k" "tearing_down k" and k: "phase k = HostCleanup"
    by blast
  from next_reconcile_state [OF E this(1,2)] obtain s1 where s1: "next_reconcile req E s = snd (reconcile_state E s1)"
    "synced s1" "tearing_down (cr s1)" "phase (cr s1) = HostCleanup" unfolding k by blast
  from E(2) have jobs: "\<And>h ns. ans_jobs E h ns = Inr []" by (simp add: empty_cluster_def)
  let ?s = "s1\<lparr>hist := GotJobs (Namespace (cr s1)) (Inr []) # hist s1\<rparr>"
  from s1(2) have "synced ?s" by (simp add: synced_def)
  from run_updateStatus_stored [OF E(1) this] show ?thesis
    by (intro arrivedI [OF s1(3)])
       (simp_all add: s1(1,4) reconcile_state_def cleanupHost_def listCleanupJobs_def listJobs_def jobs
          run_simps less_eq_ClusterState_def)
qed

lemma step_finalize:
  assumes E: "stores_cr E" "empty_cluster E" and "arrived ClusterFinalized s"
  shows "\<exists>k. stored (hist (next_reconcile req E s)) = Some k \<and> phase k = ClusterFinalized \<and>
     aisFinalizer \<notin> set (Finalizers k)"
proof -
  from assms(3) obtain k where "stored (hist s) = Some k" "tearing_down k" and k: "phase k = ClusterFinalized"
    by blast
  from next_reconcile_state [OF E this(1,2)] obtain s1 where s1: "next_reconcile req E s = snd (reconcile_state E s1)"
    "synced s1" "tearing_down (cr s1)" "phase (cr s1) = ClusterFinalized" unfolding k by blast
  let ?a = "(cr s1)\<lparr>Finalizers := removeAll aisFinalizer (Finalizers (cr s1))\<rparr>"
  from E(1) s1(2) have "ans_patch_ais E (hist s1) (cr s1) ?a = Inr ?a"
    by (simp add: stores_cr_def synced_def)
  with s1(3) have "hist (snd (reconcile_state E s1)) = PatchedAIS (cr s1) ?a (Inr ?a) # hist s1"
    by (simp add: reconcile_state_def s1(4) finalize_def ContainsFinalizer_def tearing_down_def
        PatchCRIfExists_def patchCR_def or_record_def run_simps)
  with s1(1,4) show ?thesis by simp
qed

lemma teardown_four_steps:
  assumes E: "stores_cr E" "empty_cluster E" and "stored (hist s) = Some k" "tearing_down k"
    and "phase k = ClusterDecommissioning"
  shows "\<exists>k'. stored (hist ((next_reconcile req E ^^ 4) s)) = Some k' \<and>
     phase k' = ClusterFinalized \<and> aisFinalizer \<notin> set (Finalizers k')"
proof -
  from assms(3-5) have "arrived ClusterDecommissioning s" by blast
  from step_finalize [OF E step_host_cleanup [OF E step_cleanup [OF E step_decommissioning [OF E this]]]]
  show ?thesis by (simp add: eval_nat_numeral)
qed

section \<open>A cluster that is shut down\<close>

text \<open>
  What a reconcile may still do to the CR \<open>a\<close> of a cluster that is shut down: read, bring the nodes
  that autoscaling expects in its status up to date, and record an event.
\<close>

definition idle_call :: "AIStore \<Rightarrow> event \<Rightarrow> bool" where
  "idle_call a e \<longleftrightarrow> class_of e \<in> {CRead, CEvent} \<or>
     (\<exists>x r. e = PatchedStatus (a\<lparr>Status := (Status a)\<lparr>StatusAutoScale := x\<rparr>\<rparr>) r)"

text \<open>
  Nobody edits the CR between the read and the status patch: the patch answers with the spec, the
  deletion mark and the state that the patched object has.
\<close>

definition unedited :: "env \<Rightarrow> bool" where
  "unedited E \<longleftrightarrow> (\<forall>h b c. ans_patch_status E h b = Inr c \<longrightarrow> agree b c)"

lemma autoscale_nodes_idle:
  assumes "(if c then autoscale_nodes d l else ret []) E s = (r, s')"
  shows "cr s' = cr s \<and> (\<exists>new. hist s' = new @ hist s \<and> list_all (idle_call a) new)"
proof -
  have "steps E (foot {CRead}) (if c then autoscale_nodes d l else ret [])"
    by (intro foot_intros) simp_all
  from stepsD [OF this assms] show ?thesis
    by (auto simp: foot_def cr_classes_def list_all_iff idle_call_def image_subset_iff)
qed

lemma updateAutoScaleStatus_idle:
  assumes "updateAutoScaleStatus x E s = (r, s')"
  shows "\<exists>new. hist s' = new @ hist s \<and> list_all (idle_call (cr s)) new \<and>
     (unedited E \<longrightarrow> agree (cr s) (cr s'))"
proof -
  let ?a = "(cr s)\<lparr>Status := (Status (cr s))\<lparr>StatusAutoScale := x\<rparr>\<rparr>"
  have same: "agree (cr s) ?a" by (simp add: agree_def)
  have step: "agree (cr s) b" if "agree ?a b" for b using same that by (simp add: agree_def)
  show ?thesis
  proof (cases "ExpectedProxyNodes (StatusAutoScale (Status (cr s))) = ExpectedProxyNodes x \<and>
      ExpectedTargetNodes (StatusAutoScale (Status (cr s))) = ExpectedTargetNodes x")
    case True
    with assms have "s' = s" by (simp add: updateAutoScaleStatus_def run_simps)
    then show ?thesis by simp
  next
    case False
    then have "updateAutoScaleStatus x E s = patchStatus E (s\<lparr>cr := ?a\<rparr>)"
      by (auto simp: updateAutoScaleStatus_def run_simps)
    with assms have p: "patchStatus E (s\<lparr>cr := ?a\<rparr>) = (r, s')" by simp
    show ?thesis
    proof (cases "ans_patch_status E (hist s) ?a")
      case (Inl e)
      with p same show ?thesis by (auto simp: run_patchStatus idle_call_def)
    next
      case (Inr b)
      with p step show ?thesis by (auto simp: run_patchStatus idle_call_def unedited_def)
    qed
  qed
qed

lemma determineAutoScaleStatus_idle:
  assumes "determineAutoScaleStatus E s = (r, s')"
  shows "\<exists>new. hist s' = new @ hist s \<and> list_all (idle_call (cr s)) new \<and>
     (unedited E \<longrightarrow> agree (cr s) (cr s'))"
proof -
  let ?a = "cr s"
  obtain r1 s1 where 1: "(if IsTargetAutoScaling ?a
      then autoscale_nodes (SpecTarget (Spec ?a)) (target_SelectorLabels ?a) else ret []) E s = (r1, s1)" by fastforce
  obtain r2 s2 where 2: "(if IsProxyAutoScaling ?a
      then autoscale_nodes (ProxySpec (Spec ?a)) (proxy_SelectorLabels ?a) else ret []) E s1 = (r2, s2)" by fastforce
  from autoscale_nodes_idle [OF 1, of ?a] obtain n1 where n1: "hist s1 = n1 @ hist s" "list_all (idle_call ?a) n1" "cr s1 = ?a"
    by blast
  from autoscale_nodes_idle [OF 2, of ?a] n1(3) obtain n2 where n2: "hist s2 = n2 @ hist s1" "list_all (idle_call ?a) n2" "cr s2 = ?a"
    by auto
  from assms 1 2 consider "s' = s1" | "s' = s2" | x where "updateAutoScaleStatus x E s2 = (r, s')"
    by (auto simp: determineAutoScaleStatus_def run_bind run_getCR split: outcome.splits)
  then show ?thesis
  proof cases
    case (3 x)
    from updateAutoScaleStatus_idle [OF 3] n2(3) obtain n3 where "hist s' = n3 @ hist s2" "list_all (idle_call ?a) n3"
      "unedited E \<longrightarrow> agree ?a (cr s')" by auto
    with n1 n2 show ?thesis by (intro exI [of _ "n3 @ n2 @ n1"]) simp
  qed (use n1 n2 in auto)
qed

lemma Reconcile_shut_down:
  assumes "ans_ais E (hist s) req = Inr a" and "phase a = ClusterShutdown" and "ShouldBeShutdown a"
    and "\<not> Deleted a" and "unedited E"
  shows "\<exists>new. hist (snd (Reconcile req E s)) = new @ GotAIS req (Inr a) # hist s \<and>
     list_all (idle_call a) new \<and> agree a (cr (snd (Reconcile req E s)))"
proof -
  let ?s = "s\<lparr>hist := GotAIS req (Inr a) # hist s, cr := a\<rparr>"
  let ?auto = "IsTargetAutoScaling a \<or> IsProxyAutoScaling a"
  obtain r s1 where d: "(if ?auto then determineAutoScaleStatus else ret ()) E ?s = (r, s1)" by fastforce
  have "\<exists>new. hist s1 = new @ hist ?s \<and> list_all (idle_call a) new \<and> agree a (cr s1)"
  proof (cases ?auto)
    case True
    with d have "determineAutoScaleStatus E ?s = (r, s1)" by simp
    from determineAutoScaleStatus_idle [OF this] assms(5) show ?thesis by auto
  next
    case False
    with d show ?thesis by (auto simp: run_simps)
  qed
  then obtain new where new: "hist s1 = new @ hist ?s" "list_all (idle_call a) new" "agree a (cr s1)" by blast
  from new(3) assms(2-4) have "State (Status (cr s1)) = ClusterShutdown" "ShouldBeShutdown (cr s1)"
    "\<not> ShouldDecommission (cr s1)" "\<not> ShouldStartShutdown (cr s1)"
    by (auto simp: agree_def ShouldBeShutdown_def ShouldDecommission_def IsMarkedForDeletion_def
        ShouldStartShutdown_def HasState_def)
  then have "snd (Reconcile req E s) = s1"
    using assms(1,2) d
    by (cases r) (simp_all add: Reconcile_def reconcile_prepare_def reconcile_state_def run_simps HasState_def)
  with new show ?thesis by auto
qed

end
