(* ===== verification/Evidence.thy ===== *)
theory Evidence
  imports Footprint
begin

text \<open>
  Claims of the form "such a call is made only after such answers": a guard ties classes of
  calls to the calls made before them since a function started, and the triples that carry
  the evidence from where it is gathered to where it is needed.
\<close>

section \<open>Guards\<close>

text \<open>A call of the classes \<open>C\<close> needs \<open>W\<close> of itself and of the calls since the history \<open>h0\<close>.\<close>

definition guard :: "call_class set \<Rightarrow> (event \<Rightarrow> history \<Rightarrow> bool) \<Rightarrow> history \<Rightarrow> event \<Rightarrow> history \<Rightarrow> bool" where
  "guard C W h0 e h \<longleftrightarrow> (class_of e \<in> C \<longrightarrow> (\<exists>b. h = b @ h0 \<and> W e b))"

text \<open>The CR is still \<open>ais\<close>, and the calls since \<open>h0\<close> satisfy \<open>Q\<close>.\<close>

definition having :: "AIStore \<Rightarrow> history \<Rightarrow> (history \<Rightarrow> bool) \<Rightarrow> st \<Rightarrow> bool" where
  "having ais h0 Q s \<longleftrightarrow> cr s = ais \<and> (\<exists>b. hist s = b @ h0 \<and> Q b)"

text \<open>Evidence that later calls do not take away.\<close>

definition lasting :: "(history \<Rightarrow> bool) \<Rightarrow> bool" where
  "lasting Q \<longleftrightarrow> (\<forall>b b'. set b \<subseteq> set b' \<longrightarrow> Q b \<longrightarrow> Q b')"

lemma lastingD: "lasting Q \<Longrightarrow> Q b \<Longrightarrow> set b \<subseteq> set b' \<Longrightarrow> Q b'"
  unfolding lasting_def by blast

named_theorems lasting_intros \<open>evidence that lasts\<close>

lemma lasting_const [lasting_intros]: "lasting (\<lambda>_. x)"
  by (simp add: lasting_def)

lemma lasting_mem [lasting_intros]: "lasting (\<lambda>b. e \<in> set b)"
  by (auto simp: lasting_def)

lemma lasting_conj [lasting_intros]: "lasting P \<Longrightarrow> lasting Q \<Longrightarrow> lasting (\<lambda>b. P b \<and> Q b)"
  unfolding lasting_def by blast

lemma lasting_disj [lasting_intros]: "lasting P \<Longrightarrow> lasting Q \<Longrightarrow> lasting (\<lambda>b. P b \<or> Q b)"
  unfolding lasting_def by blast

lemma lasting_ex [lasting_intros]: "(\<And>x. lasting (P x)) \<Longrightarrow> lasting (\<lambda>b. \<exists>x. P x b)"
  unfolding lasting_def by blast

lemma lasting_bex [lasting_intros]: "(\<And>x. lasting (P x)) \<Longrightarrow> lasting (\<lambda>b. \<exists>x\<in>A. P x b)"
  unfolding lasting_def by blast

lemma lasting_imp [lasting_intros]: "lasting Q \<Longrightarrow> lasting (\<lambda>b. c \<longrightarrow> Q b)"
  unfolding lasting_def by blast

lemma having_mono: "having ais h0 Q s \<Longrightarrow> (\<And>b. Q b \<Longrightarrow> Q' b) \<Longrightarrow> having ais h0 Q' s"
  by (auto simp: having_def)

lemma having_start: "having (cr s) (hist s) (\<lambda>b. True) s"
  by (simp add: having_def)

lemma evidence_protocol:
  assumes "lasting Q" and "D \<inter> cr_classes = {}"
    and "\<And>e b. class_of e \<in> D \<Longrightarrow> class_of e \<in> C \<Longrightarrow> Q b \<Longrightarrow> W e b"
  shows "protocol D (having ais h0 Q) (guard C W h0)"
proof
  show "D \<inter> cr_classes = {}" by (rule assms(2))
  show "guard C W h0 e (hist s)" if "class_of e \<in> D" "having ais h0 Q s" for e s
    using that assms(3) by (auto simp: having_def guard_def)
  show "having ais h0 Q (s\<lparr>hist := e # hist s\<rparr>)" if h: "having ais h0 Q s" for e s
  proof -
    from h obtain b where "cr s = ais" "hist s = b @ h0" "Q b" by (auto simp: having_def)
    moreover have "Q (e # b)" by (rule lastingD [OF assms(1) \<open>Q b\<close>]) auto
    ultimately show ?thesis by (auto simp: having_def intro!: exI [of _ "e # b"])
  qed
qed

text \<open>A part whose calls are not guarded, or are all covered by the evidence there is.\<close>

lemma runs_covered:
  assumes "steps E (foot D) m" and "lasting Q" and "D \<inter> cr_classes = {}"
    and "\<And>e b. class_of e \<in> D \<Longrightarrow> class_of e \<in> C \<Longrightarrow> Q b \<Longrightarrow> W e b"
  shows "runs E (guard C W h0) (having ais h0 Q) m (\<lambda>_. having ais h0 Q)"
  by (rule runs_of_under, rule protocol.steps_foot [OF evidence_protocol [OF assms(2-4)] assms(1)])

lemma runs_free:
  assumes "steps E (foot D) m" and "lasting Q" and "D \<inter> cr_classes = {}" and "D \<inter> C = {}"
  shows "runs E (guard C W h0) (having ais h0 Q) m (\<lambda>_. having ais h0 Q)"
  by (rule runs_covered [OF assms(1-3)]) (use assms(4) in blast)

text \<open>A part that gathers evidence \<open>R\<close>, known from its runs.\<close>

lemma runs_gather:
  assumes "steps E (foot D) m" and "lasting Q" and "D \<inter> cr_classes = {}" and "D \<inter> C = {}"
    and "\<And>s v s' new. cr s = ais \<Longrightarrow> m E s = (Ret v, s') \<Longrightarrow> hist s' = new @ hist s \<Longrightarrow> R v new"
    and "\<And>v. lasting (R v)"
  shows "runs E (guard C W h0) (having ais h0 Q) m (\<lambda>v. having ais h0 (\<lambda>b. Q b \<and> R v b))"
  unfolding runs_def
proof (intro allI impI)
  fix s r s'
  assume h: "having ais h0 Q s" and run: "m E s = (r, s')"
  obtain new where new: "hist s' = new @ hist s" "allowed (guard C W h0) new (hist s)"
    and post: "\<forall>v. r = Ret v \<longrightarrow> having ais h0 Q s'"
    by (rule runsE [OF runs_free [OF assms(1-4)] h run])
  from h obtain b where b: "hist s = b @ h0" "Q b" and cr: "cr s = ais" by (auto simp: having_def)
  have "having ais h0 (\<lambda>b. Q b \<and> R v b) s'" if r: "r = Ret v" for v
  proof -
    from run r have "m E s = (Ret v, s')" by simp
    from assms(5) [OF cr this new(1)] have "R v new" .
    then have "R v (new @ b)" by (rule lastingD [OF assms(6)]) auto
    moreover from b(2) have "Q (new @ b)" by (rule lastingD [OF assms(2)]) auto
    moreover from post r have "cr s' = ais" by (auto simp: having_def)
    ultimately show ?thesis using new(1) b(1) by (auto simp: having_def)
  qed
  with new show "(\<exists>new. hist s' = new @ hist s \<and> allowed (guard C W h0) new (hist s)) \<and>
      (\<forall>v. r = Ret v \<longrightarrow> having ais h0 (\<lambda>b. Q b \<and> R v b) s')" by blast
qed

lemma runs_call_gather:
  assumes "\<And>r. class_of (mk r) \<notin> C \<union> cr_classes" and "lasting Q"
  shows "runs E (guard C W h0) (having ais h0 Q) (call q mk) (\<lambda>v. having ais h0 (\<lambda>b. Q b \<and> mk (Inr v) \<in> set b))"
proof (rule runs_gather [where D = "- (C \<union> cr_classes)"])
  show "steps E (foot (- (C \<union> cr_classes))) (call q mk)"
    by (rule foot_call) (use assms(1) in blast)
next
  fix s v s' new
  assume "call q mk E s = (Ret v, s')" and "hist s' = new @ hist s"
  then show "mk (Inr v) \<in> set new" by (auto simp: run_simps split: sum.splits)
qed (use assms(2) in \<open>auto intro: lasting_intros\<close>)

lemma runs_act_gather:
  assumes "action_class a \<notin> C \<union> cr_classes" and "lasting Q"
  shows "runs E (guard C W h0) (having ais h0 Q) (act a) (\<lambda>_. having ais h0 (\<lambda>b. Q b \<and> Did a None \<in> set b))"
proof (rule runs_gather [where D = "- (C \<union> cr_classes)"])
  show "steps E (foot (- (C \<union> cr_classes))) (act a)"
    by (rule foot_act) (use assms(1) in blast)
next
  fix s v s' new
  assume "act a E s = (Ret v, s')" and "hist s' = new @ hist s"
  then show "Did a None \<in> set new" by (auto simp: run_simps split: option.splits)
qed (use assms(2) in \<open>auto intro: lasting_intros\<close>)

text \<open>A guarded call for which there is evidence.\<close>

lemma runs_act_guarded:
  assumes "action_class a \<notin> cr_classes" and "lasting Q" and "\<And>b r. Q b \<Longrightarrow> W (Did a r) b"
  shows "runs E (guard C W h0) (having ais h0 Q) (act a) (\<lambda>_. having ais h0 Q)"
  unfolding runs_def
proof (intro allI impI)
    fix s r s'
    assume "having ais h0 Q s" and run: "act a E s = (r, s')"
    then obtain b where b: "cr s = ais" "hist s = b @ h0" "Q b" by (auto simp: having_def)
    let ?x = "ans_do E (hist s) a"
    have s': "s' = s\<lparr>hist := Did a ?x # hist s\<rparr>"
      using run by (auto simp: run_simps split: option.splits)
    have "Q (Did a ?x # b)" by (rule lastingD [OF assms(2) b(3)]) auto
    with b s' have "having ais h0 Q s'" by (auto simp: having_def intro!: exI [of _ "Did a ?x # b"])
    moreover have "guard C W h0 (Did a ?x) (hist s)" using b assms(3) by (auto simp: guard_def)
    ultimately show "(\<exists>new. hist s' = new @ hist s \<and> allowed (guard C W h0) new (hist s)) \<and>
        (\<forall>v. r = Ret v \<longrightarrow> having ais h0 Q s')"
      using s' by (auto intro!: exI [of _ "[Did a ?x]"])
qed

lemma runs_attempt_act:
  assumes "lasting Q" and "\<And>b r. Q b \<Longrightarrow> W (Did a r) b"
  shows "runs E (guard C W h0) (having ais h0 Q) (attempt (act a)) (\<lambda>_. having ais h0 Q)"
  unfolding runs_def
proof (intro allI impI)
  fix s r s'
  assume "having ais h0 Q s" and run: "attempt (act a) E s = (r, s')"
  then obtain b where b: "cr s = ais" "hist s = b @ h0" "Q b" by (auto simp: having_def)
  let ?e = "Did a (ans_do E (hist s) a)"
  have s': "s' = s\<lparr>hist := ?e # hist s\<rparr>" using run by (auto simp: run_simps split: option.splits)
  have "Q (?e # b)" by (rule lastingD [OF assms(1) b(3)]) auto
  with b s' have "having ais h0 Q s'" by (auto simp: having_def intro!: exI [of _ "?e # b"])
  moreover have "guard C W h0 ?e (hist s)" using b assms(2) by (auto simp: guard_def)
  ultimately show "(\<exists>new. hist s' = new @ hist s \<and> allowed (guard C W h0) new (hist s)) \<and>
      (\<forall>v. r = Ret v \<longrightarrow> having ais h0 Q s')"
    using s' by (auto intro!: exI [of _ "[?e]"])
qed

lemma runs_getCR_having:
  "runs E G (having ais h0 Q) (f ais) R \<Longrightarrow> runs E G (having ais h0 Q) (bind getCR f) R"
  unfolding runs_def by (simp add: run_simps having_def)

lemma runs_asks: "runs E G P (f (g E)) R \<Longrightarrow> runs E G P (bind (asks g) f) R"
  unfolding runs_def by (simp add: run_simps)

lemma runs_deref:
  "(\<And>v. x = Some v \<Longrightarrow> runs E G P (f v) R) \<Longrightarrow> runs E G P (bind (deref x) f) R"
  unfolding runs_def by (cases x) (auto simp: run_simps)

lemma runs_of_sum:
  "(\<And>v. x = Inr v \<Longrightarrow> runs E G P (f v) R) \<Longrightarrow> runs E G P (bind (of_sum x) f) R"
  unfolding runs_def by (cases x) (auto simp: run_simps)

lemma runs_option:
  "(x = None \<Longrightarrow> runs E G P a R) \<Longrightarrow> (\<And>v. x = Some v \<Longrightarrow> runs E G P (b v) R) \<Longrightarrow>
     runs E G P (case x of None \<Rightarrow> a | Some v \<Rightarrow> b v) R"
  by (cases x) simp_all

lemma runs_sum:
  "(\<And>e. x = Inl e \<Longrightarrow> runs E G P (a e) R) \<Longrightarrow> (\<And>v. x = Inr v \<Longrightarrow> runs E G P (b v) R) \<Longrightarrow>
     runs E G P (case x of Inl e \<Rightarrow> a e | Inr v \<Rightarrow> b v) R"
  by (cases x) simp_all

text \<open>What a triple for guarded calls says of the calls of one run.\<close>

lemma guarded_calls:
  assumes "runs E (guard C W (hist s)) (having (cr s) (hist s) (\<lambda>_. True)) m Q" and "m E s = (r, s')"
  shows "\<exists>new. hist s' = new @ hist s \<and>
     (\<forall>later e earlier. new = later @ e # earlier \<longrightarrow> class_of e \<in> C \<longrightarrow> W e earlier)"
proof -
  obtain new where new: "hist s' = new @ hist s" "allowed (guard C W (hist s)) new (hist s)"
    by (rule runsE [OF assms(1) having_start assms(2)])
  have "\<forall>later e earlier. new = later @ e # earlier \<longrightarrow> class_of e \<in> C \<longrightarrow> W e earlier"
  proof (intro allI impI)
    fix later e earlier
    assume "new = later @ e # earlier" and c: "class_of e \<in> C"
    with new(2) have "guard C W (hist s) e (earlier @ hist s)" by (simp add: allowed_split)
    with c show "W e earlier" by (auto simp: guard_def)
  qed
  with new(1) show ?thesis by blast
qed

section \<open>Evidence while the CR changes\<close>

text \<open>The calls since \<open>h0\<close> satisfy \<open>Q\<close>; the CR may be another by now.\<close>

definition since :: "history \<Rightarrow> (history \<Rightarrow> bool) \<Rightarrow> st \<Rightarrow> bool" where
  "since h0 Q s \<longleftrightarrow> (\<exists>b. hist s = b @ h0 \<and> Q b)"

lemma since_start: "since (hist s) (\<lambda>b. True) s"
  by (simp add: since_def)

lemma since_mono: "since h0 Q s \<Longrightarrow> (\<And>b. Q b \<Longrightarrow> Q' b) \<Longrightarrow> since h0 Q' s"
  by (auto simp: since_def)

lemma since_of_having: "having ais h0 Q s \<Longrightarrow> since h0 Q s"
  by (auto simp: since_def having_def)

lemma runs_since:
  assumes foot: "steps E (foot D) m" and last: "lasting Q"
    and ok: "\<And>e b. class_of e \<in> D \<Longrightarrow> class_of e \<in> C \<Longrightarrow> Q b \<Longrightarrow> W e b"
    and gain: "\<And>s v s' new. m E s = (Ret v, s') \<Longrightarrow> hist s' = new @ hist s \<Longrightarrow> R v new"
    and "\<And>v. lasting (R v)"
  shows "runs E (guard C W h0) (since h0 Q) m (\<lambda>v. since h0 (\<lambda>b. Q b \<and> R v b))"
  unfolding runs_def
proof (intro allI impI)
  fix s r s'
  assume "since h0 Q s" and run: "m E s = (r, s')"
  then obtain b where b: "hist s = b @ h0" "Q b" by (auto simp: since_def)
  obtain new where new: "hist s' = new @ hist s" "class_of ` set new \<subseteq> D"
    by (rule foot_run [OF foot run])
  have Q: "Q (x @ b)" for x by (rule lastingD [OF last b(2)]) auto
  have "allowed (guard C W h0) new (hist s)"
    unfolding allowed_split guard_def
  proof (intro allI impI)
    fix x e y
    assume "new = x @ e # y" and "class_of e \<in> C"
    with new(2) have "W e (y @ b)" by (intro ok Q) auto
    with b(1) show "\<exists>b. y @ hist s = b @ h0 \<and> W e b" by auto
  qed
  moreover have "since h0 (\<lambda>b. Q b \<and> R v b) s'" if "r = Ret v" for v
  proof -
    from run that have "R v new" using gain new(1) by blast
    then have "R v (new @ b)" by (rule lastingD [OF assms(5)]) auto
    with Q new(1) b(1) show ?thesis by (auto simp: since_def)
  qed
  ultimately show "(\<exists>new. hist s' = new @ hist s \<and> allowed (guard C W h0) new (hist s)) \<and>
      (\<forall>v. r = Ret v \<longrightarrow> since h0 (\<lambda>b. Q b \<and> R v b) s')"
    using new(1) by blast
qed

lemma runs_since_free:
  assumes "steps E (foot D) m" and "lasting Q" and "D \<inter> C = {}"
  shows "runs E (guard C W h0) (since h0 Q) m (\<lambda>_. since h0 Q)"
  by (rule runs_weaken [OF runs_since [where D = D and R = "\<lambda>_ _. True"]])
     (use assms in \<open>auto intro: lasting_intros\<close>)

lemma runs_since_act:
  assumes "lasting Q" and "\<And>b r. Q b \<Longrightarrow> W (Did a r) b"
  shows "runs E (guard C W h0) (since h0 Q) (act a) (\<lambda>_. since h0 (\<lambda>b. Q b \<and> Did a None \<in> set b))"
  unfolding runs_def
proof (intro allI impI)
  fix s r s'
  assume "since h0 Q s" and run: "act a E s = (r, s')"
  then obtain b where b: "hist s = b @ h0" "Q b" by (auto simp: since_def)
  let ?x = "ans_do E (hist s) a"
  have s': "s' = s\<lparr>hist := Did a ?x # hist s\<rparr>"
    using run by (auto simp: run_simps split: option.splits)
  have "Q (Did a ?x # b)" by (rule lastingD [OF assms(1) b(2)]) auto
  moreover have "r = Ret v \<Longrightarrow> ?x = None" for v using run by (auto simp: run_simps split: option.splits)
  ultimately show "(\<exists>new. hist s' = new @ hist s \<and> allowed (guard C W h0) new (hist s)) \<and>
      (\<forall>v. r = Ret v \<longrightarrow> since h0 (\<lambda>b. Q b \<and> Did a None \<in> set b) s')"
    using b assms(2) s'
    by (auto simp: since_def guard_def intro!: exI [of _ "[Did a ?x]"] exI [of _ "Did a ?x # b"])
qed

lemma runs_since_getCR:
  "(\<And>ais. runs E G (having ais h0 Q) (f ais) R) \<Longrightarrow> runs E G (since h0 Q) (bind getCR f) R"
  unfolding runs_def by (simp add: run_simps having_def since_def)

text \<open>What a triple for guarded calls says of the calls of one run and of its result.\<close>

lemma guarded_run:
  assumes "runs E (guard C W (hist s)) P m (\<lambda>v. since (hist s) (Q v))" and "P s" and "m E s = (r, s')"
  shows "\<exists>new. hist s' = new @ hist s \<and>
     (\<forall>later e earlier. new = later @ e # earlier \<longrightarrow> class_of e \<in> C \<longrightarrow> W e earlier) \<and>
     (\<forall>v. r = Ret v \<longrightarrow> Q v new)"
proof -
  obtain new where new: "hist s' = new @ hist s" "allowed (guard C W (hist s)) new (hist s)"
    "\<forall>v. r = Ret v \<longrightarrow> since (hist s) (Q v) s'"
    by (rule runsE [OF assms(1-3)])
  from new(1) new(2) have "\<forall>later e earlier. new = later @ e # earlier \<longrightarrow> class_of e \<in> C \<longrightarrow> W e earlier"
    by (auto simp: allowed_split guard_def)
  moreover from new(1,3) have "\<forall>v. r = Ret v \<longrightarrow> Q v new" by (auto simp: since_def)
  ultimately show ?thesis using new(1) by blast
qed

section \<open>Calls of one kind\<close>

text \<open>All the calls made satisfy a predicate of the call alone.\<close>

definition emits :: "(event \<Rightarrow> bool) \<Rightarrow> st \<Rightarrow> st \<Rightarrow> bool" where
  "emits P s s' \<longleftrightarrow> (\<exists>new. hist s' = new @ hist s \<and> (\<forall>e\<in>set new. P e))"

interpretation emits: step_rel "emits P" for P
proof
  show "emits P s s" for s by (simp add: emits_def)
  show "emits P s u" if "emits P s t" "emits P t u" for s t u
    using that by (fastforce simp: emits_def)
qed

lemma emits_act: "(\<And>r. P (Did a r)) \<Longrightarrow> steps E (emits P) (act a)"
  by (auto simp: steps_def run_simps emits_def split: option.split)

lemma emits_getCR: "steps E (emits P) getCR"
  by (simp add: getCR_def emits.steps_gets)

lemma emits_foot: "steps E (foot D) m \<Longrightarrow> (\<And>e. class_of e \<in> D \<Longrightarrow> P e) \<Longrightarrow> steps E (emits P) m"
  by (erule steps_weaken) (fastforce simp: foot_def emits_def image_subset_iff)

lemma emits_or_record:
  "(\<And>r a n. P (Did (RecordEvent r a n) None)) \<Longrightarrow> steps E (emits P) m \<Longrightarrow> steps E (emits P) (or_record m msg)"
  unfolding or_record_def recordError_def
  by (intro emits.steps_base steps_intros) (auto simp: steps_def run_simps emits_def)

lemma emits_run:
  assumes "steps E (emits P) m" and "m E s = (r, s')"
  shows "\<exists>new. hist s' = new @ hist s \<and> (\<forall>e\<in>set new. P e)"
  using stepsD [OF assms] by (simp add: emits_def)

end
