(* ===== verification/Proxy_Safety.thy ===== *)
theory Proxy_Safety
  imports Proxy_Controller Evidence
begin

text \<open>
  What the proxy controller is careful about: the primary of the AIStore cluster. Evidence that
  a pod holds the primary role is the newest kind the controller can have: a cluster map that
  names it, or an accepted request to make it the primary.
\<close>

section \<open>Evidence\<close>

definition matches_pod :: "Snode \<Rightarrow> AIStore \<Rightarrow> int32 \<Rightarrow> bool" where
  "matches_pod n ais i \<longleftrightarrow> hostnameMatchesPod (sn_ControlHost n) (proxy_PodName ais i)"

definition primary_at :: "AIStore \<Rightarrow> int32 \<Rightarrow> history \<Rightarrow> bool" where
  "primary_at ais i b \<longleftrightarrow> (\<exists>m. GotSmap (Inr m) \<in> set b \<and>
     ((\<exists>p. smap_Primary m = Some p \<and> matches_pod p ais i) \<or>
      (\<exists>n\<in>set (smap_Pmap m). matches_pod n ais i \<and>
         Did (SetPrimaryProxy (sn_ID n) (sn_PubURL n) True) None \<in> set b)))"

text \<open>The pod was found ready, an active proxy of the cluster, and on the revision to roll out.\<close>

definition checked_pod :: "AIStore \<Rightarrow> StatefulSet \<Rightarrow> Smap \<Rightarrow> int32 \<Rightarrow> history \<Rightarrow> bool" where
  "checked_pod ais ss m i b \<longleftrightarrow> (\<exists>n p. n \<in> set (smap_Pmap m) \<and> matches_pod n ais i \<and> \<not> sn_InMaintOrDecomm n \<and>
     GotPod (in_namespace ais (proxy_PodName ais i)) (Inr p) \<in> set b \<and> isPodReady (Some p) \<and>
     (st_UpdateRevision ss \<noteq> [] \<longrightarrow> isPodOnRevision (Some p) (st_UpdateRevision ss)))"

definition eligible_primary :: "AIStore \<Rightarrow> StatefulSet \<Rightarrow> int32 \<Rightarrow> history \<Rightarrow> bool" where
  "eligible_primary ais ss i b \<longleftrightarrow> (\<exists>m. GotSmap (Inr m) \<in> set b \<and> checked_pod ais ss m i b)"

lemma lasting_primary_at [lasting_intros]: "lasting (primary_at ais i)"
  unfolding primary_at_def by (intro lasting_intros)

lemma lasting_checked [lasting_intros]: "lasting (checked_pod ais ss m i)"
  unfolding checked_pod_def by (intro lasting_intros)

lemma lasting_eligible [lasting_intros]: "lasting (eligible_primary ais ss i)"
  unfolding eligible_primary_def by (intro lasting_intros)

text \<open>The primary is, or was made, a pod below \<open>n\<close>; a pod it was given to was eligible.\<close>

definition primary_below :: "AIStore \<Rightarrow> StatefulSet \<Rightarrow> int32 \<Rightarrow> history \<Rightarrow> bool" where
  "primary_below ais ss n b \<longleftrightarrow> (\<exists>i. 0 \<le> i \<and> i < n \<and> primary_at ais i b \<and>
     ((\<exists>m p. GotSmap (Inr m) \<in> set b \<and> smap_Primary m = Some p \<and> matches_pod p ais i) \<or>
      eligible_primary ais ss i b))"

lemma lasting_primary_below [lasting_intros]: "lasting (primary_below ais ss n)"
  unfolding primary_below_def by (intro lasting_intros)

section \<open>Gathering it\<close>

lemma run_setPrimaryTo:
  assumes "setPrimaryTo i E s = (Ret (), s')" and "hist s' = new @ hist s"
  shows "primary_at (cr s) i new"
proof -
  let ?pod = "proxy_PodName (cr s) i"
  from assms(1) obtain m where g: "ans_do E (hist s) GetClient = None"
    and m: "ans_smap E (Did GetClient None # hist s) = Inr m"
    by (auto simp: setPrimaryTo_def getClusterMap_def Let_def run_simps split: option.splits sum.splits)
  let ?h = "GotSmap (Inr m) # Did GetClient None # hist s"
  show ?thesis
  proof (cases "\<exists>p. smap_Primary m = Some p \<and> hostnameMatchesPod (sn_ControlHost p) ?pod")
    case True
    with assms(1) g m have "hist s' = ?h"
      by (auto simp: setPrimaryTo_def getClusterMap_def Let_def run_simps)
    with assms(2) True show ?thesis
      by (auto simp: primary_at_def matches_pod_def append_eq_Cons_conv Cons_eq_append_conv)
  next
    case False
    with assms(1) g m obtain n where n: "findAISNodeByPodName (smap_Pmap m) ?pod = Inr n"
      and d: "ans_do E ?h (SetPrimaryProxy (sn_ID n) (sn_PubURL n) True) = None"
      by (auto simp: setPrimaryTo_def getClusterMap_def Let_def run_simps split: option.splits sum.splits)
    with False assms(1) g m have "hist s' = Did (SetPrimaryProxy (sn_ID n) (sn_PubURL n) True) None # ?h"
      by (auto simp: setPrimaryTo_def getClusterMap_def Let_def run_simps split: option.splits)
    with assms(2) have "set new = {Did (SetPrimaryProxy (sn_ID n) (sn_PubURL n) True) None,
        GotSmap (Inr m), Did GetClient None}"
      by (simp add: append_eq_append_conv_if flip: append_Cons)
         (metis append_Cons append_Nil append_same_eq empty_set list.simps(15))
    with findAISNode_found [OF n] show ?thesis
      by (auto simp: primary_at_def matches_pod_def)
  qed
qed

lemma run_isIndexValidNewPrimary:
  assumes "isIndexValidNewPrimary ss m i E s = (Ret True, s')" and "hist s' = new @ hist s"
  shows "checked_pod (cr s) ss m i new"
proof -
  let ?pod = "proxy_PodName (cr s) i"
  from assms(1) obtain n where n: "findAISNodeByPodName (smap_Pmap m) ?pod = Inr n"
    and d: "\<not> sn_InMaintOrDecomm n"
    by (auto simp: isIndexValidNewPrimary_def Let_def run_simps split: sum.splits if_splits)
  with assms(1) obtain p where p: "ans_pod E (hist s) (in_namespace (cr s) ?pod) = Inr p"
    and r: "isPodReady (Some p)" "st_UpdateRevision ss \<noteq> [] \<longrightarrow> isPodOnRevision (Some p) (st_UpdateRevision ss)"
    by (auto simp: isIndexValidNewPrimary_def isPodValidNewPrimary_def getPod_def Let_def run_simps
        split: sum.splits if_splits)
  with n d assms(1) have "hist s' = GotPod (in_namespace (cr s) ?pod) (Inr p) # hist s"
    by (auto simp: isIndexValidNewPrimary_def isPodValidNewPrimary_def getPod_def Let_def run_simps
        split: if_splits)
  with assms(2) have "GotPod (in_namespace (cr s) ?pod) (Inr p) \<in> set new" by (cases new) auto
  with findAISNode_found [OF n] d r show ?thesis by (auto simp: matches_pod_def checked_pod_def)
qed

section \<open>Reassigning the primary\<close>

abbreviation primary_classes :: "call_class set" where
  "primary_classes \<equiv> {CGetClient, CRead, CSetPrimary}"

lemma primary_classes_free: "primary_classes \<inter> cr_classes = {}" "primary_classes \<inter> {CDecommNode, CPatchSS} = {}"
  by (auto simp: cr_classes_def)

lemma runs_set_first_eligible:
  assumes "\<And>b. Q b \<Longrightarrow> GotSmap (Inr m) \<in> set b" and "lasting Q"
    and C: "primary_classes \<inter> C = {}" and "set idxs \<subseteq> {0..<n}"
  shows "runs E (guard C W h0) (having ais h0 Q) (set_first_eligible ss m idxs)
     (\<lambda>_. having ais h0 (\<lambda>b. Q b \<and> primary_below ais ss n b))"
  using assms(4)
proof (induction idxs)
  case Nil
  show ?case by (simp add: runs_throw)
next
  case (Cons i idxs)
  from Cons.prems have i: "0 \<le> i" "i < n" and rest: "set idxs \<subseteq> {0..<n}" by auto
  have check: "runs E (guard C W h0) (having ais h0 Q) (isIndexValidNewPrimary ss m i)
      (\<lambda>ok. having ais h0 (\<lambda>b. Q b \<and> (ok \<longrightarrow> checked_pod ais ss m i b)))"
  proof (rule runs_gather [where D = primary_classes])
    fix s v s' new
    assume "cr s = ais" "isIndexValidNewPrimary ss m i E s = (Ret v, s')" "hist s' = new @ hist s"
    then show "v \<longrightarrow> checked_pod ais ss m i new"
      using run_isIndexValidNewPrimary [of ss m i E s s' new] by (cases v) auto
  qed (use assms C primary_classes_free in \<open>auto intro!: foot_isIndexValidNewPrimary lasting_intros\<close>)
  let ?Q1 = "\<lambda>b. Q b \<and> eligible_primary ais ss i b"
  have set: "runs E (guard C W h0) (having ais h0 ?Q1) (attempt (setPrimaryTo i))
      (\<lambda>r. having ais h0 (\<lambda>b. ?Q1 b \<and> (r = Inr () \<longrightarrow> primary_at ais i b)))"
  proof (rule runs_gather [where D = primary_classes])
    fix s v s' new
    assume "cr s = ais" "attempt (setPrimaryTo i) E s = (Ret v, s')" "hist s' = new @ hist s"
    then show "v = Inr () \<longrightarrow> primary_at ais i new"
      using run_setPrimaryTo [of i E s s' new]
      by (auto simp: run_simps split: prod.splits outcome.splits)
  qed (use assms(2) C primary_classes_free in
      \<open>auto intro!: foot_setPrimaryTo foot.steps_attempt lasting_intros\<close>)
  have set': "runs E (guard C W h0) (having ais h0 (\<lambda>b. Q b \<and> eligible_primary ais ss i b))
      (bind (attempt (setPrimaryTo i)) (\<lambda>r. case r of
         Inl e \<Rightarrow> set_first_eligible ss m idxs | Inr _ \<Rightarrow> ret ()))
      (\<lambda>_. having ais h0 (\<lambda>b. Q b \<and> primary_below ais ss n b))"
  proof (rule runs_bind [OF set])
    fix r :: "err + unit"
    show "runs E (guard C W h0) (having ais h0 (\<lambda>b. ?Q1 b \<and> (r = Inr () \<longrightarrow> primary_at ais i b)))
      (case r of Inl e \<Rightarrow> set_first_eligible ss m idxs | Inr _ \<Rightarrow> ret ())
      (\<lambda>_. having ais h0 (\<lambda>b. Q b \<and> primary_below ais ss n b))"
    proof (cases r)
      case (Inl e)
      then show ?thesis
        by (auto intro!: runs_weaken [OF Cons.IH [OF rest]] elim: having_mono)
    next
      case (Inr u)
      then show ?thesis
        using i by (auto intro!: runs_ret elim!: having_mono simp: primary_below_def)
    qed
  qed
  show ?case
    unfolding set_first_eligible.simps
  proof (rule runs_bind [OF check], rule runs_if)
    fix ok :: bool
    assume "\<not> ok"
    show "runs E (guard C W h0) (having ais h0 (\<lambda>b. Q b \<and> (ok \<longrightarrow> checked_pod ais ss m i b)))
        (set_first_eligible ss m idxs) (\<lambda>_. having ais h0 (\<lambda>b. Q b \<and> primary_below ais ss n b))"
      by (rule runs_weaken [OF Cons.IH [OF rest]]) (auto elim: having_mono)
  next
    fix ok :: bool
    assume "\<not> \<not> ok"
    then show "runs E (guard C W h0) (having ais h0 (\<lambda>b. Q b \<and> (ok \<longrightarrow> checked_pod ais ss m i b)))
        (bind (attempt (setPrimaryTo i)) (\<lambda>r. case r of
         Inl e \<Rightarrow> set_first_eligible ss m idxs | Inr _ \<Rightarrow> ret ()))
        (\<lambda>_. having ais h0 (\<lambda>b. Q b \<and> primary_below ais ss n b))"
      by (intro runs_weaken [OF set']) (auto elim!: having_mono simp: eligible_primary_def dest: assms(1))
  qed
qed

lemma runs_ensurePrimarySurvivesScaleDown:
  assumes "\<And>b. Q b \<Longrightarrow> GotSmap (Inr m) \<in> set b" and "lasting Q" and "primary_classes \<inter> C = {}"
  shows "runs E (guard C W h0) (having ais h0 Q) (ensurePrimarySurvivesScaleDown ss m n)
     (\<lambda>_. having ais h0 (\<lambda>b. Q b \<and> primary_below ais ss n b))"
proof -
  have lowest: "runs E (guard C W h0) (having ais h0 Q) (setLowestEligiblePodAsPrimary ss m n)
     (\<lambda>_. having ais h0 (\<lambda>b. Q b \<and> primary_below ais ss n b))"
    unfolding setLowestEligiblePodAsPrimary_def
    by (rule runs_set_first_eligible) (use assms in auto)
  have keep: "runs E (guard C W h0) (having ais h0 Q) (ret ())
     (\<lambda>_. having ais h0 (\<lambda>b. Q b \<and> primary_below ais ss n b))"
    if "findPrimaryPodIdx ais m k = Some i" "i < n" for i k
  proof (rule runs_ret, erule having_mono)
    fix b
    assume Q: "Q b"
    from that(1) obtain p where p: "smap_Primary m = Some p" "0 \<le> i" "matches_pod p ais i"
      by (auto simp: findPrimaryPodIdx_def matches_pod_def find_Some_iff
          split: option.splits dest!: nth_mem)
    from assms(1) [OF Q] p that(2) show "Q b \<and> primary_below ais ss n b"
      using Q by (auto simp: primary_below_def primary_at_def)
  qed
  show ?thesis
    unfolding ensurePrimarySurvivesScaleDown_def
    by (intro runs_getCR_having runs_option runs_if lowest keep) auto
qed

section \<open>Scaling down\<close>

text \<open>
  What a scale-down to \<open>n\<close> proxies may do: decommission proxies whose pod goes away, without
  touching user data, and set the replicas to \<open>n\<close>; both once the primary is safe.
\<close>

definition scale_down_ok :: "AIStore \<Rightarrow> StatefulSet \<Rightarrow> int32 \<Rightarrow> event \<Rightarrow> history \<Rightarrow> bool" where
  "scale_down_ok ais ss n e b \<longleftrightarrow> primary_below ais ss n b \<and>
     (\<forall>d rm r. e = Did (DecommissionNode d rm) r \<longrightarrow> \<not> rm \<and>
        (\<exists>m nd i. GotSmap (Inr m) \<in> set b \<and> nd \<in> set (smap_Pmap m) \<and> sn_ID nd = d \<and> n \<le> i \<and> matches_pod nd ais i)) \<and>
     (\<forall>old new r. e = Did (PatchSS old new) r \<longrightarrow> new = old\<lparr>sts_Replicas := n\<rparr>)"

lemma runs_decommission_each:
  assumes "\<And>b. Q b \<Longrightarrow> GotSmap (Inr m) \<in> set b \<and> primary_below ais ss n b" and "lasting Q"
    and "set idxs \<subseteq> {n..}"
  shows "runs E (guard {CDecommNode, CPatchSS} (scale_down_ok ais ss n) h0) (having ais h0 Q)
     (decommission_each ais m idxs) (\<lambda>_. having ais h0 Q)"
  using assms(3)
proof (induction idxs)
  case (Cons i idxs)
  let ?G = "guard {CDecommNode, CPatchSS} (scale_down_ok ais ss n) h0"
  have att: "runs E ?G (having ais h0 Q) (attempt (act (DecommissionNode (sn_ID nd) False))) (\<lambda>_. having ais h0 Q)"
    if nd: "findAISNodeByPodName (smap_Pmap m) (proxy_PodName ais i) = Inr nd" for nd
    by (rule runs_attempt_act)
       (use findAISNode_found [OF nd] Cons.prems assms in \<open>auto simp: scale_down_ok_def matches_pod_def\<close>)
  show ?case
    unfolding decommission_each.simps
    by (intro runs_sum runs_bind [OF att] Cons.IH) (use Cons.prems in auto)
qed (simp add: runs_ret)

lemma runs_UpdateReplicas:
  assumes "\<And>b. Q b \<Longrightarrow> primary_below ais ss n b" and "lasting Q"
  shows "runs E (guard {CDecommNode, CPatchSS} (scale_down_ok ais ss n) h0) (having ais h0 Q)
     (UpdateStatefulSetReplicas nm n) (\<lambda>_. having ais h0 Q)"
  unfolding UpdateStatefulSetReplicas_def
proof (rule runs_bind)
  show "runs E (guard {CDecommNode, CPatchSS} (scale_down_ok ais ss n) h0) (having ais h0 Q)
      (getSS nm) (\<lambda>_. having ais h0 Q)"
    by (rule runs_free [where D = "{CRead}"]) (use assms in \<open>auto simp: cr_classes_def foot_reads\<close>)
next
  fix x
  show "runs E (guard {CDecommNode, CPatchSS} (scale_down_ok ais ss n) h0) (having ais h0 Q)
      (if sts_Replicas x = n then ret False
       else bind (act (PatchSS x (x\<lparr>sts_Replicas := n\<rparr>))) (\<lambda>_. ret True)) (\<lambda>_. having ais h0 Q)"
    by (intro runs_if runs_ret runs_bind [OF runs_act_guarded])
       (use assms in \<open>auto simp: scale_down_ok_def cr_classes_def\<close>)
qed

lemma runs_handleProxyScale:
  assumes "GetProxySize ais = Some n" and "n < sts_Replicas ss"
  shows "runs E (guard {CDecommNode, CPatchSS} (scale_down_ok ais ss n) h0) (having ais h0 (\<lambda>_. True))
     (handleProxyScale ss) (\<lambda>_. having ais h0 (primary_below ais ss n))"
proof -
  let ?G = "guard {CDecommNode, CPatchSS} (scale_down_ok ais ss n) h0"
  let ?Q = "\<lambda>m b. GotSmap (Inr m) \<in> set b"
  have client: "runs E ?G (having ais h0 (\<lambda>_. True)) (act GetClient) (\<lambda>_. having ais h0 (\<lambda>_. True))"
    by (rule runs_free [where D = "{CGetClient}"]) (auto simp: cr_classes_def intro: foot_intros lasting_intros)
  have smap: "runs E ?G (having ais h0 (\<lambda>_. True)) getClusterMap (\<lambda>m. having ais h0 (?Q m))"
    unfolding getClusterMap_def
    by (rule runs_weaken [OF runs_call_gather]) (auto simp: cr_classes_def intro: lasting_intros)
  have ensure: "runs E ?G (having ais h0 (?Q m)) (ensurePrimarySurvivesScaleDown ss m n)
      (\<lambda>_. having ais h0 (\<lambda>b. ?Q m b \<and> primary_below ais ss n b))" for m
    by (rule runs_ensurePrimarySurvivesScaleDown) (auto intro: lasting_intros)
  have decomm: "runs E ?G (having ais h0 (\<lambda>b. ?Q m b \<and> primary_below ais ss n b))
      (decommissionProxies ais m (sts_Replicas ss) n)
      (\<lambda>_. having ais h0 (primary_below ais ss n))" for m
    unfolding decommissionProxies_def
    by (rule runs_weaken [OF runs_decommission_each [where Q = "\<lambda>b. ?Q m b \<and> primary_below ais ss n b"]])
       (auto intro: lasting_intros elim: having_mono)
  have prepare: "runs E ?G (having ais h0 (\<lambda>_. True)) (prepareProxyScaleDown ss)
      (\<lambda>_. having ais h0 (primary_below ais ss n))"
    unfolding prepareProxyScaleDown_def
  proof (rule runs_getCR_having, rule runs_deref)
    fix k
    assume "GetProxySize ais = Some k"
    with assms(1) have k: "k = n" by simp
    show "runs E ?G (having ais h0 (\<lambda>_. True)) (bind (act GetClient) (\<lambda>_. bind getClusterMap (\<lambda>smap.
        bind (ensurePrimarySurvivesScaleDown ss smap k) (\<lambda>_. decommissionProxies ais smap (sts_Replicas ss) k))))
        (\<lambda>_. having ais h0 (primary_below ais ss n))"
      unfolding k by (intro runs_bind [OF client] runs_bind [OF smap] runs_bind [OF ensure] decomm)
  qed
  show ?thesis
    unfolding handleProxyScale_def
  proof (rule runs_getCR_having, rule runs_deref)
    fix k
    assume "GetProxySize ais = Some k"
    with assms have k: "k = n" "sts_Replicas ss \<noteq> n" "sts_Replicas ss > n" by simp_all
    show "runs E ?G (having ais h0 (\<lambda>_. True)) (if sts_Replicas ss = k then ret ()
       else bind (if sts_Replicas ss > k then prepareProxyScaleDown ss else ret ()) (\<lambda>_.
            bind (UpdateStatefulSetReplicas (proxy_StatefulSetNSName ais) k) (\<lambda>_. ret ())))
        (\<lambda>_. having ais h0 (primary_below ais ss n))"
      using k by (auto intro!: runs_bind [OF prepare] runs_bind [OF runs_UpdateReplicas] runs_ret lasting_intros)
  qed
qed

section \<open>Rollouts\<close>

text \<open>
  A template patch of a cluster with ready proxies: pod 0 holds the primary role and the
  partition keeps pod 0 from being rolled.
\<close>

definition template_patch_ok :: "AIStore \<Rightarrow> StatefulSet \<Rightarrow> event \<Rightarrow> history \<Rightarrow> bool" where
  "template_patch_ok ais ss e b \<longleftrightarrow> (\<forall>old new r. e = Did (PatchSS old new) r \<longrightarrow> old = ss \<and>
     sts_Replicas new = sts_Replicas ss \<and>
     (st_ReadyReplicas ss > 0 \<longrightarrow> primary_at ais 0 b \<and>
        sts_Strategy new = RollingUpdateStrategy \<and> sts_RollingUpdate new = Some 1))"

lemma runs_setPrimaryTo:
  assumes "lasting Q" and "primary_classes \<inter> C = {}"
  shows "runs E (guard C W h0) (having ais h0 Q) (setPrimaryTo i) (\<lambda>_. having ais h0 (\<lambda>b. Q b \<and> primary_at ais i b))"
proof (rule runs_gather [where D = primary_classes])
  fix s v s' new
  assume "cr s = ais" "setPrimaryTo i E s = (Ret v, s')" "hist s' = new @ hist s"
  then show "primary_at ais i new" using run_setPrimaryTo [of i E s s' new] by simp
qed (use assms primary_classes_free in \<open>auto intro!: foot_setPrimaryTo lasting_intros\<close>)

lemma runs_syncProxyPodSpec:
  "runs E (guard {CPatchSS} (template_patch_ok ais ss) h0) (having ais h0 (\<lambda>_. True))
     (syncProxyPodSpec ss) (\<lambda>_ _. True)"
proof -
  let ?G = "guard {CPatchSS} (template_patch_ok ais ss) h0"
  let ?held = "ss\<lparr>sts_Strategy := RollingUpdateStrategy, sts_RollingUpdate := Some 1\<rparr>"
  let ?P = "\<lambda>u. having ais h0 (\<lambda>b. if st_ReadyReplicas ss > 0 then u = ?held \<and> primary_at ais 0 b else u = ss)"
  have tmpl: "runs E ?G (having ais h0 (\<lambda>_. True)) desiredProxyTemplate (\<lambda>_. having ais h0 (\<lambda>_. True))"
    by (rule runs_free [where D = "{}"]) (auto intro: foot_desiredProxyTemplate lasting_intros)
  have hold: "runs E ?G (having ais h0 (\<lambda>_. True)) (if st_ReadyReplicas ss > 0
      then bind (setPrimaryTo 0) (\<lambda>_. ret ?held) else ret ss) ?P"
    by (intro runs_if runs_bind [OF runs_setPrimaryTo] runs_ret)
       (auto elim!: having_mono intro: lasting_intros)
  have patch: "runs E ?G (?P u) (bind (act (PatchSS ss (u\<lparr>sts_Template := t\<rparr>))) (\<lambda>_. ret True)) (\<lambda>_ _. True)"
    for u t
    by (rule runs_bind [OF runs_act_guarded])
       (auto simp: template_patch_ok_def lasting_def cr_classes_def intro!: runs_ret
         dest: lastingD [OF lasting_primary_at] split: if_splits)
  show ?thesis
    unfolding syncProxyPodSpec_def Let_def
    by (intro runs_asks runs_bind [OF tmpl] runs_if runs_ret runs_bind [OF hold] patch) simp_all
qed

text \<open>The partition is lifted only when pod 0 is all that is left, with the primary moved away.\<close>

definition partition_patch_ok :: "AIStore \<Rightarrow> StatefulSet \<Rightarrow> event \<Rightarrow> history \<Rightarrow> bool" where
  "partition_patch_ok ais ss e b \<longleftrightarrow> (\<forall>old new r. e = Did (PatchSS old new) r \<longrightarrow>
     st_CurrentReplicas ss = 1 \<and> primary_at ais (wrap32 (sts_Replicas ss - 1)) b \<and>
     new = ss\<lparr>sts_Strategy := RollingUpdateStrategy, sts_RollingUpdate := Some 0\<rparr>)"

lemma runs_handleProxyRollout:
  "runs E (guard {CPatchSS} (partition_patch_ok ais ss) h0) (having ais h0 (\<lambda>_. True))
     (handleProxyRollout ss) (\<lambda>_ _. True)"
  unfolding handleProxyRollout_def setHighestPodAsPrimary_def resetSSPartition_def
  by (intro runs_if runs_ret runs_bind [OF runs_setPrimaryTo] runs_weaken [OF runs_act_guarded])
     (auto simp: partition_patch_ok_def cr_classes_def shouldResetPartition_def
       intro: lasting_intros split: option.splits if_splits)

end
