(* ===== verification/Target_Safety.thy ===== *)
theory Target_Safety
  imports Target_Controller Evidence
begin

text \<open>
  What the target controller is careful about: the data on a target. Which pod a rollout may
  touch and when, what a scale-down does to the targets that go away and when the StatefulSet
  may shrink, and that rebalance is off while targets come and go.
\<close>

section \<open>Rollouts\<close>

text \<open>
  Ordinal \<open>i\<close> is the one to roll: every lower ordinal runs the new revision and finished its
  rollout, and the pod of \<open>i\<close> itself is active on another revision.
\<close>

definition rolled :: "AIStore \<Rightarrow> string \<Rightarrow> (string \<rightharpoonup> Pod) \<Rightarrow> int32 \<Rightarrow> bool" where
  "rolled ais revn m j \<longleftrightarrow> (\<exists>q. m (target_PodName ais j) = Some q \<and>
     annotation (pod_Labels q) ControllerRevisionHashLabelKey = revn \<and> isPodRolloutCompleted (Some q))"

definition next_to_roll :: "AIStore \<Rightarrow> StatefulSet \<Rightarrow> Pod list \<Rightarrow> int32 \<Rightarrow> bool" where
  "next_to_roll ais ss pods i \<longleftrightarrow> 0 \<le> i \<and> i < sts_Replicas ss \<and>
     (\<forall>j. 0 \<le> j \<and> j < i \<longrightarrow> rolled ais (st_UpdateRevision ss) (pod_map pods) j) \<and>
     (\<exists>p. pod_map pods (target_PodName ais i) = Some p \<and> isPodActive (Some p) \<and>
        annotation (pod_Labels p) ControllerRevisionHashLabelKey \<noteq> st_UpdateRevision ss)"

lemma scan_ordinals_found:
  assumes "scan_ordinals ais revn m [k..n - 1] \<noteq> []"
    and "\<forall>j. 0 \<le> j \<and> j < k - 1 \<longrightarrow> rolled ais revn m j" and "0 \<le> k"
    and "k > 0 \<longrightarrow> (\<exists>q. m (target_PodName ais (k - 1)) = Some q \<and>
       annotation (pod_Labels q) ControllerRevisionHashLabelKey = revn)"
  shows "\<exists>i. k \<le> i \<and> i < n \<and> scan_ordinals ais revn m [k..n - 1] = target_PodName ais i \<and>
     (\<forall>j. 0 \<le> j \<and> j < i \<longrightarrow> rolled ais revn m j) \<and>
     (\<exists>p. m (target_PodName ais i) = Some p \<and> isPodActive (Some p) \<and>
        annotation (pod_Labels p) ControllerRevisionHashLabelKey \<noteq> revn)"
  using assms
proof (induction "nat (n - k)" arbitrary: k)
  case 0
  then show ?case by simp
next
  case (Suc d)
  then have kn: "k < n" by simp
  then have cons: "[k..n - 1] = k # [k + 1..n - 1]" by (simp add: upto_rec1)
  from Suc.prems(1) have c: "k > 0 \<longrightarrow> isPodRolloutCompleted (m (target_PodName ais (k - 1)))"
    by (auto simp: cons split: if_splits)
  with Suc.prems(1) obtain p where p: "m (target_PodName ais k) = Some p" "isPodActive (Some p)"
    by (auto simp: cons Let_def split: if_splits option.splits)
  have below: "\<forall>j. 0 \<le> j \<and> j < k \<longrightarrow> rolled ais revn m j"
  proof (intro allI impI)
    fix j :: int
    assume j: "0 \<le> j \<and> j < k"
    show "rolled ais revn m j"
    proof (cases "j = k - 1")
      case True
      with j c Suc.prems(4) show ?thesis by (auto simp: rolled_def)
    next
      case False
      with j Suc.prems(2) show ?thesis by simp
    qed
  qed
  show ?case
  proof (cases "annotation (pod_Labels p) ControllerRevisionHashLabelKey = revn")
    case True
    with c p have eq: "scan_ordinals ais revn m [k..n - 1] = scan_ordinals ais revn m [k + 1..n - 1]"
      by (auto simp: cons Let_def)
    have "\<exists>i. k + 1 \<le> i \<and> i < n \<and> scan_ordinals ais revn m [k + 1..n - 1] = target_PodName ais i \<and>
     (\<forall>j. 0 \<le> j \<and> j < i \<longrightarrow> rolled ais revn m j) \<and>
     (\<exists>p. m (target_PodName ais i) = Some p \<and> isPodActive (Some p) \<and>
        annotation (pod_Labels p) ControllerRevisionHashLabelKey \<noteq> revn)"
      by (rule Suc.hyps(1)) (use Suc.hyps(2) Suc.prems below p True eq in auto)
    then obtain i where "k + 1 \<le> i" and i: "i < n \<and> scan_ordinals ais revn m [k + 1..n - 1] = target_PodName ais i \<and>
     (\<forall>j. 0 \<le> j \<and> j < i \<longrightarrow> rolled ais revn m j) \<and>
     (\<exists>p. m (target_PodName ais i) = Some p \<and> isPodActive (Some p) \<and>
        annotation (pod_Labels p) ControllerRevisionHashLabelKey \<noteq> revn)" by blast
    with eq show ?thesis by (intro exI [of _ i]) simp
  next
    case False
    with c p have "scan_ordinals ais revn m [k..n - 1] = target_PodName ais k"
      by (auto simp: cons Let_def)
    with p False below kn show ?thesis by auto
  qed
qed

definition picked :: "AIStore \<Rightarrow> StatefulSet \<Rightarrow> int32 \<Rightarrow> history \<Rightarrow> bool" where
  "picked ais ss i b \<longleftrightarrow> (\<exists>pods. GotPods (Namespace ais) (target_SelectorLabels ais) (Inr pods) \<in> set b \<and>
     next_to_roll ais ss pods i)"

text \<open>The pod cannot be running, or its target is in maintenance.\<close>

definition out_of_service :: "AIStore \<Rightarrow> int32 \<Rightarrow> history \<Rightarrow> bool" where
  "out_of_service ais i b \<longleftrightarrow>
     (\<exists>p. GotPod (in_namespace ais (target_PodName ais i)) (Inr p) \<in> set b \<and> isPodUnschedulable (Some p)) \<or>
     (\<exists>m n. GotSmap (Inr m) \<in> set b \<and> n \<in> set (smap_Tmap m) \<and>
        hostnameMatchesPod (sn_ControlHost n) (target_PodName ais i) \<and> sn_InMaint n)"

lemma lasting_picked [lasting_intros]: "lasting (picked ais ss i)"
  unfolding picked_def by (intro lasting_intros)

lemma lasting_out_of_service [lasting_intros]: "lasting (out_of_service ais i)"
  unfolding out_of_service_def by (intro lasting_intros)

definition rollout_ok :: "AIStore \<Rightarrow> StatefulSet \<Rightarrow> event \<Rightarrow> history \<Rightarrow> bool" where
  "rollout_ok ais ss e b \<longleftrightarrow> (\<exists>i. picked ais ss i b \<and>
     (\<forall>n r. e = Did (Delete KPod n) r \<longrightarrow>
        n = in_namespace ais (target_PodName ais i) \<and> out_of_service ais i b) \<and>
     (\<forall>d skip r. e = Did (StartMaintenance d skip) r \<longrightarrow> skip \<and>
        (\<exists>m n. GotSmap (Inr m) \<in> set b \<and> n \<in> set (smap_Tmap m) \<and> sn_ID n = d \<and>
           hostnameMatchesPod (sn_ControlHost n) (target_PodName ais i) \<and> \<not> sn_InMaint n)))"

lemma runs_wrapping: "runs E G P m Q \<Longrightarrow> runs E G P (wrapping msg m) Q"
  unfolding runs_def
proof (intro allI impI)
  fix s r s'
  assume m: "\<forall>s r s'. P s \<longrightarrow> m E s = (r, s') \<longrightarrow>
     (\<exists>new. hist s' = new @ hist s \<and> allowed G new (hist s)) \<and> (\<forall>a. r = Ret a \<longrightarrow> Q a s')"
  assume "P s" and "wrapping msg m E s = (r, s')"
  then show "(\<exists>new. hist s' = new @ hist s \<and> allowed G new (hist s)) \<and> (\<forall>a. r = Ret a \<longrightarrow> Q a s')"
    using m by (auto simp: wrapping_def run_simps split: prod.splits outcome.splits)
qed

lemma run_findPodNeedingUpdate:
  assumes "findPodNeedingUpdate ss E s = (Ret v, s')" and "hist s' = new @ hist s" and "v \<noteq> []"
  shows "\<exists>i. v = target_PodName (cr s) i \<and> picked (cr s) ss i new"
proof -
  let ?q = "ans_pods E (hist s) (Namespace (cr s)) (target_SelectorLabels (cr s))"
  from assms(1,3) obtain pods where pods: "?q = Inr pods"
    and v: "v = scan_ordinals (cr s) (st_UpdateRevision ss) (pod_map pods) [0..sts_Replicas ss - 1]"
    and s': "s' = s\<lparr>hist := GotPods (Namespace (cr s)) (target_SelectorLabels (cr s)) (Inr pods) # hist s\<rparr>"
    by (auto simp: findPodNeedingUpdate_def listPods_def run_simps split: sum.splits)
  have "\<forall>j. 0 \<le> j \<and> j < (0::int) - 1 \<longrightarrow> rolled (cr s) (st_UpdateRevision ss) (pod_map pods) j" by auto
  from scan_ordinals_found [OF _ this, of "sts_Replicas ss"] assms(3) v
  obtain i where "v = target_PodName (cr s) i" "next_to_roll (cr s) ss pods i"
    unfolding next_to_roll_def by auto
  moreover from s' assms(2)
  have "GotPods (Namespace (cr s)) (target_SelectorLabels (cr s)) (Inr pods) \<in> set new"
    by (cases new) auto
  ultimately show ?thesis by (auto simp: picked_def)
qed

abbreviation rollout_classes :: "call_class set" where
  "rollout_classes \<equiv> {CMaintenance, CDelete KPod}"

lemma runs_prepareTargetForRollout:
  "runs E (guard rollout_classes (rollout_ok ais ss) h0) (having ais h0 (picked ais ss i))
     (prepareTargetForRollout (target_PodName ais i))
     (\<lambda>requeue. having ais h0 (\<lambda>b. picked ais ss i b \<and> (\<not> requeue \<longrightarrow> out_of_service ais i b)))"
  (is "runs E ?G _ _ ?R")
proof -
  let ?pod = "target_PodName ais i"
  let ?Q1 = "\<lambda>p b. picked ais ss i b \<and> GotPod (in_namespace ais ?pod) (Inr p) \<in> set b"
  let ?Q2 = "\<lambda>m b. picked ais ss i b \<and> GotSmap (Inr m) \<in> set b"
  have pod: "runs E ?G (having ais h0 (picked ais ss i)) (getPod (in_namespace ais ?pod)) (\<lambda>p. having ais h0 (?Q1 p))"
    unfolding getPod_def by (rule runs_call_gather) (auto simp: cr_classes_def intro: lasting_intros)
  have client: "runs E ?G (having ais h0 (?Q1 p)) (act GetClient) (\<lambda>_. having ais h0 (picked ais ss i))" for p
    by (rule runs_weaken [OF runs_free [where D = "{CGetClient}"]])
       (auto simp: cr_classes_def intro: foot_intros lasting_intros elim: having_mono)
  have smap: "runs E ?G (having ais h0 (picked ais ss i)) getClusterMap (\<lambda>m. having ais h0 (?Q2 m))"
    unfolding getClusterMap_def
    by (rule runs_call_gather) (auto simp: cr_classes_def intro: lasting_intros)
  have node: "runs E ?G (having ais h0 (?Q2 m)) (of_sum (findAISNodeByPodName (smap_Tmap m) ?pod))
      (\<lambda>n. having ais h0 (\<lambda>b. ?Q2 m b \<and> n \<in> set (smap_Tmap m) \<and> hostnameMatchesPod (sn_ControlHost n) ?pod))" for m
    by (auto simp: runs_def run_simps dest: findAISNode_found split: sum.splits)
  have maint: "runs E ?G (having ais h0 (\<lambda>b. ?Q2 m b \<and> n \<in> set (smap_Tmap m) \<and> hostnameMatchesPod (sn_ControlHost n) ?pod))
      (if \<not> sn_InMaint n then bind (wrapping msg (act (StartMaintenance (sn_ID n) True))) (\<lambda>_. ret True)
       else ret False) ?R" for m n msg
    by (intro runs_if runs_bind [OF runs_wrapping [OF runs_act_guarded]] runs_ret)
       (auto simp: cr_classes_def rollout_ok_def out_of_service_def intro!: lasting_intros elim!: having_mono)
  show ?thesis
    unfolding prepareTargetForRollout_def
    by (intro runs_getCR_having runs_bind [OF runs_wrapping [OF pod]] runs_if runs_ret
          runs_bind [OF runs_wrapping [OF client]] runs_bind [OF runs_wrapping [OF smap]]
          runs_bind [OF runs_wrapping [OF node]] maint)
       (auto elim!: having_mono simp: out_of_service_def)
qed

lemma runs_handleTargetRollout:
  "runs E (guard rollout_classes (rollout_ok ais ss) h0) (having ais h0 (\<lambda>_. True))
     (handleTargetRollout ss) (\<lambda>_ _. True)"
proof -
  let ?G = "guard rollout_classes (rollout_ok ais ss) h0"
  have find: "runs E ?G (having ais h0 (\<lambda>_. True)) (findPodNeedingUpdate ss)
      (\<lambda>v. having ais h0 (\<lambda>b. v \<noteq> [] \<longrightarrow> (\<exists>i. v = target_PodName ais i \<and> picked ais ss i b)))"
  proof (rule runs_weaken [OF runs_gather [where D = "{CRead}" and Q = "\<lambda>_. True"
        and R = "\<lambda>v b. v \<noteq> [] \<longrightarrow> (\<exists>i. v = target_PodName ais i \<and> picked ais ss i b)"]])
    show "steps E (foot {CRead}) (findPodNeedingUpdate ss)"
      unfolding findPodNeedingUpdate_def by (intro foot_intros) auto
    fix s v s' new
    assume "cr s = ais" "findPodNeedingUpdate ss E s = (Ret v, s')" "hist s' = new @ hist s"
    then show "v \<noteq> [] \<longrightarrow> (\<exists>i. v = target_PodName ais i \<and> picked ais ss i new)"
      using run_findPodNeedingUpdate by blast
  qed (auto simp: cr_classes_def intro!: lasting_intros)
  have delete: "runs E ?G (having ais h0 (\<lambda>b. picked ais ss i b \<and> out_of_service ais i b))
      (DeletePodIfExists (in_namespace ais (target_PodName ais i))) (\<lambda>_ _. True)" for i
    unfolding DeleteResourceIfExists_def
  proof (rule runs_bind [OF runs_attempt_act])
    show "runs E ?G (having ais h0 (\<lambda>b. picked ais ss i b \<and> out_of_service ais i b))
        (allowObjNotFound n r) (\<lambda>_ _. True)" for n r
      unfolding allowObjNotFound_def by (intro runs_sum runs_if runs_ret runs_throw) simp_all
  qed (auto simp: rollout_ok_def intro: lasting_intros)
  have rest: "runs E ?G (having ais h0 (\<lambda>b. v \<noteq> [] \<longrightarrow> (\<exists>i. v = target_PodName ais i \<and> picked ais ss i b)))
      (bind (prepareTargetForRollout v) (\<lambda>requeue.
          if requeue then ret x else bind (wrapping msg (DeletePodIfExists (in_namespace ais v))) (\<lambda>_. ret x)))
      (\<lambda>_ _. True)" if "v \<noteq> []" for v x msg
    unfolding runs_def
  proof (intro allI impI)
    fix s r s'
    assume h: "having ais h0 (\<lambda>b. v \<noteq> [] \<longrightarrow> (\<exists>i. v = target_PodName ais i \<and> picked ais ss i b)) s"
      and run: "bind (prepareTargetForRollout v) (\<lambda>requeue.
          if requeue then ret x else bind (wrapping msg (DeletePodIfExists (in_namespace ais v))) (\<lambda>_. ret x)) E s = (r, s')"
    with that obtain i where v: "v = target_PodName ais i" and hi: "having ais h0 (picked ais ss i) s"
      by (auto simp: having_def)
    have "runs E ?G (having ais h0 (picked ais ss i)) (bind (prepareTargetForRollout v) (\<lambda>requeue.
          if requeue then ret x else bind (wrapping msg (DeletePodIfExists (in_namespace ais v))) (\<lambda>_. ret x)))
          (\<lambda>_ _. True)"
      unfolding v
      by (intro runs_bind [OF runs_prepareTargetForRollout] runs_if runs_ret
            runs_bind [OF runs_wrapping [OF runs_weaken [OF delete]]]) (auto elim: having_mono)
    from runsE [OF this hi run] show "(\<exists>new. hist s' = new @ hist s \<and> allowed ?G new (hist s)) \<and> (\<forall>a. r = Ret a \<longrightarrow> True)"
      by blast
  qed
  show ?thesis
    unfolding handleTargetRollout_def
    by (intro runs_if runs_ret runs_getCR_having runs_bind [OF find] rest) simp_all
qed
text \<open>A pass disturbs at most one target.\<close>

definition disruptive :: "event \<Rightarrow> bool" where
  "disruptive e = (class_of e \<in> rollout_classes)"

lemma one_disruption:
  assumes "handleTargetRollout ss E s = (r, s')"
  shows "\<exists>new. hist s' = new @ hist s \<and> length (filter disruptive new) \<le> 1"
proof -
  have find: "\<exists>new. hist s1 = new @ hist s \<and> filter disruptive new = []"
    if "findPodNeedingUpdate ss E s = (r1, s1)" for r1 s1
    using that by (auto simp: findPodNeedingUpdate_def listPods_def run_simps disruptive_def split: sum.splits)
  have prepare: "\<exists>new. hist s2 = new @ hist s1 \<and> length (filter disruptive new) \<le> 1 \<and>
      (r2 = Ret False \<longrightarrow> filter disruptive new = [])"
    if "prepareTargetForRollout v E s1 = (r2, s2)" for v s1 r2 s2
    using that by (auto simp: prepareTargetForRollout_def wrapping_def getPod_def getClusterMap_def
        run_simps disruptive_def split: sum.splits option.splits if_splits)
  have delete: "\<exists>new. hist s3 = new @ hist s2 \<and> length (filter disruptive new) \<le> 1"
    if "wrapping msg (DeletePodIfExists n) E s2 = (r3, s3)" for msg n s2 r3 s3
    using that by (auto simp: wrapping_def DeleteResourceIfExists_def allowObjNotFound_def
        run_simps disruptive_def split: option.splits if_splits)
  show ?thesis
  proof (cases "findPodNeedingUpdate ss E s")
    case (Pair r1 s1)
    note f = find [OF Pair]
    show ?thesis
    proof (cases "\<exists>v. r1 = Ret v \<and> v \<noteq> []")
      case False
      with assms Pair f show ?thesis
        by (auto simp: handleTargetRollout_def run_simps split: if_splits outcome.splits)
    next
      case True
      then obtain v where v: "r1 = Ret v" "v \<noteq> []" by blast
      obtain r2 s2 where p: "prepareTargetForRollout v E s1 = (r2, s2)" by fastforce
      obtain r3 s3 where d: "wrapping (''failed to delete pod '' @ v) (DeletePodIfExists (in_namespace (cr s) v)) E s2 = (r3, s3)"
        by fastforce
      from assms Pair v p d have "s' = s \<or> s' = s2 \<or> (r2 = Ret False \<and> s' = s3)"
        by (auto simp: handleTargetRollout_def run_simps split: if_splits outcome.splits)
      with f prepare [OF p] delete [OF d] show ?thesis by fastforce
    qed
  qed
qed

section \<open>Scaling down\<close>

text \<open>
  What is done to a target before its pod goes: its ordinal is one of those that go, the
  cluster still counts it, and the CR says whether it is kept in maintenance or decommissioned,
  and whether its data go with it.
\<close>

definition retire_ok :: "AIStore \<Rightarrow> int32 \<Rightarrow> int32 \<Rightarrow> event \<Rightarrow> history \<Rightarrow> bool" where
  "retire_ok ais lo hi e b \<longleftrightarrow> (\<exists>m nd i. GotSmap (Inr m) \<in> set b \<and> nd \<in> set (smap_Tmap m) \<and> lo \<le> i \<and> i < hi \<and>
     hostnameMatchesPod (sn_ControlHost nd) (target_PodName ais i) \<and> \<not> sn_InMaintOrDecomm nd \<and>
     (\<forall>d skip r. e = Did (StartMaintenance d skip) r \<longrightarrow>
        d = sn_ID nd \<and> skip \<and> RetainOnScaleDown (SpecTarget (Spec ais))) \<and>
     (\<forall>d rm r. e = Did (DecommissionNode d rm) r \<longrightarrow> d = sn_ID nd \<and>
        \<not> RetainOnScaleDown (SpecTarget (Spec ais)) \<and> rm = (\<not> SafeDecommissionOnScaleDown (SpecTarget (Spec ais)))))"

abbreviation retire_classes :: "call_class set" where
  "retire_classes \<equiv> {CMaintenance, CDecommNode}"

lemma runs_prepare_target:
  assumes "idx \<in> set (down_from hi lo)" and "0 \<le> lo" and "is_int32 hi"
  shows "runs E (guard retire_classes (retire_ok ais lo hi) h0) (having ais h0 (\<lambda>b. GotSmap (Inr m) \<in> set b))
     (prepare_target ais m idx) (\<lambda>_. having ais h0 (\<lambda>b. GotSmap (Inr m) \<in> set b))"
    (is "runs E ?G (having ais h0 ?Q) _ _")
proof -
  let ?pod = "target_PodName ais (wrap32 (idx - 1))"
  have i: "wrap32 (idx - 1) = idx - 1" "lo \<le> idx - 1" "idx - 1 < hi"
    using assms by (auto simp: is_int32_def)
  have pod: "runs E ?G (having ais h0 ?Q) (bind (attempt (getPod (in_namespace ais ?pod))) f)
      (\<lambda>_. having ais h0 ?Q)" if "\<And>x. runs E ?G (having ais h0 ?Q) (f x) (\<lambda>_. having ais h0 ?Q)" for f
    by (rule runs_bind [OF runs_free [where D = "{CRead}"] that])
       (auto simp: cr_classes_def intro!: foot_intros lasting_intros foot.steps_attempt)
  have ok: "retire_ok ais lo hi e b"
    if "findAISNodeByPodName (smap_Tmap m) ?pod = Inr nd" "\<not> sn_InMaintOrDecomm nd" "?Q b"
      "e = Did (StartMaintenance (sn_ID nd) True) r \<and> RetainOnScaleDown (SpecTarget (Spec ais)) \<or>
       e = Did (DecommissionNode (sn_ID nd) (\<not> SafeDecommissionOnScaleDown (SpecTarget (Spec ais)))) r \<and>
         \<not> RetainOnScaleDown (SpecTarget (Spec ais))" for e b nd r
    unfolding retire_ok_def
    by (rule exI [of _ m], rule exI [of _ nd], rule exI [of _ "idx - 1"])
       (use findAISNode_found [OF that(1)] that(2-4) i in auto)
  show ?thesis
    unfolding prepare_target_def Let_def
    by (intro runs_sum pod runs_if runs_ret runs_throw runs_act_guarded ok)
       (auto simp: cr_classes_def intro: lasting_intros)
qed

lemma runs_for_each:
  assumes "\<And>x. x \<in> set xs \<Longrightarrow> runs E G P (f x) (\<lambda>_. P)"
  shows "runs E G P (for_each xs f) (\<lambda>_. P)"
  using assms by (induction xs) (auto intro!: runs_ret runs_bind)

lemma runs_prepareTargetsForScaleDown:
  assumes "GetTargetSize ais = Some n" and "0 \<le> n" and "is_int32 k"
  shows "runs E (guard retire_classes (retire_ok ais n k) h0) (having ais h0 (\<lambda>_. True))
     (prepareTargetsForScaleDown k) (\<lambda>_ _. True)"
proof -
  let ?G = "guard retire_classes (retire_ok ais n k) h0"
  have client: "runs E ?G (having ais h0 (\<lambda>_. True)) (act GetClient) (\<lambda>_. having ais h0 (\<lambda>_. True))"
    by (rule runs_free [where D = "{CGetClient}"]) (auto simp: cr_classes_def intro: foot_intros lasting_intros)
  have smap: "runs E ?G (having ais h0 (\<lambda>_. True)) getClusterMap (\<lambda>m. having ais h0 (\<lambda>b. GotSmap (Inr m) \<in> set b))"
    unfolding getClusterMap_def
    by (rule runs_weaken [OF runs_call_gather]) (auto simp: cr_classes_def intro: lasting_intros)
  have each: "runs E ?G (having ais h0 (\<lambda>b. GotSmap (Inr m) \<in> set b))
      (for_each (down_from k n') (prepare_target ais m)) (\<lambda>_ _. True)" if "GetTargetSize ais = Some n'" for m n'
    by (rule runs_weaken [OF runs_for_each [OF runs_prepare_target]]) (use assms that in auto)
  show ?thesis
    unfolding prepareTargetsForScaleDown_def
    by (intro runs_bind [OF client] runs_bind [OF smap] runs_getCR_having runs_deref each)
qed

section \<open>Rebalance is off first\<close>

text \<open>
  The CR says that rebalance is disabled, and a configuration generated from the CR as the
  server holds it then was pushed to the cluster.
\<close>

definition rebalance_off :: "k8s_lib \<Rightarrow> history \<Rightarrow> bool" where
  "rebalance_off L b \<longleftrightarrow> (\<exists>a a' conf. PatchedStatus a (Inr a') \<in> set b \<and>
     \<not> IsConditionTrue a ConditionReadyRebalance \<and> GenerateGlobalConfig L a' = Inr conf \<and>
     Did (SetClusterConfig conf) None \<in> set b)"

lemma lasting_rebalance_off [lasting_intros]: "lasting (rebalance_off L)"
  unfolding rebalance_off_def by (intro lasting_intros)

lemma SetConditionFalse_not_true [simp]: "\<not> IsConditionTrue (SetConditionFalse a c r msg) c"
  by (simp add: SetConditionFalse_def AddOrUpdateCondition_def IsConditionTrue_def Let_def)

lemma run_handleConfigState:
  assumes "handleConfigState True E s = (Ret (), s')"
  shows "\<exists>conf x. GenerateGlobalConfig (lib E) (cr s) = Inr conf \<and>
     hist s' = x @ Did (SetClusterConfig conf) None # Did GetClient None # hist s"
  using assms
  by (auto simp: handleConfigState_def updateClusterConfig_def SetClusterConfigUsingMsg_def Let_def
      patchAISAnnotations_def patchCR_def run_simps split: sum.splits option.splits if_splits)

lemma patchStatus_result:
  assumes "patchStatus E s = (Ret (), s')"
  shows "\<exists>a'. hist s' = PatchedStatus (cr s) (Inr a') # hist s \<and> cr s' = a'"
  using assms by (auto simp: patchStatus_def or_record_def recordError_def run_simps split: sum.splits)

lemma run_disableRebalance:
  assumes "disableRebalance reason msg E s = (Ret (), s')" and "hist s' = new @ hist s"
  shows "rebalance_off (lib E) new"
proof -
  let ?s1 = "s\<lparr>cr := SetConditionFalse (cr s) ConditionReadyRebalance reason msg\<rparr>"
  from assms(1) obtain s2 where p: "patchStatus E ?s1 = (Ret (), s2)"
    and h: "handleConfigState True E s2 = (Ret (), s')"
    by (auto simp: disableRebalance_def run_simps split: prod.splits outcome.splits)
  from patchStatus_result [OF p] obtain a' where a: "hist s2 = PatchedStatus (cr ?s1) (Inr a') # hist s" "cr s2 = a'"
    by auto
  from run_handleConfigState [OF h] obtain conf x where c: "GenerateGlobalConfig (lib E) a' = Inr conf"
    "hist s' = x @ Did (SetClusterConfig conf) None # Did GetClient None # hist s2" using a by auto
  with a assms(2) have "new = x @ [Did (SetClusterConfig conf) None, Did GetClient None, PatchedStatus (cr ?s1) (Inr a')]"
    by simp
  with c(1) show ?thesis unfolding rebalance_off_def by force
qed

abbreviation disable_classes :: "call_class set" where
  "disable_classes \<equiv> {CSetConfig, CGetClient, CPatchAIS, CPatchStatus, CEvent}"

lemma runs_disableRebalance:
  assumes "disable_classes \<inter> C = {}" and "lasting Q"
  shows "runs E (guard C W h0) (since h0 Q) (disableRebalance reason msg)
     (\<lambda>_. since h0 (\<lambda>b. Q b \<and> rebalance_off (lib E) b))"
proof (rule runs_since [where D = disable_classes])
  show "steps E (foot disable_classes) (disableRebalance reason msg)"
    by (rule foot_disableRebalance) simp
  fix s v s' new
  assume "disableRebalance reason msg E s = (Ret v, s')" "hist s' = new @ hist s"
  then show "rebalance_off (lib E) new" using run_disableRebalance by (cases v) simp
qed (use assms in \<open>auto intro: lasting_intros\<close>)

section \<open>A new pod template\<close>

definition target_template_ok :: "k8s_lib \<Rightarrow> StatefulSet \<Rightarrow> event \<Rightarrow> history \<Rightarrow> bool" where
  "target_template_ok L ss e b \<longleftrightarrow> (\<forall>old new r. e = Did (PatchSS old new) r \<longrightarrow>
     old = ss \<and> (\<exists>t. new = ss\<lparr>sts_Template := t\<rparr>) \<and> rebalance_off L b)"

lemma runs_attempt_throw:
  assumes "runs E G P m (\<lambda>v. Q)" and "\<And>e. f (Inl e) = throw (g e)" and "\<And>v. runs E G Q (f (Inr v)) R"
  shows "runs E G P (bind (attempt m) f) R"
  unfolding runs_def
proof (intro allI impI)
  fix s r s'
  assume P: "P s" and run: "bind (attempt m) f E s = (r, s')"
  obtain r1 s1 where m: "m E s = (r1, s1)" by (cases "m E s")
  obtain n1 where n1: "hist s1 = n1 @ hist s" "allowed G n1 (hist s)"
    and Q: "\<forall>a. r1 = Ret a \<longrightarrow> Q s1" by (rule runsE [OF assms(1) P m])
  show "(\<exists>new. hist s' = new @ hist s \<and> allowed G new (hist s)) \<and> (\<forall>a. r = Ret a \<longrightarrow> R a s')"
  proof (cases r1)
    case (Ret v)
    with run m have "f (Inr v) E s1 = (r, s')" by (simp add: run_simps)
    then obtain n2 where "hist s' = n2 @ hist s1" "allowed G n2 (hist s1)" "\<forall>a. r = Ret a \<longrightarrow> R a s'"
      by (rule runsE [OF assms(3) Q [rule_format, OF Ret]])
    with n1 show ?thesis by (auto simp: allowed_append)
  qed (use run m n1 assms(2) in \<open>auto simp: run_simps\<close>)
qed

lemma runs_syncTargetPodSpec:
  "runs E (guard {CPatchSS} (target_template_ok (lib E) ss) h0) (since h0 (\<lambda>_. True))
     (syncTargetPodSpec ss) (\<lambda>updated. since h0 (\<lambda>b. updated \<longrightarrow> rebalance_off (lib E) b))"
proof -
  let ?G = "guard {CPatchSS} (target_template_ok (lib E) ss) h0"
  have tmpl: "runs E ?G (since h0 (\<lambda>_. True)) desiredTargetTemplate (\<lambda>_. since h0 (\<lambda>_. True))"
    by (rule runs_since_free [where D = "{}"]) (auto intro: foot_desiredTargetTemplate lasting_intros)
  have patch: "runs E ?G (since h0 (rebalance_off (lib E))) (bind (act (PatchSS ss (ss\<lparr>sts_Template := t\<rparr>))) (\<lambda>_. ret True))
      (\<lambda>updated. since h0 (\<lambda>b. updated \<longrightarrow> rebalance_off (lib E) b))" for t
    by (intro runs_bind [OF runs_since_act] runs_ret)
       (auto simp: target_template_ok_def intro!: lasting_intros elim!: since_mono)
  have disable: "runs E ?G (since h0 (\<lambda>_. True)) (disableRebalance rs msg) (\<lambda>_. since h0 (rebalance_off (lib E)))" for rs msg
    by (rule runs_weaken [OF runs_disableRebalance]) (auto intro: lasting_intros)
  show ?thesis
    unfolding syncTargetPodSpec_def Let_def
    by (intro runs_asks runs_bind [OF tmpl])
       (auto simp: split_beta intro!: runs_ret runs_attempt_throw [OF disable] patch elim: since_mono)
qed

section \<open>Resizing\<close>

text \<open>
  What the code takes for the sign that the pods from \<open>lo\<close> up to \<open>hi\<close> may go, in a cluster map.
  Targets that are kept are in maintenance, if the map has them. Otherwise no
  target of the map is in the middle of a decommission, and the map has another number of
  targets than there are replicas; it need not be the leaving ones that are missing.
\<close>

definition map_permits :: "AIStore \<Rightarrow> int32 \<Rightarrow> int32 \<Rightarrow> history \<Rightarrow> bool" where
  "map_permits ais lo hi b \<longleftrightarrow> (\<exists>m. GotSmap (Inr m) \<in> set b \<and>
     (if RetainOnScaleDown (SpecTarget (Spec ais))
      then \<forall>i nd. lo \<le> i \<and> i < hi \<and> findAISNodeByPodName (smap_Tmap m) (target_PodName ais i) = Inr nd
             \<longrightarrow> sn_InMaint nd
      else (\<forall>nd\<in>set (smap_Tmap m). sn_InMaintOrDecomm nd \<longrightarrow> sn_InMaint nd) \<and>
           wrap32 (int (length (smap_Tmap m))) \<noteq> hi))"

lemma lasting_map_permits [lasting_intros]: "lasting (map_permits ais lo hi)"
  unfolding map_permits_def by (intro lasting_intros)

text \<open>What a resize from \<open>c\<close> to \<open>n\<close> targets rests on.\<close>

definition may_resize :: "k8s_lib \<Rightarrow> AIStore \<Rightarrow> int32 \<Rightarrow> int32 \<Rightarrow> history \<Rightarrow> bool" where
  "may_resize L ais n c b \<longleftrightarrow> (n < c \<longrightarrow> map_permits ais n c b) \<and>
     (0 < c \<and> c + 1 < n \<longrightarrow> Did (Health True) None \<in> set b \<and> rebalance_off L b)"

lemma lasting_may_resize [lasting_intros]: "lasting (may_resize L ais n c)"
  unfolding may_resize_def by (intro lasting_intros)

text \<open>
  The code reads the StatefulSet twice: the size \<open>c\<close> it decides on comes from the first read, and
  the object \<open>old\<close> it patches is the answer of the second, made immediately before the patch. The
  two sizes are the same unless somebody resized the StatefulSet in between.
\<close>

abbreviation read_ss :: "AIStore \<Rightarrow> StatefulSet \<Rightarrow> event" where
  "read_ss ais ss \<equiv> GotSS False (target_StatefulSetNSName ais) (Inr ss)"

definition resize_ok :: "k8s_lib \<Rightarrow> AIStore \<Rightarrow> int32 \<Rightarrow> event \<Rightarrow> history \<Rightarrow> bool" where
  "resize_ok L ais n e b \<longleftrightarrow> (\<forall>old new r. e = Did (PatchSS old new) r \<longrightarrow> new = old\<lparr>sts_Replicas := n\<rparr> \<and>
     (\<exists>b' cur. b = read_ss ais old # b' \<and> read_ss ais cur \<in> set b' \<and>
        may_resize L ais n (sts_Replicas cur) b' \<and>
        ((\<forall>x. read_ss ais x \<in> set b \<longrightarrow> sts_Replicas x = sts_Replicas old) \<longrightarrow>
           may_resize L ais n (sts_Replicas old) b')))"

lemma retain_ready:
  assumes "isReadyToScaleDownRetain ais m hi lo" and "0 \<le> lo" and "is_int32 hi"
    and "lo \<le> i" and "i < hi" and "findAISNodeByPodName (smap_Tmap m) (target_PodName ais i) = Inr nd"
  shows "sn_InMaint nd"
proof -
  from assms have "i + 1 \<in> set (down_from hi lo)" "wrap32 (i + 1 - 1) = i"
    by (auto simp: is_int32_def)
  with assms(1,6) show ?thesis
    by (auto simp: isReadyToScaleDownRetain_def dest!: bspec [of _ _ "i + 1"])
qed

lemma run_isReadyToScaleDown:
  assumes "isReadyToScaleDown hi E s = (Ret True, s')" and "hist s' = new @ hist s"
    and "GetTargetSize (cr s) = Some lo" and "0 \<le> lo" and "is_int32 hi"
  shows "map_permits (cr s) lo hi new"
proof -
  from assms(1) obtain m where m: "ans_smap E (Did GetClient None # hist s) = Inr m"
    and s': "hist s' = GotSmap (Inr m) # Did GetClient None # hist s"
    and ready: "if RetainOnScaleDown (SpecTarget (Spec (cr s))) then isReadyToScaleDownRetain (cr s) m hi lo
       else isReadyToScaleDownDecommission m hi"
    using assms(3) by (auto simp: isReadyToScaleDown_def getClusterMap_def run_simps split: option.splits sum.splits if_splits)
  from s' assms(2) have new: "GotSmap (Inr m) \<in> set new"
    by (metis append_Cons append_Nil append_same_eq list.set_intros(1))
  show ?thesis
  proof (cases "RetainOnScaleDown (SpecTarget (Spec (cr s)))")
    case True
    with ready have "isReadyToScaleDownRetain (cr s) m hi lo" by simp
    from retain_ready [OF this assms(4,5)] True new show ?thesis by (auto simp: map_permits_def)
  next
    case False
    with ready new show ?thesis
      by (auto simp: map_permits_def isReadyToScaleDownDecommission_def split: if_splits)
  qed
qed

lemma runs_since_UpdateReplicas:
  assumes "\<And>b old r. Q b \<Longrightarrow> W (Did (PatchSS old (old\<lparr>sts_Replicas := n\<rparr>)) r) (GotSS False nm (Inr old) # b)"
  shows "runs E (guard {CPatchSS} W h0) (since h0 Q) (UpdateStatefulSetReplicas nm n) (\<lambda>_ _. True)"
  unfolding runs_def
proof (intro allI impI conjI)
  fix s r s'
  assume "since h0 Q s" and run: "UpdateStatefulSetReplicas nm n E s = (r, s')"
  then obtain b where b: "hist s = b @ h0" "Q b" by (auto simp: since_def)
  let ?G = "guard {CPatchSS} W h0"
  let ?g = "GotSS False nm (ans_ss E (hist s) False nm)"
  have read: "?G ?g (hist s)" by (simp add: guard_def)
  consider "hist s' = ?g # hist s" | old x where "ans_ss E (hist s) False nm = Inr old"
      "hist s' = Did (PatchSS old (old\<lparr>sts_Replicas := n\<rparr>)) x # ?g # hist s"
    using run by (auto simp: UpdateStatefulSetReplicas_def getSS_def run_simps split: sum.splits option.splits if_splits)
  then show "\<exists>new. hist s' = new @ hist s \<and> allowed ?G new (hist s)"
  proof cases
    case 1
    with read show ?thesis by (intro exI [of _ "[?g]"]) simp
  next
    case 2
    with b assms [OF b(2)] have "?G (Did (PatchSS old (old\<lparr>sts_Replicas := n\<rparr>)) x) (?g # hist s)"
      by (auto simp: guard_def)
    with 2 read show ?thesis
      by (intro exI [of _ "[Did (PatchSS old (old\<lparr>sts_Replicas := n\<rparr>)) x, ?g]"]) simp
  qed
qed simp

abbreviation resize_guard :: "k8s_lib \<Rightarrow> AIStore \<Rightarrow> int32 \<Rightarrow> history \<Rightarrow> event \<Rightarrow> history \<Rightarrow> bool" where
  "resize_guard L ais n h0 \<equiv> guard {CPatchSS} (resize_ok L ais n) h0"

abbreviation saw_size :: "AIStore \<Rightarrow> StatefulSet \<Rightarrow> history \<Rightarrow> bool" where
  "saw_size ais cur b \<equiv> read_ss ais cur \<in> set b"

abbreviation resize_ready :: "k8s_lib \<Rightarrow> AIStore \<Rightarrow> int32 \<Rightarrow> StatefulSet \<Rightarrow> history \<Rightarrow> bool" where
  "resize_ready L ais n cur b \<equiv> saw_size ais cur b \<and> may_resize L ais n (sts_Replicas cur) b"

abbreviation resize :: "AIStore \<Rightarrow> int32 \<Rightarrow> unit op" where
  "resize ais n \<equiv> bind (UpdateStatefulSetReplicas (target_StatefulSetNSName ais) n) (\<lambda>_. ret ())"

text \<open>The answers of the API server hold 32-bit replica counts.\<close>

definition sizes_int32 :: "env \<Rightarrow> bool" where
  "sizes_int32 E \<longleftrightarrow> (\<forall>h d nm ss. ans_ss E h d nm = Inr ss \<longrightarrow> is_int32 (sts_Replicas ss))"

lemma runs_resize_get:
  assumes "sizes_int32 E"
  shows "runs E (resize_guard L ais n h0) (having ais h0 (\<lambda>_. True)) (getSS (target_StatefulSetNSName ais))
     (\<lambda>cur s. having ais h0 (saw_size ais cur) s \<and> is_int32 (sts_Replicas cur))"
  unfolding runs_def
proof (intro allI impI)
  let ?nm = "target_StatefulSetNSName ais"
  fix s r s'
  assume "having ais h0 (\<lambda>_. True) s" and run: "getSS ?nm E s = (r, s')"
  then obtain b where b: "cr s = ais" "hist s = b @ h0" by (auto simp: having_def)
  let ?e = "GotSS False ?nm (ans_ss E (hist s) False ?nm)"
  have "s' = s\<lparr>hist := ?e # hist s\<rparr>" "\<forall>v. r = Ret v \<longrightarrow> ans_ss E (hist s) False ?nm = Inr v"
    using run by (auto simp: getSS_def run_simps split: sum.splits)
  with b assms show "(\<exists>new. hist s' = new @ hist s \<and> allowed (resize_guard L ais n h0) new (hist s)) \<and>
      (\<forall>v. r = Ret v \<longrightarrow> having ais h0 (saw_size ais v) s' \<and> is_int32 (sts_Replicas v))"
    by (auto simp: guard_def having_def sizes_int32_def intro!: exI [of _ "[?e]"] exI [of _ "?e # b"])
qed

lemma runs_resize:
  "runs E (resize_guard L ais n h0) (since h0 (resize_ready L ais n cur)) (resize ais n) (\<lambda>_ _. True)"
  by (intro runs_bind [OF runs_since_UpdateReplicas] runs_ret) (fastforce simp: resize_ok_def)+

lemma runs_resize_grow:
  assumes "n > sts_Replicas cur" and "is_int32 (sts_Replicas cur)" and "is_int32 n"
  shows "runs E (resize_guard (lib E) ais n h0) (having ais h0 (saw_size ais cur)) (bind
      (if n > wrap32 (sts_Replicas cur + 1) \<and> sts_Replicas cur > 0 then
         bind (act GetClient) (\<lambda>_. bind (attempt (act (Health True))) (\<lambda>h. case h of
            Inl e \<Rightarrow> throw (OtherErr msg) | Inr _ \<Rightarrow> disableRebalance rs dm))
       else ret ()) (\<lambda>_. resize ais n)) (\<lambda>_ _. True)"
    (is "runs E ?G _ (bind ?pre _) _")
proof (rule runs_bind [where R = "\<lambda>_. since h0 (resize_ready (lib E) ais n cur)"])
  have w: "wrap32 (sts_Replicas cur + 1) = sts_Replicas cur + 1"
    using assms by (auto simp: is_int32_def)
  let ?Q = "saw_size ais cur"
  let ?H = "\<lambda>b. ?Q b \<and> Did (Health True) None \<in> set b"
  have client: "runs E ?G (since h0 ?Q) (act GetClient) (\<lambda>_. since h0 ?Q)"
    by (rule runs_since_free [where D = "{CGetClient}"]) (auto intro: foot_intros lasting_intros)
  have health: "runs E ?G (since h0 ?Q) (act (Health True)) (\<lambda>_. since h0 ?H)"
    by (rule runs_since_act) (auto simp: resize_ok_def intro: lasting_intros)
  have disable: "runs E ?G (since h0 ?H) (disableRebalance rs dm) (\<lambda>_. since h0 (resize_ready (lib E) ais n cur))"
    by (rule runs_weaken [OF runs_disableRebalance])
       (use assms in \<open>auto simp: may_resize_def intro!: lasting_intros elim!: since_mono\<close>)
  have "runs E ?G (since h0 ?Q) ?pre (\<lambda>_. since h0 (resize_ready (lib E) ais n cur))"
    by (intro runs_if runs_ret runs_bind [OF client] runs_attempt_throw [OF health])
       (use w assms disable in \<open>auto simp: may_resize_def elim!: since_mono\<close>)
  then show "runs E ?G (having ais h0 ?Q) ?pre (\<lambda>_. since h0 (resize_ready (lib E) ais n cur))"
    by (rule runs_weaken) (auto elim: since_of_having)
qed (rule runs_resize)

lemma runs_resize_shrink:
  assumes "n < sts_Replicas cur" and "is_int32 (sts_Replicas cur)"
    and "GetTargetSize ais = Some n" and "0 \<le> n"
  shows "runs E (resize_guard L ais n h0) (having ais h0 (saw_size ais cur))
     (bind (isReadyToScaleDown (sts_Replicas cur)) (\<lambda>ready. if \<not> ready then ret () else resize ais n)) (\<lambda>_ _. True)"
proof (rule runs_bind [OF runs_gather [where D = "{CGetClient, CRead}"
      and R = "\<lambda>ready b. ready \<longrightarrow> map_permits ais n (sts_Replicas cur) b"]])
  fix s v s' new
  assume "cr s = ais" "isReadyToScaleDown (sts_Replicas cur) E s = (Ret v, s')" "hist s' = new @ hist s"
  then show "v \<longrightarrow> map_permits ais n (sts_Replicas cur) new"
    using run_isReadyToScaleDown [of "sts_Replicas cur" E s s' new n] assms by (cases v) auto
next
  fix ready
  show "runs E (resize_guard L ais n h0)
      (having ais h0 (\<lambda>b. saw_size ais cur b \<and> (ready \<longrightarrow> map_permits ais n (sts_Replicas cur) b)))
      (if \<not> ready then ret () else resize ais n) (\<lambda>_ _. True)"
    by (intro runs_if runs_ret runs_weaken [OF runs_resize [where cur = cur]])
       (use assms(1) in \<open>auto simp: may_resize_def elim!: since_mono dest!: since_of_having\<close>)
qed (auto simp: cr_classes_def intro!: foot_intros lasting_intros)

lemma runs_resize_same:
  "n = sts_Replicas cur \<Longrightarrow>
     runs E (resize_guard L ais n h0) (having ais h0 (saw_size ais cur)) (resize ais n) (\<lambda>_ _. True)"
  by (rule runs_weaken [OF runs_resize [where cur = cur]])
     (auto simp: may_resize_def elim!: since_mono dest!: since_of_having)

lemma runs_when: "(c \<Longrightarrow> runs E G P m Q) \<Longrightarrow> runs E G (\<lambda>s. P s \<and> c) m Q"
  unfolding runs_def by blast

lemma runs_resolve:
  assumes n: "GetTargetSize ais = Some n" "0 \<le> n" "is_int32 n"
    and "sizes_int32 E"
  shows "runs E (resize_guard (lib E) ais n h0) (having ais h0 (\<lambda>_. True))
     resolveStatefulSetScaling (\<lambda>_ _. True)"
  unfolding resolveStatefulSetScaling_def Let_def
proof (rule runs_getCR_having, rule runs_deref, rule runs_bind [OF runs_resize_get [OF assms(4)]], rule runs_when)
  fix k :: int32 and cur :: StatefulSet
  assume "GetTargetSize ais = Some k" and i: "is_int32 (sts_Replicas cur)"
  with n have k: "k = n" by simp
  show "runs E (resize_guard (lib E) ais n h0) (having ais h0 (saw_size ais cur))
      (if k > sts_Replicas cur then
        bind (if k > wrap32 (sts_Replicas cur + 1) \<and> sts_Replicas cur > 0 then
                bind (act GetClient) (\<lambda>_. bind (attempt (act (Health True))) (\<lambda>h. case h of
                      Inl e \<Rightarrow> throw (OtherErr
                        ''cannot disable rebalance before target scaling, cluster not healthy'')
                    | Inr _ \<Rightarrow> disableRebalance ReasonScaling ''Disabled due to target scale-up''))
              else ret ()) (\<lambda>_. resize ais k)
        else if k < sts_Replicas cur then
          bind (isReadyToScaleDown (sts_Replicas cur)) (\<lambda>ready. if \<not> ready then ret () else resize ais k)
        else resize ais k) (\<lambda>_ _. True)"
    unfolding k using n i by (intro runs_if runs_resize_grow runs_resize_shrink runs_resize_same) auto
qed

section \<open>A scaling pass\<close>

text \<open>The CR of the run after the calls \<open>h\<close>: the answer of the last patch of it, \<open>a\<close> before the first.\<close>

fun latest :: "AIStore \<Rightarrow> history \<Rightarrow> AIStore" where
  "latest a [] = a"
| "latest a (e # h) = (case e of
     PatchedStatus x (Inr b) \<Rightarrow> b
   | PatchedAIS orig x (Inr b) \<Rightarrow> b
   | _ \<Rightarrow> latest a h)"

lemma latest_simps [simp]:
  "latest a (PatchedStatus x r # h) = (case r of Inl e \<Rightarrow> latest a h | Inr b \<Rightarrow> b)"
  "latest a (PatchedAIS orig x r # h) = (case r of Inl e \<Rightarrow> latest a h | Inr b \<Rightarrow> b)"
  "latest a (Did x' r' # h) = latest a h"
  by (cases r; simp)+

lemma latest_quiet: "class_of e \<notin> cr_classes \<Longrightarrow> latest a (e # h) = latest a h"
  by (cases e) (auto simp: cr_classes_def)

declare latest.simps(2) [simp del]

lemma latest_append: "latest a (x @ y) = latest (latest a y) x"
proof (induction x)
  case (Cons e x)
  show ?case
  proof (cases "class_of e \<in> cr_classes")
    case False
    then show ?thesis using Cons latest_quiet by simp
  next
    case True
    then show ?thesis by (cases e) (auto simp: cr_classes_def Cons split: sum.split)
  qed
qed simp

lemma latest_other: "class_of ` set x \<inter> cr_classes = {} \<Longrightarrow> latest a x = a"
  by (induction x) (auto simp: latest_quiet)

text \<open>The run \<open>m\<close> from \<open>s\<close> to \<open>s'\<close> keeps the CR that of the last patch.\<close>

definition tracks :: "st \<Rightarrow> st \<Rightarrow> bool" where
  "tracks s s' \<longleftrightarrow> (\<exists>new. hist s' = new @ hist s \<and> cr s' = latest (cr s) new)"

lemma tracks_trans: "tracks s t \<Longrightarrow> tracks t u \<Longrightarrow> tracks s u"
  unfolding tracks_def by (metis append.assoc latest_append)

lemma tracks_foot:
  assumes "steps E (foot D) m" and "m E s = (r, s')" and "D \<inter> cr_classes = {}"
  shows "tracks s s'"
proof -
  from stepsD [OF assms(1,2)] obtain new where new: "hist s' = new @ hist s" "class_of ` set new \<subseteq> D"
    and cr: "D \<inter> cr_classes = {} \<longrightarrow> cr s' = cr s"
    unfolding foot_def by blast
  from new(2) assms(3) have "class_of ` set new \<inter> cr_classes = {}" by blast
  then have "latest (cr s) new = cr s" by (rule latest_other)
  with new(1) cr assms(3) show ?thesis by (auto simp: tracks_def)
qed

lemma tracks_enableRebalanceCondition:
  assumes "enableRebalanceCondition E s = (Ret (), s')"
  shows "tracks s s'"
proof (cases "IsConditionTrue (cr s) ConditionReadyRebalance")
  case True
  with assms show ?thesis by (auto simp: enableRebalanceCondition_def run_simps tracks_def)
next
  case False
  with assms have "patchStatus E (s\<lparr>cr := SetCondition (cr s) ConditionReadyRebalance\<rparr>) = (Ret (), s')"
    by (auto simp: enableRebalanceCondition_def run_simps)
  from patchStatus_result [OF this] show ?thesis by (auto simp: tracks_def)
qed

lemma tracks_handleConfigState:
  assumes "handleConfigState True E s = (Ret (), s')"
  shows "tracks s s'"
  using assms
  by (auto simp: tracks_def handleConfigState_def updateClusterConfig_def SetClusterConfigUsingMsg_def Let_def
      patchAISAnnotations_def patchCR_def run_simps split: sum.splits option.splits if_splits)

text \<open>
  The target of ordinal \<open>i\<close>, which is to go, was dealt with: a cluster map counts it and it is in
  maintenance or being decommissioned, or the cluster accepted to take it out now; or the map
  does not count it and its pod does not exist or cannot run.
\<close>

definition dealt_with :: "AIStore \<Rightarrow> int32 \<Rightarrow> Smap \<Rightarrow> history \<Rightarrow> bool" where
  "dealt_with ais i m b \<longleftrightarrow> (case findAISNodeByPodName (smap_Tmap m) (target_PodName ais i) of
     Inr nd \<Rightarrow> sn_InMaintOrDecomm nd \<or>
       Did (if RetainOnScaleDown (SpecTarget (Spec ais)) then StartMaintenance (sn_ID nd) True
            else DecommissionNode (sn_ID nd) (\<not> SafeDecommissionOnScaleDown (SpecTarget (Spec ais)))) None \<in> set b
   | Inl _ \<Rightarrow> \<exists>x. GotPod (in_namespace ais (target_PodName ais i)) x \<in> set b \<and>
       (case x of Inl e \<Rightarrow> IsNotFound e
        | Inr p \<Rightarrow> isPodUnschedulable (Some p) \<or> isPodInCrashLoopBackOff p))"

lemma lasting_dealt_with: "lasting (dealt_with ais i m)"
  unfolding dealt_with_def
  by (cases "findAISNodeByPodName (smap_Tmap m) (target_PodName ais i)") (auto intro!: lasting_intros)

definition leavers_ready :: "AIStore \<Rightarrow> int32 \<Rightarrow> int32 \<Rightarrow> history \<Rightarrow> bool" where
  "leavers_ready ais n k b \<longleftrightarrow> (\<exists>m. GotSmap (Inr m) \<in> set b \<and> (\<forall>i. n \<le> i \<and> i < k \<longrightarrow> dealt_with ais i m b))"

lemma lasting_leavers_ready: "lasting (leavers_ready ais n k)"
  unfolding leavers_ready_def lasting_def by (meson lastingD [OF lasting_dealt_with] subsetD)

lemma run_prepare_target:
  assumes "prepare_target ais m idx E s = (Ret (), s')" and "wrap32 (idx - 1) = i"
  shows "\<exists>new. hist s' = new @ hist s \<and> dealt_with ais i m new"
  using assms
  by (auto simp: prepare_target_def dealt_with_def getPod_def Let_def run_simps
      split: sum.split_asm option.split_asm if_split_asm)

lemma run_for_each_ready:
  assumes "for_each xs (prepare_target ais m) E s = (Ret (), s')"
  shows "\<exists>new. hist s' = new @ hist s \<and> (\<forall>x\<in>set xs. dealt_with ais (wrap32 (x - 1)) m new)"
  using assms
proof (induction xs arbitrary: s)
  case (Cons x xs)
  then obtain s1 where x: "prepare_target ais m x E s = (Ret (), s1)"
    and rest: "for_each xs (prepare_target ais m) E s1 = (Ret (), s')"
    by (auto simp: run_simps split: prod.splits outcome.splits)
  obtain n1 where n1: "hist s1 = n1 @ hist s" "dealt_with ais (wrap32 (x - 1)) m n1"
    using run_prepare_target [OF x refl] by blast
  obtain n2 where n2: "hist s' = n2 @ hist s1" "\<forall>x\<in>set xs. dealt_with ais (wrap32 (x - 1)) m n2"
    using Cons.IH [OF rest] by blast
  have "dealt_with ais j m (n2 @ n1)" if "dealt_with ais j m n1 \<or> dealt_with ais j m n2" for j
    using that by (auto intro: lastingD [OF lasting_dealt_with])
  with n1 n2 show ?case by (intro exI [of _ "n2 @ n1"]) auto
qed (simp add: run_simps)

lemma run_prepareTargetsForScaleDown:
  assumes "prepareTargetsForScaleDown k E s = (Ret (), s')"
    and "GetTargetSize (cr s) = Some n" and "0 \<le> n" and "is_int32 k"
  shows "\<exists>new. hist s' = new @ hist s \<and> leavers_ready (cr s) n k new"
proof -
  let ?g = "Did GetClient None"
  from assms(1,2) obtain m where "ans_smap E (?g # hist s) = Inr m"
    and "for_each (down_from k n) (prepare_target (cr s) m) E (s\<lparr>hist := GotSmap (Inr m) # ?g # hist s\<rparr>) = (Ret (), s')"
    by (auto simp: prepareTargetsForScaleDown_def getClusterMap_def run_simps split: sum.splits option.splits)
  from run_for_each_ready [OF this(2)] obtain new where new: "hist s' = new @ GotSmap (Inr m) # ?g # hist s"
    and ready: "\<forall>x\<in>set (down_from k n). dealt_with (cr s) (wrap32 (x - 1)) m new" by auto
  have "dealt_with (cr s) i m (new @ [GotSmap (Inr m), ?g])" if "n \<le> i" "i < k" for i
  proof -
    from that assms(3,4) have "i + 1 \<in> set (down_from k n)" "wrap32 (i + 1 - 1) = i"
      by (auto simp: is_int32_def)
    with ready have "dealt_with (cr s) i m new" by metis
    then show ?thesis by (rule lastingD [OF lasting_dealt_with]) auto
  qed
  with new show ?thesis
    unfolding leavers_ready_def by (intro exI [of _ "new @ [GotSmap (Inr m), ?g]"]) auto
qed

text \<open>
  A patch of a target StatefulSet during a pass that found \<open>k\<close> replicas and the CR \<open>a\<close>: at a moment
  of the pass, with the calls \<open>y\<close> behind it and \<open>n\<close> the size the CR asks for then, the targets that
  go had been dealt with, and the calls \<open>x\<close> since then hold the evidence for the resize.
\<close>

definition scaling_ok :: "k8s_lib \<Rightarrow> AIStore \<Rightarrow> int32 \<Rightarrow> event \<Rightarrow> history \<Rightarrow> bool" where
  "scaling_ok L a k e b \<longleftrightarrow> (\<exists>x y n. b = x @ y \<and> GetTargetSize (latest a y) = Some n \<and>
     (0 \<le> n \<and> is_int32 n \<longrightarrow> (n < k \<longrightarrow> leavers_ready (latest a y) n k y) \<and> resize_ok L (latest a y) n e x))"

text \<open>The CR of a pass that began with \<open>a\<close> and \<open>h0\<close>, and the same with the leaving targets dealt with.\<close>

definition passing :: "AIStore \<Rightarrow> history \<Rightarrow> st \<Rightarrow> bool" where
  "passing a h0 s \<longleftrightarrow> (\<exists>b. hist s = b @ h0 \<and> cr s = latest a b)"

definition prepared :: "AIStore \<Rightarrow> history \<Rightarrow> int32 \<Rightarrow> st \<Rightarrow> bool" where
  "prepared a h0 k s \<longleftrightarrow> (\<exists>b. hist s = b @ h0 \<and> cr s = latest a b \<and>
     (\<forall>n. GetTargetSize (cr s) = Some n \<and> 0 \<le> n \<and> n < k \<longrightarrow> leavers_ready (cr s) n k b))"

lemma passing_tracks: "passing a h0 s \<Longrightarrow> tracks s s' \<Longrightarrow> passing a h0 s'"
  unfolding passing_def tracks_def by (metis append.assoc latest_append)

lemma scaling_okI:
  assumes "GetTargetSize (latest a y) = Some n" and "0 \<le> n \<and> n < k \<Longrightarrow> leavers_ready (latest a y) n k y"
    and "0 \<le> n \<Longrightarrow> is_int32 n \<Longrightarrow> resize_ok L (latest a y) n e x"
  shows "scaling_ok L a k e (x @ y)"
  unfolding scaling_ok_def using assms by blast

lemma runs_resolve_prepared:
  assumes "sizes_int32 E"
  shows "runs E (guard {CPatchSS} (scaling_ok (lib E) a k) h0) (prepared a h0 k) resolveStatefulSetScaling (\<lambda>_ _. True)"
  unfolding runs_def
proof (intro allI impI conjI)
  let ?G = "guard {CPatchSS} (scaling_ok (lib E) a k) h0"
  fix s r s'
  assume "prepared a h0 k s" and run: "resolveStatefulSetScaling E s = (r, s')"
  then obtain y where y: "hist s = y @ h0" "cr s = latest a y"
    "\<And>n. GetTargetSize (cr s) = Some n \<and> 0 \<le> n \<and> n < k \<Longrightarrow> leavers_ready (cr s) n k y"
    unfolding prepared_def by blast
  show "\<exists>new. hist s' = new @ hist s \<and> allowed ?G new (hist s)"
  proof (cases "GetTargetSize (cr s)")
    case None
    with run show ?thesis by (auto simp: resolveStatefulSetScaling_def run_simps)
  next
    case (Some n)
    have lift: "?G e (x @ hist s)" if "class_of e \<in> {CPatchSS} \<longrightarrow> (0 \<le> n \<and> is_int32 n \<longrightarrow> resize_ok (lib E) (cr s) n e x)" for e x
      unfolding guard_def
      using scaling_okI [of a y n k "lib E" e x] y Some that by auto
    show ?thesis
    proof (cases "0 \<le> n \<and> is_int32 n")
      case True
      obtain new where new: "hist s' = new @ hist s"
        and ok: "allowed (resize_guard (lib E) (cr s) n (hist s)) new (hist s)"
        using runsE [OF runs_resolve [OF Some _ _ assms] having_start run] True by metis
      from ok lift have "allowed ?G new (hist s)"
        by (auto simp: allowed_split guard_def)
      with new show ?thesis by blast
    next
      case False
      from stepsD [OF foot_resolveStatefulSetScaling [OF subset_UNIV] run] obtain new
        where "hist s' = new @ hist s" unfolding foot_def by blast
      moreover from False lift have "allowed ?G new (hist s)" by (auto simp: allowed_split)
      ultimately show ?thesis by blast
    qed
  qed
qed simp

lemma run_startTargetScaling:
  assumes "startTargetScaling ss E s = (Ret (), s')" and "passing a h0 s" and "is_int32 (sts_Replicas ss)"
  shows "prepared a h0 (sts_Replicas ss) s'"
proof -
  from assms(1) obtain n where n: "GetTargetSize (cr s) = Some n"
    by (cases "GetTargetSize (cr s)") (auto simp: startTargetScaling_def run_simps)
  let ?retain = "RetainOnScaleDown (SpecTarget (Spec (cr s)))"
  show ?thesis
  proof (cases "sts_Replicas ss < n")
    case True
    with assms(1) n have up: "scaleUpLB E s = (Ret (), s')" by (simp add: startTargetScaling_def run_simps)
    have t: "tracks s s'" by (rule tracks_foot [OF foot_scaleUpLB up, of "{CApply}"]) (auto simp: cr_classes_def)
    have "cr s' = cr s"
      using stepsD [OF foot_scaleUpLB [of "{CApply}"] up] by (auto simp: foot_def cr_classes_def)
    with passing_tracks [OF assms(2) t] n True show ?thesis by (auto simp: passing_def prepared_def)
  next
    case False
    obtain s1 s2 where one: "(if \<not> ?retain then bind enableRebalanceCondition (\<lambda>_. handleConfigState True)
        else ret ()) E s = (Ret (), s1)"
      and two: "scaleDownLB ss E s1 = (Ret (), s2)"
      and three: "prepareTargetsForScaleDown (sts_Replicas ss) E s2 = (Ret (), s')"
      using assms(1) n False
      by (auto simp: startTargetScaling_def run_getCR run_deref elim!: bind_RetE)
    have "tracks s s1"
    proof (cases ?retain)
      case True
      with one show ?thesis by (auto simp: run_simps tracks_def)
    next
      case False
      with one obtain s0 where "enableRebalanceCondition E s = (Ret (), s0)" "handleConfigState True E s0 = (Ret (), s1)"
        by (auto simp: run_simps split: prod.splits outcome.splits)
      then show ?thesis
        by (intro tracks_trans [OF tracks_enableRebalanceCondition tracks_handleConfigState])
    qed
    moreover have "tracks s1 s2"
      by (rule tracks_foot [OF foot_scaleDownLB two, of "{CDelete KService}"]) (auto simp: cr_classes_def)
    ultimately have "passing a h0 s2" using assms(2) passing_tracks tracks_trans by blast
    then obtain b where b: "hist s2 = b @ h0" "cr s2 = latest a b" by (auto simp: passing_def)
    have foot: "steps E (foot {CGetClient, CRead, CMaintenance, CDecommNode}) (prepareTargetsForScaleDown (sts_Replicas ss))"
      by (rule foot_prepareTargetsForScaleDown) simp
    from tracks_foot [OF foot three] stepsD [OF foot three] obtain new where new: "hist s' = new @ hist s2"
      "cr s' = latest (cr s2) new" and cr: "cr s' = cr s2"
      by (auto simp: tracks_def foot_def cr_classes_def)
    have "leavers_ready (cr s') n' (sts_Replicas ss) (new @ b)" if "GetTargetSize (cr s') = Some n'" "0 \<le> n'" for n'
      using run_prepareTargetsForScaleDown [OF three _ that(2) assms(3)] that(1) cr new(1)
        lastingD [OF lasting_leavers_ready, of "cr s'" n' "sts_Replicas ss" new "new @ b"] by auto
    with new b show ?thesis
      unfolding prepared_def by (intro exI [of _ "new @ b"]) (simp add: latest_append)
  qed
qed

lemma runs_startTargetScaling:
  assumes "is_int32 (sts_Replicas ss)"
  shows "runs E (guard {CPatchSS} W h0) (passing a h0) (startTargetScaling ss) (\<lambda>_. prepared a h0 (sts_Replicas ss))"
  unfolding runs_def
proof (intro allI impI conjI)
  fix s r s' v
  assume p: "passing a h0 s" and run: "startTargetScaling ss E s = (r, s')"
  have foot: "steps E (foot (- {CPatchSS})) (startTargetScaling ss)"
    by (rule foot_startTargetScaling) (auto simp: status_classes_def)
  obtain new where "hist s' = new @ hist s" "class_of ` set new \<subseteq> - {CPatchSS}"
    by (rule foot_run [OF foot run])
  then show "\<exists>new. hist s' = new @ hist s \<and> allowed (guard {CPatchSS} W h0) new (hist s)"
    by (intro exI [of _ new]) (auto simp: allowed_split guard_def)
  assume "r = Ret v"
  with run have "startTargetScaling ss E s = (Ret (), s')" by simp
  from run_startTargetScaling [OF this p assms] show "prepared a h0 (sts_Replicas ss) s'" .
qed

lemma runs_since_any:
  "runs E G (passing a h0) m (\<lambda>_ _. True) \<Longrightarrow> runs E G (passing a h0) m (\<lambda>_. since h0 (\<lambda>_. True))"
  unfolding runs_def passing_def since_def by (metis append.assoc)

lemma runs_getCR_any: "(\<And>ais. runs E G P (f ais) R) \<Longrightarrow> runs E G P (bind getCR f) R"
  unfolding runs_def by (simp add: run_simps)

lemma runs_handleTargetScaling:
  assumes "sizes_int32 E" and "is_int32 (sts_Replicas ss)"
  shows "runs E (guard {CPatchSS} (scaling_ok (lib E) a (sts_Replicas ss)) h0) (passing a h0)
     (handleTargetScaling ss) (\<lambda>_ _. True)"
proof -
  let ?G = "guard {CPatchSS} (scaling_ok (lib E) a (sts_Replicas ss)) h0"
  have confirm: "runs E ?G (passing a h0) (confirmScalingNeeded key ss d mu au) (\<lambda>_. passing a h0)" for key d mu au
    unfolding runs_def
  proof (intro allI impI conjI)
    fix s r s'
    assume p: "passing a h0 s" and run: "confirmScalingNeeded key ss d mu au E s = (r, s')"
    have foot: "steps E (foot {CRead}) (confirmScalingNeeded key ss d mu au)"
      by (intro foot_intros) simp
    obtain new where "hist s' = new @ hist s" "class_of ` set new \<subseteq> {CRead}" by (rule foot_run [OF foot run])
    then show "\<exists>new. hist s' = new @ hist s \<and> allowed ?G new (hist s)"
      by (intro exI [of _ new]) (auto simp: allowed_split guard_def)
    show "passing a h0 s'"
      by (rule passing_tracks [OF p tracks_foot [OF foot run]]) (simp add: cr_classes_def)
  qed
  show ?thesis
    unfolding handleTargetScaling_def target_wait_def
    by (intro runs_getCR_any runs_deref runs_bind [OF confirm] runs_if runs_ret
          runs_bind [OF runs_startTargetScaling [OF assms(2)]] runs_bind [OF runs_resolve_prepared [OF assms(1)]]) simp_all
qed

end
