(* ===== verification/Exclusion.thy ===== *)
theory Exclusion
  imports Proxy_Controller Target_Controller Evidence
begin

text \<open>
  A pass over a StatefulSet does one thing at a time: while pods are being rolled its size stays,
  while it is being resized its pod template stays, and nothing is patched from a stale status.
\<close>

definition keeps_size :: "event \<Rightarrow> bool" where
  "keeps_size e \<longleftrightarrow> (\<forall>old new r. e = Did (PatchSS old new) r \<longrightarrow> sts_Replicas new = sts_Replicas old)"

definition keeps_template :: "event \<Rightarrow> bool" where
  "keeps_template e \<longleftrightarrow> (\<forall>old new r. e = Did (PatchSS old new) r \<longrightarrow> sts_Template new = sts_Template old)"

lemma keeps_other: "class_of e \<noteq> CPatchSS \<Longrightarrow> keeps_size e" "class_of e \<noteq> CPatchSS \<Longrightarrow> keeps_template e"
  by (auto simp: keeps_size_def keeps_template_def)

lemma emits_no_patch:
  assumes "steps E (foot D) m" and "CPatchSS \<notin> D"
  shows "steps E (emits keeps_size) m" "steps E (emits keeps_template) m"
  by (rule emits_foot [OF assms(1)], use assms(2) in \<open>auto intro: keeps_other\<close>)+

lemmas keeps_intros = emits.steps_base steps_intros emits_getCR emits_act emits_or_record

lemma patch_keeps [simp]:
  "keeps_size (Did (PatchSS old new) r) \<longleftrightarrow> sts_Replicas new = sts_Replicas old"
  "keeps_template (Did (PatchSS old new) r) \<longleftrightarrow> sts_Template new = sts_Template old"
  by (auto simp: keeps_size_def keeps_template_def)

text \<open>The patches of the helpers, each of one part of the StatefulSet.\<close>

lemma UpdateReplicas_keeps_template:
  "steps E (emits keeps_template) (UpdateStatefulSetReplicas nm n)"
  unfolding UpdateStatefulSetReplicas_def
  by (intro keeps_intros emits_no_patch(2) [where D = "{CRead}"]) (auto simp: foot_reads)

lemma policies_keep:
  "steps E (emits keeps_size) (syncTargetPVCRetentionPolicy ss)"
  "steps E (emits keeps_template) (syncTargetPVCRetentionPolicy ss)"
  "steps E (emits keeps_size) (syncProxyPVCRetentionPolicy ss)"
  "steps E (emits keeps_template) (syncProxyPVCRetentionPolicy ss)"
  unfolding syncTargetPVCRetentionPolicy_def syncProxyPVCRetentionPolicy_def Let_def
  by (intro keeps_intros; simp)+

section \<open>Targets\<close>

lemma syncTargetPodSpec_keeps_size: "steps E (emits keeps_size) (syncTargetPodSpec ss)"
  unfolding syncTargetPodSpec_def Let_def
  by (intro keeps_intros emits_no_patch(1) [OF foot_desiredTargetTemplate [of _ "{}"]]
        emits_no_patch(1) [OF foot_disableRebalance [where C = "{CSetConfig, CGetClient, CPatchAIS, CPatchStatus, CEvent}"]])
     auto

lemma handleTargetRollout_keeps:
  "steps E (emits keeps_size) (handleTargetRollout ss)"
  by (rule emits_no_patch [OF foot_handleTargetRollout [where C = "{CRead, CGetClient, CMaintenance, CDelete KPod}"]])
     auto

lemma resolve_keeps_template: "steps E (emits keeps_template) resolveStatefulSetScaling"
  unfolding resolveStatefulSetScaling_def Let_def
  by (intro keeps_intros UpdateReplicas_keeps_template emits_no_patch(2) [where D = "{CRead, CGetClient}"]
        emits_no_patch(2) [OF foot_disableRebalance [where C = "{CSetConfig, CGetClient, CPatchAIS, CPatchStatus, CEvent}"]])
     (auto simp: keeps_template_def intro!: foot_intros)

lemma handleTargetScaling_keeps_template: "steps E (emits keeps_template) (handleTargetScaling ss)"
  unfolding handleTargetScaling_def target_wait_def
  by (intro keeps_intros resolve_keeps_template
        emits_no_patch(2) [OF foot_confirmScalingNeeded [where C = "{CRead}"]]
        emits_no_patch(2) [OF foot_startTargetScaling [where C =
          "{CApply, CDelete KService, CRead, CMaintenance, CDecommNode} \<union> status_classes"]])
     (auto simp: status_classes_def)

lemma target_pdb_keeps:
  "steps E (emits keeps_size) (or_record reconcileTargetPDB msg)"
  "steps E (emits keeps_template) (or_record reconcileTargetPDB msg)"
  by (rule emits_no_patch [OF foot_or_record [OF _ foot_reconcileTargetPDB
        [where C = "{CSetOwner, CCreate, CRead, CUpdate, CDelete KPDB, CEvent}"]]]; simp)+

lemma target_template_free:
  "steps E (emits keeps_size) desiredTargetTemplate" "steps E (emits keeps_template) desiredTargetTemplate"
  by (rule emits_no_patch [OF foot_desiredTargetTemplate [of _ "{}"]]; simp)+

lemma rolling_targets_keep_size:
  assumes "isRolloutInProgress ss"
  shows "steps E (emits keeps_size) (handle_target_ss ss)"
  unfolding handle_target_ss_def drive_targets_def target_wait_def Let_def
  by (intro keeps_intros target_pdb_keeps target_template_free policies_keep
        syncTargetPodSpec_keeps_size handleTargetRollout_keeps)
     (use assms in auto)

lemma scaling_targets_keep_template:
  assumes "isScalingInProgress ss"
  shows "steps E (emits keeps_template) (handle_target_ss ss)"
proof -
  from assms have eqs: "isScalingInProgress ss = True" "isRolloutInProgress ss = False"
    using rollout_excludes_scaling by auto
  show ?thesis
    unfolding handle_target_ss_def drive_targets_def target_wait_def Let_def eqs not_True_eq_False
      not_False_eq_True simp_thms if_True if_False
    by (intro keeps_intros target_pdb_keeps target_template_free policies_keep
        handleTargetScaling_keeps_template)
qed

section \<open>Proxies\<close>

lemma proxy_template_free:
  "steps E (emits keeps_size) desiredProxyTemplate" "steps E (emits keeps_template) desiredProxyTemplate"
  by (rule emits_no_patch [OF foot_desiredProxyTemplate [of _ "{}"]]; simp)+

lemma setPrimaryTo_keeps: "steps E (emits keeps_size) (setPrimaryTo i)"
  by (rule emits_no_patch [OF foot_setPrimaryTo [where C = "{CGetClient, CRead, CSetPrimary}"]]) simp_all

lemma syncProxyPodSpec_keeps_size: "steps E (emits keeps_size) (syncProxyPodSpec ss)"
proof -
  let ?held = "ss\<lparr>sts_Strategy := RollingUpdateStrategy, sts_RollingUpdate := Some 1\<rparr>"
  have "syncProxyPodSpec ss = bind (asks lib) (\<lambda>L. bind desiredProxyTemplate (\<lambda>d.
      if \<not> fst (shouldUpdatePodTemplate L d (sts_Template ss)) then ret False
      else if st_ReadyReplicas ss > 0
        then bind (setPrimaryTo 0) (\<lambda>_. bind (act (PatchSS ss (?held\<lparr>sts_Template :=
               snd (syncPodTemplate L d (sts_Template ?held))\<rparr>))) (\<lambda>_. ret True))
        else bind (act (PatchSS ss (ss\<lparr>sts_Template := snd (syncPodTemplate L d (sts_Template ss))\<rparr>)))
               (\<lambda>_. ret True)))"
    by (intro ext) (auto simp: syncProxyPodSpec_def Let_def run_simps split: prod.splits outcome.splits)
  then show ?thesis
    by (simp only:) (intro keeps_intros proxy_template_free setPrimaryTo_keeps; simp)
qed

lemma handleProxyRollout_keeps_size: "steps E (emits keeps_size) (handleProxyRollout ss)"
  unfolding handleProxyRollout_def setHighestPodAsPrimary_def resetSSPartition_def
  by (intro keeps_intros setPrimaryTo_keeps) simp

lemma handleProxyScale_keeps_template: "steps E (emits keeps_template) (handleProxyScale ss)"
  unfolding handleProxyScale_def
  by (intro keeps_intros UpdateReplicas_keeps_template
        emits_no_patch(2) [OF foot_prepareProxyScaleDown [where C = "{CGetClient, CRead, CSetPrimary, CDecommNode}"]])
     auto

lemma rolling_proxies_keep_size:
  assumes "isRolloutInProgress ss"
  shows "steps E (emits keeps_size) (handle_proxy_ss ss)"
  unfolding handle_proxy_ss_def drive_proxies_def proxy_wait_def Let_def
  by (intro keeps_intros proxy_template_free policies_keep syncProxyPodSpec_keeps_size
        handleProxyRollout_keeps_size) (use assms in auto)

lemma scaling_proxies_keep_template:
  assumes "isScalingInProgress ss"
  shows "steps E (emits keeps_template) (handle_proxy_ss ss)"
proof -
  from assms have eqs: "isScalingInProgress ss = True" "isRolloutInProgress ss = False"
    using rollout_excludes_scaling by auto
  show ?thesis
    unfolding handle_proxy_ss_def drive_proxies_def proxy_wait_def Let_def eqs not_True_eq_False
      not_False_eq_True simp_thms if_True if_False
    by (intro keeps_intros proxy_template_free policies_keep handleProxyScale_keeps_template
        emits_no_patch(2) [OF foot_confirmScalingNeeded [where C = "{CRead}"]]) auto
qed

section \<open>One change at a time\<close>

text \<open>A StatefulSet is not rolled and resized at once, so what a pass may patch is one of the two.\<close>

lemma one_change_at_a_time:
  assumes rolling: "isRolloutInProgress ss \<Longrightarrow> steps E (emits keeps_size) m"
    and scaling: "isScalingInProgress ss \<Longrightarrow> steps E (emits keeps_template) m"
    and any: "steps E (foot C) m"
  shows "\<exists>new. hist (snd (m E s)) = new @ hist s \<and>
     (\<forall>old upd r. Did (PatchSS old upd) r \<in> set new \<longrightarrow>
        (isRolloutInProgress ss \<longrightarrow> sts_Replicas upd = sts_Replicas old) \<and>
        (isScalingInProgress ss \<longrightarrow> sts_Template upd = sts_Template old))"
proof -
  have run: "m E s = (fst (m E s), snd (m E s))" by (rule surjective_pairing)
  consider (roll) "isRolloutInProgress ss" "\<not> isScalingInProgress ss"
    | (scale) "isScalingInProgress ss" "\<not> isRolloutInProgress ss"
    | (neither) "\<not> isRolloutInProgress ss" "\<not> isScalingInProgress ss"
    using rollout_excludes_scaling by blast
  then show ?thesis
  proof cases
    case roll
    from emits_run [OF rolling [OF roll(1)] run] obtain new
      where "hist (snd (m E s)) = new @ hist s" "\<forall>e\<in>set new. keeps_size e" by (elim exE conjE)
    with roll show ?thesis unfolding keeps_size_def by blast
  next
    case scale
    from emits_run [OF scaling [OF scale(1)] run] obtain new
      where "hist (snd (m E s)) = new @ hist s" "\<forall>e\<in>set new. keeps_template e" by (elim exE conjE)
    with scale show ?thesis unfolding keeps_template_def by blast
  next
    case neither
    obtain new where "hist (snd (m E s)) = new @ hist s" by (rule foot_run [OF any run])
    with neither show ?thesis by blast
  qed
qed

end
