(* ===== verification/Cluster_Safety.thy ===== *)
theory Cluster_Safety
  imports Cluster_Controller Evidence
begin

text \<open>
  What the cluster controller is careful about outside the two daemons: the order of a
  shutdown, what counts as ready, that nothing is applied from an invalid spec, objects that
  belong to someone else, and the jobs that clean the hosts.
\<close>

section \<open>Shutting down\<close>

definition size_zero_seen :: "NamespacedName \<Rightarrow> history \<Rightarrow> bool" where
  "size_zero_seen nm b \<longleftrightarrow> (\<exists>ss. GotSS False nm (Inr ss) \<in> set b \<and> st_Replicas ss = 0)"

lemma lasting_size_zero [lasting_intros]: "lasting (size_zero_seen nm)"
  unfolding size_zero_seen_def by (intro lasting_intros)

text \<open>
  Only replicas are patched, to 0; those of the targets only once the proxies are gone; and the
  state is written only once both are.
\<close>

definition shutdown_ok :: "AIStore \<Rightarrow> event \<Rightarrow> history \<Rightarrow> bool" where
  "shutdown_ok ais e b \<longleftrightarrow>
     (\<forall>old new r. e = Did (PatchSS old new) r \<longrightarrow> new = old\<lparr>sts_Replicas := 0\<rparr> \<and>
        (GotSS False (proxy_StatefulSetNSName ais) (Inr old) \<in> set b \<or>
         GotSS False (target_StatefulSetNSName ais) (Inr old) \<in> set b \<and>
         size_zero_seen (proxy_StatefulSetNSName ais) b)) \<and>
     (\<forall>a r. e = PatchedStatus a r \<longrightarrow> State (Status a) = ClusterShutdown \<and>
        size_zero_seen (proxy_StatefulSetNSName ais) b \<and> size_zero_seen (target_StatefulSetNSName ais) b)"

abbreviation shutdown_guard :: "AIStore \<Rightarrow> history \<Rightarrow> event \<Rightarrow> history \<Rightarrow> bool" where
  "shutdown_guard ais h0 \<equiv> guard {CPatchSS, CPatchStatus} (shutdown_ok ais) h0"

lemma runs_getSS:
  assumes "CRead \<notin> C" and "lasting Q"
  shows "runs E (guard C W h0) (having ais h0 Q) (getSS nm)
     (\<lambda>ss. having ais h0 (\<lambda>b. Q b \<and> GotSS False nm (Inr ss) \<in> set b))"
  unfolding getSS_def by (rule runs_call_gather) (use assms in \<open>auto simp: cr_classes_def\<close>)

lemma runs_scale_to_zero:
  assumes "lasting Q"
    and "\<And>b old r. Q b \<Longrightarrow> GotSS False nm (Inr old) \<in> set b \<Longrightarrow>
       shutdown_ok ais (Did (PatchSS old (old\<lparr>sts_Replicas := 0\<rparr>)) r) b"
  shows "runs E (shutdown_guard ais h0) (having ais h0 Q) (UpdateStatefulSetReplicas nm 0) (\<lambda>_. having ais h0 Q)"
  unfolding UpdateStatefulSetReplicas_def
proof (rule runs_bind [OF runs_getSS])
  fix ss :: StatefulSet
  let ?Q = "\<lambda>b. Q b \<and> GotSS False nm (Inr ss) \<in> set b"
  have last: "lasting ?Q" using assms(1) by (intro lasting_intros)
  have patch: "runs E (shutdown_guard ais h0) (having ais h0 ?Q)
      (act (PatchSS ss (ss\<lparr>sts_Replicas := 0\<rparr>))) (\<lambda>_. having ais h0 ?Q)"
    by (rule runs_act_guarded) (use last assms(2) in \<open>auto simp: cr_classes_def\<close>)
  show "runs E (shutdown_guard ais h0) (having ais h0 ?Q) (if sts_Replicas ss = 0 then ret False
      else bind (act (PatchSS ss (ss\<lparr>sts_Replicas := 0\<rparr>))) (\<lambda>_. ret True)) (\<lambda>_. having ais h0 Q)"
    by (intro runs_if runs_ret runs_bind [OF patch]) (auto elim: having_mono)
qed (use assms(1) in auto)

lemma runs_IsStatefulSetSize:
  assumes "CRead \<notin> C" and "lasting Q"
  shows "runs E (guard C W h0) (having ais h0 Q) (IsStatefulSetSize nm 0)
     (\<lambda>z. having ais h0 (\<lambda>b. Q b \<and> (z \<longrightarrow> size_zero_seen nm b)))"
  unfolding IsStatefulSetSize_def
  by (intro runs_bind [OF runs_getSS] runs_ret)
     (use assms in \<open>auto simp: size_zero_seen_def elim!: having_mono\<close>)

lemma runs_shutdown_status:
  "runs E (shutdown_guard ais h0) (having ais h0 (\<lambda>b. size_zero_seen (proxy_StatefulSetNSName ais) b \<and>
       size_zero_seen (target_StatefulSetNSName ais) b)) (updateStatusWithState ClusterShutdown) (\<lambda>_ _. True)"
  unfolding runs_def
proof (intro allI impI)
  fix s s' :: st and r
  let ?s = "s\<lparr>cr := SetState (cr s) ClusterShutdown\<rparr>"
  let ?p = "PatchedStatus (cr ?s) (ans_patch_status E (hist s) (cr ?s))"
  let ?ev = "Did (RecordEvent ''Failed'' ''Reconciled'' ''Failed to patch CR status'') None"
  assume h: "having ais h0 (\<lambda>b. size_zero_seen (proxy_StatefulSetNSName ais) b \<and>
       size_zero_seen (target_StatefulSetNSName ais) b) s"
    and run: "updateStatusWithState ClusterShutdown E s = (r, s')"
  from h have g: "shutdown_guard ais h0 ?p (hist s)"
    by (auto simp: guard_def shutdown_ok_def having_def)
  have e: "shutdown_guard ais h0 ?ev h" for h by (simp add: guard_def)
  from run have "hist s' = [?p] @ hist s \<or> hist s' = [?ev, ?p] @ hist s"
    by (auto simp: updateStatusWithState_def patchStatus_def or_record_def recordError_def run_simps
        split: sum.splits)
  with g e show "(\<exists>new. hist s' = new @ hist s \<and> allowed (shutdown_guard ais h0) new (hist s)) \<and> (\<forall>a. r = Ret a \<longrightarrow> True)"
    by (metis (no_types, lifting) allowed.simps append_Cons append_Nil)
qed

lemma runs_shutdown_guarded:
  "runs E (shutdown_guard ais h0) (having ais h0 (\<lambda>_. True)) shutdownCluster (\<lambda>_ _. True)"
proof -
  let ?p = "proxy_StatefulSetNSName ais" and ?t = "target_StatefulSetNSName ais"
  have up: "runs E (shutdown_guard ais h0) (having ais h0 (\<lambda>_. True)) (UpdateStatefulSetReplicas ?p 0)
      (\<lambda>_. having ais h0 (\<lambda>_. True))"
    by (rule runs_scale_to_zero) (auto simp: shutdown_ok_def intro: lasting_intros)
  have zp: "runs E (shutdown_guard ais h0) (having ais h0 (\<lambda>_. True)) (IsStatefulSetSize ?p 0)
      (\<lambda>z. having ais h0 (\<lambda>b. z \<longrightarrow> size_zero_seen ?p b))"
    by (rule runs_weaken [OF runs_IsStatefulSetSize]) (auto intro: lasting_intros)
  have ut: "runs E (shutdown_guard ais h0) (having ais h0 (size_zero_seen ?p)) (UpdateStatefulSetReplicas ?t 0)
      (\<lambda>_. having ais h0 (size_zero_seen ?p))"
    by (rule runs_scale_to_zero) (auto simp: shutdown_ok_def intro: lasting_intros)
  have zt: "runs E (shutdown_guard ais h0) (having ais h0 (size_zero_seen ?p)) (IsStatefulSetSize ?t 0)
      (\<lambda>z. having ais h0 (\<lambda>b. size_zero_seen ?p b \<and> (z \<longrightarrow> size_zero_seen ?t b)))"
    by (rule runs_IsStatefulSetSize) (auto intro: lasting_intros)
  have event: "runs E (shutdown_guard ais h0) (\<lambda>_ :: st. True) (Eventf x y z) (\<lambda>_ _. True)" for x y z
    by (auto simp: runs_def run_simps guard_def intro!: exI [of _ "[_]"])
  have finish: "runs E (shutdown_guard ais h0) (having ais h0 (\<lambda>b. size_zero_seen ?p b \<and> size_zero_seen ?t b))
      (bind (updateStatusWithState ClusterShutdown) (\<lambda>_. bind (Eventf u v w) (\<lambda>_. ret y))) (\<lambda>_ _. True)" for u v w y
    by (rule runs_bind [OF runs_shutdown_status]) (rule runs_bind [OF event], simp add: runs_ret)
  have second: "runs E (shutdown_guard ais h0) (having ais h0 (\<lambda>b. f \<longrightarrow> size_zero_seen ?p b))
      (if \<not> f then ret x else bind (UpdateStatefulSetReplicas ?t 0) (\<lambda>_.
          bind (IsStatefulSetSize ?t 0) (\<lambda>targetFinished.
          if \<not> targetFinished then ret x
          else bind (updateStatusWithState ClusterShutdown) (\<lambda>_. bind (Eventf u v w) (\<lambda>_. ret y))))) (\<lambda>_ _. True)"
    for f x y u v w
  proof (cases f)
    case True
    then show ?thesis
      by (simp only: simp_thms not_True_eq_False if_False)
         (intro runs_bind [OF ut] runs_bind [OF zt] runs_if runs_ret
            runs_weaken [OF finish]; auto elim: having_mono)
  qed (simp add: runs_ret)
  show ?thesis
    unfolding shutdownCluster_def
    by (intro runs_getCR_having runs_bind [OF up] runs_bind [OF zp] second)
qed

section \<open>Readiness\<close>

text \<open>The cluster answered that it is healthy, with a cluster map.\<close>

definition healthy :: "Smap \<Rightarrow> history \<Rightarrow> bool" where
  "healthy m b \<longleftrightarrow> Did (Health True) None \<in> set b \<and> GotSmap (Inr m) \<in> set b"

lemma run_checkAISClusterReady:
  assumes "checkAISClusterReady E s = (Ret True, s')"
  shows "\<exists>new m p t. hist s' = new @ hist s \<and> healthy m new \<and>
     GetMinReadyProxies (cr s) = Some p \<and> p \<le> wrap32 (int (length (smap_Pmap m))) \<and>
     GetMinReadyTargets (cr s) = Some t \<and> t \<le> wrap32 (int (length (smap_Tmap m)))"
proof -
  let ?h1 = "Did (Health True) None # Did GetClient None # hist s"
  from assms obtain m where m: "ans_smap E ?h1 = Inr m"
    by (auto simp: checkAISClusterReady_def getClusterMap_def run_simps Let_def split: option.splits sum.splits)
  from assms obtain p where p: "GetMinReadyProxies (cr s) = Some p"
    using m by (cases "GetMinReadyProxies (cr s)")
      (auto simp: checkAISClusterReady_def getClusterMap_def run_simps Let_def split: option.splits)
  from assms m p have pl: "p \<le> wrap32 (int (length (smap_Pmap m)))"
    by (auto simp: checkAISClusterReady_def getClusterMap_def run_simps Let_def split: option.splits if_splits)
  from assms m p pl obtain t where t: "GetMinReadyTargets (cr s) = Some t"
    by (cases "GetMinReadyTargets (cr s)")
      (auto simp: checkAISClusterReady_def getClusterMap_def run_simps Let_def split: option.splits)
  from assms m p pl t have tl: "t \<le> wrap32 (int (length (smap_Tmap m)))"
    by (auto simp: checkAISClusterReady_def getClusterMap_def run_simps Let_def split: option.splits if_splits)
  from assms m p pl t tl have "\<exists>x. hist s' = x @ GotSmap (Inr m) # ?h1"
    by (auto simp: checkAISClusterReady_def getClusterMap_def patchStatus_def or_record_def recordError_def
        run_simps Let_def split: option.splits if_splits sum.splits)
  then obtain x where "hist s' = (x @ [GotSmap (Inr m), Did (Health True) None, Did GetClient None]) @ hist s"
    by auto
  with p pl t tl show ?thesis
    by (intro exI [of _ "x @ [GotSmap (Inr m), Did (Health True) None, Did GetClient None]"]
        exI [of _ m] exI [of _ p] exI [of _ t]) (simp add: healthy_def)
qed

text \<open>A pass that asks for no other one has found the cluster healthy.\<close>

lemma lasting_healthy [lasting_intros]: "lasting (\<lambda>b. \<exists>m. healthy m b)"
  unfolding healthy_def by (intro lasting_intros)

abbreviation no_guard :: "history \<Rightarrow> event \<Rightarrow> history \<Rightarrow> bool" where
  "no_guard h0 \<equiv> guard {} (\<lambda>_ _. True) h0"

lemma runs_handleCREvents:
  "runs E (no_guard h0) (since h0 (\<lambda>_. True)) handleCREvents (\<lambda>res. since h0 (\<lambda>b. IsZero res \<longrightarrow> (\<exists>m. healthy m b)))"
proof -
  have any: "runs E (no_guard h0) (since h0 Q) m (\<lambda>_. since h0 Q)" if "steps E (foot UNIV) m" "lasting Q" for m :: "'a op" and Q
    by (rule runs_since_free [OF that]) simp
  have requeue: "runs E (no_guard h0) (since h0 (\<lambda>_. True)) (updateStatusAndRequeue res)
      (\<lambda>res. since h0 (\<lambda>b. IsZero res \<longrightarrow> (\<exists>m. healthy m b)))" if "\<not> IsZero res" for res
    unfolding runs_def
  proof (intro allI impI)
    fix s s' :: st and r
    assume h: "since h0 (\<lambda>_. True) s" and run: "updateStatusAndRequeue res E s = (r, s')"
    have "steps E (foot UNIV) (updateStatusAndRequeue res)"
      unfolding updateStatusAndRequeue_def by (intro foot_intros) (auto simp: cr_classes_def)
    from runsE [OF any [OF this] h run] obtain new where new: "hist s' = new @ hist s" "allowed (no_guard h0) new (hist s)"
      and s: "\<forall>a. r = Ret a \<longrightarrow> since h0 (\<lambda>_. True) s'" by (auto intro: lasting_intros)
    from run have "\<forall>a. r = Ret a \<longrightarrow> a = res"
      by (auto simp: updateStatusAndRequeue_def run_simps split: if_splits prod.splits outcome.splits)
    with new s that show "(\<exists>new. hist s' = new @ hist s \<and> allowed (no_guard h0) new (hist s)) \<and>
        (\<forall>a. r = Ret a \<longrightarrow> since h0 (\<lambda>b. IsZero a \<longrightarrow> (\<exists>m. healthy m b)) s')"
      by (auto simp: since_def)
  qed
  have ready: "runs E (no_guard h0) (since h0 (\<lambda>_. True)) checkAISClusterReady
      (\<lambda>ok. since h0 (\<lambda>b. ok \<longrightarrow> (\<exists>m. healthy m b)))"
  proof (rule runs_weaken [OF runs_since [where D = UNIV and R = "\<lambda>ok b. ok \<longrightarrow> (\<exists>m. healthy m b)"]])
    fix s s' :: st and v new
    assume "checkAISClusterReady E s = (Ret v, s')" and "hist s' = new @ hist s"
    then show "v \<longrightarrow> (\<exists>m. healthy m new)"
      using run_checkAISClusterReady [of E s s'] by (cases v) auto
  qed (auto intro!: foot_intros lasting_intros)
  have rest: "runs E (no_guard h0) (since h0 (\<lambda>b. \<exists>m. healthy m b))
      (bind enableRebalanceCondition (\<lambda>_. bind (handleConfigState False) (\<lambda>_. bind handleSuccessfulReconcile (\<lambda>_. ret x))))
      (\<lambda>res. since h0 (\<lambda>b. IsZero res \<longrightarrow> (\<exists>m. healthy m b)))" for x
    by (intro runs_bind [OF any] runs_ret foot_intros lasting_intros) (auto elim!: since_mono)
  have pt: "runs E (no_guard h0) (since h0 (\<lambda>_. True)) handleProxyState (\<lambda>_. since h0 (\<lambda>_. True))"
    "runs E (no_guard h0) (since h0 (\<lambda>_. True)) handleTargetState (\<lambda>_. since h0 (\<lambda>_. True))"
    by (intro any foot_intros lasting_intros; simp)+
  show ?thesis
    unfolding handleCREvents_def
    by (intro runs_bind [OF pt(1)] runs_bind [OF pt(2)] runs_bind [OF ready] runs_if runs_weaken [OF requeue] runs_weaken [OF rest])
       (auto elim!: since_mono simp: IsZero_def aisReadinessRequeueDelay_def)
qed

section \<open>Nothing is applied from an invalid spec\<close>

lemma run_invalid_spec:
  assumes "snd (ValidateSpec (lib E) (cr s)) = Some e"
  shows "reconcile_running E s = (Err e, s\<lparr>hist :=
     Did (RecordEvent ''Failed'' ''Reconciled'' ''Failed to validate AIStore spec'') None # hist s\<rparr>)"
  using assms
  by (simp add: reconcile_running_def ensurePrereqs_def reconcileResources_def or_record_def recordError_def run_simps)

section \<open>Objects of someone else\<close>

lemma run_foreign_client:
  assumes "ans_deployment E (hist s) (DeploymentNSName (cr s)) = Inr d" and "dep_Owner d \<noteq> Some (UID (cr s))"
  shows "reconcileAdminClient E s = (Ret (), s\<lparr>hist := GotDeployment (DeploymentNSName (cr s)) (Inr d) # hist s\<rparr>)"
  using assms by (simp add: reconcileAdminClient_def getDeployment_def Let_def run_simps)

lemma run_foreign_statsd:
  assumes "ans_configmap E (hist s) (statsd_ConfigMapNSName (cr s)) = Inr ow" and "ow \<noteq> Some (UID (cr s))"
  shows "reconcileDeprecatedStatsDCM E s =
     (Ret (), s\<lparr>hist := GotConfigMap (statsd_ConfigMapNSName (cr s)) (Inr ow) # hist s\<rparr>)"
  using assms by (simp add: reconcileDeprecatedStatsDCM_def getConfigMapOwner_def Let_def run_simps)

section \<open>The client Deployment settles\<close>

text \<open>Comparing and assigning a field is assigning it.\<close>

lemma sync_field_assigns:
  fixes d :: PodTemplateSpec and s :: "string list \<times> PodTemplateSpec"
  shows
  "snd (sync_field (\<lambda>t. pt_ServiceAccountName d \<noteq> pt_ServiceAccountName t) (pt_ServiceAccountName_update (\<lambda>_. pt_ServiceAccountName d)) r s) = (snd s)\<lparr>pt_ServiceAccountName := pt_ServiceAccountName d\<rparr>"
  "snd (sync_field (\<lambda>t. pt_AutomountServiceAccountToken d \<noteq> pt_AutomountServiceAccountToken t) (pt_AutomountServiceAccountToken_update (\<lambda>_. pt_AutomountServiceAccountToken d)) r s) = (snd s)\<lparr>pt_AutomountServiceAccountToken := pt_AutomountServiceAccountToken d\<rparr>"
  "snd (sync_field (\<lambda>t. pt_ImagePullSecrets d \<noteq> pt_ImagePullSecrets t) (pt_ImagePullSecrets_update (\<lambda>_. pt_ImagePullSecrets d)) r s) = (snd s)\<lparr>pt_ImagePullSecrets := pt_ImagePullSecrets d\<rparr>"
  "snd (sync_field (\<lambda>t. pt_Volumes d \<noteq> pt_Volumes t) (pt_Volumes_update (\<lambda>_. pt_Volumes d)) r s) = (snd s)\<lparr>pt_Volumes := pt_Volumes d\<rparr>"
  "snd (sync_field (\<lambda>t. pt_NodeSelector d \<noteq> pt_NodeSelector t) (pt_NodeSelector_update (\<lambda>_. pt_NodeSelector d)) r s) = (snd s)\<lparr>pt_NodeSelector := pt_NodeSelector d\<rparr>"
  "snd (sync_field (\<lambda>t. pt_Affinity d \<noteq> pt_Affinity t) (pt_Affinity_update (\<lambda>_. pt_Affinity d)) r s) = (snd s)\<lparr>pt_Affinity := pt_Affinity d\<rparr>"
  "snd (sync_field (\<lambda>t. pt_Tolerations d \<noteq> pt_Tolerations t) (pt_Tolerations_update (\<lambda>_. pt_Tolerations d)) r s) = (snd s)\<lparr>pt_Tolerations := pt_Tolerations d\<rparr>"
  "snd (sync_field (\<lambda>t. pt_Labels d \<noteq> pt_Labels t) (pt_Labels_update (\<lambda>_. pt_Labels d)) r s) = (snd s)\<lparr>pt_Labels := pt_Labels d\<rparr>"
  "snd (sync_field (\<lambda>t. pt_Annotations d \<noteq> pt_Annotations t) (pt_Annotations_update (\<lambda>_. pt_Annotations d)) r s) = (snd s)\<lparr>pt_Annotations := pt_Annotations d\<rparr>"
  by (cases "snd s"; simp add: sync_field_def)+

lemma sync_field_same: "\<not> differs (snd s) \<Longrightarrow> sync_field differs assign r s = s"
  by (simp add: sync_field_def)

definition synced_template :: "PodTemplateSpec \<Rightarrow> PodTemplateSpec \<Rightarrow> PodTemplateSpec" where
  "synced_template d t = t\<lparr>pt_ServiceAccountName := pt_ServiceAccountName d,
     pt_AutomountServiceAccountToken := pt_AutomountServiceAccountToken d,
     pt_ImagePullSecrets := pt_ImagePullSecrets d, pt_Volumes := pt_Volumes d,
     pt_NodeSelector := pt_NodeSelector d, pt_Affinity := pt_Affinity d,
     pt_Tolerations := pt_Tolerations d, pt_Labels := pt_Labels d, pt_Annotations := pt_Annotations d\<rparr>"

lemma syncPodTemplateSpec_result: "snd (syncPodTemplateSpec d t) = synced_template d t"
  unfolding syncPodTemplateSpec_def Let_def by (simp only: sync_field_assigns snd_conv synced_template_def)

lemma syncPodTemplateSpec_settles:
  "syncPodTemplateSpec d (synced_template d t) = ([], synced_template d t)"
  by (simp add: syncPodTemplateSpec_def Let_def sync_field_same synced_template_def)

lemma syncContainerSpec_settles:
  "syncContainerSpec d (snd (syncContainerSpec d c)) = ([], snd (syncContainerSpec d c))"
proof -
  have f: "c_Image (snd (syncContainerSpec d c)) = c_Image d" "c_Env (snd (syncContainerSpec d c)) = c_Env d"
    "c_Resources (snd (syncContainerSpec d c)) = c_Resources d"
    "c_VolumeMounts (snd (syncContainerSpec d c)) = c_VolumeMounts d"
    "c_ImagePullPolicy d \<noteq> [] \<Longrightarrow> c_ImagePullPolicy (snd (syncContainerSpec d c)) = c_ImagePullPolicy d"
    by (simp_all add: syncContainerSpec_def Let_def
        sync_field_result [where f = c_Image] sync_field_result [where f = c_Env]
        sync_field_result [where f = c_Resources] sync_field_result [where f = c_VolumeMounts]
        sync_field_result [where f = c_ImagePullPolicy])
  show ?thesis
    by (subst syncContainerSpec_def, cases "c_ImagePullPolicy d = []") (simp_all add: Let_def sync_field_same f)
qed

lemma SyncDeployment_settles_step:
  assumes "SyncDeployment d m = Some (rs, m')"
  shows "SyncDeployment d m' = Some ([], m')"
proof -
  from assms obtain dc ds c cs where d: "pt_Containers (dep_Template d) = dc # ds"
    and m: "pt_Containers (dep_Template m) = c # cs"
    by (auto simp: SyncDeployment_def split: list.splits)
  let ?c = "snd (syncContainerSpec dc c)"
  let ?t = "synced_template (dep_Template d) ((dep_Template m)\<lparr>pt_Containers := ?c # cs\<rparr>)"
  have lab: "snd (sync_field (\<lambda>m. dep_Labels d \<noteq> dep_Labels m) (dep_Labels_update (\<lambda>_. dep_Labels d)) r x)
      = (snd x)\<lparr>dep_Labels := dep_Labels d\<rparr>" for r and x :: "string list \<times> Deployment"
    by (cases "snd x") (simp add: sync_field_def)
  from assms have "m' = (m\<lparr>dep_Template := snd (syncPodTemplateSpec (dep_Template d)
      ((dep_Template m)\<lparr>pt_Containers := ?c # cs\<rparr>))\<rparr>)\<lparr>dep_Labels := dep_Labels d\<rparr>"
    using lab by (simp add: SyncDeployment_def d m Let_def split_beta prod_eq_iff)
  then have m': "m' = m\<lparr>dep_Template := ?t, dep_Labels := dep_Labels d\<rparr>"
    by (simp only: syncPodTemplateSpec_result)
  have t: "(?t)\<lparr>pt_Containers := ?c # cs\<rparr> = ?t" by (simp add: synced_template_def)
  have "pt_Containers ?t = ?c # cs" by (simp add: synced_template_def)
  then show ?thesis
    unfolding m' by (simp add: SyncDeployment_def d Let_def syncContainerSpec_settles t
        syncPodTemplateSpec_settles sync_field_same)
qed

end
