(* ===== verification/Host_Jobs.thy ===== *)
theory Host_Jobs
  imports Cluster_Safety
begin

text \<open>
  The jobs that clean the hosts of a decommissioned cluster: which of them a pass deletes, and
  when the hosts count as clean.
\<close>

section \<open>Deleting the jobs that are over\<close>

definition job_over :: "env \<Rightarrow> history \<Rightarrow> Job \<Rightarrow> bool" where
  "job_over E h j \<longleftrightarrow> job_Succeeded j > 0 \<or> now E h - job_Created j > 120 * 10 ^ 9"

text \<open>The answer to a deletion after which the object is gone.\<close>

definition was_deleted :: "err option \<Rightarrow> bool" where
  "was_deleted x = (case x of None \<Rightarrow> True | Some e \<Rightarrow> IsNotFound e \<or> IsNoMatchError e)"

lemma run_delete_job:
  "DeleteResourceIfExists k n E s = (d, s') \<Longrightarrow>
     s' = s\<lparr>hist := Did (Delete k n) (ans_do E (hist s) (Delete k n)) # hist s\<rparr> \<and>
     (\<forall>v. d = Ret v \<longrightarrow> was_deleted (ans_do E (hist s) (Delete k n)))"
  by (auto simp: DeleteResourceIfExists_def allowObjNotFound_def was_deleted_def run_simps
      split: option.splits if_splits)

lemma run_deleteFinishedJobs:
  assumes "deleteFinishedJobs jobs E s = (r, s')"
  shows "\<exists>new. hist s' = new @ hist s \<and> cr s' = cr s \<and>
     (\<forall>later e earlier. new = later @ e # earlier \<longrightarrow>
        (\<exists>j\<in>set jobs. \<exists>x. e = Did (Delete KJob (job_Name j)) x \<and> job_over E (earlier @ hist s) j)) \<and>
     (\<forall>left. r = Ret left \<longrightarrow> set left \<subseteq> set jobs \<and>
        (\<forall>j\<in>set jobs - set left. \<exists>x. was_deleted x \<and> Did (Delete KJob (job_Name j)) x \<in> set new))"
  using assms
proof (induction jobs arbitrary: s r)
  case Nil
  then show ?case by (auto simp: run_simps)
next
  case (Cons j jobs)
  show ?case
  proof (cases "job_over E (hist s) j")
    case False
    with Cons.prems obtain r1 where rest: "deleteFinishedJobs jobs E s = (r1, s')"
      and r: "r = (case r1 of Ret l \<Rightarrow> Ret (j # l) | Err e \<Rightarrow> Err e | Panic \<Rightarrow> Panic)"
      by (auto simp: run_simps job_over_def split: prod.splits outcome.splits)
    from Cons.IH [OF rest] obtain new where new: "hist s' = new @ hist s" "cr s' = cr s"
      "\<forall>later e earlier. new = later @ e # earlier \<longrightarrow>
        (\<exists>j\<in>set jobs. \<exists>x. e = Did (Delete KJob (job_Name j)) x \<and> job_over E (earlier @ hist s) j)"
      "\<forall>left. r1 = Ret left \<longrightarrow> set left \<subseteq> set jobs \<and>
        (\<forall>j\<in>set jobs - set left. \<exists>x. was_deleted x \<and> Did (Delete KJob (job_Name j)) x \<in> set new)" by blast
    then show ?thesis
      by (intro exI [of _ new]) (auto simp: r split: outcome.splits)
  next
    case True
    let ?x = "ans_do E (hist s) (Delete KJob (job_Name j))"
    let ?e = "Did (Delete KJob (job_Name j)) ?x"
    let ?s = "s\<lparr>hist := ?e # hist s\<rparr>"
    obtain d where d: "DeleteResourceIfExists KJob (job_Name j) E s = (d, ?s)"
      and gone: "\<forall>v. d = Ret v \<longrightarrow> was_deleted ?x"
      using run_delete_job by (metis surj_pair)
    show ?thesis
    proof (cases "\<exists>b. d = Ret b")
      case False
      with Cons.prems d True have "s' = ?s" "\<forall>l. r \<noteq> Ret l"
        by (auto simp: run_simps job_over_def split: outcome.splits)
      with True show ?thesis by (intro exI [of _ "[?e]"]) (auto simp: Cons_eq_append_conv)
    next
      case b: True
      with Cons.prems d True have rest: "deleteFinishedJobs jobs E ?s = (r, s')"
        by (auto simp: run_simps job_over_def)
      from Cons.IH [OF rest] obtain new where new: "hist s' = new @ ?e # hist s" "cr s' = cr s"
        "\<forall>later e earlier. new = later @ e # earlier \<longrightarrow>
          (\<exists>j\<in>set jobs. \<exists>x. e = Did (Delete KJob (job_Name j)) x \<and> job_over E (earlier @ ?e # hist s) j)"
        "\<forall>left. r = Ret left \<longrightarrow> set left \<subseteq> set jobs \<and>
          (\<forall>j\<in>set jobs - set left. \<exists>x. was_deleted x \<and> Did (Delete KJob (job_Name j)) x \<in> set new)" by auto
      show ?thesis
      proof (intro exI [of _ "new @ [?e]"] conjI allI impI)
        fix later e earlier
        assume "new @ [?e] = later @ e # earlier"
        then consider "later = new" "e = ?e" "earlier = []" | y where "new = later @ e # y" "earlier = y @ [?e]"
          by (auto simp: append_eq_append_conv2 Cons_eq_append_conv append_eq_Cons_conv)
        then show "\<exists>ja\<in>set (j # jobs). \<exists>x. e = Did (Delete KJob (job_Name ja)) x \<and> job_over E (earlier @ hist s) ja"
          using new(3) True by cases auto
      qed (use new gone b in auto)
    qed
  qed
qed

text \<open>
  A job is deleted only when it is over, and the hosts count as clean only when every clean-up
  job that was listed has been deleted, with an answer that says so: a deletion that fails does
  not count.
\<close>

definition host_cleanup_ok :: "env \<Rightarrow> AIStore \<Rightarrow> history \<Rightarrow> event \<Rightarrow> history \<Rightarrow> bool" where
  "host_cleanup_ok E ais h0 e b \<longleftrightarrow> (\<exists>jobs. GotJobs (Namespace ais) (Inr jobs) \<in> set b \<and>
     (\<forall>n r. e = Did (Delete KJob n) r \<longrightarrow>
        (\<exists>j\<in>set jobs. n = job_Name j \<and> HasPrefix (nn_Name n) CleanupPrefix \<and> job_over E (b @ h0) j)) \<and>
     (\<forall>a r. e = PatchedStatus a r \<longrightarrow> State (Status a) = ClusterFinalized \<and>
        (\<forall>j\<in>set jobs. HasPrefix (nn_Name (job_Name j)) CleanupPrefix \<longrightarrow>
           (\<exists>x. was_deleted x \<and> Did (Delete KJob (job_Name j)) x \<in> set b))))"

lemma run_status_events:
  assumes "updateStatusWithState t E s = (r, s')"
  shows "\<exists>x. hist s' = PatchedStatus (SetState (cr s) t) x # hist s \<or>
     (\<exists>ev. class_of ev = CEvent \<and> hist s' = ev # PatchedStatus (SetState (cr s) t) x # hist s)"
  using assms by (auto simp: updateStatusWithState_def patchStatus_def or_record_def recordError_def run_simps
      split: sum.splits)

lemma run_cleanupHost:
  assumes "cleanupHost E s = (r, s')"
  shows "\<exists>new. hist s' = new @ hist s \<and> (\<forall>later e earlier. new = later @ e # earlier \<longrightarrow>
     class_of e \<in> {CDelete KJob, CPatchStatus} \<longrightarrow> host_cleanup_ok E (cr s) (hist s) e earlier)"
proof (cases "ans_jobs E (hist s) (Namespace (cr s))")
  case (Inl e)
  with assms have "hist s' = [GotJobs (Namespace (cr s)) (Inl e)] @ hist s"
    by (auto simp: cleanupHost_def listCleanupJobs_def listJobs_def run_simps)
  then show ?thesis by (intro exI [of _ "[GotJobs (Namespace (cr s)) (Inl e)]"]) (auto simp: Cons_eq_append_conv)
next
  case (Inr jobs)
  let ?g = "GotJobs (Namespace (cr s)) (Inr jobs)"
  let ?mine = "filter (\<lambda>j. HasPrefix (nn_Name (job_Name j)) CleanupPrefix) jobs"
  obtain d s1 where d: "deleteFinishedJobs ?mine E (s\<lparr>hist := ?g # hist s\<rparr>) = (d, s1)" by fastforce
  from run_deleteFinishedJobs [OF d] obtain new where new: "hist s1 = new @ ?g # hist s" "cr s1 = cr s"
    "\<forall>later e earlier. new = later @ e # earlier \<longrightarrow>
        (\<exists>j\<in>set ?mine. \<exists>x. e = Did (Delete KJob (job_Name j)) x \<and> job_over E (earlier @ ?g # hist s) j)"
    "\<forall>left. d = Ret left \<longrightarrow> set left \<subseteq> set ?mine \<and>
        (\<forall>j\<in>set ?mine - set left. \<exists>x. was_deleted x \<and> Did (Delete KJob (job_Name j)) x \<in> set new)" by auto
  have dels: "host_cleanup_ok E (cr s) (hist s) e (y @ [?g])" if "new = later @ e # y" for later e y
    using new(3) that unfolding host_cleanup_ok_def by fastforce
  have base: "host_cleanup_ok E (cr s) (hist s) e earlier"
    if "new @ [?g] = later @ e # earlier" "class_of e \<in> {CDelete KJob, CPatchStatus}" for later e earlier
  proof -
    from that obtain y where "new = later @ e # y" "earlier = y @ [?g]"
      by (auto simp: append_eq_append_conv2 Cons_eq_append_conv append_eq_Cons_conv)
    with dels show ?thesis by simp
  qed
  show ?thesis
  proof (cases "d = Ret []")
    case False
    with assms Inr d have "hist s' = hist s1"
      by (auto simp: cleanupHost_def listCleanupJobs_def listJobs_def run_simps split: outcome.splits if_splits)
    with new(1) base show ?thesis by (intro exI [of _ "new @ [?g]"]) auto
  next
    case True
    with new(4) have gone: "\<forall>j\<in>set ?mine. \<exists>x. was_deleted x \<and> Did (Delete KJob (job_Name j)) x \<in> set new" by simp
    let ?p = "\<lambda>x. PatchedStatus (SetState (cr s) ClusterFinalized) x"
    have p: "host_cleanup_ok E (cr s) (hist s) (?p x) (new @ [?g])" for x
      unfolding host_cleanup_ok_def using gone by (intro exI [of _ jobs]) auto
    from True assms Inr d obtain r2 where "updateStatusWithState ClusterFinalized E s1 = (r2, s')"
      by (auto simp: cleanupHost_def listCleanupJobs_def listJobs_def run_simps split: prod.splits outcome.splits)
    from run_status_events [OF this] new(2) obtain x where
      "hist s' = ?p x # hist s1 \<or> (\<exists>ev. class_of ev = CEvent \<and> hist s' = ev # ?p x # hist s1)" by auto
    then show ?thesis
    proof (elim disjE exE conjE)
      assume "hist s' = ?p x # hist s1"
      with new(1) p base show ?thesis
        by (intro exI [of _ "?p x # new @ [?g]"]) (auto simp: Cons_eq_append_conv)
    next
      fix ev
      assume "class_of ev = CEvent" "hist s' = ev # ?p x # hist s1"
      with new(1) p base show ?thesis
        by (intro exI [of _ "ev # ?p x # new @ [?g]"]) (auto simp: Cons_eq_append_conv)
    qed
  qed
qed

end
