(* ===== verification/Sample.thy ===== *)
theory Sample
  imports Reconcile_Lifecycle Teardown Proxy_Safety Target_Safety Exclusion Host_Jobs
begin

text \<open>
  A concrete cluster and a concrete environment, at which the properties are evaluated: a CR
  with three proxies and three targets, an API server that stores what it is given, a cluster
  map with one node per pod. The functions of the third-party libraries are simple instances
  that behave as documented.
\<close>

section \<open>Libraries\<close>

definition s_lib :: k8s_lib where
  "s_lib = \<lparr>IsValidPortNum = (\<lambda>p. if 1 \<le> p \<and> p \<le> 65535 then [] else [''must be between 1 and 65535'']),
     IntValue = (\<lambda>p. case p of IntVal n \<Rightarrow> n | StrVal _ \<Rightarrow> 0),
     PortString = (\<lambda>p. case p of IntVal n \<Rightarrow> show_int n | StrVal s \<Rightarrow> s),
     AggregateText = (\<lambda>es. concat (map (\<lambda>(p, _, m). p @ '': '' @ m) es)),
     MatchToleration = (\<lambda>a b. tol_Key a = tol_Key b \<and> tol_Effect a = tol_Effect b \<and>
        tol_Operator a = tol_Operator b \<and> tol_Value a = tol_Value b),
     ToleratesTaint = (\<lambda>t taint. tol_Key t = taint_Key taint),
     DeepDerivative = (\<lambda>a b. True),
     MorphMarshal = (\<lambda>c. Inr (if RebalanceEnabled (Some c) then ''rebalance'' else ''no rebalance'')),
     ProxyConf = (\<lambda>p og d. p),
     MergeConf = (\<lambda>a b. b), MarshalConf = (\<lambda>c. Inr c), MarshalNetHTTP = (\<lambda>c. None),
     MarshalMap = (\<lambda>m. Inr []),
     MarshalLocal = (\<lambda>c. Inr (loc_ConfigDir c)), Sha256Hex = (\<lambda>s. ''h'' @ s), aisenv = (\<lambda>n. n),
     csiapi = (\<lambda>n. ''csi.cert-manager.io/'' @ n), UsageString = (\<lambda>u. ''usage''),
     NetworkAttachmentAnnot = ''k8s.v1.cni.cncf.io/networks'', opClusterDomain = ''cluster.local''\<rparr>"

lemma s_lib_fields:
  "MorphMarshal s_lib c = Inr (if RebalanceEnabled (Some c) then ''rebalance'' else ''no rebalance'')"
  "ProxyConf s_lib p og d = p" "MergeConf s_lib a b = b" "MarshalConf s_lib b = Inr b"
  "MarshalNetHTTP s_lib n = None" "MarshalMap s_lib m = Inr []" "Sha256Hex s_lib t = ''h'' @ t"
  "DeepDerivative s_lib x y = True"
  by (simp_all add: s_lib_def)

section \<open>The custom resource\<close>

definition s_ports :: ServiceSpec where
  "s_ports = \<lparr>ServicePort = IntVal 51080, PublicPort = IntVal 51081, IntraControlPort = IntVal 51082,
     IntraDataPort = IntVal 51083\<rparr>"

definition no_resources :: ResourceRequirements where
  "no_resources = \<lparr>res_Requests = fmempty, res_Limits = fmempty, res_Claims = []\<rparr>"

definition s_daemon :: DaemonSpec where
  "s_daemon = \<lparr>d_ServiceSpec = s_ports, d_SecurityContext = None, d_Size = None, d_AutoScaleConf = None,
     d_Annotations = fmempty, d_Labels = fmempty, d_Resources = no_resources, d_Capabilities = None,
     d_AISContainerSecurityContext = None, d_Env = [], d_Affinity = None, d_NodeSelector = None,
     d_Tolerations = [], d_HostPort = None, d_PVCRetentionPolicy = None, d_Probes = None,
     d_ExternalAccess = None\<rparr>"

definition s_target :: TargetSpec where
  "s_target = DaemonSpec.extend s_daemon
     \<lparr>t_Mounts = [], t_DisablePodAntiAffinity = None, t_HostNetwork = None,
      t_PodDisruptionBudget = None, t_ScaleDownMode = ScaleDownModeSafeDecommission\<rparr>"

lemma s_target_fields [simp]:
  "d_ServiceSpec s_target = s_ports" "d_Size s_target = None" "d_AutoScaleConf s_target = None"
  "d_ExternalAccess s_target = None" "d_Tolerations s_target = []" "d_NodeSelector s_target = None"
  "d_PVCRetentionPolicy s_target = None" "d_Capabilities s_target = None" "d_Env s_target = []"
  "t_PodDisruptionBudget s_target = None" "t_ScaleDownMode s_target = ScaleDownModeSafeDecommission"
  by (simp_all add: s_target_def s_daemon_def DaemonSpec.defs)

definition s_spec :: AIStoreSpec where
  "s_spec = \<lparr>Size = Some 3, NodeImage = ''aisnode:v4'', InitImage = ''aisinit:v4'', LogSidecar = None,
     StateStorage = Some \<lparr>ss_HostPath = Some ''/etc/ais'', ss_PVC = None, ss_EmptyDir = None\<rparr>,
     HostpathPrefix = None, StateStorageClass = None, SpecConfig = None, IssuerCAConfigMap = None,
     HostnameMap = None, APIMode = None, NetAttachment = None, ProxySpec = s_daemon,
     SpecTarget = s_target, ShutdownCluster = None, CleanupMetadata = Some True,
     CleanupData = Some True, SpecClusterDomain = None, GCPSecretName = None, AWSSecretName = None,
     OCISecretName = None, LogsDirectory = [], TLS = None, TracingTokenSecretName = None,
     AuthNSecretName = None, Auth = None, OperatorSkipVerifyCrt = None, ImagePullSecrets = [],
     EnableExternalLB = False, PublicNetDNSMode = None, AdminClient = None, PriorityClassName = None\<rparr>"

definition s_status :: AIStoreStatus where
  "s_status = \<lparr>State = ClusterReady,
     StatusAutoScale = \<lparr>ExpectedProxyNodes = [], ExpectedTargetNodes = []\<rparr>,
     IntraClusterURLStatus = ''http://ais-proxy.ns:51080'', ClusterID = ''uuid'',
     Conditions = fmap_of_list [(ConditionCreated, \<lparr>cond_Status = True,
       cond_Reason = ReasonOf ConditionCreated, cond_Message = [], cond_ObservedGeneration = 1\<rparr>)]\<rparr>"

definition s_ais :: AIStore where
  "s_ais = \<lparr>Name = ''ais'', Namespace = ''ns'', UID = ''uid'', Generation = 1, Deleted = False,
     Finalizers = [''finalize.ais''], Annotations = fmempty, Spec = s_spec, Status = s_status\<rparr>"

definition in_state :: "ClusterState \<Rightarrow> AIStore" where
  "in_state t = SetState s_ais t"

section \<open>Kubernetes objects and the cluster map\<close>

definition s_container :: Container where
  "s_container = \<lparr>c_Name = ''ais-node'', c_Image = ''aisnode:v4'', c_ImagePullPolicy = [],
     c_Command = [], c_Args = [], c_Env = [], c_Ports = [], c_Resources = no_resources, c_VolumeMounts = [],
     c_LivenessProbe = None, c_ReadinessProbe = None, c_StartupProbe = None,
     c_SecurityContext = None, c_Rest = []\<rparr>"

definition s_template :: PodTemplateSpec where
  "s_template = \<lparr>pt_Annotations = fmempty, pt_Labels = fmempty, pt_InitContainers = [],
     pt_Containers = [s_container], pt_SecurityContext = None, pt_Volumes = [], pt_PriorityClassName = [],
     pt_Tolerations = [], pt_ServiceAccountName = [], pt_AutomountServiceAccountToken = None,
     pt_ImagePullSecrets = [], pt_NodeSelector = fmempty, pt_Affinity = None, pt_HostNetwork = False, pt_DNSPolicy = [],
     pt_Rest = []\<rparr>"

text \<open>The templates the operator builds for the sample.\<close>

definition s_proxy_template :: PodTemplateSpec where
  "s_proxy_template = proxyPodTemplate s_lib s_ais 3"

definition s_target_template :: PodTemplateSpec where
  "s_target_template = targetPodTemplate s_lib s_ais 3"

text \<open>A StatefulSet with \<open>n\<close> pods, all ready and on one revision.\<close>

definition s_ss :: "NamespacedName \<Rightarrow> int32 \<Rightarrow> StatefulSet" where
  "s_ss nm n = \<lparr>sts_Name = nm, sts_Generation = 1, sts_Replicas = n, sts_Strategy = RollingUpdateStrategy,
     sts_RollingUpdate = Some 0, sts_Template = (if nm = proxy_StatefulSetNSName s_ais then s_proxy_template else s_target_template),
     sts_PVCRetentionPolicy = None,
     st_ObservedGeneration = 1, st_Replicas = n, st_ReadyReplicas = n, st_CurrentReplicas = n,
     st_UpdatedReplicas = n, st_CurrentRevision = ''r1'', st_UpdateRevision = ''r1''\<rparr>"

definition s_pod :: "string \<Rightarrow> string \<Rightarrow> Pod" where
  "s_pod name revision = \<lparr>pod_Name = name, pod_NodeName = ''node'', pod_Phase = ''Running'',
     pod_Labels = fmap_of_list [(''controller-revision-hash'', revision)], pod_Deleting = False,
     pod_Conditions = [\<lparr>pc_Type = ''Ready'', pc_True = True, pc_False = False, pc_Reason = []\<rparr>],
     pod_Waiting = []\<rparr>"

definition s_node :: "string \<Rightarrow> Snode" where
  "s_node host = \<lparr>sn_ID = ''id-'' @ host, sn_ControlHost = host, sn_PubURL = ''http://'' @ host,
     sn_InMaint = False, sn_InMaintOrDecomm = False\<rparr>"

definition s_smap :: Smap where
  "s_smap = \<lparr>smap_UUID = ''uuid'',
     smap_Pmap = map s_node [''ais-proxy-0'', ''ais-proxy-1'', ''ais-proxy-2''],
     smap_Tmap = map s_node [''ais-target-0'', ''ais-target-1'', ''ais-target-2''],
     smap_Primary = Some (s_node ''ais-proxy-0'')\<rparr>"

section \<open>The environment\<close>

text \<open>It hands out the CR as last seen, \<open>a\<close> at first, and does as it is told.\<close>

definition s_env :: "AIStore \<Rightarrow> env" where
  "s_env a = \<lparr>lib = s_lib, now = (\<lambda>h. 0),
     ans_do = (\<lambda>h x. None),
     ans_patch_ais = (\<lambda>h og b. Inr b), ans_patch_status = (\<lambda>h b. Inr b),
     ans_ais = (\<lambda>h n. case known h of None \<Rightarrow> Inr a | Some k \<Rightarrow> Inr k),
     ans_ss = (\<lambda>h d nm. Inr (s_ss nm 3)),
     ans_pod = (\<lambda>h nm. Inr (s_pod (nn_Name nm) ''r1'')),
     ans_pods = (\<lambda>h ns l. Inr []), ans_svc = (\<lambda>h n. Inl NotFound), ans_svcs = (\<lambda>h ns l. Inr []),
     ans_endpoints = (\<lambda>h n. Inr [[Some True]]), ans_deployment = (\<lambda>h n. Inl NotFound),
     ans_configmap = (\<lambda>h n. Inl NotFound), ans_nodes = (\<lambda>h sel. Inr []),
     ans_jobs = (\<lambda>h ns. Inr []), ans_pvcs = (\<lambda>h ns l. Inr []),
     ans_current = (\<lambda>h b. Inr True), ans_auth = (\<lambda>h. Inr []), ans_smap = (\<lambda>h. Inr s_smap)\<rparr>"

text \<open>The same with nothing left of the cluster, and with an API server that stores the CR.\<close>

definition gone_env :: "AIStore \<Rightarrow> env" where
  "gone_env a = (s_env a)\<lparr>ans_ais := (\<lambda>h n. case stored h of None \<Rightarrow> Inr a | Some k \<Rightarrow> Inr k),
     ans_ss := (\<lambda>h d nm. Inl NotFound),
     ans_do := (\<lambda>h x. case x of Delete k n \<Rightarrow> Some NotFound | _ \<Rightarrow> None)\<rparr>"

definition s_start :: "AIStore \<Rightarrow> st" where
  "s_start a = \<lparr>cr = a, hist = []\<rparr>"

definition s_name :: NamespacedName where
  "s_name = \<lparr>nn_Name = ''ais'', nn_Namespace = ''ns''\<rparr>"

lemma s_env_documented:
  "status_subresource (s_env a)" "status_subresource (gone_env a)" "stores_cr (gone_env a)" "empty_cluster (gone_env a)"
  "unedited (s_env a)"
  by (auto simp: status_subresource_def stores_cr_def empty_cluster_def unedited_def s_env_def gone_env_def)

text \<open>What a run at the sample is evaluated with.\<close>

lemmas sample_defs = s_env_def gone_env_def s_start_def s_ais_def s_spec_def s_status_def
  in_state_def SetState_def s_daemon_def s_name_def

abbreviation called :: "'a op \<Rightarrow> env \<Rightarrow> st \<Rightarrow> event list" where
  "called m E s \<equiv> hist (snd (m E s))"

section \<open>The settled cluster\<close>

text \<open>At the sample the daemons are as the operator wants them: a pass leaves them alone.\<close>

lemma s_env_answers [simp]:
  "lib (s_env a) = s_lib" "ans_ss (s_env a) h b nm = Inr (s_ss nm 3)" "ans_do (s_env a) h x = None"
  by (simp_all add: s_env_def)

lemma s_ais_sizes [simp]:
  "GetProxySize s_ais = Some 3" "GetTargetSize s_ais = Some 3" "IsProxyAutoScaling s_ais = False"
  "IsTargetAutoScaling s_ais = False" "GetMinReadyProxies s_ais = Some 3" "GetMinReadyTargets s_ais = Some 3"
  by code_simp+

lemma s_derivative_refl [simp]: "derivative_refl s_lib"
  by (simp add: derivative_refl_def s_lib_fields)

lemma s_desired [simp]:
  "cr s = s_ais \<Longrightarrow> lib E = s_lib \<Longrightarrow> desiredProxyTemplate E s = (Ret s_proxy_template, s)"
  "cr s = s_ais \<Longrightarrow> lib E = s_lib \<Longrightarrow> desiredTargetTemplate E s = (Ret s_target_template, s)"
  by (simp_all add: desiredProxyTemplate_def desiredTargetTemplate_def run_simps NewProxyStatefulSet_def
      NewTargetSS_def s_proxy_template_def s_target_template_def)

lemma s_template_current [simp]:
  "shouldUpdatePodTemplate s_lib s_proxy_template s_proxy_template = (False, [])"
  "shouldUpdatePodTemplate s_lib s_target_template s_target_template = (False, [])"
  by (simp_all add: shouldUpdatePodTemplate_refl proxy_volumes_distinct target_volumes_distinct
      s_proxy_template_def s_target_template_def)

lemma s_ss_fields [simp]:
  "sts_Template (s_ss (proxy_StatefulSetNSName s_ais) n) = s_proxy_template"
  "sts_Template (s_ss (target_StatefulSetNSName s_ais) n) = s_target_template"
  "isStatusCurrent (s_ss nm n)" "\<not> isRolloutInProgress (s_ss nm n)" "\<not> isScalingInProgress (s_ss nm n)"
  "sts_Replicas (s_ss nm n) = n" "sts_PVCRetentionPolicy (s_ss nm n) = None"
  by (simp_all add: s_ss_def isStatusCurrent_def isRolloutInProgress_def isScalingInProgress_def
     proxy_StatefulSetNSName_def target_StatefulSetNSName_def ProxyStatefulSetName_def target_statefulSetName_def
     Proxy_name_def Target_name_def)

lemma s_ss_settled [simp]:
  "isProxyScalingNeeded s_ais (s_ss nm 3) = Some False" "isTargetScalingNeeded s_ais (s_ss nm 3) = Some False"
  "isProxyStatefulSetReady s_ais (s_ss nm 3) = Some True" "isTargetStatefulSetReady s_ais (s_ss nm 3) = Some True"
  by (simp_all add: isProxyScalingNeeded_def isTargetScalingNeeded_def statefulsetScalingNeeded_def
     isProxyStatefulSetReady_def isTargetStatefulSetReady_def isStatefulSetReady_def isStatefulSetFullyReady_def Let_def s_ss_def)

lemma s_no_policy [simp]:
  "d_PVCRetentionPolicy (ProxySpec (Spec s_ais)) = None" "d_PVCRetentionPolicy (SpecTarget (Spec s_ais)) = None"
  "TargetPDBEnabled s_ais = False"
  by (simp_all add: s_ais_def s_spec_def s_daemon_def TargetPDBEnabled_def)

lemma s_settled_daemons:
  "\<exists>h. handleProxyState (s_env a) \<lparr>cr = s_ais, hist = h0\<rparr> = (Ret done_result, \<lparr>cr = s_ais, hist = h\<rparr>)"
  "\<exists>h. handleTargetState (s_env a) \<lparr>cr = s_ais, hist = h0\<rparr> = (Ret done_result, \<lparr>cr = s_ais, hist = h\<rparr>)"
  by (simp_all add: handleProxyState_def handle_proxy_ss_def drive_proxies_def getSS_def run_simps Let_def
      syncProxyPVCRetentionPolicy_def shouldUpdatePVCRetentionPolicy_def
      handleTargetState_def handle_target_ss_def drive_targets_def syncTargetPVCRetentionPolicy_def
      reconcileTargetPDB_def or_record_def DeleteResourceIfExists_def allowObjNotFound_def)

text \<open>A template of another priority class is stale.\<close>

definition lower_priority :: "PodTemplateSpec \<Rightarrow> PodTemplateSpec" where
  "lower_priority t = t\<lparr>pt_PriorityClassName := ''low''\<rparr>"

lemma s_template_stale:
  "shouldUpdatePodTemplate s_lib s_proxy_template (lower_priority s_proxy_template)
     = (True, ''updating priority class name'')"
  "shouldUpdatePodTemplate s_lib s_target_template (lower_priority s_target_template)
     = (True, ''updating priority class name'')"
proof -
  have "priority_class s_ais = []" by (simp add: priority_class_def s_ais_def s_spec_def)
  moreover have "distinct (map vol_Name (pt_Volumes s_proxy_template))"
    "distinct (map vol_Name (pt_Volumes s_target_template))"
    by (simp_all add: proxy_volumes_distinct target_volumes_distinct s_proxy_template_def s_target_template_def)
  ultimately have "pt_PriorityClassName s_proxy_template = []" "pt_PriorityClassName s_target_template = []"
    "shouldUpdateVolumes s_proxy_template (lower_priority s_proxy_template) = (False, [])"
    "shouldUpdateVolumes s_target_template (lower_priority s_target_template) = (False, [])"
    by (simp_all add: s_proxy_template_def s_target_template_def proxyPodTemplate_def targetPodTemplate_def Let_def
        shouldUpdateVolumes_def lower_priority_def first_volume_change_ok volume_map_distinct)
  then show "shouldUpdatePodTemplate s_lib s_proxy_template (lower_priority s_proxy_template)
      = (True, ''updating priority class name'')"
    "shouldUpdatePodTemplate s_lib s_target_template (lower_priority s_target_template)
      = (True, ''updating priority class name'')"
    by (simp_all add: shouldUpdatePodTemplate_def shouldUpdateInitContainers_def shouldUpdateContainers_def
        shouldUpdatePodSecurityContext_def shouldUpdateAnnotations_def shouldUpdateLabels_def
        shouldUpdatePriorityClass_def lower_priority_def s_lib_fields)
qed

end
