(* ===== verification/Target_Properties.thy ===== *)
theory Target_Properties
  imports Sample
begin

text \<open>
  The properties of the target controller: rollouts, scale-downs, resizes and template updates
  never take more targets out of service than they should, nor without the evidence for it.
\<close>

lemmas evaluate_disable = disableRebalance_def patchStatus_def or_record_def handleConfigState_def
  updateClusterConfig_def SetClusterConfigUsingMsg_def patchAISAnnotations_def patchCR_def Let_def
  GenerateGlobalConfig_def GenerateConfigToSet_def HashGlobalConfig_def calcRestartConfigAnnotation_def
  HashRestartConfigs_def restartAnnotation_def annotation_def HasState_def RestartConfigHashInitial_def
  ConfigHashAnnotation_def s_lib_fields

section \<open>Rollouts\<close>

text \<open>A cluster of two targets of which the second runs the old revision and is in maintenance.\<close>

definition rolling_ss :: StatefulSet where
  "rolling_ss = (s_ss \<lparr>nn_Name = ''ais-target'', nn_Namespace = ''ns''\<rparr> 2)\<lparr>sts_Strategy := OnDeleteStrategy,
     st_UpdatedReplicas := 1, st_UpdateRevision := ''r2''\<rparr>"

definition rolling_env :: env where
  "rolling_env = (s_env s_ais)\<lparr>
     ans_pods := \<lambda>h ns l. Inr [s_pod ''ais-target-0'' ''r2'', s_pod ''ais-target-1'' ''r1''],
     ans_smap := \<lambda>h. Inr (s_smap\<lparr>smap_Tmap := [s_node ''ais-target-0'',
       (s_node ''ais-target-1'')\<lparr>sn_InMaint := True, sn_InMaintOrDecomm := True\<rparr>]\<rparr>)\<rparr>"

text \<open>
  C9. A rollout touches one target: the lowest ordinal on an old revision, when every lower one
  runs the new revision and finished. It is put into maintenance without a rebalance, and its
  pod is deleted only when it could not be scheduled or the cluster map shows it in maintenance.
\<close>

theorem rollout_in_order:
  "\<exists>new. hist (snd (handleTargetRollout ss E s)) = new @ hist s \<and>
     (\<forall>later e earlier. new = later @ e # earlier \<longrightarrow> class_of e \<in> {CMaintenance, CDelete KPod} \<longrightarrow>
        rollout_ok (cr s) ss e earlier)"
proof -
  have "runs E (guard {CMaintenance, CDelete KPod} (rollout_ok (cr s) ss) (hist s))
      (having (cr s) (hist s) (\<lambda>_. True)) (handleTargetRollout ss) (\<lambda>_ _. True)"
    by (rule runs_handleTargetRollout)
  from guarded_calls [OF this surjective_pairing] show ?thesis .
qed

theorem rollout_in_order_witness:
  "Did (Delete KPod (in_namespace s_ais ''ais-target-1'')) None
      \<in> set (called (handleTargetRollout rolling_ss) rolling_env (s_start s_ais)) \<and>
   (\<exists>new. called (handleTargetRollout rolling_ss) rolling_env (s_start s_ais) = new @ hist (s_start s_ais) \<and>
     (\<forall>later e earlier. new = later @ e # earlier \<longrightarrow> class_of e \<in> {CMaintenance, CDelete KPod} \<longrightarrow>
        rollout_ok (cr (s_start s_ais)) rolling_ss e earlier))"
  by (rule conjI [OF _ rollout_in_order]) code_simp

text \<open>One pass of a rollout disturbs at most one target: one maintenance request or one pod deletion.\<close>

theorem rollout_disturbs_one:
  "\<exists>new. hist (snd (handleTargetRollout ss E s)) = new @ hist s \<and> length (filter disruptive new) \<le> 1"
  by (rule one_disruption [OF surjective_pairing])

section \<open>Scaling down\<close>

text \<open>
  C10. Before pods go, their targets are told: every target that is put into maintenance or
  decommissioned has an ordinal that goes away, is still counted by the cluster, and is treated
  the way the CR says. Targets that are kept are put into maintenance and never decommissioned,
  and user data go with a target unless the CR asks for a safe decommission.
\<close>

theorem scale_down_prepares_leaving_targets:
  assumes "GetTargetSize (cr s) = Some n" and "0 \<le> n" and "is_int32 k"
  shows "\<exists>new. hist (snd (prepareTargetsForScaleDown k E s)) = new @ hist s \<and>
     (\<forall>later e earlier. new = later @ e # earlier \<longrightarrow> class_of e \<in> {CMaintenance, CDecommNode} \<longrightarrow>
        retire_ok (cr s) n k e earlier)"
proof -
  have "runs E (guard {CMaintenance, CDecommNode} (retire_ok (cr s) n k) (hist s))
      (having (cr s) (hist s) (\<lambda>_. True)) (prepareTargetsForScaleDown k) (\<lambda>_ _. True)"
    by (rule runs_prepareTargetsForScaleDown [OF assms])
  from guarded_calls [OF this surjective_pairing] show ?thesis .
qed

definition two_targets :: AIStore where
  "two_targets = s_ais\<lparr>Spec := s_spec\<lparr>Size := Some 2\<rparr>\<rparr>"

theorem scale_down_prepares_leaving_targets_witness:
  "Did (DecommissionNode ''id-ais-target-2'' False) None
      \<in> set (called (prepareTargetsForScaleDown 3) (s_env two_targets) (s_start two_targets)) \<and>
   (\<exists>new. called (prepareTargetsForScaleDown 3) (s_env two_targets) (s_start two_targets) = new @ hist (s_start two_targets) \<and>
     (\<forall>later e earlier. new = later @ e # earlier \<longrightarrow> class_of e \<in> {CMaintenance, CDecommNode} \<longrightarrow>
        retire_ok (cr (s_start two_targets)) 2 3 e earlier))"
  by (rule conjI [OF _ scale_down_prepares_leaving_targets]; code_simp)

section \<open>Resizing\<close>

text \<open>
  C11. A scaling pass patches a target StatefulSet in its replicas only, to the size the CR asks
  for. When the StatefulSet of the pass has more replicas than that, each target that goes was
  dealt with before: in a cluster map of the pass it is in maintenance or being decommissioned,
  or the cluster accepted the request to take it out, or the map does not have it and its pod is
  missing or cannot run. After that the code decides on the size \<open>c\<close> it reads. To shrink it needs a
  cluster map: with targets that are kept, every one that goes and is in the map is in
  maintenance; otherwise no target of the map is in the middle of a decommission and their number
  is not \<open>c\<close> (which targets the map still has is not looked at, see below). To grow by more than
  one from a running cluster it needs a healthy cluster, rebalance disabled and the configuration
  pushed. The object patched is the answer of a second read just before, of size \<open>c\<close> unless
  somebody resized it in between. (Sizes are 32-bit integers and not negative.)
\<close>

theorem resize_needs_evidence:
  assumes "sizes_int32 E" and "is_int32 (sts_Replicas ss)"
  shows "\<exists>new. hist (snd (handleTargetScaling ss E s)) = new @ hist s \<and>
     (\<forall>later e earlier. new = later @ e # earlier \<longrightarrow> class_of e \<in> {CPatchSS} \<longrightarrow>
        scaling_ok (lib E) (cr s) (sts_Replicas ss) e earlier)"
proof -
  have start: "passing (cr s) (hist s) s" by (simp add: passing_def)
  have "runs E (guard {CPatchSS} (scaling_ok (lib E) (cr s) (sts_Replicas ss)) (hist s)) (passing (cr s) (hist s))
      (handleTargetScaling ss) (\<lambda>_. since (hist s) (\<lambda>_. True))"
    by (rule runs_since_any [OF runs_handleTargetScaling [OF assms]])
  from guarded_run [OF this start surjective_pairing] show ?thesis by blast
qed

text \<open>
  Three targets are to become two, and the third has left the cluster map: its pod is gone, and
  the StatefulSet is shrunk.
\<close>

definition left_env :: env where
  "left_env = (s_env two_targets)\<lparr>ans_pod := \<lambda>h nm. Inl NotFound,
     ans_smap := \<lambda>h. Inr (s_smap\<lparr>smap_Tmap := [s_node ''ais-target-0'', s_node ''ais-target-1'']\<rparr>)\<rparr>"

abbreviation three_pods :: StatefulSet where
  "three_pods \<equiv> s_ss (target_StatefulSetNSName s_ais) 3"

theorem resize_needs_evidence_witness:
  "map class_of (called (handleTargetScaling three_pods) left_env (s_start two_targets)) =
     [CPatchSS, CRead, CRead, CGetClient, CRead, CRead, CRead, CGetClient, CPatchAIS, CSetConfig, CGetClient, CPatchStatus] \<and>
   (\<exists>new. called (handleTargetScaling three_pods) left_env (s_start two_targets) = new @ hist (s_start two_targets) \<and>
     (\<forall>later e earlier. new = later @ e # earlier \<longrightarrow> class_of e \<in> {CPatchSS} \<longrightarrow>
        scaling_ok (lib left_env) (cr (s_start two_targets)) (sts_Replicas three_pods) e earlier))"
proof (rule conjI [OF _ resize_needs_evidence])
  show "map class_of (called (handleTargetScaling three_pods) left_env (s_start two_targets)) =
     [CPatchSS, CRead, CRead, CGetClient, CRead, CRead, CRead, CGetClient, CPatchAIS, CSetConfig, CGetClient, CPatchStatus]"
    by code_simp
qed (simp_all add: left_env_def sample_defs two_targets_def is_int32_def sizes_int32_def s_ss_def)

text \<open>
  The check for a decommission counts. Here five targets are to become two while the fifth, which
  crashes, is not in the map: the other four are asked for, the map read next (another proxy may
  answer it, with an older map) still has the third and the fourth as active, and the
  StatefulSet is shrunk in the same pass.
\<close>

definition four_left :: Smap where
  "four_left = s_smap\<lparr>smap_Tmap := map s_node [''ais-target-0'', ''ais-target-1'', ''ais-target-2'', ''ais-target-3'']\<rparr>"

definition counting_env :: env where
  "counting_env = (s_env two_targets)\<lparr>ans_ss := \<lambda>h d nm. Inr (s_ss nm 5),
     ans_pod := \<lambda>h nm. Inr ((s_pod (nn_Name nm) ''r1'')\<lparr>pod_Waiting := [Some ''CrashLoopBackOff'']\<rparr>),
     ans_smap := \<lambda>h. Inr four_left\<rparr>"

theorem decommission_check_counts:
  "isReadyToScaleDownDecommission four_left 5 \<and> list_all (\<lambda>nd. \<not> sn_InMaintOrDecomm nd) (smap_Tmap four_left) \<and>
   hd (map class_of (called (handleTargetScaling (s_ss (target_StatefulSetNSName s_ais) 5)) counting_env
         (s_start two_targets))) = CPatchSS"
  by code_simp

section \<open>Templates\<close>

text \<open>
  C12. A new pod template reaches the targets only after rebalance was disabled: the CR says so,
  and a configuration generated from the CR as the server holds it then was pushed to the
  cluster. The patch changes the template and nothing else.
\<close>

theorem template_after_rebalance:
  "\<exists>new. hist (snd (syncTargetPodSpec ss E s)) = new @ hist s \<and>
     (\<forall>later e earlier. new = later @ e # earlier \<longrightarrow> class_of e \<in> {CPatchSS} \<longrightarrow>
        target_template_ok (lib E) ss e earlier) \<and>
     (fst (syncTargetPodSpec ss E s) = Ret True \<longrightarrow> rebalance_off (lib E) new)"
proof -
  have "runs E (guard {CPatchSS} (target_template_ok (lib E) ss) (hist s)) (since (hist s) (\<lambda>_. True))
      (syncTargetPodSpec ss) (\<lambda>updated. since (hist s) (\<lambda>b. updated \<longrightarrow> rebalance_off (lib E) b))"
    by (rule runs_syncTargetPodSpec)
  from guarded_run [OF this since_start surjective_pairing] show ?thesis by auto
qed

definition stale_ss :: StatefulSet where
  "stale_ss = (s_ss s_name 3)\<lparr>sts_Template := lower_priority s_target_template\<rparr>"

theorem template_after_rebalance_witness:
  "map class_of (called (syncTargetPodSpec stale_ss) (s_env s_ais) (s_start s_ais)) =
     [CPatchSS, CPatchAIS, CSetConfig, CGetClient, CPatchStatus] \<and>
   (\<exists>new. called (syncTargetPodSpec stale_ss) (s_env s_ais) (s_start s_ais) = new @ hist (s_start s_ais) \<and>
     (\<forall>later e earlier. new = later @ e # earlier \<longrightarrow> class_of e \<in> {CPatchSS} \<longrightarrow>
        target_template_ok (lib (s_env s_ais)) stale_ss e earlier) \<and>
     (fst (syncTargetPodSpec stale_ss (s_env s_ais) (s_start s_ais)) = Ret True \<longrightarrow>
        rebalance_off (lib (s_env s_ais)) new))"
proof (rule conjI [OF _ template_after_rebalance])
  have "fst (disableRebalance ReasonUpgrading msg (s_env s_ais) (s_start s_ais)) = Ret () \<and>
    map class_of (called (disableRebalance ReasonUpgrading msg) (s_env s_ais) (s_start s_ais)) =
      [CPatchAIS, CSetConfig, CGetClient, CPatchStatus]" for msg
    by (simp add: sample_defs run_simps evaluate_disable)
  then obtain s where "disableRebalance ReasonUpgrading
      (''Disabled due to rolling upgrade: '' @ ''updating priority class name'') (s_env s_ais) (s_start s_ais) = (Ret (), s)"
    and "map class_of (hist s) = [CPatchAIS, CSetConfig, CGetClient, CPatchStatus]"
    by (metis prod.collapse)
  then show "map class_of (called (syncTargetPodSpec stale_ss) (s_env s_ais) (s_start s_ais)) =
     [CPatchSS, CPatchAIS, CSetConfig, CGetClient, CPatchStatus]"
    by (simp add: syncTargetPodSpec_def stale_ss_def s_template_stale run_simps Let_def s_start_def)
qed

section \<open>One thing at a time\<close>

text \<open>
  C13. A pass over the target StatefulSet never resizes it while pods are being rolled, and never
  changes the pod template while it is being resized.
\<close>

theorem target_pass_excludes:
  "\<exists>new. hist (snd (handle_target_ss ss E s)) = new @ hist s \<and>
     (\<forall>old upd r. Did (PatchSS old upd) r \<in> set new \<longrightarrow>
        (isRolloutInProgress ss \<longrightarrow> sts_Replicas upd = sts_Replicas old) \<and>
        (isScalingInProgress ss \<longrightarrow> sts_Template upd = sts_Template old))"
  by (rule one_change_at_a_time [OF rolling_targets_keep_size scaling_targets_keep_template
        foot_handle_target_ss [OF subset_refl]])

theorem target_pass_excludes_witness:
  "isRolloutInProgress rolling_ss \<and>
   (\<exists>new. called (handle_target_ss rolling_ss) rolling_env (s_start s_ais) = new @ hist (s_start s_ais) \<and>
     (\<forall>old upd r. Did (PatchSS old upd) r \<in> set new \<longrightarrow>
        (isRolloutInProgress rolling_ss \<longrightarrow> sts_Replicas upd = sts_Replicas old) \<and>
        (isScalingInProgress rolling_ss \<longrightarrow> sts_Template upd = sts_Template old)))"
  by (rule conjI [OF _ target_pass_excludes]) code_simp

end
