(* ===== verification/Proxy_Properties.thy ===== *)
theory Proxy_Properties
  imports Sample
begin

text \<open>
  The properties of the proxy controller: the AIStore cluster never loses its primary proxy to a
  scale-down or a rollout that the operator drives.
\<close>

section \<open>Scaling down\<close>

text \<open>
  C14. A scale-down keeps a primary: before any proxy is decommissioned and before the replicas
  are reduced, a cluster map names a primary among the pods that stay, or one of them that is
  ready, active and on the current revision was made the primary. Only proxies whose pod goes
  away are decommissioned, and they keep the user data.
\<close>

theorem scale_down_keeps_primary:
  assumes "GetProxySize (cr s) = Some n" and "n < sts_Replicas ss"
  shows "\<exists>new. hist (snd (handleProxyScale ss E s)) = new @ hist s \<and>
     (\<forall>later e earlier. new = later @ e # earlier \<longrightarrow> class_of e \<in> {CDecommNode, CPatchSS} \<longrightarrow>
        scale_down_ok (cr s) ss n e earlier)"
proof -
  have "runs E (guard {CDecommNode, CPatchSS} (scale_down_ok (cr s) ss n) (hist s))
      (having (cr s) (hist s) (\<lambda>_. True)) (handleProxyScale ss)
      (\<lambda>_. having (cr s) (hist s) (primary_below (cr s) ss n))"
    by (rule runs_handleProxyScale [OF assms])
  from guarded_calls [OF this surjective_pairing] show ?thesis .
qed

text \<open>Two proxies are wanted, three run, and the last one is the primary.\<close>

definition two_proxies :: AIStore where
  "two_proxies = s_ais\<lparr>Spec := s_spec\<lparr>Size := Some 2\<rparr>\<rparr>"

definition last_primary :: env where
  "last_primary = (s_env two_proxies)\<lparr>ans_smap := \<lambda>h. Inr (s_smap\<lparr>smap_Primary := Some (s_node ''ais-proxy-2'')\<rparr>)\<rparr>"

theorem scale_down_keeps_primary_witness:
  "map class_of (called (handleProxyScale (s_ss s_name 3)) last_primary (s_start two_proxies)) =
     [CPatchSS, CRead, CDecommNode, CSetPrimary, CRead, CGetClient, CRead, CRead, CGetClient] \<and>
   (\<exists>new. called (handleProxyScale (s_ss s_name 3)) last_primary (s_start two_proxies) = new @ hist (s_start two_proxies) \<and>
     (\<forall>later e earlier. new = later @ e # earlier \<longrightarrow> class_of e \<in> {CDecommNode, CPatchSS} \<longrightarrow>
        scale_down_ok (cr (s_start two_proxies)) (s_ss s_name 3) 2 e earlier))"
  by (rule conjI [OF _ scale_down_keeps_primary]; code_simp)

section \<open>Rollouts\<close>

text \<open>
  C15. A new pod template reaches running proxies only when pod 0 holds the primary role, and
  with the partition that keeps pod 0 from being rolled; the replicas stay as they are.
\<close>

theorem template_holds_pod_zero:
  "\<exists>new. hist (snd (syncProxyPodSpec ss E s)) = new @ hist s \<and>
     (\<forall>later e earlier. new = later @ e # earlier \<longrightarrow> class_of e \<in> {CPatchSS} \<longrightarrow>
        template_patch_ok (cr s) ss e earlier)"
proof -
  have "runs E (guard {CPatchSS} (template_patch_ok (cr s) ss) (hist s))
      (having (cr s) (hist s) (\<lambda>_. True)) (syncProxyPodSpec ss) (\<lambda>_ _. True)"
    by (rule runs_syncProxyPodSpec)
  from guarded_calls [OF this surjective_pairing] show ?thesis .
qed

definition stale_proxies :: StatefulSet where
  "stale_proxies = (s_ss s_name 3)\<lparr>sts_Template := lower_priority s_proxy_template\<rparr>"

theorem template_holds_pod_zero_witness:
  "map class_of (called (syncProxyPodSpec stale_proxies) last_primary (s_start s_ais)) =
     [CPatchSS, CSetPrimary, CRead, CGetClient] \<and>
   (\<exists>new. called (syncProxyPodSpec stale_proxies) last_primary (s_start s_ais) = new @ hist (s_start s_ais) \<and>
     (\<forall>later e earlier. new = later @ e # earlier \<longrightarrow> class_of e \<in> {CPatchSS} \<longrightarrow>
        template_patch_ok (cr (s_start s_ais)) stale_proxies e earlier))"
proof (rule conjI [OF _ template_holds_pod_zero])
  have "fst (setPrimaryTo 0 last_primary (s_start s_ais)) = Ret ()"
    "map class_of (called (setPrimaryTo 0) last_primary (s_start s_ais)) = [CSetPrimary, CRead, CGetClient]"
    by code_simp+
  then obtain s where "setPrimaryTo 0 last_primary (s_start s_ais) = (Ret (), s)"
    and "map class_of (hist s) = [CSetPrimary, CRead, CGetClient]"
    by (metis prod.collapse)
  moreover have "lib last_primary = s_lib" "ans_do last_primary h x = None" "st_ReadyReplicas (s_ss nm n) = n" for h x nm n
    by (simp_all add: last_primary_def s_ss_def)
  ultimately show "map class_of (called (syncProxyPodSpec stale_proxies) last_primary (s_start s_ais)) =
     [CPatchSS, CSetPrimary, CRead, CGetClient]"
    by (simp add: syncProxyPodSpec_def stale_proxies_def s_template_stale run_simps Let_def s_start_def)
qed

text \<open>
  C16. Pod 0 is let go of last: the partition is lifted only when one pod is left on the old
  revision and the pod of the highest ordinal holds the primary role.
\<close>

theorem partition_lifted_last:
  "\<exists>new. hist (snd (handleProxyRollout ss E s)) = new @ hist s \<and>
     (\<forall>later e earlier. new = later @ e # earlier \<longrightarrow> class_of e \<in> {CPatchSS} \<longrightarrow>
        partition_patch_ok (cr s) ss e earlier)"
proof -
  have "runs E (guard {CPatchSS} (partition_patch_ok (cr s) ss) (hist s))
      (having (cr s) (hist s) (\<lambda>_. True)) (handleProxyRollout ss) (\<lambda>_ _. True)"
    by (rule runs_handleProxyRollout)
  from guarded_calls [OF this surjective_pairing] show ?thesis .
qed

definition last_old_proxy :: StatefulSet where
  "last_old_proxy = (s_ss s_name 3)\<lparr>sts_RollingUpdate := Some 1, st_CurrentReplicas := 1,
     st_UpdatedReplicas := 2, st_UpdateRevision := ''r2''\<rparr>"

theorem partition_lifted_last_witness:
  "map class_of (called (handleProxyRollout last_old_proxy) (s_env s_ais) (s_start s_ais)) =
     [CPatchSS, CSetPrimary, CRead, CGetClient] \<and>
   (\<exists>new. called (handleProxyRollout last_old_proxy) (s_env s_ais) (s_start s_ais) = new @ hist (s_start s_ais) \<and>
     (\<forall>later e earlier. new = later @ e # earlier \<longrightarrow> class_of e \<in> {CPatchSS} \<longrightarrow>
        partition_patch_ok (cr (s_start s_ais)) last_old_proxy e earlier))"
  by (rule conjI [OF _ partition_lifted_last]) code_simp

text \<open>
  A pass over the proxy StatefulSet never resizes it while pods are being rolled, and never
  changes the pod template while it is being resized.
\<close>

theorem proxy_pass_excludes:
  "\<exists>new. hist (snd (handle_proxy_ss ss E s)) = new @ hist s \<and>
     (\<forall>old upd r. Did (PatchSS old upd) r \<in> set new \<longrightarrow>
        (isRolloutInProgress ss \<longrightarrow> sts_Replicas upd = sts_Replicas old) \<and>
        (isScalingInProgress ss \<longrightarrow> sts_Template upd = sts_Template old))"
  by (rule one_change_at_a_time [OF rolling_proxies_keep_size scaling_proxies_keep_template
        foot_handle_proxy_ss [OF subset_refl]])

theorem proxy_pass_excludes_witness:
  "isRolloutInProgress last_old_proxy \<and>
   (\<exists>new. called (handle_proxy_ss last_old_proxy) (s_env s_ais) (s_start s_ais) = new @ hist (s_start s_ais) \<and>
     (\<forall>old upd r. Did (PatchSS old upd) r \<in> set new \<longrightarrow>
        (isRolloutInProgress last_old_proxy \<longrightarrow> sts_Replicas upd = sts_Replicas old) \<and>
        (isScalingInProgress last_old_proxy \<longrightarrow> sts_Template upd = sts_Template old)))"
  by (rule conjI [OF _ proxy_pass_excludes]) code_simp

end
