(* ===== verification/Cluster_Properties.thy ===== *)
theory Cluster_Properties
  imports Sample
begin

text \<open>
  The properties of the cluster controller outside the lifecycle: what a reconcile may conclude
  from what it has seen, how the generated configuration is pushed, which objects are touched,
  and that bringing an object to its desired form settles.
\<close>

section \<open>Validation and readiness\<close>




text \<open>
  The cluster counts as ready only on its own word: it answered that it is healthy and gave
  a cluster map with as many proxies and targets as the CR needs at least.
\<close>

theorem ready_on_evidence:
  assumes "checkAISClusterReady E s = (Ret True, s')"
  shows "\<exists>new m p t. hist s' = new @ hist s \<and> healthy m new \<and>
     GetMinReadyProxies (cr s) = Some p \<and> p \<le> wrap32 (int (length (smap_Pmap m))) \<and>
     GetMinReadyTargets (cr s) = Some t \<and> t \<le> wrap32 (int (length (smap_Tmap m)))"
  using assms by (rule run_checkAISClusterReady)

theorem ready_on_evidence_witness:
  "\<exists>new m p t. called checkAISClusterReady (s_env s_ais) (s_start s_ais) = new @ hist (s_start s_ais) \<and> healthy m new \<and>
     GetMinReadyProxies (cr (s_start s_ais)) = Some p \<and> p \<le> wrap32 (int (length (smap_Pmap m))) \<and>
     GetMinReadyTargets (cr (s_start s_ais)) = Some t \<and> t \<le> wrap32 (int (length (smap_Tmap m)))"
proof (rule ready_on_evidence)
  have "fst (checkAISClusterReady (s_env s_ais) (s_start s_ais)) = Ret True" by code_simp
  then show "checkAISClusterReady (s_env s_ais) (s_start s_ais) =
      (Ret True, snd (checkAISClusterReady (s_env s_ais) (s_start s_ais)))"
    by (metis prod.collapse)
qed



section \<open>The generated configuration\<close>

text \<open>
  Rebalance is enabled in the configuration generated for the cluster exactly when the CR's
  configuration enables it (or says nothing) and the operator's own condition allows it.
\<close>

theorem rebalance_of_config:
  "RebalanceEnabled (Some (specConfig ais)) \<longleftrightarrow>
     IsConditionTrue ais ConditionReadyRebalance \<and> RebalanceEnabled (SpecConfig (Spec ais))"
  by (simp add: specConfig_rebalance)

text \<open>
  An unchanged configuration is not pushed: when its hash is the one that the CR is
  annotated with, the cluster is not called and at most the CR's annotations are patched.
\<close>

theorem unchanged_config_not_pushed:
  assumes "GenerateGlobalConfig (lib E) (cr s) = Inr conf"
    and "HashGlobalConfig (lib E) conf = Inr (annotation (Annotations (cr s)) ConfigHashAnnotation)"
  shows "\<exists>new. hist (snd (handleConfigState False E s)) = new @ hist s \<and> class_of ` set new \<subseteq> {CPatchAIS}"
  using assms by (rule run_config_unchanged)

definition configured :: AIStore where
  "configured = s_ais\<lparr>Annotations := fmap_of_list [(ConfigHashAnnotation, ''hno rebalance'')]\<rparr>"

theorem unchanged_config_not_pushed_witness:
  "\<exists>new. called (handleConfigState False) (s_env configured) (s_start configured) = new @ hist (s_start configured) \<and>
     class_of ` set new \<subseteq> {CPatchAIS}"
  by (rule unchanged_config_not_pushed [where conf = "''no rebalance''"])
     (simp_all add: configured_def sample_defs GenerateGlobalConfig_def GenerateConfigToSet_def HashGlobalConfig_def
        annotation_def s_lib_fields specConfig_rebalance IsConditionTrue_def)

text \<open>
  The restart hash of a cluster is marked initial exactly when none was recorded or when the
  recorded one is the initial mark of the same hash; recording it twice changes nothing.
\<close>

theorem restart_hash_stable:
  assumes "\<not> HasSuffix h RestartConfigHashInitial" and "h \<noteq> []"
  shows "(HasSuffix (restartAnnotation annot h) RestartConfigHashInitial \<longleftrightarrow>
      annot = [] \<or> annot = h @ RestartConfigHashInitial) \<and>
    restartAnnotation (restartAnnotation annot h) h = restartAnnotation annot h"
  using restartAnnotation_initial_iff [OF assms(1)] restartAnnotation_idem [OF assms] by blast

theorem restart_hash_stable_witness:
  "restartAnnotation [] ''ab'' = ''ab'' @ RestartConfigHashInitial \<and>
   (HasSuffix (restartAnnotation ''cd'' ''ab'') RestartConfigHashInitial \<longleftrightarrow>
      ''cd'' = [] \<or> ''cd'' = ''ab'' @ RestartConfigHashInitial) \<and>
   restartAnnotation (restartAnnotation ''cd'' ''ab'') ''ab'' = restartAnnotation ''cd'' ''ab''"
  by (rule conjI [OF _ restart_hash_stable]; code_simp)

section \<open>Bringing objects to their desired form\<close>

text \<open>
  C32. Synchronising a pod template settles: after it, the check that asked for it no longer
  does, so that a rollout is not started again and again. This holds for every template whose
  volumes have different names, and the templates the operator builds are of that kind.
\<close>

theorem sync_template_settles:
  assumes "derivative_refl L"
  shows "(distinct (map vol_Name (pt_Volumes d)) \<longrightarrow>
        shouldUpdatePodTemplate L d (snd (syncPodTemplate L d c)) = (False, [])) \<and>
     (NewProxyStatefulSet L ais n = Some ss \<or> NewTargetSS L ais n = Some ss \<longrightarrow>
        shouldUpdatePodTemplate L (dss_Template ss) (snd (syncPodTemplate L (dss_Template ss) c)) = (False, []))"
proof (intro conjI impI)
  show "shouldUpdatePodTemplate L d (snd (syncPodTemplate L d c)) = (False, [])"
    if "distinct (map vol_Name (pt_Volumes d))"
    using assms that by (rule sync_settles)
  have "distinct (map vol_Name (pt_Volumes (dss_Template ss)))"
    if "NewProxyStatefulSet L ais n = Some ss \<or> NewTargetSS L ais n = Some ss"
    using that proxy_volumes_distinct target_volumes_distinct
    by (auto simp: NewProxyStatefulSet_def NewTargetSS_def)
  then show "shouldUpdatePodTemplate L (dss_Template ss) (snd (syncPodTemplate L (dss_Template ss) c)) = (False, [])"
    if "NewProxyStatefulSet L ais n = Some ss \<or> NewTargetSS L ais n = Some ss"
    using that by (intro sync_settles assms) blast
qed

theorem sync_template_settles_witness:
  "fst (shouldUpdatePodTemplate s_lib (s_template\<lparr>pt_PriorityClassName := ''high''\<rparr>) s_template) \<and>
   shouldUpdatePodTemplate s_lib (s_template\<lparr>pt_PriorityClassName := ''high''\<rparr>)
     (snd (syncPodTemplate s_lib (s_template\<lparr>pt_PriorityClassName := ''high''\<rparr>) s_template)) = (False, []) \<and>
   shouldUpdatePodTemplate s_lib s_proxy_template (snd (syncPodTemplate s_lib s_proxy_template s_template)) = (False, [])"
proof -
  have 1: "NewProxyStatefulSet s_lib s_ais 3 = Some (the (NewProxyStatefulSet s_lib s_ais 3))"
    and 2: "dss_Template (the (NewProxyStatefulSet s_lib s_ais 3)) = s_proxy_template"
    by (simp_all add: NewProxyStatefulSet_def s_proxy_template_def)
  have "fst (shouldUpdatePodTemplate s_lib (s_template\<lparr>pt_PriorityClassName := ''high''\<rparr>) s_template)"
    by code_simp
  moreover have "distinct (map vol_Name (pt_Volumes (s_template\<lparr>pt_PriorityClassName := ''high''\<rparr>)))"
    by (simp add: s_template_def)
  ultimately show ?thesis
    using sync_template_settles [OF s_derivative_refl, of "s_template\<lparr>pt_PriorityClassName := ''high''\<rparr>" s_template]
      sync_template_settles [OF s_derivative_refl, where ais = s_ais and n = 3 and c = s_template
        and ss = "the (NewProxyStatefulSet s_lib s_ais 3)" and d = s_template] 1
    unfolding 2 by blast
qed

text \<open>
  Synchronising the admin client's Deployment settles: a second pass finds no reason to
  change it and leaves it as it is.
\<close>

theorem sync_deployment_settles:
  assumes "SyncDeployment d m = Some (rs, m')"
  shows "SyncDeployment d m' = Some ([], m')"
  using assms by (rule SyncDeployment_settles_step)

definition s_deployment :: "string \<Rightarrow> Deployment" where
  "s_deployment img = \<lparr>dep_Name = s_name, dep_Owner = Some ''uid'', dep_Labels = fmempty, dep_Annotations = fmempty,
     dep_Replicas = 1, dep_Selector = fmempty,
     dep_Template = s_template\<lparr>pt_Containers := [s_container\<lparr>c_Image := img\<rparr>]\<rparr>\<rparr>"

theorem sync_deployment_settles_witness:
  "SyncDeployment (s_deployment ''new'') (s_deployment ''old'') = Some ([''image''], s_deployment ''new'') \<and>
   SyncDeployment (s_deployment ''new'') (s_deployment ''new'') = Some ([], s_deployment ''new'')"
proof
  show first: "SyncDeployment (s_deployment ''new'') (s_deployment ''old'') = Some ([''image''], s_deployment ''new'')"
    by code_simp
  show "SyncDeployment (s_deployment ''new'') (s_deployment ''new'') = Some ([], s_deployment ''new'')"
    by (rule sync_deployment_settles [OF first])
qed

text \<open>
  Objects of the operator's names that another owner created are left alone: neither the
  Deployment of the admin client nor the ConfigMap of statsd is changed or deleted then.
\<close>

theorem foreign_objects_untouched:
  "(\<forall>d. ans_deployment E (hist s) (DeploymentNSName (cr s)) = Inr d \<longrightarrow> dep_Owner d \<noteq> Some (UID (cr s)) \<longrightarrow>
     reconcileAdminClient E s = (Ret (), s\<lparr>hist := GotDeployment (DeploymentNSName (cr s)) (Inr d) # hist s\<rparr>)) \<and>
   (\<forall>owner. ans_configmap E (hist s) (statsd_ConfigMapNSName (cr s)) = Inr owner \<longrightarrow> owner \<noteq> Some (UID (cr s)) \<longrightarrow>
     reconcileDeprecatedStatsDCM E s =
       (Ret (), s\<lparr>hist := GotConfigMap (statsd_ConfigMapNSName (cr s)) (Inr owner) # hist s\<rparr>))"
  by (intro conjI allI impI run_foreign_client run_foreign_statsd)

definition foreign_env :: env where
  "foreign_env = (s_env s_ais)\<lparr>ans_deployment := \<lambda>h n. Inr ((s_deployment ''x'')\<lparr>dep_Owner := Some ''other''\<rparr>),
     ans_configmap := \<lambda>h n. Inr None\<rparr>"

theorem foreign_objects_untouched_witness:
  "reconcileAdminClient foreign_env (s_start s_ais) = (Ret (), (s_start s_ais)\<lparr>hist :=
     [GotDeployment (DeploymentNSName s_ais) (Inr ((s_deployment ''x'')\<lparr>dep_Owner := Some ''other''\<rparr>))]\<rparr>) \<and>
   reconcileDeprecatedStatsDCM foreign_env (s_start s_ais) =
     (Ret (), (s_start s_ais)\<lparr>hist := [GotConfigMap (statsd_ConfigMapNSName s_ais) (Inr None)]\<rparr>)"
  using foreign_objects_untouched [of foreign_env "s_start s_ais"]
  by (simp add: foreign_env_def s_start_def s_deployment_def) (simp add: s_ais_def)

section \<open>Cleaning up\<close>

text \<open>
  C36. A clean-up job is deleted only when it succeeded or is older than two minutes, and the
  hosts count as clean only when every clean-up job that was listed has been deleted: the deletion
  succeeded or found nothing to delete.
\<close>

theorem hosts_clean_when_jobs_over:
  "\<exists>new. hist (snd (cleanupHost E s)) = new @ hist s \<and> (\<forall>later e earlier. new = later @ e # earlier \<longrightarrow>
     class_of e \<in> {CDelete KJob, CPatchStatus} \<longrightarrow> host_cleanup_ok E (cr s) (hist s) e earlier)"
  by (rule run_cleanupHost [OF surjective_pairing])

definition s_job :: Job where
  "s_job = \<lparr>job_Name = s_name\<lparr>nn_Name := ''cleanup-node-1''\<rparr>, job_Succeeded = 1, job_Created = 0\<rparr>"

definition jobs_env :: env where
  "jobs_env = (s_env s_ais)\<lparr>ans_jobs := \<lambda>h n. Inr [s_job]\<rparr>"

theorem hosts_clean_when_jobs_over_witness:
  "map class_of (called cleanupHost jobs_env (s_start s_ais)) = [CPatchStatus, CDelete KJob, CRead] \<and>
   (\<exists>new. called cleanupHost jobs_env (s_start s_ais) = new @ hist (s_start s_ais) \<and>
     (\<forall>later e earlier. new = later @ e # earlier \<longrightarrow> class_of e \<in> {CDelete KJob, CPatchStatus} \<longrightarrow>
        host_cleanup_ok jobs_env (cr (s_start s_ais)) (hist (s_start s_ais)) e earlier))"
  by (rule conjI [OF _ hosts_clean_when_jobs_over]) code_simp

text \<open>
  The claims of the targets are deleted but not reported: when there is one of them, the
  pass deletes it and answers that nothing was deleted, so that the clean-up does not wait for it.
\<close>

theorem target_claims_not_reported:
  assumes "ans_pvcs E (hist s) (Namespace (cr s)) (target_SelectorLabels (cr s)) = Inr [p]"
    and "\<And>h. ans_do E h (Delete KPVC (pvcr_Name p)) = None"
    and "\<And>h. ans_pvcs E h (Namespace (cr s)) (proxy_SelectorLabels (cr s)) = Inr []"
  shows "\<exists>s'. deleteAllPVCs E s = (Ret False, s') \<and> Did (Delete KPVC (pvcr_Name p)) None \<in> set (hist s')"
  using assms by (rule run_deleteAllPVCs)

definition claims_env :: env where
  "claims_env = (s_env s_ais)\<lparr>ans_pvcs := \<lambda>h ns l. if l = target_SelectorLabels s_ais
     then Inr [\<lparr>pvcr_Name = s_name, pvcr_StorageClassName = None\<rparr>] else Inr []\<rparr>"

theorem target_claims_not_reported_witness:
  "\<exists>s'. deleteAllPVCs claims_env (s_start s_ais) = (Ret False, s') \<and> Did (Delete KPVC s_name) None \<in> set (hist s')"
proof -
  let ?p = "\<lparr>pvcr_Name = s_name, pvcr_StorageClassName = None\<rparr>"
  have "proxy_SelectorLabels s_ais \<noteq> target_SelectorLabels s_ais" by code_simp
  then have "\<exists>s'. deleteAllPVCs claims_env (s_start s_ais) = (Ret False, s') \<and>
      Did (Delete KPVC (pvcr_Name ?p)) None \<in> set (hist s')"
    by (intro target_claims_not_reported) (simp_all add: claims_env_def s_start_def s_env_def)
  then show ?thesis by simp
qed

section \<open>Autoscaling\<close>

text \<open>
  The nodes that an autoscaled daemon is expected on are, in order and once each, those of
  the selected nodes whose taints it tolerates, and those that still run one of its pods.
\<close>

theorem autoscale_nodes_exact:
  assumes "autoscale_nodes d labels E s = (Ret v, s')"
  shows "sorted v \<and> distinct v \<and> (\<exists>nodes pods. set v =
      node_Name ` {n \<in> set nodes. toleratesTaints (lib E) (d_Tolerations d) n} \<union>
      pod_NodeName ` {p \<in> set pods. pod_NodeName p \<noteq> []} \<and>
    hist s' = [GotPods (Namespace (cr s)) (fmupd LabelManagedBy LabelManagedByValue labels) (Inr pods),
      GotNodes (selector_of d) (Inr nodes)] @ hist s)"
  using assms by (rule run_autoscale_nodes)

definition auto_env :: env where
  "auto_env = (s_env s_ais)\<lparr>ans_pods := \<lambda>h ns l. Inr [s_pod ''ais-proxy-0'' ''r1'']\<rparr>"

theorem autoscale_nodes_exact_witness:
  "\<exists>nodes pods. set [''node''] =
      node_Name ` {n \<in> set nodes. toleratesTaints (lib auto_env) (d_Tolerations s_daemon) n} \<union>
      pod_NodeName ` {p \<in> set pods. pod_NodeName p \<noteq> []} \<and>
    called (autoscale_nodes s_daemon fmempty) auto_env (s_start s_ais) =
      [GotPods (Namespace (cr (s_start s_ais))) (fmupd LabelManagedBy LabelManagedByValue fmempty) (Inr pods),
       GotNodes (selector_of s_daemon) (Inr nodes)] @ hist (s_start s_ais)"
proof -
  have "fst (autoscale_nodes s_daemon fmempty auto_env (s_start s_ais)) = Ret [''node'']" by code_simp
  then have "autoscale_nodes s_daemon fmempty auto_env (s_start s_ais) =
      (Ret [''node''], snd (autoscale_nodes s_daemon fmempty auto_env (s_start s_ais)))"
    by (metis prod.collapse)
  from autoscale_nodes_exact [OF this] show ?thesis by blast
qed

end
