(* ===== verification/Spec_Properties.thy ===== *)
theory Spec_Properties
  imports Sample
begin

text \<open>
  The properties of the CR and of what is derived from it alone: validation, sizes, tolerations,
  names, labels; and what a pass may do on a StatefulSet whose status is stale.
\<close>

section \<open>Validation\<close>

text \<open>
  C31. What a valid spec guarantees to the controllers: daemons that do not scale automatically
  have a size of at least one, exactly one kind of state storage is configured, and the ports of
  both daemons are valid.
\<close>

theorem valid_spec_guarantees:
  assumes "snd (ValidateSpec L ais) = None"
  shows "(\<not> IsProxyAutoScaling ais \<longrightarrow> (\<exists>n\<ge>1. GetProxySize ais = Some n)) \<and>
     (\<not> IsTargetAutoScaling ais \<longrightarrow> (\<exists>n\<ge>1. GetTargetSize ais = Some n)) \<and>
     storage_modes (Spec ais) = 1 \<and>
     snd (validateServiceSpec L ais) = None"
  using assms valid_sizes [of ais] valid_storage_one_mode [of ais] by (auto simp: ValidateSpec_ok_iff)

theorem valid_spec_guarantees_witness:
  "(\<exists>n\<ge>1. GetProxySize s_ais = Some n) \<and> (\<exists>n\<ge>1. GetTargetSize s_ais = Some n) \<and>
   storage_modes (Spec s_ais) = 1 \<and> snd (validateServiceSpec s_lib s_ais) = None"
proof -
  have "snd (ValidateSpec s_lib s_ais) = None" by code_simp
  moreover have "\<not> IsProxyAutoScaling s_ais" "\<not> IsTargetAutoScaling s_ais" by code_simp+
  ultimately show ?thesis using valid_spec_guarantees [of s_lib s_ais] by simp
qed

text \<open>
  Validation reports the first check that fails, and no warning of a check after it: a spec
  whose sizes are wrong is reported as such with the warnings on deprecated fields, whatever
  else is wrong with it.
\<close>

theorem first_error_reported:
  "(snd (validateSize ais) = Some e \<longrightarrow>
      ValidateSpec L ais = (fst (validateDeprecatedFields ais), Some e)) \<and>
   (snd (ValidateSpec L ais) = None \<longrightarrow>
      fst (ValidateSpec L ais) = concat (map fst (validations L ais)))"
proof (intro conjI impI)
  assume "snd (validateSize ais) = Some e"
  then show "ValidateSpec L ais = (fst (validateDeprecatedFields ais), Some e)"
    by (simp add: ValidateSpec_def validations_def validateDeprecatedFields_def)
next
  assume "snd (ValidateSpec L ais) = None"
  then show "fst (ValidateSpec L ais) = concat (map fst (validations L ais))"
    using run_checks_warnings [of "[]" "validations L ais"] by (simp add: ValidateSpec_def)
qed

theorem first_error_reported_witness:
  "ValidateSpec s_lib (s_ais\<lparr>Spec := s_spec\<lparr>Size := None\<rparr>\<rparr>) =
     (fst (validateDeprecatedFields (s_ais\<lparr>Spec := s_spec\<lparr>Size := None\<rparr>\<rparr>)), Some (errInvalidClusterSize None)) \<and>
   fst (ValidateSpec s_lib s_ais) = concat (map fst (validations s_lib s_ais))"
proof
  have "snd (validateSize (s_ais\<lparr>Spec := s_spec\<lparr>Size := None\<rparr>\<rparr>)) = Some (errInvalidClusterSize None)" by code_simp
  then show "ValidateSpec s_lib (s_ais\<lparr>Spec := s_spec\<lparr>Size := None\<rparr>\<rparr>) =
     (fst (validateDeprecatedFields (s_ais\<lparr>Spec := s_spec\<lparr>Size := None\<rparr>\<rparr>)), Some (errInvalidClusterSize None))"
    using first_error_reported [of "s_ais\<lparr>Spec := s_spec\<lparr>Size := None\<rparr>\<rparr>"] by blast
  have "snd (ValidateSpec s_lib s_ais) = None" by code_simp
  then show "fst (ValidateSpec s_lib s_ais) = concat (map fst (validations s_lib s_ais))"
    using first_error_reported [of s_ais _ s_lib] by blast
qed

section \<open>Derived values\<close>

text \<open>
  The tolerations of the whole cluster are the proxy's followed by new ones of the targets:
  each of the targets' is covered, nothing is invented, and nothing that is appended matches
  what is already there.
\<close>

theorem all_tolerations:
  "\<exists>c. GetAllTolerations same ais = d_Tolerations (ProxySpec (Spec ais)) @ c \<and>
     set c \<subseteq> set (d_Tolerations (SpecTarget (Spec ais))) \<and>
     (\<forall>t\<in>set (d_Tolerations (SpecTarget (Spec ais))).
        \<exists>x\<in>set (GetAllTolerations same ais). same x t \<or> x = t) \<and>
     (\<forall>i<length c. \<forall>x\<in>set (d_Tolerations (ProxySpec (Spec ais)) @ take i c). \<not> same x (c ! i))"
proof -
  let ?p = "d_Tolerations (ProxySpec (Spec ais))" and ?t = "d_Tolerations (SpecTarget (Spec ais))"
  obtain c where "append_unique same ?p ?t = ?p @ c" "set c \<subseteq> set ?t"
      "\<forall>i<length c. \<forall>x\<in>set (?p @ take i c). \<not> same x (c ! i)"
    using append_unique_new [of same ?p ?t] by (elim exE conjE)
  then show ?thesis
    unfolding GetAllTolerations_def mergeTolerationsUnique_def
    by (intro exI [of _ c] conjI ballI append_unique_covers)
qed

definition a_toleration :: "string \<Rightarrow> Toleration" where
  "a_toleration key = \<lparr>tol_Key = key, tol_Operator = [], tol_Value = [], tol_Effect = [], tol_TolerationSeconds = None\<rparr>"

definition tolerant :: AIStore where
  "tolerant = s_ais\<lparr>Spec := s_spec\<lparr>ProxySpec := s_daemon\<lparr>d_Tolerations := [a_toleration ''a'']\<rparr>,
     SpecTarget := s_target\<lparr>d_Tolerations := [a_toleration ''a'', a_toleration ''b'']\<rparr>\<rparr>\<rparr>"

theorem all_tolerations_witness:
  "GetAllTolerations (MatchToleration s_lib) tolerant = [a_toleration ''a'', a_toleration ''b''] \<and>
   (\<exists>c. GetAllTolerations (MatchToleration s_lib) tolerant = d_Tolerations (ProxySpec (Spec tolerant)) @ c \<and>
     set c \<subseteq> set (d_Tolerations (SpecTarget (Spec tolerant))) \<and>
     (\<forall>t\<in>set (d_Tolerations (SpecTarget (Spec tolerant))).
        \<exists>x\<in>set (GetAllTolerations (MatchToleration s_lib) tolerant). MatchToleration s_lib x t \<or> x = t) \<and>
     (\<forall>i<length c. \<forall>x\<in>set (d_Tolerations (ProxySpec (Spec tolerant)) @ take i c). \<not> MatchToleration s_lib x (c ! i)))"
  by (rule conjI [OF _ all_tolerations]) code_simp

text \<open>
  A host name of the cluster map names at most one pod of a StatefulSet: what the
  controllers decide about an ordinal, they decide about the right node.
\<close>

theorem one_ordinal_per_host:
  "(\<forall>i j. hostnameMatchesPod h (proxy_PodName ais i) \<longrightarrow> hostnameMatchesPod h (proxy_PodName ais j) \<longrightarrow> i = j) \<and>
   (\<forall>i j. hostnameMatchesPod h (target_PodName ais i) \<longrightarrow> hostnameMatchesPod h (target_PodName ais j) \<longrightarrow> i = j)"
  using proxy_pods.hostname_one_ordinal target_pods.hostname_one_ordinal by blast

theorem one_ordinal_per_host_witness:
  "hostnameMatchesPod ''ais-target-12.svc'' (target_PodName s_ais 12) \<and>
   \<not> hostnameMatchesPod ''ais-target-12.svc'' (target_PodName s_ais 1)"
proof
  show "hostnameMatchesPod ''ais-target-12.svc'' (target_PodName s_ais 12)" by code_simp
  then show "\<not> hostnameMatchesPod ''ais-target-12.svc'' (target_PodName s_ais 1)"
    using one_ordinal_per_host [of "''ais-target-12.svc''" s_ais] by force
qed

lemma fmsubset_iff_lookup: "m \<subseteq>\<^sub>f n \<longleftrightarrow> (\<forall>k v. fmlookup m k = Some v \<longrightarrow> fmlookup n k = Some v)"
  unfolding fmsubset.rep_eq map_le_def by (metis domD domI)

text \<open>
  The Deployment of the admin client selects its own pods exactly when the user's labels
  leave the two selector labels as they are.
\<close>

theorem client_selects_its_pods:
  assumes "AdminClient (Spec ais) = Some c" and "NewClientDeployment L ais url = Some d"
  shows "dep_Selector d \<subseteq>\<^sub>f pt_Labels (dep_Template d) \<longleftrightarrow>
     (\<forall>k v. fmlookup (dep_Selector d) k = Some v \<longrightarrow> fmlookup (ac_Labels c) k \<in> {None, Some v})"
proof -
  from assms have d: "dep_Selector d = client_selectorLabels ais"
    "pt_Labels (dep_Template d) = client_selectorLabels ais ++\<^sub>f ac_Labels c"
    by (auto simp: NewClientDeployment_def Let_def)
  have lookup: "fmlookup (client_selectorLabels ais ++\<^sub>f ac_Labels c) k =
      (case fmlookup (ac_Labels c) k of None \<Rightarrow> fmlookup (client_selectorLabels ais) k | Some v \<Rightarrow> Some v)" for k
    by (auto dest: fmdomI split: option.splits)
  have "fmlookup (client_selectorLabels ais ++\<^sub>f ac_Labels c) k = Some v \<longleftrightarrow> fmlookup (ac_Labels c) k \<in> {None, Some v}"
    if "fmlookup (client_selectorLabels ais) k = Some v" for k v
    unfolding lookup using that by (cases "fmlookup (ac_Labels c) k") auto
  then show ?thesis unfolding d by (simp add: fmsubset_iff_lookup)
qed

definition relabelled :: AIStore where
  "relabelled = s_ais\<lparr>Spec := s_spec\<lparr>AdminClient := Some \<lparr>ac_Enabled = None, ac_Image = None,
     ac_ImagePullPolicy = None, ac_Resources = no_resources, ac_Annotations = fmempty,
     ac_Labels = fmap_of_list [(LabelComponentPrefixed, ''mine'')], ac_NodeSelector = fmempty,
     ac_Affinity = None, ac_Tolerations = [], ac_Env = [], ac_CAConfigMap = None\<rparr>\<rparr>\<rparr>"

theorem client_selects_its_pods_witness:
  "\<not> dep_Selector (the (NewClientDeployment s_lib relabelled [])) \<subseteq>\<^sub>f
     pt_Labels (dep_Template (the (NewClientDeployment s_lib relabelled [])))"
proof -
  let ?d = "the (NewClientDeployment s_lib relabelled [])"
  have 1: "AdminClient (Spec relabelled) = Some (the (AdminClient (Spec relabelled)))"
    and 2: "NewClientDeployment s_lib relabelled [] = Some ?d"
    by (simp_all add: relabelled_def NewClientDeployment_def Let_def)
  have "fmlookup (dep_Selector ?d) LabelComponentPrefixed = Some ''client''"
    "fmlookup (ac_Labels (the (AdminClient (Spec relabelled)))) LabelComponentPrefixed = Some ''mine''"
    by (simp_all add: relabelled_def NewClientDeployment_def client_selectorLabels_def LabelComponentPrefixed_def
        LabelAppPrefixed_def Let_def)
  with client_selects_its_pods [OF 1 2] show ?thesis by force
qed

end
