(* ===== verification/Rebuild.thy ===== *)
theory Rebuild
  imports Daemon_Pods
begin

text \<open>
  Building a StatefulSet changes the CR in memory, through the pointers the builders are given.
  These lemmas show that nothing read later depends on it: built again from the changed CR, the
  StatefulSet is the same.
\<close>

lemma MaxLogTotal_in_place [simp]:
  "MaxLogTotal (proxy_in_place ais) = MaxLogTotal ais" "MaxLogTotal (target_in_place ais) = MaxLogTotal ais"
  by (simp_all add: proxy_in_place_def target_in_place_def MaxLogTotal_def)

lemma NewResourceReq_in_place:
  "NewResourceReq (proxy_in_place ais) (d_Resources (ProxySpec (Spec (proxy_in_place ais)))) = NewResourceReq ais (d_Resources (ProxySpec (Spec ais)))"
  "NewResourceReq (target_in_place ais) (d_Resources (SpecTarget (Spec (target_in_place ais)))) = NewResourceReq ais (d_Resources (SpecTarget (Spec ais)))"
proof -
  have 1: "NewResourceReq (proxy_in_place ais) r = NewResourceReq ais r"
    "NewResourceReq (target_in_place ais) r = NewResourceReq ais r" for r
    by (simp_all add: NewResourceReq_def)
  have 2: "d_Resources (ProxySpec (Spec (proxy_in_place ais))) = NewResourceReq ais (d_Resources (ProxySpec (Spec ais)))"
    "d_Resources (SpecTarget (Spec (target_in_place ais))) = NewResourceReq ais (d_Resources (SpecTarget (Spec ais)))"
    by (simp_all add: proxy_in_place_def target_in_place_def in_place_def)
  show "NewResourceReq (proxy_in_place ais) (d_Resources (ProxySpec (Spec (proxy_in_place ais)))) = NewResourceReq ais (d_Resources (ProxySpec (Spec ais)))"
    "NewResourceReq (target_in_place ais) (d_Resources (SpecTarget (Spec (target_in_place ais)))) = NewResourceReq ais (d_Resources (SpecTarget (Spec ais)))"
    by (simp_all only: 1 2 NewResourceReq_idem)
qed

lemma CreateAISAffinity_in_place:
  "CreateAISAffinity (map_option (\<lambda>a. CreateAISAffinity (Some a) l) a) l = CreateAISAffinity a l"
  by (cases a) (simp_all add: CreateAISAffinity_idem)


lemma proxy_in_place_reads [simp]:
  "GetTargetSize (proxy_in_place ais) = GetTargetSize ais" "StateStoragePVCStorageClass (Spec (proxy_in_place ais)) = StateStoragePVCStorageClass (Spec ais)"
  "StateStorageHostPathPrefix (Spec (proxy_in_place ais)) = StateStorageHostPathPrefix (Spec ais)"
  "UsesStateEmptyDir (Spec (proxy_in_place ais)) = UsesStateEmptyDir (Spec ais)" "GetTLSCertificate (proxy_in_place ais) = GetTLSCertificate ais"
  "HasTLSEnabled (proxy_in_place ais) = HasTLSEnabled ais" "UseTLSSecret (proxy_in_place ais) = UseTLSSecret ais"
  "GetTLSSecretName (proxy_in_place ais) = GetTLSSecretName ais" "TracingTokenSecretName (Spec (proxy_in_place ais)) = TracingTokenSecretName (Spec ais)"
  "ClusterDomainOf L (proxy_in_place ais) = ClusterDomainOf L ais" "hostname_values (proxy_in_place ais) = hostname_values ais"
  "GetLogSidecarImage (proxy_in_place ais) = GetLogSidecarImage ais" "GetLogSidecarResources (proxy_in_place ais) = GetLogSidecarResources ais"
  "priority_class (proxy_in_place ais) = priority_class ais" "UseHTTPS (proxy_in_place ais) = UseHTTPS ais"
  "Name (proxy_in_place ais) = Name ais" "Namespace (proxy_in_place ais) = Namespace ais" "Annotations (proxy_in_place ais) = Annotations ais"
  "InitImage (Spec (proxy_in_place ais)) = InitImage (Spec ais)" "NodeImage (Spec (proxy_in_place ais)) = NodeImage (Spec ais)"
  "HostnameMap (Spec (proxy_in_place ais)) = HostnameMap (Spec ais)" "NetAttachment (Spec (proxy_in_place ais)) = NetAttachment (Spec ais)"
  "LogsDirectory (Spec (proxy_in_place ais)) = LogsDirectory (Spec ais)" "PublicNetDNSMode (Spec (proxy_in_place ais)) = PublicNetDNSMode (Spec ais)"
  "IssuerCAConfigMap (Spec (proxy_in_place ais)) = IssuerCAConfigMap (Spec ais)" "AuthNSecretName (Spec (proxy_in_place ais)) = AuthNSecretName (Spec ais)"
  "AWSSecretName (Spec (proxy_in_place ais)) = AWSSecretName (Spec ais)" "GCPSecretName (Spec (proxy_in_place ais)) = GCPSecretName (Spec ais)"
  "OCISecretName (Spec (proxy_in_place ais)) = OCISecretName (Spec ais)"
  "EnableExternalLB (Spec (proxy_in_place ais)) = EnableExternalLB (Spec ais)"
  "SpecConfig (Spec (proxy_in_place ais)) = SpecConfig (Spec ais)"
  by (simp_all add: proxy_in_place_def in_place_def GetTargetSize_def IsTargetAutoScaling_def StateStoragePVCStorageClass_def
      StateStorageHostPathPrefix_def UsesStateEmptyDir_def GetTLSCertificate_def HasTLSEnabled_def UseTLSSecret_def
      GetTLSSecretName_def UseTLSCertificate_def ClusterDomainOf_def hostname_values_def GetLogSidecarImage_def
      GetLogSidecarResources_def priority_class_def UseHTTPS_def spec_http_def cong: option.case_cong)

lemma target_in_place_reads [simp]:
  "GetTargetSize (target_in_place ais) = GetTargetSize ais" "StateStoragePVCStorageClass (Spec (target_in_place ais)) = StateStoragePVCStorageClass (Spec ais)"
  "StateStorageHostPathPrefix (Spec (target_in_place ais)) = StateStorageHostPathPrefix (Spec ais)"
  "UsesStateEmptyDir (Spec (target_in_place ais)) = UsesStateEmptyDir (Spec ais)" "GetTLSCertificate (target_in_place ais) = GetTLSCertificate ais"
  "HasTLSEnabled (target_in_place ais) = HasTLSEnabled ais" "UseTLSSecret (target_in_place ais) = UseTLSSecret ais"
  "GetTLSSecretName (target_in_place ais) = GetTLSSecretName ais" "TracingTokenSecretName (Spec (target_in_place ais)) = TracingTokenSecretName (Spec ais)"
  "ClusterDomainOf L (target_in_place ais) = ClusterDomainOf L ais" "hostname_values (target_in_place ais) = hostname_values ais"
  "GetLogSidecarImage (target_in_place ais) = GetLogSidecarImage ais" "GetLogSidecarResources (target_in_place ais) = GetLogSidecarResources ais"
  "priority_class (target_in_place ais) = priority_class ais" "UseHTTPS (target_in_place ais) = UseHTTPS ais"
  "Name (target_in_place ais) = Name ais" "Namespace (target_in_place ais) = Namespace ais" "Annotations (target_in_place ais) = Annotations ais"
  "InitImage (Spec (target_in_place ais)) = InitImage (Spec ais)" "NodeImage (Spec (target_in_place ais)) = NodeImage (Spec ais)"
  "HostnameMap (Spec (target_in_place ais)) = HostnameMap (Spec ais)" "NetAttachment (Spec (target_in_place ais)) = NetAttachment (Spec ais)"
  "LogsDirectory (Spec (target_in_place ais)) = LogsDirectory (Spec ais)" "PublicNetDNSMode (Spec (target_in_place ais)) = PublicNetDNSMode (Spec ais)"
  "IssuerCAConfigMap (Spec (target_in_place ais)) = IssuerCAConfigMap (Spec ais)" "AuthNSecretName (Spec (target_in_place ais)) = AuthNSecretName (Spec ais)"
  "AWSSecretName (Spec (target_in_place ais)) = AWSSecretName (Spec ais)" "GCPSecretName (Spec (target_in_place ais)) = GCPSecretName (Spec ais)"
  "OCISecretName (Spec (target_in_place ais)) = OCISecretName (Spec ais)"
  "EnableExternalLB (Spec (target_in_place ais)) = EnableExternalLB (Spec ais)"
  "SpecConfig (Spec (target_in_place ais)) = SpecConfig (Spec ais)"
  by (simp_all add: target_in_place_def in_place_def GetTargetSize_def IsTargetAutoScaling_def StateStoragePVCStorageClass_def
      StateStorageHostPathPrefix_def UsesStateEmptyDir_def GetTLSCertificate_def HasTLSEnabled_def UseTLSSecret_def
      GetTLSSecretName_def UseTLSCertificate_def ClusterDomainOf_def hostname_values_def GetLogSidecarImage_def
      GetLogSidecarResources_def priority_class_def UseHTTPS_def spec_http_def cong: option.case_cong)


text \<open>What the containers and volumes of a pod read of the CR, the two changed fields apart.\<close>

lemma NewAISVolumes_cong:
  assumes "Name b = Name a" "Namespace b = Namespace a" "LogsDirectory (Spec b) = LogsDirectory (Spec a)"
    "UsesStateEmptyDir (Spec b) = UsesStateEmptyDir (Spec a)"
    "StateStorageHostPathPrefix (Spec b) = StateStorageHostPathPrefix (Spec a)"
    "GetTLSCertificate b = GetTLSCertificate a" "UseTLSSecret b = UseTLSSecret a"
    "GetTLSSecretName b = GetTLSSecretName a" "TracingTokenSecretName (Spec b) = TracingTokenSecretName (Spec a)"
    "ClusterDomainOf L b = ClusterDomainOf L a" "hostname_values b = hostname_values a"
  shows "NewAISVolumes L b t = NewAISVolumes L a t"
  by (simp add: NewAISVolumes_def newLogsVolume_def getTLSVolume_def getTLSCSIVolumeSource_def
      buildCertificateSANs_def certificateSANs_def UseTLSCSI_def UseTLSCertificate_def StateHostPath_def
      AISConfigMapName_def globalConfigMapName_def in_namespace_def assms cong: option.case_cong)

lemma NewAISVolumeMounts_cong:
  assumes "Name b = Name a" "Namespace b = Namespace a" "UsesStateEmptyDir (Spec b) = UsesStateEmptyDir (Spec a)"
    "StateStorageHostPathPrefix (Spec b) = StateStorageHostPathPrefix (Spec a)"
    "StateStoragePVCStorageClass (Spec b) = StateStoragePVCStorageClass (Spec a)"
    "HasTLSEnabled b = HasTLSEnabled a" "TracingTokenSecretName (Spec b) = TracingTokenSecretName (Spec a)"
  shows "NewAISVolumeMounts b t = NewAISVolumeMounts a t"
  by (simp add: NewAISVolumeMounts_def UsesStatePVC_def UsesStateHostPath_def getStatePVCName_def assms)

lemma daemon_container_cong:
  assumes "NodeImage (Spec b) = NodeImage (Spec a)" "UseHTTPS b = UseHTTPS a"
    "d_ServiceSpec d' = d_ServiceSpec d" "d_HostPort d' = d_HostPort d"
    "NewResourceReq b (d_Resources d') = NewResourceReq a (d_Resources d)"
    "GetAISSecurityContext d' = GetAISSecurityContext d"
    "\<And>sel. getProbeSpec b t sel = getProbeSpec a t sel"
    "map_option d_ServiceSpec (daemon_of b t) = map_option d_ServiceSpec (daemon_of a t)"
  shows "daemon_container L b t d' m e v = daemon_container L a t d m e v"
proof -
  have "(case daemon_of b t of None \<Rightarrow> IntVal 0 | Some d \<Rightarrow> PublicPort (d_ServiceSpec d)) =
      (case daemon_of a t of None \<Rightarrow> IntVal 0 | Some d \<Rightarrow> PublicPort (d_ServiceSpec d))"
    using assms(8) by (auto split: option.splits)
  then show ?thesis
    by (simp add: daemon_container_def NewDaemonPorts_def NewStartupProbe_def NewLivenessProbe_def
        NewReadinessProbe_def http_probe_def assms)
qed

lemma security_in_place [simp]:
  "GetAISSecurityContext (in_place ais l d) = GetAISSecurityContext d"
  "GetPodSecurityContext (in_place ais l d) = GetPodSecurityContext d"
  "selector_of (in_place ais l d) = selector_of d" "pod_annotations L b (in_place ais l d) = pod_annotations L b d"
  by (simp_all add: GetAISSecurityContext_def GetPodSecurityContext_def selector_of_def pod_annotations_def cong: option.case_cong)

lemma proxy_build_stable: "NewProxyStatefulSet L (proxy_in_place ais) n = NewProxyStatefulSet L ais n"
proof -
  let ?b = "proxy_in_place ais"
  have d: "ProxySpec (Spec ?b) = in_place ais (proxy_SelectorLabels ais) (ProxySpec (Spec ais))"
    by (simp add: proxy_in_place_def)
  have l: "proxy_SelectorLabels ?b = proxy_SelectorLabels ais" by (simp add: proxy_SelectorLabels_def)
  have c: "daemon_container L ?b Proxy_name (ProxySpec (Spec ?b)) m e v =
      daemon_container L ais Proxy_name (ProxySpec (Spec ais)) m e v" for m e v
    by (rule daemon_container_cong)
       (simp_all add: NewResourceReq_in_place, simp_all add: d getProbeSpec_def daemon_of_def)
  have v: "NewAISVolumes L ?b t = NewAISVolumes L ais t" for t by (rule NewAISVolumes_cong) simp_all
  have m: "NewAISVolumeMounts ?b t = NewAISVolumeMounts ais t" for t by (rule NewAISVolumeMounts_cong) simp_all
  have "d_Affinity (ProxySpec (Spec ?b)) =
      map_option (\<lambda>a. CreateAISAffinity (Some a) (proxy_SelectorLabels ais)) (d_Affinity (ProxySpec (Spec ais)))"
    by (simp add: d in_place_def)
  then have "proxyPodTemplate L ?b k = proxyPodTemplate L ais k" for k
    by (simp add: proxyPodTemplate_def Let_def c l CreateAISAffinity_in_place proxy_newVolumes_def v
        proxy_newVolumeMounts_def m)
       (simp add: d init_container_def proxy_NewInitContainerEnv_def proxy_NewAISContainerEnv_def CommonInitEnv_def
        proxy_BasicLabels_def with_sidecar_def NewLogSidecar_def pod_annotations_def ServiceAccountName_def in_namespace_def
        ProxyExternalAccessEnabled_def proxy_HeadlessSVCNSName_def public_hostname_env_def UseNodeNameForPublicNet_def
        GetPublicNetDNSMode_def selector_of_def cong: option.case_cong)
  then show ?thesis
    by (simp add: NewProxyStatefulSet_def d l proxy_StatefulSetNSName_def in_namespace_def ProxyStatefulSetName_def
        proxy_BasicLabels_def proxy_HeadlessSVCNSName_def statePVCs_def DefineStatePVC_def getStatePVCName_def
        cong: option.case_cong)
qed

lemma target_build_stable: "NewTargetSS L (target_in_place ais) n = NewTargetSS L ais n"
proof -
  let ?b = "target_in_place ais"
  have d: "SpecTarget (Spec ?b) = (if AllowTargetSharedNodes ais
      then (SpecTarget (Spec ais))\<lparr>d_Resources := NewResourceReq ais (d_Resources (SpecTarget (Spec ais)))\<rparr>
      else in_place ais (target_SelectorLabels ais) (SpecTarget (Spec ais)))"
    by (simp add: target_in_place_def)
  have t: "GetAISSecurityContext (SpecTarget (Spec ?b)) = GetAISSecurityContext (SpecTarget (Spec ais))"
    "GetPodSecurityContext (SpecTarget (Spec ?b)) = GetPodSecurityContext (SpecTarget (Spec ais))"
    "selector_of (SpecTarget (Spec ?b)) = selector_of (SpecTarget (Spec ais))"
    "pod_annotations L x (SpecTarget (Spec ?b)) = pod_annotations L x (SpecTarget (Spec ais))"
    "t_Mounts (SpecTarget (Spec ?b)) = t_Mounts (SpecTarget (Spec ais))"
    "d_Labels (SpecTarget (Spec ?b)) = d_Labels (SpecTarget (Spec ais))"
    "d_Annotations (SpecTarget (Spec ?b)) = d_Annotations (SpecTarget (Spec ais))"
    "d_Env (SpecTarget (Spec ?b)) = d_Env (SpecTarget (Spec ais))"
    "d_HostPort (SpecTarget (Spec ?b)) = d_HostPort (SpecTarget (Spec ais))"
    "d_Tolerations (SpecTarget (Spec ?b)) = d_Tolerations (SpecTarget (Spec ais))"
    "d_ServiceSpec (SpecTarget (Spec ?b)) = d_ServiceSpec (SpecTarget (Spec ais))"
    "d_Probes (SpecTarget (Spec ?b)) = d_Probes (SpecTarget (Spec ais))"
    "d_ExternalAccess (SpecTarget (Spec ?b)) = d_ExternalAccess (SpecTarget (Spec ais))"
    "d_PVCRetentionPolicy (SpecTarget (Spec ?b)) = d_PVCRetentionPolicy (SpecTarget (Spec ais))"
    "t_HostNetwork (SpecTarget (Spec ?b)) = t_HostNetwork (SpecTarget (Spec ais))"
    "t_DisablePodAntiAffinity (SpecTarget (Spec ?b)) = t_DisablePodAntiAffinity (SpecTarget (Spec ais))" for x
    by (simp_all add: d GetAISSecurityContext_def GetPodSecurityContext_def selector_of_def pod_annotations_def cong: option.case_cong)
  have l: "target_SelectorLabels ?b = target_SelectorLabels ais" by (simp add: target_SelectorLabels_def)
  have h: "UseHostNetwork ?b = UseHostNetwork ais" "AllowTargetSharedNodes ?b = AllowTargetSharedNodes ais"
    "TargetExternalAccessEnabled ?b = TargetExternalAccessEnabled ais"
    by (simp_all add: UseHostNetwork_def AllowTargetSharedNodes_def TargetExternalAccessEnabled_def t)
  have b: "HasGCPBackend (Spec ?b) = HasGCPBackend (Spec ais)" "HasOCIBackend (Spec ?b) = HasOCIBackend (Spec ais)"
    by (simp_all add: HasGCPBackend_def HasOCIBackend_def isProviderInConf_def GetBackendConfig_def)
  have c: "daemon_container L ?b Target_name (SpecTarget (Spec ?b)) m e v =
      daemon_container L ais Target_name (SpecTarget (Spec ais)) m e v" for m e v
    by (rule daemon_container_cong)
       (simp_all add: NewResourceReq_in_place, simp_all add: t getProbeSpec_def daemon_of_def DaemonSpec.defs Proxy_name_def Target_name_def)
  have v: "NewAISVolumes L ?b k = NewAISVolumes L ais k" for k by (rule NewAISVolumes_cong) simp_all
  have m: "NewAISVolumeMounts ?b k = NewAISVolumeMounts ais k" for k by (rule NewAISVolumeMounts_cong) simp_all
  have "createTargetAffinity ?b (target_SelectorLabels ?b) = createTargetAffinity ais (target_SelectorLabels ais)"
    by (simp add: createTargetAffinity_def h l) (simp add: d in_place_def CreateAISAffinity_in_place)
  moreover have "target_newVolumes L ?b = target_newVolumes L ais" "target_newVolumeMounts ?b = target_newVolumeMounts ais"
    by (simp_all add: target_newVolumes_def target_newVolumeMounts_def v m t appendCloudVolumes_def
        appendCloudVolumeMounts_def cloud_secrets_def appendHostPathDataVolumes_def appendDataVolumeMounts_def split_def cong: if_cong)
  moreover have "target_NewInitContainerEnv L ?b = target_NewInitContainerEnv L ais"
    "target_NewAISContainerEnv ?b = target_NewAISContainerEnv ais"
    by (simp_all add: target_NewInitContainerEnv_def target_NewAISContainerEnv_def CommonInitEnv_def t h b
        target_HeadlessSVCNSName_def in_namespace_def public_hostname_env_def UseNodeNameForPublicNet_def
        GetPublicNetDNSMode_def)
  ultimately have "targetPodTemplate L ?b k = targetPodTemplate L ais k" for k
    by (simp add: targetPodTemplate_def Let_def c t h init_container_def target_BasicLabels_def with_sidecar_def
        NewLogSidecar_def ServiceAccountName_def in_namespace_def GetTargetDNSPolicy_def pod_annotations_def)
  then show ?thesis
    by (simp add: NewTargetSS_def t l target_StatefulSetNSName_def in_namespace_def target_statefulSetName_def
        target_BasicLabels_def target_HeadlessSVCNSName_def newTargetPVCs_def statePVCs_def DefineStatePVC_def
        getStatePVCName_def cong: option.case_cong)
qed
end
