(* ===== verification/Pod_Properties.thy ===== *)
theory Pod_Properties
  imports Sample Rebuild "HOL-Library.Multiset"
begin

text \<open>Properties C36 to C40: the objects the operator builds.\<close>

section \<open>Pods\<close>

text \<open>
  C25. The pods can start and are found: every volume mount of every container names a volume of
  the pod or a claim of its StatefulSet, no two volumes share a name, and whatever labels the
  user adds, the pods carry all that the StatefulSet selects by. The TLS section, if there is
  one, names a secret or a certificate.
\<close>

theorem pods_are_complete:
  assumes "NewProxyStatefulSet L ais n = Some ss \<or> NewTargetSS L ais n = Some ss" and "tls_has_source ais"
  shows "mounted ss \<subseteq> mountable ss \<and> distinct (map vol_Name (pt_Volumes (dss_Template ss))) \<and>
     dss_Selector ss \<subseteq>\<^sub>f pt_Labels (dss_Template ss)"
proof -
  have "mounted ss \<subseteq> mountable ss"
    using assms proxy_mounts target_mounts by blast
  moreover have "distinct (map vol_Name (pt_Volumes (dss_Template ss)))"
    using assms(1) proxy_volumes_distinct target_volumes_distinct
    by (auto simp: NewProxyStatefulSet_def NewTargetSS_def)
  moreover have "dss_Selector ss \<subseteq>\<^sub>f pt_Labels (dss_Template ss)"
    using assms(1)
    by (auto simp: NewProxyStatefulSet_def NewTargetSS_def proxyPodTemplate_def targetPodTemplate_def Let_def
        proxy_SelectorLabels_def target_SelectorLabels_def proxy_BasicLabels_def target_BasicLabels_def
        fmsubset_alt_def fmpred_iff selector_in_labels)
  ultimately show ?thesis by blast
qed

definition s_target_ss :: DesiredStatefulSet where
  "s_target_ss = the (NewTargetSS s_lib s_ais 3)"

theorem pods_are_complete_witness:
  "mounted s_target_ss \<subseteq> mountable s_target_ss \<and> distinct (map vol_Name (pt_Volumes (dss_Template s_target_ss))) \<and>
     dss_Selector s_target_ss \<subseteq>\<^sub>f pt_Labels (dss_Template s_target_ss)"
proof (rule pods_are_complete [where L = s_lib and ais = s_ais and n = 3])
  show "NewProxyStatefulSet s_lib s_ais 3 = Some s_target_ss \<or> NewTargetSS s_lib s_ais 3 = Some s_target_ss"
    by (simp add: s_target_ss_def NewTargetSS_def)
  show "tls_has_source s_ais" by (simp add: tls_has_source_def HasTLSEnabled_def s_ais_def s_spec_def)
qed

text \<open>
  Without a source in the TLS section the mount is there and its volume is not: the API
  server accepts \<open>tls: {}\<close> (at most one source is required) and so does the validation, but the
  pods the StatefulSet asks for cannot be created.
\<close>

theorem tls_without_source:
  assumes "NewProxyStatefulSet L ais n = Some ss" and "\<not> tls_has_source ais"
  shows "tlsSecretVolume \<in> mounted ss \<and> tlsSecretVolume \<notin> mountable ss"
proof -
  from assms(1) obtain m where t: "dss_Template ss = proxyPodTemplate L ais m"
    and c: "dss_VolumeClaimTemplates ss = statePVCs ais" by (auto simp: NewProxyStatefulSet_def)
  from assms(2) have tls: "HasTLSEnabled ais" "getTLSVolume L ais Proxy_name = None"
    by (auto simp: tls_has_source_def getTLSVolume_def UseTLSCSI_def UseTLSCertificate_def)
  have "read_only_mount tlsSecretVolume ''/var/certs'' \<in> set (proxy_newVolumeMounts ais)"
    using tls(1) by (simp add: proxy_newVolumeMounts_def NewAISVolumeMounts_def)
  from imageI [OF this, of vm_Name] have "tlsSecretVolume \<in> mounted ss"
    by (simp add: mounted_def t proxyPodTemplate_def Let_def with_sidecar_def daemon_container_def)
  moreover have "tlsSecretVolume \<notin> vol_Name ` set (proxy_newVolumes L ais)"
    using tls(2) by (auto simp: proxy_newVolumes_def NewAISVolumes_def newLogsVolume_def volume_names
        split: option.splits if_splits)
  moreover have "HasSuffix (getStatePVCName ais) ''-state''"
    by (simp add: getStatePVCName_def suffix_def)
  then have "tlsSecretVolume \<notin> pvc_Name ` set (statePVCs ais)"
    by (auto simp: statePVCs_def DefineStatePVC_def tlsSecretVolume_def suffix_def split: option.splits)
  ultimately show ?thesis
    by (simp add: mountable_def t c proxyPodTemplate_def Let_def)
qed

definition empty_tls :: AIStore where
  "empty_tls = s_ais\<lparr>Spec := s_spec\<lparr>TLS := Some \<lparr>tls_SecretName = None, tls_Certificate = None\<rparr>\<rparr>\<rparr>"

theorem tls_without_source_witness:
  "snd (ValidateSpec s_lib empty_tls) = None \<and>
   tlsSecretVolume \<in> mounted (the (NewProxyStatefulSet s_lib empty_tls 3)) \<and>
   tlsSecretVolume \<notin> mountable (the (NewProxyStatefulSet s_lib empty_tls 3))"
proof (intro conjI [OF _ tls_without_source])
  show "snd (ValidateSpec s_lib empty_tls) = None" by code_simp
  show "NewProxyStatefulSet s_lib empty_tls 3 = Some (the (NewProxyStatefulSet s_lib empty_tls 3))"
    by (simp add: NewProxyStatefulSet_def empty_tls_def GetTargetSize_def IsTargetAutoScaling_def s_spec_def)
  show "\<not> tls_has_source empty_tls"
    by (simp add: empty_tls_def tls_has_source_def HasTLSEnabled_def UseTLSSecret_def GetTLSCertificate_def)
qed

text \<open>
  C35. Building a StatefulSet changes the CR in memory, through the pointers it is given: what
  is built from the changed CR is the same, so every pass of a reconcile compares with the same
  template.
\<close>

theorem building_is_stable:
  "NewProxyStatefulSet L (proxy_in_place ais) n = NewProxyStatefulSet L ais n \<and>
   NewTargetSS L (target_in_place ais) n = NewTargetSS L ais n"
  by (simp add: proxy_build_stable target_build_stable)

section \<open>Certificates\<close>

text \<open>
  C34. The certificate of a cluster covers the hosts that are addressed: the primary's URL, the
  discovery URL and the URL for clients, and every pod of either daemon by its name below its
  StatefulSet's service. The cluster's name is a label, without dots, as a service name must be.
\<close>

theorem certificate_covers_hosts:
  assumes "NewCertificate L ais hosts = Some crt" and "CHR ''.'' \<notin> set (Name ais)"
    and "NewProxyStatefulSet L ais n = Some p" and "NewTargetSS L ais m = Some t"
  shows "(let sans = set (cs_DNSNames (crt_Spec crt)); zone = ''.'' @ Namespace ais @ ''.svc.'' @ ClusterDomainOf L ais;
              svc = ProxyStatefulSetName ais @ zone; primary = DefaultPrimaryName ais @ ''.'' @ svc;
              port = PortString L (IntraControlPort (d_ServiceSpec (ProxySpec (Spec ais))))
     in (\<exists>san\<in>sans. covers san svc) \<and> (\<exists>san\<in>sans. covers san primary) \<and>
        DefaultProxyURL L ais = urlScheme ais @ ''://'' @ primary @ '':'' @ port \<and>
        DiscoveryProxyURL L ais = urlScheme ais @ ''://'' @ svc @ '':'' @ port \<and>
        (\<exists>port'. IntraClusterURL L ais = urlScheme ais @ ''://'' @ svc @ '':'' @ port') \<and>
        (\<forall>i. \<exists>san\<in>sans. covers san (proxy_PodName ais i @ ''.'' @ dss_ServiceName p @ zone)) \<and>
        (\<forall>i. \<exists>san\<in>sans. covers san (target_PodName ais i @ ''.'' @ dss_ServiceName t @ zone)))"
proof -
  have sans: "cs_DNSNames (crt_Spec crt) = fst (buildCertificateSANs L ais hosts)"
    using assms(1) by (cases "buildCertificateSANs L ais hosts") (auto simp: NewCertificate_def NewSpec_def)
  let ?zone = "''.'' @ Namespace ais @ ''.svc.'' @ ClusterDomainOf L ais"
  have wild: "''*.'' @ Name ais @ ''-proxy'' @ ?zone \<in> set (cs_DNSNames (crt_Spec crt))"
    "''*.'' @ Name ais @ ''-target'' @ ?zone \<in> set (cs_DNSNames (crt_Spec crt))"
    unfolding sans by (rule fixed_sans, simp)+
  have svc: "Name ais @ ''-proxy'' @ ?zone \<in> set (cs_DNSNames (crt_Spec crt))"
    unfolding sans by (rule fixed_sans) (simp add: serviceDNSNames_def)
  have names: "ProxyStatefulSetName ais = Name ais @ ''-proxy''" "dss_ServiceName p = Name ais @ ''-proxy''"
    "dss_ServiceName t = Name ais @ ''-target''" "target_statefulSetName ais = Name ais @ ''-target''"
    using assms(3,4) by (auto simp: ProxyStatefulSetName_def target_statefulSetName_def Proxy_name_def Target_name_def
        NewProxyStatefulSet_def NewTargetSS_def proxy_HeadlessSVCNSName_def target_HeadlessSVCNSName_def in_namespace_def)
  have label: "covers (''*.'' @ rest) (pod @ ''.'' @ rest)" if "pod \<noteq> []" "CHR ''.'' \<notin> set pod" for pod rest
    using that by (auto simp: covers_def)
  have pods: "CHR ''.'' \<notin> set (proxy_PodName ais i)" "CHR ''.'' \<notin> set (target_PodName ais i)"
    "proxy_PodName ais i \<noteq> []" "target_PodName ais i \<noteq> []" "CHR ''.'' \<notin> set (DefaultPrimaryName ais)"
    "DefaultPrimaryName ais \<noteq> []" for i
    using assms(2) by (simp_all add: proxy_PodName_def target_PodName_def DefaultPrimaryName_def names show_int_no_dot)
  have covered: "\<exists>san\<in>set (cs_DNSNames (crt_Spec crt)). covers san (pod @ ''.'' @ Name ais @ ''-proxy'' @ ?zone)"
    "\<exists>san\<in>set (cs_DNSNames (crt_Spec crt)). covers san (pod @ ''.'' @ Name ais @ ''-target'' @ ?zone)"
    if "pod \<noteq> []" "CHR ''.'' \<notin> set pod" for pod
    by (rule bexI [OF _ wild(1)], rule label [OF that]) (rule bexI [OF _ wild(2)], rule label [OF that])
  have svc_covered: "\<exists>san\<in>set (cs_DNSNames (crt_Spec crt)). covers san (Name ais @ ''-proxy'' @ ?zone)"
    by (rule bexI [OF _ svc]) (simp add: covers_def)
  show ?thesis
    unfolding Let_def
    using covered svc_covered pods
    by (simp add: names DefaultProxyURL_def DiscoveryProxyURL_def IntraClusterURL_def controlSvcSuffix_def
        publicSvcSuffix_def)
qed

definition with_certificate :: AIStore where
  "with_certificate = s_ais\<lparr>Spec := s_spec\<lparr>TLS := Some \<lparr>tls_SecretName = None, tls_Certificate = Some
     \<lparr>IssuerRef = \<lparr>issuer_Name = ''ca'', issuer_Kind = []\<rparr>, AdditionalDNSNames = [''ais.example.com''],
      cert_Duration = None, cert_RenewBefore = None, cert_Mode = None\<rparr>\<rparr>\<rparr>\<rparr>"

theorem certificate_covers_hosts_witness:
  "(let crt = the (NewCertificate s_lib with_certificate []); sans = set (cs_DNSNames (crt_Spec crt));
        zone = ''.'' @ Namespace with_certificate @ ''.svc.'' @ ClusterDomainOf s_lib with_certificate;
        svc = ProxyStatefulSetName with_certificate @ zone; primary = DefaultPrimaryName with_certificate @ ''.'' @ svc;
        port = PortString s_lib (IntraControlPort (d_ServiceSpec (ProxySpec (Spec with_certificate))))
     in (\<exists>san\<in>sans. covers san svc) \<and> (\<exists>san\<in>sans. covers san primary) \<and>
        DefaultProxyURL s_lib with_certificate = urlScheme with_certificate @ ''://'' @ primary @ '':'' @ port \<and>
        DiscoveryProxyURL s_lib with_certificate = urlScheme with_certificate @ ''://'' @ svc @ '':'' @ port \<and>
        (\<exists>port'. IntraClusterURL s_lib with_certificate = urlScheme with_certificate @ ''://'' @ svc @ '':'' @ port') \<and>
        (\<forall>i. \<exists>san\<in>sans. covers san (proxy_PodName with_certificate i @ ''.'' @
           dss_ServiceName (the (NewProxyStatefulSet s_lib with_certificate 3)) @ zone)) \<and>
        (\<forall>i. \<exists>san\<in>sans. covers san (target_PodName with_certificate i @ ''.'' @
           dss_ServiceName (the (NewTargetSS s_lib with_certificate 3)) @ zone)))"
proof -
  have 1: "NewCertificate s_lib with_certificate [] = Some (the (NewCertificate s_lib with_certificate []))"
    by (simp add: NewCertificate_def GetTLSCertificate_def with_certificate_def)
  have 2: "CHR ''.'' \<notin> set (Name with_certificate)" by (simp add: with_certificate_def s_ais_def)
  have 3: "NewProxyStatefulSet s_lib with_certificate 3 = Some (the (NewProxyStatefulSet s_lib with_certificate 3))"
    "NewTargetSS s_lib with_certificate 3 = Some (the (NewTargetSS s_lib with_certificate 3))"
    by (simp_all add: NewProxyStatefulSet_def NewTargetSS_def with_certificate_def GetTargetSize_def
        IsTargetAutoScaling_def s_spec_def)
  show ?thesis
    using certificate_covers_hosts [OF 1 2 3] unfolding Let_def .
qed

text \<open>
  The names of the certificate depend on what the host-name map holds and not on the order a
  run visits it in; they are sorted, without repetitions and empty names, addresses apart from
  names, and nothing that was asked for is left out.
\<close>

theorem sans_exact:
  assumes "mset mapped = mset (hostname_values ais)"
  shows "certificateSANs L ais mapped hosts = buildCertificateSANs L ais hosts \<and>
     (let (names, ips) = buildCertificateSANs L ais hosts;
          asked = concat (map hosts_of_value (hostname_values ais)) @ hosts;
          more = additional_names ais
      in sorted names \<and> distinct names \<and> sorted ips \<and> distinct ips \<and>
         set ips = {h \<in> set asked. ParseIP h} \<and>
         {h \<in> set asked. h \<noteq> [] \<and> \<not> ParseIP h} \<union> (set more - {[]}) \<subseteq> set names \<and> [] \<notin> set names)"
proof -
  have "set mapped = set (hostname_values ais)" using assms by (metis set_mset_mset)
  then have "certificateSANs L ais mapped hosts = buildCertificateSANs L ais hosts"
    unfolding buildCertificateSANs_def by (rule sans_any_order)
  moreover have empty: "\<not> ParseIP []" by (simp add: ParseIP_def)
  moreover obtain names ips where parts: "buildCertificateSANs L ais hosts = (names, ips)" by fastforce
  let ?asked = "concat (map hosts_of_value (hostname_values ais)) @ hosts"
  have "names = normalize_names (service_names L ais @ filter (\<lambda>h. h \<noteq> [] \<and> \<not> ParseIP h) ?asked @ additional_names ais)"
    and "ips = normalize_names (filter (\<lambda>h. h \<noteq> [] \<and> ParseIP h) ?asked)"
    using certificateSANs_parts [of L ais "hostname_values ais" hosts] parts
    by (simp_all add: buildCertificateSANs_def)
  then have names: "sorted names" "distinct names" "sorted ips" "distinct ips"
    and sets: "set names = (set (service_names L ais) \<union> {h \<in> set ?asked. h \<noteq> [] \<and> \<not> ParseIP h} \<union>
        set (additional_names ais)) - {[]}" "set ips = {h \<in> set ?asked. h \<noteq> [] \<and> ParseIP h} - {[]}"
    by (simp_all only: normalize_names_sorted normalize_names_distinct normalize_names_set set_append set_filter Un_assoc)
  have "{h \<in> set ?asked. h \<noteq> [] \<and> \<not> ParseIP h} \<union> (set (additional_names ais) - {[]}) \<subseteq> set names" "[] \<notin> set names"
    unfolding sets by blast+
  moreover have "set ips = {h \<in> set ?asked. ParseIP h}"
    unfolding sets using empty by blast
  ultimately show ?thesis
    using names unfolding Let_def parts prod.case by blast
qed

definition mapped_hosts :: AIStore where
  "mapped_hosts = s_ais\<lparr>Spec := s_spec\<lparr>HostnameMap :=
     Some (fmap_of_list [(''a'', ''10.0.0.2, node-a''), (''b'', ''10.0.0.1'')])\<rparr>\<rparr>"

theorem sans_exact_witness:
  "certificateSANs s_lib mapped_hosts [''10.0.0.1'', ''10.0.0.2, node-a''] [''::1''] =
     buildCertificateSANs s_lib mapped_hosts [''::1''] \<and>
   snd (buildCertificateSANs s_lib mapped_hosts [''::1'']) = [''10.0.0.1'', ''10.0.0.2'', ''::1'']"
proof -
  have v: "hostname_values mapped_hosts = [''10.0.0.2, node-a'', ''10.0.0.1'']"
    by code_simp
  have "mset [''10.0.0.1'', ''10.0.0.2, node-a''] = mset (hostname_values mapped_hosts)"
    unfolding v by simp
  then have "certificateSANs s_lib mapped_hosts [''10.0.0.1'', ''10.0.0.2, node-a''] [''::1''] =
     buildCertificateSANs s_lib mapped_hosts [''::1'']"
    using sans_exact by blast
  moreover have "snd (buildCertificateSANs s_lib mapped_hosts [''::1'']) = [''10.0.0.1'', ''10.0.0.2'', ''::1'']"
    unfolding buildCertificateSANs_def v by code_simp
  ultimately show ?thesis by simp
qed

end
