(* ===== verification/Auth_Types.thy ===== *)
theory Auth_Types
  imports World Go_Std
begin

text \<open>
  The custom resources of the AuthN server: \<open>AIStoreAuth\<close>
  (\<^verbatim>\<open>operator/api/aisauth/v1alpha1/aistoreauth_types.go\<close>) with its methods, and the
  cluster-scoped \<open>AIStoreAuthProfile\<close> (\<^verbatim>\<open>aistoreauthprofile_types.go\<close>) with its validation
  (\<^verbatim>\<open>aistoreauthprofile_validation.go\<close>). Field names carry a prefix per record, methods of
  \<open>AIStoreAuth\<close> the prefix \<open>authn_\<close>, methods of the profile the prefix \<open>profile_\<close>.
\<close>

section \<open>URLs\<close>

text \<open>
  \<open>net/url\<close> is taken as a parameter: the parser, of whose result the source reads these five
  fields, and \<open>url.JoinPath\<close>. Only \<open>Hostname\<close> is spelled out: it drops a port and the brackets
  of an IPv6 address.
\<close>

record URL =
  url_Scheme :: string
  url_Host :: string
  url_Path :: string
  url_RawQuery :: string
  url_Fragment :: string

record url_lib =
  url_Parse :: "string \<Rightarrow> err + URL"
  url_JoinPath :: "string \<Rightarrow> string \<Rightarrow> err + string"

definition validOptionalPort :: "string \<Rightarrow> bool" where
  "validOptionalPort port =
     (case port of [] \<Rightarrow> True | c # ds \<Rightarrow> c = CHR '':'' \<and> (\<forall>d\<in>set ds. digit_val d \<noteq> None))"

text \<open>The text before and from the last colon; without a colon the second part is empty.\<close>

definition cut_last_colon :: "string \<Rightarrow> string \<times> string" where
  "cut_last_colon s =
     (let after = takeWhile (\<lambda>c. c \<noteq> CHR '':'') (rev s); before = dropWhile (\<lambda>c. c \<noteq> CHR '':'') (rev s)
      in if before = [] then (s, []) else (rev (tl before), CHR '':'' # rev after))"

definition strip_brackets :: "string \<Rightarrow> string" where
  "strip_brackets h = (if prefix ''['' h \<and> suffix '']'' h \<and> length h \<ge> 2 then butlast (tl h) else h)"

definition Hostname :: "URL \<Rightarrow> string" where
  "Hostname u =
     (let (host, port) = cut_last_colon (url_Host u)
      in strip_brackets (if validOptionalPort port then host else url_Host u))"

section \<open>\<open>AIStoreAuth\<close>\<close>

record SigningKeySpec =
  sk_Bits :: "int32 option"
  sk_Mode :: "string option"

record DBSpec =
  db_Type :: "string option"

record ServerConfSpec =
  srv_ExpirationTime :: "Duration option"
  srv_MaxTokenAge :: "Duration option"
  srv_SigningKey :: "SigningKeySpec option"
  srv_DB :: "DBSpec option"

record LogSpec =
  lg_Level :: "int32 option"
  lg_FlushInterval :: "Duration option"

record HTTPConfSpec =
  hs_Port :: "int32 option"

record NetSpec =
  ns_ExternalURL :: "string option"
  ns_HTTP :: "HTTPConfSpec option"

record TimeoutSpec =
  to_DefaultTimeout :: "Duration option"

record ConfigSpec =
  acfg_Auth :: "ServerConfSpec option"
  acfg_Log :: "LogSpec option"
  acfg_Net :: "NetSpec option"
  acfg_Timeout :: "TimeoutSpec option"

text \<open>The mode is a string: \<open>secret\<close>, \<open>csi\<close> or left empty.\<close>

record AuthnTLSCertificateConfig =
  acert_IssuerName :: string
  acert_IssuerKind :: string
  acert_AdditionalDNSNames :: "string list"
  acert_Duration :: "Duration option"
  acert_RenewBefore :: "Duration option"
  acert_Mode :: string

record AuthnTLSSpec =
  atls_SecretName :: "string option"
  atls_Certificate :: "AuthnTLSCertificateConfig option"

record PersistenceSpec =
  per_Size :: "amount option"
  per_StorageClass :: "string option"
  per_VolumeName :: "string option"
  per_DeletionPolicy :: string

record NodePortSpec =
  np_Port :: int32

record LoadBalancerSpec =
  lb_Port :: int32
  lb_Annotations :: string_map

record AuthnExternalAccessSpec =
  ea_NodePort :: "NodePortSpec option"
  ea_LoadBalancer :: "LoadBalancerSpec option"

record ContainerSpec =
  ctr_Image :: string
  ctr_ImagePullPolicy :: string
  ctr_Resources :: "ResourceRequirements option"
  ctr_SecurityContext :: "SecurityContext option"
  ctr_LivenessProbe :: "Probe option"
  ctr_ReadinessProbe :: "Probe option"

record AuthnPodSpec =
  ps_SecurityContext :: "PodSecurityContext option"
  ps_NodeSelector :: string_map
  ps_Tolerations :: "Toleration list"
  ps_Affinity :: "Affinity option"
  ps_ImagePullSecrets :: "string list"

record AuthnDeploymentSpec =
  ds_Container :: ContainerSpec
  ds_Pod :: "AuthnPodSpec option"

text \<open>A reference to a Secret is its name.\<close>

record AIStoreAuthSpec =
  as_AdminSecret :: "string option"
  as_HMACSecret :: "string option"
  as_RSAPassphraseSecret :: "string option"
  as_Config :: "ConfigSpec option"
  as_TLS :: "AuthnTLSSpec option"
  as_Persistence :: PersistenceSpec
  as_ExternalAccess :: "AuthnExternalAccessSpec option"
  as_Deployment :: AuthnDeploymentSpec

text \<open>A condition of the status; the time of its last transition is not modelled.\<close>

record AuthCondition =
  acon_True :: bool \<comment> \<open>status \<open>True\<close>, otherwise \<open>False\<close>\<close>
  acon_Reason :: string
  acon_Message :: string
  acon_ObservedGeneration :: int

record AIStoreAuthStatus =
  ast_Conditions :: "(string, AuthCondition) fmap" \<comment> \<open>a list keyed by type\<close>
  ast_ObservedGeneration :: int
  ast_ServiceURL :: string

record AIStoreAuth =
  authn_Name :: string
  authn_Namespace :: string
  authn_UID :: string
  authn_Generation :: int
  authn_Deleted :: bool
  authn_Finalizers :: "string list"
  authn_Spec :: AIStoreAuthSpec
  authn_Status :: AIStoreAuthStatus

section \<open>Methods of \<open>AIStoreAuth\<close>\<close>

definition defaultListenPort :: int32 where "defaultListenPort = 52001"

text \<open>\<open>256Mi\<close>, in the unit of \<open>amount\<close>.\<close>

definition defaultPersistenceSize :: amount where
  "defaultPersistenceSize = 256 * 2 ^ 20 * 10 ^ 9"

definition TLSModeCSI :: string where "TLSModeCSI = ''csi''"
definition PersistenceDelete :: string where "PersistenceDelete = ''Delete''"

definition ShouldDeletePVC :: "PersistenceSpec \<Rightarrow> bool" where
  "ShouldDeletePVC p = (per_DeletionPolicy p = PersistenceDelete)"

definition nonempty :: "string option \<Rightarrow> bool" where
  "nonempty x = (case x of None \<Rightarrow> False | Some s \<Rightarrow> s \<noteq> [])"

definition UsesStorageClass :: "PersistenceSpec \<Rightarrow> bool" where
  "UsesStorageClass p = nonempty (per_StorageClass p)"

definition UsesExistingVolume :: "PersistenceSpec \<Rightarrow> bool" where
  "UsesExistingVolume p = nonempty (per_VolumeName p)"

definition StorageSize :: "PersistenceSpec \<Rightarrow> amount" where
  "StorageSize p = (case per_Size p of Some s \<Rightarrow> s | None \<Rightarrow> defaultPersistenceSize)"

definition authn_GetTLSCertificate :: "AIStoreAuth \<Rightarrow> AuthnTLSCertificateConfig option" where
  "authn_GetTLSCertificate a = Option.bind (as_TLS (authn_Spec a)) atls_Certificate"

definition authn_UseTLSSecret :: "AIStoreAuth \<Rightarrow> bool" where
  "authn_UseTLSSecret a = nonempty (Option.bind (as_TLS (authn_Spec a)) atls_SecretName)"

definition authn_HasTLSEnabled :: "AIStoreAuth \<Rightarrow> bool" where
  "authn_HasTLSEnabled a = (authn_UseTLSSecret a \<or> authn_GetTLSCertificate a \<noteq> None)"

definition authn_UseTLSCertificate :: "AIStoreAuth \<Rightarrow> bool" where
  "authn_UseTLSCertificate a =
     (case authn_GetTLSCertificate a of None \<Rightarrow> False | Some config \<Rightarrow> acert_Mode config \<noteq> TLSModeCSI)"

definition authn_UseTLSCSI :: "AIStoreAuth \<Rightarrow> bool" where
  "authn_UseTLSCSI a =
     (case authn_GetTLSCertificate a of None \<Rightarrow> False | Some config \<Rightarrow> acert_Mode config = TLSModeCSI)"

definition authn_GetTLSSecretName :: "AIStoreAuth \<Rightarrow> string" where
  "authn_GetTLSSecretName a =
     (if authn_UseTLSSecret a
      then (case Option.bind (as_TLS (authn_Spec a)) atls_SecretName of None \<Rightarrow> [] | Some n \<Rightarrow> n)
      else if authn_UseTLSCertificate a then authn_Name a @ ''-authn-tls'' else [])"

definition ListenPort :: "AIStoreAuth \<Rightarrow> int32" where
  "ListenPort a =
     (case Option.bind (Option.bind (Option.bind (as_Config (authn_Spec a)) acfg_Net) ns_HTTP) hs_Port of
        None \<Rightarrow> defaultListenPort | Some p \<Rightarrow> p)"

section \<open>\<open>AIStoreAuthProfile\<close>\<close>

record AuthProfileSecret =
  sec_Name :: string
  sec_Namespace :: string
  sec_UserKey :: string
  sec_PassKey :: string

record AuthProfileLoginConf =
  plc_ClientID :: string
  plc_Endpoint :: string
  plc_Scope :: "string option"

record AuthProfileUsernamePassword =
  pup_Secret :: AuthProfileSecret
  pup_LoginConf :: "AuthProfileLoginConf option"

record AuthProfileCAConfigMapRef =
  caref_Namespace :: string
  caref_Name :: string
  caref_Key :: string

record AuthProfileTLSConfig =
  ptls_CAConfigMapRef :: "AuthProfileCAConfigMapRef option"
  ptls_InsecureSkipVerify :: bool

record AuthProfileTokenExchange =
  pte_Endpoint :: string
  pte_SubjectTokenAudience :: string

record AIStoreAuthProfileSpec =
  prs_ServiceURL :: string
  prs_TLS :: "AuthProfileTLSConfig option"
  prs_UsernamePassword :: "AuthProfileUsernamePassword option"
  prs_TokenExchange :: "AuthProfileTokenExchange option"

record AIStoreAuthProfile =
  prof_Name :: string
  prof_Deleted :: bool
  prof_Spec :: AIStoreAuthProfileSpec

definition DefaultAuthProfileUserKey :: string where "DefaultAuthProfileUserKey = ''SU-NAME''"
definition DefaultAuthProfilePassKey :: string where "DefaultAuthProfilePassKey = ''SU-PASS''"

definition profile_TokenExchangeEndpoint :: "AIStoreAuthProfile \<Rightarrow> string" where
  "profile_TokenExchangeEndpoint p =
     (case prs_TokenExchange (prof_Spec p) of Some te \<Rightarrow> pte_Endpoint te | None \<Rightarrow> [])"

definition LoginEndpoint :: "AIStoreAuthProfile \<Rightarrow> string" where
  "LoginEndpoint p =
     (case Option.bind (prs_UsernamePassword (prof_Spec p)) pup_LoginConf of
        Some c \<Rightarrow> plc_Endpoint c | None \<Rightarrow> [])"

definition UserKeyOrDefault :: "AuthProfileSecret \<Rightarrow> string" where
  "UserKeyOrDefault s = (if sec_UserKey s \<noteq> [] then sec_UserKey s else DefaultAuthProfileUserKey)"

definition PassKeyOrDefault :: "AuthProfileSecret \<Rightarrow> string" where
  "PassKeyOrDefault s = (if sec_PassKey s \<noteq> [] then sec_PassKey s else DefaultAuthProfilePassKey)"

section \<open>Validation of a profile\<close>

text \<open>A field error: the path, the offending value and the complaint.\<close>

type_synonym field_error = "string \<times> string \<times> string"

definition validateAuthMethod :: "AIStoreAuthProfile \<Rightarrow> field_error list" where
  "validateAuthMethod p =
     (if (prs_UsernamePassword (prof_Spec p) = None) = (prs_TokenExchange (prof_Spec p) = None)
      then [(''spec'', [], ''exactly one of usernamePassword or tokenExchange must be specified'')]
      else [])"

definition validateServiceURL :: "url_lib \<Rightarrow> AIStoreAuthProfile \<Rightarrow> field_error list" where
  "validateServiceURL U p =
     (let path = ''spec.serviceURL''; url = prs_ServiceURL (prof_Spec p) in
      case url_Parse U url of
        Inl e \<Rightarrow> [(path, url, ''cannot be parsed'')]
      | Inr u \<Rightarrow>
          if url_Host u = [] then [(path, url, ''must include a host'')]
          else if url_Path u \<noteq> [] \<and> url_Path u \<noteq> ''/'' then [(path, url, ''must not include a path'')]
          else if url_RawQuery u \<noteq> [] \<or> url_Fragment u \<noteq> []
            then [(path, url, ''must not include query or fragment'')]
          else if url_Scheme u = ''https'' \<or> url_Scheme u = ''http'' then []
          else [(path, url, ''scheme must be http or https'')])"

definition validateEndpointPath :: "url_lib \<Rightarrow> string \<Rightarrow> string \<Rightarrow> field_error list" where
  "validateEndpointPath U path endpoint =
     (case url_Parse U endpoint of
        Inl e \<Rightarrow> [(path, endpoint, ''cannot be parsed'')]
      | Inr u \<Rightarrow>
          if url_Scheme u \<noteq> [] \<or> url_Host u \<noteq> [] then [(path, endpoint, ''must be a path, not a URL'')]
          else if \<not> HasPrefix (url_Path u) ''/'' \<or> url_RawQuery u \<noteq> [] \<or> url_Fragment u \<noteq> []
            then [(path, endpoint, ''must be an absolute path without query or fragment'')]
          else [])"

definition validateTokenExchangeEndpoint :: "url_lib \<Rightarrow> AIStoreAuthProfile \<Rightarrow> field_error list" where
  "validateTokenExchangeEndpoint U p =
     (if prs_TokenExchange (prof_Spec p) = None then []
      else validateEndpointPath U ''spec.tokenExchange.endpoint'' (profile_TokenExchangeEndpoint p))"

definition validateLoginConfEndpoint :: "url_lib \<Rightarrow> AIStoreAuthProfile \<Rightarrow> field_error list" where
  "validateLoginConfEndpoint U p =
     (if LoginEndpoint p = [] then []
      else validateEndpointPath U ''spec.usernamePassword.loginConf.endpoint'' (LoginEndpoint p))"

text \<open>\<open>ValidateSpec\<close>: all the errors at once; \<open>apierrors.NewInvalid\<close> carries the list.\<close>

definition profile_ValidateSpec :: "url_lib \<Rightarrow> AIStoreAuthProfile \<Rightarrow> field_error list" where
  "profile_ValidateSpec U p =
     validateServiceURL U p @ validateAuthMethod p @ validateTokenExchangeEndpoint U p
       @ validateLoginConfEndpoint U p"

section \<open>Lemmas\<close>

lemma nonempty_iff: "nonempty x \<longleftrightarrow> (\<exists>s. x = Some s \<and> s \<noteq> [])"
  by (auto simp: nonempty_def split: option.split)

text \<open>Exactly one source of the server certificate serves a TLS server without a Secret of its own.\<close>

lemma tls_modes:
  "authn_GetTLSCertificate a \<noteq> None \<longleftrightarrow> authn_UseTLSCertificate a \<or> authn_UseTLSCSI a"
  "\<not> (authn_UseTLSCertificate a \<and> authn_UseTLSCSI a)"
  by (auto simp: authn_UseTLSCertificate_def authn_UseTLSCSI_def split: option.splits)

lemma HasTLSEnabled_iff:
  "authn_HasTLSEnabled a \<longleftrightarrow> authn_UseTLSSecret a \<or> authn_UseTLSCertificate a \<or> authn_UseTLSCSI a"
  using tls_modes(1) [of a] by (auto simp: authn_HasTLSEnabled_def)

lemma GetTLSSecretName_nonempty:
  "authn_UseTLSSecret a \<or> authn_UseTLSCertificate a \<Longrightarrow> authn_GetTLSSecretName a \<noteq> []"
  by (auto simp: authn_GetTLSSecretName_def authn_UseTLSSecret_def nonempty_iff)

lemma default_keys_nonempty [simp]: "UserKeyOrDefault s \<noteq> []" "PassKeyOrDefault s \<noteq> []"
  by (simp_all add: UserKeyOrDefault_def PassKeyOrDefault_def DefaultAuthProfileUserKey_def
      DefaultAuthProfilePassKey_def)

text \<open>What a valid profile promises to the code that uses it.\<close>

lemma valid_profile:
  assumes "profile_ValidateSpec U p = []"
  shows "\<exists>u. url_Parse U (prs_ServiceURL (prof_Spec p)) = Inr u \<and> url_Host u \<noteq> [] \<and>
           (url_Path u = [] \<or> url_Path u = ''/'') \<and> (url_Scheme u = ''https'' \<or> url_Scheme u = ''http'')"
    and "(prs_UsernamePassword (prof_Spec p) = None) \<noteq> (prs_TokenExchange (prof_Spec p) = None)"
  using assms
  by (auto simp: profile_ValidateSpec_def validateServiceURL_def validateAuthMethod_def Let_def
      split: sum.splits if_splits)

lemma valid_endpoint:
  assumes "validateEndpointPath U path e = []"
  shows "\<exists>u. url_Parse U e = Inr u \<and> url_Scheme u = [] \<and> url_Host u = [] \<and> HasPrefix (url_Path u) ''/''"
  using assms by (auto simp: validateEndpointPath_def split: sum.splits if_splits)

text \<open>
  A host that has neither a colon nor brackets is found again in \<open>host:port\<close>; the brackets of an
  IPv6 address are what makes this hold of it as well.
\<close>

lemma cut_last_colon_port:
  assumes "CHR '':'' \<notin> set port"
  shows "cut_last_colon (host @ '':'' @ port) = (host, CHR '':'' # port)"
proof -
  have "takeWhile (\<lambda>c. c \<noteq> CHR '':'') (rev port @ CHR '':'' # rev host) = rev port"
    "dropWhile (\<lambda>c. c \<noteq> CHR '':'') (rev port @ CHR '':'' # rev host) = CHR '':'' # rev host"
    using assms by (auto simp: takeWhile_append dropWhile_append)
  then show ?thesis by (simp add: cut_last_colon_def Let_def)
qed

end
