(* ===== verification/Services_World.thy ===== *)
theory Services_World
  imports Auth_Types AIS_CR
begin

text \<open>
  What \<^verbatim>\<open>operator/internal/services\<close> talks to: the Kubernetes API (profiles, Secrets, ConfigMaps,
  services, pods, service-account tokens), the file system and the clock of the operator's pod,
  the authentication service over HTTP and the REST API of the AIStore clusters.

  As in \<open>World\<close>, an environment answers every call from the history of calls so far and the
  theorems quantify over it. The clock is read by a call as well, so it may advance between any
  two reads.

  Go passes pointers to clients and to TLS caches; a client handed out by the manager is the very
  object its map holds, and a failed API call changes it there. The state therefore has a store of
  objects, and a pointer is an index into it.
\<close>

section \<open>Values\<close>

text \<open>
  A certificate pool lists its certificates. A missing pool in a TLS configuration means the
  system's. The client certificate is loaded from its two files at the handshake.
\<close>

type_synonym cert_pool = "string list"

record TLSConfig =
  tc_MinTLS12 :: bool
  tc_RootCAs :: "cert_pool option"
  tc_InsecureSkipVerify :: bool
  tc_ClientCert :: "(string \<times> string) option"

definition no_tls_config :: TLSConfig where
  "no_tls_config = \<lparr>tc_MinTLS12 = False, tc_RootCAs = None, tc_InsecureSkipVerify = False, tc_ClientCert = None\<rparr>"

text \<open>\<open>api.BaseParams\<close> with what its HTTP client is made of.\<close>

record BaseParams =
  bp_URL :: string
  bp_Token :: string
  bp_UA :: string
  bp_TLS :: "TLSConfig option"
  bp_Timeout :: Duration

record HTTPRequest =
  rq_URL :: string
  rq_Form :: "(string \<times> string) list" \<comment> \<open>the encoded form: sorted by key\<close>
  rq_ContentType :: string
  rq_UserAgent :: string
  rq_TLS :: "TLSConfig option"

record HTTPResponse =
  rs_StatusCode :: int
  rs_Body :: string

record oauthTokenResponse =
  AccessToken :: string
  TokenType :: string
  ExpiresIn :: int

record tokenExchangeResponse = oauthTokenResponse +
  IssuedTokenType :: string
  LegacyToken :: string \<comment> \<open>the field \<open>Token\<close>\<close>

text \<open>A token and the time it expires at; the zero time is \<open>None\<close>.\<close>

record TokenInfo =
  Token :: string
  ExpiresAt :: "int option"

text \<open>A directory tree as a walk meets it; reading a directory may fail.\<close>

datatype fsnode = FileNode string | DirNode string "fsnode list" | UnreadableDir string err

datatype api_error = HTTPError int | OtherAPIError string

datatype ais_call =
    CallDecommissionCluster bool | CallDecommissionNode string bool | CallGetClusterMap
  | CallHealth bool | CallSetClusterConfig ConfigToSet bool
  | CallSetPrimaryProxy string string bool | CallShutdownCluster | CallStartMaintenance string bool

datatype api_value = NoValue | XactionID string | ClusterMap Smap

record AISClientTLSOpts =
  CertPath :: string
  CertPerCluster :: bool

section \<open>The store\<close>

record AIStoreClient =
  cl_params :: "BaseParams option"
  cl_mode :: string
  cl_tlsCfg :: "TLSConfig option"
  cl_tokenExpireAt :: "int option"
  cl_authFailed :: bool

record tlsCache =
  cache_config :: "TLSConfig option"
  cache_created :: int

section \<open>Calls\<close>

datatype svc_event =
    ReadClock int
  | AskedProfile string "err + AIStoreAuthProfile"
  | AskedSecret NamespacedName "err + string_map"
  | AskedConfigMap NamespacedName "err + string_map"
  | AskedService NamespacedName "err + Service"
  | AskedPods string string_map "err + (Pod \<times> string) list" \<comment> \<open>pods with their host address\<close>
  | MintedToken NamespacedName string int "err + string" \<comment> \<open>account, audience, seconds\<close>
  | ReadFile string "err + string"
  | StatFile string "err + unit"
  | WalkedDir string "err + fsnode"
  | Posted HTTPRequest "err + HTTPResponse"
  | LoggedInUser BaseParams string string Duration "err + string"
  | CalledAIS BaseParams ais_call "api_error + api_value"

type_synonym svc_hist = "svc_event list"

text \<open>\<open>IsNotFound\<close> of a file error is \<open>os.IsNotExist\<close>.\<close>

record svc_env =
  e_lib :: k8s_lib
  e_url :: url_lib
  e_tlsOpts :: AISClientTLSOpts
  e_serviceAccount :: NamespacedName \<comment> \<open>\<open>opinfo.ServiceAccount\<close>\<close>
  e_Getenv :: "string \<Rightarrow> string option"
  e_ParseBool :: "string \<Rightarrow> err + bool" \<comment> \<open>\<open>cos.ParseBool\<close>\<close>
  e_ParseDuration :: "string \<Rightarrow> err + Duration" \<comment> \<open>\<open>time.ParseDuration\<close>\<close>
  e_IsHTTPS :: "string \<Rightarrow> bool" \<comment> \<open>\<open>cos.IsHTTPS\<close>\<close>
  e_DecodeOAuth :: "string \<Rightarrow> err + oauthTokenResponse" \<comment> \<open>of a JSON body\<close>
  e_DecodeExchange :: "string \<Rightarrow> err + tokenExchangeResponse"
  e_CertsFromPEM :: "string \<Rightarrow> string list" \<comment> \<open>the certificates \<open>AppendCertsFromPEM\<close> finds\<close>
  e_SystemCertPool :: "svc_hist \<Rightarrow> err + cert_pool"
  e_clock :: "svc_hist \<Rightarrow> int"
  e_profile :: "svc_hist \<Rightarrow> string \<Rightarrow> err + AIStoreAuthProfile"
  e_secret :: "svc_hist \<Rightarrow> NamespacedName \<Rightarrow> err + string_map"
  e_configmap :: "svc_hist \<Rightarrow> NamespacedName \<Rightarrow> err + string_map"
  e_service :: "svc_hist \<Rightarrow> NamespacedName \<Rightarrow> err + Service"
  e_pods :: "svc_hist \<Rightarrow> string \<Rightarrow> string_map \<Rightarrow> err + (Pod \<times> string) list"
  e_mint :: "svc_hist \<Rightarrow> NamespacedName \<Rightarrow> string \<Rightarrow> int \<Rightarrow> err + string"
  e_file :: "svc_hist \<Rightarrow> string \<Rightarrow> err + string"
  e_stat :: "svc_hist \<Rightarrow> string \<Rightarrow> err + unit"
  e_walk :: "svc_hist \<Rightarrow> string \<Rightarrow> err + fsnode"
  e_post :: "svc_hist \<Rightarrow> HTTPRequest \<Rightarrow> err + HTTPResponse"
  e_login :: "svc_hist \<Rightarrow> BaseParams \<Rightarrow> string \<Rightarrow> string \<Rightarrow> Duration \<Rightarrow> err + string"
  e_ais :: "svc_hist \<Rightarrow> BaseParams \<Rightarrow> ais_call \<Rightarrow> api_error + api_value"

text \<open>
  The state: the clients made so far and the map from cluster keys to them, the TLS caches, the
  cache lifetime read once per process, the history (newest first).
\<close>

record svc_st =
  sv_objs :: "AIStoreClient list"
  sv_clients :: "(string, nat) fmap"
  sv_caches :: "tlsCache list"
  sv_ttl :: "Duration option"
  sv_hist :: svc_hist

type_synonym 'a svc = "(svc_env, svc_st, 'a) M"

definition consult :: "(svc_env \<Rightarrow> svc_hist \<Rightarrow> err + 'a) \<Rightarrow> (err + 'a \<Rightarrow> svc_event) \<Rightarrow> 'a svc" where
  "consult answer mk = (\<lambda>E s. let r = answer E (sv_hist s); s' = s\<lparr>sv_hist := mk r # sv_hist s\<rparr>
     in (case r of Inl e \<Rightarrow> (Err e, s') | Inr a \<Rightarrow> (Ret a, s')))"

definition time_Now :: "int svc" where
  "time_Now = (\<lambda>E s. let t = e_clock E (sv_hist s) in (Ret t, s\<lparr>sv_hist := ReadClock t # sv_hist s\<rparr>))"

definition GetAuthProfile :: "string \<Rightarrow> AIStoreAuthProfile svc" where
  "GetAuthProfile name = consult (\<lambda>E h. e_profile E h name) (AskedProfile name)"

definition GetSecret :: "NamespacedName \<Rightarrow> string_map svc" where
  "GetSecret name = consult (\<lambda>E h. e_secret E h name) (AskedSecret name)"

definition GetConfigMapData :: "NamespacedName \<Rightarrow> string_map svc" where
  "GetConfigMapData name = consult (\<lambda>E h. e_configmap E h name) (AskedConfigMap name)"

definition svc_GetService :: "NamespacedName \<Rightarrow> Service svc" where
  "svc_GetService name = consult (\<lambda>E h. e_service E h name) (AskedService name)"

definition svc_ListPods :: "string \<Rightarrow> string_map \<Rightarrow> (Pod \<times> string) list svc" where
  "svc_ListPods ns labels = consult (\<lambda>E h. e_pods E h ns labels) (AskedPods ns labels)"

text \<open>\<open>CreateServiceAccountToken\<close>: an empty audience requests the API server's own; a duration in
  nanoseconds is requested in whole seconds.\<close>

definition CreateServiceAccountToken :: "NamespacedName \<Rightarrow> string \<Rightarrow> Duration \<Rightarrow> string svc" where
  "CreateServiceAccountToken sa audience expiration =
     (let expirationSeconds = expiration div 10 ^ 9
      in consult (\<lambda>E h. e_mint E h sa audience expirationSeconds) (MintedToken sa audience expirationSeconds))"

definition os_ReadFile :: "string \<Rightarrow> string svc" where
  "os_ReadFile path = consult (\<lambda>E h. e_file E h path) (ReadFile path)"

definition os_Stat :: "string \<Rightarrow> unit svc" where
  "os_Stat path = consult (\<lambda>E h. e_stat E h path) (StatFile path)"

definition walk_root :: "string \<Rightarrow> fsnode svc" where
  "walk_root path = consult (\<lambda>E h. e_walk E h path) (WalkedDir path)"

definition http_Do :: "HTTPRequest \<Rightarrow> HTTPResponse svc" where
  "http_Do req = consult (\<lambda>E h. e_post E h req) (Posted req)"

definition authn_LoginUser :: "BaseParams \<Rightarrow> string \<Rightarrow> string \<Rightarrow> Duration \<Rightarrow> string svc" where
  "authn_LoginUser bp user pass expire =
     consult (\<lambda>E h. e_login E h bp user pass expire) (LoggedInUser bp user pass expire)"

definition system_cert_pool :: "(err + cert_pool) svc" where
  "system_cert_pool = (\<lambda>E s. (Ret (e_SystemCertPool E (sv_hist s)), s))"

lemma run_consult [run_simps]:
  "consult answer mk E s = (case answer E (sv_hist s) of
     Inl e \<Rightarrow> (Err e, s\<lparr>sv_hist := mk (Inl e) # sv_hist s\<rparr>)
   | Inr a \<Rightarrow> (Ret a, s\<lparr>sv_hist := mk (Inr a) # sv_hist s\<rparr>))"
  by (simp add: consult_def Let_def split: sum.split)

lemma run_time_Now [run_simps]:
  "time_Now E s = (Ret (e_clock E (sv_hist s)), s\<lparr>sv_hist := ReadClock (e_clock E (sv_hist s)) # sv_hist s\<rparr>)"
  by (simp add: time_Now_def Let_def)

lemma run_system_cert_pool [run_simps]: "system_cert_pool E s = (Ret (e_SystemCertPool E (sv_hist s)), s)"
  by (simp add: system_cert_pool_def)

lemmas svc_reads =
  GetAuthProfile_def GetSecret_def GetConfigMapData_def svc_GetService_def svc_ListPods_def
  CreateServiceAccountToken_def os_ReadFile_def os_Stat_def walk_root_def http_Do_def authn_LoginUser_def

section \<open>What an operation leaves alone\<close>

text \<open>
  Outside the client manager the clients stay as they are.
\<close>

definition clients_kept :: "svc_st \<Rightarrow> svc_st \<Rightarrow> bool" where
  "clients_kept s s' \<longleftrightarrow> sv_objs s' = sv_objs s \<and> sv_clients s' = sv_clients s"

interpretation clients_kept: step_rel clients_kept
  by unfold_locales (auto simp: clients_kept_def)

text \<open>
  The events a run adds satisfy a predicate. Every predicate on events gives a step relation; this
  is how "the operator only ever ..." is stated.
\<close>

definition adds_only :: "(svc_event \<Rightarrow> bool) \<Rightarrow> svc_st \<Rightarrow> svc_st \<Rightarrow> bool" where
  "adds_only P s s' \<longleftrightarrow> (\<exists>new. sv_hist s' = new @ sv_hist s \<and> (\<forall>e\<in>set new. P e))"

interpretation adds_only: step_rel "adds_only P"
proof unfold_locales
  fix s t u
  show "adds_only P s s" by (simp add: adds_only_def)
  assume "adds_only P s t" "adds_only P t u"
  then show "adds_only P s u" unfolding adds_only_def
    by (elim exE conjE) (rule exI [of _ "_ @ _"], auto)
qed

lemma adds_only_consult: "(\<And>r. P (mk r)) \<Longrightarrow> steps E (adds_only P) (consult answer mk)"
  by (auto simp: steps_def run_simps adds_only_def split: sum.split)

lemma adds_only_clock: "(\<And>t. P (ReadClock t)) \<Longrightarrow> steps E (adds_only P) time_Now"
  by (auto simp: steps_def run_simps adds_only_def)

lemma adds_only_same: "(\<And>s. sv_hist (f s) = sv_hist s) \<Longrightarrow> steps E (adds_only P) (modify f)"
  by (simp add: steps_def run_simps adds_only_def)

lemma kept_consult: "steps E clients_kept (consult answer mk)"
  by (auto simp: steps_def run_simps clients_kept_def split: sum.split)

lemma kept_clock: "steps E clients_kept time_Now"
  by (simp add: steps_def run_simps clients_kept_def)

lemma kept_same:
  "(\<And>s. sv_objs (f s) = sv_objs s) \<Longrightarrow> (\<And>s. sv_clients (f s) = sv_clients s) \<Longrightarrow> steps E clients_kept (modify f)"
  by (simp add: steps_def run_simps clients_kept_def)

lemma kept_system_pool: "steps E clients_kept system_cert_pool"
  by (simp add: steps_def run_simps clients_kept_def)

lemma adds_system_pool: "steps E (adds_only P) system_cert_pool"
  by (simp add: steps_def run_simps adds_only_def)

end
