(* ===== verification/Trust_Store.thy ===== *)
theory Trust_Store
  imports Services_World
begin

text \<open>
  Which certificates a connection trusts: the pools of
  \<^verbatim>\<open>operator/internal/truststore/certpool.go\<close> for the authentication service, with the cache of
  \<^verbatim>\<open>services/authn_api.go\<close>, and those of \<^verbatim>\<open>services/client_manager.go\<close> for the AIStore API.
\<close>

section \<open>Pools for the authentication service\<close>

record TrustConfig =
  CACertPaths :: "string list"
  CAPEMs :: "string list"

text \<open>Certificates of a file that is missing or holds none are skipped.\<close>

fun add_ca_paths :: "cert_pool \<Rightarrow> string list \<Rightarrow> cert_pool svc" where
  "add_ca_paths pool [] = ret pool"
| "add_ca_paths pool (p # ps) = bind (attempt (os_ReadFile p)) (\<lambda>r. case r of
     Inl e \<Rightarrow> add_ca_paths pool ps
   | Inr pem \<Rightarrow> bind (asks e_CertsFromPEM) (\<lambda>certs. add_ca_paths (pool @ certs pem) ps))"

fun add_ca_pems :: "cert_pool \<Rightarrow> string list \<Rightarrow> cert_pool svc" where
  "add_ca_pems pool [] = ret pool"
| "add_ca_pems pool (pem # pems) = bind (asks e_CertsFromPEM) (\<lambda>certs.
     if certs pem = [] then throw (OtherErr ''failed to parse in-memory CA certificate'')
     else add_ca_pems (pool @ certs pem) pems)"

definition NewCertPool :: "TrustConfig \<Rightarrow> cert_pool svc" where
  "NewCertPool config = bind system_cert_pool (\<lambda>r.
     bind (add_ca_paths (case r of Inl e \<Rightarrow> [] | Inr systemCAs \<Rightarrow> systemCAs) (CACertPaths config)) (\<lambda>pool.
     add_ca_pems pool (CAPEMs config)))"

definition NewTLSConfig :: "TrustConfig \<Rightarrow> TLSConfig svc" where
  "NewTLSConfig config = bind (attempt (NewCertPool config)) (\<lambda>r. case r of
     Inl e \<Rightarrow> throw (Wrapped ''failed to create certificate pool'' e)
   | Inr certPool \<Rightarrow> ret (no_tls_config\<lparr>tc_MinTLS12 := True, tc_RootCAs := Some certPool\<rparr>))"

section \<open>The cached TLS configuration\<close>

definition defaultTLSConfigCacheTTL :: Duration where "defaultTLSConfigCacheTTL = 6 * 3600 * 10 ^ 9"
definition AuthTLSCacheTTLEnv :: string where "AuthTLSCacheTTLEnv = ''OPERATOR_AUTH_TLS_CACHE_TTL''"
definition minute :: Duration where "minute = 60 * 10 ^ 9"

definition configured_ttl :: "svc_env \<Rightarrow> Duration" where
  "configured_ttl E =
     (case e_Getenv E AuthTLSCacheTTLEnv of
        None \<Rightarrow> defaultTLSConfigCacheTTL
      | Some ttlStr \<Rightarrow> if ttlStr = [] then defaultTLSConfigCacheTTL
          else (case e_ParseDuration E ttlStr of
              Inl e \<Rightarrow> defaultTLSConfigCacheTTL
            | Inr ttl \<Rightarrow> if ttl < minute then minute else ttl))"

text \<open>\<open>sync.Once\<close>: the first call decides for the lifetime of the process.\<close>

definition getTLSConfigCacheTTL :: "Duration svc" where
  "getTLSConfigCacheTTL = bind (gets sv_ttl) (\<lambda>t. case t of
     Some ttl \<Rightarrow> ret ttl
   | None \<Rightarrow> bind (asks configured_ttl) (\<lambda>ttl. bind (modify (\<lambda>s. s\<lparr>sv_ttl := Some ttl\<rparr>)) (\<lambda>_. ret ttl)))"

definition deref_cache :: "nat \<Rightarrow> tlsCache svc" where
  "deref_cache c = bind (gets sv_caches) (\<lambda>cs. if c < length cs then ret (cs ! c) else panic)"

text \<open>The cached configuration if it is younger than the lifetime.\<close>

definition fresh_config :: "nat \<Rightarrow> Duration \<Rightarrow> TLSConfig option svc" where
  "fresh_config c ttl = bind (deref_cache c) (\<lambda>cache. case cache_config cache of
     None \<Rightarrow> ret None
   | Some config \<Rightarrow> bind time_Now (\<lambda>t. ret (if t - cache_created cache < ttl then Some config else None)))"

definition tlsCache_get :: "nat \<Rightarrow> TrustConfig svc \<Rightarrow> bool \<Rightarrow> TLSConfig svc" where
  "tlsCache_get c source insecureSkipVerify = bind getTLSConfigCacheTTL (\<lambda>cacheTTL.
     bind (fresh_config c cacheTTL) (\<lambda>hit. case hit of
       Some config \<Rightarrow> ret config
     | None \<Rightarrow> bind (fresh_config c cacheTTL) (\<lambda>hit. case hit of
         Some config \<Rightarrow> ret config
       | None \<Rightarrow> bind source (\<lambda>trustConf.
           bind (attempt (NewTLSConfig trustConf)) (\<lambda>r. case r of
             Inl e \<Rightarrow> throw (Wrapped ''failed to create TLS config'' e)
           | Inr config \<Rightarrow>
               let config = (if insecureSkipVerify then config\<lparr>tc_InsecureSkipVerify := True\<rparr> else config)
               in bind time_Now (\<lambda>t.
                  bind (modify (\<lambda>s. s\<lparr>sv_caches := (sv_caches s)[c := \<lparr>cache_config = Some config, cache_created = t\<rparr>]\<rparr>)) (\<lambda>_.
                  ret config)))))))"

section \<open>Certificates below a directory\<close>

text \<open>\<open>filepath.Ext\<close> of a name: from its last dot.\<close>

definition filepath_Ext :: "string \<Rightarrow> string" where
  "filepath_Ext name =
     (if CHR ''.'' \<in> set name then CHR ''.'' # rev (takeWhile (\<lambda>c. c \<noteq> CHR ''.'') (rev name)) else [])"

text \<open>
  \<open>findCerts\<close>: the walk collects the paths with one of the extensions, leaves out entries that
  start with two dots (a directory with all below it) and stops at the first unreadable directory.
  The paths found so far are returned with the error.
\<close>

fun node_name :: "fsnode \<Rightarrow> string" where
  "node_name (FileNode n) = n"
| "node_name (DirNode n _) = n"
| "node_name (UnreadableDir n _) = n"

definition matches_ext :: "string list \<Rightarrow> string \<Rightarrow> bool" where
  "matches_ext exts name = (filepath_Ext name \<in> set exts)"

fun walk_certs :: "string list \<Rightarrow> string \<Rightarrow> fsnode \<Rightarrow> string list \<times> err option"
and walk_entries :: "string list \<Rightarrow> string \<Rightarrow> fsnode list \<Rightarrow> string list \<times> err option" where
  "walk_certs exts path (FileNode n) =
     (if HasPrefix n ''..'' then ([], None)
      else (if matches_ext exts n then [path] else [], None))"
| "walk_certs exts path (DirNode n entries) =
     (if HasPrefix n ''..'' then ([], None)
      else case walk_entries exts path entries of (ps, e) \<Rightarrow>
        ((if matches_ext exts n then [path] else []) @ ps, e))"
| "walk_certs exts path (UnreadableDir n e) =
     (if HasPrefix n ''..'' then ([], None)
      else (if matches_ext exts n then [path] else [], Some e))"
| "walk_entries exts path [] = ([], None)"
| "walk_entries exts path (d # ds) =
     (case walk_certs exts (path @ ''/'' @ node_name d) d of
        (ps, Some e) \<Rightarrow> (ps, Some e)
      | (ps, None) \<Rightarrow> (case walk_entries exts path ds of (qs, e) \<Rightarrow> (ps @ qs, e)))"

definition findCerts :: "string \<Rightarrow> string list \<Rightarrow> (string list \<times> err option) svc" where
  "findCerts root exts = bind (attempt (walk_root root)) (\<lambda>r. case r of
     Inl e \<Rightarrow> ret ([], Some e)
   | Inr node \<Rightarrow> ret (walk_certs exts root node))"

section \<open>Pools for the AIStore API\<close>

definition CAMountPath :: string where "CAMountPath = ''/etc/ais/ca''"
definition ClientCertFile :: string where "ClientCertFile = ''tls.crt''"
definition ClientKeyFile :: string where "ClientKeyFile = ''tls.key''"
definition ClientCAFile :: string where "ClientCAFile = ''ca.crt''"
definition EnvSkipVerify :: string where "EnvSkipVerify = ''OPERATOR_SKIP_VERIFY_CRT''"

text \<open>A missing file adds nothing, an unreadable one or one without a certificate is an error.\<close>

definition appendCertIfExists :: "cert_pool \<Rightarrow> string \<Rightarrow> (err + cert_pool) svc" where
  "appendCertIfExists pool path = bind (attempt (os_ReadFile path)) (\<lambda>r. case r of
     Inl e \<Rightarrow> ret (if IsNotFound e then Inr pool else Inl e)
   | Inr pem \<Rightarrow> bind (asks e_CertsFromPEM) (\<lambda>certs.
       ret (if certs pem = [] then Inl (OtherErr ''failed to append existing CA certs from PEM'')
            else Inr (pool @ certs pem))))"

text \<open>Failures of the additional certificates are logged and skipped.\<close>

fun append_each :: "cert_pool \<Rightarrow> string list \<Rightarrow> cert_pool svc" where
  "append_each pool [] = ret pool"
| "append_each pool (p # ps) = bind (appendCertIfExists pool p) (\<lambda>r. case r of
     Inl e \<Rightarrow> append_each pool ps
   | Inr pool' \<Rightarrow> append_each pool' ps)"

definition loadOptionalProvidedCA :: "string \<Rightarrow> cert_pool svc" where
  "loadOptionalProvidedCA caPath = bind (bind system_cert_pool of_sum) (\<lambda>pool.
     bind (bind (appendCertIfExists pool caPath) of_sum) (\<lambda>pool.
     bind (attempt (os_Stat CAMountPath)) (\<lambda>st. case st of
       Inl e \<Rightarrow> if IsNotFound e then ret pool else throw e
     | Inr _ \<Rightarrow> bind (findCerts CAMountPath [''.crt'', ''.pem'']) (\<lambda>(certPaths, e). case e of
         Some _ \<Rightarrow> ret pool
       | None \<Rightarrow> append_each pool certPaths))))"

definition skip_verify :: "AIStore \<Rightarrow> bool svc" where
  "skip_verify ais = (case OperatorSkipVerifyCrt (Spec ais) of
     Some b \<Rightarrow> ret b
   | None \<Rightarrow> bind (asks (\<lambda>E. (e_Getenv E EnvSkipVerify, e_ParseBool E))) (\<lambda>(v, parse). case v of
       None \<Rightarrow> ret False | Some raw \<Rightarrow> of_sum (parse raw)))"

definition configureCAVerification :: "AIStore \<Rightarrow> TLSConfig \<Rightarrow> string \<Rightarrow> TLSConfig svc" where
  "configureCAVerification ais tlsConf tlsDir = bind (skip_verify ais) (\<lambda>skipVerify.
     if skipVerify then ret (tlsConf\<lparr>tc_InsecureSkipVerify := True\<rparr>)
     else bind (loadOptionalProvidedCA (path_Join [tlsDir, ClientCAFile])) (\<lambda>caPool.
          ret (tlsConf\<lparr>tc_RootCAs := Some caPool\<rparr>)))"

definition addClientCertIfRequested :: "AIStore \<Rightarrow> TLSConfig \<Rightarrow> string \<Rightarrow> TLSConfig" where
  "addClientCertIfRequested ais tlsConf tlsDir =
     (if \<not> ShouldIncludeClientCert ais then tlsConf
      else tlsConf\<lparr>tc_ClientCert := Some (path_Join [tlsDir, ClientCertFile], path_Join [tlsDir, ClientKeyFile])\<rparr>)"

definition getTLSPath :: "AISClientTLSOpts \<Rightarrow> AIStore \<Rightarrow> string" where
  "getTLSPath opts ais =
     (if CertPerCluster opts then path_Join [CertPath opts, Namespace ais, Name ais] else CertPath opts)"

definition getTLSConfig :: "AIStore \<Rightarrow> TLSConfig option svc" where
  "getTLSConfig ais =
     (if \<not> UseHTTPS ais then ret None
      else bind (asks (\<lambda>E. getTLSPath (e_tlsOpts E) ais)) (\<lambda>tlsDir.
        bind (configureCAVerification ais no_tls_config tlsDir) (\<lambda>tlsConf.
        ret (Some (addClientCertIfRequested ais tlsConf tlsDir)))))"

section \<open>Lemmas\<close>

text \<open>Building trust only reads: files, the ConfigMap of a profile, the clock.\<close>

fun is_trust_read :: "svc_event \<Rightarrow> bool" where
  "is_trust_read (ReadClock _) = True"
| "is_trust_read (AskedConfigMap _ _) = True"
| "is_trust_read (ReadFile _ _) = True"
| "is_trust_read (StatFile _ _) = True"
| "is_trust_read (WalkedDir _ _) = True"
| "is_trust_read _ = False"

text \<open>A relation that every read of trust and every change of the caches stays within.\<close>

locale trust_rel = step_rel R for R :: "svc_st \<Rightarrow> svc_st \<Rightarrow> bool" +
  assumes reads: "is_trust_read e \<Longrightarrow> R s (s\<lparr>sv_hist := e # sv_hist s\<rparr>)"
    and caches: "R s (s\<lparr>sv_caches := cs\<rparr>)"
    and ttl: "R s (s\<lparr>sv_ttl := t\<rparr>)"
begin

lemma steps_consult: "(\<And>r. is_trust_read (mk r)) \<Longrightarrow> steps E R (consult answer mk)"
  by (auto simp: steps_def run_simps reads split: sum.split)

lemma steps_clock: "steps E R time_Now"
  by (simp add: steps_def run_simps reads)

lemma steps_system_pool: "steps E R system_cert_pool"
  by (simp add: steps_def run_simps refl)

lemma steps_add_ca_paths: "steps E R (add_ca_paths pool ps)"
  by (induction ps arbitrary: pool)
     (auto intro!: steps_base steps_intros steps_consult simp: svc_reads)

lemma steps_add_ca_pems: "steps E R (add_ca_pems pool ps)"
  by (induction ps arbitrary: pool) (auto intro!: steps_base steps_intros)

lemma steps_NewTLSConfig: "steps E R (NewTLSConfig c)"
  unfolding NewTLSConfig_def NewCertPool_def
  by (intro steps_base steps_intros steps_system_pool steps_add_ca_paths steps_add_ca_pems)

lemma steps_ttl: "steps E R getTLSConfigCacheTTL"
  unfolding getTLSConfigCacheTTL_def
  by (intro steps_base steps_intros) (simp add: steps_def run_simps ttl)

lemma steps_fresh_config: "steps E R (fresh_config c t)"
  unfolding fresh_config_def deref_cache_def by (intro steps_base steps_intros steps_clock)

lemma steps_tlsCache_get: "steps E R src \<Longrightarrow> steps E R (tlsCache_get c src b)"
  unfolding tlsCache_get_def
  by (intro steps_base steps_intros steps_clock steps_ttl steps_fresh_config steps_NewTLSConfig)
     (auto simp: steps_def run_simps caches)

lemma steps_appendCertIfExists: "steps E R (appendCertIfExists pool p)"
  unfolding appendCertIfExists_def svc_reads by (intro steps_base steps_intros steps_consult) simp

lemma steps_append_each: "steps E R (append_each pool ps)"
  by (induction ps arbitrary: pool) (auto intro!: steps_base steps_intros steps_appendCertIfExists)

lemma steps_loadOptionalProvidedCA: "steps E R (loadOptionalProvidedCA p)"
  unfolding loadOptionalProvidedCA_def findCerts_def svc_reads
  by (intro steps_base steps_intros steps_consult steps_system_pool steps_appendCertIfExists
      steps_append_each) simp_all

lemma steps_getTLSConfig: "steps E R (getTLSConfig ais)"
  unfolding getTLSConfig_def configureCAVerification_def skip_verify_def
  by (intro steps_base steps_intros steps_loadOptionalProvidedCA)

end

interpretation trust_adds: trust_rel "adds_only is_trust_read"
proof unfold_locales
  fix e s assume "is_trust_read e"
  then show "adds_only is_trust_read s (s\<lparr>sv_hist := e # sv_hist s\<rparr>)"
    by (simp add: adds_only_def)
qed (simp_all add: adds_only_def)

interpretation trust_kept: trust_rel clients_kept
  by unfold_locales (simp_all add: clients_kept_def)

text \<open>A certificate hidden below a name that starts with two dots is not found.\<close>

lemma walk_hidden: "HasPrefix (node_name d) ''..'' \<Longrightarrow> walk_certs exts path d = ([], None)"
  by (cases d) auto

end
