(* ===== verification/Auth_Config.thy ===== *)
theory Auth_Config
  imports Trust_Store
begin

text \<open>
  The configuration of an authentication provider as the AuthN client sees it: the interface
  \<open>AuthConfig\<close> of \<^verbatim>\<open>operator/internal/services/authn_api.go\<close> is a record of its methods, built by
  the inline \<open>spec.auth\<close> (\<^verbatim>\<open>auth_spec.go\<close>) or by a referenced \<open>AIStoreAuthProfile\<close>
  (\<^verbatim>\<open>auth_profile.go\<close>). The locale \<open>auth_provider\<close> states what both promise.
\<close>

section \<open>The interface\<close>

record OAuthLoginConf =
  oauth_ClientID :: string
  oauth_Endpoint :: string
  oauth_Scope :: "string option"

record AuthConfig =
  GetServiceURL :: string
  IsTokenExchange :: bool
  GetTokenPath :: string
  GetSubjectTokenAudience :: string
  GetTokenExchangeEndpoint :: string
  GetOAuthLoginConf :: "OAuthLoginConf option"
  GetSecretName :: string
  GetSecretNamespace :: string
  GetUserKey :: string
  GetPassKey :: string
  GetTLSConfig :: "TLSConfig svc"

definition DefaultTokenExchangeEndpoint :: string where "DefaultTokenExchangeEndpoint = ''/token''"
definition DefaultAuthNServiceURL :: string where "DefaultAuthNServiceURL = ''https://ais-authn.ais:52001''"
definition DefaultAuthCACertPath :: string where
  "DefaultAuthCACertPath = ''/etc/ssl/certs/auth-ca/ca.crt''"
definition AuthNSecretRefName :: string where "AuthNSecretRefName = ''SU-NAME''"
definition AuthNSecretRefPass :: string where "AuthNSecretRefPass = ''SU-PASS''"

definition caCertPaths :: "string \<Rightarrow> string list svc" where
  "caCertPaths configured =
     (if configured \<noteq> [] then ret [configured]
      else bind (attempt (os_Stat DefaultAuthCACertPath)) (\<lambda>r. case r of
          Inr _ \<Rightarrow> ret [DefaultAuthCACertPath] | Inl e \<Rightarrow> ret []))"

section \<open>Inline configuration\<close>

definition spec_GetServiceURL :: "AuthSpec \<Rightarrow> string" where
  "spec_GetServiceURL spec = (case ServiceURL spec of None \<Rightarrow> DefaultAuthNServiceURL | Some u \<Rightarrow> u)"

definition spec_GetTokenPath :: "AuthSpec \<Rightarrow> string" where
  "spec_GetTokenPath spec = (case Option.bind (TokenExchange spec) TokenPath of None \<Rightarrow> [] | Some p \<Rightarrow> p)"

definition spec_GetTokenExchangeEndpoint :: "AuthSpec \<Rightarrow> string" where
  "spec_GetTokenExchangeEndpoint spec =
     (case Option.bind (TokenExchange spec) TokenExchangeEndpoint of
        None \<Rightarrow> DefaultTokenExchangeEndpoint | Some e \<Rightarrow> e)"

definition spec_GetOAuthLoginConf :: "AuthSpec \<Rightarrow> OAuthLoginConf option" where
  "spec_GetOAuthLoginConf spec = map_option (\<lambda>conf.
     \<lparr>oauth_ClientID = ClientID conf, oauth_Endpoint = [], oauth_Scope = LoginScope conf\<rparr>)
     (Option.bind (UsernamePassword spec) LoginConf)"

definition spec_GetSecretName :: "AuthSpec \<Rightarrow> string" where
  "spec_GetSecretName spec = (case UsernamePassword spec of None \<Rightarrow> [] | Some up \<Rightarrow> SecretName up)"

definition spec_GetSecretNamespace :: "AuthSpec \<Rightarrow> string \<Rightarrow> string" where
  "spec_GetSecretNamespace spec namespace =
     (case Option.bind (UsernamePassword spec) SecretNamespace of None \<Rightarrow> namespace | Some ns \<Rightarrow> ns)"

definition spec_GetCACertPath :: "AuthSpec \<Rightarrow> string" where
  "spec_GetCACertPath spec = (case AuthTLS spec of None \<Rightarrow> [] | Some t \<Rightarrow> CACertPath t)"

definition spec_GetInsecureSkipVerify :: "AuthSpec \<Rightarrow> bool" where
  "spec_GetInsecureSkipVerify spec = (case AuthTLS spec of None \<Rightarrow> False | Some t \<Rightarrow> InsecureSkipVerify t)"

definition spec_trustSource :: "AuthSpec \<Rightarrow> TrustConfig svc" where
  "spec_trustSource spec = bind (caCertPaths (spec_GetCACertPath spec)) (\<lambda>ps.
     ret \<lparr>CACertPaths = ps, CAPEMs = []\<rparr>)"

definition spec_GetTLSConfig :: "AuthSpec \<Rightarrow> nat \<Rightarrow> TLSConfig svc" where
  "spec_GetTLSConfig spec cache =
     tlsCache_get cache (spec_trustSource spec) (spec_GetInsecureSkipVerify spec)"

definition AuthSpecConfig :: "AuthSpec \<times> string \<Rightarrow> nat \<Rightarrow> AuthConfig" where
  "AuthSpecConfig c cache = (case c of (spec, namespace) \<Rightarrow>
     \<lparr>GetServiceURL = spec_GetServiceURL spec, IsTokenExchange = TokenExchange spec \<noteq> None,
      GetTokenPath = spec_GetTokenPath spec, GetSubjectTokenAudience = [],
      GetTokenExchangeEndpoint = spec_GetTokenExchangeEndpoint spec,
      GetOAuthLoginConf = spec_GetOAuthLoginConf spec, GetSecretName = spec_GetSecretName spec,
      GetSecretNamespace = spec_GetSecretNamespace spec namespace,
      GetUserKey = AuthNSecretRefName, GetPassKey = AuthNSecretRefPass,
      GetTLSConfig = spec_GetTLSConfig spec cache\<rparr>)"

section \<open>A profile\<close>

definition loginSecret :: "AIStoreAuthProfile \<Rightarrow> AuthProfileSecret option" where
  "loginSecret p = map_option pup_Secret (prs_UsernamePassword (prof_Spec p))"

definition prof_GetSubjectTokenAudience :: "AIStoreAuthProfile \<Rightarrow> string" where
  "prof_GetSubjectTokenAudience p =
     (case prs_TokenExchange (prof_Spec p) of None \<Rightarrow> [] | Some te \<Rightarrow> pte_SubjectTokenAudience te)"

definition prof_GetTokenExchangeEndpoint :: "AIStoreAuthProfile \<Rightarrow> string" where
  "prof_GetTokenExchangeEndpoint p =
     (let endpoint = profile_TokenExchangeEndpoint p
      in if endpoint \<noteq> [] then endpoint else DefaultTokenExchangeEndpoint)"

definition prof_GetOAuthLoginConf :: "AIStoreAuthProfile \<Rightarrow> OAuthLoginConf option" where
  "prof_GetOAuthLoginConf p = map_option (\<lambda>conf.
     \<lparr>oauth_ClientID = plc_ClientID conf, oauth_Endpoint = plc_Endpoint conf, oauth_Scope = plc_Scope conf\<rparr>)
     (Option.bind (prs_UsernamePassword (prof_Spec p)) pup_LoginConf)"

definition prof_GetSecretName :: "AIStoreAuthProfile \<Rightarrow> string" where
  "prof_GetSecretName p = (case loginSecret p of None \<Rightarrow> [] | Some s \<Rightarrow> sec_Name s)"

definition prof_GetSecretNamespace :: "AIStoreAuthProfile \<Rightarrow> string" where
  "prof_GetSecretNamespace p = (case loginSecret p of None \<Rightarrow> [] | Some s \<Rightarrow> sec_Namespace s)"

definition prof_GetUserKey :: "AIStoreAuthProfile \<Rightarrow> string" where
  "prof_GetUserKey p = (case loginSecret p of None \<Rightarrow> [] | Some s \<Rightarrow> UserKeyOrDefault s)"

definition prof_GetPassKey :: "AIStoreAuthProfile \<Rightarrow> string" where
  "prof_GetPassKey p = (case loginSecret p of None \<Rightarrow> [] | Some s \<Rightarrow> PassKeyOrDefault s)"

definition trustStoreConfig :: "AIStoreAuthProfile \<Rightarrow> TrustConfig svc" where
  "trustStoreConfig p =
     (case Option.bind (prs_TLS (prof_Spec p)) ptls_CAConfigMapRef of
        None \<Rightarrow> bind (caCertPaths []) (\<lambda>ps. ret \<lparr>CACertPaths = ps, CAPEMs = []\<rparr>)
      | Some ref \<Rightarrow>
          let name = \<lparr>nn_Name = caref_Name ref, nn_Namespace = caref_Namespace ref\<rparr> in
          bind (attempt (GetConfigMapData name)) (\<lambda>r. case r of
            Inl e \<Rightarrow> throw (Wrapped ''failed to get CA ConfigMap'' e)
          | Inr data \<Rightarrow> (case fmlookup data (caref_Key ref) of
              None \<Rightarrow> throw (OtherErr ''CA ConfigMap has no such key'')
            | Some caPEM \<Rightarrow> ret \<lparr>CACertPaths = [], CAPEMs = [caPEM]\<rparr>)))"

definition prof_insecure :: "AIStoreAuthProfile \<Rightarrow> bool" where
  "prof_insecure p = (case prs_TLS (prof_Spec p) of None \<Rightarrow> False | Some t \<Rightarrow> ptls_InsecureSkipVerify t)"

definition prof_GetTLSConfig :: "AIStoreAuthProfile \<Rightarrow> nat \<Rightarrow> TLSConfig svc" where
  "prof_GetTLSConfig p cache = tlsCache_get cache (trustStoreConfig p) (prof_insecure p)"

definition AuthProfileConfig :: "AIStoreAuthProfile \<Rightarrow> nat \<Rightarrow> AuthConfig" where
  "AuthProfileConfig p cache =
     \<lparr>GetServiceURL = prs_ServiceURL (prof_Spec p),
      IsTokenExchange = prs_TokenExchange (prof_Spec p) \<noteq> None,
      GetTokenPath = [], GetSubjectTokenAudience = prof_GetSubjectTokenAudience p,
      GetTokenExchangeEndpoint = prof_GetTokenExchangeEndpoint p,
      GetOAuthLoginConf = prof_GetOAuthLoginConf p, GetSecretName = prof_GetSecretName p,
      GetSecretNamespace = prof_GetSecretNamespace p, GetUserKey = prof_GetUserKey p,
      GetPassKey = prof_GetPassKey p, GetTLSConfig = prof_GetTLSConfig p cache\<rparr>"

section \<open>What a provider promises\<close>

text \<open>
  A subject token comes from one place, a path or an audience, and only for an exchange; a named
  Secret has keys; building the TLS configuration stays within any relation that allows reads of
  trust, and verifies certificates unless the configuration says otherwise.
\<close>

locale auth_provider =
  fixes conf :: "'c \<Rightarrow> nat \<Rightarrow> AuthConfig" and insecure :: "'c \<Rightarrow> bool"
  assumes one_source: "GetTokenPath (conf c k) = [] \<or> GetSubjectTokenAudience (conf c k) = []"
    and exchange_only: "\<not> IsTokenExchange (conf c k) \<Longrightarrow>
      GetTokenPath (conf c k) = [] \<and> GetSubjectTokenAudience (conf c k) = []"
    and keys: "GetSecretName (conf c k) \<noteq> [] \<Longrightarrow> GetUserKey (conf c k) \<noteq> [] \<and> GetPassKey (conf c k) \<noteq> []"
    and same_settings: "conf c k = (conf c k')\<lparr>GetTLSConfig := GetTLSConfig (conf c k)\<rparr>"
    and tls_steps: "trust_rel R \<Longrightarrow> steps E R (GetTLSConfig (conf c k))"
    and tls_verifies: "\<not> insecure c \<Longrightarrow> k < length (sv_caches s) \<Longrightarrow> cache_config (sv_caches s ! k) = None \<Longrightarrow>
      GetTLSConfig (conf c k) E s = (Ret config, s') \<Longrightarrow>
      \<not> tc_InsecureSkipVerify config \<and> tc_MinTLS12 config \<and> tc_RootCAs config \<noteq> None"
begin

text \<open>The store of clients is not touched, and nothing is sent anywhere.\<close>

lemma tls_kept: "steps E clients_kept (GetTLSConfig (conf c k))"
  by (rule tls_steps) unfold_locales

lemma tls_reads: "steps E (adds_only is_trust_read) (GetTLSConfig (conf c k))"
  by (rule tls_steps) unfold_locales

lemma service_url_stable: "GetServiceURL (conf c k) = GetServiceURL (conf c k')"
  by (subst same_settings [of c k k']) simp

end

lemma NewTLSConfig_result:
  assumes "NewTLSConfig t E s = (Ret config, s')"
  shows "\<not> tc_InsecureSkipVerify config \<and> tc_MinTLS12 config \<and> tc_RootCAs config \<noteq> None"
  using assms by (auto simp: NewTLSConfig_def no_tls_config_def run_simps split: prod.splits outcome.splits sum.splits)

text \<open>An empty cache is filled from the source.\<close>

lemma ttl_keeps_caches: "getTLSConfigCacheTTL E s = (r, s') \<Longrightarrow> sv_caches s' = sv_caches s \<and> r \<noteq> Panic"
  by (auto simp: getTLSConfigCacheTTL_def run_simps split: option.splits)

lemma fresh_config_empty:
  assumes "k < length (sv_caches s)" and "cache_config (sv_caches s ! k) = None"
  shows "fresh_config k t E s = (Ret None, s)"
  using assms by (simp add: fresh_config_def deref_cache_def run_simps)

lemma tlsCache_get_empty:
  assumes "k < length (sv_caches s)" "cache_config (sv_caches s ! k) = None"
    and "tlsCache_get k src insecure E s = (Ret config, s')"
  shows "\<exists>t r s1 s2 c. src E s1 = (Ret t, s2) \<and> NewTLSConfig t E s2 = (Ret c, r) \<and>
     config = (if insecure then c\<lparr>tc_InsecureSkipVerify := True\<rparr> else c)"
proof -
  obtain ttl s1 where ttl: "getTLSConfigCacheTTL E s = (Ret ttl, s1)"
    and rest: "tlsCache_get k src insecure E s = (bind (fresh_config k ttl) (\<lambda>hit. case hit of
       Some config \<Rightarrow> ret config
     | None \<Rightarrow> bind (fresh_config k ttl) (\<lambda>hit. case hit of
         Some config \<Rightarrow> ret config
       | None \<Rightarrow> bind src (\<lambda>trustConf.
           bind (attempt (NewTLSConfig trustConf)) (\<lambda>r. case r of
             Inl e \<Rightarrow> throw (Wrapped ''failed to create TLS config'' e)
           | Inr config \<Rightarrow>
               let config = (if insecure then config\<lparr>tc_InsecureSkipVerify := True\<rparr> else config)
               in bind time_Now (\<lambda>t.
                  bind (modify (\<lambda>s. s\<lparr>sv_caches := (sv_caches s)[k := \<lparr>cache_config = Some config, cache_created = t\<rparr>]\<rparr>)) (\<lambda>_.
                  ret config))))))) E s1"
    using assms(3) unfolding tlsCache_get_def
    by (cases "getTLSConfigCacheTTL E s") (auto simp: run_bind split: outcome.splits)
  have c1: "k < length (sv_caches s1)" "cache_config (sv_caches s1 ! k) = None"
    using ttl_keeps_caches [OF ttl] assms(1,2) by auto
  from assms(3) [unfolded rest] fresh_config_empty [OF c1] show ?thesis
    by (auto simp: run_simps Let_def split: prod.splits outcome.splits sum.splits) blast+
qed

lemma caCertPaths_steps: "trust_rel R \<Longrightarrow> steps E R (caCertPaths p)"
proof -
  assume "trust_rel R"
  then have r: "step_rel R" and c: "\<And>(mk :: err + unit \<Rightarrow> svc_event) answer.
      (\<And>r. is_trust_read (mk r)) \<Longrightarrow> steps E R (consult answer mk)"
    by (auto simp: trust_rel_def intro: trust_rel.steps_consult [unfolded trust_rel_def])
  show ?thesis unfolding caCertPaths_def svc_reads
    by (intro steps_intros step_rel.steps_base [OF r] c) simp_all
qed

interpretation spec_provider: auth_provider AuthSpecConfig "\<lambda>(spec, ns). spec_GetInsecureSkipVerify spec"
proof (unfold_locales, goal_cases)
  case (5 R E c k)
  then have r: "step_rel R" by (simp add: trust_rel_def)
  obtain spec ns where [simp]: "c = (spec, ns)" by (cases c)
  have "steps E R (spec_trustSource spec)" unfolding spec_trustSource_def
    by (intro step_rel.steps_base [OF r] caCertPaths_steps 5)
  then show ?case
    by (simp add: AuthSpecConfig_def spec_GetTLSConfig_def trust_rel.steps_tlsCache_get [OF 5])
next
  case (6 c k s E config s')
  obtain spec ns where [simp]: "c = (spec, ns)" by (cases c)
  from 6(4) have "tlsCache_get k (spec_trustSource spec) (spec_GetInsecureSkipVerify spec) E s = (Ret config, s')"
    by (simp add: AuthSpecConfig_def spec_GetTLSConfig_def)
  from tlsCache_get_empty [OF 6(2,3) this] 6(1) NewTLSConfig_result show ?case by fastforce
qed (auto simp: AuthSpecConfig_def spec_GetTokenPath_def AuthNSecretRefName_def AuthNSecretRefPass_def
     split: prod.splits option.splits)

interpretation profile_provider: auth_provider AuthProfileConfig prof_insecure
proof (unfold_locales, goal_cases)
  case (5 R E c k)
  then have r: "step_rel R" by (simp add: trust_rel_def)
  have "steps E R (trustStoreConfig c)" unfolding trustStoreConfig_def svc_reads
    by (intro steps_intros step_rel.steps_base [OF r] caCertPaths_steps 5 trust_rel.steps_consult [OF 5]) simp
  then show ?case
    by (simp add: AuthProfileConfig_def prof_GetTLSConfig_def trust_rel.steps_tlsCache_get [OF 5])
next
  case (6 c k s E config s')
  from 6(4) have "tlsCache_get k (trustStoreConfig c) (prof_insecure c) E s = (Ret config, s')"
    by (simp add: AuthProfileConfig_def prof_GetTLSConfig_def)
  from tlsCache_get_empty [OF 6(2,3) this] 6(1) NewTLSConfig_result show ?case by fastforce
qed (auto simp: AuthProfileConfig_def prof_GetSubjectTokenAudience_def prof_GetSecretName_def
     prof_GetUserKey_def prof_GetPassKey_def split: option.splits)

end
