(* ===== verification/AuthN_Client.thy ===== *)
theory AuthN_Client
  imports Auth_Config
begin

text \<open>
  How the operator gets an admin token for a cluster
  (\<^verbatim>\<open>operator/internal/services/authn_api.go\<close>): from the profile or the inline configuration, by
  password login at AuthN or at an OAuth issuer, or by exchanging a token of its own.
\<close>

section \<open>Durations and strings\<close>

text \<open>A \<open>time.Duration\<close> is an \<open>int64\<close>; multiplying seconds into nanoseconds wraps around.\<close>

definition wrap64 :: "int \<Rightarrow> int" where
  "wrap64 x = (x + 2 ^ 63) mod 2 ^ 64 - 2 ^ 63"

definition seconds :: "int \<Rightarrow> Duration" where
  "seconds n = wrap64 (n * 10 ^ 9)"

text \<open>\<open>strings.EqualFold\<close> against a word whose letters only fold within ASCII.\<close>

definition lower :: "char \<Rightarrow> char" where
  "lower c = (let n = (of_char c :: nat) in if 65 \<le> n \<and> n \<le> 90 then char_of (n + 32) else c)"

definition EqualFold :: "string \<Rightarrow> string \<Rightarrow> bool" where
  "EqualFold s t = (map lower s = map lower t)"

definition subjectTokenExpiration :: Duration where "subjectTokenExpiration = 10 * minute"
definition RFC8693GrantType :: string where
  "RFC8693GrantType = ''urn:ietf:params:oauth:grant-type:token-exchange''"
definition RFC8693SubjectTokenTypeJWT :: string where
  "RFC8693SubjectTokenTypeJWT = ''urn:ietf:params:oauth:token-type:jwt''"
definition userAgent :: string where "userAgent = ''ais-operator''"
definition ClientTimeout :: Duration where "ClientTimeout = 10 * 10 ^ 9"

text \<open>\<open>url.Values.Encode\<close> writes the values sorted by key; equal keys keep their order.\<close>

definition encode_form :: "(string \<times> string) list \<Rightarrow> (string \<times> string) list" where
  "encode_form = sort_key fst"

section \<open>Requests\<close>

record credentials =
  cred_user :: string
  cred_pass :: string

definition newAuthBaseParams :: "AuthConfig \<Rightarrow> BaseParams svc" where
  "newAuthBaseParams conf =
     (let serviceURL = GetServiceURL conf;
          params = \<lambda>tls. \<lparr>bp_URL = serviceURL, bp_Token = [], bp_UA = userAgent, bp_TLS = tls,
            bp_Timeout = ClientTimeout\<rparr>
      in if HasPrefix serviceURL ''https://''
         then bind (attempt (GetTLSConfig conf)) (\<lambda>r. case r of
             Inl e \<Rightarrow> throw (Wrapped ''failed to get TLS config for auth service'' e)
           | Inr tlsConfig \<Rightarrow> ret (params (Some tlsConfig)))
         else ret (params None))"

definition doAuthSvcRequest :: "string \<Rightarrow> (string \<times> string) list \<Rightarrow> BaseParams \<Rightarrow> HTTPResponse svc" where
  "doAuthSvcRequest url form params =
     http_Do \<lparr>rq_URL = url, rq_Form = encode_form form,
       rq_ContentType = ''application/x-www-form-urlencoded'', rq_UserAgent = bp_UA params,
       rq_TLS = bp_TLS params\<rparr>"

text \<open>\<open>if err != nil\<close> with a wrapped error.\<close>

definition or_wrap :: "('e, 's, 'a) M \<Rightarrow> string \<Rightarrow> ('e, 's, 'a) M" where
  "or_wrap m msg = bind (attempt m) (\<lambda>r. case r of Inl e \<Rightarrow> throw (Wrapped msg e) | Inr a \<Rightarrow> ret a)"

text \<open>\<open>url.JoinPath\<close>, and \<open>http.NewRequestWithContext\<close>, which parses the URL.\<close>

definition JoinPath :: "string \<Rightarrow> string \<Rightarrow> string svc" where
  "JoinPath base elem = bind (asks e_url) (\<lambda>U. of_sum (url_JoinPath U base elem))"

definition check_request_url :: "string \<Rightarrow> unit svc" where
  "check_request_url url = bind (asks e_url) (\<lambda>U. bind (of_sum (url_Parse U url)) (\<lambda>_. ret ()))"

section \<open>Password login\<close>

definition getTokenFromOAuth :: "BaseParams \<Rightarrow> credentials \<Rightarrow> OAuthLoginConf \<Rightarrow> TokenInfo svc" where
  "getTokenFromOAuth params creds oauthConf =
     (let form = [(''grant_type'', ''password''), (''client_id'', oauth_ClientID oauthConf),
            (''username'', cred_user creds), (''password'', cred_pass creds)]
            @ (case oauth_Scope oauthConf of None \<Rightarrow> [] | Some scope \<Rightarrow> [(''scope'', scope)])
      in bind (if oauth_Endpoint oauthConf \<noteq> []
               then or_wrap (JoinPath (bp_URL params) (oauth_Endpoint oauthConf))
                      ''failed to create OAuth login request URL''
               else ret (bp_URL params)) (\<lambda>requestURL.
         bind (or_wrap (check_request_url requestURL) ''failed to create OAuth login request'') (\<lambda>_.
         bind (or_wrap (doAuthSvcRequest requestURL form params) ''failed to send OAuth login request'') (\<lambda>resp.
         if rs_StatusCode resp < 200 \<or> rs_StatusCode resp \<ge> 300
         then throw (OtherErr (''OAuth login failed: '' @ rs_Body resp))
         else bind (or_wrap (bind (asks e_DecodeOAuth) (\<lambda>decode. of_sum (decode (rs_Body resp))))
                     ''failed to decode OAuth token response'') (\<lambda>tokenResp.
         if \<not> EqualFold (TokenType tokenResp) ''bearer''
         then throw (OtherErr (''unexpected token_type: '' @ TokenType tokenResp))
         else bind time_Now (\<lambda>t.
           ret \<lparr>Token = AccessToken tokenResp, ExpiresAt = Some (t + seconds (ExpiresIn tokenResp))\<rparr>))))))"

definition getTokenFromAuthN :: "BaseParams \<Rightarrow> credentials \<Rightarrow> TokenInfo svc" where
  "getTokenFromAuthN params creds =
     bind (or_wrap (authn_LoginUser params (cred_user creds) (cred_pass creds) 0)
             ''failed to login user to AuthN'') (\<lambda>token.
     ret \<lparr>Token = token, ExpiresAt = None\<rparr>)"

definition getSecretData :: "string \<Rightarrow> string \<Rightarrow> string_map svc" where
  "getSecretData namespace secretName =
     bind (GetSecret \<lparr>nn_Name = secretName, nn_Namespace = namespace\<rparr>) (\<lambda>data.
     if data = fmempty then throw (OtherErr ''auth Secret has no data'') else ret data)"

text \<open>A key that is absent or empty is an error.\<close>

definition secret_value :: "string_map \<Rightarrow> string \<Rightarrow> string svc" where
  "secret_value data key = (case fmlookup data key of
     None \<Rightarrow> throw (OtherErr (''auth Secret missing key '' @ key))
   | Some v \<Rightarrow> if v = [] then throw (OtherErr (''auth Secret missing key '' @ key)) else ret v)"

definition getTokenViaPassword :: "BaseParams \<Rightarrow> AuthConfig \<Rightarrow> TokenInfo option svc" where
  "getTokenViaPassword bp authConf =
     (if GetSecretName authConf = [] then ret None
      else bind (getSecretData (GetSecretNamespace authConf) (GetSecretName authConf)) (\<lambda>secretData.
        bind (secret_value secretData (GetUserKey authConf)) (\<lambda>user.
        bind (secret_value secretData (GetPassKey authConf)) (\<lambda>pass.
        let creds = \<lparr>cred_user = user, cred_pass = pass\<rparr> in
        bind (case GetOAuthLoginConf authConf of
            None \<Rightarrow> getTokenFromAuthN bp creds
          | Some oauthConf \<Rightarrow> getTokenFromOAuth bp creds oauthConf) (\<lambda>t. ret (Some t))))))"

section \<open>Token exchange\<close>

definition readTokenFromFile :: "string \<Rightarrow> string svc" where
  "readTokenFromFile path = bind (os_ReadFile path) (\<lambda>tokenBytes.
     let token = TrimSpace tokenBytes
     in if token = [] then throw (OtherErr (''token file is empty: '' @ path)) else ret token)"

definition readProjectedToken :: "string \<Rightarrow> string svc" where
  "readProjectedToken tokenPath = or_wrap (readTokenFromFile tokenPath) ''failed to read token''"

definition mintSubjectToken :: "string \<Rightarrow> string svc" where
  "mintSubjectToken audience = bind (asks e_serviceAccount) (\<lambda>sa.
     or_wrap (CreateServiceAccountToken sa audience subjectTokenExpiration)
       ''failed to mint token for ServiceAccount'')"

definition getSubjectToken :: "AuthConfig \<Rightarrow> string svc" where
  "getSubjectToken conf =
     (if GetTokenPath conf \<noteq> [] then readProjectedToken (GetTokenPath conf)
      else mintSubjectToken (GetSubjectTokenAudience conf))"

definition exchangeTokenWithAuthSvc :: "BaseParams \<Rightarrow> string \<Rightarrow> string \<Rightarrow> string list \<Rightarrow> TokenInfo svc" where
  "exchangeTokenWithAuthSvc params sourceToken endpoint audiences =
     (let formData = [(''grant_type'', RFC8693GrantType), (''subject_token'', sourceToken),
            (''subject_token_type'', RFC8693SubjectTokenTypeJWT)]
            @ map (Pair ''audience'') (filter (\<lambda>a. a \<noteq> []) audiences)
      in bind (or_wrap (JoinPath (bp_URL params) endpoint) ''failed to create exchange request URL'') (\<lambda>requestURL.
         bind (or_wrap (check_request_url requestURL) ''failed to create exchange request'') (\<lambda>_.
         bind (or_wrap (doAuthSvcRequest requestURL formData params) ''token exchange request failed'') (\<lambda>resp.
         if rs_StatusCode resp \<noteq> 200 then throw (OtherErr (''token exchange failed: '' @ rs_Body resp))
         else bind (or_wrap (bind (asks e_DecodeExchange) (\<lambda>decode. of_sum (decode (rs_Body resp))))
                     ''failed to decode exchange response'') (\<lambda>result.
         let token = (if AccessToken result = [] then LegacyToken result else AccessToken result)
         in if token = [] then throw (OtherErr ''exchange response missing required access_token field'')
            else if ExpiresIn result > 0
            then bind time_Now (\<lambda>t. ret \<lparr>Token = token, ExpiresAt = Some (t + seconds (ExpiresIn result))\<rparr>)
            else ret \<lparr>Token = token, ExpiresAt = None\<rparr>)))))"

definition getTokenViaExchange :: "BaseParams \<Rightarrow> AIStore \<Rightarrow> AuthConfig \<Rightarrow> TokenInfo svc" where
  "getTokenViaExchange bp ais conf =
     bind (getSubjectToken conf) (\<lambda>sourceToken.
     exchangeTokenWithAuthSvc bp sourceToken (GetTokenExchangeEndpoint conf) (GetRequiredAudiences ais))"

section \<open>The admin token\<close>

text \<open>Every resolution builds a new configuration object, with an empty TLS cache of its own.\<close>

definition new_cache :: "nat svc" where
  "new_cache = bind (gets (\<lambda>s. length (sv_caches s))) (\<lambda>k.
     bind (modify (\<lambda>s. s\<lparr>sv_caches := sv_caches s @ [\<lparr>cache_config = None, cache_created = 0\<rparr>]\<rparr>)) (\<lambda>_. ret k))"

definition ResolveAuthConfig :: "AIStore \<Rightarrow> AuthConfig svc" where
  "ResolveAuthConfig ais = bind (deref (Auth (Spec ais))) (\<lambda>spec.
     case ProfileRef spec of
       Some name \<Rightarrow> bind (or_wrap (GetAuthProfile name) ''failed to get AIStoreAuthProfile'') (\<lambda>profile.
         bind new_cache (\<lambda>k. ret (AuthProfileConfig profile k)))
     | None \<Rightarrow>
         if TokenExchange spec = None \<and> UsernamePassword spec = None
         then throw (OtherErr ''invalid auth service configuration: exactly one of usernamePassword or tokenExchange must be specified'')
         else bind new_cache (\<lambda>k. ret (AuthSpecConfig (spec, Namespace ais) k)))"

definition getAdminToken :: "AIStore \<Rightarrow> TokenInfo option svc" where
  "getAdminToken ais =
     (if Auth (Spec ais) = None then ret None
      else bind (ResolveAuthConfig ais) (\<lambda>authConf.
        bind (or_wrap (newAuthBaseParams authConf) ''failed to create auth service base params'') (\<lambda>baseParams.
        if IsTokenExchange authConf
        then bind (getTokenViaExchange baseParams ais authConf) (\<lambda>t. ret (Some t))
        else getTokenViaPassword baseParams authConf)))"

section \<open>Lemmas\<close>

lemma run_or_wrap [run_simps]:
  "or_wrap m msg E s = (case m E s of (r, s') \<Rightarrow>
     (case r of Ret a \<Rightarrow> (Ret a, s') | Err e \<Rightarrow> (Err (Wrapped msg e), s') | Panic \<Rightarrow> (Panic, s')))"
  by (simp add: or_wrap_def run_simps split: prod.split outcome.split)

context step_rel begin

lemma steps_or_wrap: "steps E R m \<Longrightarrow> steps E R (or_wrap m msg)"
  unfolding or_wrap_def by (intro steps_base steps_intros)

end

text \<open>
  The requests of one login, as a predicate on events: to the service itself or to its endpoint
  below the service URL, over the given transport.
\<close>

definition request_url :: "url_lib \<Rightarrow> AuthConfig \<Rightarrow> string \<Rightarrow> bool" where
  "request_url U conf url \<longleftrightarrow> url = GetServiceURL conf \<or>
     (\<exists>endpoint. url_JoinPath U (GetServiceURL conf) endpoint = Inr url \<and>
       (endpoint = GetTokenExchangeEndpoint conf \<or> (\<exists>lc. GetOAuthLoginConf conf = Some lc \<and> endpoint = oauth_Endpoint lc)))"

fun login_event :: "url_lib \<Rightarrow> AuthConfig \<Rightarrow> BaseParams \<Rightarrow> svc_event \<Rightarrow> bool" where
  "login_event U conf bp (Posted req r) = (request_url U conf (rq_URL req) \<and> rq_TLS req = bp_TLS bp)"
| "login_event U conf bp (LoggedInUser bp' user pass d r) = (bp' = bp)"
| "login_event U conf bp (AskedSecret name r) =
     (name = \<lparr>nn_Name = GetSecretName conf, nn_Namespace = GetSecretNamespace conf\<rparr>)"
| "login_event U conf bp (ReadFile p r) = (p = GetTokenPath conf \<and> p \<noteq> [])"
| "login_event U conf bp (MintedToken sa aud secs r) =
     (GetTokenPath conf = [] \<and> aud = GetSubjectTokenAudience conf \<and> secs = 600)"
| "login_event U conf bp (ReadClock t) = True"
| "login_event U conf bp _ = False"

lemmas login_steps =
  adds_only.steps_base adds_only.steps_or_wrap steps_intros adds_only_consult adds_only_clock

lemma steps_JoinPath: "(\<And>url. url_JoinPath (e_url E) base p = Inr url \<Longrightarrow> steps E (adds_only P) (f url))
  \<Longrightarrow> steps E (adds_only P) (bind (or_wrap (JoinPath base p) msg) f)"
  by (auto simp: steps_def run_simps JoinPath_def adds_only_def split: sum.splits)

lemma oauth_steps:
  assumes "bp_URL bp = GetServiceURL conf" and "GetOAuthLoginConf conf = Some lc"
  shows "steps E (adds_only (login_event (e_url E) conf bp)) (getTokenFromOAuth bp creds lc)"
proof -
  have post: "steps E (adds_only (login_event (e_url E) conf bp))
      (bind (or_wrap (check_request_url url) m1) (\<lambda>_. bind (or_wrap (doAuthSvcRequest url form bp) m2) f))"
    if "request_url (e_url E) conf url" and "\<And>resp. steps E (adds_only (login_event (e_url E) conf bp)) (f resp)"
    for url form f m1 m2
    using that unfolding check_request_url_def doAuthSvcRequest_def svc_reads
    by (intro login_steps) auto
  show ?thesis
  proof (cases "oauth_Endpoint lc = []")
    case True
    then show ?thesis unfolding getTokenFromOAuth_def Let_def
      using assms by simp (intro post login_steps, auto simp: request_url_def)
  next
    case False
    then show ?thesis unfolding getTokenFromOAuth_def Let_def
      using assms by simp (intro steps_JoinPath post login_steps, auto simp: request_url_def)
  qed
qed

lemma exchange_steps:
  assumes "bp_URL bp = GetServiceURL conf"
  shows "steps E (adds_only (login_event (e_url E) conf bp))
     (exchangeTokenWithAuthSvc bp tok (GetTokenExchangeEndpoint conf) auds)"
  unfolding exchangeTokenWithAuthSvc_def Let_def check_request_url_def doAuthSvcRequest_def svc_reads
  by (intro steps_JoinPath login_steps) (use assms in \<open>auto simp: request_url_def\<close>)

lemma login_stays:
  assumes "bp_URL bp = GetServiceURL conf"
  shows "steps E (adds_only (login_event (e_url E) conf bp)) (getTokenViaPassword bp conf)"
    and "steps E (adds_only (login_event (e_url E) conf bp)) (getTokenViaExchange bp ais conf)"
proof -
  show "steps E (adds_only (login_event (e_url E) conf bp)) (getTokenViaPassword bp conf)"
    unfolding getTokenViaPassword_def getSecretData_def secret_value_def getTokenFromAuthN_def Let_def svc_reads
    by (intro login_steps oauth_steps assms) (auto simp: assms)
  show "steps E (adds_only (login_event (e_url E) conf bp)) (getTokenViaExchange bp ais conf)"
    unfolding getTokenViaExchange_def getSubjectToken_def readProjectedToken_def readTokenFromFile_def
      mintSubjectToken_def Let_def svc_reads CreateServiceAccountToken_def
    by (intro login_steps exchange_steps assms) (auto simp: subjectTokenExpiration_def minute_def)
qed

text \<open>Getting a token leaves the clients alone.\<close>

lemma kept_JoinPath: "steps E clients_kept (JoinPath b p)" and
  kept_request_url: "steps E clients_kept (check_request_url u)" and
  kept_new_cache: "steps E clients_kept new_cache"
  unfolding JoinPath_def check_request_url_def new_cache_def
  by (intro clients_kept.steps_base kept_same; simp)+

lemmas kept_steps =
  clients_kept.steps_base clients_kept.steps_or_wrap steps_intros kept_consult kept_clock
  kept_JoinPath kept_request_url kept_new_cache

lemma kept_login: "steps E clients_kept (getTokenViaPassword bp conf)"
  "steps E clients_kept (getTokenViaExchange bp ais conf)"
  unfolding getTokenViaPassword_def getSecretData_def secret_value_def getTokenFromAuthN_def
    getTokenFromOAuth_def doAuthSvcRequest_def getTokenViaExchange_def getSubjectToken_def
    readProjectedToken_def readTokenFromFile_def mintSubjectToken_def exchangeTokenWithAuthSvc_def
    Let_def svc_reads
  by (intro kept_steps)+

end
