(* ===== verification/Client_Manager.thy ===== *)
theory Client_Manager
  imports AuthN_Client Names
begin

text \<open>
  The clients of the AIStore API (\<^verbatim>\<open>operator/internal/services/aisapi.go\<close>) and their manager
  (\<^verbatim>\<open>client_manager.go\<close>): one cached client per cluster, whose token is refreshed in place and
  which is replaced when it no longer fits the CR. The RWMutex around the map is not modelled: an
  operation is one step.
\<close>

section \<open>A client\<close>

definition TokenExpiryBuffer :: Duration where "TokenExpiryBuffer = 5 * minute"
definition APIModePublic :: string where "APIModePublic = ''public''"

definition deref_client :: "nat \<Rightarrow> AIStoreClient svc" where
  "deref_client p = bind (gets sv_objs) (\<lambda>os. if p < length os then ret (os ! p) else panic)"

definition change_client :: "nat \<Rightarrow> (AIStoreClient \<Rightarrow> AIStoreClient) \<Rightarrow> unit svc" where
  "change_client p f = bind (deref_client p) (\<lambda>c. modify (\<lambda>s. s\<lparr>sv_objs := (sv_objs s)[p := f c]\<rparr>))"

definition isTokenExpired :: "nat \<Rightarrow> bool svc" where
  "isTokenExpired p = bind (deref_client p) (\<lambda>c. case cl_tokenExpireAt c of
     None \<Rightarrow> ret False
   | Some expiry \<Rightarrow> bind time_Now (\<lambda>t. ret (t + TokenExpiryBuffer > expiry)))"

definition with_token :: "TokenInfo option \<Rightarrow> AIStoreClient \<Rightarrow> AIStoreClient" where
  "with_token tokenInfo c = c\<lparr>
     cl_params := map_option (\<lambda>bp. bp\<lparr>bp_Token := (case tokenInfo of None \<Rightarrow> [] | Some t \<Rightarrow> Token t)\<rparr>) (cl_params c),
     cl_tokenExpireAt := (case tokenInfo of None \<Rightarrow> None | Some t \<Rightarrow> ExpiresAt t)\<rparr>"

definition refreshToken :: "nat \<Rightarrow> TokenInfo option \<Rightarrow> unit svc" where
  "refreshToken p tokenInfo = bind (deref_client p) (\<lambda>c. bind (deref (cl_params c)) (\<lambda>_.
     change_client p (with_token tokenInfo)))"

fun IsAuthError :: "api_error option \<Rightarrow> bool" where
  "IsAuthError None = False"
| "IsAuthError (Some (HTTPError status)) = (status = 401 \<or> status = 403)"
| "IsAuthError (Some (OtherAPIError _)) = False"

definition checkAuthErr :: "nat \<Rightarrow> api_error option \<Rightarrow> unit svc" where
  "checkAuthErr p err = (if IsAuthError err then change_client p (\<lambda>c. c\<lparr>cl_authFailed := True\<rparr>) else ret ())"

text \<open>One request to the AIStore API, its error examined; the result is handed on either way.\<close>

definition call_ais :: "nat \<Rightarrow> ais_call \<Rightarrow> (api_error + api_value) svc" where
  "call_ais p c = bind (deref_client p) (\<lambda>client. bind (deref (cl_params client)) (\<lambda>bp.
     bind (asks (\<lambda>E. E)) (\<lambda>E. bind (gets sv_hist) (\<lambda>h.
     let r = e_ais E h bp c in
     bind (modify (\<lambda>s. s\<lparr>sv_hist := CalledAIS bp c r # sv_hist s\<rparr>)) (\<lambda>_.
     bind (checkAuthErr p (case r of Inl e \<Rightarrow> Some e | Inr _ \<Rightarrow> None)) (\<lambda>_. ret r))))))"

definition api_DecommissionCluster :: "nat \<Rightarrow> bool \<Rightarrow> (api_error + api_value) svc" where
  "api_DecommissionCluster p rmUserData = call_ais p (CallDecommissionCluster rmUserData)"
definition api_DecommissionNode :: "nat \<Rightarrow> string \<Rightarrow> bool \<Rightarrow> (api_error + api_value) svc" where
  "api_DecommissionNode p node rmUserData = call_ais p (CallDecommissionNode node rmUserData)"
definition api_GetClusterMap :: "nat \<Rightarrow> (api_error + api_value) svc" where
  "api_GetClusterMap p = call_ais p CallGetClusterMap"
definition api_Health :: "nat \<Rightarrow> bool \<Rightarrow> (api_error + api_value) svc" where
  "api_Health p readyToRebalance = call_ais p (CallHealth readyToRebalance)"
definition api_SetClusterConfigUsingMsg :: "nat \<Rightarrow> ConfigToSet \<Rightarrow> bool \<Rightarrow> (api_error + api_value) svc" where
  "api_SetClusterConfigUsingMsg p config transient = call_ais p (CallSetClusterConfig config transient)"
definition api_SetPrimaryProxy :: "nat \<Rightarrow> string \<Rightarrow> string \<Rightarrow> bool \<Rightarrow> (api_error + api_value) svc" where
  "api_SetPrimaryProxy p newPrimaryID newPrimaryURL force =
     call_ais p (CallSetPrimaryProxy newPrimaryID newPrimaryURL force)"
definition api_ShutdownCluster :: "nat \<Rightarrow> (api_error + api_value) svc" where
  "api_ShutdownCluster p = call_ais p CallShutdownCluster"
definition api_StartMaintenance :: "nat \<Rightarrow> string \<Rightarrow> bool \<Rightarrow> (api_error + api_value) svc" where
  "api_StartMaintenance p node skipRebalance = call_ais p (CallStartMaintenance node skipRebalance)"

text \<open>The last of the checks: scheme and token agree with the CR.\<close>

definition params_fit :: "(string \<Rightarrow> bool) \<Rightarrow> AIStore \<Rightarrow> BaseParams \<Rightarrow> bool" where
  "params_fit isHTTPS ais bp =
     (let httpsCheck = (isHTTPS (bp_URL bp) = UseHTTPS ais);
          hasAuthConfig = (Auth (Spec ais) \<noteq> None \<or> AuthNSecretName (Spec ais) \<noteq> None);
          authNCheck = (bp_Token bp = [] \<and> \<not> hasAuthConfig \<or> bp_Token bp \<noteq> [] \<and> hasAuthConfig)
      in httpsCheck \<and> authNCheck)"

definition HasValidBaseParams :: "nat \<Rightarrow> AIStore \<Rightarrow> string \<Rightarrow> bool svc" where
  "HasValidBaseParams p ais expectedURL = bind (deref_client p) (\<lambda>c. case cl_params c of
     None \<Rightarrow> ret False
   | Some bp \<Rightarrow>
       if cl_authFailed c then ret False
       else if bp_URL bp \<noteq> expectedURL then ret False
       else if cl_mode c \<noteq> GetAPIMode ais then ret False
       else bind (if cl_mode c = APIModePublic
                  then bind (api_Health p False) (\<lambda>r. ret (\<not> isl r)) else ret True) (\<lambda>healthy.
         if \<not> healthy then ret False
         else bind (isTokenExpired p) (\<lambda>expired.
           if expired then ret False
           else bind (asks e_IsHTTPS) (\<lambda>isHTTPS. ret (params_fit isHTTPS ais bp)))))"

definition buildBaseParams :: "string \<Rightarrow> string \<Rightarrow> TLSConfig option \<Rightarrow> BaseParams" where
  "buildBaseParams url token tlsCfg =
     \<lparr>bp_URL = url, bp_Token = token, bp_UA = userAgent, bp_TLS = tlsCfg, bp_Timeout = ClientTimeout\<rparr>"

definition NewAIStoreClient :: "string \<Rightarrow> TokenInfo option \<Rightarrow> string \<Rightarrow> TLSConfig option \<Rightarrow> AIStoreClient" where
  "NewAIStoreClient url tokenInfo mode tlsCfg =
     (let token = (case tokenInfo of None \<Rightarrow> [] | Some t \<Rightarrow> Token t);
          tokenExpireAt = (case tokenInfo of None \<Rightarrow> None | Some t \<Rightarrow> ExpiresAt t)
      in \<lparr>cl_params = Some (buildBaseParams url token tlsCfg), cl_mode = mode, cl_tlsCfg = tlsCfg,
          cl_tokenExpireAt = tokenExpireAt, cl_authFailed = False\<rparr>)"

section \<open>The endpoint of a cluster\<close>

definition createAPIURL :: "bool \<Rightarrow> string \<Rightarrow> string \<Rightarrow> string" where
  "createAPIURL https hostname port =
     (if https then ''https'' else ''http'') @ ''://'' @ hostname @ '':'' @ port"

definition svc_ListReadyPods :: "string \<Rightarrow> string_map \<Rightarrow> (Pod \<times> string) list svc" where
  "svc_ListReadyPods ns labels = bind (svc_ListPods ns labels) (\<lambda>pods.
     ret (filter (\<lambda>(p, _). \<exists>c\<in>set (pod_Conditions p). pc_Type c = ''Ready'' \<and> pc_True c) pods))"

definition getPublicAISHostname :: "AIStore \<Rightarrow> string svc" where
  "getPublicAISHostname ais =
     bind (svc_ListReadyPods (Namespace ais) (proxy_SelectorLabels ais)) (\<lambda>pods. case pods of
       [] \<Rightarrow> throw (OtherErr ''no ready pods found matching selector'')
     | (_, hostIP) # _ \<Rightarrow> ret hostIP)"

fun ingress_host :: "(string \<times> string) list \<Rightarrow> string" where
  "ingress_host [] = []"
| "ingress_host ((ip, host) # ings) =
     (if ip \<noteq> [] then ip else if host \<noteq> [] then host else ingress_host ings)"

definition getAISAPIEndpoint :: "AIStore \<Rightarrow> string svc" where
  "getAISAPIEndpoint ais = bind (asks e_lib) (\<lambda>L.
     let proxySvc = d_ServiceSpec (ProxySpec (Spec ais)) in
     if GetAPIMode ais = APIModePublic
     then bind (getPublicAISHostname ais) (\<lambda>hostname.
            ret (createAPIURL (UseHTTPS ais) hostname (PortString L (PublicPort proxySvc))))
     else if ProxyExternalAccessEnabled ais
     then bind (svc_GetService (proxy_LoadBalancerSVCNSName ais)) (\<lambda>svc.
            let hostname = ingress_host (svc_Ingress svc) in
            if hostname = [] then throw (OtherErr ''proxy load balancer svc has no ingress IP or hostname'')
            else ret (createAPIURL (UseHTTPS ais) hostname (PortString L (ServicePort proxySvc))))
     else ret (createAPIURL (UseHTTPS ais) (nn_Name (proxy_HeadlessSVCNSName ais) @ ''.'' @ Namespace ais)
                 (PortString L (ServicePort proxySvc))))"

section \<open>The manager\<close>

text \<open>\<open>NamespacedName.String\<close>, the key of the map.\<close>

definition client_key :: "AIStore \<Rightarrow> string" where
  "client_key ais = Namespace ais @ ''/'' @ Name ais"

definition refresh_if_expired :: "AIStore \<Rightarrow> nat \<Rightarrow> unit svc" where
  "refresh_if_expired ais p = bind (isTokenExpired p) (\<lambda>expired.
     if expired then bind (getAdminToken ais) (\<lambda>tokenInfo. refreshToken p tokenInfo) else ret ())"

definition add_client :: "string \<Rightarrow> AIStoreClient \<Rightarrow> nat svc" where
  "add_client key c = bind (gets (\<lambda>s. length (sv_objs s))) (\<lambda>p.
     bind (modify (\<lambda>s. s\<lparr>sv_objs := sv_objs s @ [c], sv_clients := fmupd key p (sv_clients s)\<rparr>)) (\<lambda>_. ret p))"

definition create_client :: "AIStore \<Rightarrow> string \<Rightarrow> nat svc" where
  "create_client ais url = bind (getAdminToken ais) (\<lambda>tokenInfo.
     bind (getTLSConfig ais) (\<lambda>tlsConf.
     add_client (client_key ais) (NewAIStoreClient url tokenInfo (GetAPIMode ais) tlsConf)))"

definition GetClient :: "AIStore \<Rightarrow> nat svc" where
  "GetClient ais = bind (gets (\<lambda>s. fmlookup (sv_clients s) (client_key ais))) (\<lambda>client.
     bind (case client of None \<Rightarrow> ret () | Some p \<Rightarrow> refresh_if_expired ais p) (\<lambda>_.
     bind (getAISAPIEndpoint ais) (\<lambda>url.
     bind (case client of None \<Rightarrow> ret False | Some p \<Rightarrow> HasValidBaseParams p ais url) (\<lambda>valid.
     case client of
       Some p \<Rightarrow> if valid then ret p else create_client ais url
     | None \<Rightarrow> create_client ais url))))"

section \<open>The store\<close>

text \<open>
  What holds of every store the manager builds: its map holds pointers to existing clients, no
  client is shared by two clusters, and every client has parameters.
\<close>

definition store_ok :: "svc_st \<Rightarrow> bool" where
  "store_ok s \<longleftrightarrow> (\<forall>k p. fmlookup (sv_clients s) k = Some p \<longrightarrow> p < length (sv_objs s)) \<and>
     (\<forall>k k' p. fmlookup (sv_clients s) k = Some p \<longrightarrow> fmlookup (sv_clients s) k' = Some p \<longrightarrow> k = k') \<and>
     (\<forall>c\<in>set (sv_objs s). cl_params c \<noteq> None)"

text \<open>The abstract cache: a client per cluster.\<close>

definition view :: "svc_st \<Rightarrow> string \<Rightarrow> AIStoreClient option" where
  "view s k = map_option (\<lambda>p. sv_objs s ! p) (fmlookup (sv_clients s) k)"

definition set_obj :: "nat \<Rightarrow> AIStoreClient \<Rightarrow> svc_st \<Rightarrow> svc_st" where
  "set_obj p c s = s\<lparr>sv_objs := (sv_objs s)[p := c]\<rparr>"

lemma store_ok_kept: "store_ok s \<Longrightarrow> clients_kept s s' \<Longrightarrow> store_ok s'"
  by (simp add: store_ok_def clients_kept_def)

lemma view_kept: "clients_kept s s' \<Longrightarrow> view s' = view s"
  by (rule ext) (simp add: view_def clients_kept_def)

lemma store_ok_D:
  assumes "store_ok s" and "fmlookup (sv_clients s) k = Some p"
  shows "p < length (sv_objs s)" and "\<exists>bp. cl_params (sv_objs s ! p) = Some bp" and "view s k = Some (sv_objs s ! p)"
  using assms nth_mem [of p "sv_objs s"] by (auto simp: store_ok_def view_def)

lemma store_ok_set_obj: "store_ok s \<Longrightarrow> cl_params c \<noteq> None \<Longrightarrow> store_ok (set_obj p c s)"
  by (auto simp: store_ok_def set_obj_def dest!: set_update_subset_insert [THEN subsetD])

lemma view_set_obj:
  assumes "store_ok s" and "fmlookup (sv_clients s) k = Some p"
  shows "view (set_obj p c s) = (view s)(k := Some c)"
proof
  fix k'
  show "view (set_obj p c s) k' = ((view s)(k := Some c)) k'"
    using assms unfolding store_ok_def view_def set_obj_def
    by (cases "fmlookup (sv_clients s) k'") (auto simp: nth_list_update)
qed

lemma run_add_client:
  "add_client key c E s = (Ret (length (sv_objs s)),
     s\<lparr>sv_objs := sv_objs s @ [c], sv_clients := fmupd key (length (sv_objs s)) (sv_clients s)\<rparr>)"
  by (simp add: add_client_def run_simps)

lemma store_ok_add:
  assumes "store_ok s" and "cl_params c \<noteq> None"
  shows "store_ok (s\<lparr>sv_objs := sv_objs s @ [c], sv_clients := fmupd key (length (sv_objs s)) (sv_clients s)\<rparr>)"
  using assms unfolding store_ok_def by (auto simp: less_Suc_eq split: if_splits dest: less_imp_neq)

lemma view_add:
  assumes "store_ok s"
  shows "view (s\<lparr>sv_objs := sv_objs s @ [c], sv_clients := fmupd key (length (sv_objs s)) (sv_clients s)\<rparr>)
     = (view s)(key := Some c)"
proof
  fix k
  show "view (s\<lparr>sv_objs := sv_objs s @ [c], sv_clients := fmupd key (length (sv_objs s)) (sv_clients s)\<rparr>) k
     = ((view s)(key := Some c)) k"
    using assms unfolding store_ok_def view_def
    by (cases "fmlookup (sv_clients s) k") (auto simp: nth_append)
qed

end
