(* ===== verification/Client_Cache.thy ===== *)
theory Client_Cache
  imports Client_Manager
begin

text \<open>
  What the client manager promises, as a cache: one entry per cluster, and a lookup that keeps the
  entry, renews its token, replaces it or fails. The manager of \<open>Client_Manager\<close> with its pointers
  and mutable clients refines it.
\<close>

section \<open>The specification\<close>

type_synonym client_cache = "string \<Rightarrow> AIStoreClient option"

text \<open>An entry that serves the CR at this URL.\<close>

definition entry_fits :: "svc_env \<Rightarrow> AIStore \<Rightarrow> string \<Rightarrow> AIStoreClient \<Rightarrow> bool" where
  "entry_fits E ais url c \<longleftrightarrow> \<not> cl_authFailed c \<and> cl_mode c = GetAPIMode ais \<and>
     (\<exists>bp. cl_params c = Some bp \<and> bp_URL bp = url \<and> params_fit (e_IsHTTPS E) ais bp)"

text \<open>
  What may happen to an entry in place: its token is renewed, unless it never expires, and a
  request may be rejected; its URL, mode and TLS configuration never change.
\<close>

definition touched :: "AIStoreClient \<Rightarrow> AIStoreClient \<Rightarrow> bool" where
  "touched c c' \<longleftrightarrow> cl_mode c' = cl_mode c \<and> cl_tlsCfg c' = cl_tlsCfg c \<and>
     (cl_authFailed c \<longrightarrow> cl_authFailed c') \<and>
     map_option (\<lambda>bp. bp\<lparr>bp_Token := []\<rparr>) (cl_params c') = map_option (\<lambda>bp. bp\<lparr>bp_Token := []\<rparr>) (cl_params c) \<and>
     (cl_tokenExpireAt c = None \<longrightarrow> cl_tokenExpireAt c' = None \<and> cl_params c' = cl_params c)"

inductive cache_lookup ::
  "svc_env \<Rightarrow> AIStore \<Rightarrow> client_cache \<Rightarrow> AIStoreClient option \<Rightarrow> client_cache \<Rightarrow> bool" for E ais where
  Keep: "m (client_key ais) = Some c \<Longrightarrow> touched c c' \<Longrightarrow> entry_fits E ais url c' \<Longrightarrow>
    cache_lookup E ais m (Some c') (m(client_key ais := Some c'))"
| Replace: "c' = NewAIStoreClient url token (GetAPIMode ais) tls \<Longrightarrow> (tls = None) = (\<not> UseHTTPS ais) \<Longrightarrow>
    (Auth (Spec ais) = None \<Longrightarrow> token = None) \<Longrightarrow>
    cache_lookup E ais m (Some c') (m(client_key ais := Some c'))"
| Fail: "m (client_key ais) = Some c \<Longrightarrow> touched c c' \<Longrightarrow>
    cache_lookup E ais m None (m(client_key ais := Some c'))"
| Miss: "cache_lookup E ais m None m"

text \<open>A request to the API leaves the entry alone or marks it as rejected.\<close>

inductive cache_call :: "string \<Rightarrow> client_cache \<Rightarrow> client_cache \<Rightarrow> bool" for k where
  Accepted: "cache_call k m m"
| Rejected: "m k = Some c \<Longrightarrow> cache_call k m (m(k := Some (c\<lparr>cl_authFailed := True\<rparr>)))"

inductive_cases cache_lookupE: "cache_lookup E ais m r m'"

section \<open>The store under operations on one client\<close>

definition touch :: "nat \<Rightarrow> svc_st \<Rightarrow> svc_st \<Rightarrow> bool" where
  "touch p s s' \<longleftrightarrow> sv_clients s' = sv_clients s \<and> length (sv_objs s') = length (sv_objs s) \<and>
     (\<forall>q. q \<noteq> p \<longrightarrow> sv_objs s' ! q = sv_objs s ! q) \<and> touched (sv_objs s ! p) (sv_objs s' ! p)"

lemma touched_refl [simp]: "touched c c"
  by (simp add: touched_def)

lemma touched_trans: "touched a b \<Longrightarrow> touched b c \<Longrightarrow> touched a c"
  by (auto simp: touched_def)

interpretation touch: step_rel "touch p"
  by unfold_locales (auto simp: touch_def intro: touched_trans)

lemma kept_touch: "clients_kept s s' \<Longrightarrow> touch p s s'"
  by (simp add: clients_kept_def touch_def)

lemma touch_kept: "steps E clients_kept m \<Longrightarrow> steps E (touch p) m"
  by (erule steps_weaken) (rule kept_touch)

lemma touch_change:
  assumes "\<And>c. touched c (f c)"
  shows "steps E (touch p) (change_client p f)"
  using assms by (auto simp: steps_def change_client_def deref_client_def run_simps touch_def nth_list_update)

lemma touched_params: "touched c c' \<Longrightarrow> (cl_params c' = None) = (cl_params c = None)"
  by (auto simp: touched_def)

lemma store_ok_touch:
  assumes "store_ok s" and "touch p s s'"
  shows "store_ok s'"
proof -
  have "cl_params (sv_objs s' ! q) \<noteq> None" if "q < length (sv_objs s')" for q
    using assms that touched_params [of "sv_objs s ! q" "sv_objs s' ! q"] nth_mem [of q "sv_objs s"]
    by (cases "q = p") (auto simp: store_ok_def touch_def)
  then show ?thesis using assms by (auto simp: store_ok_def touch_def in_set_conv_nth)
qed

lemma view_touch:
  assumes "store_ok s" and "fmlookup (sv_clients s) k = Some p" and "touch p s s'"
  shows "view s' = (view s)(k := Some (sv_objs s' ! p))"
proof
  fix k'
  show "view s' k' = ((view s)(k := Some (sv_objs s' ! p))) k'"
    using assms unfolding view_def touch_def store_ok_def
    by (cases "fmlookup (sv_clients s) k'") (auto, metis)
qed

lemma view_change: "view s k = Some c \<Longrightarrow> m = (view s)(k := Some c') \<Longrightarrow> m(k := Some c'') = (view s)(k := Some c'')"
  by simp

section \<open>The operations\<close>

lemma kept_expired: "steps E clients_kept (isTokenExpired p)"
  unfolding isTokenExpired_def deref_client_def by (intro kept_steps)

lemma kept_endpoint: "steps E clients_kept (getAISAPIEndpoint ais)"
  unfolding getAISAPIEndpoint_def getPublicAISHostname_def svc_ListReadyPods_def svc_reads Let_def
  by (intro kept_steps)
     (auto split: list.split intro!: kept_steps)

lemma kept_resolve: "steps E clients_kept (ResolveAuthConfig ais)"
  unfolding ResolveAuthConfig_def svc_reads by (intro kept_steps)

lemma resolved:
  assumes "ResolveAuthConfig ais E s = (Ret conf, s')"
  shows "(\<exists>spec k. Auth (Spec ais) = Some spec \<and> ProfileRef spec = None \<and>
            conf = AuthSpecConfig (spec, Namespace ais) k \<and> k = length (sv_caches s) \<and>
            k < length (sv_caches s') \<and> cache_config (sv_caches s' ! k) = None) \<or>
         (\<exists>spec name p k. Auth (Spec ais) = Some spec \<and> ProfileRef spec = Some name \<and>
            AskedProfile name (Inr p) \<in> set (sv_hist s') \<and>
            conf = AuthProfileConfig p k \<and> k = length (sv_caches s) \<and>
            k < length (sv_caches s') \<and> cache_config (sv_caches s' ! k) = None)"
  using assms
  by (auto simp: ResolveAuthConfig_def new_cache_def GetAuthProfile_def run_simps
      split: option.splits if_splits sum.splits)

lemma resolved_tls:
  assumes "ResolveAuthConfig ais E s = (Ret conf, s')"
  shows "steps E clients_kept (GetTLSConfig conf)" "steps E (adds_only is_trust_read) (GetTLSConfig conf)"
  using resolved [OF assms] spec_provider.tls_kept profile_provider.tls_kept
    spec_provider.tls_reads profile_provider.tls_reads by blast+

lemma kept_params: "steps E clients_kept (GetTLSConfig conf) \<Longrightarrow> steps E clients_kept (newAuthBaseParams conf)"
  unfolding newAuthBaseParams_def Let_def by (intro kept_steps)

lemma kept_getAdminToken: "steps E clients_kept (getAdminToken ais)"
  unfolding getAdminToken_def
  by (intro steps_if clients_kept.steps_bind_ctx [OF kept_resolve] clients_kept.steps_base
      clients_kept.steps_or_wrap kept_login kept_params resolved_tls)

lemma touch_refresh: "steps E (touch p) (refresh_if_expired ais p)"
proof (rule stepsI)
  fix s
  let ?s' = "snd (refresh_if_expired ais p E s)"
  obtain r1 s1 where 1: "isTokenExpired p E s = (r1, s1)" by (cases "isTokenExpired p E s")
  have k1: "clients_kept s s1" using stepsD [OF kept_expired 1] .
  have e: "r1 = Ret True \<Longrightarrow> p < length (sv_objs s) \<and> cl_tokenExpireAt (sv_objs s ! p) \<noteq> None"
    using 1 by (auto simp: isTokenExpired_def deref_client_def run_simps split: if_splits option.splits)
  obtain r2 s2 where 2: "getAdminToken ais E s1 = (r2, s2)" by (cases "getAdminToken ais E s1")
  have k2: "clients_kept s1 s2" using stepsD [OF kept_getAdminToken 2] .
  have k: "clients_kept s s2" using k1 k2 by (rule clients_kept.trans)
  have kt: "clients_kept s t \<Longrightarrow> touch p s t" for t by (simp add: clients_kept_def touch_def)
  show "touch p s ?s'"
  proof (cases "r1 = Ret True")
    case False
    then show ?thesis using 1 k1 kt
      by (auto simp: refresh_if_expired_def run_simps split: outcome.splits prod.splits)
  next
    case True
    from e [OF True] have p: "p < length (sv_objs s2)" "cl_tokenExpireAt (sv_objs s2 ! p) \<noteq> None"
      and same: "sv_objs s2 = sv_objs s" "sv_clients s2 = sv_clients s"
      using k by (auto simp: clients_kept_def)
    show ?thesis
    proof (cases r2)
      case (Ret ti)
      then show ?thesis using 1 2 True p same
        by (auto simp: refresh_if_expired_def refreshToken_def change_client_def deref_client_def run_simps
            touch_def nth_list_update touched_def with_token_def option.map_comp o_def split: option.split)
    qed (use 1 2 True kt [OF k] in \<open>auto simp: refresh_if_expired_def run_simps\<close>)
  qed
qed

lemma touch_checkAuthErr: "steps E (touch p) (checkAuthErr p e)"
  unfolding checkAuthErr_def
  by (intro steps_if touch_change touch.steps_base) (simp add: touched_def)

lemma touch_call_ais: "steps E (touch p) (call_ais p c)"
  unfolding call_ais_def deref_client_def
  by (intro touch.steps_base steps_intros touch_checkAuthErr)
     (simp add: steps_def run_simps touch_def)

lemma touch_HasValidBaseParams: "steps E (touch p) (HasValidBaseParams p ais url)"
  unfolding HasValidBaseParams_def api_Health_def
  by (intro touch.steps_base steps_intros touch_call_ais touch_kept [OF kept_expired])
     (simp add: deref_client_def touch.steps_base steps_intros)

text \<open>A call that succeeds changes no client.\<close>

lemma call_ais_ok:
  "call_ais p c E s = (Ret (Inr v), s') \<Longrightarrow> clients_kept s s'"
  by (auto simp: call_ais_def deref_client_def checkAuthErr_def run_simps clients_kept_def Let_def
      split: if_splits option.splits sum.splits outcome.splits prod.splits)

lemma grows_call_ais: "steps E (adds_only (\<lambda>_. True)) (call_ais p c)"
  unfolding call_ais_def deref_client_def checkAuthErr_def change_client_def Let_def
  by (intro adds_only.steps_base steps_intros) (simp_all add: steps_def run_simps adds_only_def)

lemma valid_parts:
  assumes "HasValidBaseParams p ais url E s = (Ret True, s')"
  shows "p < length (sv_objs s) \<and> entry_fits E ais url (sv_objs s ! p) \<and>
     (\<exists>s1 n. clients_kept s s1 \<and> sv_hist s1 = n @ sv_hist s \<and> isTokenExpired p E s1 = (Ret False, s'))"
proof -
  from assms obtain bp where p: "p < length (sv_objs s)" "cl_params (sv_objs s ! p) = Some bp"
    "\<not> cl_authFailed (sv_objs s ! p)" "bp_URL bp = url" "cl_mode (sv_objs s ! p) = GetAPIMode ais"
    by (auto simp: HasValidBaseParams_def deref_client_def run_simps split: if_splits option.splits)
  with assms have "(bind (if cl_mode (sv_objs s ! p) = APIModePublic
        then bind (api_Health p False) (\<lambda>r. ret (\<not> isl r)) else ret True) (\<lambda>healthy.
         if \<not> healthy then ret False
         else bind (isTokenExpired p) (\<lambda>expired.
           if expired then ret False
           else bind (asks e_IsHTTPS) (\<lambda>isHTTPS. ret (params_fit isHTTPS ais bp))))) E s = (Ret True, s')"
    by (simp add: HasValidBaseParams_def deref_client_def run_simps)
  then obtain healthy s1 where h: "(if cl_mode (sv_objs s ! p) = APIModePublic
        then bind (api_Health p False) (\<lambda>r. ret (\<not> isl r)) else ret True) E s = (Ret healthy, s1)"
    and rest: "(if \<not> healthy then ret False
         else bind (isTokenExpired p) (\<lambda>expired.
           if expired then ret False
           else bind (asks e_IsHTTPS) (\<lambda>isHTTPS. ret (params_fit isHTTPS ais bp)))) E s1 = (Ret True, s')"
    by (rule bind_RetE)
  have healthy using rest by (cases healthy) (simp_all add: run_ret)
  have "steps E (adds_only (\<lambda>_. True)) (if cl_mode (sv_objs s ! p) = APIModePublic
        then bind (api_Health p False) (\<lambda>r. ret (\<not> isl r)) else ret True)"
    unfolding api_Health_def by (intro adds_only.steps_base steps_intros grows_call_ais)
  from stepsD [OF this h] obtain n where n: "sv_hist s1 = n @ sv_hist s" by (auto simp: adds_only_def)
  have k1: "clients_kept s s1"
    using h \<open>healthy\<close> call_ais_ok by (auto simp: run_simps api_Health_def clients_kept.refl split: if_splits
        outcome.splits prod.splits sum.splits)
      (metis clients_kept.refl isl_def sum.collapse(2))+
  from rest \<open>healthy\<close> have 2: "isTokenExpired p E s1 = (Ret False, s')"
    and fit: "params_fit (e_IsHTTPS E) ais bp"
    by (auto simp: run_simps split: prod.splits outcome.splits if_splits)
  with p k1 n show ?thesis by (auto simp: entry_fits_def)
qed

lemma valid_fits:
  assumes "HasValidBaseParams p ais url E s = (Ret True, s')"
  shows "clients_kept s s' \<and> p < length (sv_objs s) \<and> entry_fits E ais url (sv_objs s ! p)"
proof -
  from valid_parts [OF assms] obtain s1 where k: "clients_kept s s1" and e: "isTokenExpired p E s1 = (Ret False, s')"
    and rest: "p < length (sv_objs s)" "entry_fits E ais url (sv_objs s ! p)" by (elim conjE exE)
  from clients_kept.trans [OF k stepsD [OF kept_expired e]] rest show ?thesis by simp
qed

lemma getTLSConfig_present: "getTLSConfig ais E s = (Ret tls, s') \<Longrightarrow> (tls = None) = (\<not> UseHTTPS ais)"
  by (auto simp: getTLSConfig_def run_simps split: if_splits prod.splits outcome.splits)

lemma kept_getTLSConfig: "steps E clients_kept (getTLSConfig ais)"
  by (rule trust_kept.steps_getTLSConfig)

lemma no_auth_no_token: "getAdminToken ais E s = (Ret ti, s') \<Longrightarrow> Auth (Spec ais) = None \<Longrightarrow> ti = None"
  by (simp add: getAdminToken_def run_simps)

text \<open>Creating a client: it fails without a trace in the store, or adds the new entry.\<close>

lemma create_client_cases:
  assumes "create_client ais url E s = (r, s')"
  obtains (ok) ti tls s1 where "r = Ret (length (sv_objs s1))" "clients_kept s s1"
      "s' = s1\<lparr>sv_objs := sv_objs s1 @ [NewAIStoreClient url ti (GetAPIMode ais) tls],
               sv_clients := fmupd (client_key ais) (length (sv_objs s1)) (sv_clients s1)\<rparr>"
      "(tls = None) = (\<not> UseHTTPS ais)" "Auth (Spec ais) = None \<Longrightarrow> ti = None"
  | (no) "clients_kept s s'" "\<And>p. r \<noteq> Ret p"
proof -
  obtain r1 s1 where 1: "getAdminToken ais E s = (r1, s1)" by (cases "getAdminToken ais E s")
  obtain r2 s2 where 2: "getTLSConfig ais E s1 = (r2, s2)" by (cases "getTLSConfig ais E s1")
  have k: "clients_kept s s1" "clients_kept s s2"
    using stepsD [OF kept_getAdminToken 1] stepsD [OF kept_getTLSConfig 2] clients_kept.trans by blast+
  show ?thesis
  proof (cases "\<exists>ti tls. r1 = Ret ti \<and> r2 = Ret tls")
    case True
    then obtain ti tls where "r1 = Ret ti" "r2 = Ret tls" by blast
    with assms 1 2 k show ?thesis
      by (intro ok [of s2 ti tls])
         (auto simp: create_client_def run_simps run_add_client getTLSConfig_present no_auth_no_token)
  next
    case False
    with assms 1 2 k show ?thesis
      by (intro no) (auto simp: create_client_def run_simps split: outcome.splits)
  qed
qed

end
