(* ===== verification/Client_Properties.thy ===== *)
theory Client_Properties
  imports Client_Cache
begin

text \<open>What the clients of the AIStore API and the tokens they carry are worth.\<close>

section \<open>The manager as a cache\<close>

datatype manager_op = Lookup AIStore | Request nat ais_call

text \<open>The entry the specification allows for an operation, and the run of the model.\<close>

fun run_op :: "svc_env \<Rightarrow> manager_op \<Rightarrow> svc_st \<Rightarrow> nat option \<times> svc_st" where
  "run_op E (Lookup ais) s = (case GetClient ais E s of (Ret p, s') \<Rightarrow> (Some p, s') | (_, s') \<Rightarrow> (None, s'))"
| "run_op E (Request p c) s = (None, snd (call_ais p c E s))"

fun spec_step :: "svc_env \<Rightarrow> svc_st \<Rightarrow> manager_op \<Rightarrow> client_cache \<Rightarrow> AIStoreClient option \<Rightarrow> client_cache \<Rightarrow> bool" where
  "spec_step E s (Lookup ais) m res m' = cache_lookup E ais m res m'"
| "spec_step E s (Request p c) m res m' =
     (m' = m \<or> (\<exists>k. fmlookup (sv_clients s) k = Some p \<and> cache_call k m m'))"

lemma added_refines:
  fixes url ti ais tls s
  defines "c \<equiv> NewAIStoreClient url ti (GetAPIMode ais) tls" and "p \<equiv> length (sv_objs s)"
  assumes "store_ok s" and m: "\<And>x. (view s)(client_key ais := x) = m(client_key ais := x)"
    and "(tls = None) = (\<not> UseHTTPS ais)" and "Auth (Spec ais) = None \<Longrightarrow> ti = None"
    and s': "s' = s\<lparr>sv_objs := sv_objs s @ [c], sv_clients := fmupd (client_key ais) p (sv_clients s)\<rparr>"
  shows "store_ok s' \<and> cache_lookup E ais m (Some (sv_objs s' ! p)) (view s') \<and>
     fmlookup (sv_clients s') (client_key ais) = Some p"
proof -
  have "view s' = m(client_key ais := Some c)" "sv_objs s' ! p = c"
    unfolding s' p_def by (simp_all only: view_add [OF assms(3)] m, simp)
  then show ?thesis
    using Replace [where m = m, OF refl assms(5,6)] store_ok_add [OF assms(3), of c "client_key ais"]
    unfolding s' p_def by (simp add: c_def NewAIStoreClient_def Let_def)
qed

text \<open>A lookup that finds no client, and the ways of one that finds a client.\<close>

lemma GetClient_miss:
  assumes ok: "store_ok s" and run: "GetClient ais E s = (r, s')" and None: "fmlookup (sv_clients s) (client_key ais) = None"
  shows "store_ok s' \<and> cache_lookup E ais (view s) (case r of Ret p \<Rightarrow> Some (sv_objs s' ! p) | _ \<Rightarrow> None) (view s')
     \<and> (\<forall>p. r = Ret p \<longrightarrow> fmlookup (sv_clients s') (client_key ais) = Some p)"
proof -
  obtain r1 s1 where 1: "getAISAPIEndpoint ais E s = (r1, s1)" by (cases "getAISAPIEndpoint ais E s")
  have k1: "clients_kept s s1" using stepsD [OF kept_endpoint 1] .
  note ok1 = store_ok_kept [OF ok k1]
  show ?thesis
  proof (cases r1)
    case (Ret url)
    with run None 1 have "create_client ais url E s1 = (r, s')"
      by (simp add: GetClient_def run_simps)
    then show ?thesis
    proof (cases rule: create_client_cases)
      case (ok ti tls s2)
      note ok2 = store_ok_kept [OF ok1 ok(2)]
      have "(view s2)(client_key ais := x) = (view s)(client_key ais := x)" for x
        using view_kept [OF k1] view_kept [OF ok(2)] by simp
      from added_refines [OF ok2 this ok(4,5,3)] ok(1) show ?thesis by simp
    next
      case no
      then show ?thesis
        using store_ok_kept [OF ok1 no(1)] view_kept [OF k1] view_kept [OF no(1)]
        by (cases r) (auto intro: Miss)
    qed
  qed (use run None 1 k1 ok1 view_kept [OF k1] in \<open>auto simp: GetClient_def run_simps intro: Miss\<close>)
qed

lemma GetClient_hit_cases:
  assumes run: "GetClient ais E s = (r, s')" and Some: "fmlookup (sv_clients s) (client_key ais) = Some p"
  obtains (failed) "touch p s s'" "\<nexists>q. r = Ret q"
    | (kept) url where "r = Ret p" "touch p s s'" "entry_fits E ais url (sv_objs s' ! p)"
    | (replaced) url t where "touch p s t" "create_client ais url E t = (r, s')"
proof -
  obtain r0 s0 where 0: "refresh_if_expired ais p E s = (r0, s0)" by (cases "refresh_if_expired ais p E s")
  have t0: "touch p s s0" using stepsD [OF touch_refresh 0] .
  show ?thesis
  proof (cases r0)
    case (Ret x)
    obtain r1 s1 where 1: "getAISAPIEndpoint ais E s0 = (r1, s1)" by (cases "getAISAPIEndpoint ais E s0")
    have t1: "touch p s s1" using touch.trans [OF t0 stepsD [OF touch_kept [OF kept_endpoint] 1]] .
    show ?thesis
    proof (cases r1)
      case r1: (Ret url)
      obtain r2 s2 where 2: "HasValidBaseParams p ais url E s1 = (r2, s2)"
        by (cases "HasValidBaseParams p ais url E s1")
      have t2: "touch p s s2" using touch.trans [OF t1 stepsD [OF touch_HasValidBaseParams 2]] .
      consider "r2 = Ret True" | "r2 = Ret False" | "\<nexists>v. r2 = Ret v" by (cases r2) auto
      then show ?thesis
      proof cases
        case v: 1
        from valid_fits [OF 2 [unfolded v]] have "entry_fits E ais url (sv_objs s2 ! p)"
          by (auto simp: clients_kept_def)
        then show ?thesis using kept t2 run Some 0 Ret 1 r1 2 v by (auto simp: GetClient_def run_simps)
      next
        case v: 2
        then show ?thesis using replaced t2 run Some 0 Ret 1 r1 2 by (auto simp: GetClient_def run_simps)
      next
        case v: 3
        then show ?thesis using failed t2 run Some 0 Ret 1 r1 2
          by (cases r2) (auto simp: GetClient_def run_simps)
      qed
    qed (use run Some 0 Ret 1 failed t1 in \<open>auto simp: GetClient_def run_simps\<close>)
  qed (use run Some 0 failed t0 in \<open>auto simp: GetClient_def run_simps\<close>)
qed

lemma GetClient_refines:
  assumes ok: "store_ok s" and run: "GetClient ais E s = (r, s')"
  shows "store_ok s' \<and> cache_lookup E ais (view s) (case r of Ret p \<Rightarrow> Some (sv_objs s' ! p) | _ \<Rightarrow> None) (view s')
     \<and> (\<forall>p. r = Ret p \<longrightarrow> fmlookup (sv_clients s') (client_key ais) = Some p)"
proof (cases "fmlookup (sv_clients s) (client_key ais)")
  case None
  with ok run show ?thesis by (rule GetClient_miss)
next
  case (Some p)
  let ?m = "view s"
  note c = store_ok_D [OF ok Some]
  have fail: "store_ok t \<and> cache_lookup E ais ?m None (view t)" if "touch p s t" for t
    using store_ok_touch [OF ok that] view_touch [OF ok Some that] Fail [where m = ?m and c = "sv_objs s ! p" and c' = "sv_objs t ! p" and E = E and ais = ais] c(3) that
    by (auto simp: touch_def)
  from run Some show ?thesis
  proof (cases rule: GetClient_hit_cases)
    case failed
    with fail show ?thesis by (cases r) auto
  next
    case (kept url)
    have "touched (sv_objs s ! p) (sv_objs s' ! p)" using kept(2) by (simp add: touch_def)
    from Keep [where m = ?m, OF c(3) this kept(3)] show ?thesis
      using store_ok_touch [OF ok kept(2)] view_touch [OF ok Some kept(2)] kept(1,2) Some by (simp add: touch_def)
  next
    case (replaced url t)
    from replaced(2) show ?thesis
    proof (cases rule: create_client_cases)
      case ok': (ok ti tls s3)
      note ok3 = store_ok_kept [OF store_ok_touch [OF ok replaced(1)] ok'(2)]
      have "view s3 = ?m(client_key ais := Some (sv_objs t ! p))"
        using view_kept [OF ok'(2)] view_touch [OF ok Some replaced(1)] by simp
      then have "(view s3)(client_key ais := x) = ?m(client_key ais := x)" for x by simp
      from added_refines [OF ok3 this ok'(4,5,3)] ok'(1) show ?thesis by simp
    next
      case no
      from fail [OF touch.trans [OF replaced(1) kept_touch [OF no(1)]]] no(2) show ?thesis by (cases r) auto
    qed
  qed
qed

text \<open>A client once rejected stays so: lookups never reset the mark.\<close>

definition failed_stays :: "nat \<Rightarrow> svc_st \<Rightarrow> svc_st \<Rightarrow> bool" where
  "failed_stays p s s' \<longleftrightarrow> (p < length (sv_objs s) \<and> cl_authFailed (sv_objs s ! p) \<longrightarrow>
     p < length (sv_objs s') \<and> cl_authFailed (sv_objs s' ! p))"

interpretation failed_stays: step_rel "failed_stays p"
  by unfold_locales (auto simp: failed_stays_def)

lemma failed_touch: "steps E (touch q) m \<Longrightarrow> steps E (failed_stays p) m"
proof (erule steps_weaken)
  fix s s' assume "touch q s s'"
  then show "failed_stays p s s'"
    by (cases "p = q") (auto simp: touch_def failed_stays_def touched_def)
qed

lemma failed_kept: "steps E clients_kept m \<Longrightarrow> steps E (failed_stays p) m"
  by (erule steps_weaken) (simp add: clients_kept_def failed_stays_def)

lemma GetClient_keeps_failed:
  assumes "GetClient ais E s = (r, s')" and "p < length (sv_objs s)" and "cl_authFailed (sv_objs s ! p)"
  shows "cl_authFailed (sv_objs s' ! p)"
proof -
  have "steps E (failed_stays p) (create_client ais url)" for url
    unfolding create_client_def
    by (intro failed_stays.steps_bind failed_kept [OF kept_getAdminToken] failed_kept [OF kept_getTLSConfig])
       (simp add: steps_def run_add_client failed_stays_def nth_append)
  then have "steps E (failed_stays p) (GetClient ais)"
    unfolding GetClient_def
    by (intro failed_stays.steps_base steps_intros failed_touch [OF touch_refresh]
        failed_kept [OF kept_endpoint] failed_touch [OF touch_HasValidBaseParams])
  from stepsD [OF this assms(1)] assms(2,3) show ?thesis by (simp add: failed_stays_def)
qed

lemma call_ais_result:
  assumes "call_ais p c E s = (r, s')"
  shows "clients_kept s s' \<or> (p < length (sv_objs s) \<and>
     clients_kept (set_obj p ((sv_objs s ! p)\<lparr>cl_authFailed := True\<rparr>) s) s')"
  using assms
  by (auto simp: call_ais_def deref_client_def change_client_def checkAuthErr_def run_simps Let_def
      clients_kept_def set_obj_def split: if_splits option.splits)

lemma call_ais_refines:
  assumes ok: "store_ok s" and run: "call_ais p c E s = (r, s')"
  shows "store_ok s' \<and> (view s' = view s \<or>
     (\<exists>k. fmlookup (sv_clients s) k = Some p \<and> cache_call k (view s) (view s')))"
proof -
  let ?f = "(sv_objs s ! p)\<lparr>cl_authFailed := True\<rparr>"
  from call_ais_result [OF run] show ?thesis
  proof
    assume "clients_kept s s'"
    then show ?thesis using store_ok_kept [OF ok] view_kept by blast
  next
    assume "p < length (sv_objs s) \<and> clients_kept (set_obj p ?f s) s'"
    then have p: "p < length (sv_objs s)" and k: "clients_kept (set_obj p ?f s) s'" by auto
    from p ok have "cl_params ?f \<noteq> None" by (simp add: store_ok_def)
    with ok have "store_ok (set_obj p ?f s)" by (rule store_ok_set_obj)
    then have ok': "store_ok s'" using k by (rule store_ok_kept)
    have v: "view s' = view (set_obj p ?f s)" using k by (rule view_kept)
    show ?thesis
    proof (cases "\<exists>key. fmlookup (sv_clients s) key = Some p")
      case True
      then obtain key where key: "fmlookup (sv_clients s) key = Some p" by blast
      have "view s' = (view s)(key := Some ?f)" using v view_set_obj [OF ok key] by simp
      with Rejected [where m = "view s", OF store_ok_D(3) [OF ok key]] key ok' show ?thesis by auto
    next
      case False
      have "view s' k = view s k" for k
        unfolding v using False
        by (cases "fmlookup (sv_clients s) k") (auto simp: view_def set_obj_def, metis nth_list_update_neq)
      with ok' show ?thesis by auto
    qed
  qed
qed

text \<open>
  C17. The client manager, with its store of shared, mutable clients, refines a cache with one
  entry per cluster: from a store in which no two clusters share a client, a lookup leaves such a
  store, changes no other cluster's entry, and either keeps its entry (with the token renewed in
  place, if at all) because it fits the CR, or replaces it by a new client, or fails; a request to
  the API at most marks the entry of the client it was made with as rejected. A client that is
  handed out is the one the map holds.
\<close>

theorem manager_refines_cache:
  assumes "store_ok s" and "run_op E oper s = (res, s')"
  shows "store_ok s' \<and> spec_step E s oper (view s) (map_option (\<lambda>p. sv_objs s' ! p) res) (view s') \<and>
     (\<forall>ais p. oper = Lookup ais \<longrightarrow> res = Some p \<longrightarrow> fmlookup (sv_clients s') (client_key ais) = Some p)"
proof (cases oper)
  case (Lookup ais)
  obtain r t where "GetClient ais E s = (r, t)" by (cases "GetClient ais E s")
  with GetClient_refines [OF assms(1) this] assms(2) Lookup show ?thesis
    by (cases r) auto
next
  case (Request p c)
  obtain r t where "call_ais p c E s = (r, t)" by (cases "call_ais p c E s")
  with call_ais_refines [OF assms(1) this] assms(2) Request show ?thesis by auto
qed

section \<open>Rejected tokens\<close>

lemma rejection_recorded:
  assumes "call_ais p c E s = (Ret (Inl (HTTPError status)), s')" and "status = 401 \<or> status = 403"
  shows "p < length (sv_objs s) \<and> clients_kept (set_obj p ((sv_objs s ! p)\<lparr>cl_authFailed := True\<rparr>) s) s'"
  using assms
  by (auto simp: call_ais_def deref_client_def change_client_def checkAuthErr_def run_simps Let_def
      clients_kept_def set_obj_def split: if_splits option.splits)

text \<open>
  C19. When the cluster answers 401 or 403 to any API call made with the client of a cluster, the
  next lookup for that cluster does not hand that client out again: it makes a new client, not
  marked as rejected, or fails.
\<close>

theorem rejected_client_is_replaced:
  assumes "store_ok s" and "fmlookup (sv_clients s) (client_key ais) = Some p"
    and "call_ais p c E s = (Ret (Inl (HTTPError status)), s1)" and "status = 401 \<or> status = 403"
    and "GetClient ais E s1 = (Ret q, s2)"
  shows "q \<noteq> p \<and> \<not> cl_authFailed (sv_objs s2 ! q) \<and> (\<exists>url token tls.
     sv_objs s2 ! q = NewAIStoreClient url token (GetAPIMode ais) tls)"
proof -
  note rej = rejection_recorded [OF assms(3,4)]
  have ok1: "store_ok s1" using call_ais_refines [OF assms(1,3)] by blast
  have l1: "fmlookup (sv_clients s1) (client_key ais) = Some p"
    and f1: "cl_authFailed (sv_objs s1 ! p)" and p1: "p < length (sv_objs s1)"
    using rej assms(2) by (auto simp: clients_kept_def set_obj_def)
  have look: "cache_lookup E ais (view s1) (Some (sv_objs s2 ! q)) (view s2)"
    using GetClient_refines [OF ok1 assms(5)] by simp
  have v1: "view s1 (client_key ais) = Some (sv_objs s1 ! p)" using l1 by (simp add: view_def)
  from look have new: "\<not> cl_authFailed (sv_objs s2 ! q) \<and> (\<exists>url token tls.
     sv_objs s2 ! q = NewAIStoreClient url token (GetAPIMode ais) tls)"
  proof (cases rule: cache_lookup.cases)
    case (Keep c url)
    with v1 f1 show ?thesis by (auto simp: touched_def entry_fits_def)
  qed (auto simp: NewAIStoreClient_def Let_def)
  have "q \<noteq> p"
  proof
    assume "q = p"
    have "cl_authFailed (sv_objs s2 ! p)"
      by (rule GetClient_keeps_failed [OF assms(5) p1 f1])
    with new \<open>q = p\<close> show False by simp
  qed
  with new show ?thesis by blast
qed

end
