(* ===== verification/Token_Properties.thy ===== *)
theory Token_Properties
  imports Client_Properties
begin

text \<open>How tokens are asked for: where credentials go, how often, and which tokens are of use.\<close>

section \<open>Where credentials go\<close>

text \<open>
  The provider a run works with, and whether its configuration waives the verification of its
  certificate: the profile that was read, or the inline configuration when none is referenced.
\<close>

definition provider :: "AIStore \<Rightarrow> svc_event list \<Rightarrow> AuthConfig \<Rightarrow> bool \<Rightarrow> bool" where
  "provider ais events conf insecure \<longleftrightarrow> (\<exists>spec k. Auth (Spec ais) = Some spec \<and>
     ((ProfileRef spec = None \<and> conf = AuthSpecConfig (spec, Namespace ais) k \<and>
       insecure = spec_GetInsecureSkipVerify spec) \<or>
      (\<exists>name p. ProfileRef spec = Some name \<and> AskedProfile name (Inr p) \<in> set events \<and>
       conf = AuthProfileConfig p k \<and> insecure = prof_insecure p)))"

definition secured :: "string \<Rightarrow> bool \<Rightarrow> TLSConfig option \<Rightarrow> bool" where
  "secured url insecure tls =
     (if HasPrefix url ''https://''
      then (case tls of None \<Rightarrow> False
        | Some c \<Rightarrow> insecure \<or> \<not> tc_InsecureSkipVerify c \<and> tc_MinTLS12 c \<and> tc_RootCAs c \<noteq> None)
      else tls = None)"

fun within_provider :: "url_lib \<Rightarrow> AuthConfig \<Rightarrow> bool \<Rightarrow> svc_event \<Rightarrow> bool" where
  "within_provider U conf insecure (Posted req r) =
     (request_url U conf (rq_URL req) \<and> secured (GetServiceURL conf) insecure (rq_TLS req))"
| "within_provider U conf insecure (LoggedInUser bp user pass d r) =
     (bp_URL bp = GetServiceURL conf \<and> secured (GetServiceURL conf) insecure (bp_TLS bp))"
| "within_provider U conf insecure (AskedSecret name r) =
     (name = \<lparr>nn_Name = GetSecretName conf, nn_Namespace = GetSecretNamespace conf\<rparr>)"
| "within_provider U conf insecure (MintedToken sa aud secs r) =
     (GetTokenPath conf = [] \<and> aud = GetSubjectTokenAudience conf \<and> secs = 600)"
| "within_provider U conf insecure (CalledAIS bp c r) = False"
| "within_provider U conf insecure _ = True"

lemma trust_read_within: "is_trust_read e \<Longrightarrow> within_provider U conf insecure e"
  by (cases e) auto

lemma login_within:
  "login_event U conf bp e \<Longrightarrow> bp_URL bp = GetServiceURL conf \<Longrightarrow> secured (GetServiceURL conf) insecure (bp_TLS bp)
     \<Longrightarrow> within_provider U conf insecure e"
  by (cases e) auto

lemma resolved_provider:
  assumes "ResolveAuthConfig ais E s = (Ret conf, s')"
  obtains insecure new where "sv_hist s' = new @ sv_hist s" "provider ais new conf insecure"
    "\<forall>e\<in>set new. \<exists>name r. e = AskedProfile name r"
    "\<And>c s''. \<not> insecure \<Longrightarrow> GetTLSConfig conf E s' = (Ret c, s'') \<Longrightarrow>
       \<not> tc_InsecureSkipVerify c \<and> tc_MinTLS12 c \<and> tc_RootCAs c \<noteq> None"
proof (cases "Auth (Spec ais)")
  case None
  with assms show ?thesis by (simp add: ResolveAuthConfig_def run_simps)
next
  case (Some spec)
  show ?thesis
  proof (cases "ProfileRef spec")
    case None
    with assms Some have c: "conf = AuthSpecConfig (spec, Namespace ais) (length (sv_caches s))"
      and h: "sv_hist s' = sv_hist s"
      and k: "length (sv_caches s) < length (sv_caches s')" "cache_config (sv_caches s' ! length (sv_caches s)) = None"
      by (auto simp: ResolveAuthConfig_def new_cache_def run_simps split: if_splits)
    show ?thesis
    proof (rule that [of "[]" "spec_GetInsecureSkipVerify spec"])
      show "\<not> tc_InsecureSkipVerify t \<and> tc_MinTLS12 t \<and> tc_RootCAs t \<noteq> None"
        if "\<not> spec_GetInsecureSkipVerify spec" "GetTLSConfig conf E s' = (Ret t, s'')" for t s''
        using spec_provider.tls_verifies [of "(spec, Namespace ais)", OF _ k] that c by simp
    qed (use c h Some None in \<open>auto simp: provider_def\<close>)
  next
    case (Some name)
    with assms \<open>Auth (Spec ais) = Some spec\<close> obtain p where
      c: "conf = AuthProfileConfig p (length (sv_caches s))"
      and h: "sv_hist s' = AskedProfile name (Inr p) # sv_hist s"
      and k: "length (sv_caches s) < length (sv_caches s')" "cache_config (sv_caches s' ! length (sv_caches s)) = None"
      by (auto simp: ResolveAuthConfig_def GetAuthProfile_def new_cache_def run_simps split: if_splits sum.splits)
    show ?thesis
    proof (rule that [of "[AskedProfile name (Inr p)]" "prof_insecure p"])
      show "\<not> tc_InsecureSkipVerify t \<and> tc_MinTLS12 t \<and> tc_RootCAs t \<noteq> None"
        if "\<not> prof_insecure p" "GetTLSConfig conf E s' = (Ret t, s'')" for t s''
        using profile_provider.tls_verifies [of p, OF _ k] that c by simp
    qed (use c h Some \<open>Auth (Spec ais) = Some spec\<close> in \<open>auto simp: provider_def\<close>)
  qed
qed

lemma base_params:
  assumes "newAuthBaseParams conf E s = (Ret bp, s')"
  shows "bp_URL bp = GetServiceURL conf"
    and "HasPrefix (GetServiceURL conf) ''https://'' \<Longrightarrow> \<exists>c. bp_TLS bp = Some c \<and> GetTLSConfig conf E s = (Ret c, s')"
    and "\<not> HasPrefix (GetServiceURL conf) ''https://'' \<Longrightarrow> bp_TLS bp = None"
  using assms by (auto simp: newAuthBaseParams_def Let_def run_simps split: if_splits prod.splits outcome.splits)

lemma params_reads:
  "steps E (adds_only is_trust_read) (GetTLSConfig conf) \<Longrightarrow> steps E (adds_only is_trust_read) (newAuthBaseParams conf)"
  unfolding newAuthBaseParams_def Let_def by (intro login_steps)

text \<open>C18. Getting a token: resolve the provider, prepare the connection, log in.\<close>

abbreviation log_in :: "BaseParams \<Rightarrow> AIStore \<Rightarrow> AuthConfig \<Rightarrow> TokenInfo option svc" where
  "log_in bp ais conf \<equiv> if IsTokenExchange conf then bind (getTokenViaExchange bp ais conf) (\<lambda>t. ret (Some t))
     else getTokenViaPassword bp conf"

lemma log_in_within:
  assumes "bp_URL bp = GetServiceURL conf" "secured (GetServiceURL conf) insecure (bp_TLS bp)"
  shows "steps E (adds_only (within_provider (e_url E) conf insecure)) (log_in bp ais conf)"
proof -
  have "steps E (adds_only (login_event (e_url E) conf bp)) (log_in bp ais conf)"
    by (intro login_steps login_stays assms(1))
  then show ?thesis
    by (rule steps_weaken) (use login_within [OF _ assms] in \<open>auto simp: adds_only_def\<close>)
qed

lemma getAdminToken_cases:
  assumes "getAdminToken ais E s = (r, s')"
  obtains (unresolved) new where "sv_hist s' = new @ sv_hist s" "\<forall>e\<in>set new. \<exists>name x. e = AskedProfile name x"
    | (resolved) conf s1 r2 s2 where "ResolveAuthConfig ais E s = (Ret conf, s1)"
      "newAuthBaseParams conf E s1 = (r2, s2)" "\<And>bp. r2 = Ret bp \<Longrightarrow> log_in bp ais conf E s2 = (r, s')"
      "(\<nexists>bp. r2 = Ret bp) \<Longrightarrow> s' = s2"
proof (cases "Auth (Spec ais) = None")
  case True
  with assms show ?thesis by (intro unresolved [of "[]"]) (auto simp: getAdminToken_def run_simps)
next
  case False
  obtain r1 s1 where 1: "ResolveAuthConfig ais E s = (r1, s1)" by (cases "ResolveAuthConfig ais E s")
  show ?thesis
  proof (cases "\<exists>conf. r1 = Ret conf")
    case True
    then obtain conf where r1: "r1 = Ret conf" by blast
    obtain r2 s2 where 2: "newAuthBaseParams conf E s1 = (r2, s2)" by (cases "newAuthBaseParams conf E s1")
    show ?thesis
      by (rule resolved [OF 1 [unfolded r1] 2]; use assms False 1 2 r1 in \<open>cases r2\<close>)
         (auto simp: getAdminToken_def run_bind run_or_wrap)
  next
    case no: False
    with 1 assms False have "s' = s1"
      by (cases r1) (auto simp: getAdminToken_def run_simps)
    moreover have "\<exists>new. sv_hist s1 = new @ sv_hist s \<and> (\<forall>e\<in>set new. \<exists>name x. e = AskedProfile name x)"
      using 1 by (auto simp: ResolveAuthConfig_def GetAuthProfile_def new_cache_def run_simps
          split: option.splits if_splits sum.splits)
    ultimately show ?thesis using unresolved by blast
  qed
qed

text \<open>
  C18. Getting an admin token sends credentials to one provider only, the profile the CR refers to
  or, when it refers to none, its inline configuration: the Secret read is the provider's, a
  password or token goes to the provider's service URL or to its endpoint below it, over TLS that
  verifies the server unless the provider's configuration waives that whenever the URL is https, and
  a token minted for the exchange is bound to the provider's audience and lives ten minutes.
  Nothing is sent to an AIStore cluster.
\<close>

theorem credentials_stay_with_the_provider:
  assumes "getAdminToken ais E s = (r, s')"
  shows "\<exists>new. sv_hist s' = new @ sv_hist s \<and>
     ((\<forall>e\<in>set new. \<exists>name x. e = AskedProfile name x) \<or>
      (\<exists>conf insecure. provider ais new conf insecure \<and> (\<forall>e\<in>set new. within_provider (e_url E) conf insecure e)))"
  using assms
proof (cases rule: getAdminToken_cases)
  case (resolved conf s1 r2 s2)
  obtain insecure n1 where
    h1: "sv_hist s1 = n1 @ sv_hist s" and pr: "provider ais n1 conf insecure"
    and e1: "\<forall>e\<in>set n1. \<exists>name r. e = AskedProfile name r"
    and tls: "\<And>c s''. \<not> insecure \<Longrightarrow> GetTLSConfig conf E s1 = (Ret c, s'') \<Longrightarrow>
      \<not> tc_InsecureSkipVerify c \<and> tc_MinTLS12 c \<and> tc_RootCAs c \<noteq> None"
    by (rule resolved_provider [OF resolved(1)], rule that) assumption+
  let ?within = "within_provider (e_url E) conf insecure"
  have "adds_only is_trust_read s1 s2"
    by (rule stepsD [OF params_reads [OF resolved_tls(2) [OF resolved(1)]] resolved(2)])
  then have 2: "adds_only ?within s1 s2" using trust_read_within by (auto simp: adds_only_def)
  have 3: "adds_only ?within s2 s'"
  proof (cases "\<exists>bp. r2 = Ret bp")
    case True
    then obtain bp where r2: "r2 = Ret bp" by blast
    note bp = base_params [OF resolved(2) [unfolded r2]]
    have "secured (GetServiceURL conf) insecure (bp_TLS bp)"
      using bp(2,3) tls by (auto simp: secured_def split: option.split)
    from stepsD [OF log_in_within [OF bp(1) this] resolved(3) [OF r2]] show ?thesis .
  qed (use resolved(4) adds_only.refl in simp)
  from adds_only.trans [OF 2 3] obtain n2 where
    "sv_hist s' = n2 @ sv_hist s1" "\<forall>e\<in>set n2. ?within e" by (auto simp: adds_only_def)
  moreover have "\<forall>e\<in>set n1. ?within e" using e1 by auto
  moreover have "provider ais (n2 @ n1) conf insecure" using pr by (auto simp: provider_def)
  ultimately have "sv_hist s' = (n2 @ n1) @ sv_hist s \<and> provider ais (n2 @ n1) conf insecure \<and>
      (\<forall>e\<in>set (n2 @ n1). ?within e)" using h1 by auto
  then show ?thesis by blast
qed blast

section \<open>How often the authentication service is asked\<close>

fun asks_service :: "svc_event \<Rightarrow> bool" where
  "asks_service (Posted _ _) = True"
| "asks_service (LoggedInUser _ _ _ _ _) = True"
| "asks_service _ = False"

definition asked :: "svc_hist \<Rightarrow> nat" where
  "asked h = length (filter asks_service h)"

text \<open>The cost of an operation: at most so many requests, whatever the state it starts in.\<close>

definition costs :: "svc_env \<Rightarrow> nat \<Rightarrow> 'a svc \<Rightarrow> bool" where
  "costs E n m \<longleftrightarrow> (\<forall>s. asked (sv_hist (snd (m E s))) \<le> asked (sv_hist s) + n)"

abbreviation quiet :: "svc_st \<Rightarrow> svc_st \<Rightarrow> bool" where
  "quiet \<equiv> adds_only (\<lambda>e. \<not> asks_service e)"

lemma costs_quiet: "steps E quiet m \<Longrightarrow> costs E 0 m"
  unfolding costs_def
proof
  fix s assume "steps E quiet m"
  then obtain new where "sv_hist (snd (m E s)) = new @ sv_hist s" "\<forall>e\<in>set new. \<not> asks_service e"
    unfolding steps_def adds_only_def by blast
  then show "asked (sv_hist (snd (m E s))) \<le> asked (sv_hist s) + 0" by (simp add: asked_def)
qed

lemma costs_bind: "costs E a m \<Longrightarrow> (\<And>x. costs E b (f x)) \<Longrightarrow> costs E (a + b) (bind m f)"
  unfolding costs_def
proof
  fix s assume m: "\<forall>s. asked (sv_hist (snd (m E s))) \<le> asked (sv_hist s) + a"
    and f: "\<And>x. \<forall>s. asked (sv_hist (snd (f x E s))) \<le> asked (sv_hist s) + b"
  obtain r s1 where 1: "m E s = (r, s1)" by (cases "m E s")
  with m have a: "asked (sv_hist s1) \<le> asked (sv_hist s) + a" by (metis snd_conv)
  show "asked (sv_hist (snd (bind m f E s))) \<le> asked (sv_hist s) + (a + b)"
    using a 1 by (cases r) (auto simp: run_simps intro!: order_trans [OF f [rule_format]])
qed

lemmas costs_first = costs_bind [where a = 0, simplified]
lemmas costs_last = costs_bind [where b = 0, simplified]
lemmas costs_both = costs_bind [where a = 1 and b = 1, simplified]

lemma costs_mono: "costs E a m \<Longrightarrow> a \<le> b \<Longrightarrow> costs E b m"
  unfolding costs_def by (meson add_left_mono order_trans)

lemma costs_if: "costs E n a \<Longrightarrow> costs E n b \<Longrightarrow> costs E n (if c then a else b)"
  by simp

lemma costs_option: "costs E n a \<Longrightarrow> (\<And>x. costs E n (b x)) \<Longrightarrow> costs E n (case y of None \<Rightarrow> a | Some x \<Rightarrow> b x)"
  by (cases y) auto

lemma costs_or_wrap: "costs E n m \<Longrightarrow> costs E n (or_wrap m msg)"
  by (auto simp: costs_def run_simps split: prod.splits outcome.splits) (metis snd_conv)+

lemma costs_consult: "costs E 1 (consult answer mk)"
  by (auto simp: costs_def run_simps asked_def split: sum.split)

lemma quiet_url: "steps E quiet (JoinPath b p)" "steps E quiet (check_request_url u)"
  unfolding JoinPath_def check_request_url_def by (intro adds_only.steps_base)+

lemmas quiet_steps =
  adds_only.steps_base adds_only.steps_or_wrap steps_intros adds_only_consult adds_only_clock quiet_url

lemma costs_request: "costs E 1 (or_wrap (doAuthSvcRequest url form bp) msg)"
  "costs E 1 (or_wrap (authn_LoginUser bp u p d) msg)"
  unfolding doAuthSvcRequest_def svc_reads by (intro costs_or_wrap costs_consult)+

lemma costs_oauth: "costs E 1 (getTokenFromOAuth bp creds lc)"
  unfolding getTokenFromOAuth_def Let_def
  by (rule costs_first, rule costs_quiet, intro quiet_steps,
      rule costs_first, rule costs_quiet, intro quiet_steps,
      rule costs_last, rule costs_request, rule costs_quiet, intro quiet_steps)
     simp_all

lemma costs_exchange: "costs E 1 (exchangeTokenWithAuthSvc bp tok endpoint auds)"
  unfolding exchangeTokenWithAuthSvc_def Let_def
  by (rule costs_first, rule costs_quiet, intro quiet_steps,
      rule costs_first, rule costs_quiet, intro quiet_steps,
      rule costs_last, rule costs_request, rule costs_quiet, intro quiet_steps)
     simp_all

lemma costs_authn: "costs E 1 (getTokenFromAuthN bp creds)"
  unfolding getTokenFromAuthN_def
  by (rule costs_last, rule costs_request, rule costs_quiet, intro quiet_steps)

lemma quiet_secret: "steps E quiet (getSecretData ns n)" "steps E quiet (secret_value d k)"
  unfolding getSecretData_def secret_value_def svc_reads by (intro quiet_steps; simp)+

lemma quiet_subject: "steps E quiet (getSubjectToken conf)"
  unfolding getSubjectToken_def readProjectedToken_def readTokenFromFile_def mintSubjectToken_def
    Let_def svc_reads by (intro quiet_steps) simp_all

lemma costs_password: "costs E 1 (getTokenViaPassword bp conf)"
  unfolding getTokenViaPassword_def Let_def
  by (rule costs_if, rule costs_mono [of _ 0], rule costs_quiet, intro quiet_steps, simp,
      rule costs_first, rule costs_quiet, rule quiet_secret,
      rule costs_first, rule costs_quiet, rule quiet_secret,
      rule costs_first, rule costs_quiet, rule quiet_secret,
      rule costs_last, rule costs_option, rule costs_authn, rule costs_oauth,
      rule costs_quiet, intro quiet_steps)

lemma costs_via_exchange: "costs E 1 (getTokenViaExchange bp ais conf)"
  unfolding getTokenViaExchange_def
  by (rule costs_first, rule costs_quiet, rule quiet_subject, rule costs_exchange)

lemma trust_quiet: "adds_only is_trust_read s s' \<Longrightarrow> quiet s s'"
  unfolding adds_only_def by (metis asks_service.elims(2) is_trust_read.simps(6-))

lemma quiet_resolve: "steps E quiet (ResolveAuthConfig ais)"
  unfolding ResolveAuthConfig_def new_cache_def svc_reads
  by (intro quiet_steps adds_only_same) simp_all

lemma costs_token: "costs E 1 (getAdminToken ais)"
proof -
  have rest: "costs E 1 (if IsTokenExchange conf then bind (getTokenViaExchange bp ais conf) (\<lambda>t. ret (Some t))
        else getTokenViaPassword bp conf)" for conf bp
    by (rule costs_if, rule costs_last, rule costs_via_exchange, rule costs_quiet, intro quiet_steps,
        rule costs_password)
  show ?thesis unfolding costs_def
  proof
    fix s
    obtain r1 s1 where 1: "ResolveAuthConfig ais E s = (r1, s1)" by (cases "ResolveAuthConfig ais E s")
    have a1: "asked (sv_hist s1) \<le> asked (sv_hist s)"
      using costs_quiet [OF quiet_resolve, of E ais] 1 by (auto simp: costs_def) (metis snd_conv)
    show "asked (sv_hist (snd (getAdminToken ais E s))) \<le> asked (sv_hist s) + 1"
    proof (cases "Auth (Spec ais) = None \<or> (\<forall>conf. r1 \<noteq> Ret conf)")
      case True
      then show ?thesis using 1 a1 by (cases r1) (auto simp: getAdminToken_def run_bind run_ret)
    next
      case False
      then obtain conf where conf: "r1 = Ret conf" by blast
      have "steps E quiet (newAuthBaseParams conf)"
        by (rule steps_weaken [OF params_reads [OF resolved_tls(2) [OF 1 [unfolded conf]]] trust_quiet])
      then have "costs E 1 (bind (or_wrap (newAuthBaseParams conf) ''failed to create auth service base params'')
        (\<lambda>bp. if IsTokenExchange conf then bind (getTokenViaExchange bp ais conf) (\<lambda>t. ret (Some t))
              else getTokenViaPassword bp conf))"
        by (intro costs_first costs_or_wrap costs_quiet rest)
      then show ?thesis using 1 conf False a1
        by (auto simp: getAdminToken_def run_bind [of "ResolveAuthConfig ais"] costs_def intro: order_trans)
    qed
  qed
qed

lemma quiet_endpoint: "steps E quiet (getAISAPIEndpoint ais)"
  unfolding getAISAPIEndpoint_def getPublicAISHostname_def svc_ListReadyPods_def svc_reads Let_def
  by (intro quiet_steps) (auto split: list.split intro!: quiet_steps)

lemma quiet_expired: "steps E quiet (isTokenExpired p)"
  unfolding isTokenExpired_def deref_client_def by (intro quiet_steps) simp

lemma quiet_change: "steps E quiet (change_client p f)"
  unfolding change_client_def deref_client_def by (intro quiet_steps adds_only_same) simp

lemma quiet_call: "steps E quiet (call_ais p c)"
  unfolding call_ais_def deref_client_def checkAuthErr_def Let_def
  by (intro quiet_steps quiet_change) (simp add: steps_def run_simps adds_only_def)

lemma quiet_valid: "steps E quiet (HasValidBaseParams p ais url)"
  unfolding HasValidBaseParams_def api_Health_def deref_client_def
  by (intro quiet_steps quiet_call quiet_expired)

lemma costs_refresh: "costs E 1 (refresh_if_expired ais p)"
  unfolding refresh_if_expired_def refreshToken_def deref_client_def
  by (rule costs_first, rule costs_quiet, rule quiet_expired, rule costs_if, rule costs_last,
      rule costs_token, rule costs_quiet, intro quiet_steps quiet_change,
      rule costs_mono [of _ 0], rule costs_quiet, intro quiet_steps) simp

lemma quiet_tls: "steps E quiet (getTLSConfig ais)"
  by (rule steps_weaken [OF trust_adds.steps_getTLSConfig trust_quiet])

lemma costs_create: "costs E 1 (create_client ais url)"
  unfolding create_client_def add_client_def
  by (rule costs_last, rule costs_token, rule costs_quiet, intro quiet_steps quiet_tls adds_only_same) simp

text \<open>
  C39. A lookup asks the authentication service for at most two tokens, and getting an admin token
  asks it at most once.
\<close>

theorem lookup_asks_at_most_twice:
  "asked (sv_hist (snd (GetClient ais E s))) \<le> asked (sv_hist s) + 2 \<and>
   asked (sv_hist (snd (getAdminToken ais E s))) \<le> asked (sv_hist s) + 1"
proof -
  have "costs E 2 (GetClient ais)"
    unfolding GetClient_def
  proof (rule costs_first, rule costs_quiet, intro adds_only.steps_base)
    fix client
    let ?rest = "\<lambda>_. bind (getAISAPIEndpoint ais) (\<lambda>url.
     bind (case client of None \<Rightarrow> ret False | Some p \<Rightarrow> HasValidBaseParams p ais url) (\<lambda>valid.
     case client of
       Some p \<Rightarrow> if valid then ret p else create_client ais url
     | None \<Rightarrow> create_client ais url))"
    have "costs E 1 (?rest x)" for x
      by (rule costs_first, rule costs_quiet, rule quiet_endpoint,
          rule costs_first, rule costs_quiet, intro quiet_steps quiet_valid,
          rule costs_option, rule costs_create, rule costs_if,
          rule costs_mono [of _ 0], rule costs_quiet, intro quiet_steps, simp, rule costs_create)
    moreover have "costs E 1 (case client of None \<Rightarrow> ret () | Some p \<Rightarrow> refresh_if_expired ais p)"
      by (rule costs_option, rule costs_mono [of _ 0], rule costs_quiet, intro quiet_steps, simp, rule costs_refresh)
    ultimately show "costs E 2 (bind (case client of None \<Rightarrow> ret () | Some p \<Rightarrow> refresh_if_expired ais p) ?rest)"
      using costs_both by (simp add: numeral_2_eq_2)
  qed
  then show ?thesis using costs_token [of E ais] by (simp add: costs_def)
qed

end
