(* ===== verification/Auth_Resources.thy ===== *)
theory Auth_Resources
  imports Auth_Types Certificates
begin

text \<open>
  The objects the operator builds for an AuthN server
  (\<^verbatim>\<open>operator/internal/resources/aisauth\<close>): its configuration, claim, services, certificate and
  Deployment. Apply configurations are records of what the builders set; a value the caller passes
  through a conversion to an apply-configuration type is opaque after it.
\<close>

section \<open>Third-party functions\<close>

text \<open>
  The configuration of the AuthN server is a type of the AIStore repository; zero durations and
  numbers are what is left out. \<open>Validate\<close> may fill in what is missing.
\<close>

record AuthnConfig =
  alog_Level :: string
  alog_FlushInterval :: Duration
  anet_ExternalURL :: string
  ahttp_Port :: int
  ahttp_UseHTTPS :: bool
  ahttp_Certificate :: string
  ahttp_Key :: string
  asrv_Expire :: Duration
  asrv_MaxTokenAge :: Duration
  adb_Type :: string
  adb_Filepath :: string
  akey_Bits :: int
  akey_Mode :: string
  atimeout_Default :: Duration

text \<open>\<open>toApplyConfiguration\<close> (\<^verbatim>\<open>apply.go\<close>) marshals a value and reads it back as another type,
  either of which may fail; one field per type it is used at.\<close>

record auth_lib =
  ValidateAuthn :: "AuthnConfig \<Rightarrow> err + AuthnConfig"
  MarshalAuthn :: "AuthnConfig \<Rightarrow> err + string"
  conv_Resources :: "ResourceRequirements \<Rightarrow> err + k8s_value"
  conv_SecurityContext :: "SecurityContext \<Rightarrow> err + k8s_value"
  conv_Probe :: "Probe \<Rightarrow> err + k8s_value"
  conv_PodSecurityContext :: "PodSecurityContext \<Rightarrow> err + k8s_value"
  conv_Tolerations :: "Toleration list \<Rightarrow> err + k8s_value"
  conv_Affinity :: "Affinity \<Rightarrow> err + k8s_value"
  conv_PullSecrets :: "string list \<Rightarrow> err + k8s_value"

text \<open>Sequencing of functions that may fail; an unset value needs no conversion.\<close>

definition sum_bind :: "err + 'a \<Rightarrow> ('a \<Rightarrow> err + 'b) \<Rightarrow> err + 'b" where
  "sum_bind x f = (case x of Inl e \<Rightarrow> Inl e | Inr a \<Rightarrow> f a)"

definition conv_opt :: "('a \<Rightarrow> err + k8s_value) \<Rightarrow> 'a option \<Rightarrow> err + k8s_value option" where
  "conv_opt conv x = (case x of None \<Rightarrow> Inr None | Some a \<Rightarrow> sum_bind (conv a) (\<lambda>v. Inr (Some v)))"

lemma sum_bind_Inr: "sum_bind x f = Inr b \<longleftrightarrow> (\<exists>a. x = Inr a \<and> f a = Inr b)"
  by (auto simp: sum_bind_def split: sum.split)

section \<open>Configuration\<close>

record Paths =
  path_Database :: string
  path_TLSCertificate :: string
  path_TLSKey :: string

definition renderLogConfig :: "AIStoreAuth \<Rightarrow> string \<times> Duration" where
  "renderLogConfig authn =
     (case Option.bind (as_Config (authn_Spec authn)) acfg_Log of
        None \<Rightarrow> ([], 0)
      | Some log \<Rightarrow> (case lg_Level log of None \<Rightarrow> [] | Some l \<Rightarrow> show_int l,
                     case lg_FlushInterval log of None \<Rightarrow> 0 | Some d \<Rightarrow> d))"

text \<open>External URL, port, whether HTTPS, certificate and key.\<close>

definition renderNetConfig :: "AIStoreAuth \<Rightarrow> Paths \<Rightarrow> string \<times> int \<times> bool \<times> string \<times> string" where
  "renderNetConfig authn paths =
     (let url = (case Option.bind (Option.bind (as_Config (authn_Spec authn)) acfg_Net) ns_ExternalURL of
            None \<Rightarrow> [] | Some u \<Rightarrow> u);
          tls = authn_HasTLSEnabled authn
      in (url, ListenPort authn, tls, if tls then path_TLSCertificate paths else [],
          if tls then path_TLSKey paths else []))"

text \<open>Expiry, maximal age, database type and file, key bits and mode.\<close>

definition renderServerConfig ::
  "AIStoreAuth \<Rightarrow> Paths \<Rightarrow> Duration \<times> Duration \<times> string \<times> string \<times> int \<times> string" where
  "renderServerConfig authn paths =
     (let authSpec = Option.bind (as_Config (authn_Spec authn)) acfg_Auth;
          expire = (case Option.bind authSpec srv_ExpirationTime of None \<Rightarrow> 0 | Some d \<Rightarrow> d);
          maxAge = (case Option.bind authSpec srv_MaxTokenAge of None \<Rightarrow> 0 | Some d \<Rightarrow> d);
          dbType = (case Option.bind (Option.bind authSpec srv_DB) db_Type of None \<Rightarrow> [] | Some t \<Rightarrow> t);
          bits = (case Option.bind (Option.bind authSpec srv_SigningKey) sk_Bits of None \<Rightarrow> 0 | Some b \<Rightarrow> b);
          mode = (case Option.bind (Option.bind authSpec srv_SigningKey) sk_Mode of None \<Rightarrow> [] | Some m \<Rightarrow> m)
      in (expire, maxAge, dbType, path_Database paths, bits, mode))"

definition renderTimeoutConfig :: "AIStoreAuth \<Rightarrow> Duration" where
  "renderTimeoutConfig authn =
     (case Option.bind (Option.bind (as_Config (authn_Spec authn)) acfg_Timeout) to_DefaultTimeout of
        None \<Rightarrow> 0 | Some d \<Rightarrow> d)"

definition rendered_config :: "AIStoreAuth \<Rightarrow> Paths \<Rightarrow> AuthnConfig" where
  "rendered_config authn paths =
     (let (level, flush) = renderLogConfig authn;
          (url, port, https, crt, key) = renderNetConfig authn paths;
          (expire, maxAge, dbType, dbFile, bits, mode) = renderServerConfig authn paths
      in \<lparr>alog_Level = level, alog_FlushInterval = flush, anet_ExternalURL = url, ahttp_Port = port,
          ahttp_UseHTTPS = https, ahttp_Certificate = crt, ahttp_Key = key, asrv_Expire = expire,
          asrv_MaxTokenAge = maxAge, adb_Type = dbType, adb_Filepath = dbFile, akey_Bits = bits,
          akey_Mode = mode, atimeout_Default = renderTimeoutConfig authn\<rparr>)"

definition authn_GenerateConfig :: "auth_lib \<Rightarrow> AIStoreAuth \<Rightarrow> Paths \<Rightarrow> err + AuthnConfig" where
  "authn_GenerateConfig A authn paths = ValidateAuthn A (rendered_config authn paths)"

section \<open>Names and labels\<close>

definition in_authn_namespace :: "AIStoreAuth \<Rightarrow> string \<Rightarrow> NamespacedName" where
  "in_authn_namespace authn name = \<lparr>nn_Name = name, nn_Namespace = authn_Namespace authn\<rparr>"

definition ConfigMapName :: "AIStoreAuth \<Rightarrow> string" where "ConfigMapName authn = authn_Name authn @ ''-config''"
definition ConfigMapNSName :: "AIStoreAuth \<Rightarrow> NamespacedName" where
  "ConfigMapNSName authn = in_authn_namespace authn (ConfigMapName authn)"
definition PVCName :: "AIStoreAuth \<Rightarrow> string" where "PVCName authn = authn_Name authn @ ''-storage''"
definition PVCNSName :: "AIStoreAuth \<Rightarrow> NamespacedName" where
  "PVCNSName authn = in_authn_namespace authn (PVCName authn)"
definition ServiceName :: "AIStoreAuth \<Rightarrow> string" where "ServiceName authn = authn_Name authn"
definition ServiceNSName :: "AIStoreAuth \<Rightarrow> NamespacedName" where
  "ServiceNSName authn = in_authn_namespace authn (ServiceName authn)"
definition NodePortServiceName :: "AIStoreAuth \<Rightarrow> string" where
  "NodePortServiceName authn = authn_Name authn @ ''-nodeport''"
definition NodePortServiceNSName :: "AIStoreAuth \<Rightarrow> NamespacedName" where
  "NodePortServiceNSName authn = in_authn_namespace authn (NodePortServiceName authn)"
definition LoadBalancerServiceName :: "AIStoreAuth \<Rightarrow> string" where
  "LoadBalancerServiceName authn = authn_Name authn @ ''-lb''"
definition LoadBalancerServiceNSName :: "AIStoreAuth \<Rightarrow> NamespacedName" where
  "LoadBalancerServiceNSName authn = in_authn_namespace authn (LoadBalancerServiceName authn)"
definition CertificateName :: "AIStoreAuth \<Rightarrow> string" where
  "CertificateName authn = authn_Name authn @ ''-authn-tls-cert''"
definition authn_CertificateNSName :: "AIStoreAuth \<Rightarrow> NamespacedName" where
  "authn_CertificateNSName authn = in_authn_namespace authn (CertificateName authn)"
definition DeploymentName :: "AIStoreAuth \<Rightarrow> string" where "DeploymentName authn = authn_Name authn"
definition authn_DeploymentNSName :: "AIStoreAuth \<Rightarrow> NamespacedName" where
  "authn_DeploymentNSName authn = in_authn_namespace authn (DeploymentName authn)"

definition resourceLabels :: "AIStoreAuth \<Rightarrow> string_map" where
  "resourceLabels authn = fmap_of_list
     [(''app.kubernetes.io/name'', ''authn''), (''app.kubernetes.io/instance'', authn_Name authn),
      (''app.kubernetes.io/managed-by'', ''ais-operator'')]"

definition authn_selectorLabels :: "AIStoreAuth \<Rightarrow> string_map" where
  "authn_selectorLabels authn = fmap_of_list
     [(''app.kubernetes.io/name'', ''authn''), (''app.kubernetes.io/instance'', authn_Name authn)]"

definition NewAIStoreAuthControllerRef :: "AIStoreAuth \<Rightarrow> OwnerReference" where
  "NewAIStoreAuthControllerRef authn =
     \<lparr>own_Kind = ''AIStoreAuth'', own_Name = authn_Name authn, own_UID = authn_UID authn\<rparr>"

section \<open>Services\<close>

definition ServiceURLOf :: "AIStoreAuth \<Rightarrow> string" where
  "ServiceURLOf authn =
     (if authn_HasTLSEnabled authn then ''https'' else ''http'') @ ''://'' @ ServiceName authn @ ''.''
       @ authn_Namespace authn @ ''.svc:'' @ show_int (ListenPort authn)"

definition portName :: string where "portName = ''http''"

record AuthnServicePort =
  asp_Name :: string
  asp_Protocol :: string
  asp_Port :: int32
  asp_TargetPort :: string
  asp_NodePort :: "int32 option"

record AuthnService =
  asvc_Name :: NamespacedName
  asvc_Owner :: OwnerReference
  asvc_Labels :: string_map
  asvc_Annotations :: string_map
  asvc_Selector :: string_map
  asvc_Ports :: "AuthnServicePort list"
  asvc_Type :: string

definition servicePort :: "int32 \<Rightarrow> AuthnServicePort" where
  "servicePort port = \<lparr>asp_Name = portName, asp_Protocol = ''TCP'', asp_Port = port, asp_TargetPort = portName,
     asp_NodePort = None\<rparr>"

definition baseService :: "AIStoreAuth \<Rightarrow> string \<Rightarrow> AuthnServicePort \<Rightarrow> string \<Rightarrow> AuthnService" where
  "baseService authn name port typ =
     \<lparr>asvc_Name = in_authn_namespace authn name, asvc_Owner = NewAIStoreAuthControllerRef authn,
      asvc_Labels = resourceLabels authn, asvc_Annotations = fmempty,
      asvc_Selector = authn_selectorLabels authn, asvc_Ports = [port], asvc_Type = typ\<rparr>"

definition NewService :: "AIStoreAuth \<Rightarrow> AuthnService" where
  "NewService authn = baseService authn (ServiceName authn) (servicePort (ListenPort authn)) ''ClusterIP''"

definition NewNodePortService :: "AIStoreAuth \<Rightarrow> AuthnService option" where
  "NewNodePortService authn = map_option (\<lambda>nodePort.
     baseService authn (NodePortServiceName authn)
       ((servicePort (ListenPort authn))\<lparr>asp_NodePort := Some (np_Port nodePort)\<rparr>) ''NodePort'')
     (Option.bind (as_ExternalAccess (authn_Spec authn)) ea_NodePort)"

definition NewLoadBalancerService :: "AIStoreAuth \<Rightarrow> AuthnService option" where
  "NewLoadBalancerService authn = map_option (\<lambda>lb.
     (baseService authn (LoadBalancerServiceName authn) (servicePort (lb_Port lb)) ''LoadBalancer'')
       \<lparr>asvc_Annotations := lb_Annotations lb\<rparr>)
     (Option.bind (as_ExternalAccess (authn_Spec authn)) ea_LoadBalancer)"

section \<open>ConfigMap and claim\<close>

definition stateMountPath :: string where "stateMountPath = ''/etc/ais/authn''"
definition AuthnJSONKey :: string where "AuthnJSONKey = ''authn.json''"
definition authnConfigPath :: string where "authnConfigPath = stateMountPath @ ''/'' @ AuthnJSONKey"
definition tlsMountPath :: string where "tlsMountPath = ''/var/certs''"

definition configPaths :: Paths where
  "configPaths = \<lparr>path_Database = stateMountPath @ ''/authn.db'', path_TLSCertificate = tlsMountPath @ ''/tls.crt'',
     path_TLSKey = tlsMountPath @ ''/tls.key''\<rparr>"

definition renderAuthnJSON :: "auth_lib \<Rightarrow> AIStoreAuth \<Rightarrow> err + string" where
  "renderAuthnJSON A authn = sum_bind (authn_GenerateConfig A authn configPaths) (MarshalAuthn A)"

record AuthnConfigMap =
  acm_Name :: NamespacedName
  acm_Owner :: OwnerReference
  acm_Labels :: string_map
  acm_Data :: string_map

definition authn_NewConfigMap :: "auth_lib \<Rightarrow> AIStoreAuth \<Rightarrow> err + AuthnConfigMap" where
  "authn_NewConfigMap A authn = sum_bind (renderAuthnJSON A authn) (\<lambda>conf.
     Inr \<lparr>acm_Name = ConfigMapNSName authn, acm_Owner = NewAIStoreAuthControllerRef authn,
          acm_Labels = resourceLabels authn, acm_Data = fmap_of_list [(AuthnJSONKey, conf)]\<rparr>)"

text \<open>The storage class \<open>Some []\<close> opts out of the default class.\<close>

record AuthnPVC =
  apvc_Name :: NamespacedName
  apvc_Owner :: OwnerReference
  apvc_Labels :: string_map
  apvc_AccessModes :: "string list"
  apvc_Storage :: amount
  apvc_StorageClassName :: "string option"
  apvc_VolumeName :: "string option"

definition NewPVC :: "AIStoreAuth \<Rightarrow> err + AuthnPVC" where
  "NewPVC authn =
     (let persistence = as_Persistence (authn_Spec authn);
          pvc = \<lambda>cls vol. \<lparr>apvc_Name = PVCNSName authn, apvc_Owner = NewAIStoreAuthControllerRef authn,
            apvc_Labels = resourceLabels authn, apvc_AccessModes = [''ReadWriteOnce''],
            apvc_Storage = StorageSize persistence, apvc_StorageClassName = cls, apvc_VolumeName = vol\<rparr>
      in if UsesStorageClass persistence then Inr (pvc (per_StorageClass persistence) None)
         else if UsesExistingVolume persistence then Inr (pvc (Some []) (per_VolumeName persistence))
         else Inl (OtherErr ''spec.persistence must set exactly one of storageClass or volumeName''))"

section \<open>Certificate\<close>

definition serverCertUsages :: "KeyUsage list" where
  "serverCertUsages = [UsageDigitalSignature, UsageKeyEncipherment, UsageServerAuth]"

definition configuredExternalURLHost :: "url_lib \<Rightarrow> AIStoreAuth \<Rightarrow> string" where
  "configuredExternalURLHost U authn =
     (case Option.bind (Option.bind (as_Config (authn_Spec authn)) acfg_Net) ns_ExternalURL of
        None \<Rightarrow> []
      | Some url \<Rightarrow> (case url_Parse U url of Inl e \<Rightarrow> [] | Inr u \<Rightarrow> Hostname u))"

definition appendServiceDNSNames :: "k8s_lib \<Rightarrow> string list \<Rightarrow> string \<Rightarrow> string \<Rightarrow> string list" where
  "appendServiceDNSNames L names svc ns =
     names @ [svc, svc @ ''.'' @ ns, svc @ ''.'' @ ns @ ''.svc'', svc @ ''.'' @ ns @ ''.svc.'' @ opClusterDomain L]"

text \<open>IP addresses among the endpoints are dropped: the certificate names hosts only.\<close>

definition certificateDNSNames ::
  "k8s_lib \<Rightarrow> url_lib \<Rightarrow> AIStoreAuth \<Rightarrow> AuthnTLSCertificateConfig \<Rightarrow> string list \<Rightarrow> string list" where
  "certificateDNSNames L U authn config externalEndpoints =
     (let dnsNames = appendServiceDNSNames L [''localhost''] (ServiceName authn) (authn_Namespace authn);
          dnsNames = fst (AppendHosts (dnsNames, []) externalEndpoints);
          host = configuredExternalURLHost U authn;
          dnsNames = (if host \<noteq> [] then fst (AppendHosts (dnsNames, []) [host]) else dnsNames);
          dnsNames = dnsNames @ acert_AdditionalDNSNames config
      in fst (NormalizeSANs (dnsNames, [])))"

record AuthnCertificate =
  acrt_Name :: NamespacedName
  acrt_Owner :: OwnerReference
  acrt_Labels :: string_map
  acrt_Spec :: CertificateSpec

text \<open>Without a certificate configuration the pointer is nil: no result.\<close>

definition authn_NewCertificate ::
  "k8s_lib \<Rightarrow> url_lib \<Rightarrow> AIStoreAuth \<Rightarrow> string list \<Rightarrow> AuthnCertificate option" where
  "authn_NewCertificate L U authn externalEndpoints = map_option (\<lambda>config.
     \<lparr>acrt_Name = authn_CertificateNSName authn, acrt_Owner = NewAIStoreAuthControllerRef authn,
      acrt_Labels = resourceLabels authn,
      acrt_Spec = NewSpec \<lparr>cfg_SecretName = authn_GetTLSSecretName authn,
        cfg_IssuerName = acert_IssuerName config, cfg_IssuerKind = acert_IssuerKind config,
        cfg_Duration = acert_Duration config, cfg_RenewBefore = acert_RenewBefore config,
        cfg_Usages = serverCertUsages\<rparr> (certificateDNSNames L U authn config externalEndpoints) []\<rparr>)
     (authn_GetTLSCertificate authn)"

definition tlsCSIVolumeAttributes :: "k8s_lib \<Rightarrow> url_lib \<Rightarrow> AIStoreAuth \<Rightarrow> string_map" where
  "tlsCSIVolumeAttributes L U authn =
     (if \<not> authn_UseTLSCSI authn then fmempty
      else (case authn_GetTLSCertificate authn of None \<Rightarrow> fmempty
        | Some config \<Rightarrow> ToVolumeAttributes L
            \<lparr>csi_IssuerName = acert_IssuerName config, csi_IssuerKind = acert_IssuerKind config,
             csi_CommonName = ServiceName authn @ ''.'' @ authn_Namespace authn,
             csi_DNSNames = certificateDNSNames L U authn config [], csi_Duration = acert_Duration config,
             csi_RenewBefore = acert_RenewBefore config, csi_Usages = serverCertUsages\<rparr>))"

section \<open>Volumes and variables\<close>

datatype AuthnVolumeSource =
    ClaimVolume string | ConfigMapVolume string | SecretVolume string
  | CSIVolume string bool string_map \<comment> \<open>driver, read-only, attributes\<close>

record AuthnVolume =
  avol_Name :: string
  avol_Source :: AuthnVolumeSource

record AuthnMount =
  amnt_Name :: string
  amnt_MountPath :: string
  amnt_SubPath :: string
  amnt_ReadOnly :: bool

definition storageVolumeName :: string where "storageVolumeName = ''storage''"
definition configVolumeName :: string where "configVolumeName = ''config''"
definition tlsVolumeName :: string where "tlsVolumeName = ''tls-certs''"

definition volumes :: "k8s_lib \<Rightarrow> url_lib \<Rightarrow> AIStoreAuth \<Rightarrow> AuthnVolume list" where
  "volumes L U authn =
     [\<lparr>avol_Name = storageVolumeName, avol_Source = ClaimVolume (PVCName authn)\<rparr>,
      \<lparr>avol_Name = configVolumeName, avol_Source = ConfigMapVolume (ConfigMapName authn)\<rparr>]
     @ (if authn_UseTLSCSI authn
        then [\<lparr>avol_Name = tlsVolumeName,
               avol_Source = CSIVolume (csiapi L ''GroupName'') True (tlsCSIVolumeAttributes L U authn)\<rparr>]
        else if authn_UseTLSCertificate authn \<or> authn_UseTLSSecret authn
        then [\<lparr>avol_Name = tlsVolumeName, avol_Source = SecretVolume (authn_GetTLSSecretName authn)\<rparr>]
        else [])"

definition volumeMounts :: "AIStoreAuth \<Rightarrow> AuthnMount list" where
  "volumeMounts authn =
     [\<lparr>amnt_Name = storageVolumeName, amnt_MountPath = stateMountPath, amnt_SubPath = [], amnt_ReadOnly = False\<rparr>,
      \<lparr>amnt_Name = configVolumeName, amnt_MountPath = authnConfigPath, amnt_SubPath = AuthnJSONKey,
       amnt_ReadOnly = True\<rparr>]
     @ (if authn_HasTLSEnabled authn
        then [\<lparr>amnt_Name = tlsVolumeName, amnt_MountPath = tlsMountPath, amnt_SubPath = [], amnt_ReadOnly = True\<rparr>]
        else [])"

text \<open>A variable from a key of a Secret, which may be optional.\<close>

record SecretEnv =
  senv_Name :: string
  senv_Secret :: string
  senv_Key :: string
  senv_Optional :: bool

definition secretName :: "string option \<Rightarrow> string" where
  "secretName ref = (case ref of None \<Rightarrow> [] | Some n \<Rightarrow> n)"

definition secretKeyEnv :: "string \<Rightarrow> string \<Rightarrow> string \<Rightarrow> bool \<Rightarrow> SecretEnv" where
  "secretKeyEnv envName secret key opt =
     \<lparr>senv_Name = envName, senv_Secret = secret, senv_Key = key, senv_Optional = opt\<rparr>"

definition secretEnvVars :: "k8s_lib \<Rightarrow> AIStoreAuth \<Rightarrow> SecretEnv list" where
  "secretEnvVars L authn =
     (let spec = authn_Spec authn; admin = secretName (as_AdminSecret spec);
          hmac = secretName (as_HMACSecret spec); rsa = secretName (as_RSAPassphraseSecret spec)
      in (if admin \<noteq> []
          then [secretKeyEnv (aisenv L ''AisAuthAdminUsername'') admin ''SU-NAME'' True,
                secretKeyEnv (aisenv L ''AisAuthAdminPassword'') admin ''SU-PASS'' False] else [])
         @ (if hmac \<noteq> [] then [secretKeyEnv (aisenv L ''AisAuthSecretKey'') hmac ''SIGNING-KEY'' False] else [])
         @ (if rsa \<noteq> [] then [secretKeyEnv (aisenv L ''AisAuthPrivateKeyPass'') rsa ''RSA-PASSPHRASE'' False] else []))"

section \<open>Deployment\<close>

record AuthnContainer =
  actr_Name :: string
  actr_Image :: string
  actr_PortName :: string
  actr_Port :: int32
  actr_Env :: "SecretEnv list"
  actr_Mounts :: "AuthnMount list"
  actr_ImagePullPolicy :: string
  actr_Resources :: "k8s_value option"
  actr_SecurityContext :: "k8s_value option"
  actr_LivenessProbe :: "k8s_value option"
  actr_ReadinessProbe :: "k8s_value option"

record AuthnPod =
  apod_Container :: AuthnContainer
  apod_Volumes :: "AuthnVolume list"
  apod_SecurityContext :: "k8s_value option"
  apod_NodeSelector :: string_map
  apod_Tolerations :: "k8s_value option"
  apod_Affinity :: "k8s_value option"
  apod_ImagePullSecrets :: "k8s_value option"

record AuthnDeployment =
  adep_Name :: NamespacedName
  adep_Owner :: OwnerReference
  adep_Labels :: string_map
  adep_Replicas :: int32
  adep_Strategy :: string
  adep_Selector :: string_map
  adep_PodLabels :: string_map
  adep_PodAnnotations :: string_map
  adep_Pod :: AuthnPod

definition containerName :: string where "containerName = ''authn''"
definition DeploymentReplicas :: int32 where "DeploymentReplicas = 1"
definition ConfigChecksumAnnotation :: string where
  "ConfigChecksumAnnotation = ''auth.ais.nvidia.com/config-checksum''"

definition newContainer :: "auth_lib \<Rightarrow> k8s_lib \<Rightarrow> AIStoreAuth \<Rightarrow> ContainerSpec \<Rightarrow> err + AuthnContainer" where
  "newContainer A L authn spec =
     sum_bind (conv_opt (conv_Resources A) (ctr_Resources spec)) (\<lambda>resources.
     sum_bind (conv_opt (conv_SecurityContext A) (ctr_SecurityContext spec)) (\<lambda>securityContext.
     sum_bind (conv_opt (conv_Probe A) (ctr_LivenessProbe spec)) (\<lambda>livenessProbe.
     sum_bind (conv_opt (conv_Probe A) (ctr_ReadinessProbe spec)) (\<lambda>readinessProbe.
     Inr \<lparr>actr_Name = containerName, actr_Image = ctr_Image spec, actr_PortName = portName,
       actr_Port = ListenPort authn, actr_Env = secretEnvVars L authn, actr_Mounts = volumeMounts authn,
       actr_ImagePullPolicy = ctr_ImagePullPolicy spec, actr_Resources = resources,
       actr_SecurityContext = securityContext, actr_LivenessProbe = livenessProbe,
       actr_ReadinessProbe = readinessProbe\<rparr>))))"

definition newPodSpec :: "auth_lib \<Rightarrow> k8s_lib \<Rightarrow> url_lib \<Rightarrow> AIStoreAuth \<Rightarrow> err + AuthnPod" where
  "newPodSpec A L U authn =
     (let spec = as_Deployment (authn_Spec authn) in
      sum_bind (newContainer A L authn (ds_Container spec)) (\<lambda>container.
      let pod = \<lparr>apod_Container = container, apod_Volumes = volumes L U authn, apod_SecurityContext = None,
            apod_NodeSelector = fmempty, apod_Tolerations = None, apod_Affinity = None,
            apod_ImagePullSecrets = None\<rparr>
      in (case ds_Pod spec of
          None \<Rightarrow> Inr pod
        | Some podSpec \<Rightarrow>
            sum_bind (conv_opt (conv_PodSecurityContext A) (ps_SecurityContext podSpec)) (\<lambda>securityContext.
            sum_bind (conv_opt (conv_Tolerations A)
              (if ps_Tolerations podSpec = [] then None else Some (ps_Tolerations podSpec))) (\<lambda>tolerations.
            sum_bind (conv_opt (conv_Affinity A) (ps_Affinity podSpec)) (\<lambda>affinity.
            sum_bind (conv_opt (conv_PullSecrets A)
              (if ps_ImagePullSecrets podSpec = [] then None else Some (ps_ImagePullSecrets podSpec))) (\<lambda>secrets.
            Inr (pod\<lparr>apod_SecurityContext := securityContext, apod_NodeSelector := ps_NodeSelector podSpec,
              apod_Tolerations := tolerations, apod_Affinity := affinity, apod_ImagePullSecrets := secrets\<rparr>))))))))"

definition NewDeployment :: "auth_lib \<Rightarrow> k8s_lib \<Rightarrow> url_lib \<Rightarrow> AIStoreAuth \<Rightarrow> err + AuthnDeployment" where
  "NewDeployment A L U authn =
     sum_bind (renderAuthnJSON A authn) (\<lambda>authnJSON.
     sum_bind (newPodSpec A L U authn) (\<lambda>podSpec.
     Inr \<lparr>adep_Name = authn_DeploymentNSName authn, adep_Owner = NewAIStoreAuthControllerRef authn,
       adep_Labels = resourceLabels authn, adep_Replicas = DeploymentReplicas, adep_Strategy = ''Recreate'',
       adep_Selector = authn_selectorLabels authn, adep_PodLabels = resourceLabels authn,
       adep_PodAnnotations = fmap_of_list [(ConfigChecksumAnnotation, Sha256Hex L authnJSON)],
       adep_Pod = podSpec\<rparr>))"

section \<open>Lemmas\<close>

lemma newPodSpec_parts:
  assumes "newPodSpec A L U authn = Inr pod"
  shows "newContainer A L authn (ds_Container (as_Deployment (authn_Spec authn))) = Inr (apod_Container pod)"
    and "apod_Volumes pod = volumes L U authn"
  using assms by (auto simp: newPodSpec_def Let_def sum_bind_Inr split: option.splits)

lemma newContainer_parts:
  assumes "newContainer A L authn spec = Inr c"
  shows "actr_Port c = ListenPort authn" "actr_PortName c = portName" "actr_Mounts c = volumeMounts authn"
    "actr_Env c = secretEnvVars L authn" "actr_Name c = containerName"
  using assms by (auto simp: newContainer_def sum_bind_Inr)

lemma NewDeployment_parts:
  assumes "NewDeployment A L U authn = Inr d"
  shows "newPodSpec A L U authn = Inr (adep_Pod d)"
    and "\<exists>json. renderAuthnJSON A authn = Inr json \<and>
      adep_PodAnnotations d = fmap_of_list [(ConfigChecksumAnnotation, Sha256Hex L json)]"
    and "adep_Selector d = authn_selectorLabels authn" "adep_PodLabels d = resourceLabels authn"
    "adep_Replicas d = 1" "adep_Name d = authn_DeploymentNSName authn"
  using assms by (auto simp: NewDeployment_def sum_bind_Inr DeploymentReplicas_def)

lemma authn_selector_in_labels:
  "fmlookup (authn_selectorLabels authn) k = Some v \<Longrightarrow> fmlookup (resourceLabels authn) k = Some v"
  by (auto simp: authn_selectorLabels_def resourceLabels_def split: if_splits)

lemma volume_names:
  "map avol_Name (volumes L U authn) = map amnt_Name (volumeMounts authn)"
  using HasTLSEnabled_iff [of authn] by (auto simp: volumes_def volumeMounts_def)

lemma service_names_certified:
  "ServiceName authn @ ''.'' @ authn_Namespace authn @ ''.svc'' \<in> set (certificateDNSNames L U authn config eps)"
  "ServiceName authn @ ''.'' @ authn_Namespace authn \<in> set (certificateDNSNames L U authn config eps)"
  by (auto simp: certificateDNSNames_def appendServiceDNSNames_def Let_def NormalizeSANs_def
      normalize_names_set AppendHosts_names)

end
