(* ===== verification/Auth_Controller.thy ===== *)
theory Auth_Controller
  imports Auth_Resources
begin

text \<open>
  The controller of the \<open>AIStoreAuth\<close> resources (\<^verbatim>\<open>operator/internal/controller/aisauth\<close>): it
  applies the objects of \<open>Auth_Resources\<close>, reports the rollout in the status and, when the resource
  is deleted, releases its data before its finalizer.

  As in \<open>World\<close>, an environment answers every call from the history of calls, and the state is the
  object the reconcile works on with that history, newest first.
\<close>

section \<open>The API server\<close>

text \<open>What the API server answers to an apply of the Deployment; pointers may be nil.\<close>

record DepCondition =
  dc_Type :: "string option"
  dc_Status :: "string option"
  dc_Reason :: "string option"

record DepStatus =
  dst_ObservedGeneration :: "int option"
  dst_Replicas :: "int32 option"
  dst_UpdatedReplicas :: "int32 option"
  dst_AvailableReplicas :: "int32 option"
  dst_Conditions :: "DepCondition list"

record AppliedDeployment =
  ad_Generation :: "int option option" \<comment> \<open>\<open>None\<close> when there is no metadata\<close>
  ad_Replicas :: "int32 option option" \<comment> \<open>\<open>None\<close> when there is no spec\<close>
  ad_Status :: "DepStatus option"

text \<open>Of a live object: its UID, the UID of its controller, for a service its ingress points.\<close>

record LiveObject =
  live_UID :: string
  live_Controller :: "string option"
  live_Ingress :: "(string \<times> string) list"

datatype applied = AppliedCM AuthnConfigMap | AppliedPVC AuthnPVC | AppliedSvc AuthnService | AppliedCert AuthnCertificate

datatype authn_event =
    GotAuthn NamespacedName "err + AIStoreAuth"
  | PatchedAuthn AIStoreAuth AIStoreAuth "err + AIStoreAuth"
  | PatchedAuthnStatus AIStoreAuth AIStoreAuth "err + AIStoreAuth"
  | Applied applied "err + unit"
  | AppliedDep AuthnDeployment "err + AppliedDeployment"
  | GotAuthnPVC NamespacedName "err + LiveObject"
  | ReleasedPVC NamespacedName "err + unit" \<comment> \<open>patched without its controller reference\<close>
  | GotAuthnSvc NamespacedName "err + LiveObject"
  | DeletedSvc NamespacedName string "err + unit" \<comment> \<open>with the UID as a precondition\<close>
  | DeletedCert NamespacedName "err + unit"
  | Recorded string string string \<comment> \<open>reason, action, note\<close>

type_synonym authn_hist = "authn_event list"

record authn_env =
  n_lib :: k8s_lib
  n_auth :: auth_lib
  n_url :: url_lib
  n_removeRef :: "AIStoreAuth \<Rightarrow> LiveObject \<Rightarrow> err + unit" \<comment> \<open>\<open>RemoveControllerReference\<close>\<close>
  n_get :: "authn_hist \<Rightarrow> NamespacedName \<Rightarrow> err + AIStoreAuth"
  n_patch :: "authn_hist \<Rightarrow> AIStoreAuth \<Rightarrow> AIStoreAuth \<Rightarrow> err + AIStoreAuth"
  n_patch_status :: "authn_hist \<Rightarrow> AIStoreAuth \<Rightarrow> AIStoreAuth \<Rightarrow> err + AIStoreAuth"
  n_apply :: "authn_hist \<Rightarrow> applied \<Rightarrow> err + unit"
  n_apply_dep :: "authn_hist \<Rightarrow> AuthnDeployment \<Rightarrow> err + AppliedDeployment"
  n_pvc :: "authn_hist \<Rightarrow> NamespacedName \<Rightarrow> err + LiveObject"
  n_release :: "authn_hist \<Rightarrow> NamespacedName \<Rightarrow> err + unit"
  n_svc :: "authn_hist \<Rightarrow> NamespacedName \<Rightarrow> err + LiveObject"
  n_delete_svc :: "authn_hist \<Rightarrow> NamespacedName \<Rightarrow> string \<Rightarrow> err + unit"
  n_delete_cert :: "authn_hist \<Rightarrow> NamespacedName \<Rightarrow> err + unit"

text \<open>Before the resource has been read there is no object.\<close>

record authn_st =
  an_obj :: AIStoreAuth
  an_hist :: authn_hist

type_synonym 'a authn = "(authn_env, authn_st, 'a) M"

definition ask :: "(authn_env \<Rightarrow> authn_hist \<Rightarrow> err + 'a) \<Rightarrow> (err + 'a \<Rightarrow> authn_event) \<Rightarrow> 'a authn" where
  "ask answer mk = (\<lambda>E s. let r = answer E (an_hist s); s' = s\<lparr>an_hist := mk r # an_hist s\<rparr>
     in (case r of Inl e \<Rightarrow> (Err e, s') | Inr a \<Rightarrow> (Ret a, s')))"

lemma run_ask [run_simps]:
  "ask answer mk E s = (case answer E (an_hist s) of
     Inl e \<Rightarrow> (Err e, s\<lparr>an_hist := mk (Inl e) # an_hist s\<rparr>)
   | Inr a \<Rightarrow> (Ret a, s\<lparr>an_hist := mk (Inr a) # an_hist s\<rparr>))"
  by (simp add: ask_def Let_def split: sum.split)

definition getObj :: "AIStoreAuth authn" where "getObj = gets an_obj"
definition setObj :: "(AIStoreAuth \<Rightarrow> AIStoreAuth) \<Rightarrow> unit authn" where
  "setObj f = modify (\<lambda>s. s\<lparr>an_obj := f (an_obj s)\<rparr>)"

definition authn_Eventf :: "string \<Rightarrow> string \<Rightarrow> string \<Rightarrow> unit authn" where
  "authn_Eventf reason action note = modify (\<lambda>s. s\<lparr>an_hist := Recorded reason action note # an_hist s\<rparr>)"

text \<open>\<open>client.IgnoreNotFound\<close> around a call.\<close>

definition ignoring_NotFound :: "unit authn \<Rightarrow> unit authn" where
  "ignoring_NotFound m = bind (attempt m) (\<lambda>r. case r of
     Inl e \<Rightarrow> if IsNotFound e then ret () else throw e | Inr _ \<Rightarrow> ret ())"

text \<open>A patch replaces the object by the server's answer.\<close>

definition patchObj :: "AIStoreAuth \<Rightarrow> unit authn" where
  "patchObj base = bind getObj (\<lambda>a. bind (ask (\<lambda>E h. n_patch E h base a) (PatchedAuthn base a)) (\<lambda>a'.
     setObj (\<lambda>_. a')))"

definition apply_obj :: "applied \<Rightarrow> unit authn" where
  "apply_obj x = ask (\<lambda>E h. n_apply E h x) (Applied x)"

section \<open>Status\<close>

definition ConditionReady :: string where "ConditionReady = ''Ready''"
definition ReasonAvailable :: string where "ReasonAvailable = ''Available''"
definition ReasonReconcileFailed :: string where "ReasonReconcileFailed = ''ReconcileFailed''"
definition ReasonDeploymentUnavailable :: string where "ReasonDeploymentUnavailable = ''DeploymentUnavailable''"
definition ReasonProgressDeadlineExceeded :: string where
  "ReasonProgressDeadlineExceeded = ''ProgressDeadlineExceeded''"
definition ReasonCleanupFailed :: string where "ReasonCleanupFailed = ''CleanupFailed''"

definition authn_conditions :: "AIStoreAuth \<Rightarrow> (string, AuthCondition) fmap" where
  "authn_conditions a = ast_Conditions (authn_Status a)"

definition with_ready :: "bool \<Rightarrow> string \<Rightarrow> string \<Rightarrow> AIStoreAuth \<Rightarrow> AIStoreAuth" where
  "with_ready status reason message a = a\<lparr>authn_Status := (authn_Status a)\<lparr>ast_Conditions :=
     fmupd ConditionReady \<lparr>acon_True = status, acon_Reason = reason, acon_Message = message,
       acon_ObservedGeneration = authn_Generation a\<rparr> (authn_conditions a)\<rparr>\<rparr>"

definition setReadyCondition :: "bool \<Rightarrow> string \<Rightarrow> string \<Rightarrow> unit authn" where
  "setReadyCondition status reason message = setObj (with_ready status reason message)"

definition isReady :: "AIStoreAuth \<Rightarrow> bool" where
  "isReady a = (case fmlookup (authn_conditions a) ConditionReady of None \<Rightarrow> False | Some c \<Rightarrow> acon_True c)"

definition hasReadyReason :: "AIStoreAuth \<Rightarrow> string \<Rightarrow> bool" where
  "hasReadyReason a reason =
     (case fmlookup (authn_conditions a) ConditionReady of None \<Rightarrow> False | Some c \<Rightarrow> acon_Reason c = reason)"

definition hasReadyFailure :: "AIStoreAuth \<Rightarrow> string \<Rightarrow> bool" where
  "hasReadyFailure a msg =
     (case fmlookup (authn_conditions a) ConditionReady of None \<Rightarrow> False
      | Some c \<Rightarrow> acon_Reason c = ReasonCleanupFailed \<and> acon_Message c = msg)"

definition observed :: "AIStoreAuth \<Rightarrow> AIStoreAuth" where
  "observed a = a\<lparr>authn_Status := (authn_Status a)\<lparr>ast_ObservedGeneration := authn_Generation a,
     ast_ServiceURL := ServiceURLOf a\<rparr>\<rparr>"

definition updateStatus :: "AIStoreAuth \<Rightarrow> unit authn" where
  "updateStatus base = bind (setObj observed) (\<lambda>_. bind getObj (\<lambda>a.
     if authn_Status base = authn_Status a then ret ()
     else ignoring_NotFound (bind (ask (\<lambda>E h. n_patch_status E h base a) (PatchedAuthnStatus base a)) (\<lambda>a'.
            setObj (\<lambda>_. a')))))"

definition authn_recordError :: "string \<Rightarrow> string \<Rightarrow> unit authn" where
  "authn_recordError eventReason msg = bind (authn_Eventf eventReason ''Reconciled'' msg) (\<lambda>_.
     setReadyCondition False ReasonReconcileFailed msg)"

section \<open>Deployment\<close>

definition value_int :: "int option \<Rightarrow> int" where
  "value_int p = (case p of None \<Rightarrow> 0 | Some i \<Rightarrow> i)"

definition isProgressDeadlineExceeded :: "AppliedDeployment \<Rightarrow> bool" where
  "isProgressDeadlineExceeded d =
     (case (ad_Generation d, ad_Status d) of
        (Some generation, Some status) \<Rightarrow>
          value_int (dst_ObservedGeneration status) \<ge> value_int generation \<and>
          (\<exists>c\<in>set (dst_Conditions status). dc_Type c = Some ''Progressing'' \<and> dc_Status c = Some ''False'' \<and>
             dc_Reason c = Some ''ProgressDeadlineExceeded'')
      | _ \<Rightarrow> False)"

definition isRolloutComplete :: "AppliedDeployment \<Rightarrow> bool" where
  "isRolloutComplete d =
     (case (ad_Generation d, ad_Replicas d, ad_Status d) of
        (Some generation, Some replicas, Some status) \<Rightarrow>
          let desired = value_int replicas in
          desired > 0 \<and> value_int (dst_ObservedGeneration status) \<ge> value_int generation \<and>
          value_int (dst_UpdatedReplicas status) = desired \<and>
          value_int (dst_Replicas status) = value_int (dst_UpdatedReplicas status) \<and>
          value_int (dst_AvailableReplicas status) = value_int (dst_UpdatedReplicas status)
      | _ \<Rightarrow> False)"

definition msgAvailable :: string where "msgAvailable = ''AuthN deployment is available''"
definition msgUnavailable :: string where
  "msgUnavailable = ''Waiting for the AuthN deployment to become available''"
definition msgNotProgressing :: string where
  "msgNotProgressing = ''The AuthN deployment rollout is no longer progressing''"

definition rolloutPending :: "AppliedDeployment \<Rightarrow> string \<times> string" where
  "rolloutPending d =
     (if isProgressDeadlineExceeded d then (ReasonProgressDeadlineExceeded, msgNotProgressing)
      else (ReasonDeploymentUnavailable, msgUnavailable))"

definition setReadyFromDeployment :: "AppliedDeployment \<Rightarrow> unit authn" where
  "setReadyFromDeployment d = bind getObj (\<lambda>a.
     if isRolloutComplete d
     then bind (if \<not> isReady a then authn_Eventf ''Ready'' ''Reconciled'' msgAvailable else ret ()) (\<lambda>_.
          setReadyCondition True ReasonAvailable msgAvailable)
     else let (reason, message) = rolloutPending d in
          bind (if reason = ReasonProgressDeadlineExceeded \<and> \<not> hasReadyReason a reason
                then authn_Eventf ''RolloutStalled'' ''Reconciled'' message else ret ()) (\<lambda>_.
          setReadyCondition False reason message))"

definition reconcileDeployment :: "unit authn" where
  "reconcileDeployment = bind getObj (\<lambda>a.
     bind (asks (\<lambda>E. NewDeployment (n_auth E) (n_lib E) (n_url E) a)) (\<lambda>r. bind (of_sum r) (\<lambda>deployment.
     bind (ask (\<lambda>E h. n_apply_dep E h deployment) (AppliedDep deployment)) (\<lambda>answer.
     setReadyFromDeployment answer))))"

section \<open>Services\<close>

text \<open>Not found or not served counts as deleted (\<open>DeleteResourceIfExists\<close>).\<close>

definition allowing_absent :: "unit authn \<Rightarrow> unit authn" where
  "allowing_absent m = bind (attempt m) (\<lambda>r. case r of
     Inl e \<Rightarrow> if IsNotFound e \<or> IsNoMatchError e then ret () else throw (OtherErr ''failed to delete'')
   | Inr _ \<Rightarrow> ret ())"

definition isControlledBy :: "LiveObject \<Rightarrow> AIStoreAuth \<Rightarrow> bool" where
  "isControlledBy x a = (live_Controller x = Some (authn_UID a))"

definition deleteOwnedService :: "NamespacedName \<Rightarrow> unit authn" where
  "deleteOwnedService name = bind getObj (\<lambda>a.
     bind (attempt (ask (\<lambda>E h. n_svc E h name) (GotAuthnSvc name))) (\<lambda>r. case r of
       Inl e \<Rightarrow> if IsNotFound e then ret () else throw e
     | Inr service \<Rightarrow>
         if \<not> isControlledBy service a then ret ()
         else allowing_absent (ask (\<lambda>E h. n_delete_svc E h name (live_UID service))
                (DeletedSvc name (live_UID service)))))"

definition applyOrDeleteService :: "AuthnService option \<Rightarrow> NamespacedName \<Rightarrow> unit authn" where
  "applyOrDeleteService service name = (case service of
     Some svc \<Rightarrow> apply_obj (AppliedSvc svc) | None \<Rightarrow> deleteOwnedService name)"

definition wrapping :: "unit authn \<Rightarrow> string \<Rightarrow> unit authn" where
  "wrapping m msg = bind (attempt m) (\<lambda>r. case r of Inl e \<Rightarrow> throw (Wrapped msg e) | Inr _ \<Rightarrow> ret ())"

definition reconcileServices :: "unit authn" where
  "reconcileServices = bind getObj (\<lambda>a.
     bind (wrapping (apply_obj (AppliedSvc (NewService a))) ''apply in-cluster Service'') (\<lambda>_.
     bind (wrapping (applyOrDeleteService (NewNodePortService a) (NodePortServiceNSName a))
            ''reconcile NodePort Service'') (\<lambda>_.
     wrapping (applyOrDeleteService (NewLoadBalancerService a) (LoadBalancerServiceNSName a))
            ''reconcile LoadBalancer Service'')))"

section \<open>Certificate, ConfigMap and claim\<close>

definition lb_endpoints :: "(string \<times> string) list \<Rightarrow> string list" where
  "lb_endpoints ingress = concat (map (\<lambda>(ip, host).
     (if ip \<noteq> [] then [ip] else []) @ (if host \<noteq> [] then [host] else [])) ingress)"

definition loadBalancerEndpoints :: "string list authn" where
  "loadBalancerEndpoints = bind getObj (\<lambda>a.
     if Option.bind (as_ExternalAccess (authn_Spec a)) ea_LoadBalancer = None then ret []
     else let name = LoadBalancerServiceNSName a in
       bind (attempt (ask (\<lambda>E h. n_svc E h name) (GotAuthnSvc name))) (\<lambda>r. case r of
         Inl e \<Rightarrow> if IsNotFound e then ret [] else throw e
       | Inr svc \<Rightarrow> ret (lb_endpoints (live_Ingress svc))))"

definition deleteCertificate :: "unit authn" where
  "deleteCertificate = bind getObj (\<lambda>a. let name = authn_CertificateNSName a in
     allowing_absent (ask (\<lambda>E h. n_delete_cert E h name) (DeletedCert name)))"

definition reconcileTLSCertificate :: "unit authn" where
  "reconcileTLSCertificate = bind getObj (\<lambda>a.
     if \<not> authn_UseTLSCertificate a then deleteCertificate
     else bind loadBalancerEndpoints (\<lambda>externalEndpoints.
       bind (asks (\<lambda>E. authn_NewCertificate (n_lib E) (n_url E) a externalEndpoints)) (\<lambda>c.
       bind (deref c) (\<lambda>certificate. apply_obj (AppliedCert certificate)))))"

definition reconcileConfigMap :: "unit authn" where
  "reconcileConfigMap = bind getObj (\<lambda>a. bind (asks (\<lambda>E. authn_NewConfigMap (n_auth E) a)) (\<lambda>r.
     bind (of_sum r) (\<lambda>cm. apply_obj (AppliedCM cm))))"

definition reconcilePersistence :: "unit authn" where
  "reconcilePersistence = bind getObj (\<lambda>a. bind (of_sum (NewPVC a)) (\<lambda>pvc. apply_obj (AppliedPVC pvc)))"

definition on_failure :: "unit authn \<Rightarrow> string \<Rightarrow> string \<Rightarrow> unit authn" where
  "on_failure m eventReason msg = bind (attempt m) (\<lambda>r. case r of
     Inl e \<Rightarrow> bind (authn_recordError eventReason msg) (\<lambda>_. throw e) | Inr _ \<Rightarrow> ret ())"

definition reconcileResources :: "unit authn" where
  "reconcileResources =
     bind (on_failure reconcileConfigMap ''ConfigMapFailed'' ''Failed to reconcile ConfigMap'') (\<lambda>_.
     bind (on_failure reconcilePersistence ''PVCFailed'' ''Failed to reconcile PersistentVolumeClaim'') (\<lambda>_.
     bind (on_failure reconcileServices ''ServicesFailed'' ''Failed to reconcile Services'') (\<lambda>_.
     bind (on_failure reconcileTLSCertificate ''CertificateFailed'' ''Failed to reconcile TLS Certificate'') (\<lambda>_.
     on_failure reconcileDeployment ''DeploymentFailed'' ''Failed to reconcile Deployment''))))"

section \<open>Deletion\<close>

definition authnFinalizer :: string where "authnFinalizer = ''auth.ais.nvidia.com/finalizer''"

definition ensureFinalizer :: "unit authn" where
  "ensureFinalizer = bind getObj (\<lambda>a.
     if authnFinalizer \<in> set (authn_Finalizers a) then ret ()
     else bind (setObj (\<lambda>a. a\<lparr>authn_Finalizers := authn_Finalizers a @ [authnFinalizer]\<rparr>)) (\<lambda>_. patchObj a))"

definition recordCleanupFailure :: "string \<Rightarrow> string \<Rightarrow> unit authn" where
  "recordCleanupFailure eventReason msg = bind getObj (\<lambda>a.
     bind (if \<not> hasReadyFailure a msg then authn_Eventf eventReason ''Delete'' msg else ret ()) (\<lambda>_.
     bind (setReadyCondition False ReasonCleanupFailed msg) (\<lambda>_.
     bind (attempt (updateStatus a)) (\<lambda>_. ret ()))))"

definition retainPVC :: "unit authn" where
  "retainPVC = bind getObj (\<lambda>a.
     if ShouldDeletePVC (as_Persistence (authn_Spec a)) then ret ()
     else let name = PVCNSName a in
       bind (attempt (ask (\<lambda>E h. n_pvc E h name) (GotAuthnPVC name))) (\<lambda>r. case r of
         Inl e \<Rightarrow> if IsNotFound e then ret () else throw e
       | Inr pvc \<Rightarrow>
           if \<not> isControlledBy pvc a then ret ()
           else bind (asks (\<lambda>E. n_removeRef E a pvc)) (\<lambda>x. bind (of_sum x) (\<lambda>_.
             ignoring_NotFound (ask (\<lambda>E h. n_release E h name) (ReleasedPVC name))))))"

definition cleanup_authn :: "unit authn" where
  "cleanup_authn = bind (attempt retainPVC) (\<lambda>r. case r of
     Inl e \<Rightarrow> bind (recordCleanupFailure ''PVCRetentionFailed'' ''Failed to retain AuthN data PVC'') (\<lambda>_. throw e)
   | Inr _ \<Rightarrow> ret ())"

definition reconcileDeletion :: "unit authn" where
  "reconcileDeletion = bind getObj (\<lambda>a.
     if authnFinalizer \<notin> set (authn_Finalizers a) then ret ()
     else bind cleanup_authn (\<lambda>_.
       bind (authn_Eventf ''CleanupCompleted'' ''Delete'' ''AIStoreAuth resources cleaned up'') (\<lambda>_.
       bind getObj (\<lambda>base.
       bind (setObj (\<lambda>a. a\<lparr>authn_Finalizers := removeAll authnFinalizer (authn_Finalizers a)\<rparr>)) (\<lambda>_.
       bind (attempt (ignoring_NotFound (patchObj base))) (\<lambda>r. case r of
         Inl e \<Rightarrow> bind (recordCleanupFailure ''FinalizerRemovalFailed'' ''Failed to remove AIStoreAuth finalizer'') (\<lambda>_. throw e)
       | Inr _ \<Rightarrow> ret ()))))))"

section \<open>Reconcile\<close>

text \<open>The results are always empty, so only the error matters.\<close>

definition authn_Reconcile :: "NamespacedName \<Rightarrow> unit authn" where
  "authn_Reconcile name =
     bind (attempt (ask (\<lambda>E h. n_get E h name) (GotAuthn name))) (\<lambda>r. case r of
       Inl e \<Rightarrow> if IsNotFound e then ret () else throw e
     | Inr a \<Rightarrow> bind (setObj (\<lambda>_. a)) (\<lambda>_.
         if authn_Deleted a then reconcileDeletion
         else bind (attempt ensureFinalizer) (\<lambda>r. case r of
           Inl e \<Rightarrow> bind getObj (\<lambda>statusBase.
             bind (authn_recordError ''FinalizerFailed'' ''Failed to add AIStoreAuth finalizer'') (\<lambda>_.
             bind (attempt (updateStatus statusBase)) (\<lambda>_. throw e)))
         | Inr _ \<Rightarrow> bind getObj (\<lambda>base.
             bind (attempt reconcileResources) (\<lambda>reconcileErr.
             bind (attempt (updateStatus base)) (\<lambda>statusErr.
             case reconcileErr of
               Inl e \<Rightarrow> throw e
             | Inr _ \<Rightarrow> (case statusErr of Inl e \<Rightarrow> throw e | Inr _ \<Rightarrow> ret ())))))))"

end
