(* ===== verification/Auth_Runs.thy ===== *)
theory Auth_Runs
  imports Auth_Controller
begin

text \<open>
  How the controller of AuthN servers runs: what each part of a reconcile adds to the history and
  does to the object, up to the cases of a whole reconcile and of a deletion.
\<close>

section \<open>What an operation leaves alone\<close>

text \<open>The events added satisfy a predicate; \<open>works\<close> also leaves the object as it is.\<close>

definition logs :: "(authn_event \<Rightarrow> bool) \<Rightarrow> authn_st \<Rightarrow> authn_st \<Rightarrow> bool" where
  "logs P s s' \<longleftrightarrow> (\<exists>new. an_hist s' = new @ an_hist s \<and> (\<forall>e\<in>set new. P e))"

definition works :: "(authn_event \<Rightarrow> bool) \<Rightarrow> authn_st \<Rightarrow> authn_st \<Rightarrow> bool" where
  "works P s s' \<longleftrightarrow> logs P s s' \<and> an_obj s' = an_obj s"

interpretation logs: step_rel "logs P"
proof unfold_locales
  fix s t u
  show "logs P s s" by (simp add: logs_def)
  assume "logs P s t" "logs P t u"
  then show "logs P s u" unfolding logs_def
    by (elim exE conjE) (rule exI [of _ "_ @ _"], auto)
qed

interpretation works: step_rel "works P"
  by unfold_locales (auto simp: works_def intro: logs.refl logs.trans)

lemma works_logs: "steps E (works P) m \<Longrightarrow> steps E (logs P) m"
  by (erule steps_weaken) (simp add: works_def)

lemma logs_mono: "steps E (logs P) m \<Longrightarrow> (\<And>e. P e \<Longrightarrow> Q e) \<Longrightarrow> steps E (logs Q) m"
  by (erule steps_weaken) (auto simp: logs_def)

lemma works_ask: "(\<And>r. P (mk r)) \<Longrightarrow> steps E (works P) (ask answer mk)"
  by (auto simp: steps_def run_simps works_def logs_def split: sum.split)

lemma works_getObj: "steps E (works P) getObj"
  by (simp add: getObj_def works.steps_gets)

lemma works_event: "P (Recorded r a n) \<Longrightarrow> steps E (works P) (authn_Eventf r a n)"
  by (auto simp: authn_Eventf_def steps_def run_simps works_def logs_def)

lemma logs_setObj: "steps E (logs P) (setObj f)"
  by (simp add: setObj_def steps_def run_simps logs_def)

lemma works_ignoring: "steps E (works P) m \<Longrightarrow> steps E (works P) (ignoring_NotFound m)"
  unfolding ignoring_NotFound_def by (intro works.steps_base steps_intros)

lemma works_absent: "steps E (works P) m \<Longrightarrow> steps E (works P) (allowing_absent m)"
  unfolding allowing_absent_def by (intro works.steps_base steps_intros)

lemma works_wrapping: "steps E (works P) m \<Longrightarrow> steps E (works P) (wrapping m msg)"
  unfolding wrapping_def by (intro works.steps_base steps_intros)

lemma logs_ignoring: "steps E (logs P) m \<Longrightarrow> steps E (logs P) (ignoring_NotFound m)"
  unfolding ignoring_NotFound_def by (intro logs.steps_base steps_intros)

lemmas works_steps = works.steps_base works_getObj works_ignoring works_absent works_wrapping steps_intros
lemmas logs_steps = logs.steps_base logs_setObj logs_ignoring steps_intros

section \<open>How the building blocks run\<close>

lemma run_getObj [run_simps]: "getObj E s = (Ret (an_obj s), s)"
  by (simp add: getObj_def run_simps)

lemma run_bind_getObj: "bind getObj f E s = f (an_obj s) E s"
  by (simp add: run_simps)

lemma bind_asks: "bind (asks g) f E s = f (g E) E s"
  by (simp add: run_simps)

lemma run_setObj [run_simps]: "setObj f E s = (Ret (), s\<lparr>an_obj := f (an_obj s)\<rparr>)"
  by (simp add: setObj_def run_simps)

lemma run_event [run_simps]:
  "authn_Eventf r a n E s = (Ret (), s\<lparr>an_hist := Recorded r a n # an_hist s\<rparr>)"
  by (simp add: authn_Eventf_def run_simps)

lemma run_absent [run_simps]:
  "allowing_absent m E s = (case m E s of (r, s') \<Rightarrow> (case r of Ret a \<Rightarrow> (Ret (), s')
     | Err e \<Rightarrow> (if IsNotFound e \<or> IsNoMatchError e then Ret () else Err (OtherErr ''failed to delete''), s')
     | Panic \<Rightarrow> (Panic, s')))"
  by (simp add: allowing_absent_def run_simps split: prod.split outcome.split)

lemma run_ignoring [run_simps]:
  "ignoring_NotFound m E s = (case m E s of (r, s') \<Rightarrow> (case r of Ret a \<Rightarrow> (Ret (), s')
     | Err e \<Rightarrow> (if IsNotFound e then Ret () else Err e, s') | Panic \<Rightarrow> (Panic, s')))"
  by (simp add: ignoring_NotFound_def run_simps split: prod.split outcome.split)

lemma run_wrapping [run_simps]:
  "wrapping m msg E s = (case m E s of (r, s') \<Rightarrow> (case r of Ret a \<Rightarrow> (Ret (), s')
     | Err e \<Rightarrow> (Err (Wrapped msg e), s') | Panic \<Rightarrow> (Panic, s')))"
  by (simp add: wrapping_def run_simps split: prod.split outcome.split)

lemma run_on_failure [run_simps]:
  "on_failure m reason msg E s = (case m E s of (r, s') \<Rightarrow> (case r of Ret a \<Rightarrow> (Ret (), s')
     | Err e \<Rightarrow> (Err e, s'\<lparr>an_obj := with_ready False ReasonReconcileFailed msg (an_obj s'),
         an_hist := Recorded reason ''Reconciled'' msg # an_hist s'\<rparr>)
     | Panic \<Rightarrow> (Panic, s')))"
  by (simp add: on_failure_def authn_recordError_def setReadyCondition_def run_simps split: prod.split outcome.split)

section \<open>The parts of a reconcile\<close>

text \<open>
  A reconcile that converges the objects applies them, and deletes only the external services that
  its object controls and the certificate under the name derived from it; the object itself stays.
\<close>

fun converging :: "AIStoreAuth \<Rightarrow> authn_event \<Rightarrow> bool" where
  "converging a (Applied x r) = True"
| "converging a (GotAuthnSvc n r) = True"
| "converging a (DeletedSvc n uid r) = (n = NodePortServiceNSName a \<or> n = LoadBalancerServiceNSName a)"
| "converging a (DeletedCert n r) = (n = authn_CertificateNSName a)"
| "converging a _ = False"

definition converges :: "authn_st \<Rightarrow> authn_st \<Rightarrow> bool" where
  "converges s s' \<longleftrightarrow> works (converging (an_obj s)) s s'"

lemma converges_new:
  "converges s s' \<longleftrightarrow> an_obj s' = an_obj s \<and>
     (\<exists>new. an_hist s' = new @ an_hist s \<and> (\<forall>e\<in>set new. converging (an_obj s) e))"
  by (auto simp: converges_def works_def logs_def)

lemma converges_one:
  "an_obj s' = an_obj s \<Longrightarrow> an_hist s' = e # an_hist s \<Longrightarrow> converging (an_obj s) e \<Longrightarrow> converges s s'"
  unfolding converges_new by (intro conjI exI [of _ "[e]"]) auto

interpretation converges: step_rel converges
  by unfold_locales (auto simp: converges_def works_def intro: logs.refl logs.trans)

text \<open>An operation at a state: it converges and does not panic.\<close>

definition part :: "authn_env \<Rightarrow> 'a authn \<Rightarrow> authn_st \<Rightarrow> bool" where
  "part E m s \<longleftrightarrow> converges s (snd (m E s)) \<and> fst (m E s) \<noteq> Panic"

lemma part_apply: "part E (apply_obj x) s"
  by (auto simp: part_def apply_obj_def run_simps intro!: converges_one converges.refl split: sum.split)

lemma part_bind:
  assumes "part E m s" and "\<And>a s'. m E s = (Ret a, s') \<Longrightarrow> an_obj s' = an_obj s \<Longrightarrow> part E (f a) s'"
  shows "part E (bind m f) s"
proof -
  obtain r s1 where m: "m E s = (r, s1)" by (cases "m E s")
  with assms(1) have 1: "converges s s1" "r \<noteq> Panic" by (auto simp: part_def)
  show ?thesis
  proof (cases r)
    case (Ret a)
    have "part E (f a) s1" using assms(2) m Ret 1(1) by (simp add: converges_new)
    with 1 m Ret show ?thesis by (auto simp: part_def run_simps intro: converges.trans)
  qed (use 1 m in \<open>auto simp: part_def run_simps\<close>)
qed

lemma part_getObj: "part E (f (an_obj s)) s \<Longrightarrow> part E (bind getObj f) s"
  by (simp add: part_def run_simps)

lemma part_asks: "part E (f (g E)) s \<Longrightarrow> part E (bind (asks g) f) s"
  by (simp add: part_def run_simps)

lemma part_of_sum: "(\<And>y. x = Inr y \<Longrightarrow> part E (f y) s) \<Longrightarrow> part E (bind (of_sum x) f) s"
  by (cases x) (simp_all add: part_def run_simps converges.refl)

lemma part_wrapping: "part E m s \<Longrightarrow> part E (wrapping m msg) s"
  by (auto simp: part_def run_simps split: prod.split outcome.split)

lemma part_deleteOwnedService:
  assumes "name = NodePortServiceNSName (an_obj s) \<or> name = LoadBalancerServiceNSName (an_obj s)"
  shows "part E (deleteOwnedService name) s"
  using assms by (auto simp: part_def deleteOwnedService_def run_simps converges_new split: sum.split)

lemma part_applyOrDelete:
  assumes "name = NodePortServiceNSName (an_obj s) \<or> name = LoadBalancerServiceNSName (an_obj s)"
  shows "part E (applyOrDeleteService svc name) s"
  using assms by (auto simp: applyOrDeleteService_def intro: part_apply part_deleteOwnedService split: option.split)

lemma part_configMap: "part E reconcileConfigMap s"
  unfolding reconcileConfigMap_def by (intro part_getObj part_asks part_of_sum part_apply)

lemma part_persistence: "part E reconcilePersistence s"
  unfolding reconcilePersistence_def by (intro part_getObj part_of_sum part_apply)

lemma part_services: "part E reconcileServices s"
  unfolding reconcileServices_def
  by (intro part_getObj part_bind part_wrapping part_apply part_applyOrDelete) auto

lemma part_endpoints: "part E loadBalancerEndpoints s"
  by (auto simp: part_def loadBalancerEndpoints_def Let_def run_simps converges_new split: sum.split)

lemma part_certificate: "part E reconcileTLSCertificate s"
proof (cases "authn_UseTLSCertificate (an_obj s)")
  case True
  then obtain config where c: "authn_GetTLSCertificate (an_obj s) = Some config"
    by (auto simp: authn_UseTLSCertificate_def split: option.splits)
  show ?thesis unfolding reconcileTLSCertificate_def
    by (rule part_getObj) (auto simp: True authn_NewCertificate_def c deref_def
        intro!: part_bind [OF part_endpoints] part_asks part_apply)
next
  case False
  then show ?thesis
    by (auto simp: reconcileTLSCertificate_def deleteCertificate_def Let_def part_def run_simps converges_new
        split: sum.split)
qed

section \<open>A whole convergence\<close>

text \<open>Its events; what a success has applied; the rollout behind a claim to be ready.\<close>

fun resource_event :: "AIStoreAuth \<Rightarrow> authn_event \<Rightarrow> bool" where
  "resource_event a (AppliedDep d r) = True"
| "resource_event a (Recorded r x n) = True"
| "resource_event a e = converging a e"

definition applied_all :: "authn_env \<Rightarrow> AIStoreAuth \<Rightarrow> authn_event list \<Rightarrow> bool" where
  "applied_all E a events \<longleftrightarrow>
     (\<exists>cm. authn_NewConfigMap (n_auth E) a = Inr cm \<and> Applied (AppliedCM cm) (Inr ()) \<in> set events) \<and>
     (\<exists>pvc. NewPVC a = Inr pvc \<and> Applied (AppliedPVC pvc) (Inr ()) \<in> set events) \<and>
     Applied (AppliedSvc (NewService a)) (Inr ()) \<in> set events \<and>
     (\<forall>svc. NewNodePortService a = Some svc \<or> NewLoadBalancerService a = Some svc \<longrightarrow>
        Applied (AppliedSvc svc) (Inr ()) \<in> set events) \<and>
     (authn_UseTLSCertificate a \<longrightarrow> (\<exists>eps c. authn_NewCertificate (n_lib E) (n_url E) a eps = Some c \<and>
        Applied (AppliedCert c) (Inr ()) \<in> set events)) \<and>
     (\<exists>d answer. NewDeployment (n_auth E) (n_lib E) (n_url E) a = Inr d \<and> AppliedDep d (Inr answer) \<in> set events)"

definition rolled_out :: "authn_env \<Rightarrow> AIStoreAuth \<Rightarrow> authn_event list \<Rightarrow> bool" where
  "rolled_out E a events \<longleftrightarrow> (\<exists>d answer. NewDeployment (n_auth E) (n_lib E) (n_url E) a = Inr d \<and>
     AppliedDep d (Inr answer) \<in> set events \<and> isRolloutComplete answer)"

lemma ready_with_ready: "isReady (with_ready b reason msg a) = b"
  by (simp add: isReady_def with_ready_def authn_conditions_def)

lemma with_ready_status: "\<exists>st. with_ready b reason msg a = a\<lparr>authn_Status := st\<rparr>"
  unfolding with_ready_def by (rule exI, rule refl)

lemma converging_resource: "converging a e \<Longrightarrow> resource_event a e"
  by (cases e) auto

lemma configMap_Ret:
  assumes "reconcileConfigMap E s = (Ret (), s')"
  shows "\<exists>cm. authn_NewConfigMap (n_auth E) (an_obj s) = Inr cm \<and> an_hist s' = Applied (AppliedCM cm) (Inr ()) # an_hist s"
  using assms by (auto simp: reconcileConfigMap_def apply_obj_def run_simps split: sum.splits)

lemma persistence_Ret:
  assumes "reconcilePersistence E s = (Ret (), s')"
  shows "\<exists>pvc. NewPVC (an_obj s) = Inr pvc \<and> an_hist s' = Applied (AppliedPVC pvc) (Inr ()) # an_hist s"
  using assms by (auto simp: reconcilePersistence_def apply_obj_def run_simps split: sum.splits)

lemma apply_Ret:
  "apply_obj x E s = (Ret (), s') \<Longrightarrow> an_hist s' = Applied x (Inr ()) # an_hist s \<and> an_obj s' = an_obj s"
  by (auto simp: apply_obj_def run_simps split: sum.splits)

lemma wrapping_Ret: "wrapping m msg E s = (Ret (), s') \<Longrightarrow> m E s = (Ret (), s')"
  by (auto simp: run_simps split: prod.splits outcome.splits if_splits)

lemma part_grows: "part E m s \<Longrightarrow> m E s = (r, s') \<Longrightarrow> \<exists>new. an_hist s' = new @ an_hist s \<and> an_obj s' = an_obj s"
  by (auto simp: part_def converges_new)

lemma applyOrDelete_Ret:
  assumes "applyOrDeleteService svc name E s = (Ret (), s')" "svc = Some x"
  shows "an_hist s' = Applied (AppliedSvc x) (Inr ()) # an_hist s"
  using assms apply_Ret by (fastforce simp: applyOrDeleteService_def)

lemma services_Ret:
  assumes "reconcileServices E s = (Ret (), s')"
  shows "\<exists>new. an_hist s' = new @ an_hist s \<and> Applied (AppliedSvc (NewService (an_obj s))) (Inr ()) \<in> set new \<and>
     (\<forall>svc. NewNodePortService (an_obj s) = Some svc \<or> NewLoadBalancerService (an_obj s) = Some svc \<longrightarrow>
        Applied (AppliedSvc svc) (Inr ()) \<in> set new)"
proof -
  let ?a = "an_obj s"
  from assms obtain s1 s2 where
    1: "apply_obj (AppliedSvc (NewService ?a)) E s = (Ret (), s1)" and
    2: "applyOrDeleteService (NewNodePortService ?a) (NodePortServiceNSName ?a) E s1 = (Ret (), s2)" and
    3: "applyOrDeleteService (NewLoadBalancerService ?a) (LoadBalancerServiceNSName ?a) E s2 = (Ret (), s')"
    by (auto simp: reconcileServices_def run_bind_getObj elim!: bind_RetE dest!: wrapping_Ret)
  have o1: "an_obj s1 = ?a" using apply_Ret [OF 1] by simp
  obtain n2 where n2: "an_hist s2 = n2 @ an_hist s1" "an_obj s2 = ?a"
    using part_grows [OF part_applyOrDelete 2] o1 by auto
  obtain n3 where n3: "an_hist s' = n3 @ an_hist s2"
    using part_grows [OF part_applyOrDelete 3] n2 by auto
  have "Applied (AppliedSvc svc) (Inr ()) \<in> set n2" if "NewNodePortService ?a = Some svc" for svc
    using applyOrDelete_Ret [OF 2 that] n2(1) by simp
  moreover have "Applied (AppliedSvc svc) (Inr ()) \<in> set n3" if "NewLoadBalancerService ?a = Some svc" for svc
    using applyOrDelete_Ret [OF 3 that] n3 by simp
  ultimately show ?thesis using apply_Ret [OF 1] n2 n3
    by (intro exI [of _ "n3 @ n2 @ [Applied (AppliedSvc (NewService ?a)) (Inr ())]"]) auto
qed

lemma certificate_Ret:
  assumes "reconcileTLSCertificate E s = (Ret (), s')"
  shows "\<exists>new. an_hist s' = new @ an_hist s \<and> (authn_UseTLSCertificate (an_obj s) \<longrightarrow>
     (\<exists>eps c. authn_NewCertificate (n_lib E) (n_url E) (an_obj s) eps = Some c \<and> Applied (AppliedCert c) (Inr ()) \<in> set new))"
proof (cases "authn_UseTLSCertificate (an_obj s)")
  case False
  then show ?thesis using part_grows [OF part_certificate assms] by simp
next
  case True
  then have "bind loadBalancerEndpoints (\<lambda>eps.
      bind (asks (\<lambda>E. authn_NewCertificate (n_lib E) (n_url E) (an_obj s) eps)) (\<lambda>c.
      bind (deref c) (\<lambda>c. apply_obj (AppliedCert c)))) E s = (Ret (), s')"
    using assms by (simp add: reconcileTLSCertificate_def run_bind_getObj)
  then obtain eps s1 c where 1: "loadBalancerEndpoints E s = (Ret eps, s1)" and
    c: "authn_NewCertificate (n_lib E) (n_url E) (an_obj s) eps = Some c" "apply_obj (AppliedCert c) E s1 = (Ret (), s')"
    by (auto elim!: bind_RetE simp: run_asks deref_def run_throw run_panic run_ret split: option.splits)
  from part_grows [OF part_endpoints 1] obtain new where "an_hist s1 = new @ an_hist s" by blast
  with apply_Ret [OF c(2)] c(1) show ?thesis
    by (intro exI [of _ "Applied (AppliedCert c) (Inr ()) # new"]) auto
qed

text \<open>A failure on the way ends the convergence with a condition that says so.\<close>

lemma failure_then:
  assumes "bind (on_failure m reason msg) (\<lambda>_. k) E s = (r, s')" and "part E m s"
  obtains (failed) e new where "r = Err e" "\<not> isReady (an_obj s')" "\<exists>st. an_obj s' = (an_obj s)\<lparr>authn_Status := st\<rparr>"
      "an_hist s' = new @ an_hist s" "\<forall>e\<in>set new. resource_event (an_obj s) e"
    | (went_on) s1 where "m E s = (Ret (), s1)" "k E s1 = (r, s')" "an_obj s1 = an_obj s" "converges s s1"
proof -
  obtain r1 s1 where m: "m E s = (r1, s1)" by (cases "m E s")
  with assms(2) have 1: "r1 \<noteq> Panic" "converges s s1" by (auto simp: part_def)
  then obtain new where new: "an_hist s1 = new @ an_hist s" "\<forall>e\<in>set new. converging (an_obj s) e"
    and o: "an_obj s1 = an_obj s" by (auto simp: converges_new)
  show thesis
  proof (cases r1)
    case (Ret u)
    then show ?thesis using went_on [of s1] m o 1 assms(1) by (simp add: run_simps)
  next
    case (Err e)
    with m assms(1) have "r = Err e" "an_hist s' = Recorded reason ''Reconciled'' msg # an_hist s1"
      "an_obj s' = with_ready False ReasonReconcileFailed msg (an_obj s1)"
      by (auto simp: run_simps)
    then show ?thesis using failed [of e "Recorded reason ''Reconciled'' msg # new"] new o
        ready_with_ready [of False] with_ready_status converging_resource by auto
  qed (use 1 in simp)
qed

lemma setReady_run:
  assumes "setReadyFromDeployment answer E s = (r, s')"
  shows "r = Ret ()"
    and "\<exists>reason msg. an_obj s' = with_ready (isRolloutComplete answer) reason msg (an_obj s)"
    and "an_hist s' = an_hist s \<or> (\<exists>reason action note. an_hist s' = Recorded reason action note # an_hist s)"
  using assms by (cases "rolloutPending answer",
    auto simp: setReadyFromDeployment_def setReadyCondition_def Let_def run_simps split: if_splits)+

lemma deployment_run:
  assumes "on_failure reconcileDeployment reason msg E s = (r, s')"
  shows "r \<noteq> Panic \<and> (\<exists>st. an_obj s' = (an_obj s)\<lparr>authn_Status := st\<rparr>) \<and>
    (\<exists>new. an_hist s' = new @ an_hist s \<and> (\<forall>e\<in>set new. resource_event (an_obj s) e) \<and>
      (isReady (an_obj s') \<longrightarrow> rolled_out E (an_obj s) new) \<and>
      (r = Ret () \<longrightarrow> (\<exists>d answer. NewDeployment (n_auth E) (n_lib E) (n_url E) (an_obj s) = Inr d \<and>
         AppliedDep d (Inr answer) \<in> set new)))"
proof (cases "NewDeployment (n_auth E) (n_lib E) (n_url E) (an_obj s)")
  case (Inl e)
  with assms show ?thesis
    by (auto simp: reconcileDeployment_def run_simps ready_with_ready with_ready_status intro!: exI [of _ "[_]"])
next
  case d: (Inr d)
  show ?thesis
  proof (cases "n_apply_dep E (an_hist s) d")
    case (Inl e)
    with assms d show ?thesis
      by (auto simp: reconcileDeployment_def run_simps ready_with_ready with_ready_status intro!: exI [of _ "[_, _]"])
  next
    case (Inr answer)
    let ?s1 = "s\<lparr>an_hist := AppliedDep d (Inr answer) # an_hist s\<rparr>"
    obtain r2 s2 where 2: "setReadyFromDeployment answer E ?s1 = (r2, s2)"
      by (cases "setReadyFromDeployment answer E ?s1")
    note run = setReady_run [OF 2]
    have "r = Ret ()" "s' = s2"
      using assms d Inr 2 run(1) by (auto simp: reconcileDeployment_def run_simps)
    moreover obtain tail where "an_hist s2 = tail @ AppliedDep d (Inr answer) # an_hist s"
      "\<forall>e\<in>set tail. resource_event (an_obj s) e"
      using run(3) by (elim disjE exE) (rule that [of "[]"], simp, simp, rule that [of "[_]"], auto)
    moreover obtain reason2 msg2 where "an_obj s2 = with_ready (isRolloutComplete answer) reason2 msg2 (an_obj s)"
      using run(2) by auto
    ultimately show ?thesis using d with_ready_status ready_with_ready
      by (auto simp: rolled_out_def intro!: exI [of _ "tail @ [AppliedDep d (Inr answer)]"])
  qed
qed

lemma resources_stages:
  assumes "reconcileResources E s = (r, s')"
  obtains (stopped) e new where "r = Err e" "\<not> isReady (an_obj s')" "\<exists>st. an_obj s' = (an_obj s)\<lparr>authn_Status := st\<rparr>"
      "an_hist s' = new @ an_hist s" "\<forall>e\<in>set new. resource_event (an_obj s) e"
    | (deployed) s1 s2 s3 s4 where "reconcileConfigMap E s = (Ret (), s1)" "reconcilePersistence E s1 = (Ret (), s2)"
      "reconcileServices E s2 = (Ret (), s3)" "reconcileTLSCertificate E s3 = (Ret (), s4)"
      "on_failure reconcileDeployment ''DeploymentFailed'' ''Failed to reconcile Deployment'' E s4 = (r, s')"
      "converges s s1" "converges s1 s2" "converges s2 s3" "converges s3 s4"
proof -
  have stuck: thesis
    if "r = Err e" "\<not> isReady (an_obj s')" "\<exists>st. an_obj s' = (an_obj t)\<lparr>authn_Status := st\<rparr>"
      "an_hist s' = new @ an_hist t" "\<forall>e\<in>set new. resource_event (an_obj t) e" "converges s t" for e t new
  proof -
    from that(6) obtain old where "an_hist t = old @ an_hist s" "an_obj t = an_obj s" "\<forall>e\<in>set old. resource_event (an_obj s) e"
      using converging_resource by (auto simp: converges_new)
    with that(1-5) show thesis by (intro stopped [of e "new @ old"]) auto
  qed
  note stages = assms [unfolded reconcileResources_def]
  from stages part_configMap show thesis
  proof (cases rule: failure_then)
    case (failed e new)
    then show thesis by (rule stuck) (rule converges.refl)
  next
    case 1: (went_on s1)
    from 1(2) part_persistence show thesis
    proof (cases rule: failure_then)
      case (failed e new)
      then show thesis by (rule stuck) (rule 1)
    next
      case 2: (went_on s2)
      from 2(2) part_services show thesis
      proof (cases rule: failure_then)
        case (failed e new)
        then show thesis by (rule stuck) (rule converges.trans [OF 1(4) 2(4)])
      next
        case 3: (went_on s3)
        from 3(2) part_certificate show thesis
        proof (cases rule: failure_then)
          case (failed e new)
          then show thesis by (rule stuck) (rule converges.trans [OF converges.trans [OF 1(4) 2(4)] 3(4)])
        next
          case 4: (went_on s4)
          show thesis by (rule deployed [OF 1(1) 2(1) 3(1) 4(1,2) 1(4) 2(4) 3(4) 4(4)])
        qed
      qed
    qed
  qed
qed

lemma resources_run:
  assumes "reconcileResources E s = (r, s')"
  shows "r \<noteq> Panic \<and> (\<exists>st. an_obj s' = (an_obj s)\<lparr>authn_Status := st\<rparr>) \<and>
    (\<exists>new. an_hist s' = new @ an_hist s \<and> (\<forall>e\<in>set new. resource_event (an_obj s) e) \<and>
      (isReady (an_obj s') \<longrightarrow> rolled_out E (an_obj s) new) \<and>
      (r = Ret () \<longrightarrow> applied_all E (an_obj s) new))"
  using assms
proof (cases rule: resources_stages)
  case (stopped e new)
  then show ?thesis by auto
next
  case (deployed s1 s2 s3 s4)
  let ?a = "an_obj s"
  have o: "an_obj s1 = ?a" "an_obj s2 = ?a" "an_obj s3 = ?a" "an_obj s4 = ?a"
    using deployed(6-9) by (simp_all add: converges_new)
  from configMap_Ret [OF deployed(1)] obtain cm where
    h1: "authn_NewConfigMap (n_auth E) ?a = Inr cm" "an_hist s1 = Applied (AppliedCM cm) (Inr ()) # an_hist s"
    by auto
  from persistence_Ret [OF deployed(2)] obtain pvc where
    h2: "NewPVC ?a = Inr pvc" "an_hist s2 = Applied (AppliedPVC pvc) (Inr ()) # an_hist s1"
    using o by auto
  from services_Ret [OF deployed(3)] obtain n3 where h3: "an_hist s3 = n3 @ an_hist s2"
    "Applied (AppliedSvc (NewService ?a)) (Inr ()) \<in> set n3"
    "\<forall>svc. NewNodePortService ?a = Some svc \<or> NewLoadBalancerService ?a = Some svc \<longrightarrow>
       Applied (AppliedSvc svc) (Inr ()) \<in> set n3"
    using o by auto
  from certificate_Ret [OF deployed(4)] obtain n4 where h4: "an_hist s4 = n4 @ an_hist s3"
    "authn_UseTLSCertificate ?a \<longrightarrow> (\<exists>eps c. authn_NewCertificate (n_lib E) (n_url E) ?a eps = Some c \<and>
       Applied (AppliedCert c) (Inr ()) \<in> set n4)"
    unfolding o by (elim exE conjE)
  have events: "\<forall>e\<in>set n3. resource_event ?a e" "\<forall>e\<in>set n4. resource_event ?a e"
    using deployed(8,9) h3(1) h4(1) converging_resource o by (auto simp: converges_new)
  from deployment_run [OF deployed(5)] obtain n5 where
    h5: "r \<noteq> Panic" "\<exists>st. an_obj s' = ?a\<lparr>authn_Status := st\<rparr>" "an_hist s' = n5 @ an_hist s4"
    "\<forall>e\<in>set n5. resource_event ?a e" "isReady (an_obj s') \<longrightarrow> rolled_out E ?a n5"
    "r = Ret () \<longrightarrow> (\<exists>d answer. NewDeployment (n_auth E) (n_lib E) (n_url E) ?a = Inr d \<and>
       AppliedDep d (Inr answer) \<in> set n5)"
    using o by auto
  let ?new = "n5 @ n4 @ n3 @ [Applied (AppliedPVC pvc) (Inr ()), Applied (AppliedCM cm) (Inr ())]"
  have "an_hist s' = ?new @ an_hist s" using h1 h2 h3(1) h4(1) h5(3) by simp
  moreover have "\<forall>e\<in>set ?new. resource_event ?a e" using events h5(4) by auto
  moreover have "isReady (an_obj s') \<longrightarrow> rolled_out E ?a ?new" using h5(5) by (auto simp: rolled_out_def)
  moreover have "r = Ret () \<longrightarrow> applied_all E ?a ?new"
    using h1(1) h2(1) h3(2,3) h4(2) h5(6) by (auto simp: applied_all_def)
  ultimately show ?thesis using h5(1,2) by blast
qed

section \<open>Status and finalizer\<close>

text \<open>Writing the status: at most one patch, of the object with its generation observed.\<close>

lemma updateStatus_run:
  assumes "updateStatus base E s = (r, s')"
  shows "r \<noteq> Panic \<and> (an_hist s' = an_hist s \<or>
     (\<exists>x. an_hist s' = PatchedAuthnStatus base (observed (an_obj s)) x # an_hist s))"
  using assms by (auto simp: updateStatus_def run_simps split: if_splits sum.splits)

lemma observed_parts:
  "isReady (observed a) = isReady a" "ast_ObservedGeneration (authn_Status (observed a)) = authn_Generation (observed a)"
  "\<exists>st. observed a = a\<lparr>authn_Status := st\<rparr>"
  by (auto simp: observed_def isReady_def authn_conditions_def intro: exI [where x = "_ :: AIStoreAuthStatus"])

lemma ensureFinalizer_run:
  assumes "ensureFinalizer E s = (r, s')"
  shows "r \<noteq> Panic \<and>
    (authnFinalizer \<in> set (authn_Finalizers (an_obj s)) \<and> s' = s \<and> r = Ret () \<or>
     (\<exists>a. authnFinalizer \<in> set (authn_Finalizers a) \<and>
       ((\<exists>e. r = Err e \<and> an_hist s' = PatchedAuthn (an_obj s) a (Inl e) # an_hist s) \<or>
        r = Ret () \<and> an_hist s' = PatchedAuthn (an_obj s) a (Inr (an_obj s')) # an_hist s)))"
  using assms by (auto simp: ensureFinalizer_def patchObj_def run_simps split: if_splits sum.splits)

lemma built_status [simp]:
  "authn_GetTLSCertificate (a\<lparr>authn_Status := st\<rparr>) = authn_GetTLSCertificate a"
  "authn_UseTLSSecret (a\<lparr>authn_Status := st\<rparr>) = authn_UseTLSSecret a"
  by (simp_all add: authn_GetTLSCertificate_def authn_UseTLSSecret_def)

lemma built_status2 [simp]:
  "authn_HasTLSEnabled (a\<lparr>authn_Status := st\<rparr>) = authn_HasTLSEnabled a"
  "authn_UseTLSCSI (a\<lparr>authn_Status := st\<rparr>) = authn_UseTLSCSI a"
  "authn_UseTLSCertificate (a\<lparr>authn_Status := st\<rparr>) = authn_UseTLSCertificate a"
  "authn_GetTLSSecretName (a\<lparr>authn_Status := st\<rparr>) = authn_GetTLSSecretName a"
  "ListenPort (a\<lparr>authn_Status := st\<rparr>) = ListenPort a"
  "ServiceName (a\<lparr>authn_Status := st\<rparr>) = ServiceName a"
  by (simp_all add: authn_HasTLSEnabled_def authn_UseTLSCSI_def authn_UseTLSCertificate_def
      authn_GetTLSSecretName_def ListenPort_def ServiceName_def)

lemma ServiceURLOf_status [simp]: "ServiceURLOf (a\<lparr>authn_Status := st\<rparr>) = ServiceURLOf a"
  by (simp add: ServiceURLOf_def)

lemma NewDeployment_status [simp]:
  "NewDeployment A L U (a\<lparr>authn_Status := st\<rparr>) = NewDeployment A L U a"
  by (simp add: NewDeployment_def renderAuthnJSON_def authn_GenerateConfig_def rendered_config_def
      renderLogConfig_def renderNetConfig_def renderServerConfig_def renderTimeoutConfig_def newPodSpec_def
      newContainer_def volumes_def volumeMounts_def secretEnvVars_def tlsCSIVolumeAttributes_def
      certificateDNSNames_def configuredExternalURLHost_def ServiceName_def PVCName_def ConfigMapName_def
      authn_DeploymentNSName_def DeploymentName_def in_authn_namespace_def NewAIStoreAuthControllerRef_def
      resourceLabels_def authn_selectorLabels_def cong: option.case_cong if_cong)

section \<open>The cases of a reconcile\<close>

lemma reconcile_cases:
  assumes "authn_Reconcile name E s = (r, s')"
  obtains (unread) e where "r \<noteq> Panic" "an_hist s' = GotAuthn name (Inl e) # an_hist s"
      "n_get E (an_hist s) name = Inl e"
    | (deleting) a s1 where "n_get E (an_hist s) name = Inr a" "authn_Deleted a" "an_obj s1 = a"
      "an_hist s1 = GotAuthn name (Inr a) # an_hist s" "reconcileDeletion E s1 = (r, s')"
    | (no_finalizer) e a b tail where "r = Err e" "n_get E (an_hist s) name = Inr a" "\<not> authn_Deleted a"
      "authnFinalizer \<in> set (authn_Finalizers b)" "an_hist s' = tail @ PatchedAuthn a b (Inl e) # GotAuthn name (Inr a) # an_hist s"
      "\<forall>x\<in>set tail. (\<exists>u v w. x = Recorded u v w) \<or> (\<exists>u v w. x = PatchedAuthnStatus u v w \<and> \<not> isReady v)"
    | (converging) a s1 s2 s3 r3 r4 where "n_get E (an_hist s) name = Inr a" "\<not> authn_Deleted a" "an_obj s1 = a"
      "an_hist s1 = GotAuthn name (Inr a) # an_hist s" "ensureFinalizer E s1 = (Ret (), s2)"
      "reconcileResources E s2 = (r3, s3)" "updateStatus (an_obj s2) E s3 = (r4, s')"
      "r \<noteq> Panic" "r = Ret () \<longrightarrow> r3 = Ret ()"
proof (cases "n_get E (an_hist s) name")
  case (Inl e)
  with assms unread show ?thesis by (auto simp: authn_Reconcile_def run_simps split: if_splits)
next
  case a: (Inr a)
  let ?s1 = "s\<lparr>an_hist := GotAuthn name (Inr a) # an_hist s, an_obj := a\<rparr>"
  obtain r2 s2 where 2: "ensureFinalizer E ?s1 = (r2, s2)" by (cases "ensureFinalizer E ?s1")
  note ran = ensureFinalizer_run [OF 2]
  show ?thesis
  proof (cases "authn_Deleted a")
    case True
    with assms a show ?thesis by (intro deleting [of a ?s1]) (auto simp: authn_Reconcile_def run_simps)
  next
    case live: False
    show ?thesis
    proof (cases r2)
      case (Err e)
      with ran obtain b where b: "authnFinalizer \<in> set (authn_Finalizers b)"
        "an_hist s2 = PatchedAuthn a b (Inl e) # GotAuthn name (Inr a) # an_hist s" by auto
      let ?s3 = "s2\<lparr>an_hist := Recorded ''FinalizerFailed'' ''Reconciled'' ''Failed to add AIStoreAuth finalizer'' # an_hist s2,
        an_obj := with_ready False ReasonReconcileFailed ''Failed to add AIStoreAuth finalizer'' (an_obj s2)\<rparr>"
      obtain r4 s4 where 4: "updateStatus (an_obj s2) E ?s3 = (r4, s4)" by (cases "updateStatus (an_obj s2) E ?s3")
      note up = updateStatus_run [OF 4]
      have "r = Err e" "s' = s4"
        using assms a live 2 Err 4 up
        by (auto simp: authn_Reconcile_def authn_recordError_def setReadyCondition_def run_simps split: outcome.splits)
      moreover have "\<not> isReady (observed (an_obj ?s3))" by (simp add: observed_parts ready_with_ready)
      moreover obtain tail where "an_hist s4 = tail @ PatchedAuthn a b (Inl e) # GotAuthn name (Inr a) # an_hist s"
        "\<forall>x\<in>set tail. (\<exists>u v w. x = Recorded u v w) \<or> (\<exists>u v w. x = PatchedAuthnStatus u v w \<and> \<not> isReady v)"
        using up b(2) calculation(3)
        by (elim conjE disjE exE) (rule that [of "[_]"], simp, simp, rule that [of "[_, _]"], auto)
      ultimately show ?thesis using no_finalizer [of e a b tail] a live b(1) by blast
    next
      case (Ret u)
      obtain r3 s3 where 3: "reconcileResources E s2 = (r3, s3)" by (cases "reconcileResources E s2")
      obtain r4 s4 where 4: "updateStatus (an_obj s2) E s3 = (r4, s4)" by (cases "updateStatus (an_obj s2) E s3")
      from resources_run [OF 3] updateStatus_run [OF 4] have np: "r3 \<noteq> Panic" "r4 \<noteq> Panic" by auto
      have "s' = s4 \<and> r \<noteq> Panic \<and> (r = Ret () \<longrightarrow> r3 = Ret ())"
        using assms a live 2 Ret 3 4 np
        by (auto simp: authn_Reconcile_def run_simps split: outcome.splits)
      then show ?thesis using converging [of a ?s1 s2 r3 s3 r4] a live 2 Ret 3 4 by simp
    qed (use ran in simp)
  qed
qed

section \<open>Deletion\<close>

text \<open>Events that only report, and never readiness.\<close>

definition reports :: "authn_event \<Rightarrow> bool" where
  "reports e \<longleftrightarrow> (\<exists>u v w. e = Recorded u v w) \<or> (\<exists>u v w. e = PatchedAuthnStatus u v w \<and> \<not> isReady v)"

text \<open>Why the claim with the data outlives the resource: it is gone, another object controls it, or
  it was released from its controller.\<close>

definition claim_safe :: "AIStoreAuth \<Rightarrow> authn_event \<Rightarrow> bool" where
  "claim_safe a e \<longleftrightarrow>
     (\<exists>x. e = GotAuthnPVC (PVCNSName a) (Inl x) \<and> IsNotFound x) \<or>
     (\<exists>pvc. e = GotAuthnPVC (PVCNSName a) (Inr pvc) \<and> \<not> isControlledBy pvc a) \<or>
     e = ReleasedPVC (PVCNSName a) (Inr ()) \<or>
     (\<exists>x. e = ReleasedPVC (PVCNSName a) (Inl x) \<and> IsNotFound x)"

definition about_claim :: "authn_event \<Rightarrow> bool" where
  "about_claim e \<longleftrightarrow> (\<exists>n x. e = GotAuthnPVC n x) \<or> (\<exists>n x. e = ReleasedPVC n x)"

lemma retainPVC_run:
  assumes "retainPVC E s = (r, s')"
  shows "r \<noteq> Panic \<and> an_obj s' = an_obj s \<and> (\<exists>new. an_hist s' = new @ an_hist s \<and> (\<forall>e\<in>set new. about_claim e) \<and>
     (r = Ret () \<longrightarrow> ShouldDeletePVC (as_Persistence (authn_Spec (an_obj s))) \<or> (\<exists>e\<in>set new. claim_safe (an_obj s) e)))"
  using assms
  by (auto simp: retainPVC_def Let_def run_simps about_claim_def claim_safe_def split: if_splits sum.splits)

lemma logs_one: "an_hist s' = e # an_hist s \<Longrightarrow> P e \<Longrightarrow> logs P s s'"
  unfolding logs_def by (rule exI [of _ "[e]"]) simp

lemma logs_none: "an_hist s' = an_hist s \<Longrightarrow> logs P s s'"
  unfolding logs_def by (rule exI [of _ "[]"]) simp

lemma logs_weaken: "logs P s s' \<Longrightarrow> (\<And>e. P e \<Longrightarrow> Q e) \<Longrightarrow> logs Q s s'"
  by (auto simp: logs_def)

lemma updateStatus_reports:
  assumes "updateStatus base E s = (r, s')" "\<not> isReady (an_obj s)"
  shows "logs reports s s'"
  using updateStatus_run [OF assms(1)] assms(2)
  by (auto simp: observed_parts(1) reports_def intro: logs_one logs_none)

lemma recordCleanupFailure_run:
  assumes "recordCleanupFailure reason msg E s = (r, s')"
  shows "r = Ret () \<and> logs reports s s'"
proof -
  let ?h = "if hasReadyFailure (an_obj s) msg then an_hist s else Recorded reason ''Delete'' msg # an_hist s"
  let ?s1 = "s\<lparr>an_hist := ?h, an_obj := with_ready False ReasonCleanupFailed msg (an_obj s)\<rparr>"
  obtain r2 s2 where 2: "updateStatus (an_obj s) E ?s1 = (r2, s2)" by (cases "updateStatus (an_obj s) E ?s1")
  note up = updateStatus_run [OF 2]
  have "r = Ret ()" "s' = s2"
    using assms 2 up by (auto simp: recordCleanupFailure_def setReadyCondition_def run_simps split: if_splits outcome.splits)
  moreover have "logs reports s ?s1"
    by (cases "hasReadyFailure (an_obj s) msg") (auto simp: reports_def intro: logs_one logs_none)
  moreover have "logs reports ?s1 s2" by (rule updateStatus_reports [OF 2]) (simp add: ready_with_ready)
  ultimately show ?thesis by (blast intro: logs.trans)
qed

lemma cleanup_cases:
  assumes "cleanup_authn E s = (r, s')"
  obtains (kept) "r = Ret ()" "retainPVC E s = (Ret (), s')"
    | (stuck) e s1 where "r = Err e" "retainPVC E s = (Err e, s1)" "logs reports s1 s'"
proof -
  obtain r1 s1 where 1: "retainPVC E s = (r1, s1)" by (cases "retainPVC E s")
  show thesis
  proof (cases r1)
    case (Err e)
    obtain r2 s2 where 2: "recordCleanupFailure ''PVCRetentionFailed'' ''Failed to retain AuthN data PVC'' E s1 = (r2, s2)"
      by (cases "recordCleanupFailure ''PVCRetentionFailed'' ''Failed to retain AuthN data PVC'' E s1")
    with recordCleanupFailure_run [OF 2] assms 1 Err stuck show ?thesis
      by (auto simp: cleanup_authn_def run_simps)
  qed (use assms 1 kept retainPVC_run [OF 1] in \<open>auto simp: cleanup_authn_def run_simps\<close>)
qed

lemma deletion_cases:
  assumes "reconcileDeletion E s = (r, s')"
  obtains (absent) "r = Ret ()" "s' = s" "authnFinalizer \<notin> set (authn_Finalizers (an_obj s))"
    | (stuck) e where "r = Err e" "logs (\<lambda>e. reports e \<or> about_claim e) s s'"
    | (released) s1 s2 b x h where "r \<noteq> Panic" "retainPVC E s = (Ret (), s1)"
      "an_hist s2 = PatchedAuthn (an_obj s) b x # Recorded ''CleanupCompleted'' ''Delete'' ''AIStoreAuth resources cleaned up'' # an_hist s1"
      "b = (an_obj s)\<lparr>authn_Finalizers := removeAll authnFinalizer (authn_Finalizers (an_obj s))\<rparr>" "logs reports s2 s'"
      "x = n_patch E h (an_obj s) b" "r = Ret () \<longrightarrow> (\<forall>e. x = Inl e \<longrightarrow> IsNotFound e)"
proof (cases "authnFinalizer \<in> set (authn_Finalizers (an_obj s))")
  case False
  with assms absent show ?thesis by (auto simp: reconcileDeletion_def run_simps)
next
  case True
  obtain r1 s1 where 1: "cleanup_authn E s = (r1, s1)" by (cases "cleanup_authn E s")
  then show ?thesis
  proof (cases rule: cleanup_cases)
    case (stuck e t)
    have "logs (\<lambda>e. reports e \<or> about_claim e) s t"
      unfolding logs_def using retainPVC_run [OF stuck(2)] by blast
    moreover have "logs (\<lambda>e. reports e \<or> about_claim e) t s1" by (rule logs_weaken [OF stuck(3)]) simp
    ultimately have "logs (\<lambda>e. reports e \<or> about_claim e) s s1" by (rule logs.trans)
    moreover have "r = Err e \<and> s' = s1" using assms True 1 stuck(1)
      by (simp add: reconcileDeletion_def run_simps)
    ultimately show ?thesis using that(2) [of e] by simp
  next
    case kept
    from retainPVC_run [OF kept(2)] have o: "an_obj s1 = an_obj s" by simp
    let ?b = "(an_obj s)\<lparr>authn_Finalizers := removeAll authnFinalizer (authn_Finalizers (an_obj s))\<rparr>"
    let ?h = "Recorded ''CleanupCompleted'' ''Delete'' ''AIStoreAuth resources cleaned up'' # an_hist s1"
    let ?s2 = "s1\<lparr>an_obj := ?b, an_hist := PatchedAuthn (an_obj s) ?b (n_patch E ?h (an_obj s) ?b) # ?h\<rparr>"
    obtain r3 s3 where 3: "recordCleanupFailure ''FinalizerRemovalFailed'' ''Failed to remove AIStoreAuth finalizer'' E ?s2 = (r3, s3)"
      by (cases "recordCleanupFailure ''FinalizerRemovalFailed'' ''Failed to remove AIStoreAuth finalizer'' E ?s2")
    have "r \<noteq> Panic \<and> logs reports ?s2 s' \<and> (r = Ret () \<longrightarrow> (\<forall>e. n_patch E ?h (an_obj s) ?b = Inl e \<longrightarrow> IsNotFound e))"
      using assms True 1 kept(1) o 3 recordCleanupFailure_run [OF 3]
      by (cases "n_patch E ?h (an_obj s) ?b")
         (auto simp: reconcileDeletion_def patchObj_def run_simps intro: logs_none split: if_splits)
    then show ?thesis by (intro released [OF _ kept(2), of ?s2 ?b _ ?h]) auto
  qed
qed

text \<open>The one event of a kind in a run.\<close>

lemma split_only:
  assumes "xs @ a # ys = us @ b # vs" "P a" "\<forall>e\<in>set us. \<not> P e" "\<forall>e\<in>set vs. \<not> P e"
  shows "xs = us \<and> a = b \<and> ys = vs"
  using assms by (auto simp: append_eq_append_conv2 Cons_eq_append_conv append_eq_Cons_conv)

definition drops_finalizer :: "authn_event \<Rightarrow> bool" where
  "drops_finalizer e \<longleftrightarrow> (\<exists>a b x. e = PatchedAuthn a b x \<and>
     authnFinalizer \<in> set (authn_Finalizers a) \<and> authnFinalizer \<notin> set (authn_Finalizers b))"

lemma no_drop:
  "reports e \<Longrightarrow> \<not> drops_finalizer e" "about_claim e \<Longrightarrow> \<not> drops_finalizer e"
  "resource_event a e \<Longrightarrow> \<not> drops_finalizer e"
  by (cases e; auto simp: reports_def about_claim_def drops_finalizer_def)+

definition claims_ready :: "authn_event \<Rightarrow> bool" where
  "claims_ready e \<longleftrightarrow> (\<exists>a b x. e = PatchedAuthnStatus a b x \<and> isReady b)"

lemma no_claim:
  "reports e \<Longrightarrow> \<not> claims_ready e" "about_claim e \<Longrightarrow> \<not> claims_ready e"
  "resource_event a e \<Longrightarrow> \<not> claims_ready e"
  by (cases e; auto simp: reports_def about_claim_def claims_ready_def)+

text \<open>A reconcile of a resource that is not being deleted, and its events.\<close>

lemma live_run:
  assumes "authn_Reconcile name E s = (r, s')" "n_get E (an_hist s) name = Inr a" "\<not> authn_Deleted a"
  obtains (no_finalizer) e b tail where "r = Err e" "authnFinalizer \<in> set (authn_Finalizers b)"
      "an_hist s' = tail @ PatchedAuthn a b (Inl e) # GotAuthn name (Inr a) # an_hist s" "\<forall>x\<in>set tail. reports x"
    | (converged) first new status a' b st where "r \<noteq> Panic"
      "an_hist s' = status @ new @ first @ GotAuthn name (Inr a) # an_hist s"
      "first = [] \<and> a' = a \<and> authnFinalizer \<in> set (authn_Finalizers a) \<or>
       first = [PatchedAuthn a b (Inr a')] \<and> authnFinalizer \<in> set (authn_Finalizers b)"
      "\<forall>e\<in>set new. resource_event a' e" "r = Ret () \<longrightarrow> applied_all E a' new"
      "status = [] \<or> (\<exists>y. status = [PatchedAuthnStatus a' (observed (a'\<lparr>authn_Status := st\<rparr>)) y])"
      "isReady (a'\<lparr>authn_Status := st\<rparr>) \<longrightarrow> rolled_out E a' new"
  using assms(1)
proof (cases rule: reconcile_cases)
  case (no_finalizer e a2 b tail)
  then show ?thesis using assms that(1) [of e b tail] by (simp add: reports_def)
next
  case (converging a2 s1 s2 s3 r3 r4)
  then have a2: "a2 = a" using assms by simp
  from ensureFinalizer_run [OF converging(5)] obtain first b where
    f: "an_hist s2 = first @ GotAuthn name (Inr a) # an_hist s"
    "first = [] \<and> an_obj s2 = a \<and> authnFinalizer \<in> set (authn_Finalizers a) \<or>
     first = [PatchedAuthn a b (Inr (an_obj s2))] \<and> authnFinalizer \<in> set (authn_Finalizers b)"
    using converging(3,4) a2 by fastforce
  from resources_run [OF converging(6)] obtain st new where
    n: "an_obj s3 = (an_obj s2)\<lparr>authn_Status := st\<rparr>" "an_hist s3 = new @ an_hist s2"
    "\<forall>e\<in>set new. resource_event (an_obj s2) e" "isReady (an_obj s3) \<longrightarrow> rolled_out E (an_obj s2) new"
    "r3 = Ret () \<longrightarrow> applied_all E (an_obj s2) new" by blast
  from updateStatus_run [OF converging(7)] obtain status where
    u: "an_hist s' = status @ an_hist s3"
    "status = [] \<or> (\<exists>y. status = [PatchedAuthnStatus (an_obj s2) (observed (an_obj s3)) y])" by auto
  show ?thesis
    by (rule that(2) [of status new first "an_obj s2" b st]) (use converging(8,9) f n u in auto)
qed (use assms in auto)

end
