(* ===== verification/Auth_Properties.thy ===== *)
theory Auth_Properties
  imports Auth_Runs
begin

text \<open>
  What the controller of AuthN servers guarantees: data is retained before the resource may go,
  \<open>Ready\<close> is claimed of a finished rollout only, a success has applied every object, no reconcile
  panics, and the address it publishes reaches the server it deploys.
\<close>

text \<open>When a deletion takes the finalizer off, and that nothing else does.\<close>

lemma deletion_release:
  assumes "reconcileDeletion E s = (r, s')"
  obtains (kept) new where "an_hist s' = new @ an_hist s" "\<forall>e\<in>set new. \<not> drops_finalizer e"
    | (released) tail b x old where "an_hist s' = tail @ PatchedAuthn (an_obj s) b x # old @ an_hist s"
      "\<forall>e\<in>set tail. \<not> drops_finalizer e" "\<forall>e\<in>set old. \<not> drops_finalizer e"
      "ShouldDeletePVC (as_Persistence (authn_Spec (an_obj s))) \<or> (\<exists>e\<in>set old. claim_safe (an_obj s) e)"
  using assms
proof (cases rule: deletion_cases)
  case absent
  then show ?thesis by (intro kept [of "[]"]) auto
next
  case (stuck e)
  then show ?thesis using kept no_drop(1,2) by (auto simp: logs_def)
next
  case (released t1 t2 b y h)
  from released(5) obtain tail where tail: "an_hist s' = tail @ an_hist t2" "\<forall>e\<in>set tail. \<not> drops_finalizer e"
    using no_drop(1) by (auto simp: logs_def)
  from retainPVC_run [OF released(2)] obtain new where
    "an_hist t1 = new @ an_hist s" "\<forall>e\<in>set new. \<not> drops_finalizer e"
    "ShouldDeletePVC (as_Persistence (authn_Spec (an_obj s))) \<or> (\<exists>e\<in>set new. claim_safe (an_obj s) e)"
    using no_drop(2) by auto
  then show ?thesis using tail released(3)
    by (intro that(2) [of tail b y "Recorded ''CleanupCompleted'' ''Delete'' ''AIStoreAuth resources cleaned up'' # new"])
       (auto simp: drops_finalizer_def)
qed

lemma live_keeps_finalizer:
  assumes "authn_Reconcile name E s = (r, s')" "n_get E (an_hist s) name = Inr a" "\<not> authn_Deleted a"
  shows "\<exists>new. an_hist s' = new @ an_hist s \<and> (\<forall>e\<in>set new. \<not> drops_finalizer e)"
  using assms
proof (cases rule: live_run)
  case (no_finalizer e b tail)
  then show ?thesis using no_drop(1)
    by (intro exI [of _ "tail @ [PatchedAuthn a b (Inl e), GotAuthn name (Inr a)]"]) (auto simp: drops_finalizer_def)
next
  case (converged first new status a' b st)
  then show ?thesis using no_drop(3)
    by (intro exI [of _ "status @ new @ first @ [GotAuthn name (Inr a)]"]) (auto simp: drops_finalizer_def)
qed

text \<open>
  C26. Before the operator releases the finalizer of a deleted \<open>AIStoreAuth\<close> whose claim is to be
  retained, it has seen that the claim with the data is gone or not the resource's, or has released
  it: the claim cannot be garbage collected with the resource. The operator never drops the
  finalizer of a resource that is not being deleted.
\<close>

theorem data_retained_before_release:
  assumes "authn_Reconcile name E s = (r, s')"
    and "an_hist s' = later @ PatchedAuthn base released x # earlier @ an_hist s"
    and "authnFinalizer \<in> set (authn_Finalizers base)" "authnFinalizer \<notin> set (authn_Finalizers released)"
  shows "GotAuthn name (Inr base) \<in> set earlier \<and> authn_Deleted base \<and>
    (ShouldDeletePVC (as_Persistence (authn_Spec base)) \<or> (\<exists>e\<in>set earlier. claim_safe base e))"
proof -
  let ?ev = "PatchedAuthn base released x"
  have drop: "drops_finalizer ?ev" using assms(3,4) by (auto simp: drops_finalizer_def)
  have got: "\<not> drops_finalizer (GotAuthn n y)" for n y by (simp add: drops_finalizer_def)
  have never: False if "an_hist s' = new @ an_hist s" "\<forall>e\<in>set new. \<not> drops_finalizer e" for new
    using that assms(2) drop by auto
  from assms(1) show ?thesis
  proof (cases rule: reconcile_cases)
    case (unread e)
    then show ?thesis using never [of "[GotAuthn name (Inl e)]"] got by simp
  next
    case (deleting a s1)
    from deleting(5) show ?thesis
    proof (cases rule: deletion_release)
      case (kept new)
      then show ?thesis using never [of "new @ [GotAuthn name (Inr a)]"] got deleting(4) by auto
    next
      case (released tail b y old)
      have "later @ ?ev # earlier = tail @ PatchedAuthn a b y # (old @ [GotAuthn name (Inr a)])"
        using assms(2) released(1) deleting(3,4) by simp
      from split_only [where P = drops_finalizer, OF this drop released(2)] released(3) got
      have "base = a" "earlier = old @ [GotAuthn name (Inr a)]" by auto
      then show ?thesis using released(4) deleting(2,3) by auto
    qed
  next
    case (no_finalizer e a b tail)
    then show ?thesis using live_keeps_finalizer [OF assms(1)] never by blast
  next
    case (converging a)
    then show ?thesis using live_keeps_finalizer [OF assms(1)] never by blast
  qed
qed

text \<open>Where readiness is claimed: never by a deletion, otherwise at the end of the run.\<close>

lemma deletion_claims_nothing:
  assumes "reconcileDeletion E s = (r, s')"
  shows "\<exists>new. an_hist s' = new @ an_hist s \<and> (\<forall>e\<in>set new. \<not> claims_ready e)"
  using assms
proof (cases rule: deletion_cases)
  case (stuck e)
  then show ?thesis using no_claim(1,2) by (auto simp: logs_def)
next
  case (released t1 t2 b y h)
  from released(5) obtain tail where tail: "an_hist s' = tail @ an_hist t2" "\<forall>e\<in>set tail. \<not> claims_ready e"
    using no_claim(1) by (auto simp: logs_def)
  from retainPVC_run [OF released(2)] obtain kept where
    "an_hist t1 = kept @ an_hist s" "\<forall>e\<in>set kept. \<not> claims_ready e" using no_claim(2) by auto
  with tail released(3) show ?thesis
    by (intro exI [of _ "tail @ PatchedAuthn (an_obj s) b y # Recorded _ _ _ # kept"]) (auto simp: claims_ready_def)
qed simp

lemma live_claims:
  assumes "authn_Reconcile name E s = (r, s')" "n_get E (an_hist s) name = Inr a" "\<not> authn_Deleted a"
  obtains (none) new where "an_hist s' = new @ an_hist s" "\<forall>e\<in>set new. \<not> claims_ready e"
    | (claimed) a' st y old where
      "an_hist s' = PatchedAuthnStatus a' (observed (a'\<lparr>authn_Status := st\<rparr>)) y # old @ an_hist s"
      "\<forall>e\<in>set old. \<not> claims_ready e" "isReady (a'\<lparr>authn_Status := st\<rparr>) \<longrightarrow> rolled_out E a' old"
  using assms
proof (cases rule: live_run)
  case (no_finalizer e b tail)
  then show ?thesis using no_claim(1)
    by (intro none [of "tail @ [PatchedAuthn a b (Inl e), GotAuthn name (Inr a)]"]) (auto simp: claims_ready_def)
next
  case (converged first evs status a' b st)
  let ?old = "evs @ first @ [GotAuthn name (Inr a)]"
  have old: "\<forall>e\<in>set ?old. \<not> claims_ready e"
    using converged(3,4) no_claim(3) by (auto simp: claims_ready_def)
  from converged(6) show ?thesis
  proof
    assume "status = []"
    then show ?thesis using converged(2) old by (intro none [of ?old]) auto
  next
    assume "\<exists>y. status = [PatchedAuthnStatus a' (observed (a'\<lparr>authn_Status := st\<rparr>)) y]"
    then obtain y where y: "status = [PatchedAuthnStatus a' (observed (a'\<lparr>authn_Status := st\<rparr>)) y]" by blast
    show ?thesis
      by (rule claimed [of a' st y ?old]) (use converged(2,7) y old in \<open>auto simp: rolled_out_def\<close>)
  qed
qed

text \<open>
  C27. The status of an \<open>AIStoreAuth\<close> is patched to Ready only after the Deployment built from the
  very spec being reported was applied and the API server answered with a finished rollout of its
  current generation; the status then names the generation it was computed for.
\<close>

theorem ready_only_after_rollout:
  assumes "authn_Reconcile name E s = (r, s')"
    and "an_hist s' = later @ PatchedAuthnStatus base new x # earlier @ an_hist s" and "isReady new"
  shows "rolled_out E new earlier \<and> ast_ObservedGeneration (authn_Status new) = authn_Generation new \<and>
    ast_ServiceURL (authn_Status new) = ServiceURLOf new"
proof -
  let ?ev = "PatchedAuthnStatus base new x"
  have claims: "claims_ready ?ev" using assms(3) by (simp add: claims_ready_def)
  have never: False if "an_hist s' = evs @ an_hist s" "\<forall>e\<in>set evs. \<not> claims_ready e" for evs
    using that assms(2) claims by auto
  have live: ?thesis if "n_get E (an_hist s) name = Inr a" "\<not> authn_Deleted a" for a
    using assms(1) that
  proof (cases rule: live_claims)
    case (none evs)
    then show ?thesis using never by blast
  next
    case (claimed a' st y old)
    let ?new = "observed (a'\<lparr>authn_Status := st\<rparr>)"
    have "later @ ?ev # earlier = [] @ PatchedAuthnStatus a' ?new y # old"
      using assms(2) claimed(1) by simp
    from split_only [where P = claims_ready, OF this claims _ claimed(2)]
    have e: "new = ?new" "earlier = old" by auto
    then have "rolled_out E a' old" using assms(3) claimed(3) by (simp add: observed_parts)
    then have "rolled_out E new earlier" using e by (auto simp: rolled_out_def observed_def)
    then show ?thesis using e by (simp add: observed_parts(2)) (simp add: observed_def)
  qed
  from assms(1) show ?thesis
  proof (cases rule: reconcile_cases)
    case (unread e)
    then show ?thesis using never [of "[GotAuthn name (Inl e)]"] by (simp add: claims_ready_def)
  next
    case (deleting a s1)
    with deletion_claims_nothing [OF deleting(5)] obtain evs where
      "an_hist s' = (evs @ [GotAuthn name (Inr a)]) @ an_hist s" "\<forall>e\<in>set evs. \<not> claims_ready e" by auto
    then show ?thesis using never [of "evs @ [GotAuthn name (Inr a)]"] by (auto simp: claims_ready_def)
  qed (use live in blast)+
qed

text \<open>
  C28. A reconcile of an \<open>AIStoreAuth\<close> that is not being deleted and that returns no error has the
  finalizer in place before it applies anything, and has applied every object of the server: its
  configuration, claim, services, certificate and Deployment.
\<close>

theorem success_applies_everything:
  assumes "authn_Reconcile name E s = (Ret (), s')" and "n_get E (an_hist s) name = Inr a" and "\<not> authn_Deleted a"
  shows "\<exists>a' later. an_hist s' = later @ GotAuthn name (Inr a) # an_hist s \<and> applied_all E a' later \<and>
    (a' = a \<and> authnFinalizer \<in> set (authn_Finalizers a) \<or>
     (\<exists>b later'. authnFinalizer \<in> set (authn_Finalizers b) \<and> later = later' @ [PatchedAuthn a b (Inr a')]))"
  using assms
proof (cases rule: live_run)
  case (converged first new status a' b st)
  then show ?thesis
    by (intro exI [of _ a'] exI [of _ "status @ new @ first"]) (auto simp: applied_all_def)
qed simp

text \<open>
  C40. Reconciling an \<open>AIStoreAuth\<close> never panics: the pointers the controller follows (the
  certificate configuration, what the API server answered) are never nil where it follows them.
\<close>

theorem authn_Reconcile_never_panics:
  "fst (authn_Reconcile name E s) \<noteq> Panic"
proof -
  obtain r s' where run: "authn_Reconcile name E s = (r, s')" by (cases "authn_Reconcile name E s")
  then have "r \<noteq> Panic"
  proof (cases rule: reconcile_cases)
    case (deleting a s1)
    from deleting(5) show ?thesis by (cases rule: deletion_cases) auto
  qed auto
  with run show ?thesis by simp
qed

section \<open>The published address\<close>

text \<open>The volume with the TLS material, and where the configuration makes the server listen.\<close>

lemma tls_volume_mounted:
  assumes "authn_HasTLSEnabled a"
  shows "\<exists>v\<in>set (volumes L U a). avol_Name v = tlsVolumeName \<and>
      (avol_Source v = SecretVolume (authn_GetTLSSecretName a) \<or>
       authn_UseTLSCSI a \<and> (\<exists>driver. avol_Source v = CSIVolume driver True (tlsCSIVolumeAttributes L U a)))"
    and "\<exists>m\<in>set (volumeMounts a). amnt_Name m = tlsVolumeName \<and> amnt_MountPath m = tlsMountPath"
proof -
  have "authn_UseTLSCSI a \<or> authn_UseTLSCertificate a \<or> authn_UseTLSSecret a"
    using assms HasTLSEnabled_iff [of a] by blast
  then show "\<exists>v\<in>set (volumes L U a). avol_Name v = tlsVolumeName \<and>
      (avol_Source v = SecretVolume (authn_GetTLSSecretName a) \<or>
       authn_UseTLSCSI a \<and> (\<exists>driver. avol_Source v = CSIVolume driver True (tlsCSIVolumeAttributes L U a)))"
    by (intro bexI [of _ "last (volumes L U a)"]) (auto simp: volumes_def)
  show "\<exists>m\<in>set (volumeMounts a). amnt_Name m = tlsVolumeName \<and> amnt_MountPath m = tlsMountPath"
    using assms by (simp add: volumeMounts_def)
qed

lemma rendered_address:
  "ahttp_Port (rendered_config a configPaths) = ListenPort a"
  "ahttp_UseHTTPS (rendered_config a configPaths) = authn_HasTLSEnabled a"
  "authn_HasTLSEnabled a \<Longrightarrow> ahttp_Certificate (rendered_config a configPaths) = tlsMountPath @ ''/tls.crt'' \<and>
     ahttp_Key (rendered_config a configPaths) = tlsMountPath @ ''/tls.key''"
  by (auto simp: rendered_config_def renderNetConfig_def Let_def configPaths_def split: prod.split)

text \<open>
  C29. The address an \<open>AIStoreAuth\<close> publishes is served by the Deployment built from the same spec:
  its host and port are those of the in-cluster Service, which selects the pods and targets the
  container's port, where the rendered configuration makes the server listen, with https exactly
  when the address says so; then the certificate and key files of the configuration lie in a mounted
  volume that holds the TLS material, and a certificate requested for the server names the host and
  is stored in the mounted secret.
\<close>

theorem published_address_is_served:
  assumes "NewDeployment A L U a = Inr d"
  defines "c \<equiv> apod_Container (adep_Pod d)" and "svc \<equiv> NewService a" and "conf \<equiv> rendered_config a configPaths"
    and "host \<equiv> nn_Name (asvc_Name (NewService a)) @ ''.'' @ nn_Namespace (asvc_Name (NewService a)) @ ''.svc''"
  shows "(\<exists>p. asvc_Ports svc = [p] \<and> asp_TargetPort p = actr_PortName c \<and>
       asvc_Selector svc \<subseteq>\<^sub>f adep_PodLabels d \<and> adep_Selector d \<subseteq>\<^sub>f adep_PodLabels d \<and>
       asp_Port p = actr_Port c \<and> ahttp_Port conf = actr_Port c \<and>
       ServiceURLOf a = (if ahttp_UseHTTPS conf then ''https://'' else ''http://'') @ host @ '':'' @ show_int (asp_Port p)) \<and>
    (ahttp_UseHTTPS conf \<longrightarrow> (\<exists>m v. m \<in> set (actr_Mounts c) \<and> v \<in> set (apod_Volumes (adep_Pod d)) \<and>
       amnt_Name m = avol_Name v \<and>
       HasPrefix (ahttp_Certificate conf) (amnt_MountPath m @ ''/'') \<and> HasPrefix (ahttp_Key conf) (amnt_MountPath m @ ''/'') \<and>
       (avol_Source v = SecretVolume (authn_GetTLSSecretName a) \<or>
        authn_UseTLSCSI a \<and> (\<exists>driver. avol_Source v = CSIVolume driver True (tlsCSIVolumeAttributes L U a))))) \<and>
    (\<forall>eps crt. authn_NewCertificate L U a eps = Some crt \<longrightarrow>
       host \<in> set (cs_DNSNames (acrt_Spec crt)) \<and> cs_SecretName (acrt_Spec crt) = authn_GetTLSSecretName a)"
    (is "?served \<and> (_ \<longrightarrow> ?tls) \<and> ?certified")
proof (intro conjI impI)
  from NewDeployment_parts [OF assms(1)] have pod: "newPodSpec A L U a = Inr (adep_Pod d)"
    and labels: "adep_Selector d = authn_selectorLabels a" "adep_PodLabels d = resourceLabels a" by auto
  note pod = newPodSpec_parts [OF pod]
  note ctr = newContainer_parts [OF pod(1), folded c_def]
  note conf = rendered_address [of a, folded conf_def]
  have "authn_selectorLabels a \<subseteq>\<^sub>f resourceLabels a"
    by (auto simp: fmsubset_alt_def intro: fmpredI authn_selector_in_labels)
  then show ?served
    by (intro exI [of _ "servicePort (ListenPort a)"])
      (simp add: svc_def NewService_def baseService_def servicePort_def ctr labels conf ServiceURLOf_def host_def
        in_authn_namespace_def)
  show ?certified using service_names_certified(1) [of a]
    by (auto simp: authn_NewCertificate_def NewSpec_def host_def NewService_def baseService_def in_authn_namespace_def)
  assume "ahttp_UseHTTPS conf"
  then have tls: "authn_HasTLSEnabled a" using conf by simp
  from tls_volume_mounted [OF this] show ?tls
    using pod(2) ctr conf(3) [OF tls] by fastforce
qed

end
