(* ===== verification/Webhook_Common.thy ===== *)
theory Webhook_Common
  imports Auth_Types AIS_CR Validation
begin

text \<open>
  What the admission webhooks share (\<^verbatim>\<open>operator/internal/webhook/common.go\<close>): the calls they
  make of the API server while they look at a request, and the review of the submitting user's
  access to an object the request refers to.

  An environment answers every call from the history of calls, newest first; the warnings a webhook
  collects through a pointer are in the state.
\<close>

record UserInfo =
  usr_Username :: string
  usr_UID :: string
  usr_Groups :: "string list"
  usr_Extra :: "(string, string list) fmap"

record ResourceAttributes =
  ra_Group :: string
  ra_Version :: string
  ra_Resource :: string
  ra_Namespace :: string
  ra_Name :: string
  ra_Verb :: string

record SubjectAccessReview =
  sar_User :: string
  sar_UID :: string
  sar_Groups :: "string list"
  sar_Extra :: "(string, string list) fmap"
  sar_Attributes :: ResourceAttributes

datatype hook_event =
    Reviewed SubjectAccessReview "err + bool" \<comment> \<open>whether allowed\<close>
  | ListedNodes string_map "err + int" \<comment> \<open>how many match the selector\<close>
  | ListedClasses "err + string list" \<comment> \<open>names of the storage classes\<close>
  | LookedUpProfile string "err + unit"
  | LookedUpSecret NamespacedName "err + string_map"
  | LookedUpConfigMap NamespacedName "err + string_map"

type_synonym hook_hist = "hook_event list"

text \<open>
  \<open>w_request\<close> is the user of the admission request that the context carries. The profile webhook
  reads Secrets and ConfigMaps with an uncached client; their errors are classified by the API
  machinery. \<open>w_late_read\<close> is whether \<open>return x, f(&x)\<close> reads \<open>x\<close> after the call: the language
  leaves the order of the two open.
\<close>

record hook_env =
  w_lib :: k8s_lib
  w_url :: url_lib
  w_request :: "err + UserInfo"
  w_late_read :: bool
  w_IsForbidden :: "err \<Rightarrow> bool"
  w_IsUnauthorized :: "err \<Rightarrow> bool"
  w_review :: "hook_hist \<Rightarrow> SubjectAccessReview \<Rightarrow> err + bool"
  w_nodes :: "hook_hist \<Rightarrow> string_map \<Rightarrow> err + int"
  w_classes :: "hook_hist \<Rightarrow> err + string list"
  w_profile :: "hook_hist \<Rightarrow> string \<Rightarrow> err + unit"
  w_secret :: "hook_hist \<Rightarrow> NamespacedName \<Rightarrow> err + string_map"
  w_configmap :: "hook_hist \<Rightarrow> NamespacedName \<Rightarrow> err + string_map"

record hook_st =
  hk_warnings :: "string list"
  hk_hist :: hook_hist

type_synonym 'a hook = "(hook_env, hook_st, 'a) M"

definition look :: "(hook_env \<Rightarrow> hook_hist \<Rightarrow> err + 'a) \<Rightarrow> (err + 'a \<Rightarrow> hook_event) \<Rightarrow> 'a hook" where
  "look answer mk = (\<lambda>E s. let r = answer E (hk_hist s); s' = s\<lparr>hk_hist := mk r # hk_hist s\<rparr>
     in (case r of Inl e \<Rightarrow> (Err e, s') | Inr a \<Rightarrow> (Ret a, s')))"

definition warn :: "string \<Rightarrow> unit hook" where
  "warn w = modify (\<lambda>s. s\<lparr>hk_warnings := hk_warnings s @ [w]\<rparr>)"

lemma run_look [run_simps]:
  "look answer mk E s = (case answer E (hk_hist s) of
     Inl e \<Rightarrow> (Err e, s\<lparr>hk_hist := mk (Inl e) # hk_hist s\<rparr>)
   | Inr a \<Rightarrow> (Ret a, s\<lparr>hk_hist := mk (Inr a) # hk_hist s\<rparr>))"
  by (simp add: look_def Let_def split: sum.split)

lemma run_warn [run_simps]: "warn w E s = (Ret (), s\<lparr>hk_warnings := hk_warnings s @ [w]\<rparr>)"
  by (simp add: warn_def run_simps)

section \<open>Errors\<close>

text \<open>
  An internal error hides the error it reports; an invalid object carries its field errors, here
  abbreviated to their paths and complaints.
\<close>

definition NewInternalError :: "string \<Rightarrow> err \<Rightarrow> err" where
  "NewInternalError msg e = OtherErr (''Internal error occurred: '' @ msg)"

fun error_list_text :: "field_error list \<Rightarrow> string" where
  "error_list_text [] = []"
| "error_list_text ((path, val, msg) # es) = path @ '': '' @ msg @ ''; '' @ error_list_text es"

definition NewInvalid :: "string \<Rightarrow> string \<Rightarrow> field_error list \<Rightarrow> err" where
  "NewInvalid kind name errs = OtherErr (kind @ '' '' @ name @ '' is invalid: '' @ error_list_text errs)"

section \<open>Access reviews\<close>

definition describeResource :: "ResourceAttributes \<Rightarrow> string" where
  "describeResource attrs = ra_Resource attrs @ '' resource '' @ ra_Name attrs
     @ (if ra_Namespace attrs = [] then [] else '' in namespace '' @ ra_Namespace attrs)"

definition review_of :: "UserInfo \<Rightarrow> string \<Rightarrow> ResourceAttributes \<Rightarrow> SubjectAccessReview" where
  "review_of user verb attrs =
     \<lparr>sar_User = usr_Username user, sar_UID = usr_UID user, sar_Groups = usr_Groups user,
      sar_Extra = usr_Extra user, sar_Attributes = attrs\<lparr>ra_Verb := verb\<rparr>\<rparr>"

text \<open>Returns a field error when access is denied, nothing when it is allowed.\<close>

definition Authorize :: "string \<Rightarrow> string \<Rightarrow> ResourceAttributes \<Rightarrow> field_error option hook" where
  "Authorize verb path attrs =
     bind (asks w_request) (\<lambda>req. case req of
       Inl e \<Rightarrow> throw (NewInternalError (''cannot authorize '' @ describeResource attrs) e)
     | Inr userInfo \<Rightarrow> let sar = review_of userInfo verb attrs in
         bind (attempt (look (\<lambda>E h. w_review E h sar) (Reviewed sar))) (\<lambda>r. case r of
           Inl e \<Rightarrow> throw (NewInternalError (''authorizing '' @ describeResource attrs) e)
         | Inr allowed \<Rightarrow>
             if \<not> allowed
             then ret (Some (path, [], ''user '' @ usr_Username userInfo @ '' is not authorized to '' @ verb
                    @ '' '' @ describeResource attrs))
             else ret None))"

definition AuthorizeGet :: "string \<Rightarrow> ResourceAttributes \<Rightarrow> field_error option hook" where
  "AuthorizeGet path attrs = Authorize ''get'' path attrs"

text \<open>Only an allowing review returns nothing.\<close>

lemma Authorize_run:
  assumes "Authorize verb path attrs E s = (r, s')"
  shows "r \<noteq> Panic" "hk_warnings s' = hk_warnings s"
    and "(\<exists>e. w_request E = Inl e) \<and> hk_hist s' = hk_hist s \<or>
      (\<exists>user x. w_request E = Inr user \<and> hk_hist s' = Reviewed (review_of user verb attrs) x # hk_hist s \<and>
         (r = Ret None \<longleftrightarrow> x = Inr True))"
    and "r = Ret None \<Longrightarrow> \<exists>user. w_request E = Inr user \<and>
         hk_hist s' = Reviewed (review_of user verb attrs) (Inr True) # hk_hist s"
  using assms by (auto simp: Authorize_def Let_def run_simps split: sum.splits if_splits)

section \<open>What a webhook leaves alone\<close>

definition looks :: "(hook_event \<Rightarrow> bool) \<Rightarrow> hook_st \<Rightarrow> hook_st \<Rightarrow> bool" where
  "looks P s s' \<longleftrightarrow> (\<exists>new. hk_hist s' = new @ hk_hist s \<and> (\<forall>e\<in>set new. P e))"

interpretation looks: step_rel "looks P"
proof unfold_locales
  fix s t u
  show "looks P s s" by (simp add: looks_def)
  assume "looks P s t" "looks P t u"
  then show "looks P s u" unfolding looks_def
    by (elim exE conjE) (rule exI [of _ "_ @ _"], auto)
qed

lemma looks_look: "(\<And>r. P (mk r)) \<Longrightarrow> steps E (looks P) (look answer mk)"
  by (auto simp: steps_def run_simps looks_def split: sum.split)

lemma looks_warn: "steps E (looks P) (warn w)"
  by (simp add: steps_def run_simps looks_def)

lemma looks_one: "hk_hist s' = e # hk_hist s \<Longrightarrow> P e \<Longrightarrow> looks P s s'"
  unfolding looks_def by (rule exI [of _ "[e]"]) simp

lemma looks_none: "hk_hist s' = hk_hist s \<Longrightarrow> looks P s s'"
  unfolding looks_def by (rule exI [of _ "[]"]) simp

lemmas looks_steps = looks.steps_base looks_warn steps_intros

end
