(* ===== verification/Auth_Webhooks.thy ===== *)
theory Auth_Webhooks
  imports Webhook_Common
begin

text \<open>
  The admission webhooks of \<open>AIStoreAuth\<close> and \<open>AIStoreAuthProfile\<close> resources
  (\<^verbatim>\<open>operator/internal/webhook/aisauth/v1alpha1\<close>).
\<close>

section \<open>\<open>AIStoreAuth\<close>\<close>

text \<open>Checks that return a field error and may fail; the errors found are appended.\<close>

definition secretRefName :: "string option \<Rightarrow> string" where
  "secretRefName ref = (case ref of None \<Rightarrow> [] | Some n \<Rightarrow> n)"

definition requireSecret :: "string \<Rightarrow> string \<Rightarrow> string \<Rightarrow> field_error list hook" where
  "requireSecret namespace name path =
     (let ref = \<lparr>nn_Name = name, nn_Namespace = namespace\<rparr> in
      bind (attempt (look (\<lambda>E h. w_secret E h ref) (LookedUpSecret ref))) (\<lambda>r. case r of
        Inl e \<Rightarrow>
          if IsNotFound e then ret [(path, name, ''referenced Secret does not exist in namespace '' @ namespace)]
          else throw (NewInternalError (''checking Secret '' @ name @ '' in namespace '' @ namespace) e)
      | Inr _ \<Rightarrow> ret []))"

definition authn_validate :: "AIStoreAuth \<Rightarrow> unit hook" where
  "authn_validate authn =
     (let spec = authn_Spec authn; ns = authn_Namespace authn;
          name = secretRefName (as_AdminSecret spec);
          hmacName = secretRefName (as_HMACSecret spec);
          rsaName = secretRefName (as_RSAPassphraseSecret spec) in
      bind (if name \<noteq> [] then requireSecret ns name ''spec.adminSecret'' else ret []) (\<lambda>adminErrs.
      bind (if hmacName \<noteq> [] then requireSecret ns hmacName ''spec.hmacSecret'' else ret []) (\<lambda>hmacErrs.
      bind (if rsaName = [] then ret []
            else if hmacName \<noteq> []
            then ret [(''spec.rsaPassphraseSecret'', rsaName, ''must not be set together with spec.hmacSecret'')]
            else requireSecret ns rsaName ''spec.rsaPassphraseSecret'') (\<lambda>rsaErrs.
      let allErrs = adminErrs @ hmacErrs @ rsaErrs in
      if allErrs = [] then ret () else throw (NewInvalid ''AIStoreAuth'' (authn_Name authn) allErrs)))))"

definition authn_ValidateCreate :: "AIStoreAuth \<Rightarrow> unit hook" where
  "authn_ValidateCreate authn = authn_validate authn"

definition authn_ValidateUpdate :: "AIStoreAuth \<Rightarrow> AIStoreAuth \<Rightarrow> unit hook" where
  "authn_ValidateUpdate prev authn = authn_validate authn"

definition authn_ValidateDelete :: "AIStoreAuth \<Rightarrow> unit hook" where
  "authn_ValidateDelete authn = ret ()"

section \<open>\<open>AIStoreAuthProfile\<close>: references\<close>

definition handleResourceGetError ::
  "err \<Rightarrow> string \<Rightarrow> string \<Rightarrow> NamespacedName \<Rightarrow> field_error list hook" where
  "handleResourceGetError e path kind ref =
     bind (asks (\<lambda>E. w_IsForbidden E e \<or> w_IsUnauthorized E e)) (\<lambda>denied.
     if IsNotFound e
     then ret [(path, nn_Name ref, ''referenced '' @ kind @ '' does not exist in namespace '' @ nn_Namespace ref)]
     else if denied
     then bind (warn (''the operator is not authorized to get '' @ kind @ '' '' @ nn_Name ref @ '' in namespace ''
            @ nn_Namespace ref @ ''; its contents were not validated'')) (\<lambda>_. ret [])
     else throw (NewInternalError (''checking '' @ kind @ '' '' @ nn_Name ref @ '' in namespace '' @ nn_Namespace ref) e))"

definition validateSecretFields :: "AuthProfileSecret \<Rightarrow> string_map \<Rightarrow> field_error list" where
  "validateSecretFields secretSpec data =
     (let path = ''spec.usernamePassword.secret''; msg = ''key does not exist in referenced Secret'';
          check = \<lambda>fld key. if fmlookup data key = None then [(path @ fld, key, msg)] else []
      in check ''.userKey'' (UserKeyOrDefault secretSpec) @ check ''.passKey'' (PassKeyOrDefault secretSpec))"

definition object_attrs :: "string \<Rightarrow> NamespacedName \<Rightarrow> ResourceAttributes" where
  "object_attrs resource ref = \<lparr>ra_Group = [], ra_Version = [], ra_Resource = resource,
     ra_Namespace = nn_Namespace ref, ra_Name = nn_Name ref, ra_Verb = []\<rparr>"

definition secret_ref :: "AuthProfileSecret \<Rightarrow> NamespacedName" where
  "secret_ref s = \<lparr>nn_Name = sec_Name s, nn_Namespace = sec_Namespace s\<rparr>"

definition ca_ref :: "AuthProfileCAConfigMapRef \<Rightarrow> NamespacedName" where
  "ca_ref c = \<lparr>nn_Name = caref_Name c, nn_Namespace = caref_Namespace c\<rparr>"

definition validateSecretRef :: "AuthProfileSecret \<Rightarrow> field_error list hook" where
  "validateSecretRef secretSpec =
     (let path = ''spec.usernamePassword.secret''; ref = secret_ref secretSpec in
      bind (AuthorizeGet path (object_attrs ''secrets'' ref)) (\<lambda>fieldErr. case fieldErr of
        Some e \<Rightarrow> ret [e]
      | None \<Rightarrow>
          bind (attempt (look (\<lambda>E h. w_secret E h ref) (LookedUpSecret ref))) (\<lambda>r. case r of
            Inl e \<Rightarrow> handleResourceGetError e path ''Secret'' ref
          | Inr data \<Rightarrow> ret (validateSecretFields secretSpec data))))"

definition validateCAConfigMap :: "AuthProfileCAConfigMapRef \<Rightarrow> field_error list hook" where
  "validateCAConfigMap cmRef =
     (let path = ''spec.tls.caConfigMapRef''; ref = ca_ref cmRef in
      bind (AuthorizeGet path (object_attrs ''configmaps'' ref)) (\<lambda>fieldErr. case fieldErr of
        Some e \<Rightarrow> ret [e]
      | None \<Rightarrow>
          bind (attempt (look (\<lambda>E h. w_configmap E h ref) (LookedUpConfigMap ref))) (\<lambda>r. case r of
            Inl e \<Rightarrow> handleResourceGetError e path ''ConfigMap'' ref
          | Inr data \<Rightarrow>
              if fmlookup data (caref_Key cmRef) = None
              then ret [(path @ ''.key'', caref_Key cmRef, ''key does not exist in referenced ConfigMap'')]
              else ret [])))"

section \<open>\<open>AIStoreAuthProfile\<close>: admission\<close>

definition ca_config_map :: "AIStoreAuthProfile \<Rightarrow> AuthProfileCAConfigMapRef option" where
  "ca_config_map p = Option.bind (prs_TLS (prof_Spec p)) ptls_CAConfigMapRef"

definition profile_validate :: "AIStoreAuthProfile \<Rightarrow> unit hook" where
  "profile_validate profile =
     bind (asks (\<lambda>E. profile_ValidateSpec (w_url E) profile)) (\<lambda>specErrs.
     if specErrs \<noteq> [] then throw (NewInvalid ''AIStoreAuthProfile'' (prof_Name profile) specErrs)
     else if prof_Deleted profile then ret ()
     else
       bind (case prs_UsernamePassword (prof_Spec profile) of None \<Rightarrow> ret []
             | Some up \<Rightarrow> validateSecretRef (pup_Secret up)) (\<lambda>secretErrs.
       bind (case ca_config_map profile of None \<Rightarrow> ret [] | Some ref \<Rightarrow> validateCAConfigMap ref) (\<lambda>caErrs.
       if secretErrs @ caErrs = [] then ret ()
       else throw (NewInvalid ''AIStoreAuthProfile'' (prof_Name profile) (secretErrs @ caErrs)))))"

definition isPlainHTTP :: "url_lib \<Rightarrow> string \<Rightarrow> bool" where
  "isPlainHTTP U serviceURL = (case url_Parse U serviceURL of Inl e \<Rightarrow> False | Inr u \<Rightarrow> url_Scheme u = ''http'')"

definition skips_verification :: "AIStoreAuthProfile \<Rightarrow> bool" where
  "skips_verification p = (case prs_TLS (prof_Spec p) of None \<Rightarrow> False | Some t \<Rightarrow> ptls_InsecureSkipVerify t)"

definition securityWarnings :: "url_lib \<Rightarrow> AIStoreAuthProfile option \<Rightarrow> AIStoreAuthProfile \<Rightarrow> string list" where
  "securityWarnings U previous profile =
     (let url = prs_ServiceURL (prof_Spec profile);
          changed = (case previous of None \<Rightarrow> True | Some p \<Rightarrow> prs_ServiceURL (prof_Spec p) \<noteq> url);
          warnings = (if changed \<and> isPlainHTTP U url
            then [''spec.serviceURL should use https unless TLS is terminated elsewhere (e.g. service mesh)''] else [])
      in if \<not> skips_verification profile then warnings
         else if \<not> (case previous of None \<Rightarrow> False | Some p \<Rightarrow> skips_verification p)
         then warnings @ [''spec.tls.insecureSkipVerify is enabled; TLS certificate verification is disabled'']
         else warnings)"

text \<open>\<open>return warnings, w.validate(ctx, profile, &warnings)\<close>.\<close>

definition profile_admit :: "AIStoreAuthProfile option \<Rightarrow> AIStoreAuthProfile \<Rightarrow> (string list \<times> err option) hook" where
  "profile_admit previous profile =
     bind (asks (\<lambda>E. securityWarnings (w_url E) previous profile)) (\<lambda>early.
     bind (modify (\<lambda>s. s\<lparr>hk_warnings := early\<rparr>)) (\<lambda>_.
     bind (attempt (profile_validate profile)) (\<lambda>r.
     bind (gets hk_warnings) (\<lambda>late.
     bind (asks w_late_read) (\<lambda>reads_late.
     ret (if reads_late then late else early, case r of Inl e \<Rightarrow> Some e | Inr _ \<Rightarrow> None))))))"

definition profile_ValidateCreate :: "AIStoreAuthProfile \<Rightarrow> (string list \<times> err option) hook" where
  "profile_ValidateCreate profile = profile_admit None profile"

definition profile_ValidateUpdate ::
  "AIStoreAuthProfile \<Rightarrow> AIStoreAuthProfile \<Rightarrow> (string list \<times> err option) hook" where
  "profile_ValidateUpdate previous profile = profile_admit (Some previous) profile"

definition profile_ValidateDelete :: "AIStoreAuthProfile \<Rightarrow> (string list \<times> err option) hook" where
  "profile_ValidateDelete profile = ret ([], None)"

end
