(* ===== verification/Profile_Admission.thy ===== *)
theory Profile_Admission
  imports Auth_Webhooks
begin

text \<open>
  What the admission webhooks of \<open>AIStoreAuth\<close> and \<open>AIStoreAuthProfile\<close> resources guarantee: when
  they read what a resource refers to, and what happens once it is gone.
\<close>

section \<open>The references of a profile\<close>

text \<open>The object an event reads, and the events of checking one reference.\<close>

fun reads :: "hook_event \<Rightarrow> (string \<times> NamespacedName) option" where
  "reads (LookedUpSecret ref x) = Some (''secrets'', ref)"
| "reads (LookedUpConfigMap ref x) = Some (''configmaps'', ref)"
| "reads _ = None"

definition allowed_get :: "hook_env \<Rightarrow> string \<Rightarrow> NamespacedName \<Rightarrow> hook_event \<Rightarrow> bool" where
  "allowed_get E kind ref e \<longleftrightarrow> (\<exists>user. w_request E = Inr user \<and>
     e = Reviewed (review_of user ''get'' (object_attrs kind ref)) (Inr True))"

definition reference_events :: "hook_env \<Rightarrow> string \<Rightarrow> NamespacedName \<Rightarrow> hook_event list \<Rightarrow> bool" where
  "reference_events E kind ref new \<longleftrightarrow> new = [] \<or> (\<exists>sar x. new = [Reviewed sar x]) \<or>
     (\<exists>e g. new = [e, g] \<and> reads e = Some (kind, ref) \<and> allowed_get E kind ref g)"

lemma AuthorizeGet_cases:
  assumes "AuthorizeGet path (object_attrs kind ref) E s = (r, s')"
  obtains (denied) "r \<noteq> Ret None" "r \<noteq> Panic" "hk_hist s' = hk_hist s \<or> (\<exists>sar y. hk_hist s' = Reviewed sar y # hk_hist s)"
      "hk_warnings s' = hk_warnings s"
    | (allowed) g where "r = Ret None" "allowed_get E kind ref g" "s' = s\<lparr>hk_hist := g # hk_hist s\<rparr>"
proof -
  note auth = Authorize_run [OF assms [unfolded AuthorizeGet_def]]
  show thesis
  proof (cases "r = Ret None")
    case True
    then obtain user where u: "w_request E = Inr user"
      "hk_hist s' = Reviewed (review_of user ''get'' (object_attrs kind ref)) (Inr True) # hk_hist s" using auth(4) by auto
    have "s' = s\<lparr>hk_hist := hk_hist s'\<rparr>" using auth(2) by simp
    then show ?thesis using allowed True u by (simp add: allowed_get_def)
  next
    case False
    then show ?thesis using denied auth(1,2,3) by blast
  qed
qed

text \<open>A successful check has found nothing to complain of.\<close>

definition usable_secret :: "hook_env \<Rightarrow> AuthProfileSecret \<Rightarrow> hook_event list \<Rightarrow> bool" where
  "usable_secret E sec events \<longleftrightarrow> (\<exists>x. LookedUpSecret (secret_ref sec) x \<in> set events \<and>
     (case x of Inr data \<Rightarrow> fmlookup data (UserKeyOrDefault sec) \<noteq> None \<and> fmlookup data (PassKeyOrDefault sec) \<noteq> None
      | Inl e \<Rightarrow> \<not> IsNotFound e \<and> (w_IsForbidden E e \<or> w_IsUnauthorized E e)))"

definition usable_ca :: "hook_env \<Rightarrow> AuthProfileCAConfigMapRef \<Rightarrow> hook_event list \<Rightarrow> bool" where
  "usable_ca E c events \<longleftrightarrow> (\<exists>x. LookedUpConfigMap (ca_ref c) x \<in> set events \<and>
     (case x of Inr data \<Rightarrow> fmlookup data (caref_Key c) \<noteq> None
      | Inl e \<Rightarrow> \<not> IsNotFound e \<and> (w_IsForbidden E e \<or> w_IsUnauthorized E e)))"

lemma handle_run:
  assumes "handleResourceGetError e path kind ref E s = (r, s')"
  shows "hk_hist s' = hk_hist s" "r \<noteq> Panic"
    "r = Ret [] \<Longrightarrow> \<not> IsNotFound e \<and> (w_IsForbidden E e \<or> w_IsUnauthorized E e)"
  using assms by (auto simp: handleResourceGetError_def run_simps split: if_splits)

lemma secretRef_run:
  assumes "validateSecretRef sec E s = (r, s')"
  shows "r \<noteq> Panic \<and> (\<exists>new. hk_hist s' = new @ hk_hist s \<and> reference_events E ''secrets'' (secret_ref sec) new \<and>
    (r = Ret [] \<longrightarrow> usable_secret E sec new))"
proof -
  let ?p = "''spec.usernamePassword.secret''" and ?a = "object_attrs ''secrets'' (secret_ref sec)"
  obtain r1 s1 where 1: "AuthorizeGet ?p ?a E s = (r1, s1)" by (cases "AuthorizeGet ?p ?a E s")
  then show ?thesis
  proof (cases rule: AuthorizeGet_cases)
    case denied
    with assms 1 show ?thesis
      by (auto simp: validateSecretRef_def Let_def run_simps reference_events_def split: outcome.splits option.splits)
  next
    case (allowed g)
    let ?read = "\<lambda>x. LookedUpSecret (secret_ref sec) x"
    show ?thesis
    proof (cases "w_secret E (g # hk_hist s) (secret_ref sec)")
      case (Inl e)
      let ?s2 = "s1\<lparr>hk_hist := ?read (Inl e) # hk_hist s1\<rparr>"
      have h: "handleResourceGetError e ?p ''Secret'' (secret_ref sec) E ?s2 = (r, s')"
        using assms 1 allowed Inl by (simp add: validateSecretRef_def Let_def run_simps)
      have "hk_hist s' = [?read (Inl e), g] @ hk_hist s" using handle_run(1) [OF h] allowed by simp
      moreover have "reference_events E ''secrets'' (secret_ref sec) [?read (Inl e), g]"
        using allowed by (simp add: reference_events_def)
      ultimately show ?thesis using handle_run(2,3) [OF h] by (auto simp: usable_secret_def)
    next
      case (Inr data)
      have h: "r = Ret (validateSecretFields sec data)" "hk_hist s' = [?read (Inr data), g] @ hk_hist s"
        using assms 1 allowed Inr by (auto simp: validateSecretRef_def Let_def run_simps)
      moreover have "reference_events E ''secrets'' (secret_ref sec) [?read (Inr data), g]"
        using allowed by (simp add: reference_events_def)
      ultimately show ?thesis by (auto simp: usable_secret_def validateSecretFields_def Let_def split: if_splits)
    qed
  qed
qed

lemma caRef_run:
  assumes "validateCAConfigMap c E s = (r, s')"
  shows "r \<noteq> Panic \<and> (\<exists>new. hk_hist s' = new @ hk_hist s \<and> reference_events E ''configmaps'' (ca_ref c) new \<and>
    (r = Ret [] \<longrightarrow> usable_ca E c new))"
proof -
  let ?p = "''spec.tls.caConfigMapRef''" and ?a = "object_attrs ''configmaps'' (ca_ref c)"
  obtain r1 s1 where 1: "AuthorizeGet ?p ?a E s = (r1, s1)" by (cases "AuthorizeGet ?p ?a E s")
  then show ?thesis
  proof (cases rule: AuthorizeGet_cases)
    case denied
    with assms 1 show ?thesis
      by (auto simp: validateCAConfigMap_def Let_def run_simps reference_events_def split: outcome.splits option.splits)
  next
    case (allowed g)
    let ?read = "\<lambda>x. LookedUpConfigMap (ca_ref c) x"
    show ?thesis
    proof (cases "w_configmap E (g # hk_hist s) (ca_ref c)")
      case (Inl e)
      let ?s2 = "s1\<lparr>hk_hist := ?read (Inl e) # hk_hist s1\<rparr>"
      have h: "handleResourceGetError e ?p ''ConfigMap'' (ca_ref c) E ?s2 = (r, s')"
        using assms 1 allowed Inl by (simp add: validateCAConfigMap_def Let_def run_simps)
      have "hk_hist s' = [?read (Inl e), g] @ hk_hist s" using handle_run(1) [OF h] allowed by simp
      moreover have "reference_events E ''configmaps'' (ca_ref c) [?read (Inl e), g]"
        using allowed by (simp add: reference_events_def)
      ultimately show ?thesis using handle_run(2,3) [OF h] by (auto simp: usable_ca_def)
    next
      case (Inr data)
      have h: "r = Ret (if fmlookup data (caref_Key c) = None
           then [(?p @ ''.key'', caref_Key c, ''key does not exist in referenced ConfigMap'')] else [])"
        "hk_hist s' = [?read (Inr data), g] @ hk_hist s"
        using assms 1 allowed Inr by (auto simp: validateCAConfigMap_def Let_def run_simps split: if_splits)
      moreover have "reference_events E ''configmaps'' (ca_ref c) [?read (Inr data), g]"
        using allowed by (simp add: reference_events_def)
      ultimately show ?thesis by (auto simp: usable_ca_def split: if_splits)
    qed
  qed
qed

lemma reference_guarded:
  assumes "reference_events E kind ref new" "new = later @ e # earlier" "reads e = Some (k, rf)"
  shows "\<exists>g\<in>set earlier. allowed_get E k rf g"
proof -
  from assms(1) consider "new = []" | sar x where "new = [Reviewed sar x]"
    | e' g where "new = [e', g]" "reads e' = Some (kind, ref)" "allowed_get E kind ref g"
    by (auto simp: reference_events_def)
  then show ?thesis
  proof cases
    case 2
    with assms show ?thesis by (cases later) auto
  next
    case 3
    then have "reads g = None" by (auto simp: allowed_get_def)
    with 3 assms show ?thesis by (cases later) (auto simp: append_eq_Cons_conv)
  qed (use assms in simp)
qed

text \<open>The two references of a profile, one after the other.\<close>

lemma guarded_append:
  assumes "\<And>l ea. old = l @ e # ea \<Longrightarrow> \<exists>g\<in>set ea. P g"
    and "\<And>l ea. new = l @ e # ea \<Longrightarrow> \<exists>g\<in>set ea. P g"
    and "new @ old = later @ e # earlier"
  shows "\<exists>g\<in>set earlier. P g"
proof -
  from assms(3) consider us where "new = later @ e # us" "earlier = us @ old"
    | us where "later = new @ us" "old = us @ e # earlier"
    by (auto simp: append_eq_append_conv2 Cons_eq_append_conv append_eq_Cons_conv)
  then show ?thesis
  proof cases
    case 1
    with assms(2) show ?thesis by fastforce
  next
    case 2
    with assms(1) show ?thesis by blast
  qed
qed

definition profile_checked :: "hook_env \<Rightarrow> AIStoreAuthProfile \<Rightarrow> hook_event list \<Rightarrow> bool" where
  "profile_checked E p events \<longleftrightarrow> profile_ValidateSpec (w_url E) p = [] \<and> (prof_Deleted p \<or>
     (\<forall>up. prs_UsernamePassword (prof_Spec p) = Some up \<longrightarrow> usable_secret E (pup_Secret up) events) \<and>
     (\<forall>c. ca_config_map p = Some c \<longrightarrow> usable_ca E c events))"

lemma profile_validate_run:
  assumes "profile_validate p E s = (r, s')"
  shows "r \<noteq> Panic \<and> (\<exists>new. hk_hist s' = new @ hk_hist s \<and> (r = Ret () \<longrightarrow> profile_checked E p new) \<and>
    (\<forall>later e earlier k rf. new = later @ e # earlier \<and> reads e = Some (k, rf) \<longrightarrow> (\<exists>g\<in>set earlier. allowed_get E k rf g)))"
proof (cases "profile_ValidateSpec (w_url E) p \<noteq> [] \<or> prof_Deleted p")
  case True
  with assms have "hk_hist s' = hk_hist s" "r \<noteq> Panic" "r = Ret () \<longrightarrow> profile_checked E p []"
    by (auto simp: profile_validate_def run_simps profile_checked_def split: if_splits)
  then show ?thesis by (intro conjI exI [of _ "[]"]) auto
next
  case False
  let ?sec = "case prs_UsernamePassword (prof_Spec p) of None \<Rightarrow> ret [] | Some up \<Rightarrow> validateSecretRef (pup_Secret up)"
  let ?ca = "case ca_config_map p of None \<Rightarrow> ret [] | Some ref \<Rightarrow> validateCAConfigMap ref"
  obtain r1 s1 where 1: "?sec E s = (r1, s1)" by (cases "?sec E s")
  obtain r2 s2 where 2: "?ca E s1 = (r2, s2)" by (cases "?ca E s1")
  have "r1 \<noteq> Panic \<and> (\<exists>n1 kind ref. hk_hist s1 = n1 @ hk_hist s \<and> reference_events E kind ref n1 \<and>
    (r1 = Ret [] \<longrightarrow> (\<forall>up. prs_UsernamePassword (prof_Spec p) = Some up \<longrightarrow> usable_secret E (pup_Secret up) n1)))"
  proof (cases "prs_UsernamePassword (prof_Spec p)")
    case None
    with 1 show ?thesis by (auto simp: run_simps reference_events_def)
  next
    case (Some up)
    with 1 have "validateSecretRef (pup_Secret up) E s = (r1, s1)" by simp
    from secretRef_run [OF this] Some show ?thesis by auto
  qed
  then obtain n1 kind1 ref1 where n1: "r1 \<noteq> Panic" "hk_hist s1 = n1 @ hk_hist s" "reference_events E kind1 ref1 n1"
    "r1 = Ret [] \<longrightarrow> (\<forall>up. prs_UsernamePassword (prof_Spec p) = Some up \<longrightarrow> usable_secret E (pup_Secret up) n1)" by auto
  have "r2 \<noteq> Panic \<and> (\<exists>n2 kind ref. hk_hist s2 = n2 @ hk_hist s1 \<and> reference_events E kind ref n2 \<and>
    (r2 = Ret [] \<longrightarrow> (\<forall>c. ca_config_map p = Some c \<longrightarrow> usable_ca E c n2)))"
  proof (cases "ca_config_map p")
    case None
    with 2 show ?thesis by (auto simp: run_simps reference_events_def)
  next
    case (Some c)
    with 2 have "validateCAConfigMap c E s1 = (r2, s2)" by simp
    from caRef_run [OF this] Some show ?thesis by auto
  qed
  then obtain n2 kind2 ref2 where n2: "r2 \<noteq> Panic" "hk_hist s2 = n2 @ hk_hist s1" "reference_events E kind2 ref2 n2"
    "r2 = Ret [] \<longrightarrow> (\<forall>c. ca_config_map p = Some c \<longrightarrow> usable_ca E c n2)" by auto
  have guard1: "\<exists>g\<in>set earlier. allowed_get E k rf g" if "n1 = later @ e # earlier" "reads e = Some (k, rf)" for later e earlier k rf
    by (rule reference_guarded [OF n1(3) that])
  have guard2: "\<exists>g\<in>set earlier. allowed_get E k rf g" if "n2 @ n1 = later @ e # earlier" "reads e = Some (k, rf)" for later e earlier k rf
    by (rule guarded_append [OF _ _ that(1)]) (rule guard1 [OF _ that(2)] reference_guarded [OF n2(3) _ that(2)], assumption)+
  have "(\<exists>e. r1 = Err e \<and> r = Err e) \<and> s' = s1 \<or> r \<noteq> Panic \<and> s' = s2 \<and> (r = Ret () \<longrightarrow> r1 = Ret [] \<and> r2 = Ret [])"
    using assms False 1 2 n1(1) n2(1)
    by (auto simp: profile_validate_def run_simps split: outcome.splits if_splits)
  then show ?thesis
  proof (elim disjE conjE)
    assume "\<exists>e. r1 = Err e \<and> r = Err e" "s' = s1"
    then show ?thesis using n1(2) guard1 by (intro conjI exI [of _ n1]) auto
  next
    assume r: "r \<noteq> Panic" "s' = s2" "r = Ret () \<longrightarrow> r1 = Ret [] \<and> r2 = Ret []"
    have "r = Ret () \<longrightarrow> profile_checked E p (n2 @ n1)"
      using r(3) n1(4) n2(4) False by (fastforce simp: profile_checked_def usable_secret_def usable_ca_def)
    then show ?thesis using r n1(2) n2(2) guard2 by (intro conjI exI [of _ "n2 @ n1"]) auto
  qed
qed

text \<open>
  C30. The profile webhook reads a referenced Secret or ConfigMap only after an access review of the
  submitting user that allowed to get that very object, so admission reveals nothing to a user who
  could not read it; and a profile it admits is valid and, unless it is being deleted, its Secret
  and its CA were read and have the keys it names, or the operator itself may not read them.
\<close>

theorem profile_admission:
  assumes "profile_admit old p E s = (r, s')"
  shows "\<exists>ws err new. r = Ret (ws, err) \<and> hk_hist s' = new @ hk_hist s \<and>
    (err = None \<longrightarrow> profile_checked E p new) \<and>
    (\<forall>later e earlier kind ref. new = later @ e # earlier \<and> reads e = Some (kind, ref) \<longrightarrow>
       (\<exists>g\<in>set earlier. allowed_get E kind ref g))"
proof -
  let ?s1 = "s\<lparr>hk_warnings := securityWarnings (w_url E) old p\<rparr>"
  obtain r1 s1 where 1: "profile_validate p E ?s1 = (r1, s1)" by (cases "profile_validate p E ?s1")
  from profile_validate_run [OF 1] obtain new where n: "r1 \<noteq> Panic" "hk_hist s1 = new @ hk_hist s"
    "r1 = Ret () \<longrightarrow> profile_checked E p new"
    "\<forall>later e earlier k rf. new = later @ e # earlier \<and> reads e = Some (k, rf) \<longrightarrow> (\<exists>g\<in>set earlier. allowed_get E k rf g)"
    by auto
  have "\<exists>ws err. r = Ret (ws, err) \<and> s' = s1 \<and> (err = None \<longrightarrow> r1 = Ret ())"
    using assms 1 n(1) by (auto simp: profile_admit_def run_simps split: outcome.splits)
  with n show ?thesis by blast
qed

section \<open>Secrets that are gone\<close>

lemma missing_admin_secret:
  assumes "secretRefName (as_AdminSecret (authn_Spec authn)) = n" and "n \<noteq> []"
    and "\<And>h. \<exists>e. w_secret E h \<lparr>nn_Name = n, nn_Namespace = authn_Namespace authn\<rparr> = Inl e"
  shows "\<exists>e. fst (authn_ValidateUpdate previous authn E s) = Err e"
proof -
  obtain e where "w_secret E (hk_hist s) \<lparr>nn_Name = n, nn_Namespace = authn_Namespace authn\<rparr> = Inl e"
    using assms(3) by blast
  with assms(1,2) show ?thesis
    by (auto simp: authn_ValidateUpdate_def authn_validate_def requireSecret_def Let_def run_simps
        split: sum.split outcome.split prod.split)
qed

text \<open>
  The AIStoreAuth webhook looks up the Secrets of a resource also when it is being deleted: once
  a Secret it names is gone, every update of it is rejected. The profile webhook lets a profile that
  is being deleted through without looking anything up.
\<close>

theorem missing_secret_rejects_every_update:
  assumes "secretRefName (as_AdminSecret (authn_Spec authn)) = n" and "n \<noteq> []"
    and "\<And>h. \<exists>e. w_secret E h \<lparr>nn_Name = n, nn_Namespace = authn_Namespace authn\<rparr> = Inl e"
  shows "(\<exists>e. fst (authn_ValidateUpdate previous authn E s) = Err e) \<and>
    (prof_Deleted profile \<and> profile_ValidateSpec (w_url E) profile = [] \<longrightarrow>
       profile_ValidateUpdate old profile E s =
         (Ret (securityWarnings (w_url E) (Some old) profile, None),
          s\<lparr>hk_warnings := securityWarnings (w_url E) (Some old) profile\<rparr>))"
proof
  show "\<exists>e. fst (authn_ValidateUpdate previous authn E s) = Err e" by (rule missing_admin_secret [OF assms])
qed (simp add: profile_ValidateUpdate_def profile_admit_def profile_validate_def run_simps)

text \<open>
  The warning that a reference could not be validated reaches the user only if the value of
  \<open>warnings\<close> is read after the call that appends it.
\<close>

lemma late_warning_lost:
  assumes "\<not> w_late_read E" "profile_admit old p E s = (Ret (ws, err), s')"
  shows "ws = securityWarnings (w_url E) old p"
  using assms by (auto simp: profile_admit_def run_simps split: outcome.splits prod.splits)

end
