(* ===== verification/Auth_Termination.thy ===== *)
theory Auth_Termination
  imports Auth_Properties Profile_Admission
begin

text \<open>
  The controller of AuthN servers and the webhook in front of the API server, together: what becomes
  of the deletion of an \<open>AIStoreAuth\<close>.

  The webhook is registered for every update with \<open>failurePolicy=fail\<close>: the API server refuses a
  patch of a resource that the webhook rejects, and the refusal is not a missing object.
\<close>

definition guarded_by :: "authn_env \<Rightarrow> hook_env \<Rightarrow> bool" where
  "guarded_by E W \<longleftrightarrow> (\<forall>h base a. (\<forall>s. \<exists>e. fst (authn_ValidateUpdate base a W s) = Err e) \<longrightarrow>
     (\<exists>e. n_patch E h base a = Inl e \<and> \<not> IsNotFound e))"

text \<open>
  C38. Once the administrator's Secret that an \<open>AIStoreAuth\<close> names has been deleted, the resource
  itself cannot be deleted: every reconcile of its deletion fails and its finalizer stays.
\<close>

theorem deleted_secret_blocks_deletion:
  assumes "guarded_by E W"
    and "n_get E (an_hist s) name = Inr a" and "authn_Deleted a" and "authnFinalizer \<in> set (authn_Finalizers a)"
    and "secretRefName (as_AdminSecret (authn_Spec a)) = n" and "n \<noteq> []"
    and "\<And>h. \<exists>e. w_secret W h \<lparr>nn_Name = n, nn_Namespace = authn_Namespace a\<rparr> = Inl e"
    and "authn_Reconcile name E s = (r, s')"
  shows "(\<exists>e. r = Err e) \<and> (\<exists>new. an_hist s' = new @ an_hist s \<and>
    (\<forall>base b x. PatchedAuthn base b x \<in> set new \<longrightarrow> (\<exists>e. x = Inl e)))"
proof -
  from assms(8) obtain s1 where s1: "an_obj s1 = a" "an_hist s1 = GotAuthn name (Inr a) # an_hist s"
    "reconcileDeletion E s1 = (r, s')"
    by (cases rule: reconcile_cases) (use assms(2,3) in auto)
  from s1(3) show ?thesis
  proof (cases rule: deletion_cases)
    case absent
    with assms(4) s1(1) show ?thesis by simp
  next
    case (stuck e)
    then obtain new where "an_hist s' = new @ an_hist s1" "\<forall>e\<in>set new. reports e \<or> about_claim e"
      by (auto simp: logs_def)
    with s1(2) stuck(1) show ?thesis
      by (intro conjI exI [of _ "new @ [GotAuthn name (Inr a)]"]) (auto simp: reports_def about_claim_def)
  next
    case (released t1 t2 b x h)
    have "authn_Spec b = authn_Spec a" "authn_Namespace b = authn_Namespace a"
      using released(4) s1(1) by simp_all
    then have "\<exists>e. fst (authn_ValidateUpdate a b W t) = Err e" for t
      using missing_admin_secret [of b n W a t] assms(5,6,7) by auto
    then obtain e where x: "x = Inl e" "\<not> IsNotFound e"
      using assms(1) [unfolded guarded_by_def, rule_format, of a b h] released(6) s1(1) by blast
    from released(5) obtain tail where tail: "an_hist s' = tail @ an_hist t2" "\<forall>e\<in>set tail. reports e"
      by (auto simp: logs_def)
    from retainPVC_run [OF released(2)] obtain kept where kept: "an_hist t1 = kept @ an_hist s1"
      "\<forall>e\<in>set kept. about_claim e" by auto
    let ?new = "tail @ PatchedAuthn a b x # Recorded ''CleanupCompleted'' ''Delete'' ''AIStoreAuth resources cleaned up''
        # kept @ [GotAuthn name (Inr a)]"
    have "an_hist s' = ?new @ an_hist s" using tail(1) released(3) kept(1) s1 by simp
    moreover have "\<forall>base b x. PatchedAuthn base b x \<in> set ?new \<longrightarrow> (\<exists>e. x = Inl e)"
      using tail(2) kept(2) x(1) by (auto simp: reports_def about_claim_def)
    moreover have "\<exists>e. r = Err e" using released(1,7) x by (cases r) auto
    ultimately show ?thesis by blast
  qed
qed

end
