(* ===== verification/AIStore_Webhook.thy ===== *)
theory AIStore_Webhook
  imports Webhook_Common Daemon_Pods
begin

text \<open>
  The admission webhook of AIStore resources
  (\<^verbatim>\<open>operator/internal/webhook/aistore/v1beta1/aistore_webhook.go\<close>): which specs are let in, which
  fields of a cluster may change, and which references its author must be allowed to make.
\<close>

section \<open>Equality of specs\<close>

text \<open>
  \<open>equality.Semantic.DeepEqual\<close> takes empty and nil maps for equal and compares quantities by their
  value.
\<close>

definition same_quantity :: "quantity \<Rightarrow> quantity \<Rightarrow> bool" where
  "same_quantity a b \<longleftrightarrow> (let m = min (qty_scale a) (qty_scale b) in
     qty_unscaled a * 10 ^ nat (qty_scale b - m) = qty_unscaled b * 10 ^ nat (qty_scale a - m))"

definition same_mount :: "Mount \<Rightarrow> Mount \<Rightarrow> bool" where
  "same_mount a b \<longleftrightarrow> b = a\<lparr>mnt_Size := mnt_Size b\<rparr> \<and>
     (case (mnt_Size a, mnt_Size b) of (None, None) \<Rightarrow> True | (Some p, Some q) \<Rightarrow> same_quantity p q | _ \<Rightarrow> False)"

definition plain_selector :: "'a DaemonSpec_scheme \<Rightarrow> 'a DaemonSpec_scheme" where
  "plain_selector d = d\<lparr>d_NodeSelector := Some (selector_of d)\<rparr>"

definition same_daemon_spec :: "DaemonSpec \<Rightarrow> DaemonSpec \<Rightarrow> bool" where
  "same_daemon_spec a b \<longleftrightarrow> plain_selector a = plain_selector b"

definition same_target_spec :: "TargetSpec \<Rightarrow> TargetSpec \<Rightarrow> bool" where
  "same_target_spec a b \<longleftrightarrow> list_all2 same_mount (t_Mounts a) (t_Mounts b) \<and>
     plain_selector a = (plain_selector b)\<lparr>t_Mounts := t_Mounts a\<rparr>"

section \<open>Updates of an existing cluster\<close>

definition errCannotUpdateSpec :: "string \<Rightarrow> err" where
  "errCannotUpdateSpec specName = OtherErr (''cannot update spec '' @ specName @ '' for an existing cluster'')"

text \<open>Copies onto the previous spec the fields that are allowed to change.\<close>

definition allowDaemonSpecUpdates :: "'a DaemonSpec_scheme \<Rightarrow> 'b DaemonSpec_scheme \<Rightarrow> 'a DaemonSpec_scheme" where
  "allowDaemonSpecUpdates prev spec = prev\<lparr>d_Size := d_Size spec, d_Annotations := d_Annotations spec,
     d_Labels := d_Labels spec, d_Env := d_Env spec, d_Resources := d_Resources spec,
     d_SecurityContext := d_SecurityContext spec, d_Capabilities := d_Capabilities spec,
     d_AISContainerSecurityContext := d_AISContainerSecurityContext spec,
     d_AutoScaleConf := d_AutoScaleConf spec, d_PVCRetentionPolicy := d_PVCRetentionPolicy spec,
     d_Probes := d_Probes spec, d_Tolerations := d_Tolerations spec\<rparr>"

definition with_proxy_spec :: "DaemonSpec \<Rightarrow> AIStore \<Rightarrow> AIStore" where
  "with_proxy_spec d ais = ais\<lparr>Spec := (Spec ais)\<lparr>ProxySpec := d\<rparr>\<rparr>"

definition with_target_spec :: "TargetSpec \<Rightarrow> AIStore \<Rightarrow> AIStore" where
  "with_target_spec d ais = ais\<lparr>Spec := (Spec ais)\<lparr>SpecTarget := d\<rparr>\<rparr>"

text \<open>They change the previous object in place and return it with the verdict.\<close>

definition validateProxyUpdate :: "AIStore \<Rightarrow> AIStore \<Rightarrow> AIStore \<times> err option" where
  "validateProxyUpdate prev ais =
     (let prev = with_proxy_spec (allowDaemonSpecUpdates (ProxySpec (Spec prev)) (ProxySpec (Spec ais))) prev
      in (prev, if \<not> same_daemon_spec (ProxySpec (Spec ais)) (ProxySpec (Spec prev))
                then Some (errCannotUpdateSpec ''proxySpec'') else None))"

definition validateTargetUpdate :: "AIStore \<Rightarrow> AIStore \<Rightarrow> AIStore \<times> err option" where
  "validateTargetUpdate prev ais =
     (let new = SpecTarget (Spec ais);
          target = (allowDaemonSpecUpdates (SpecTarget (Spec prev)) new)
            \<lparr>t_PodDisruptionBudget := t_PodDisruptionBudget new, t_ScaleDownMode := t_ScaleDownMode new\<rparr>;
          prev = with_target_spec target prev
      in (prev, if \<not> same_target_spec new (SpecTarget (Spec prev))
                then Some (errCannotUpdateSpec ''targetSpec'') else None))"

definition validateStateStorageUpdate :: "AIStore \<Rightarrow> AIStore \<Rightarrow> err option" where
  "validateStateStorageUpdate prev ais =
     (let cls = StateStoragePVCStorageClass (Spec ais) in
      if cls \<noteq> StateStoragePVCStorageClass (Spec prev) \<and> cls \<noteq> None
      then Some (errCannotUpdateSpec ''stateStorage.pvc.storageClass'') else None)"

section \<open>Checks against the cluster\<close>

definition verifyNodesAvailable :: "AIStore \<Rightarrow> string \<Rightarrow> string list hook" where
  "verifyNodesAvailable ais daeType =
     (let check = \<lambda>size sel. bind (deref size) (\<lambda>requiredSize.
            bind (look (\<lambda>E h. w_nodes E h sel) (ListedNodes sel)) (\<lambda>found.
            ret (if found \<ge> requiredSize then []
                 else [''spec for AIS '' @ daeType @ '' requires more K8s nodes matching the given selector: expected ''
                   @ show_int requiredSize @ '' but found '' @ show_int found])))
      in if daeType = Proxy_name then check (GetProxySize ais) (selector_of (ProxySpec (Spec ais)))
         else if daeType = Target_name then
           (if AllowTargetSharedNodes ais then ret []
            else check (GetTargetSize ais) (selector_of (SpecTarget (Spec ais))))
         else throw (OtherErr (''invalid daemon type: '' @ daeType)))"

definition verifyRequiredStorageClasses :: "AIStore \<Rightarrow> unit hook" where
  "verifyRequiredStorageClasses ais = bind (look (\<lambda>E h. w_classes E h) ListedClasses) (\<lambda>classes.
     case StateStoragePVCStorageClass (Spec ais) of None \<Rightarrow> ret ()
     | Some requiredClass \<Rightarrow>
         if requiredClass \<notin> set classes
         then throw (OtherErr (''required storage class '' @ requiredClass @ '' not found'')) else ret ())"

section \<open>References to credentials\<close>

definition hook_authorize :: "AIStore \<Rightarrow> string \<Rightarrow> string \<Rightarrow> ResourceAttributes \<Rightarrow> unit hook" where
  "hook_authorize ais verb path attrs = bind (Authorize verb path attrs) (\<lambda>fieldErr.
     case fieldErr of None \<Rightarrow> ret () | Some e \<Rightarrow> throw (NewInvalid ''AIStore'' (Name ais) [e]))"

definition authSecretNamespace :: "AIStore \<Rightarrow> UsernamePasswordAuth \<Rightarrow> string" where
  "authSecretNamespace ais up = (case SecretNamespace up of Some ns \<Rightarrow> ns | None \<Rightarrow> Namespace ais)"

definition inline_secret :: "AIStore \<Rightarrow> UsernamePasswordAuth option" where
  "inline_secret ais = Option.bind (Auth (Spec ais)) UsernamePassword"

definition profile_ref :: "AIStore \<Rightarrow> string option" where
  "profile_ref ais = Option.bind (Auth (Spec ais)) ProfileRef"

definition secret_attrs :: "AIStore \<Rightarrow> UsernamePasswordAuth \<Rightarrow> ResourceAttributes" where
  "secret_attrs ais up = \<lparr>ra_Group = [], ra_Version = [], ra_Resource = ''secrets'',
     ra_Namespace = authSecretNamespace ais up, ra_Name = SecretName up, ra_Verb = []\<rparr>"

definition profile_attrs :: "string \<Rightarrow> ResourceAttributes" where
  "profile_attrs name = \<lparr>ra_Group = ''auth.ais.nvidia.com'', ra_Version = ''v1alpha1'',
     ra_Resource = ''aistoreauthprofiles'', ra_Namespace = [], ra_Name = name, ra_Verb = []\<rparr>"

definition validateAuthSecret :: "AIStore option \<Rightarrow> AIStore \<Rightarrow> unit hook" where
  "validateAuthSecret prev ais = (case inline_secret ais of None \<Rightarrow> ret ()
   | Some up \<Rightarrow>
       let unchanged = (case prev of None \<Rightarrow> False | Some p \<Rightarrow> (case inline_secret p of None \<Rightarrow> False
             | Some previousUP \<Rightarrow> SecretName previousUP = SecretName up \<and>
                 authSecretNamespace p previousUP = authSecretNamespace ais up))
       in if unchanged then ret ()
          else hook_authorize ais ''get'' ''spec.auth.usernamePassword'' (secret_attrs ais up))"

definition validateAuthProfileExistence :: "string \<Rightarrow> string \<Rightarrow> string \<Rightarrow> unit hook" where
  "validateAuthProfileExistence path aisName profName =
     bind (attempt (look (\<lambda>E h. w_profile E h profName) (LookedUpProfile profName))) (\<lambda>r. case r of
       Inl e \<Rightarrow>
         if IsNotFound e
         then throw (NewInvalid ''AIStore'' aisName [(path, profName, ''referenced AIStoreAuthProfile does not exist'')])
         else throw (NewInternalError (''checking AIStoreAuthProfile '' @ profName) e)
     | Inr _ \<Rightarrow> ret ())"

definition validateAuthProfile :: "AIStore option \<Rightarrow> AIStore \<Rightarrow> unit hook" where
  "validateAuthProfile prev ais = (case profile_ref ais of None \<Rightarrow> ret ()
   | Some ref \<Rightarrow>
       let unchanged = (case prev of None \<Rightarrow> False | Some p \<Rightarrow> profile_ref p = Some ref);
           path = ''spec.auth.profileRef''
       in if unchanged then ret ()
          else bind (hook_authorize ais ''use'' path (profile_attrs ref)) (\<lambda>_.
               validateAuthProfileExistence path (Name ais) ref))"

definition validateAuthAccess :: "AIStore option \<Rightarrow> AIStore \<Rightarrow> unit hook" where
  "validateAuthAccess prev ais =
     bind (validateAuthProfile prev ais) (\<lambda>_. validateAuthSecret prev ais)"

section \<open>Admission\<close>

text \<open>A handler returns its warnings also when it rejects.\<close>

type_synonym verdict = "string list \<times> err option"

definition or_reject :: "'a hook \<Rightarrow> string list \<Rightarrow> ('a \<Rightarrow> verdict hook) \<Rightarrow> verdict hook" where
  "or_reject m warnings f = bind (attempt m) (\<lambda>r. case r of
     Inl e \<Rightarrow> ret (warnings, Some e) | Inr a \<Rightarrow> f a)"

definition validateSpec :: "AIStore option \<Rightarrow> AIStore \<Rightarrow> verdict hook" where
  "validateSpec prev ais = bind (asks (\<lambda>E. ValidateSpec (w_lib E) ais)) (\<lambda>(allWarnings, err).
     case err of Some e \<Rightarrow> ret (allWarnings, Some e)
     | None \<Rightarrow>
         or_reject (verifyNodesAvailable ais Proxy_name) allWarnings (\<lambda>proxyWarnings.
         let allWarnings = allWarnings @ proxyWarnings in
         or_reject (verifyNodesAvailable ais Target_name) allWarnings (\<lambda>targetWarnings.
         let allWarnings = allWarnings @ targetWarnings in
         or_reject (verifyRequiredStorageClasses ais) allWarnings (\<lambda>_.
         or_reject (validateAuthAccess prev ais) allWarnings (\<lambda>_. ret (allWarnings, None))))))"

definition ValidateCreate :: "AIStore \<Rightarrow> verdict hook" where
  "ValidateCreate ais = validateSpec None ais"

definition ValidateUpdate :: "AIStore \<Rightarrow> AIStore \<Rightarrow> verdict hook" where
  "ValidateUpdate prev ais = bind (validateSpec (Some prev) ais) (\<lambda>(warnings, err).
     case err of Some e \<Rightarrow> ret (warnings, Some e)
     | None \<Rightarrow>
         let (prev, err) = validateProxyUpdate prev ais in
         if err \<noteq> None then ret (warnings, err)
         else let (prev, err) = validateTargetUpdate prev ais in
         if err \<noteq> None then ret (warnings, err)
         else if EnableExternalLB (Spec ais) \<noteq> EnableExternalLB (Spec prev)
         then ret (warnings, Some (errCannotUpdateSpec ''enableExternalLB''))
         else ret (warnings, validateStateStorageUpdate prev ais))"

definition ValidateDelete :: "AIStore \<Rightarrow> verdict hook" where
  "ValidateDelete ais = ret ([], None)"

end
