(* ===== verification/AIStore_Admission.thy ===== *)
theory AIStore_Admission
  imports AIStore_Webhook
begin

text \<open>What the admission webhook of AIStore resources guarantees of the objects it lets in.\<close>

section \<open>How an admission runs\<close>

definition admit :: "AIStore option \<Rightarrow> AIStore \<Rightarrow> verdict hook" where
  "admit prev ais = (case prev of None \<Rightarrow> ValidateCreate ais | Some p \<Rightarrow> ValidateUpdate p ais)"

lemma or_reject_cases:
  assumes "or_reject m ws f E s = (r, s')" "fst (m E s) \<noteq> Panic"
  obtains (rejected) e where "m E s = (Err e, s')" "r = Ret (ws, Some e)"
    | (passed) a s1 where "m E s = (Ret a, s1)" "f a E s1 = (r, s')"
  using assms by (auto simp: or_reject_def run_simps split: prod.splits outcome.splits)

lemma proxy_size_known:
  assumes "snd (ValidateSpec L ais) = None"
  shows "GetProxySize ais \<noteq> None" "GetTargetSize ais \<noteq> None"
proof -
  have v: "snd (validateSize ais) = None" using assms by (simp add: ValidateSpec_ok_iff)
  show "GetProxySize ais \<noteq> None"
    using valid_sizes(1) [OF v] by (cases "IsProxyAutoScaling ais")
      (auto simp: GetProxySize_def Let_def split: option.splits if_splits)
  show "GetTargetSize ais \<noteq> None"
    using valid_sizes(2) [OF v] by (cases "IsTargetAutoScaling ais")
      (auto simp: GetTargetSize_def Let_def split: option.splits if_splits)
qed

lemma nodes_run:
  assumes "snd (ValidateSpec L ais) = None" "verifyNodesAvailable ais t E s = (r, s')"
  shows "r \<noteq> Panic" "hk_hist s' = hk_hist s \<or> (\<exists>sel x. hk_hist s' = ListedNodes sel x # hk_hist s)"
  using assms(2) proxy_size_known [OF assms(1)]
  by (auto simp: verifyNodesAvailable_def Let_def run_simps split: if_splits sum.splits)

lemma classes_run:
  assumes "verifyRequiredStorageClasses ais E s = (r, s')"
  shows "r \<noteq> Panic" "\<exists>x. hk_hist s' = ListedClasses x # hk_hist s"
    and "r = Ret () \<Longrightarrow> StateStoragePVCStorageClass (Spec ais) = Some c \<Longrightarrow>
      \<exists>cs. hk_hist s' = ListedClasses (Inr cs) # hk_hist s \<and> c \<in> set cs"
  using assms by (auto simp: verifyRequiredStorageClasses_def run_simps split: sum.splits option.splits if_splits)

lemma hook_authorize_run:
  assumes "hook_authorize ais verb path attrs E s = (r, s')"
  shows "r \<noteq> Panic" "looks (\<lambda>e. \<exists>user x. w_request E = Inr user \<and> e = Reviewed (review_of user verb attrs) x) s s'"
    and "r = Ret () \<Longrightarrow> \<exists>user. w_request E = Inr user \<and>
      hk_hist s' = Reviewed (review_of user verb attrs) (Inr True) # hk_hist s"
proof -
  obtain r1 s1 where 1: "Authorize verb path attrs E s = (r1, s1)" by (cases "Authorize verb path attrs E s")
  note auth = Authorize_run [OF 1]
  have s': "s' = s1" "r = Ret () \<longleftrightarrow> r1 = Ret None" "r \<noteq> Panic"
    using assms 1 auth(1) by (auto simp: hook_authorize_def run_simps split: outcome.splits option.splits)
  show "r \<noteq> Panic" by (rule s')
  show "looks (\<lambda>e. \<exists>user x. w_request E = Inr user \<and> e = Reviewed (review_of user verb attrs) x) s s'"
    using auth(3) s' by (auto intro: looks_one looks_none)
  show "\<exists>user. w_request E = Inr user \<and> hk_hist s' = Reviewed (review_of user verb attrs) (Inr True) # hk_hist s"
    if "r = Ret ()" using auth(4) s' that by simp
qed

text \<open>What the author of an object was allowed, or what the object already referred to.\<close>

definition profile_authorized :: "hook_env \<Rightarrow> AIStore option \<Rightarrow> AIStore \<Rightarrow> hook_event list \<Rightarrow> bool" where
  "profile_authorized E prev ais events \<longleftrightarrow> (\<forall>name. profile_ref ais = Some name \<longrightarrow>
     (\<exists>p. prev = Some p \<and> profile_ref p = Some name) \<or>
     (\<exists>user. w_request E = Inr user \<and> Reviewed (review_of user ''use'' (profile_attrs name)) (Inr True) \<in> set events \<and>
        LookedUpProfile name (Inr ()) \<in> set events))"

definition same_secret :: "AIStore \<Rightarrow> UsernamePasswordAuth \<Rightarrow> AIStore \<Rightarrow> UsernamePasswordAuth \<Rightarrow> bool" where
  "same_secret p previousUP ais up \<longleftrightarrow>
     SecretName previousUP = SecretName up \<and> authSecretNamespace p previousUP = authSecretNamespace ais up"

definition secret_authorized :: "hook_env \<Rightarrow> AIStore option \<Rightarrow> AIStore \<Rightarrow> hook_event list \<Rightarrow> bool" where
  "secret_authorized E prev ais events \<longleftrightarrow> (\<forall>up. inline_secret ais = Some up \<longrightarrow>
     (\<exists>p q. prev = Some p \<and> inline_secret p = Some q \<and> same_secret p q ais up) \<or>
     (\<exists>user. w_request E = Inr user \<and> Reviewed (review_of user ''get'' (secret_attrs ais up)) (Inr True) \<in> set events))"

lemma profile_run:
  assumes "validateAuthProfile prev ais E s = (r, s')"
  shows "r \<noteq> Panic" "\<exists>new. hk_hist s' = new @ hk_hist s \<and> (r = Ret () \<longrightarrow> profile_authorized E prev ais new)"
proof -
  have unchanged: "r = Ret () \<and> s' = s" if "profile_ref ais = None \<or> (\<exists>p name. prev = Some p \<and>
      profile_ref ais = Some name \<and> profile_ref p = Some name)"
    using that assms by (auto simp: validateAuthProfile_def run_simps)
  have "r \<noteq> Panic \<and> (\<exists>new. hk_hist s' = new @ hk_hist s \<and> (r = Ret () \<longrightarrow> profile_authorized E prev ais new))"
  proof (cases "profile_ref ais = None \<or> (\<exists>p name. prev = Some p \<and> profile_ref ais = Some name \<and> profile_ref p = Some name)")
    case True
    with unchanged show ?thesis by (auto simp: profile_authorized_def)
  next
    case False
    then obtain name where n: "profile_ref ais = Some name" by auto
    let ?path = "''spec.auth.profileRef''"
    obtain r1 s1 where 1: "hook_authorize ais ''use'' ?path (profile_attrs name) E s = (r1, s1)"
      by (cases "hook_authorize ais ''use'' ?path (profile_attrs name) E s")
    have run: "bind (hook_authorize ais ''use'' ?path (profile_attrs name)) (\<lambda>_.
        validateAuthProfileExistence ?path (Name ais) name) E s = (r, s')"
      using assms False n by (cases prev) (auto simp: validateAuthProfile_def Let_def)
    note ran = hook_authorize_run [OF 1]
    show ?thesis
    proof (cases r1)
      case (Err e)
      with run 1 ran(2) show ?thesis by (auto simp: run_simps looks_def)
    next
      case (Ret u)
      then obtain user where "w_request E = Inr user"
        "hk_hist s1 = Reviewed (review_of user ''use'' (profile_attrs name)) (Inr True) # hk_hist s"
        using ran(3) by auto
      moreover obtain x where "hk_hist s' = LookedUpProfile name x # hk_hist s1" "r \<noteq> Panic" "r = Ret () \<longrightarrow> x = Inr ()"
        using run 1 Ret by (auto simp: validateAuthProfileExistence_def run_simps split: sum.splits if_splits)
      ultimately show ?thesis using n
        by (intro conjI exI [of _ "[_, _]"]) (auto simp: profile_authorized_def)
    qed (use ran in simp)
  qed
  then show "r \<noteq> Panic" "\<exists>new. hk_hist s' = new @ hk_hist s \<and> (r = Ret () \<longrightarrow> profile_authorized E prev ais new)"
    by auto
qed

lemma secret_run:
  assumes "validateAuthSecret prev ais E s = (r, s')"
  shows "r \<noteq> Panic" "\<exists>new. hk_hist s' = new @ hk_hist s \<and> (r = Ret () \<longrightarrow> secret_authorized E prev ais new)"
proof -
  have "r \<noteq> Panic \<and> (\<exists>new. hk_hist s' = new @ hk_hist s \<and> (r = Ret () \<longrightarrow> secret_authorized E prev ais new))"
  proof (cases "\<exists>up. inline_secret ais = Some up \<and> \<not> (\<exists>p q. prev = Some p \<and> inline_secret p = Some q \<and> same_secret p q ais up)")
    case False
    with assms have "r = Ret () \<and> s' = s"
      by (auto simp: validateAuthSecret_def same_secret_def run_simps split: option.splits)
    with False show ?thesis by (auto simp: secret_authorized_def)
  next
    case True
    then obtain up where up: "inline_secret ais = Some up"
      "\<not> (\<exists>p q. prev = Some p \<and> inline_secret p = Some q \<and> same_secret p q ais up)" by auto
    then have "hook_authorize ais ''get'' ''spec.auth.usernamePassword'' (secret_attrs ais up) E s = (r, s')"
      using assms by (auto simp: validateAuthSecret_def same_secret_def run_simps split: option.splits)
    from hook_authorize_run [OF this] up(1) show ?thesis
      by (auto simp: looks_def secret_authorized_def)
  qed
  then show "r \<noteq> Panic" "\<exists>new. hk_hist s' = new @ hk_hist s \<and> (r = Ret () \<longrightarrow> secret_authorized E prev ais new)"
    by auto
qed

lemma access_run:
  assumes "validateAuthAccess prev ais E s = (r, s')"
  shows "r \<noteq> Panic" "\<exists>new. hk_hist s' = new @ hk_hist s \<and>
    (r = Ret () \<longrightarrow> profile_authorized E prev ais new \<and> secret_authorized E prev ais new)"
proof -
  obtain r1 s1 where 1: "validateAuthProfile prev ais E s = (r1, s1)" by (cases "validateAuthProfile prev ais E s")
  obtain r2 s2 where 2: "validateAuthSecret prev ais E s1 = (r2, s2)" by (cases "validateAuthSecret prev ais E s1")
  from profile_run [OF 1] obtain n1 where n1: "hk_hist s1 = n1 @ hk_hist s" "r1 = Ret () \<longrightarrow> profile_authorized E prev ais n1"
    and p1: "r1 \<noteq> Panic" by auto
  from secret_run [OF 2] obtain n2 where n2: "hk_hist s2 = n2 @ hk_hist s1" "r2 = Ret () \<longrightarrow> secret_authorized E prev ais n2"
    and p2: "r2 \<noteq> Panic" by auto
  have grow: "profile_authorized E prev ais n1 \<Longrightarrow> profile_authorized E prev ais (n2 @ n1)"
    "secret_authorized E prev ais n2 \<Longrightarrow> secret_authorized E prev ais (n2 @ n1)"
    by (auto simp: profile_authorized_def secret_authorized_def)
  have "r = r1 \<and> s' = s1 \<and> r1 \<noteq> Ret () \<or> r1 = Ret () \<and> r = r2 \<and> s' = s2"
    using assms 1 2 p1 by (auto simp: validateAuthAccess_def run_simps split: outcome.splits)
  then have "r \<noteq> Panic \<and> (\<exists>new. hk_hist s' = new @ hk_hist s \<and>
    (r = Ret () \<longrightarrow> profile_authorized E prev ais new \<and> secret_authorized E prev ais new))"
    using n1 n2 p1 p2 grow by (elim disjE conjE) (auto intro!: exI [of _ "n2 @ n1"])
  then show "r \<noteq> Panic" "\<exists>new. hk_hist s' = new @ hk_hist s \<and>
    (r = Ret () \<longrightarrow> profile_authorized E prev ais new \<and> secret_authorized E prev ais new)" by auto
qed

lemma nodes_np: "snd (ValidateSpec L ais) = None \<Longrightarrow> fst (verifyNodesAvailable ais t E s) \<noteq> Panic"
  using nodes_run(1) by (metis prod.collapse)

lemma classes_np: "fst (verifyRequiredStorageClasses ais E s) \<noteq> Panic"
  using classes_run(1) by (metis prod.collapse)

lemma access_np: "fst (validateAuthAccess prev ais E s) \<noteq> Panic"
  using access_run(1) by (metis prod.collapse)

lemma spec_run:
  assumes "validateSpec prev ais E s = (r, s')"
  shows "\<exists>v. r = Ret v" "\<exists>new. hk_hist s' = new @ hk_hist s \<and> (\<forall>ws. r = Ret (ws, None) \<longrightarrow>
     snd (ValidateSpec (w_lib E) ais) = None \<and> profile_authorized E prev ais new \<and> secret_authorized E prev ais new)"
proof -
  let ?good = "\<lambda>r s'. (\<exists>v. r = Ret v) \<and> (\<exists>new. hk_hist s' = new @ hk_hist s \<and> (\<forall>ws. r = Ret (ws, None) \<longrightarrow>
     snd (ValidateSpec (w_lib E) ais) = None \<and> profile_authorized E prev ais new \<and> secret_authorized E prev ais new))"
  have rejected: "?good (Ret (ws, Some e)) t" if "\<exists>new. hk_hist t = new @ hk_hist s" for ws e t
    using that by auto
  obtain ws err where v: "ValidateSpec (w_lib E) ais = (ws, err)" by (cases "ValidateSpec (w_lib E) ais")
  have "?good r s'"
  proof (cases err)
    case (Some e)
    with assms v rejected [of s' ws e] show ?thesis by (auto simp: validateSpec_def run_simps)
  next
    case None
    then have ok: "snd (ValidateSpec (w_lib E) ais) = None" using v by simp
    from assms have "or_reject (verifyNodesAvailable ais Proxy_name) ws (\<lambda>w.
        or_reject (verifyNodesAvailable ais Target_name) (ws @ w) (\<lambda>w'.
        or_reject (verifyRequiredStorageClasses ais) ((ws @ w) @ w') (\<lambda>_.
        or_reject (validateAuthAccess prev ais) ((ws @ w) @ w') (\<lambda>_. ret ((ws @ w) @ w', None))))) E s = (r, s')"
      by (simp add: validateSpec_def v None run_bind run_asks Let_def)
    from this nodes_np [OF ok] show ?thesis
    proof (cases rule: or_reject_cases)
      case (rejected e)
      then show ?thesis using nodes_run(2) [OF ok rejected(1)] by auto
    next
      case (passed w s1)
      obtain n1 where n1: "hk_hist s1 = n1 @ hk_hist s" using nodes_run(2) [OF ok passed(1)] by auto
      from passed(2) nodes_np [OF ok] show ?thesis
      proof (cases rule: or_reject_cases)
        case (rejected e)
        then show ?thesis using nodes_run(2) [OF ok rejected(1)] n1 by auto
      next
        case (passed w' s2)
        obtain n2 where n2: "hk_hist s2 = n2 @ hk_hist s" using nodes_run(2) [OF ok passed(1)] n1 by auto
        from passed(2) classes_np show ?thesis
        proof (cases rule: or_reject_cases)
          case (rejected e)
          then show ?thesis using classes_run(2) [OF rejected(1)] n2 by auto
        next
          case (passed u s3)
          obtain n3 where n3: "hk_hist s3 = n3 @ hk_hist s" using classes_run(2) [OF passed(1)] n2 by auto
          from passed(2) access_np show ?thesis
          proof (cases rule: or_reject_cases)
            case (rejected e)
            then show ?thesis using access_run(2) [OF rejected(1)] n3 by auto
          next
            case (passed u s4)
            from access_run(2) [OF passed(1)] obtain n4 where n4: "hk_hist s4 = n4 @ hk_hist s3"
              "profile_authorized E prev ais n4" "secret_authorized E prev ais n4" by auto
            have "profile_authorized E prev ais (n4 @ n3)" "secret_authorized E prev ais (n4 @ n3)"
              using n4(2,3) by (auto simp: profile_authorized_def secret_authorized_def)
            then show ?thesis using passed(2) n4(1) n3 ok by (auto simp: run_simps)
          qed
        qed
      qed
    qed
  qed
  then show "\<exists>v. r = Ret v" "\<exists>new. hk_hist s' = new @ hk_hist s \<and> (\<forall>ws. r = Ret (ws, None) \<longrightarrow>
     snd (ValidateSpec (w_lib E) ais) = None \<and> profile_authorized E prev ais new \<and> secret_authorized E prev ais new)"
    by auto
qed

lemma update_run:
  assumes "ValidateUpdate old new E s = (Ret (ws, None), s')"
  shows "validateSpec (Some old) new E s = (Ret (ws, None), s')"
    and "same_daemon_spec (ProxySpec (Spec new)) (allowDaemonSpecUpdates (ProxySpec (Spec old)) (ProxySpec (Spec new)))"
    and "same_target_spec (SpecTarget (Spec new))
      ((allowDaemonSpecUpdates (SpecTarget (Spec old)) (SpecTarget (Spec new)))
         \<lparr>t_PodDisruptionBudget := t_PodDisruptionBudget (SpecTarget (Spec new)),
          t_ScaleDownMode := t_ScaleDownMode (SpecTarget (Spec new))\<rparr>)"
    and "EnableExternalLB (Spec new) = EnableExternalLB (Spec old)"
    and "StateStoragePVCStorageClass (Spec new) = StateStoragePVCStorageClass (Spec old) \<or>
      StateStoragePVCStorageClass (Spec new) = None"
proof -
  obtain r s1 where 1: "validateSpec (Some old) new E s = (r, s1)" by (cases "validateSpec (Some old) new E s")
  then obtain ws' where r: "r = Ret (ws', None)"
    using assms by (auto simp: ValidateUpdate_def run_simps split: outcome.splits option.splits prod.splits)
  have state: "StateStoragePVCStorageClass (Spec old\<lparr>ProxySpec := d, SpecTarget := t\<rparr>) = StateStoragePVCStorageClass (Spec old)"
    for t d by (simp add: StateStoragePVCStorageClass_def cong: option.case_cong)
  show "validateSpec (Some old) new E s = (Ret (ws, None), s')"
    and "same_daemon_spec (ProxySpec (Spec new)) (allowDaemonSpecUpdates (ProxySpec (Spec old)) (ProxySpec (Spec new)))"
    and "same_target_spec (SpecTarget (Spec new))
      ((allowDaemonSpecUpdates (SpecTarget (Spec old)) (SpecTarget (Spec new)))
         \<lparr>t_PodDisruptionBudget := t_PodDisruptionBudget (SpecTarget (Spec new)),
          t_ScaleDownMode := t_ScaleDownMode (SpecTarget (Spec new))\<rparr>)"
    and "EnableExternalLB (Spec new) = EnableExternalLB (Spec old)"
    and "StateStoragePVCStorageClass (Spec new) = StateStoragePVCStorageClass (Spec old) \<or>
      StateStoragePVCStorageClass (Spec new) = None"
    using assms 1 r
    by (auto simp: ValidateUpdate_def run_simps validateProxyUpdate_def validateTargetUpdate_def Let_def
        validateStateStorageUpdate_def state with_target_spec_def with_proxy_spec_def split: if_splits)
qed

section \<open>Equal specs build equal claims\<close>

text \<open>The fields of a daemon that an update may not change.\<close>

definition fixed_fields :: "'a DaemonSpec_scheme \<Rightarrow>
    ServiceSpec \<times> int32 option \<times> Affinity option \<times> string_map \<times> string_map option" where
  "fixed_fields d = (d_ServiceSpec d, d_HostPort d, d_Affinity d, selector_of d, d_ExternalAccess d)"

lemma fixed_fields_eq:
  "fixed_fields (plain_selector d) = fixed_fields d" "fixed_fields (allowDaemonSpecUpdates d e) = fixed_fields d"
  by (simp_all add: fixed_fields_def plain_selector_def allowDaemonSpecUpdates_def selector_of_def)

lemma fixed_fields_target:
  "fixed_fields (t\<lparr>t_Mounts := m\<rparr>) = fixed_fields t"
  "fixed_fields (t\<lparr>t_PodDisruptionBudget := p, t_ScaleDownMode := c\<rparr>) = fixed_fields t"
  by (simp_all add: fixed_fields_def selector_of_def)

lemma same_daemon_fixed: "same_daemon_spec a b \<Longrightarrow> fixed_fields a = fixed_fields b"
  unfolding same_daemon_spec_def by (metis fixed_fields_eq(1))

lemma same_target_fixed: "same_target_spec a b \<Longrightarrow> fixed_fields a = fixed_fields b"
  unfolding same_target_spec_def by (metis fixed_fields_eq(1) fixed_fields_target(1))

lemma scaled_div: "(x * 10 ^ d) div 10 ^ (n + d) = x div (10 :: int) ^ n"
  by (simp add: power_add)

lemma same_quantity_round:
  assumes "same_quantity a b"
  shows "round_down a = round_down b"
proof -
  have main: "round_down p = round_down q" if le: "qty_scale p \<le> qty_scale q"
    and eq: "qty_unscaled q = qty_unscaled p * 10 ^ nat (qty_scale q - qty_scale p)" for p q
  proof -
    let ?d = "nat (qty_scale q - qty_scale p)"
    consider "qty_scale q \<le> 0" | "qty_scale p \<le> 0" "0 < qty_scale q" | "0 < qty_scale p" by linarith
    then show ?thesis
    proof cases
      case 1
      then have "nat (- qty_scale p) = ?d + nat (- qty_scale q)" using le by linarith
      with 1 le show ?thesis by (simp add: round_down_def eq power_add)
    next
      case 2
      then have d: "?d = nat (- qty_scale p) + nat (qty_scale q)" by linarith
      then have "qty_unscaled q = (qty_unscaled p * 10 ^ nat (- qty_scale p)) * 10 ^ nat (qty_scale q)"
        by (simp add: eq power_add)
      then show ?thesis using 2 by (simp add: round_down_def abs_mult sgn_mult mult_sgn_abs abs_mult_sgn)
    next
      case 3
      then have "nat (qty_scale q) = nat (qty_scale p) + ?d" using le by linarith
      then show ?thesis using 3 le by (simp add: round_down_def eq abs_mult sgn_mult power_add)
    qed
  qed
  show ?thesis
  proof (cases "qty_scale a \<le> qty_scale b")
    case True
    then show ?thesis using assms main [of a b] by (simp add: same_quantity_def Let_def)
  next
    case False
    then show ?thesis using assms main [of b a] by (simp add: same_quantity_def Let_def)
  qed
qed

lemma same_mount_claim:
  assumes "same_mount a b"
  shows "BuildPVC a n = BuildPVC b n" "IsHostPath a = IsHostPath b"
proof -
  obtain sz where b: "b = a\<lparr>mnt_Size := sz\<rparr>" using assms unfolding same_mount_def by blast
  have "GetPVCResources a = GetPVCResources b"
    using assms same_quantity_round
    by (auto simp: same_mount_def GetPVCResources_def split: option.splits)
  then show "BuildPVC a n = BuildPVC b n" by (simp add: BuildPVC_def b GetPVCName_def)
  show "IsHostPath a = IsHostPath b" by (simp add: b IsHostPath_def)
qed

lemma same_mounts_claims:
  "list_all2 same_mount xs ys \<Longrightarrow>
     map (\<lambda>m. BuildPVC m n) (filter (\<lambda>m. \<not> IsHostPath m) xs) = map (\<lambda>m. BuildPVC m n) (filter (\<lambda>m. \<not> IsHostPath m) ys)"
  by (induction rule: list_all2_induct) (auto simp: same_mount_claim)

section \<open>Properties of the AIStore webhook\<close>


text \<open>
  C21. An admitted update of a cluster asks for no claim its StatefulSets were not created with: the
  claim templates of the targets and of the proxies stay what they were, up to dropping the claim of
  the state when the state moves to other storage. Ports, host ports, affinity, node selectors and
  external access of the daemons stay as well.
\<close>

theorem admitted_update_adds_no_claims:
  assumes "ValidateUpdate old new E s = (Ret (ws, None), s')"
    and "Name new = Name old" and "Namespace new = Namespace old"
  shows "(newTargetPVCs new = newTargetPVCs old \<or> newTargetPVCs new @ statePVCs old = newTargetPVCs old) \<and>
    (statePVCs new = statePVCs old \<or> statePVCs new = []) \<and>
    fixed_fields (ProxySpec (Spec new)) = fixed_fields (ProxySpec (Spec old)) \<and>
    fixed_fields (SpecTarget (Spec new)) = fixed_fields (SpecTarget (Spec old))"
proof -
  note run = update_run [OF assms(1)]
  let ?new = "SpecTarget (Spec new)" and ?old = "SpecTarget (Spec old)"
  have "list_all2 same_mount (t_Mounts ?new) (t_Mounts ?old)"
    using run(3) by (simp add: same_target_spec_def allowDaemonSpecUpdates_def)
  from same_mounts_claims [OF this] have mounts:
    "map (\<lambda>m. BuildPVC m (Name old)) (filter (\<lambda>m. \<not> IsHostPath m) (t_Mounts ?new)) =
     map (\<lambda>m. BuildPVC m (Name old)) (filter (\<lambda>m. \<not> IsHostPath m) (t_Mounts ?old))" .
  have same: "StateStoragePVCStorageClass (Spec new) = StateStoragePVCStorageClass (Spec old) \<Longrightarrow> statePVCs new = statePVCs old"
    using assms(2,3) by (simp add: statePVCs_def DefineStatePVC_def getStatePVCName_def cong: option.case_cong)
  have none: "StateStoragePVCStorageClass (Spec new) = None \<Longrightarrow> statePVCs new = []"
    by (simp add: statePVCs_def)
  have "fixed_fields (ProxySpec (Spec new)) = fixed_fields (ProxySpec (Spec old))"
    using same_daemon_fixed [OF run(2)] by (simp only: fixed_fields_eq)
  moreover have "fixed_fields ?new = fixed_fields ?old"
    using same_target_fixed [OF run(3)] by (simp only: fixed_fields_eq fixed_fields_target)
  ultimately show ?thesis using run(5) mounts same none assms(2) by (auto simp: newTargetPVCs_def)
qed

section \<open>The inline configuration\<close>

definition with_auth :: "AuthSpec \<Rightarrow> AIStore \<Rightarrow> AIStore" where
  "with_auth a ais = ais\<lparr>Spec := (Spec ais)\<lparr>Auth := Some a\<rparr>\<rparr>"

text \<open>Which part of the admission looks at the inline configuration.\<close>

lemma with_auth_parts:
  "d_Size (ProxySpec (Spec (with_auth a ais))) = d_Size (ProxySpec (Spec ais))"
  "Name (with_auth a ais) = Name ais" "Namespace (with_auth a ais) = Namespace ais"
  "ProxySpec (Spec (with_auth a ais)) = ProxySpec (Spec ais)"
  "SpecTarget (Spec (with_auth a ais)) = SpecTarget (Spec ais)"
  "EnableExternalLB (Spec (with_auth a ais)) = EnableExternalLB (Spec ais)"
  "Status (with_auth a ais) = Status ais" "Size (Spec (with_auth a ais)) = Size (Spec ais)"
  "StateStorage (Spec (with_auth a ais)) = StateStorage (Spec ais)"
  "StateStorageClass (Spec (with_auth a ais)) = StateStorageClass (Spec ais)"
  "HostpathPrefix (Spec (with_auth a ais)) = HostpathPrefix (Spec ais)"
  "TLS (Spec (with_auth a ais)) = TLS (Spec ais)" "SpecConfig (Spec (with_auth a ais)) = SpecConfig (Spec ais)"
  "ShutdownCluster (Spec (with_auth a ais)) = ShutdownCluster (Spec ais)"
  "CleanupMetadata (Spec (with_auth a ais)) = CleanupMetadata (Spec ais)"
  "SpecClusterDomain (Spec (with_auth a ais)) = SpecClusterDomain (Spec ais)"
  "Auth (Spec (with_auth a ais)) = Some a"
  by (simp_all add: with_auth_def)

lemma with_auth_reads:
  "GetProxySize (with_auth a ais) = GetProxySize ais" "GetTargetSize (with_auth a ais) = GetTargetSize ais"
  "AllowTargetSharedNodes (with_auth a ais) = AllowTargetSharedNodes ais"
  "StateStoragePVCStorageClass (Spec (with_auth a ais)) = StateStoragePVCStorageClass (Spec ais)"
  by (simp_all add: GetProxySize_def GetTargetSize_def IsProxyAutoScaling_def IsTargetAutoScaling_def
      AllowTargetSharedNodes_def StateStoragePVCStorageClass_def with_auth_parts cong: option.case_cong if_cong)

lemma with_auth_checks:
  "verifyNodesAvailable (with_auth a ais) t = verifyNodesAvailable ais t"
  "verifyRequiredStorageClasses (with_auth a ais) = verifyRequiredStorageClasses ais"
  "validateProxyUpdate old (with_auth a ais) = validateProxyUpdate old ais"
  "validateTargetUpdate old (with_auth a ais) = validateTargetUpdate old ais"
  "validateStateStorageUpdate old (with_auth a ais) = validateStateStorageUpdate old ais"
  by (simp_all add: verifyNodesAvailable_def verifyRequiredStorageClasses_def validateProxyUpdate_def
      validateTargetUpdate_def validateStateStorageUpdate_def with_auth_parts with_auth_reads cong: option.case_cong)

lemma with_auth_valid:
  "validateSize (with_auth a ais) = validateSize ais"
  "validateStateStorage (with_auth a ais) = validateStateStorage ais"
  "validateShutdownWithEmptyDir (with_auth a ais) = validateShutdownWithEmptyDir ais"
  "validateAutoScaling (with_auth a ais) = validateAutoScaling ais"
  "validateServiceSpec L (with_auth a ais) = validateServiceSpec L ais"
  "validateCleanupConfig (with_auth a ais) = validateCleanupConfig ais"
  "validateTLSCertPaths (with_auth a ais) = validateTLSCertPaths ais"
  "validateSafeDecommission (with_auth a ais) = validateSafeDecommission ais"
  by (simp_all add: validateSize_def validateStateStorage_def validateShutdownWithEmptyDir_def validateAutoScaling_def
      validateServiceSpec_def validateCleanupConfig_def validateTLSCertPaths_def validateSafeDecommission_def
      hasExactlyOneStateStorageMode_def IsProxyAutoScaling_def IsTargetAutoScaling_def UsesStateEmptyDir_def
      UsesStateHostPath_def StateStorageHostPathPrefix_def ShouldBeShutdown_def ShouldCleanupMetadata_def spec_http_def
      Let_def with_auth_parts cong: option.case_cong if_cong)

lemma ValidateSpec_any_url:
  "ValidateSpec L (with_auth (a\<lparr>ServiceURL := Some u\<rparr>) ais) = ValidateSpec L (with_auth (a\<lparr>ServiceURL := Some v\<rparr>) ais)"
proof -
  have "validateDeprecatedFields (with_auth (a\<lparr>ServiceURL := Some u\<rparr>) ais) =
     validateDeprecatedFields (with_auth (a\<lparr>ServiceURL := Some v\<rparr>) ais)"
    by (simp add: validateDeprecatedFields_def deprecatedFields_def Let_def with_auth_parts)
  then show ?thesis by (simp add: ValidateSpec_def validations_def with_auth_valid)
qed

text \<open>A change that keeps the Secret and refers to no profile needs no review.\<close>

lemma access_skipped:
  assumes "ProfileRef a = None"
    and "case UsernamePassword a of None \<Rightarrow> True
      | Some up \<Rightarrow> (\<exists>q. inline_secret old = Some q \<and> same_secret old q new up)"
  shows "validateAuthAccess (Some old) (with_auth (a\<lparr>ServiceURL := u\<rparr>) new) = ret ()"
proof -
  have "validateAuthProfile (Some old) (with_auth (a\<lparr>ServiceURL := u\<rparr>) new) = ret ()"
    using assms(1) by (simp add: validateAuthProfile_def profile_ref_def with_auth_parts)
  moreover have "validateAuthSecret (Some old) (with_auth (a\<lparr>ServiceURL := u\<rparr>) new) = ret ()"
    using assms(2) by (auto simp: validateAuthSecret_def inline_secret_def with_auth_parts same_secret_def
        authSecretNamespace_def split: option.splits)
  ultimately show ?thesis by (simp add: validateAuthAccess_def)
qed

definition unreviewed :: "hook_event \<Rightarrow> bool" where
  "unreviewed e \<longleftrightarrow> (\<nexists>sar x. e = Reviewed sar x)"

lemma cluster_checks_unreviewed:
  "steps E (looks unreviewed) (verifyNodesAvailable ais t)"
  "steps E (looks unreviewed) (verifyRequiredStorageClasses ais)"
  unfolding verifyNodesAvailable_def verifyRequiredStorageClasses_def Let_def
  by (intro looks_steps looks_look; simp add: unreviewed_def)+

section \<open>The service URL\<close>

text \<open>
  While the inline credentials of a cluster stay the same Secret, its author can point the
  operator to any service URL: the webhook gives the same verdict, makes the same calls and reviews
  no access, whatever the URL is; with inline token exchange no Secret is involved and this holds of
  every change.
\<close>

theorem service_url_is_not_reviewed:
  assumes "ProfileRef a = None"
    and "case UsernamePassword a of None \<Rightarrow> True
      | Some up \<Rightarrow> (\<exists>q. inline_secret old = Some q \<and> same_secret old q new up)"
  shows "ValidateUpdate old (with_auth (a\<lparr>ServiceURL := Some u\<rparr>) new) =
         ValidateUpdate old (with_auth (a\<lparr>ServiceURL := Some v\<rparr>) new) \<and>
    steps E (looks unreviewed) (ValidateUpdate old (with_auth (a\<lparr>ServiceURL := Some u\<rparr>) new))"
proof
  note skip = access_skipped [OF assms]
  show "ValidateUpdate old (with_auth (a\<lparr>ServiceURL := Some u\<rparr>) new) =
         ValidateUpdate old (with_auth (a\<lparr>ServiceURL := Some v\<rparr>) new)"
    unfolding ValidateUpdate_def validateSpec_def skip with_auth_checks with_auth_parts
      ValidateSpec_any_url [of _ u a new v] by (rule refl)
  show "steps E (looks unreviewed) (ValidateUpdate old (with_auth (a\<lparr>ServiceURL := Some u\<rparr>) new))"
    unfolding ValidateUpdate_def validateSpec_def skip or_reject_def Let_def
    by (intro looks_steps cluster_checks_unreviewed)
qed

section \<open>Referenced objects that are gone\<close>

lemma or_reject_accepted:
  assumes "or_reject m ws f E s = (Ret (w, None), s')"
  obtains a s1 where "m E s = (Ret a, s1)" "f a E s1 = (Ret (w, None), s')"
  using assms by (auto simp: or_reject_def run_simps split: prod.splits outcome.splits)

lemma accepted_classes:
  assumes "validateSpec prev ais E s = (Ret (ws, None), s')"
  shows "\<exists>s1 s2. verifyRequiredStorageClasses ais E s1 = (Ret (), s2)"
proof -
  obtain w err where v: "ValidateSpec (w_lib E) ais = (w, err)" by (cases "ValidateSpec (w_lib E) ais")
  with assms have "err = None" by (auto simp: validateSpec_def run_simps split: option.splits)
  with assms v show ?thesis
    by (auto simp: validateSpec_def run_bind run_asks Let_def elim!: or_reject_accepted) (intro exI)
qed

lemma update_answers:
  assumes "ValidateUpdate old new E s = (r, s')"
  obtains ws err where "r = Ret (ws, err)"
proof -
  obtain r1 s1 where 1: "validateSpec (Some old) new E s = (r1, s1)" by (cases "validateSpec (Some old) new E s")
  with spec_run(1) [OF 1] have "(\<exists>ws err. r = Ret (ws, err))"
    using assms by (auto simp: ValidateUpdate_def run_simps Let_def split: outcome.splits option.splits prod.splits if_splits)
  then show thesis using that by blast
qed

text \<open>
  When the storage class of a cluster's state has been deleted, every update of the cluster that
  keeps it is rejected, whether or not it changes the spec; in particular the operator cannot remove
  its finalizer from a cluster that is being deleted.
\<close>

theorem missing_class_rejects_every_update:
  assumes "StateStoragePVCStorageClass (Spec ais) = Some c"
    and "\<And>h cs. w_classes E h = Inr cs \<Longrightarrow> c \<notin> set cs"
    and "ValidateUpdate old ais E s = (r, s')"
  shows "\<exists>ws e. r = Ret (ws, Some e)"
proof -
  from assms(3) obtain ws err where r: "r = Ret (ws, err)" by (rule update_answers)
  show ?thesis
  proof (cases err)
    case None
    from accepted_classes [OF update_run(1) [OF assms(3) [unfolded r None]]] obtain s1 s2 where
      run: "verifyRequiredStorageClasses ais E s1 = (Ret (), s2)" by blast
    then obtain cs where "w_classes E (hk_hist s1) = Inr cs" "c \<in> set cs"
      using assms(1) by (auto simp: verifyRequiredStorageClasses_def run_simps split: sum.splits if_splits)
    with assms(2) show ?thesis by blast
  qed (use r in simp)
qed

text \<open>
  No admission of an AIStore panics: the cluster sizes the webhook dereferences are known once
  the spec is valid.
\<close>

theorem admission_never_panics:
  "\<exists>ws err. fst (admit prev ais E s) = Ret (ws, err)"
proof (cases prev)
  case None
  obtain r s' where "validateSpec None ais E s = (r, s')" by (cases "validateSpec None ais E s")
  with spec_run(1) [OF this] None show ?thesis by (auto simp: admit_def ValidateCreate_def)
next
  case (Some p)
  obtain r s' where "ValidateUpdate p ais E s = (r, s')" by (cases "ValidateUpdate p ais E s")
  with update_answers [OF this] Some show ?thesis by (metis admit_def fst_conv option.simps(5))
qed

end
