(* ===== verification/Token_Limits.thy ===== *)
theory Token_Limits
  imports Token_Properties
begin

text \<open>
  Where the client manager falls short of what it means to do: tokens without a lifetime, a changed
  TLS setting, addresses of IPv6 clusters, the cache of TLS configurations.
\<close>

section \<open>Tokens without a lifetime\<close>

text \<open>The clock of the pod does not run backwards.\<close>

definition clock_monotone :: "svc_env \<Rightarrow> bool" where
  "clock_monotone E \<longleftrightarrow> (\<forall>h new. e_clock E h \<le> e_clock E (new @ h))"

lemma wrap64_0 [simp]: "seconds 0 = 0"
  by (simp add: seconds_def wrap64_def)

lemma oauth_expiry:
  assumes "getTokenFromOAuth bp creds lc E s = (Ret ti, s')"
  obtains h body resp where "sv_hist s' = ReadClock (e_clock E h) # h"
    "e_DecodeOAuth E body = Inr resp" "ExpiresAt ti = Some (e_clock E h + seconds (ExpiresIn resp))"
  using assms unfolding getTokenFromOAuth_def Let_def
  by (elim bind_RetE) (auto simp: run_simps split: if_splits prod.splits outcome.splits sum.splits elim!: bind_RetE)

lemma expired_at_once:
  assumes "clock_monotone E" and "cl_tokenExpireAt (sv_objs s ! p) = Some (e_clock E h)"
    and "sv_hist s = new @ h" and "p < length (sv_objs s)"
  shows "\<exists>s'. isTokenExpired p E s = (Ret True, s')"
proof -
  have "e_clock E h \<le> e_clock E (sv_hist s)" using assms(1,3) by (simp add: clock_monotone_def)
  then show ?thesis using assms(2,4)
    by (simp add: isTokenExpired_def deref_client_def run_simps TokenExpiryBuffer_def minute_def)
qed

lemma expired_invalid:
  assumes mono: "clock_monotone E" and exp: "cl_tokenExpireAt (sv_objs s ! p) = Some (e_clock E h)"
    and hist: "sv_hist s = new @ h" and run: "HasValidBaseParams p ais url E s = (r, s')"
  shows "r \<noteq> Ret True"
proof
  assume "r = Ret True"
  with run have true: "HasValidBaseParams p ais url E s = (Ret True, s')" by simp
  from valid_fits [OF this] have p: "p < length (sv_objs s)" by simp
  from valid_parts [OF true] obtain s1 n where k: "clients_kept s s1" "sv_hist s1 = n @ sv_hist s"
    "isTokenExpired p E s1 = (Ret False, s')" by blast
  from expired_at_once [OF mono, of s1 p h "n @ new"] k exp hist p show False
    by (auto simp: clients_kept_def)
qed

text \<open>
  An OAuth issuer may leave \<open>expires_in\<close> out of its answer to a password login. Such a token is
  taken to expire the moment it was issued, so the client that carries it never has valid parameters
  and every lookup asks for new tokens; the same answer to a token exchange counts as a token that
  does not expire.
\<close>

theorem oauth_token_without_lifetime:
  assumes "clock_monotone E" and "\<And>body resp. e_DecodeOAuth E body = Inr resp \<Longrightarrow> ExpiresIn resp = 0"
    and "\<And>body resp. e_DecodeExchange E body = Inr resp \<Longrightarrow> ExpiresIn resp = 0"
    and "getTokenFromOAuth bp creds lc E s = (Ret ti, s1)"
    and "sv_hist s2 = new @ sv_hist s1" and "cl_tokenExpireAt (sv_objs s2 ! p) = ExpiresAt ti"
  shows "fst (HasValidBaseParams p ais url E s2) \<noteq> Ret True \<and>
    (fst (exchangeTokenWithAuthSvc bp' tok endpoint auds E s') = Ret ti' \<longrightarrow> ExpiresAt ti' = None)"
proof
  obtain h where h: "sv_hist s1 = ReadClock (e_clock E h) # h" "ExpiresAt ti = Some (e_clock E h)"
    by (rule oauth_expiry [OF assms(4)]) (simp add: assms(2))
  obtain r s3 where r: "HasValidBaseParams p ais url E s2 = (r, s3)" by (cases "HasValidBaseParams p ais url E s2")
  from expired_invalid [OF assms(1) _ _ this, of h "new @ [ReadClock (e_clock E h)]"] h assms(5,6) r
  show "fst (HasValidBaseParams p ais url E s2) \<noteq> Ret True" by simp
  show "fst (exchangeTokenWithAuthSvc bp' tok endpoint auds E s') = Ret ti' \<longrightarrow> ExpiresAt ti' = None"
  proof
    assume "fst (exchangeTokenWithAuthSvc bp' tok endpoint auds E s') = Ret ti'"
    then obtain s'' where "exchangeTokenWithAuthSvc bp' tok endpoint auds E s' = (Ret ti', s'')"
      by (metis prod.collapse)
    then show "ExpiresAt ti' = None" unfolding exchangeTokenWithAuthSvc_def Let_def
      using assms(3) by (elim bind_RetE) (auto simp: run_simps split: if_splits prod.splits outcome.splits sum.splits)
  qed
qed

section \<open>A changed TLS setting\<close>

definition with_skip :: "bool option \<Rightarrow> AIStore \<Rightarrow> AIStore" where
  "with_skip b ais = ais\<lparr>Spec := (Spec ais)\<lparr>OperatorSkipVerifyCrt := b\<rparr>\<rparr>"

lemma with_skip_same [simp]:
  "UseHTTPS (with_skip b ais) = UseHTTPS ais" "GetAPIMode (with_skip b ais) = GetAPIMode ais"
  "ProxyExternalAccessEnabled (with_skip b ais) = ProxyExternalAccessEnabled ais"
  "client_key (with_skip b ais) = client_key ais"
  "Auth (Spec (with_skip b ais)) = Auth (Spec ais)"
  "AuthNSecretName (Spec (with_skip b ais)) = AuthNSecretName (Spec ais)"
  by (simp_all add: with_skip_def UseHTTPS_def GetAPIMode_def ProxyExternalAccessEnabled_def client_key_def
      spec_http_def)

text \<open>A cluster reached inside Kubernetes, without authentication: its endpoint needs no call.\<close>

definition plain_cluster :: "AIStore \<Rightarrow> bool" where
  "plain_cluster ais \<longleftrightarrow> GetAPIMode ais \<noteq> APIModePublic \<and> \<not> ProxyExternalAccessEnabled ais \<and>
     Auth (Spec ais) = None \<and> AuthNSecretName (Spec ais) = None"

definition internal_url :: "k8s_lib \<Rightarrow> AIStore \<Rightarrow> string" where
  "internal_url L ais = createAPIURL (UseHTTPS ais) (nn_Name (proxy_HeadlessSVCNSName ais) @ ''.'' @ Namespace ais)
     (PortString L (ServicePort (d_ServiceSpec (ProxySpec (Spec ais)))))"

lemma internal_endpoint:
  "plain_cluster ais \<Longrightarrow> getAISAPIEndpoint ais E s = (Ret (internal_url (e_lib E) ais), s)"
  by (simp add: getAISAPIEndpoint_def plain_cluster_def internal_url_def run_simps Let_def)

lemma internal_url_skip [simp]: "internal_url L (with_skip b ais) = internal_url L ais"
  by (simp add: internal_url_def proxy_HeadlessSVCNSName_def in_namespace_def) (simp add: with_skip_def)

lemma url_scheme: "HasPrefix (createAPIURL https h p) ''https://'' = https"
  by (simp add: createAPIURL_def)

lemma first_lookup:
  assumes "plain_cluster ais" and "fmlookup (sv_clients s) (client_key ais) = None"
    and "GetClient ais E s = (Ret p, s1)"
  obtains tls s0 where "getTLSConfig ais E s = (Ret tls, s0)" "p < length (sv_objs s1)"
    "sv_objs s1 ! p = NewAIStoreClient (internal_url (e_lib E) ais) None (GetAPIMode ais) tls"
    "fmlookup (sv_clients s1) (client_key ais) = Some p"
proof -
  from assms have "create_client ais (internal_url (e_lib E) ais) E s = (Ret p, s1)"
    by (simp add: GetClient_def run_simps internal_endpoint)
  with assms(1) obtain tls s0 where "getTLSConfig ais E s = (Ret tls, s0)"
    "p = length (sv_objs s0)" "s1 = s0\<lparr>sv_objs := sv_objs s0 @
        [NewAIStoreClient (internal_url (e_lib E) ais) None (GetAPIMode ais) tls],
       sv_clients := fmupd (client_key ais) p (sv_clients s0)\<rparr>"
    by (auto simp: create_client_def getAdminToken_def plain_cluster_def run_simps run_add_client
        split: prod.splits outcome.splits)
  then show ?thesis by (intro that) auto
qed

text \<open>
  Whether the operator verifies the certificate of a cluster is decided when its client is
  made: a client that was made while \<open>operatorSkipVerifyCrt\<close> had one value is handed out after the
  field has been changed to any other, with the TLS configuration of the old value, and no
  certificate is read.
\<close>

theorem skip_verify_change_is_ignored:
  assumes "plain_cluster ais" and "\<And>url. e_IsHTTPS E url = HasPrefix url ''https://''"
    and "fmlookup (sv_clients s) (client_key ais) = None" and "GetClient ais E s = (Ret p, s1)"
  shows "GetClient (with_skip b ais) E s1 = (Ret p, s1) \<and>
    cl_tlsCfg (sv_objs s1 ! p) = (case fst (getTLSConfig ais E s) of Ret tls \<Rightarrow> tls | _ \<Rightarrow> None)"
proof -
  obtain tls s0 where t: "getTLSConfig ais E s = (Ret tls, s0)" and p: "p < length (sv_objs s1)"
    and c: "sv_objs s1 ! p = NewAIStoreClient (internal_url (e_lib E) ais) None (GetAPIMode ais) tls"
    and k: "fmlookup (sv_clients s1) (client_key ais) = Some p"
    using first_lookup [OF assms(1,3,4)] by blast
  have plain: "plain_cluster (with_skip b ais)" using assms(1) by (simp add: plain_cluster_def)
  have fits: "params_fit (e_IsHTTPS E) (with_skip b ais) (buildBaseParams (internal_url (e_lib E) ais) [] tls)"
    using assms(1) by (simp add: params_fit_def Let_def buildBaseParams_def assms(2) internal_url_def url_scheme
        plain_cluster_def)
  have "refresh_if_expired (with_skip b ais) p E s1 = (Ret (), s1)"
    using p c by (simp add: refresh_if_expired_def isTokenExpired_def deref_client_def run_simps
        NewAIStoreClient_def Let_def)
  moreover have "HasValidBaseParams p (with_skip b ais) (internal_url (e_lib E) ais) E s1 = (Ret True, s1)"
    using p c fits assms(1)
    by (simp add: HasValidBaseParams_def isTokenExpired_def deref_client_def run_simps NewAIStoreClient_def
        Let_def plain_cluster_def buildBaseParams_def)
  ultimately have "GetClient (with_skip b ais) E s1 = (Ret p, s1)"
    using k internal_endpoint [OF plain, of E s1] by (simp add: GetClient_def run_simps)
  with t c show ?thesis by (simp add: NewAIStoreClient_def Let_def)
qed

section \<open>Addresses\<close>

text \<open>
  The host and the port of a URL's authority as \<open>net/url\<close> takes them apart since Go 1.26: a colon
  in the host must be inside brackets.
\<close>

definition split_authority :: "string \<Rightarrow> (string \<times> string) option" where
  "split_authority a = (case cut_last_colon a of (h, port) \<Rightarrow>
     if validOptionalPort port \<and> (CHR '':'' \<notin> set h \<or> prefix ''['' h \<and> suffix '']'' h)
     then Some (strip_brackets h, drop 1 port) else None)"

text \<open>
  The URL the operator builds for the AIStore API leads back to the host and the port it was
  built from exactly when the host holds no colon: the address of a load balancer or of a host in an
  IPv6 cluster is put in without brackets and the URL is malformed.
\<close>

theorem api_url_roundtrip:
  assumes "\<forall>d\<in>set port. digit_val d \<noteq> None" and "\<not> prefix ''['' host"
  shows "\<exists>authority. createAPIURL https host port =
      (if https then ''https://'' else ''http://'') @ authority \<and>
    split_authority authority = (if CHR '':'' \<in> set host then None else Some (host, port))"
proof -
  have "digit_val (CHR '':'') = None" by (simp add: digit_val_def)
  then have port: "CHR '':'' \<notin> set port" using assms(1) by metis
  have "strip_brackets host = host" using assms(2) by (simp add: strip_brackets_def)
  then have "split_authority (host @ '':'' @ port) = (if CHR '':'' \<in> set host then None else Some (host, port))"
    using cut_last_colon_port [OF port, of host] assms by (simp add: split_authority_def validOptionalPort_def)
  then show ?thesis by (intro exI [of _ "host @ '':'' @ port"]) (simp add: createAPIURL_def)
qed

section \<open>The cache of TLS configurations\<close>

text \<open>
  Every request for a token resolves the configuration anew, and its cache with it: the certificate
  files are read again however young the last configuration is, so the lifetime set in
  \<open>OPERATOR_AUTH_TLS_CACHE_TTL\<close> has no effect.
\<close>

lemma NewTLSConfig_reads:
  "\<exists>x. sv_hist (snd (NewTLSConfig \<lparr>CACertPaths = [p], CAPEMs = []\<rparr> E s)) = ReadFile p x # sv_hist s"
  by (simp add: NewTLSConfig_def NewCertPool_def os_ReadFile_def run_simps split: sum.split)

theorem tls_cache_never_hits:
  assumes "ResolveAuthConfig ais E s = (Ret conf, s1)" and "GetTLSConfig conf E s1 = (Ret c, s2)"
    and "Auth (Spec ais) = Some spec" and "ProfileRef spec = None" and "spec_GetCACertPath spec = p" and "p \<noteq> []"
  shows "\<exists>x new. sv_hist s2 = new @ sv_hist s1 \<and> ReadFile p x \<in> set new"
proof -
  from assms(1,3,4) obtain k where conf: "conf = AuthSpecConfig (spec, Namespace ais) k"
    and k: "k < length (sv_caches s1)" "cache_config (sv_caches s1 ! k) = None"
    using resolved [OF assms(1)] by auto
  let ?src = "spec_trustSource spec"
  have src: "?src E t = (Ret \<lparr>CACertPaths = [p], CAPEMs = []\<rparr>, t)" for t
    using assms(5,6) by (simp add: spec_trustSource_def caCertPaths_def run_simps)
  have "tlsCache_get k ?src (spec_GetInsecureSkipVerify spec) E s1 = (Ret c, s2)"
    using assms(2) conf by (simp add: AuthSpecConfig_def spec_GetTLSConfig_def)
  then obtain ttl s0 where ttl: "getTLSConfigCacheTTL E s1 = (Ret ttl, s0)"
    and run: "(bind (fresh_config k ttl) (\<lambda>hit. case hit of
       Some config \<Rightarrow> ret config
     | None \<Rightarrow> bind (fresh_config k ttl) (\<lambda>hit. case hit of
         Some config \<Rightarrow> ret config
       | None \<Rightarrow> bind ?src (\<lambda>trustConf.
           bind (attempt (NewTLSConfig trustConf)) (\<lambda>r. case r of
             Inl e \<Rightarrow> throw (Wrapped ''failed to create TLS config'' e)
           | Inr config \<Rightarrow>
               let config = (if spec_GetInsecureSkipVerify spec then config\<lparr>tc_InsecureSkipVerify := True\<rparr> else config)
               in bind time_Now (\<lambda>t.
                  bind (modify (\<lambda>s. s\<lparr>sv_caches := (sv_caches s)[k := \<lparr>cache_config = Some config, cache_created = t\<rparr>]\<rparr>)) (\<lambda>_.
                  ret config))))))) E s0 = (Ret c, s2)"
    unfolding tlsCache_get_def by (rule bind_RetE)
  have s0: "sv_hist s0 = sv_hist s1" "sv_caches s0 = sv_caches s1"
    using ttl by (auto simp: getTLSConfigCacheTTL_def run_simps split: option.splits)
  have fresh: "fresh_config k ttl E s0 = (Ret None, s0)" using fresh_config_empty k s0 by simp
  obtain x where x: "sv_hist (snd (NewTLSConfig \<lparr>CACertPaths = [p], CAPEMs = []\<rparr> E s0)) = ReadFile p x # sv_hist s0"
    using NewTLSConfig_reads by blast
  obtain r3 s3 where 3: "NewTLSConfig \<lparr>CACertPaths = [p], CAPEMs = []\<rparr> E s0 = (r3, s3)"
    by (cases "NewTLSConfig \<lparr>CACertPaths = [p], CAPEMs = []\<rparr> E s0")
  have "sv_hist s2 = ReadClock (e_clock E (sv_hist s3)) # sv_hist s3"
    using run fresh src 3 by (cases r3) (auto simp: run_simps Let_def)
  then show ?thesis using x 3 s0 by (intro exI [of _ x] exI [of _ "[_, _]"]) auto
qed

end
