(* ===== verification/Operator_Info.thy ===== *)
theory Operator_Info
  imports Go_Std
begin

text \<open>
  What the operator finds out about its surroundings at start-up
  (\<^verbatim>\<open>operator/internal/opinfo/opinfo.go\<close>): the DNS domain of the cluster, from the environment or
  from the resolver configuration that kubelet writes, and the service account it authenticates as.
\<close>

section \<open>Text\<close>

text \<open>\<open>strings.Fields\<close>, \<open>strings.CutPrefix\<close> and \<open>strings.Cut\<close> at one character.\<close>

fun fields_from :: "string \<Rightarrow> string \<Rightarrow> string list" where
  "fields_from word [] = (if word = [] then [] else [rev word])"
| "fields_from word (c # s) =
     (if is_space c then (if word = [] then fields_from [] s else rev word # fields_from [] s)
      else fields_from (c # word) s)"

definition strings_Fields :: "string \<Rightarrow> string list" where
  "strings_Fields s = fields_from [] s"

definition CutPrefix :: "string \<Rightarrow> string \<Rightarrow> string option" where
  "CutPrefix s p = (if HasPrefix s p then Some (drop (length p) s) else None)"

fun strings_Cut :: "string \<Rightarrow> char \<Rightarrow> (string \<times> string) option" where
  "strings_Cut [] sep = None"
| "strings_Cut (c # s) sep =
     (if c = sep then Some ([], s)
      else case strings_Cut s sep of None \<Rightarrow> None | Some (a, b) \<Rightarrow> Some (c # a, b))"

text \<open>
  \<open>bufio.Scanner\<close> over a reader that delivers some content and then ends or fails: the lines
  without their end, the last one only when it is not empty, up to the first line that does not
  fit the buffer of 64 KiB.
\<close>

definition MaxScanTokenSize :: nat where "MaxScanTokenSize = 64 * 1024"

definition chop_return :: "string \<Rightarrow> string" where
  "chop_return l = TrimSuffix l [CHR 0x0D]"

fun scan_lines :: "string list \<Rightarrow> err option \<Rightarrow> string list \<times> err option" where
  "scan_lines [] end_err = ([], end_err)"
| "scan_lines (l # ls) end_err =
     (if length l \<ge> MaxScanTokenSize then ([], Some (OtherErr ''bufio.Scanner: token too long''))
      else if ls = [] \<and> l = [] then ([], end_err)
      else let (ks, e) = scan_lines ls end_err in (chop_return l # ks, e))"

definition Scanner :: "string \<times> err option \<Rightarrow> string list \<times> err option" where
  "Scanner reader = scan_lines (split_on (CHR 0x0A) (fst reader)) (snd reader)"

section \<open>The cluster domain\<close>

definition serviceSearchPrefix :: string where "serviceSearchPrefix = ''svc.''"

fun domainFromSearchList :: "string list \<Rightarrow> string" where
  "domainFromSearchList [] = []"
| "domainFromSearchList (entry # entries) =
     (case CutPrefix (TrimSuffix entry ''.'') serviceSearchPrefix of
        None \<Rightarrow> domainFromSearchList entries
      | Some domain \<Rightarrow> if domain \<noteq> [] then domain else domainFromSearchList entries)"

fun domain_of_lines :: "string list \<Rightarrow> string" where
  "domain_of_lines [] = []"
| "domain_of_lines (l # ls) =
     (let fields = strings_Fields l in
      if length fields < 2 \<or> hd fields \<noteq> ''search'' then domain_of_lines ls
      else let domain = domainFromSearchList (tl fields) in
           if domain \<noteq> [] then domain else domain_of_lines ls)"

definition domainFromResolvConf :: "string \<times> err option \<Rightarrow> err + string" where
  "domainFromResolvConf resolvConf =
     (let (ls, e) = Scanner resolvConf; domain = domain_of_lines ls
      in if domain \<noteq> [] then Inr domain else (case e of None \<Rightarrow> Inr [] | Some x \<Rightarrow> Inl x))"

section \<open>The surroundings\<close>

text \<open>The domain and the account, read-only once they are resolved, and the reviews asked for.\<close>

datatype info_event = ReviewedSelf "err + string" \<comment> \<open>the user name\<close>

record info_env =
  i_Getenv :: "string \<Rightarrow> string" \<comment> \<open>empty when unset\<close>
  i_resolver :: "err + (string \<times> err option)" \<comment> \<open>opening \<^verbatim>\<open>/etc/resolv.conf\<close>\<close>
  i_DNS1123 :: "string \<Rightarrow> string list" \<comment> \<open>the complaints of \<open>IsDNS1123Subdomain\<close>\<close>
  i_given_up :: "err \<Rightarrow> bool" \<comment> \<open>cancelled or past the deadline\<close>
  i_IsUnauthorized :: "err \<Rightarrow> bool"
  i_IsForbidden :: "err \<Rightarrow> bool"
  i_review :: "info_event list \<Rightarrow> err + string"

record info_st =
  clusterDomain :: string
  serviceAccount :: "string \<times> string" \<comment> \<open>namespace and name\<close>
  i_hist :: "info_event list"

type_synonym 'a info = "(info_env, info_st, 'a) M"

definition defaultClusterDomain :: string where "defaultClusterDomain = ''cluster.local''"
definition clusterDomainEnv :: string where "clusterDomainEnv = ''KUBERNETES_CLUSTER_DOMAIN''"
definition resolvConfPath :: string where "resolvConfPath = ''/etc/resolv.conf''"
definition serviceAccountUsernamePrefix :: string where
  "serviceAccountUsernamePrefix = ''system:serviceaccount:''"

definition initial_info :: info_st where
  "initial_info = \<lparr>clusterDomain = defaultClusterDomain, serviceAccount = ([], []), i_hist = []\<rparr>"

definition validDomain :: "info_env \<Rightarrow> string \<Rightarrow> err + string" where
  "validDomain E domain =
     (if i_DNS1123 E domain \<noteq> [] then Inl (OtherErr (''cluster domain '' @ domain @ '' is invalid''))
      else Inr domain)"

definition discoverClusterDomain :: "info_env \<Rightarrow> err + string" where
  "discoverClusterDomain E = (case i_resolver E of Inl e \<Rightarrow> Inl e | Inr r \<Rightarrow> domainFromResolvConf r)"

definition resolveClusterDomain :: "info_env \<Rightarrow> err + string" where
  "resolveClusterDomain E =
     (let configured = TrimSuffix (TrimSpace (i_Getenv E clusterDomainEnv)) ''.'' in
      if configured \<noteq> [] then validDomain E configured
      else (case discoverClusterDomain E of
          Inl e \<Rightarrow> Inl (Wrapped (''failed to resolve cluster domain from '' @ resolvConfPath) e)
        | Inr discovered \<Rightarrow>
            if discovered = [] then Inl (OtherErr (''found no '' @ serviceSearchPrefix @ '' entry in the ''
              @ resolvConfPath @ '' search list. Set '' @ clusterDomainEnv @ '' to the cluster's DNS domain''))
            else validDomain E discovered))"

section \<open>The operator's identity\<close>

definition retriableReviewError :: "info_env \<Rightarrow> err \<Rightarrow> bool" where
  "retriableReviewError E e =
     (if i_given_up E e then False else if IsNoMatchError e then False
      else \<not> i_IsUnauthorized E e \<and> \<not> i_IsForbidden E e \<and> \<not> IsNotFound e)"

definition review_self :: "string info" where
  "review_self = (\<lambda>E s. let r = i_review E (i_hist s); s' = s\<lparr>i_hist := ReviewedSelf r # i_hist s\<rparr>
     in (case r of Inl e \<Rightarrow> (Err e, s') | Inr u \<Rightarrow> (Ret u, s')))"

text \<open>\<open>retry.OnError\<close>: as many attempts as the backoff has steps; the waits are not modelled.\<close>

fun retry_OnError :: "nat \<Rightarrow> (info_env \<Rightarrow> err \<Rightarrow> bool) \<Rightarrow> 'a info \<Rightarrow> 'a info" where
  "retry_OnError 0 retriable m = m"
| "retry_OnError (Suc n) retriable m = bind (attempt m) (\<lambda>r. case r of
     Inr a \<Rightarrow> ret a
   | Inl e \<Rightarrow> bind (asks (\<lambda>E. retriable E e)) (\<lambda>again. if again then retry_OnError n retriable m else throw e))"

definition backoffSteps :: nat where "backoffSteps = 4"

definition parseServiceAccount :: "string \<Rightarrow> err + (string \<times> string)" where
  "parseServiceAccount username =
     (case CutPrefix username serviceAccountUsernamePrefix of
        None \<Rightarrow> Inl (OtherErr (''identity '' @ username @ '' is not a ServiceAccount''))
      | Some sa \<Rightarrow> (case strings_Cut sa (CHR '':'') of
          Some (namespace, name) \<Rightarrow>
            if namespace = [] \<or> name = []
            then Inl (OtherErr (''cannot determine a ServiceAccount from identity '' @ username))
            else Inr (namespace, name)
        | None \<Rightarrow> Inl (OtherErr (''cannot determine a ServiceAccount from identity '' @ username))))"

definition selfServiceAccountName :: "(string \<times> string) info" where
  "selfServiceAccountName =
     bind (attempt (retry_OnError (backoffSteps - 1) retriableReviewError review_self)) (\<lambda>r. case r of
       Inl e \<Rightarrow> throw (Wrapped ''failed to review the operator's own identity'' e)
     | Inr username \<Rightarrow> of_sum (parseServiceAccount username))"

definition info_Resolve :: "unit info" where
  "info_Resolve = bind (asks resolveClusterDomain) (\<lambda>r. bind (of_sum r) (\<lambda>domain.
     bind (modify (\<lambda>s. s\<lparr>clusterDomain := domain\<rparr>)) (\<lambda>_.
     bind selfServiceAccountName (\<lambda>sa. modify (\<lambda>s. s\<lparr>serviceAccount := sa\<rparr>)))))"

section \<open>Lemmas\<close>

lemma CutPrefix_append [simp]: "CutPrefix (p @ s) p = Some s"
  by (simp add: CutPrefix_def)

lemma strings_Cut_append: "sep \<notin> set a \<Longrightarrow> strings_Cut (a @ sep # b) sep = Some (a, b)"
  by (induction a) auto

lemma fields_word:
  "\<forall>c\<in>set w. \<not> is_space c \<Longrightarrow> fields_from acc (w @ s) = fields_from (rev w @ acc) s"
  by (induction w arbitrary: acc) auto

lemma TrimSuffix_none: "\<not> suffix p s \<Longrightarrow> TrimSuffix s p = s"
  by (simp add: TrimSuffix_def)

section \<open>What kubelet writes\<close>

text \<open>
  Kubelet puts the namespace's service domain, the service domain and the cluster domain into the
  search list of a pod, on one line of its resolver configuration.
\<close>

definition kubelet_search :: "string \<Rightarrow> string \<Rightarrow> string list" where
  "kubelet_search ns domain = [ns @ ''.svc.'' @ domain, ''svc.'' @ domain, domain]"

definition search_line :: "string \<Rightarrow> string \<Rightarrow> string" where
  "search_line ns domain = ''search '' @ strings_Join (kubelet_search ns domain) '' ''"

definition resolv_conf :: "string list \<Rightarrow> string \<Rightarrow> string \<Rightarrow> string \<Rightarrow> string" where
  "resolv_conf before ns domain rest =
     concat (map (\<lambda>l. l @ [CHR 0x0A]) before) @ search_line ns domain @ CHR 0x0A # rest"

definition is_search :: "string \<Rightarrow> bool" where
  "is_search l \<longleftrightarrow> length (strings_Fields l) \<ge> 2 \<and> hd (strings_Fields l) = ''search''"

text \<open>A name of a namespace, and a domain, as far as the parser is concerned.\<close>

definition plain_word :: "string \<Rightarrow> bool" where
  "plain_word w \<longleftrightarrow> w \<noteq> [] \<and> (\<forall>c\<in>set w. \<not> is_space c)"

lemma not_newline: "plain_word w \<Longrightarrow> CHR 0x0A \<notin> set w"
  by (auto simp: plain_word_def is_space_def)

lemma fields_Join:
  "\<forall>w\<in>set ws. plain_word w \<Longrightarrow> strings_Fields (strings_Join ws '' '') = ws"
proof (induction ws "'' ''" rule: strings_Join.induct)
  case (2 w)
  then show ?case using fields_word [of w "[]" "[]"] by (simp add: strings_Fields_def plain_word_def)
next
  case (3 w v ws)
  have "is_space (CHR 0x20)" by (simp add: is_space_def)
  with 3 show ?case using fields_word [of w "[]" "'' '' @ strings_Join (v # ws) '' ''"]
    by (simp add: strings_Fields_def plain_word_def)
qed (simp add: strings_Fields_def)

lemma search_line_fields:
  assumes "plain_word ns" "plain_word domain"
  shows "strings_Fields (search_line ns domain) = ''search'' # kubelet_search ns domain"
proof -
  have "search_line ns domain = strings_Join (''search'' # kubelet_search ns domain) '' ''"
    by (simp add: search_line_def kubelet_search_def)
  moreover have "plain_word ''search''" "plain_word (ns @ ''.svc.'' @ domain)" "plain_word (''svc.'' @ domain)"
    using assms by (auto simp: plain_word_def is_space_def)
  ultimately show ?thesis using assms fields_Join [of "''search'' # kubelet_search ns domain"]
    by (simp add: kubelet_search_def)
qed

lemma domain_of_search:
  assumes "CHR ''.'' \<notin> set ns" "domain \<noteq> []" "last domain \<noteq> CHR ''.''"
  shows "domainFromSearchList (kubelet_search ns domain) = (if ns = ''svc'' then ''svc.'' @ domain else domain)"
proof -
  have no_dot: "\<not> suffix ''.'' (p @ domain)" for p
    using assms(2,3) by (auto simp: suffix_def) (metis last_append last_snoc)
  have first: "HasPrefix (ns @ ''.svc.'' @ domain) ''svc.'' \<longleftrightarrow> ns = ''svc''"
  proof
    assume "HasPrefix (ns @ ''.svc.'' @ domain) ''svc.''"
    then obtain r where "ns @ ''.'' @ ''svc.'' @ domain = ''svc'' @ ''.'' @ r" by (auto simp: prefix_def)
    then show "ns = ''svc''"
      using dot_terminated_unique [of ns "''svc''" "ns @ ''.'' @ ''svc.'' @ domain" r "''svc.'' @ domain"] assms(1) by simp
  qed simp
  show ?thesis
  proof (cases "ns = ''svc''")
    case True
    then show ?thesis using no_dot [of "''svc.svc.''"]
      by (simp add: kubelet_search_def TrimSuffix_none CutPrefix_def serviceSearchPrefix_def)
  next
    case False
    have "CutPrefix (ns @ ''.svc.'' @ domain) ''svc.'' = None" using first False by (simp add: CutPrefix_def)
    moreover have "CutPrefix (''svc.'' @ domain) ''svc.'' = Some domain" by (rule CutPrefix_append)
    ultimately show ?thesis using False assms(2) no_dot [of "ns @ ''.svc.''"] no_dot [of "''svc.''"]
      by (simp add: kubelet_search_def TrimSuffix_none serviceSearchPrefix_def)
  qed
qed

text \<open>Scanning the file up to the search line.\<close>

lemma scan_first:
  "CHR 0x0A \<notin> set l \<Longrightarrow> length l < MaxScanTokenSize \<Longrightarrow>
     fst (Scanner (l @ CHR 0x0A # rest, e)) = chop_return l # fst (Scanner (rest, e))"
  by (simp add: Scanner_def split_on_append split: prod.split)

lemma domain_of_file:
  assumes "\<forall>l\<in>set before. CHR 0x0A \<notin> set l \<and> length l < MaxScanTokenSize \<and> \<not> is_search (chop_return l)"
    and "CHR 0x0A \<notin> set l" "length l < MaxScanTokenSize" "chop_return l = l" "is_search l"
    and "domainFromSearchList (tl (strings_Fields l)) \<noteq> []"
  shows "domain_of_lines (fst (Scanner (concat (map (\<lambda>l. l @ [CHR 0x0A]) before) @ l @ CHR 0x0A # rest, e))) =
    domainFromSearchList (tl (strings_Fields l))"
  using assms(1)
proof (induction before)
  case Nil
  then show ?case using assms(2-) by (simp add: scan_first is_search_def Let_def)
next
  case (Cons k before)
  then have "fst (Scanner (concat (map (\<lambda>l. l @ [CHR 0x0A]) (k # before)) @ l @ CHR 0x0A # rest, e)) =
      chop_return k # fst (Scanner (concat (map (\<lambda>l. l @ [CHR 0x0A]) before) @ l @ CHR 0x0A # rest, e))"
    using scan_first [of k "concat (map (\<lambda>l. l @ [CHR 0x0A]) before) @ l @ CHR 0x0A # rest" e] by simp
  then show ?case using Cons by (auto simp: is_search_def Let_def)
qed

lemma search_line_chop:
  assumes "plain_word domain"
  shows "chop_return (search_line ns domain) = search_line ns domain"
proof -
  have "search_line ns domain = (''search '' @ ns @ ''.svc.'' @ domain @ '' svc.'' @ domain @ '' '') @ domain"
    by (simp add: search_line_def kubelet_search_def)
  then have "last (search_line ns domain) = last domain" "search_line ns domain \<noteq> []"
    using assms by (simp_all add: plain_word_def)
  moreover have "\<not> is_space (last domain)" "is_space (CHR 0x0D)"
    using assms by (simp_all add: plain_word_def) (simp add: is_space_def)
  ultimately have "\<not> suffix [CHR 0x0D] (search_line ns domain)" by (metis last_snoc suffix_def)
  then show ?thesis by (simp add: chop_return_def TrimSuffix_none)
qed

lemma search_line_newline: "plain_word ns \<Longrightarrow> plain_word domain \<Longrightarrow> CHR 0x0A \<notin> set (search_line ns domain)"
  using not_newline by (simp add: search_line_def kubelet_search_def)

lemma resolv_conf_domain:
  assumes "\<forall>l\<in>set before. CHR 0x0A \<notin> set l \<and> length l < MaxScanTokenSize \<and> \<not> is_search (chop_return l)"
    and "plain_word ns" "CHR ''.'' \<notin> set ns" "plain_word domain" "last domain \<noteq> CHR ''.''"
    and "length (search_line ns domain) < MaxScanTokenSize"
  shows "domainFromResolvConf (resolv_conf before ns domain rest, e) =
     Inr (if ns = ''svc'' then ''svc.'' @ domain else domain)"
proof -
  note fields = search_line_fields [OF assms(2,4)]
  have d: "domain \<noteq> []" using assms(4) by (simp add: plain_word_def)
  have "is_search (search_line ns domain)" by (simp add: is_search_def fields kubelet_search_def)
  moreover have "domainFromSearchList (tl (strings_Fields (search_line ns domain))) \<noteq> []"
    using domain_of_search [OF assms(3) d assms(5)] d by (simp add: fields)
  ultimately have "domain_of_lines (fst (Scanner (resolv_conf before ns domain rest, e))) =
     domainFromSearchList (kubelet_search ns domain)"
    using domain_of_file [OF assms(1) search_line_newline [OF assms(2,4)] assms(6) search_line_chop [OF assms(4)]]
    by (simp add: resolv_conf_def fields)
  moreover obtain ls e' where "Scanner (resolv_conf before ns domain rest, e) = (ls, e')" by fastforce
  ultimately show ?thesis using domain_of_search [OF assms(3) d assms(5)] d
    by (cases "ns = ''svc''") (simp_all add: domainFromResolvConf_def Let_def)
qed

section \<open>Who the operator is\<close>

text \<open>The name of a service account, as the API server reports it.\<close>

definition account_name :: "string \<Rightarrow> string \<Rightarrow> string" where
  "account_name ns name = serviceAccountUsernamePrefix @ ns @ '':'' @ name"

lemma parse_account:
  assumes "CHR '':'' \<notin> set ns" "ns \<noteq> []" "name \<noteq> []"
  shows "parseServiceAccount (account_name ns name) = Inr (ns, name)"
  using strings_Cut_append [OF assms(1), of name] assms(2,3)
  by (simp add: parseServiceAccount_def account_name_def)

lemma retry_reviews:
  "\<exists>new r. retry_OnError n retriable review_self E s = (r, s\<lparr>i_hist := new @ i_hist s\<rparr>) \<and> length new \<le> n + 1 \<and>
    r \<noteq> Panic \<and> (\<forall>u. r = Ret u \<longrightarrow> (\<exists>older. new = ReviewedSelf (Inr u) # older))"
proof (induction n arbitrary: s)
  case 0
  show ?case
    by (rule exI [of _ "[ReviewedSelf (i_review E (i_hist s))]"])
      (auto simp: review_self_def Let_def split: sum.split)
next
  case (Suc n)
  show ?case
  proof (cases "i_review E (i_hist s)")
    case (Inr u)
    then show ?thesis
      by (intro exI [of _ "[ReviewedSelf (Inr u)]"]) (auto simp: review_self_def Let_def run_simps)
  next
    case (Inl e)
    let ?s = "s\<lparr>i_hist := ReviewedSelf (Inl e) # i_hist s\<rparr>"
    obtain new r where "retry_OnError n retriable review_self E ?s = (r, ?s\<lparr>i_hist := new @ i_hist ?s\<rparr>)"
      "length new \<le> n + 1" "r \<noteq> Panic" "\<forall>u. r = Ret u \<longrightarrow> (\<exists>older. new = ReviewedSelf (Inr u) # older)"
      using Suc [of ?s] by blast
    note more = this
    show ?thesis
    proof (cases "retriable E e")
      case True
      with Inl more show ?thesis
        by (intro exI [of _ "new @ [ReviewedSelf (Inl e)]"] exI [of _ r])
          (auto simp: review_self_def Let_def run_simps)
    next
      case False
      with Inl show ?thesis
        by (intro exI [of _ "[ReviewedSelf (Inl e)]"] exI [of _ "Err e"]) (auto simp: review_self_def Let_def run_simps)
    qed
  qed
qed

text \<open>
  C33. The operator reads back what kubelet wrote: from the search list of its pod it recovers the
  domain of the cluster, and from the user name the API server reports its namespace and account,
  after at most four reviews. The one exception is a namespace called \<open>svc\<close>, whose entry comes first
  and is taken for the service domain: there the domain found is \<open>svc.\<close> before the cluster's.
\<close>

theorem surroundings_round_trip:
  assumes "\<forall>l\<in>set before. CHR 0x0A \<notin> set l \<and> length l < MaxScanTokenSize \<and> \<not> is_search (chop_return l)"
    and "plain_word ns" "CHR ''.'' \<notin> set ns" "CHR '':'' \<notin> set ns" "name \<noteq> []"
    and "plain_word domain" "last domain \<noteq> CHR ''.''" "length (search_line ns domain) < MaxScanTokenSize"
    and "i_Getenv E clusterDomainEnv = []" and "i_resolver E = Inr (resolv_conf before ns domain rest, e)"
    and "i_DNS1123 E (if ns = ''svc'' then ''svc.'' @ domain else domain) = []"
    and "i_review E (i_hist s) = Inr (account_name ns name)"
  shows "info_Resolve E s = (Ret (), \<lparr>clusterDomain = (if ns = ''svc'' then ''svc.'' @ domain else domain),
      serviceAccount = (ns, name), i_hist = ReviewedSelf (Inr (account_name ns name)) # i_hist s\<rparr>)"
proof -
  have "domain \<noteq> []" "ns \<noteq> []" using assms(2,6) by (simp_all add: plain_word_def)
  moreover have "TrimSuffix (TrimSpace []) ''.'' = []" by (simp add: TrimSpace_def TrimSuffix_def)
  ultimately have "resolveClusterDomain E = Inr (if ns = ''svc'' then ''svc.'' @ domain else domain)"
    using resolv_conf_domain [OF assms(1,2,3,6,7,8), of rest e] assms(9,10,11)
    by (simp add: resolveClusterDomain_def discoverClusterDomain_def validDomain_def Let_def)
  then show ?thesis
    using parse_account [OF assms(4) \<open>ns \<noteq> []\<close> assms(5)] assms(12)
    by (simp add: info_Resolve_def selfServiceAccountName_def backoffSteps_def numeral_3_eq_3 review_self_def
        Let_def run_simps)
qed

text \<open>
  C24. Whatever the API server answers, resolving asks it to review the operator's identity at most
  four times and never panics; it fails unless the last review names a service account, and then
  the account recorded is that one.
\<close>

theorem identity_is_reviewed:
  "\<exists>new r s'. info_Resolve E s = (r, s') \<and> r \<noteq> Panic \<and> i_hist s' = new @ i_hist s \<and> length new \<le> 4 \<and>
    (r = Ret () \<longrightarrow> (\<exists>u older. new = ReviewedSelf (Inr u) # older \<and> parseServiceAccount u = Inr (serviceAccount s') \<and>
       resolveClusterDomain E = Inr (clusterDomain s')))"
proof (cases "resolveClusterDomain E")
  case (Inl e)
  then show ?thesis by (simp add: info_Resolve_def run_simps)
next
  case (Inr domain)
  let ?s = "s\<lparr>clusterDomain := domain\<rparr>"
  obtain new r where run: "retry_OnError 3 retriableReviewError review_self E ?s = (r, ?s\<lparr>i_hist := new @ i_hist ?s\<rparr>)"
    "length new \<le> 3 + 1" "r \<noteq> Panic" "\<forall>u. r = Ret u \<longrightarrow> (\<exists>older. new = ReviewedSelf (Inr u) # older)"
    using retry_reviews [of 3 retriableReviewError E ?s] by blast
  show ?thesis
  proof (cases r)
    case (Ret u)
    then show ?thesis using run Inr
      by (cases "parseServiceAccount u") (auto simp: info_Resolve_def selfServiceAccountName_def backoffSteps_def run_simps)
  qed (use run Inr in \<open>auto simp: info_Resolve_def selfServiceAccountName_def backoffSteps_def run_simps\<close>)
qed

end
