(* ===== verification/Cleanup_Helper.thy ===== *)
theory Cleanup_Helper
  imports Trust_Store
begin

text \<open>
  The helper image (\<^verbatim>\<open>ais-operator-helper/src/cleanup-helper.go\<close>) that removes the configuration
  of a daemon from its state directory. The directory is a tree as \<open>filepath.Walk\<close> meets it; an
  entry that cannot be looked at is an unreadable directory.
\<close>

record helper_env =
  h_root :: "err + fsnode" \<comment> \<open>looking at the directory to walk\<close>
  h_remove :: "(string \<times> (err + unit)) list \<Rightarrow> string \<Rightarrow> err + unit"

type_synonym 'a helper = "(helper_env, (string \<times> (err + unit)) list, 'a) M"

text \<open>The removals so far are the state, newest first.\<close>

definition os_Remove :: "string \<Rightarrow> unit helper" where
  "os_Remove path = (\<lambda>E h. let r = h_remove E h path in
     (case r of Inl e \<Rightarrow> (Err e, (path, r) # h) | Inr _ \<Rightarrow> (Ret (), (path, r) # h)))"

text \<open>\<open>filepath.Base\<close>: the last element, without trailing slashes.\<close>

definition filepath_Base :: "string \<Rightarrow> string" where
  "filepath_Base s =
     (if s = [] then ''.''
      else let t = rev (dropWhile (\<lambda>c. c = CHR ''/'') (rev s)) in
           if t = [] then ''/'' else last (split_path [] t))"

definition is_ais_file :: "string \<Rightarrow> bool" where
  "is_ais_file path = HasPrefix (filepath_Base path) ''.ais.''"

fun delete_node :: "string \<Rightarrow> fsnode \<Rightarrow> unit helper"
and delete_entries :: "string \<Rightarrow> fsnode list \<Rightarrow> unit helper" where
  "delete_node path (FileNode n) = (if is_ais_file path then os_Remove path else ret ())"
| "delete_node path (DirNode n entries) = delete_entries path entries"
| "delete_node path (UnreadableDir n e) = throw e"
| "delete_entries path [] = ret ()"
| "delete_entries path (d # ds) =
     bind (delete_node (path_Join [path, node_name d]) d) (\<lambda>_. delete_entries path ds)"

definition deleteConfigFiles :: "string \<Rightarrow> unit helper" where
  "deleteConfigFiles dirPath = bind (asks h_root) (\<lambda>root. case root of
     Inl e \<Rightarrow> throw e | Inr node \<Rightarrow> delete_node dirPath node)"

section \<open>What it removes\<close>

text \<open>The files of a tree with their paths, in the order of the walk, up to what cannot be read.\<close>

fun files_of :: "string \<Rightarrow> fsnode \<Rightarrow> string list \<times> bool"
and files_in :: "string \<Rightarrow> fsnode list \<Rightarrow> string list \<times> bool" where
  "files_of path (FileNode n) = ([path], True)"
| "files_of path (DirNode n entries) = files_in path entries"
| "files_of path (UnreadableDir n e) = ([], False)"
| "files_in path [] = ([], True)"
| "files_in path (d # ds) =
     (case files_of (path_Join [path, node_name d]) d of
        (ps, False) \<Rightarrow> (ps, False)
      | (ps, True) \<Rightarrow> (case files_in path ds of (qs, all) \<Rightarrow> (ps @ qs, all)))"

text \<open>Going through a list of files: all succeed, or the last one fails.\<close>

definition removes :: "string list \<Rightarrow> bool \<Rightarrow> unit outcome \<Rightarrow> (string \<times> (err + unit)) list \<Rightarrow> bool" where
  "removes files all r new \<longleftrightarrow>
     r \<noteq> Panic \<and> prefix (map fst (rev new)) files \<and>
     (r = Ret () \<longrightarrow> all \<and> rev new = map (\<lambda>p. (p, Inr ())) files) \<and>
     (r \<noteq> Ret () \<longrightarrow> \<not> all \<or> (\<exists>p e. p \<in> set files \<and> (p, Inl e) \<in> set new))"

lemma removes_more:
  assumes "removes ps True (Ret ()) n1" "removes qs all r n2"
  shows "removes (ps @ qs) all r (n2 @ n1)"
proof -
  have n1: "rev n1 = map (\<lambda>p. (p, Inr ())) ps" using assms(1) by (simp add: removes_def)
  then have "map fst (rev n1) = ps" by (simp add: comp_def)
  with n1 assms(2) show ?thesis by (auto simp: removes_def)
qed

lemma removes_stopped:
  assumes "removes ps all r n1" "r \<noteq> Ret ()" "\<not> all \<longrightarrow> \<not> all'" "\<not> all \<longrightarrow> qs = []"
  shows "removes (ps @ qs) all' r n1"
  using assms by (auto simp: removes_def prefix_def)

lemma delete_run:
  "\<exists>new r. delete_node path d E h = (r, new @ h) \<and>
     removes (filter is_ais_file (fst (files_of path d))) (snd (files_of path d)) r new"
  "\<exists>new r. delete_entries path ds E h = (r, new @ h) \<and>
     removes (filter is_ais_file (fst (files_in path ds))) (snd (files_in path ds)) r new"
proof (induction path d and path ds arbitrary: h and h rule: delete_node_delete_entries.induct)
  case (1 path n)
  show ?case
  proof (cases "is_ais_file path")
    case True
    then show ?thesis
      by (intro exI [of _ "[(path, h_remove E h path)]"])
        (auto simp: os_Remove_def Let_def removes_def split: sum.split)
  qed (simp add: run_simps removes_def)
next
  case (5 path d ds)
  let ?p = "path_Join [path, node_name d]"
  obtain ps a where f: "files_of ?p d = (ps, a)" by (cases "files_of ?p d")
  obtain qs b where g: "files_in path ds = (qs, b)" by (cases "files_in path ds")
  obtain n1 r1 where 1: "delete_node ?p d E h = (r1, n1 @ h)" "removes (filter is_ais_file ps) a r1 n1"
    using "5.IH"(1) [of h] f by auto
  show ?case
  proof (cases "r1 = Ret ()")
    case True
    obtain n2 r2 where 2: "delete_entries path ds E (n1 @ h) = (r2, n2 @ n1 @ h)" "removes (filter is_ais_file qs) b r2 n2"
      using "5.IH"(2) [of "n1 @ h"] g by auto
    have a: "a" using 1(2) True by (simp add: removes_def)
    have "removes (filter is_ais_file ps @ filter is_ais_file qs) b r2 (n2 @ n1)"
      using removes_more 1(2) 2(2) True a by simp
    then show ?thesis using 1(1) 2(1) True f g a
      by (intro exI [of _ "n2 @ n1"] exI [of _ r2]) (simp add: run_simps)
  next
    case False
    then have "r1 \<noteq> Panic" using 1(2) by (simp add: removes_def)
    with False obtain e where e: "r1 = Err e" by (cases r1) auto
    have "removes (filter is_ais_file ps @ (if a then filter is_ais_file qs else [])) (a \<and> b) r1 n1"
      by (rule removes_stopped [OF 1(2) False]) auto
    then show ?thesis using 1(1) e f g
      by (intro exI [of _ n1] exI [of _ r1]) (cases a; simp add: run_simps)
  qed
qed (simp_all add: run_simps removes_def)

text \<open>
  Cleaning a state directory removes regular files whose name starts with \<open>.ais.\<close> and nothing
  else, in the order of the walk; when it succeeds it has removed every one of them in the whole
  tree, and when it fails a removal failed or part of the tree could not be read.
\<close>

theorem helper_removes_config_files:
  assumes "h_root E = Inr node" and "files_of dir node = (files, complete)"
    and "deleteConfigFiles dir E [] = (r, removals)"
  shows "removes (filter is_ais_file files) complete r removals"
proof -
  obtain new r' where "delete_node dir node E [] = (r', new @ [])"
    "removes (filter is_ais_file (fst (files_of dir node))) (snd (files_of dir node)) r' new"
    using delete_run(1) by blast
  with assms show ?thesis by (simp add: deleteConfigFiles_def run_simps)
qed

end
