(* ===== verification/Host_Cleanup.thy ===== *)
theory Host_Cleanup
  imports Cluster_Cleanup Daemon_Pods Cleanup_Helper
begin

text \<open>
  A clean-up job and the helper it runs, together: from the pod the operator asks for to the files
  that are gone from the host.
\<close>

section \<open>Paths\<close>

lemma split_path_append: "split_path acc (s @ CHR ''/'' # t) = split_path acc s @ split_path [] t"
  by (induction acc s rule: split_path.induct) simp_all

lemma split_path_word: "CHR ''/'' \<notin> set w \<Longrightarrow> split_path acc w = [rev acc @ w]"
  by (induction w arbitrary: acc) auto

lemma split_path_join:
  "ws \<noteq> [] \<Longrightarrow> split_path [] (join_with ''/'' ws) = concat (map (split_path []) ws)"
  by (induction "''/''" ws rule: join_with.induct) (simp_all add: split_path_append)

lemma split_path_no_slash: "CHR ''/'' \<notin> set acc \<Longrightarrow> w \<in> set (split_path acc s) \<Longrightarrow> CHR ''/'' \<notin> set w"
  by (induction acc s rule: split_path.induct) (auto split: if_splits)

text \<open>Segments that cleaning leaves as they are.\<close>

definition clean_list :: "string list \<Rightarrow> bool" where
  "clean_list ws \<longleftrightarrow> (\<forall>w\<in>set ws. w \<noteq> [] \<and> w \<noteq> ''.'' \<and> w \<noteq> ''..'' \<and> CHR ''/'' \<notin> set w)"

lemma clean_segments_append:
  "clean_segments b acc (xs @ ys) = clean_segments b (rev (clean_segments b acc xs)) ys"
  by (induction b acc xs rule: clean_segments.induct) (auto split: list.split)

lemma clean_segments_clean: "clean_list ws \<Longrightarrow> clean_segments b acc ws = rev acc @ ws"
  by (induction ws arbitrary: acc) (auto simp: clean_list_def)

lemma clean_segments_rooted:
  "clean_list acc \<Longrightarrow> \<forall>w\<in>set ws. CHR ''/'' \<notin> set w \<Longrightarrow> clean_list (clean_segments True acc ws)"
proof (induction ws arbitrary: acc)
  case (Cons s ss)
  note IH = Cons.IH [OF _ Cons.prems(2) [simplified, THEN conjunct2]]
  consider "s = [] \<or> s = ''.''" | "s = ''..''" | "s \<noteq> []" "s \<noteq> ''.''" "s \<noteq> ''..''" by blast
  then show ?case
  proof cases
    case 1
    with IH [OF Cons.prems(1)] show ?thesis by auto
  next
    case 2
    show ?thesis
    proof (cases acc)
      case Nil
      with 2 IH [of "[]"] show ?thesis by (simp add: clean_list_def)
    next
      case (Cons a as)
      then have "a \<noteq> ''..''" "clean_list as" using \<open>clean_list acc\<close> by (auto simp: clean_list_def)
      with 2 Cons IH [of as] show ?thesis by simp
    qed
  next
    case 3
    then have "clean_list (s # acc)" using Cons.prems by (auto simp: clean_list_def)
    from IH [OF this] 3 show ?thesis by simp
  qed
qed (simp add: clean_list_def)

lemma split_join_clean:
  assumes "clean_list ws" shows "clean_segments b acc (split_path [] (join_with ''/'' ws)) = rev acc @ ws"
proof (cases "ws = []")
  case False
  have "concat (map (split_path []) ws) = ws"
    using assms by (induction ws) (simp_all add: clean_list_def split_path_word)
  with False assms show ?thesis by (simp add: split_path_join clean_segments_clean)
qed simp

text \<open>Joining below a path that was joined.\<close>

lemma path_Clean_rooted:
  "path_Clean (CHR ''/'' # s) = CHR ''/'' # join_with ''/'' (clean_segments True [] (split_path [] s))"
  by (simp add: path_Clean_def Let_def)

lemma join_with_snoc: "ws \<noteq> [] \<Longrightarrow> join_with ''/'' (ws @ [d]) = join_with ''/'' ws @ CHR ''/'' # d"
  by (induction "''/''" ws rule: join_with.induct) simp_all

lemma path_Join_below:
  assumes "es \<noteq> []" "hd es \<noteq> []" "hd (hd es) = CHR ''/''" "d \<noteq> []"
  shows "path_Join [path_Join es, d] = path_Join (es @ [d])"
proof -
  let ?fs = "filter (\<lambda>e. e \<noteq> []) es"
  obtain e es' where es: "es = e # es'" using assms(1) by (cases es) auto
  obtain q where e: "e = CHR ''/'' # q" using assms(2,3) es by (cases e) auto
  obtain s where s: "join_with ''/'' ?fs = CHR ''/'' # s"
    using es e by (cases "filter (\<lambda>e. e \<noteq> []) es'") auto
  let ?ws = "clean_segments True [] (split_path [] s)"
  have ws: "clean_list ?ws"
    by (rule clean_segments_rooted) (auto simp: clean_list_def dest: split_path_no_slash [rotated])
  have "path_Join es = CHR ''/'' # join_with ''/'' ?ws"
    using es e s by (auto simp: path_Join_def Let_def path_Clean_rooted)
  moreover have "path_Join (es @ [d]) = CHR ''/'' # join_with ''/'' (clean_segments True [] (split_path [] s @ split_path [] d))"
    using es e s assms(4) join_with_snoc [of ?fs d] by (auto simp: path_Join_def Let_def path_Clean_rooted split_path_append)
  moreover have "path_Join [CHR ''/'' # join_with ''/'' ?ws, d] =
      CHR ''/'' # join_with ''/'' (clean_segments True [] (split_path [] (join_with ''/'' ?ws) @ split_path [] d))"
    using assms(4) by (simp add: path_Join_def Let_def path_Clean_rooted split_path_append)
  ultimately show ?thesis
    using split_join_clean [OF ws, of True "[]"] by (simp add: clean_segments_append)
qed

section \<open>The tree\<close>

lemma files_in_entry:
  "d \<in> set ds \<Longrightarrow> files_in path ds = (fs, True) \<Longrightarrow>
     snd (files_of (path_Join [path, node_name d]) d) \<and> set (fst (files_of (path_Join [path, node_name d]) d)) \<subseteq> set fs"
  by (induction ds arbitrary: fs) (auto split: prod.splits bool.splits)


section \<open>Jobs\<close>

lemma state_volume:
  assumes "v \<in> set (NewAISVolumes L ais dae)" "vol_Name v = stateVolume" "vol_Source v = HostPathSource path t"
  shows "path = StateHostPath ais dae"
  using assms
  by (auto simp: NewAISVolumes_def newLogsVolume_def getTLSVolume_def stateVolume_def configTemplateVolume_def
      configVolume_def configGlobalVolume_def logsVolume_def tlsSecretVolume_def tracingSecretVolume_def
      split: if_splits option.splits)

lemma StateHostPath_below:
  assumes "StateStorageHostPathPrefix (Spec ais) = Some p" "HasPrefix p ''/''" "dae \<noteq> []"
  shows "path_Join [StateHostPath ais [], dae] = StateHostPath ais dae"
proof -
  have "p \<noteq> []" "hd p = CHR ''/''" using assms(2) by (cases p; simp)+
  then have "path_Join [path_Join [p, Namespace ais, Name ais, []], dae] = path_Join ([p, Namespace ais, Name ais, []] @ [dae])"
    by (intro path_Join_below) (use assms(3) in simp_all)
  then show ?thesis using assms(1) by (simp add: StateHostPath_def path_Join_def)
qed

text \<open>
  C37. The clean-up job of a host removes the configuration of the daemons there: its helper is told to
  walk the directory of the cluster's state, which the job mounts from the host at the same path; when
  it succeeds, every \<open>.ais.\<close> file below the directory a daemon has mounted for its state is removed,
  and nothing but such files.
\<close>

theorem cleanup_job_clears_host_state:
  assumes "StateStorageHostPathPrefix (Spec ais) = Some p" "HasPrefix p ''/''"
    and "h_root E = Inr (DirNode n entries)" "deleteConfigFiles dir E [] = (Ret (), removals)"
    and "job_Containers (NewCleanupJob L ais node) = [c]" "c_Command c = [''/cleanup-helper'', ''-dir='' @ dir]"
    and "v \<in> set (NewAISVolumes L ais dae)" "vol_Name v = stateVolume" "vol_Source v = HostPathSource path t"
    and "tree \<in> set entries" "node_name tree = dae" "dae \<noteq> []"
  shows "(\<exists>m\<in>set (c_VolumeMounts c). \<exists>w\<in>set (job_Volumes (NewCleanupJob L ais node)).
       vm_Name m = vol_Name w \<and> vm_MountPath m = dir \<and> vol_Source w = HostPathSource dir []) \<and>
    (\<forall>f\<in>set (fst (files_of path tree)). is_ais_file f \<longrightarrow> (f, Inr ()) \<in> set removals) \<and>
    (\<forall>(f, x)\<in>set removals. is_ais_file f)"
proof -
  have c: "c = hd (createContainerSpec (StateHostPath ais []))" using assms(5) by (simp add: NewCleanupJob_def Let_def)
  with assms(6) have dir: "dir = StateHostPath ais []" by (simp add: createContainerSpec_def)
  have path: "path = path_Join [dir, node_name tree]"
    using state_volume [OF assms(7-9)] StateHostPath_below [OF assms(1,2,12)] assms(11) dir by simp
  obtain files complete where files: "files_in dir entries = (files, complete)" by (cases "files_in dir entries")
  from helper_removes_config_files [OF assms(3) _ assms(4)] files
  have all: "complete" "rev removals = map (\<lambda>p. (p, Inr ())) (filter is_ais_file files)" by (auto simp: removes_def)
  from all(2) have gone: "set removals = (\<lambda>p. (p, Inr ())) ` set (filter is_ais_file files)" by (metis set_map set_rev)
  have "set (fst (files_of path tree)) \<subseteq> set files"
    using files_in_entry [OF assms(10)] files all(1) path by auto
  then show ?thesis using gone c dir
    by (auto simp: createContainerSpec_def createVolumeSpec_def NewCleanupJob_def Let_def simple_mount_def)
qed

end
