(* ===== verification/Services_Sample.thy ===== *)
theory Services_Sample imports Sample Auth_Termination AIStore_Admission Token_Limits Operator_Info Host_Cleanup
begin

text \<open>Concrete surroundings for the client manager, the webhooks and the AuthN controller, and the
  runs in them that apply the properties of those components.\<close>

definition v_url :: url_lib where
  "v_url = \<lparr>url_Parse = (\<lambda>s. if HasPrefix s ''http://''
       then Inr \<lparr>url_Scheme = ''http'', url_Host = drop 7 s, url_Path = [], url_RawQuery = [], url_Fragment = []\<rparr>
       else Inr \<lparr>url_Scheme = [], url_Host = [], url_Path = s, url_RawQuery = [], url_Fragment = []\<rparr>),
     url_JoinPath = (\<lambda>a b. Inr (a @ b))\<rparr>"

section \<open>Tokens and clients\<close>

definition v_env :: svc_env where
  "v_env = \<lparr>e_lib = s_lib, e_url = v_url, e_tlsOpts = \<lparr>CertPath = [], CertPerCluster = False\<rparr>,
     e_serviceAccount = \<lparr>nn_Name = ''operator'', nn_Namespace = ''ops''\<rparr>, e_Getenv = (\<lambda>n. None),
     e_ParseBool = (\<lambda>s. Inr False), e_ParseDuration = (\<lambda>s. Inr 0), e_IsHTTPS = (\<lambda>s. HasPrefix s ''https''),
     e_DecodeOAuth = (\<lambda>b. Inr \<lparr>AccessToken = b, TokenType = ''Bearer'', ExpiresIn = 3600\<rparr>),
     e_DecodeExchange = (\<lambda>b. Inl (OtherErr ''no JSON'')), e_CertsFromPEM = (\<lambda>s. [s]),
     e_SystemCertPool = (\<lambda>h. Inr []), e_clock = (\<lambda>h. 0),
     e_profile = (\<lambda>h n. Inl NotFound),
     e_secret = (\<lambda>h n. Inr (fmap_of_list [(''SU-NAME'', ''admin''), (''SU-PASS'', ''secret'')])),
     e_configmap = (\<lambda>h n. Inl NotFound),
     e_service = (\<lambda>h n. Inl NotFound), e_pods = (\<lambda>h ns l. Inr []), e_mint = (\<lambda>h sa aud secs. Inr ''minted''),
     e_file = (\<lambda>h p. Inl NotFound), e_stat = (\<lambda>h p. Inl NotFound), e_walk = (\<lambda>h p. Inl NotFound),
     e_post = (\<lambda>h r. Inr \<lparr>rs_StatusCode = 200, rs_Body = ''token''\<rparr>),
     e_login = (\<lambda>h bp u p d. Inr ''token''), e_ais = (\<lambda>h bp c. Inl (HTTPError 401))\<rparr>"

definition v_start :: svc_st where
  "v_start = \<lparr>sv_objs = [], sv_clients = fmempty, sv_caches = [], sv_ttl = None, sv_hist = []\<rparr>"

definition v_auth :: AuthSpec where
  "v_auth = \<lparr>ProfileRef = None, ServiceURL = Some ''http://auth.ns'',
     UsernamePassword = Some \<lparr>SecretName = ''login'', SecretNamespace = None, LoginConf = None\<rparr>,
     TokenExchange = None, AuthTLS = None\<rparr>"

definition v_ais :: AIStore where "v_ais = with_auth v_auth s_ais"

lemma v_env_fields:
  "e_lib v_env = s_lib" "e_url v_env = v_url" "e_IsHTTPS v_env = (\<lambda>s. HasPrefix s ''https'')"
  "e_ais v_env h bp c = Inl (HTTPError 401)" "e_clock v_env h = 0" "e_login v_env h bp u p d = Inr ''token''"
  "e_secret v_env h n = Inr (fmap_of_list [(''SU-NAME'', ''admin''), (''SU-PASS'', ''secret'')])"
  by (simp_all add: v_env_def)

definition v_client :: AIStoreClient where
  "v_client = NewAIStoreClient ''http://ais-proxy.ns:51080'' None [] None"

definition v_after :: svc_st where
  "v_after = v_start\<lparr>sv_objs := [v_client], sv_clients := fmupd ''ns/ais'' 0 fmempty\<rparr>"

lemma s_ais_parts:
  "Name s_ais = ''ais''" "Namespace s_ais = ''ns''" "Auth (Spec s_ais) = None" "ProxySpec (Spec s_ais) = s_daemon"
  "d_ServiceSpec s_daemon = s_ports"
  by (simp_all add: s_ais_def s_spec_def s_daemon_def)

lemma s_ais_reads:
  "GetAPIMode s_ais = []" "UseHTTPS s_ais = False" "ProxyExternalAccessEnabled s_ais = False"
  "proxy_HeadlessSVCNSName s_ais = \<lparr>nn_Name = ''ais-proxy'', nn_Namespace = ''ns''\<rparr>"
  by code_simp+

lemma s_port: "PortString s_lib (ServicePort s_ports) = ''51080''"
  by (simp add: s_lib_def s_ports_def show_int_def show_nat.simps char_of_def bit_Suc_0_iff)


lemmas v_defs = v_env_fields s_ais_parts s_ais_reads s_port v_start_def v_after_def v_client_def
  getAISAPIEndpoint_def create_client_def getTLSConfig_def add_client_def createAPIURL_def APIModePublic_def
  client_key_def Let_def run_simps

lemma v_start_ok: "store_ok v_start"
  by (simp add: store_ok_def v_start_def)

lemma v_first: "GetClient s_ais v_env v_start = (Ret 0, v_after)"
  by (simp add: GetClient_def getAdminToken_def v_defs)

text \<open>The cluster rejects the client's token.\<close>

definition v_rejected :: svc_st where
  "v_rejected = v_after\<lparr>sv_objs := [v_client\<lparr>cl_authFailed := True\<rparr>],
     sv_hist := [CalledAIS (buildBaseParams ''http://ais-proxy.ns:51080'' [] None) CallShutdownCluster (Inl (HTTPError 401))]\<rparr>"

lemma v_call: "call_ais 0 CallShutdownCluster v_env v_after = (Ret (Inl (HTTPError 401)), v_rejected)"
  by (simp add: call_ais_def deref_client_def checkAuthErr_def change_client_def NewAIStoreClient_def v_rejected_def v_defs)

lemma v_second: "\<exists>s2. GetClient s_ais v_env v_rejected = (Ret 1, s2)"
  by (simp add: GetClient_def getAdminToken_def refresh_if_expired_def isTokenExpired_def deref_client_def HasValidBaseParams_def
     NewAIStoreClient_def v_rejected_def v_defs)

theorem manager_refines_cache_witness:
  "spec_step v_env v_start (Lookup s_ais) (view v_start) (Some v_client) (view v_after) \<and> view v_after ''ns/ais'' = Some v_client"
proof -
  have "run_op v_env (Lookup s_ais) v_start = (Some 0, v_after)" by (simp add: v_first)
  from manager_refines_cache [OF v_start_ok this] show ?thesis by (simp add: v_after_def view_def)
qed

theorem rejected_client_is_replaced_witness:
  "\<exists>s2. GetClient s_ais v_env v_rejected = (Ret 1, s2) \<and> \<not> cl_authFailed (sv_objs s2 ! 1)"
proof -
  have "store_ok v_after" by (simp add: store_ok_def v_after_def v_start_def v_client_def NewAIStoreClient_def)
  moreover have "fmlookup (sv_clients v_after) (client_key s_ais) = Some 0" by (simp add: v_defs)
  moreover obtain s2 where "GetClient s_ais v_env v_rejected = (Ret 1, s2)" using v_second by blast
  ultimately show ?thesis using rejected_client_is_replaced [OF _ _ v_call, of s_ais 1 s2] by simp
qed

fun is_login :: "svc_event \<Rightarrow> bool" where
  "is_login (LoggedInUser bp u p d r) = True"
| "is_login e = False"

theorem credentials_stay_with_the_provider_witness:
  "\<exists>conf insecure. provider v_ais (sv_hist (snd (getAdminToken v_ais v_env v_start))) conf insecure \<and>
     list_all (within_provider (e_url v_env) conf insecure) (sv_hist (snd (getAdminToken v_ais v_env v_start))) \<and>
     map is_login (sv_hist (snd (getAdminToken v_ais v_env v_start))) = [True, False]"
proof -
  have l: "map is_login (sv_hist (snd (getAdminToken v_ais v_env v_start))) = [True, False]" by code_simp
  then obtain e where e: "e \<in> set (sv_hist (snd (getAdminToken v_ais v_env v_start)))" "is_login e"
    by (metis (no_types, lifting) imageE list.set_intros(1) list.set_map)
  have "\<not> is_login (AskedProfile n x)" for n x by simp
  with e credentials_stay_with_the_provider [OF prod.collapse [symmetric], of v_ais v_env v_start] l
  show ?thesis by (fastforce simp: v_start_def list_all_iff)
qed

section \<open>Admission\<close>

definition w_user :: UserInfo where
  "w_user = \<lparr>usr_Username = ''alice'', usr_UID = [], usr_Groups = [''editors''], usr_Extra = fmempty\<rparr>"

definition w_env :: hook_env where
  "w_env = \<lparr>w_lib = s_lib, w_url = v_url, w_request = Inr w_user, w_late_read = True,
     w_IsForbidden = (\<lambda>e. False), w_IsUnauthorized = (\<lambda>e. False),
     w_review = (\<lambda>h sar. Inr True), w_nodes = (\<lambda>h sel. Inr 3), w_classes = (\<lambda>h. Inr []),
     w_profile = (\<lambda>h n. Inr ()),
     w_secret = (\<lambda>h n. if nn_Name n = ''gone'' then Inl NotFound
        else Inr (fmap_of_list [(''SU-NAME'', ''admin''), (''SU-PASS'', ''secret'')])),
     w_configmap = (\<lambda>h n. Inl NotFound)\<rparr>"

definition w_start :: hook_st where "w_start = \<lparr>hk_warnings = [], hk_hist = []\<rparr>"

definition w_ais :: AIStore where
  "w_ais = with_auth (v_auth\<lparr>ProfileRef := Some ''corp''\<rparr>) s_ais"

definition bigger :: "AIStore \<Rightarrow> AIStore" where
  "bigger ais = ais\<lparr>Spec := (Spec ais)\<lparr>Size := Some 5\<rparr>\<rparr>"

definition with_class :: "string \<Rightarrow> AIStore \<Rightarrow> AIStore" where
  "with_class c ais = ais\<lparr>Spec := (Spec ais)\<lparr>StateStorage := Some \<lparr>ss_HostPath = None, ss_PVC = Some c, ss_EmptyDir = None\<rparr>\<rparr>\<rparr>"

fun let_in :: "verdict outcome \<Rightarrow> bool" where
  "let_in (Ret (ws, None)) = True"
| "let_in _ = False"

lemma let_in_run: "let_in (fst x) \<Longrightarrow> \<exists>ws. x = (Ret (ws, None), snd x)"
  by (cases x) (auto elim: let_in.elims)

definition w_profile_spec :: AIStoreAuthProfileSpec where
  "w_profile_spec = \<lparr>prs_ServiceURL = ''http://idp.ns'', prs_TLS = None,
     prs_UsernamePassword = Some \<lparr>pup_Secret = \<lparr>sec_Name = ''login'', sec_Namespace = ''ns'', sec_UserKey = [], sec_PassKey = []\<rparr>,
       pup_LoginConf = None\<rparr>, prs_TokenExchange = None\<rparr>"

definition w_prof :: AIStoreAuthProfile where
  "w_prof = \<lparr>prof_Name = ''corp'', prof_Deleted = False, prof_Spec = w_profile_spec\<rparr>"

lemma admitted:
  "let_in (fst (admit None w_ais w_env w_start))"
  "let_in (fst (ValidateUpdate (with_class ''ssd'' s_ais) s_ais w_env w_start))"
  "let_in (fst (ValidateUpdate v_ais (with_auth (v_auth\<lparr>ServiceURL := Some ''http://other''\<rparr>) s_ais) w_env w_start))"
  "let_in (fst (profile_admit None w_prof w_env w_start))"
proof -
  have "let_in (fst (admit None w_ais w_env w_start)) \<and>
    let_in (fst (ValidateUpdate (with_class ''ssd'' s_ais) s_ais w_env w_start)) \<and>
    let_in (fst (ValidateUpdate v_ais (with_auth (v_auth\<lparr>ServiceURL := Some ''http://other''\<rparr>) s_ais) w_env w_start)) \<and>
    let_in (fst (profile_admit None w_prof w_env w_start))" by code_simp
  then show "let_in (fst (admit None w_ais w_env w_start))"
    "let_in (fst (ValidateUpdate (with_class ''ssd'' s_ais) s_ais w_env w_start))"
    "let_in (fst (ValidateUpdate v_ais (with_auth (v_auth\<lparr>ServiceURL := Some ''http://other''\<rparr>) s_ais) w_env w_start))"
    "let_in (fst (profile_admit None w_prof w_env w_start))" by simp_all
qed


theorem admitted_update_adds_no_claims_witness:
  "let_in (fst (ValidateUpdate (with_class ''ssd'' s_ais) s_ais w_env w_start)) \<and>
   (newTargetPVCs s_ais = newTargetPVCs (with_class ''ssd'' s_ais) \<or>
    newTargetPVCs s_ais @ statePVCs (with_class ''ssd'' s_ais) = newTargetPVCs (with_class ''ssd'' s_ais))"
proof -
  from let_in_run [OF admitted(2)] obtain ws where
    "ValidateUpdate (with_class ''ssd'' s_ais) s_ais w_env w_start =
      (Ret (ws, None), snd (ValidateUpdate (with_class ''ssd'' s_ais) s_ais w_env w_start))" by blast
  from admitted_update_adds_no_claims [OF this] admitted(2) show ?thesis by (simp add: with_class_def)
qed

theorem service_url_is_not_reviewed_witness:
  "let_in (fst (ValidateUpdate v_ais (with_auth (v_auth\<lparr>ServiceURL := Some ''http://other''\<rparr>) s_ais) w_env w_start)) \<and>
   ValidateUpdate v_ais (with_auth (v_auth\<lparr>ServiceURL := Some ''http://other''\<rparr>) s_ais) =
   ValidateUpdate v_ais (with_auth (v_auth\<lparr>ServiceURL := Some ''http://auth.ns''\<rparr>) s_ais)"
proof
  show "let_in (fst (ValidateUpdate v_ais (with_auth (v_auth\<lparr>ServiceURL := Some ''http://other''\<rparr>) s_ais) w_env w_start))"
    by (rule admitted(3))
  have "ProfileRef v_auth = None" by (simp add: v_auth_def)
  moreover have "case UsernamePassword v_auth of None \<Rightarrow> True
      | Some up \<Rightarrow> (\<exists>q. inline_secret v_ais = Some q \<and> same_secret v_ais q s_ais up)"
    by (simp add: v_auth_def v_ais_def with_auth_def inline_secret_def same_secret_def authSecretNamespace_def)
  ultimately show "ValidateUpdate v_ais (with_auth (v_auth\<lparr>ServiceURL := Some ''http://other''\<rparr>) s_ais) =
    ValidateUpdate v_ais (with_auth (v_auth\<lparr>ServiceURL := Some ''http://auth.ns''\<rparr>) s_ais)"
    by (rule service_url_is_not_reviewed [THEN conjunct1])
qed

theorem profile_admission_witness:
  "let_in (fst (profile_admit None w_prof w_env w_start)) \<and>
   profile_checked w_env w_prof (hk_hist (snd (profile_admit None w_prof w_env w_start)))"
proof -
  from let_in_run [OF admitted(4)] obtain ws where
    "profile_admit None w_prof w_env w_start = (Ret (ws, None), snd (profile_admit None w_prof w_env w_start))" by blast
  from profile_admission [OF this] admitted(4) show ?thesis by (auto simp: w_start_def)
qed

section \<open>A host to clean\<close>

definition c_ais :: AIStore where
  "c_ais = s_ais\<lparr>Spec := (Spec s_ais)\<lparr>StateStorage :=
     Some \<lparr>ss_HostPath = Some ''/etc/ais'', ss_PVC = None, ss_EmptyDir = None\<rparr>\<rparr>\<rparr>"

definition c_tree :: fsnode where
  "c_tree = DirNode ''proxy'' [FileNode ''.ais.smap'', FileNode ''notes.txt'']"

definition c_env :: helper_env where
  "c_env = \<lparr>h_root = Inr (DirNode ''ais'' [FileNode ''.ais.bmd'', c_tree]), h_remove = (\<lambda>h p. Inr ())\<rparr>"

theorem cleanup_job_clears_host_state_witness:
  "(''/etc/ais/ns/ais/proxy/.ais.smap'', Inr ()) \<in> set (snd (deleteConfigFiles (StateHostPath c_ais []) c_env [])) \<and>
   list_all (\<lambda>(f, x). is_ais_file f) (snd (deleteConfigFiles (StateHostPath c_ais []) c_env [])) \<and>
   files_of (StateHostPath c_ais ''proxy'') c_tree =
     ([''/etc/ais/ns/ais/proxy/.ais.smap'', ''/etc/ais/ns/ais/proxy/notes.txt''], True)"
proof -
  let ?v = "\<lparr>vol_Name = stateVolume, vol_Source = HostPathSource (StateHostPath c_ais ''proxy'') ''DirectoryOrCreate''\<rparr>"
  have pre: "StateStorageHostPathPrefix (Spec c_ais) = Some ''/etc/ais''" "\<not> UsesStateEmptyDir (Spec c_ais)"
    by (simp_all add: StateStorageHostPathPrefix_def UsesStateEmptyDir_def c_ais_def)
  then have v: "?v \<in> set (NewAISVolumes s_lib c_ais ''proxy'')" by (simp add: NewAISVolumes_def)
  have run: "deleteConfigFiles (StateHostPath c_ais []) c_env [] =
      (Ret (), snd (deleteConfigFiles (StateHostPath c_ais []) c_env []))"
  proof (rule prod_eqI)
    show "fst (deleteConfigFiles (StateHostPath c_ais []) c_env []) =
        fst (Ret (), snd (deleteConfigFiles (StateHostPath c_ais []) c_env []))" unfolding fst_conv by code_simp
  qed simp
  have files: "files_of (StateHostPath c_ais ''proxy'') c_tree =
      ([''/etc/ais/ns/ais/proxy/.ais.smap'', ''/etc/ais/ns/ais/proxy/notes.txt''], True)"
    "is_ais_file ''/etc/ais/ns/ais/proxy/.ais.smap''" by code_simp+
  have root: "h_root c_env = Inr (DirNode ''ais'' [FileNode ''.ais.bmd'', c_tree])" by (simp add: c_env_def)
  have job: "job_Containers (NewCleanupJob s_lib c_ais ''node-1'') = [hd (createContainerSpec (StateHostPath c_ais []))]"
    "c_Command (hd (createContainerSpec (StateHostPath c_ais []))) = [''/cleanup-helper'', ''-dir='' @ StateHostPath c_ais []]"
    by (simp_all add: NewCleanupJob_def Let_def createContainerSpec_def)
  have "HasPrefix ''/etc/ais'' ''/''" "c_tree \<in> set [FileNode ''.ais.bmd'', c_tree]" "node_name c_tree = ''proxy''"
    by (simp_all add: c_tree_def)
  from cleanup_job_clears_host_state [OF pre(1) this(1) root run job v _ _ this(2,3), where t = "''DirectoryOrCreate''" and path = "StateHostPath c_ais ''proxy''"] files
  show ?thesis by (simp add: list_all_iff)
qed

section \<open>AuthN servers\<close>

definition n_spec :: AIStoreAuthSpec where
  "n_spec = \<lparr>as_AdminSecret = Some ''admin'', as_HMACSecret = None, as_RSAPassphraseSecret = None,
     as_Config = Some \<lparr>acfg_Auth = None, acfg_Log = None,
       acfg_Net = Some \<lparr>ns_ExternalURL = None, ns_HTTP = Some \<lparr>hs_Port = Some 80\<rparr>\<rparr>, acfg_Timeout = None\<rparr>,
     as_TLS = Some \<lparr>atls_SecretName = None, atls_Certificate = Some \<lparr>acert_IssuerName = ''issuer'',
       acert_IssuerKind = [], acert_AdditionalDNSNames = [], acert_Duration = None, acert_RenewBefore = None,
       acert_Mode = []\<rparr>\<rparr>,
     as_Persistence = \<lparr>per_Size = None, per_StorageClass = Some ''ssd'', per_VolumeName = None, per_DeletionPolicy = []\<rparr>,
     as_ExternalAccess = None,
     as_Deployment = \<lparr>ds_Container = \<lparr>ctr_Image = ''authn:v4'', ctr_ImagePullPolicy = [], ctr_Resources = None,
       ctr_SecurityContext = None, ctr_LivenessProbe = None, ctr_ReadinessProbe = None\<rparr>, ds_Pod = None\<rparr>\<rparr>"

definition n_authn :: AIStoreAuth where
  "n_authn = \<lparr>authn_Name = ''authn'', authn_Namespace = ''ns'', authn_UID = ''u1'', authn_Generation = 2,
     authn_Deleted = False, authn_Finalizers = [authnFinalizer], authn_Spec = n_spec,
     authn_Status = \<lparr>ast_Conditions = fmempty, ast_ObservedGeneration = 0, ast_ServiceURL = []\<rparr>\<rparr>"

definition n_deleted :: AIStoreAuth where "n_deleted = n_authn\<lparr>authn_Deleted := True\<rparr>"

definition n_lib_auth :: auth_lib where
  "n_lib_auth = \<lparr>ValidateAuthn = Inr, MarshalAuthn = (\<lambda>c. Inr (adb_Filepath c)), conv_Resources = (\<lambda>x. Inr []),
     conv_SecurityContext = (\<lambda>x. Inr []), conv_Probe = (\<lambda>x. Inr []), conv_PodSecurityContext = (\<lambda>x. Inr []),
     conv_Tolerations = (\<lambda>x. Inr []), conv_Affinity = (\<lambda>x. Inr []), conv_PullSecrets = (\<lambda>x. Inr [])\<rparr>"

definition n_answer :: AppliedDeployment where
  "n_answer = \<lparr>ad_Generation = Some (Some 4), ad_Replicas = Some (Some 1),
     ad_Status = Some \<lparr>dst_ObservedGeneration = Some 4, dst_Replicas = Some 1, dst_UpdatedReplicas = Some 1,
       dst_AvailableReplicas = Some 1, dst_Conditions = []\<rparr>\<rparr>"

text \<open>The API server hands out one object and stores what it is given.\<close>

definition n_env :: "AIStoreAuth \<Rightarrow> authn_env" where
  "n_env a = \<lparr>n_lib = s_lib, n_auth = n_lib_auth, n_url = v_url, n_removeRef = (\<lambda>a x. Inr ()),
     n_get = (\<lambda>h n. Inr a), n_patch = (\<lambda>h b x. Inr x), n_patch_status = (\<lambda>h b x. Inr x),
     n_apply = (\<lambda>h x. Inr ()), n_apply_dep = (\<lambda>h d. Inr n_answer),
     n_pvc = (\<lambda>h n. Inr \<lparr>live_UID = ''p1'', live_Controller = Some ''u1'', live_Ingress = []\<rparr>),
     n_release = (\<lambda>h n. Inr ()), n_svc = (\<lambda>h n. Inl NotFound), n_delete_svc = (\<lambda>h n u. Inr ()),
     n_delete_cert = (\<lambda>h n. Inr ())\<rparr>"

definition n_start :: "AIStoreAuth \<Rightarrow> authn_st" where "n_start a = \<lparr>an_obj = a, an_hist = []\<rparr>"

definition n_name :: NamespacedName where "n_name = \<lparr>nn_Name = ''authn'', nn_Namespace = ''ns''\<rparr>"

definition n_run :: "AIStoreAuth \<Rightarrow> unit outcome \<times> authn_st" where
  "n_run a = authn_Reconcile n_name (n_env a) (n_start a)"

fun event_tag :: "authn_event \<Rightarrow> string" where
  "event_tag (PatchedAuthnStatus a b x) = (if isReady b then ''ready'' else ''status'')"
| "event_tag (PatchedAuthn a b x) = ''patch''"
| "event_tag (ReleasedPVC n x) = ''release''"
| "event_tag (AppliedDep d x) = ''deployment''"
| "event_tag (Applied y x) = ''apply''"
| "event_tag _ = []"



fun drops :: "authn_event \<Rightarrow> bool" where
  "drops (PatchedAuthn base b x) = (authnFinalizer \<in> set (authn_Finalizers base) \<and> authnFinalizer \<notin> set (authn_Finalizers b))"
| "drops e = False"

text \<open>The API server asks the webhook about every patch.\<close>

definition n_orphan :: AIStoreAuth where
  "n_orphan = n_deleted\<lparr>authn_Spec := n_spec\<lparr>as_AdminSecret := Some ''gone''\<rparr>\<rparr>"

definition guarded_env :: authn_env where
  "guarded_env = (n_env n_orphan)\<lparr>n_patch := (\<lambda>h base a. case fst (authn_ValidateUpdate base a w_env w_start) of
     Err e \<Rightarrow> Inl (OtherErr ''admission webhook denied the request'') | _ \<Rightarrow> Inr a)\<rparr>"

lemma n_run_outcomes:
  "map event_tag (an_hist (snd (n_run n_authn))) =
     [''ready'', [], ''deployment'', ''apply'', [], [], ''apply'', ''apply'', ''apply'', []]"
  "fst (n_run n_authn) = Ret ()"
  "map event_tag (an_hist (snd (n_run n_deleted))) = [''patch'', [], ''release'', [], []]"
  "drops (hd (an_hist (snd (n_run n_deleted))))"
  "map event_tag (an_hist (snd (authn_Reconcile n_name guarded_env (n_start n_orphan)))) =
     [''status'', [], ''patch'', [], ''release'', [], []]"
  "\<not> Option.is_none (case NewDeployment n_lib_auth s_lib v_url n_authn of Inl _ \<Rightarrow> None | Inr d \<Rightarrow> Some ())"
  "map asp_Port (asvc_Ports (NewService n_authn)) = [80]"
proof -
  have "(map event_tag (an_hist (snd (n_run n_authn))) =
     [''ready'', [], ''deployment'', ''apply'', [], [], ''apply'', ''apply'', ''apply'', []]) \<and>
    (fst (n_run n_authn) = Ret ()) \<and>
    (map event_tag (an_hist (snd (n_run n_deleted))) = [''patch'', [], ''release'', [], []]) \<and>
    drops (hd (an_hist (snd (n_run n_deleted)))) \<and>
    (map event_tag (an_hist (snd (authn_Reconcile n_name guarded_env (n_start n_orphan)))) =
     [''status'', [], ''patch'', [], ''release'', [], []]) \<and>
    \<not> Option.is_none (case NewDeployment n_lib_auth s_lib v_url n_authn of Inl _ \<Rightarrow> None | Inr d \<Rightarrow> Some ()) \<and>
    (map asp_Port (asvc_Ports (NewService n_authn)) = [80])" by code_simp
  then show "map event_tag (an_hist (snd (n_run n_authn))) =
     [''ready'', [], ''deployment'', ''apply'', [], [], ''apply'', ''apply'', ''apply'', []]"
    "fst (n_run n_authn) = Ret ()"
    "map event_tag (an_hist (snd (n_run n_deleted))) = [''patch'', [], ''release'', [], []]"
    "drops (hd (an_hist (snd (n_run n_deleted))))"
    "map event_tag (an_hist (snd (authn_Reconcile n_name guarded_env (n_start n_orphan)))) =
     [''status'', [], ''patch'', [], ''release'', [], []]"
    "\<not> Option.is_none (case NewDeployment n_lib_auth s_lib v_url n_authn of Inl _ \<Rightarrow> None | Inr d \<Rightarrow> Some ())"
    "map asp_Port (asvc_Ports (NewService n_authn)) = [80]" by simp_all
qed

lemma tag_ready: "event_tag e = ''ready'' \<Longrightarrow> \<exists>base new x. e = PatchedAuthnStatus base new x \<and> isReady new"
  by (cases e) (auto split: if_splits)

theorem data_retained_before_release_witness:
  "\<exists>base released x earlier. an_hist (snd (n_run n_deleted)) = PatchedAuthn base released x # earlier \<and>
     authnFinalizer \<notin> set (authn_Finalizers released) \<and> authn_Deleted base \<and>
     (ShouldDeletePVC (as_Persistence (authn_Spec base)) \<or> (\<exists>e\<in>set earlier. claim_safe base e))"
proof -
  obtain e earlier where h: "an_hist (snd (n_run n_deleted)) = e # earlier"
    using n_run_outcomes(3) by (cases "an_hist (snd (n_run n_deleted))") auto
  moreover note n_run_outcomes(4)
  ultimately obtain base released x where e: "e = PatchedAuthn base released x"
    "authnFinalizer \<in> set (authn_Finalizers base)" "authnFinalizer \<notin> set (authn_Finalizers released)"
    by (cases e) auto
  have "an_hist (snd (n_run n_deleted)) = [] @ PatchedAuthn base released x # earlier @ an_hist (n_start n_deleted)"
    using h e(1) by (simp add: n_start_def)
  from data_retained_before_release [OF prod.collapse [symmetric] this [unfolded n_run_def] e(2,3)] h e show ?thesis
    by blast
qed

theorem ready_only_after_rollout_witness:
  "\<exists>base new x earlier. an_hist (snd (n_run n_authn)) = PatchedAuthnStatus base new x # earlier \<and> isReady new \<and>
     rolled_out (n_env n_authn) new earlier \<and> ast_ServiceURL (authn_Status new) = ServiceURLOf new"
proof -
  obtain e earlier where h: "an_hist (snd (n_run n_authn)) = e # earlier" "event_tag e = ''ready''"
    using n_run_outcomes(1) by (cases "an_hist (snd (n_run n_authn))") auto
  then obtain base new x where e: "e = PatchedAuthnStatus base new x" "isReady new" using tag_ready by blast
  have "an_hist (snd (n_run n_authn)) = [] @ PatchedAuthnStatus base new x # earlier @ an_hist (n_start n_authn)"
    using h(1) e(1) by (simp add: n_start_def)
  from ready_only_after_rollout [OF prod.collapse [symmetric] this [unfolded n_run_def] e(2)] h(1) e show ?thesis
    by blast
qed

theorem success_applies_everything_witness:
  "\<exists>a' later. an_hist (snd (n_run n_authn)) = later @ [GotAuthn n_name (Inr n_authn)] \<and>
     applied_all (n_env n_authn) a' later"
proof -
  have "authn_Reconcile n_name (n_env n_authn) (n_start n_authn) = (Ret (), snd (n_run n_authn))"
    using n_run_outcomes(2) by (metis n_run_def prod.collapse)
  from success_applies_everything [OF this] show ?thesis
    by (auto simp: n_env_def n_authn_def n_start_def)
qed

theorem published_address_is_served_witness:
  "\<exists>d p. NewDeployment n_lib_auth s_lib v_url n_authn = Inr d \<and> asvc_Ports (NewService n_authn) = [p] \<and>
     asp_Port p = actr_Port (apod_Container (adep_Pod d)) \<and> asp_Port p = 80"
proof -
  from n_run_outcomes(6) obtain d where d: "NewDeployment n_lib_auth s_lib v_url n_authn = Inr d" by (auto split: sum.splits)
  moreover note n_run_outcomes(7)
  ultimately show ?thesis using published_address_is_served [OF d, THEN conjunct1] by auto
qed

theorem deleted_secret_blocks_deletion_witness:
  "authn_Deleted n_orphan \<and> (\<exists>e. fst (authn_Reconcile n_name guarded_env (n_start n_orphan)) = Err e) \<and>
   map event_tag (an_hist (snd (authn_Reconcile n_name guarded_env (n_start n_orphan)))) =
     [''status'', [], ''patch'', [], ''release'', [], []]"
proof (intro conjI)
  have "guarded_by guarded_env w_env"
    unfolding guarded_by_def guarded_env_def by (auto split: outcome.split intro!: exI [of _ w_start])
  moreover have "n_get guarded_env (an_hist (n_start n_orphan)) n_name = Inr n_orphan"
    "authn_Deleted n_orphan" "authnFinalizer \<in> set (authn_Finalizers n_orphan)"
    "secretRefName (as_AdminSecret (authn_Spec n_orphan)) = ''gone''"
    "\<exists>e. w_secret w_env h \<lparr>nn_Name = ''gone'', nn_Namespace = authn_Namespace n_orphan\<rparr> = Inl e" for h
    by (simp_all add: guarded_env_def n_env_def n_orphan_def n_deleted_def n_authn_def secretRefName_def w_env_def)
  ultimately show "\<exists>e. fst (authn_Reconcile n_name guarded_env (n_start n_orphan)) = Err e"
    using deleted_secret_blocks_deletion [of guarded_env w_env "n_start n_orphan" n_name n_orphan "''gone''", OF _ _ _ _ _ _ _ prod.collapse [symmetric]]
    by simp
  show "authn_Deleted n_orphan" by (simp add: n_orphan_def n_deleted_def)
  show "map event_tag (an_hist (snd (authn_Reconcile n_name guarded_env (n_start n_orphan)))) =
     [''status'', [], ''patch'', [], ''release'', [], []]" by (rule n_run_outcomes(5))
qed

section \<open>The operator's surroundings\<close>

definition k_env :: info_env where
  "k_env = \<lparr>i_Getenv = (\<lambda>n. []),
     i_resolver = Inr (resolv_conf [''nameserver 10.96.0.10''] ''ops'' ''cluster.local'' ''options ndots:5'', None),
     i_DNS1123 = (\<lambda>d. []), i_given_up = (\<lambda>e. False), i_IsUnauthorized = (\<lambda>e. False), i_IsForbidden = (\<lambda>e. False),
     i_review = (\<lambda>h. if length h < 2 then Inl (OtherErr ''timeout'') else Inr (account_name ''ops'' ''operator''))\<rparr>"

definition k_quick :: info_env where
  "k_quick = k_env\<lparr>i_review := (\<lambda>h. Inr (account_name ''ops'' ''operator''))\<rparr>"

definition k_named :: info_env where "k_named = k_env\<lparr>i_Getenv := (\<lambda>n. ''cluster.local'')\<rparr>"

theorem surroundings_round_trip_witness:
  "info_Resolve k_quick initial_info = (Ret (), \<lparr>clusterDomain = ''cluster.local'', serviceAccount = (''ops'', ''operator''),
     i_hist = [ReviewedSelf (Inr (account_name ''ops'' ''operator''))]\<rparr>)"
proof -
  have "\<not> is_search (chop_return ''nameserver 10.96.0.10'')" "plain_word ''ops''" "plain_word ''cluster.local''" by code_simp+
  moreover have "length (search_line ''ops'' ''cluster.local'') < MaxScanTokenSize" "(22::nat) < MaxScanTokenSize"
    by (simp_all add: search_line_def kubelet_search_def MaxScanTokenSize_def)
  ultimately show ?thesis
    using surroundings_round_trip [of "[''nameserver 10.96.0.10'']" "''ops''" "''operator''" "''cluster.local''" k_quick "''options ndots:5''" None initial_info]
    by (simp add: k_quick_def k_env_def initial_info_def)
qed

theorem identity_is_reviewed_witness:
  "\<exists>u older. i_hist (snd (info_Resolve k_named initial_info)) = ReviewedSelf (Inr u) # older \<and>
     length older = 2 \<and> parseServiceAccount u = Inr (''ops'', ''operator'')"
proof -
  have run: "fst (info_Resolve k_named initial_info) = Ret ()" "length (i_hist (snd (info_Resolve k_named initial_info))) = 3"
    "serviceAccount (snd (info_Resolve k_named initial_info)) = (''ops'', ''operator'')" by code_simp+
  from identity_is_reviewed [of k_named initial_info] obtain new r s' where
    "info_Resolve k_named initial_info = (r, s')" "i_hist s' = new @ i_hist initial_info"
    "r = Ret () \<longrightarrow> (\<exists>u older. new = ReviewedSelf (Inr u) # older \<and> parseServiceAccount u = Inr (serviceAccount s'))"
    by blast
  with run show ?thesis by (auto simp: initial_info_def)
qed

end
