(* ===== verification/Spec2Isabelle.thy ===== *)
theory Spec2Isabelle
  imports Target_Properties Proxy_Properties Cluster_Properties Spec_Properties Pod_Properties
    Client_Properties Token_Properties Services_Sample
begin

text \<open>
  A model of the AIStore Kubernetes operator (\<^verbatim>\<open>operator/\<close>, in Go): the reconciler that drives an
  AIStore cluster from its custom resource (CR) and what it must never do to a cluster that holds
  data, the clients it talks to the clusters with, its admission webhooks, and the controller of the
  AuthN servers.

  \<^bold>\<open>The program.\<close> A reconcile (\<open>Reconcile\<close> of \<^verbatim>\<open>internal/controller/aistore/cluster_controller.go\<close>)
  reads the CR, moves its state machine, and drives the proxies and the targets (two
  StatefulSets), the configuration of the AIStore cluster, its external services, its admin
  client and, at the end, its clean-up, by calls of the Kubernetes API server and of the AIStore
  cluster's own API. It keeps no state between reconciles but the CR's status and annotations.
  The calls of the cluster's API go through the client manager (\<^verbatim>\<open>internal/services\<close>), which keeps one
  client per cluster and gets their tokens from an authentication service. A second reconciler
  (\<^verbatim>\<open>internal/controller/aisauth\<close>) runs such services (\<open>AIStoreAuth\<close>). The webhooks
  (\<^verbatim>\<open>internal/webhook\<close>) decide which CRs the API server takes. At its start the operator finds out
  its cluster's domain and its own identity (\<^verbatim>\<open>internal/opinfo\<close>). A helper binary
  (\<^verbatim>\<open>src/ais-operator-helper\<close>) cleans hosts.

  \<^bold>\<open>How it is modelled.\<close> An operation is a function of type \<open>env \<Rightarrow> st \<Rightarrow> 'a outcome \<times> st\<close> (\<open>World\<close>).
  The state \<open>st\<close> is the CR as the reconcile holds it in memory (\<open>*aisv1.AIStore\<close>, changed in place by
  the code) and the history: the list of all calls made with their answers, newest first. The
  environment \<open>env\<close> answers each call from the history so far: it stands for the API server, the
  AIStore cluster, the clock and the third-party libraries, none of which is under \<^verbatim>\<open>src/\<close>. The
  theorems hold for every environment; the documented behaviour that some of them need is a
  named hypothesis: \<open>status_subresource\<close> (a patch of the object leaves the status alone),
  \<open>cached_reads\<close> (a read of the CR answers a state that was stored and that the cache has not left
  behind), \<open>stores_cr\<close> (the API server is up and stores what it is given), \<open>unedited\<close> (nobody edits
  the CR during the reconcile), \<open>empty_cluster\<close>, \<open>derivative_refl\<close>, \<open>sizes_int32\<close>, \<open>guarded_by\<close> (patches of an object pass its webhook),
  \<open>clock_monotone\<close>. The services (\<open>svc_env\<close>, \<open>svc_st\<close>), the AuthN controller (\<open>authn_env\<close>,
  \<open>authn_st\<close>), the webhooks (\<open>hook_env\<close>, \<open>hook_st\<close>) and the start of the operator (\<open>info_env\<close>,
  \<open>info_st\<close>) have environments and states of their own, made the same way; the services' state has
  the client objects in a store, since the code shares and changes them through pointers. Errors are the
  outcome \<open>Err\<close>, panics of nil dereferences and out-of-range indexing the outcome \<open>Panic\<close>. An \<open>int32\<close>
  is an integer with the wrap-around written out (\<open>wrap32\<close>), a \<open>time.Duration\<close> computed from a
  server's answer likewise (\<open>wrap64\<close>).

  \<^bold>\<open>The theories.\<close>
  \<^item> \<open>Prelude\<close>: strings, decimal numbers, the generic step relation (\<open>step_rel\<close>); \<open>Go_Std\<close>: more of
    Go's standard library (addresses, durations, splitting).
  \<^item> \<open>AIS_Config\<close>, \<open>AIS_Types\<close>, \<open>AIS_CR\<close>: the CR and its methods (\<^verbatim>\<open>api/aistore/v1beta1\<close>);
    \<open>Validation\<close>: \<^verbatim>\<open>aistore_validation.go\<close>.
  \<^item> \<open>K8s_Lib\<close>: the third-party functions the code calls, as a record of parameters; \<open>World\<close>: the
    calls and operations; \<open>K8s_Client\<close>: \<^verbatim>\<open>internal/client/api.go\<close>.
  \<^item> \<open>Config_Gen\<close> (\<^verbatim>\<open>cmn/config.go\<close>), \<open>Names\<close> (names, labels and selectors of the managed objects,
    \<^verbatim>\<open>internal/resources/aistore\<close>), \<open>Certificates\<close> (\<^verbatim>\<open>internal/resources/certificates\<close>,
    \<^verbatim>\<open>cmn/certificate.go\<close>), \<open>Pod_Builders\<close>, \<open>Daemon_Pods\<close>, \<open>Rebuild\<close> (pod templates and StatefulSets),
    \<open>Cluster_Objects\<close> (services, local configuration, disruption budget, roles), \<open>Rollout\<close>
    (\<^verbatim>\<open>common.go\<close>), \<open>Cluster_Status\<close> (status and configuration in \<^verbatim>\<open>cluster_controller.go\<close>),
    \<open>Proxy_Controller\<close>, \<open>Target_Controller\<close>, \<open>Cluster_Cleanup\<close>, \<open>Admin_Client\<close>, \<open>Nodes\<close> (autoscaling
    and public hosts), \<open>Cluster_Controller\<close> (\<open>Reconcile\<close>).
  \<^item> \<open>Footprint\<close>: which classes of calls an operation makes (\<open>foot\<close>), and the locale \<open>protocol\<close> for
    calls that must respect a protocol; \<open>Lifecycle\<close>, \<open>Reconcile_Lifecycle\<close>, \<open>Teardown\<close>: the state
    machine of the CR as a step relation and that a reconcile follows it; \<open>Evidence\<close>: calls that
    need evidence in the history (\<open>guard\<close>, \<open>having\<close>); \<open>Proxy_Safety\<close>, \<open>Target_Safety\<close>, \<open>Exclusion\<close>,
    \<open>Cluster_Safety\<close>, \<open>Host_Jobs\<close>: what the controllers are careful about.
  \<^item> \<open>Services_World\<close>: the calls of the services; \<open>Trust_Store\<close> (\<^verbatim>\<open>truststore/certpool.go\<close> and the
    TLS parts of \<^verbatim>\<open>internal/services\<close>), \<open>Auth_Config\<close> (\<^verbatim>\<open>auth_spec.go\<close>, \<^verbatim>\<open>auth_profile.go\<close>),
    \<open>AuthN_Client\<close> (\<^verbatim>\<open>authn_api.go\<close>), \<open>Client_Manager\<close> (\<^verbatim>\<open>client_manager.go\<close>, \<^verbatim>\<open>aisapi.go\<close>);
    \<open>Client_Cache\<close>: the abstract cache they implement.
  \<^item> \<open>Auth_Types\<close>: \<open>AIStoreAuth\<close> and \<open>AIStoreAuthProfile\<close> (\<^verbatim>\<open>api/aisauth/v1alpha1\<close>);
    \<open>Auth_Resources\<close>: the objects of an AuthN server (\<^verbatim>\<open>internal/resources/aisauth\<close>);
    \<open>Auth_Controller\<close>: their reconciler; \<open>Auth_Runs\<close>: how it runs.
  \<^item> \<open>Webhook_Common\<close>, \<open>AIStore_Webhook\<close>, \<open>Auth_Webhooks\<close>: the validators and access reviews.
  \<^item> \<open>Operator_Info\<close>: \<^verbatim>\<open>opinfo.go\<close>; \<open>Cleanup_Helper\<close>: the helper binary; \<open>Host_Cleanup\<close>: the
    clean-up jobs (\<^verbatim>\<open>cmn/job.go\<close>) with the helper they run.
  \<^item> \<open>Sample\<close> and \<open>Services_Sample\<close>: the concrete surroundings of the witnesses; \<open>Target_Properties\<close>,
    \<open>Proxy_Properties\<close>, \<open>Cluster_Properties\<close>, \<open>Spec_Properties\<close>, \<open>Pod_Properties\<close>,
    \<open>Client_Properties\<close>, \<open>Token_Properties\<close>, \<open>Token_Limits\<close>, \<open>Auth_Properties\<close>, \<open>Auth_Termination\<close>,
    \<open>AIStore_Admission\<close>, \<open>Profile_Admission\<close> and this theory: the properties.

  \<^bold>\<open>What they show.\<close> The CR's state follows the lifecycle, and destructive calls happen only in the
  states meant for them (C1 to C8). Targets are rolled one at a time and in order, put into
  maintenance or decommissioned before their pods go, and resized only on what the code takes for
  evidence in the cluster map (C9 to C13). The primary proxy survives scale-downs and rollouts (C14 to C16). The client
  manager refines a cache of one client per cluster, replaces rejected clients, asks for few tokens
  and sends credentials to the configured provider only (C17 to C19, C39). Admission authorizes what a
  CR refers to and keeps the shape of the StatefulSets (C20, C21, C30). Invalid specs are not
  applied, settling means a healthy cluster, and the clean-up jobs clear the hosts (C22, C23, C36,
  C37). Valid specs have what the controllers assume, synchronisation settles, pods are complete,
  building them is repeatable and certificates cover the hosts (C25, C31, C32, C34, C35). The AuthN
  controller keeps the data claim, reports readiness after a rollout, applies everything and
  publishes an address that is served (C26 to C29, C40), but a deleted Secret blocks a deletion
  (C38). The operator reads its domain and identity back from its surroundings (C24, C33). Theorems
  without a number carry further behaviour of the same components, among them where it surprises.

  \<^bold>\<open>Bounds.\<close> Loops follow the data they visit; only two counts are fixed: four identity reviews
  (\<open>backoffSteps\<close>, the code's own) and lines of at most 64 KiB (\<open>MaxScanTokenSize\<close>, of
  \<open>bufio.Scanner\<close>). There is no fuel.

  \<^bold>\<open>Representation.\<close> String maps are finite maps, nil and empty slices and maps are one; values of
  Kubernetes types the code only copies are opaque strings; in a call, an object that the code builds
  and hands to the API server is named by its builder and arguments (\<open>built\<close>), its content is what
  that builder's definition gives. A map is visited in the order of its keys where the code's
  order is undefined, with a theorem that the order does not matter (\<open>sans_exact\<close>). Amounts of
  resources are in nano-units; \<open>aiscos.MiB\<close> of the AIStore library is \<open>2^20\<close>. The replicas of a
  StatefulSet are always there, as the API server defaults them. The conditions of a CR are a finite
  map from their type. Error texts are abbreviated, log output is left out, and the result of a
  reconcile that fails is its error. The clock of the services is read by a call. URLs, JSON,
  durations and certificates are parsed by parameters. \<open>AuthnConfig.Validate\<close> of the AIStore
  library may fill in defaults, so it is a function to the valid configuration.

  \<^bold>\<open>Not modelled.\<close> The main program and the wiring of the manager (predicates, watches, registration
  of webhooks), which only call controller-runtime; generated deep copies, which are the identity on
  values here, aliases and mocks; lookups of clients from several goroutines at once; waiting times
  between retries.
\<close>

section \<open>The life of a cluster\<close>

text \<open>Every call of a reconcile follows the protocol of the lifecycle.\<close>

lemma reconcile_calls:
  assumes "status_subresource E"
  shows "\<exists>new. hist (snd (Reconcile req E s)) = new @ hist s \<and>
     (\<forall>later e earlier. new = later @ e # earlier \<longrightarrow> life_ok e (earlier @ hist s))"
proof -
  obtain new where "hist (snd (Reconcile req E s)) = new @ hist s" "allowed life_ok new (hist s)"
    by (rule reconcile_protocol [OF assms surjective_pairing])
  then show ?thesis by (auto simp: allowed_split)
qed

lemma life_okD:
  "life_ok e h \<Longrightarrow> class_of e \<in> guarded_classes \<Longrightarrow> \<exists>k. known h = Some k \<and> event_ok k e"
  unfolding life_ok_def by (rule mp)

lemma guarded_actions:
  "x \<in> {DecommissionClusterAPI b, ShutdownClusterAPI, DecommissionNode d b, StartMaintenance d b} \<Longrightarrow>
     action_class x \<in> guarded_classes"
  by (auto simp: guarded_classes_def)

lemmas evaluate_reconcile = Reconcile_def reconcile_prepare_def reconcile_state_def sample_defs run_simps
  HasState_def ShouldDecommission_def IsDecommissioningOrCleaning_def ShouldStartShutdown_def
  ShouldBeShutdown_def IsTargetAutoScaling_def IsProxyAutoScaling_def

lemmas evaluate_cleanup = cleanupClusterRes_def ContainsFinalizer_def aisFinalizer_def or_record_def
  cleanup_def cleanupTarget_def cleanupProxy_def cleanupTargetSS_def cleanupAdminClient_def
  cleanupStatsD_def cleanupRBAC_def cleanupPVC_def cleanupTLS_def AnyFunc_def
  DeleteResourceIfExists_def allowObjNotFound_def DeleteAllServicesIfExist_def DeletePVCs_def
  deleteAllPVCs_def deleteAllPVCsIfExist_def listServices_def listPVCs_def ShouldCleanupMetadata_def
  UsesStateHostPath_def StateStorageHostPathPrefix_def cleanupHostStateMounts_def
  ListNodesMatchingAISSelectors_def listNodes_def updateStatusWithState_def patchStatus_def

lemma evaluate_host_cleanup:
  "called (Reconcile s_name) (gone_env (in_state HostCleanup)) (s_start s_ais) =
     [PatchedStatus (in_state ClusterFinalized) (Inr (in_state ClusterFinalized)),
      GotJobs ''ns'' (Inr []), GotAIS s_name (Inr (in_state HostCleanup))]"
  by (simp add: evaluate_reconcile cleanupHost_def listCleanupJobs_def listJobs_def
      updateStatusWithState_def patchStatus_def or_record_def)

text \<open>
  C1. With the status of the CR as a subresource, every status patch that a reconcile makes, in
  whatever environment, is a step of the lifecycle from the CR as the operator last saw it.
\<close>

theorem reconcile_follows_lifecycle:
  assumes "status_subresource E"
  shows "\<exists>new. hist (snd (Reconcile req E s)) = new @ hist s \<and>
     (\<forall>later a r earlier. new = later @ PatchedStatus a r # earlier \<longrightarrow>
        (\<exists>k. known (earlier @ hist s) = Some k \<and> lifecycle_step k (phase a)))"
proof -
  from reconcile_calls [OF assms] obtain new where new: "hist (snd (Reconcile req E s)) = new @ hist s"
    "\<forall>later e earlier. new = later @ e # earlier \<longrightarrow> life_ok e (earlier @ hist s)" by blast
  have "\<exists>k. known (earlier @ hist s) = Some k \<and> lifecycle_step k (phase a)"
    if "new = later @ PatchedStatus a r # earlier" for later a r earlier
    using life_okD [OF new(2) [rule_format, OF that]] by (auto simp: guarded_classes_def)
  with new(1) show ?thesis by blast
qed

theorem reconcile_follows_lifecycle_witness:
  "PatchedStatus (in_state ClusterFinalized) (Inr (in_state ClusterFinalized))
      \<in> set (called (Reconcile s_name) (gone_env (in_state HostCleanup)) (s_start s_ais)) \<and>
   (\<exists>new. called (Reconcile s_name) (gone_env (in_state HostCleanup)) (s_start s_ais) = new @ hist (s_start s_ais) \<and>
     (\<forall>later a r earlier. new = later @ PatchedStatus a r # earlier \<longrightarrow>
        (\<exists>k. known (earlier @ hist (s_start s_ais)) = Some k \<and> lifecycle_step k (phase a))))"
  by (rule conjI [OF _ reconcile_follows_lifecycle [OF s_env_documented(2)]]) (simp add: evaluate_host_cleanup)

text \<open>
  C2. A reconcile deletes StatefulSets and RBAC objects only in the state Cleanup, claims only
  there and only when the CR asks for its metadata to be removed, clean-up jobs only in
  HostCleanup, and pods only of a cluster that runs.
\<close>

theorem deletes_follow_state:
  assumes "status_subresource E"
  shows "\<exists>new. hist (snd (Reconcile req E s)) = new @ hist s \<and>
     (\<forall>later kd n r earlier. new = later @ Did (Delete kd n) r # earlier \<longrightarrow>
        kd \<in> {KStatefulSet, KRole, KRoleBinding, KServiceAccount, KPVC, KPod, KJob} \<longrightarrow>
        (\<exists>k. known (earlier @ hist s) = Some k \<and>
          (kd \<in> {KStatefulSet, KRole, KRoleBinding, KServiceAccount} \<longrightarrow> phase k = ClusterCleanup) \<and>
          (kd = KPVC \<longrightarrow> phase k = ClusterCleanup \<and> ShouldCleanupMetadata k) \<and>
          (kd = KPod \<longrightarrow> phase k \<in> running_states) \<and>
          (kd = KJob \<longrightarrow> phase k = HostCleanup)))"
proof -
  from reconcile_calls [OF assms] obtain new where new: "hist (snd (Reconcile req E s)) = new @ hist s"
    "\<forall>later e earlier. new = later @ e # earlier \<longrightarrow> life_ok e (earlier @ hist s)" by blast
  have "\<exists>k. known (earlier @ hist s) = Some k \<and> delete_ok k kd"
    if "new = later @ Did (Delete kd n) r # earlier"
      "kd \<in> {KStatefulSet, KRole, KRoleBinding, KServiceAccount, KPVC, KPod, KJob}" for later kd n r earlier
    using life_okD [OF new(2) [rule_format, OF that(1)]] that(2) by (auto simp: guarded_classes_def)
  with new(1) show ?thesis unfolding delete_ok_def by blast
qed

theorem deletes_follow_state_witness:
  "map class_of (called (Reconcile s_name) (gone_env (in_state ClusterCleanup)) (s_start s_ais)) =
     [CPatchStatus, CPatchStatus, CRead, CRead, CDelete KCertificate, CRead, CRead, CDelete KServiceAccount,
      CDelete KRole, CDelete KRoleBinding, CDelete KConfigMap, CDelete KDeployment, CDelete KConfigMap,
      CDelete KService, CDelete KService, CDelete KStatefulSet, CDelete KConfigMap, CRead, CDelete KService,
      CDelete KStatefulSet, CDelete KPDB, CReadCR] \<and>
   (\<exists>new. called (Reconcile s_name) (gone_env (in_state ClusterCleanup)) (s_start s_ais) = new @ hist (s_start s_ais) \<and>
     (\<forall>later kd n r earlier. new = later @ Did (Delete kd n) r # earlier \<longrightarrow>
        kd \<in> {KStatefulSet, KRole, KRoleBinding, KServiceAccount, KPVC, KPod, KJob} \<longrightarrow>
        (\<exists>k. known (earlier @ hist (s_start s_ais)) = Some k \<and>
          (kd \<in> {KStatefulSet, KRole, KRoleBinding, KServiceAccount} \<longrightarrow> phase k = ClusterCleanup) \<and>
          (kd = KPVC \<longrightarrow> phase k = ClusterCleanup \<and> ShouldCleanupMetadata k) \<and>
          (kd = KPod \<longrightarrow> phase k \<in> running_states) \<and>
          (kd = KJob \<longrightarrow> phase k = HostCleanup))))"
  by (rule conjI [OF _ deletes_follow_state [OF s_env_documented(2)]])
     (simp add: evaluate_reconcile evaluate_cleanup)

text \<open>
  C3. The REST calls that end an AIStore cluster are made only in the state Decommissioning:
  the decommissioning one when the CR asks for its metadata to be removed, removing user data
  exactly when the CR asks for that too, and the shutdown one otherwise. No scale-down call
  reaches a cluster that is being torn down.
\<close>

theorem teardown_calls_follow_spec:
  assumes "status_subresource E"
  shows "\<exists>new. hist (snd (Reconcile req E s)) = new @ hist s \<and>
     (\<forall>later x r earlier. new = later @ Did x r # earlier \<longrightarrow>
        (\<forall>rm. x = DecommissionClusterAPI rm \<longrightarrow> (\<exists>k. known (earlier @ hist s) = Some k \<and>
           phase k = ClusterDecommissioning \<and> ShouldCleanupMetadata k \<and> rm = (CleanupData (Spec k) = Some True))) \<and>
        (x = ShutdownClusterAPI \<longrightarrow> (\<exists>k. known (earlier @ hist s) = Some k \<and>
           phase k = ClusterDecommissioning \<and> \<not> ShouldCleanupMetadata k)) \<and>
        (\<forall>d b. x \<in> {DecommissionNode d b, StartMaintenance d b} \<longrightarrow>
           (\<exists>k. known (earlier @ hist s) = Some k \<and> phase k \<in> running_states)))"
proof -
  from reconcile_calls [OF assms] obtain new where new: "hist (snd (Reconcile req E s)) = new @ hist s"
    "\<forall>later e earlier. new = later @ e # earlier \<longrightarrow> life_ok e (earlier @ hist s)" by blast
  have "\<exists>k. known (earlier @ hist s) = Some k \<and> action_ok k x"
    if "new = later @ Did x r # earlier" "action_class x \<in> guarded_classes" for later x r earlier
    using life_okD [OF new(2) [rule_format, OF that(1)]] that(2) by auto
  note ok = this [OF _ guarded_actions]
  have "\<exists>k. known (earlier @ hist s) = Some k \<and> phase k = ClusterDecommissioning \<and>
      ShouldCleanupMetadata k \<and> rm = (CleanupData (Spec k) = Some True)"
    if "new = later @ Did (DecommissionClusterAPI rm) r # earlier" for later rm r earlier
    using ok [OF that] by simp
  moreover have "\<exists>k. known (earlier @ hist s) = Some k \<and> phase k = ClusterDecommissioning \<and> \<not> ShouldCleanupMetadata k"
    if "new = later @ Did ShutdownClusterAPI r # earlier" for later r earlier
    using ok [OF that] by simp
  moreover have "\<exists>k. known (earlier @ hist s) = Some k \<and> phase k \<in> running_states"
    if "new = later @ Did x r # earlier" "x \<in> {DecommissionNode d b, StartMaintenance d b}" for later x d b r earlier
    using ok [OF that(1)] that(2) by auto
  ultimately show ?thesis using new(1) by blast
qed

theorem teardown_calls_follow_spec_witness:
  "Did (DecommissionClusterAPI True) None
      \<in> set (called (Reconcile s_name) (s_env (in_state ClusterDecommissioning)) (s_start s_ais)) \<and>
   (\<exists>new. called (Reconcile s_name) (s_env (in_state ClusterDecommissioning)) (s_start s_ais) = new @ hist (s_start s_ais) \<and>
     (\<forall>later x r earlier. new = later @ Did x r # earlier \<longrightarrow>
        (\<forall>rm. x = DecommissionClusterAPI rm \<longrightarrow> (\<exists>k. known (earlier @ hist (s_start s_ais)) = Some k \<and>
           phase k = ClusterDecommissioning \<and> ShouldCleanupMetadata k \<and> rm = (CleanupData (Spec k) = Some True))) \<and>
        (x = ShutdownClusterAPI \<longrightarrow> (\<exists>k. known (earlier @ hist (s_start s_ais)) = Some k \<and>
           phase k = ClusterDecommissioning \<and> \<not> ShouldCleanupMetadata k)) \<and>
        (\<forall>d b. x \<in> {DecommissionNode d b, StartMaintenance d b} \<longrightarrow>
           (\<exists>k. known (earlier @ hist (s_start s_ais)) = Some k \<and> phase k \<in> running_states))))"
  by (rule conjI [OF _ teardown_calls_follow_spec [OF s_env_documented(1)]])
     (simp add: evaluate_reconcile decommissionCluster_def isClusterRunning_def ssHasReadyReplicas_def
        getSS_def s_ss_def decommissionAIS_def ShouldCleanupMetadata_def attemptGracefulDecommission_def Let_def)

text \<open>
  C4. A reconcile takes the finalizer off the CR only in the state Finalized, and a patch of the
  CR never changes its state.
\<close>

theorem finalizer_goes_last:
  assumes "status_subresource E"
  shows "\<exists>new. hist (snd (Reconcile req E s)) = new @ hist s \<and>
     (\<forall>later orig a r earlier. new = later @ PatchedAIS orig a r # earlier \<longrightarrow>
        (\<exists>k. known (earlier @ hist s) = Some k \<and> phase a = phase k \<and>
           (aisFinalizer \<in> set (Finalizers orig) \<and> aisFinalizer \<notin> set (Finalizers a) \<longrightarrow>
              phase k = ClusterFinalized)))"
proof -
  from reconcile_calls [OF assms] obtain new where new: "hist (snd (Reconcile req E s)) = new @ hist s"
    "\<forall>later e earlier. new = later @ e # earlier \<longrightarrow> life_ok e (earlier @ hist s)" by blast
  have "\<exists>k. known (earlier @ hist s) = Some k \<and> event_ok k (PatchedAIS orig a r)"
    if "new = later @ PatchedAIS orig a r # earlier" for later orig a r earlier
    by (rule life_okD [OF new(2) [rule_format, OF that]]) (simp add: guarded_classes_def)
  with new(1) show ?thesis by (intro exI [of _ new]) fastforce
qed

theorem finalizer_goes_last_witness:
  "PatchedAIS (in_state ClusterFinalized) ((in_state ClusterFinalized)\<lparr>Finalizers := []\<rparr>)
        (Inr ((in_state ClusterFinalized)\<lparr>Finalizers := []\<rparr>))
      \<in> set (called (Reconcile s_name) (gone_env (in_state ClusterFinalized)) (s_start s_ais)) \<and>
   (\<exists>new. called (Reconcile s_name) (gone_env (in_state ClusterFinalized)) (s_start s_ais) = new @ hist (s_start s_ais) \<and>
     (\<forall>later orig a r earlier. new = later @ PatchedAIS orig a r # earlier \<longrightarrow>
        (\<exists>k. known (earlier @ hist (s_start s_ais)) = Some k \<and> phase a = phase k \<and>
           (aisFinalizer \<in> set (Finalizers orig) \<and> aisFinalizer \<notin> set (Finalizers a) \<longrightarrow>
              phase k = ClusterFinalized))))"
  by (rule conjI [OF _ finalizer_goes_last [OF s_env_documented(2)]])
     (simp add: evaluate_reconcile finalize_def ContainsFinalizer_def aisFinalizer_def or_record_def
        PatchCRIfExists_def patchCR_def)

text \<open>
  C5. A teardown never goes back. The status is written by the operator alone; a read of the CR may
  fail, find nothing or answer from a cache that lags behind, a patch may be rejected, and the user
  may edit the rest of the CR: when no read can answer a state before \<open>p\<close> any more, a teardown state,
  then in any number of reconciles no status patch sends a state before \<open>p\<close>, and the API server
  stores none. (After a read that lags the operator may store a state that comes before the newest
  one, since it patches without a resource version; that state is not before \<open>p\<close>.)
\<close>

theorem teardown_never_reverts:
  assumes "status_subresource E" and "cached_reads vs E"
    and "reached p vs (hist s)" and "ClusterDecommissioning \<le> p"
  shows "\<exists>new. hist ((next_reconcile req E ^^ n) s) = new @ hist s \<and> list_all (forward p) new \<and>
     reached p vs (new @ hist s)"
  by (rule reconciles_forward [OF assms])

text \<open>
  A server whose cache lags: a read answers the oldest state it still may, with a spec the user has
  changed, or now and then finds nothing, and the first status patches are rejected.
\<close>

definition edited :: "ClusterState \<Rightarrow> AIStore" where
  "edited t = (in_state t)\<lparr>Spec := s_spec\<lparr>CleanupMetadata := Some False\<rparr>\<rparr>"

definition lagging_env :: env where
  "lagging_env = (gone_env s_ais)\<lparr>
     ans_ais := \<lambda>h n. case visible [HostCleanup] h of [] \<Rightarrow> Inl NotFound
       | q # qs \<Rightarrow> if length h mod 5 = 2 then Inl NotFound else Inr (edited (last (q # qs))),
     ans_patch_status := \<lambda>h a. if length h < 4 then Inl (OtherErr ''conflict'') else Inr a\<rparr>"

lemma lagging_env_documented: "status_subresource lagging_env" "cached_reads [HostCleanup] lagging_env"
proof -
  show "status_subresource lagging_env"
    by (simp add: status_subresource_def lagging_env_def gone_env_def s_env_def)
  have "phase (edited t) = t" for t by (simp add: edited_def in_state_def)
  then show "cached_reads [HostCleanup] lagging_env"
    by (auto simp: cached_reads_def lagging_env_def split: list.splits if_splits)
qed

theorem teardown_never_reverts_witness:
  "PatchedStatus (edited ClusterFinalized) (Inl (OtherErr ''conflict''))
      \<in> set (hist (next_reconcile s_name lagging_env (s_start s_ais))) \<and>
   (\<exists>new. hist ((next_reconcile s_name lagging_env ^^ 7) (s_start s_ais)) = new @ hist (s_start s_ais) \<and>
     list_all (forward HostCleanup) new \<and> reached HostCleanup [HostCleanup] (new @ hist (s_start s_ais)))"
proof (rule conjI [OF _ teardown_never_reverts [OF lagging_env_documented]])
  show "PatchedStatus (edited ClusterFinalized) (Inl (OtherErr ''conflict''))
      \<in> set (hist (next_reconcile s_name lagging_env (s_start s_ais)))"
    by (simp add: next_reconcile_def evaluate_reconcile lagging_env_def edited_def cleanupHost_def
        listCleanupJobs_def listJobs_def updateStatusWithState_def run_patchStatus or_record_def)
qed (simp_all add: reached_def s_start_def less_eq_ClusterState_def)

text \<open>
  C6. A teardown completes: with an API server that is up and stores the CR, and with nothing left of
  the cluster, four reconciles lead from Decommissioning to Finalized with the finalizer removed,
  whether the cluster scales automatically or not.
\<close>

theorem teardown_completes:
  assumes "stores_cr E" and "empty_cluster E" and "stored (hist s) = Some k" and "tearing_down k"
    and "phase k = ClusterDecommissioning"
  shows "\<exists>k'. stored (hist ((next_reconcile req E ^^ 4) s)) = Some k' \<and>
     phase k' = ClusterFinalized \<and> aisFinalizer \<notin> set (Finalizers k')"
  by (rule teardown_four_steps [OF assms])

definition autoscaled :: "ClusterState \<Rightarrow> AIStore" where
  "autoscaled t = (in_state t)\<lparr>Spec := s_spec\<lparr>Size := Some (-1)\<rparr>\<rparr>"

theorem teardown_completes_witness:
  "IsTargetAutoScaling (autoscaled ClusterDecommissioning) \<and>
   (\<exists>k'. stored (hist ((next_reconcile s_name (gone_env s_ais) ^^ 4)
       \<lparr>cr = s_ais, hist = [GotAIS s_name (Inr (autoscaled ClusterDecommissioning))]\<rparr>)) = Some k' \<and>
     phase k' = ClusterFinalized \<and> aisFinalizer \<notin> set (Finalizers k'))"
proof (rule conjI [OF _ teardown_completes [OF s_env_documented(3,4)]])
  show "IsTargetAutoScaling (autoscaled ClusterDecommissioning)"
    by (simp add: IsTargetAutoScaling_def autoscaled_def)
  show "stored (hist \<lparr>cr = s_ais, hist = [GotAIS s_name (Inr (autoscaled ClusterDecommissioning))]\<rparr>) =
      Some (autoscaled ClusterDecommissioning)" by simp
qed (simp_all add: autoscaled_def in_state_def tearing_down_def less_eq_ClusterState_def s_ais_def aisFinalizer_def)

section \<open>Shutting down\<close>

text \<open>
  C7. A shutdown empties the proxies first: it patches nothing but replicas, to 0, touches the
  targets only after the proxy StatefulSet was seen at size 0, and reports Shutdown only after
  both were.
\<close>

theorem shutdown_in_order:
  "\<exists>new. hist (snd (shutdownCluster E s)) = new @ hist s \<and>
     (\<forall>later e earlier. new = later @ e # earlier \<longrightarrow> class_of e \<in> {CPatchSS, CPatchStatus} \<longrightarrow>
        shutdown_ok (cr s) e earlier)"
proof -
  have "runs E (guard {CPatchSS, CPatchStatus} (shutdown_ok (cr s)) (hist s))
      (having (cr s) (hist s) (\<lambda>_. True)) shutdownCluster (\<lambda>_ _. True)"
    by (rule runs_shutdown_guarded)
  from guarded_calls [OF this surjective_pairing] show ?thesis .
qed

theorem shutdown_in_order_witness:
  "map class_of (called shutdownCluster ((s_env s_ais)\<lparr>ans_ss := \<lambda>h d nm. Inr ((s_ss nm 3)\<lparr>st_Replicas := 0\<rparr>)\<rparr>) (s_start s_ais)) =
     [CEvent, CPatchStatus, CRead, CPatchSS, CRead, CRead, CPatchSS, CRead] \<and>
   (\<exists>new. called shutdownCluster ((s_env s_ais)\<lparr>ans_ss := \<lambda>h d nm. Inr ((s_ss nm 3)\<lparr>st_Replicas := 0\<rparr>)\<rparr>) (s_start s_ais) =
        new @ hist (s_start s_ais) \<and>
     (\<forall>later e earlier. new = later @ e # earlier \<longrightarrow> class_of e \<in> {CPatchSS, CPatchStatus} \<longrightarrow>
        shutdown_ok (cr (s_start s_ais)) e earlier))"
  by (rule conjI [OF _ shutdown_in_order])
     (simp add: sample_defs run_simps shutdownCluster_def UpdateStatefulSetReplicas_def getSS_def
        IsStatefulSetSize_def s_ss_def updateStatusWithState_def patchStatus_def or_record_def)

text \<open>
  C8. A cluster that is shut down stays so, as long as its CR asks for it and is not deleted. Without
  autoscaling a reconcile reads the CR and does nothing else. With autoscaling it also lists nodes
  and pods; when nobody edits the CR meanwhile, all it may change is what the status says of the
  expected nodes, and the CR stays as it is in state, spec and deletion mark, even when these
  calls fail.
\<close>

theorem shutdown_is_stable:
  assumes "ans_ais E (hist s) req = Inr a" and "phase a = ClusterShutdown" and "ShouldBeShutdown a"
    and "\<not> Deleted a"
  shows "(\<not> IsTargetAutoScaling a \<and> \<not> IsProxyAutoScaling a \<longrightarrow>
        Reconcile req E s = (Ret done_result, \<lparr>cr = a, hist = GotAIS req (Inr a) # hist s\<rparr>)) \<and>
     (unedited E \<longrightarrow> (\<exists>new. hist (snd (Reconcile req E s)) = new @ GotAIS req (Inr a) # hist s \<and>
        list_all (idle_call a) new \<and> agree a (cr (snd (Reconcile req E s)))))"
proof
  show "\<not> IsTargetAutoScaling a \<and> \<not> IsProxyAutoScaling a \<longrightarrow>
      Reconcile req E s = (Ret done_result, \<lparr>cr = a, hist = GotAIS req (Inr a) # hist s\<rparr>)"
    using assms
    by (simp add: Reconcile_def reconcile_prepare_def reconcile_state_def run_simps HasState_def
        ShouldDecommission_def IsMarkedForDeletion_def ShouldStartShutdown_def)
qed (use Reconcile_shut_down [OF assms] in blast)

definition shut_down_cr :: AIStore where
  "shut_down_cr = (in_state ClusterShutdown)\<lparr>Spec := s_spec\<lparr>ShutdownCluster := Some True\<rparr>\<rparr>"

definition autoscaled_shut_down :: AIStore where
  "autoscaled_shut_down = (in_state ClusterShutdown)\<lparr>Spec := s_spec\<lparr>ShutdownCluster := Some True, Size := Some (-1)\<rparr>\<rparr>"

theorem shutdown_is_stable_witness:
  "Reconcile s_name (s_env shut_down_cr) (s_start s_ais) =
     (Ret done_result, \<lparr>cr = shut_down_cr, hist = [GotAIS s_name (Inr shut_down_cr)]\<rparr>) \<and>
   (\<exists>new. hist (snd (Reconcile s_name (s_env autoscaled_shut_down) (s_start s_ais))) =
        new @ [GotAIS s_name (Inr autoscaled_shut_down)] \<and> list_all (idle_call autoscaled_shut_down) new \<and>
      agree autoscaled_shut_down (cr (snd (Reconcile s_name (s_env autoscaled_shut_down) (s_start s_ais)))))"
proof
  show "Reconcile s_name (s_env shut_down_cr) (s_start s_ais) =
     (Ret done_result, \<lparr>cr = shut_down_cr, hist = [GotAIS s_name (Inr shut_down_cr)]\<rparr>)"
    using shutdown_is_stable [of "s_env shut_down_cr" "s_start s_ais" s_name shut_down_cr]
    by (simp add: sample_defs shut_down_cr_def ShouldBeShutdown_def IsTargetAutoScaling_def IsProxyAutoScaling_def)
  have "ans_ais (s_env autoscaled_shut_down) (hist (s_start s_ais)) s_name = Inr autoscaled_shut_down"
    "phase autoscaled_shut_down = ClusterShutdown" "ShouldBeShutdown autoscaled_shut_down"
    "\<not> Deleted autoscaled_shut_down"
    by (simp_all add: sample_defs autoscaled_shut_down_def ShouldBeShutdown_def)
  from shutdown_is_stable [OF this] s_env_documented(5)
  show "\<exists>new. hist (snd (Reconcile s_name (s_env autoscaled_shut_down) (s_start s_ais))) =
        new @ [GotAIS s_name (Inr autoscaled_shut_down)] \<and> list_all (idle_call autoscaled_shut_down) new \<and>
      agree autoscaled_shut_down (cr (snd (Reconcile s_name (s_env autoscaled_shut_down) (s_start s_ais))))"
    by (simp add: s_start_def)
qed

end
